(* ===== verification/Prelude.thy ===== *)
theory Prelude
  imports Main "HOL-Library.State_Monad"
begin

text \<open>
  Shared ground of the development: the shape of effectful Go code and the lemmas that let
  proofs walk through it.

  A Go function that talks to the outside world is modelled in the library's state monad,
  \<open>('w, err + 'a) state\<close>: it takes the world \<open>'w\<close>, returns \<open>Inl\<close> the error or \<open>Inr\<close> the value,
  and the world it leaves behind.  \<open>x, err := f(); if err != nil { ... }\<close> becomes
  \<open>do { r \<leftarrow> f; case r of Inl e \<Rightarrow> ... | Inr x \<Rightarrow> ... }\<close>, so every early return of the source is a branch.

  \<open>wp m Q w\<close> says that the run of \<open>m\<close> from \<open>w\<close> ends in a result and world satisfying \<open>Q\<close>;
  its rules are collected in \<open>wp_rules\<close> and turn a statement about a whole handler into
  statements about the calls it makes.
\<close>

named_theorems wp_rules \<open>rules that push a postcondition through monadic code\<close>

definition wp :: "('w, 'a) state \<Rightarrow> ('a \<Rightarrow> 'w \<Rightarrow> bool) \<Rightarrow> 'w \<Rightarrow> bool" where
  "wp m Q w = (case run_state m w of (r, w') \<Rightarrow> Q r w')"

text \<open>The rules leave the state argument out, so that they apply under binders as well.\<close>

lemma wp_return [wp_rules]: "wp (State_Monad.return x) Q = (\<lambda>w. Q x w)"
  by (simp add: wp_def fun_eq_iff)

lemma wp_bind [wp_rules]: "wp (State_Monad.bind m f) Q = (\<lambda>w. wp m (\<lambda>x. wp (f x) Q) w)"
  by (simp add: wp_def fun_eq_iff split: prod.splits)

lemma wp_get [wp_rules]: "wp State_Monad.get Q = (\<lambda>w. Q w w)"
  by (simp add: wp_def fun_eq_iff)

lemma wp_set [wp_rules]: "wp (State_Monad.set v) Q = (\<lambda>w. Q () v)"
  by (simp add: wp_def fun_eq_iff)

lemma wp_if [wp_rules]: "wp (if b then m else n) Q = (\<lambda>w. if b then wp m Q w else wp n Q w)"
  by simp

lemma wp_case_sum [wp_rules]:
  "wp (case r of Inl e \<Rightarrow> f e | Inr x \<Rightarrow> g x) Q =
   (\<lambda>w. case r of Inl e \<Rightarrow> wp (f e) Q w | Inr x \<Rightarrow> wp (g x) Q w)"
  by (cases r) simp_all

lemma wp_case_option [wp_rules]:
  "wp (case r of None \<Rightarrow> f | Some x \<Rightarrow> g x) Q =
   (\<lambda>w. case r of None \<Rightarrow> wp f Q w | Some x \<Rightarrow> wp (g x) Q w)"
  by (cases r) simp_all

lemma wp_case_prod [wp_rules]:
  "wp (case p of (x, y) \<Rightarrow> f x y) Q = (\<lambda>w. case p of (x, y) \<Rightarrow> wp (f x y) Q w)"
  by (cases p) simp

lemma wp_Let [wp_rules]: "wp (let x = t in f x) Q = (\<lambda>w. let x = t in wp (f x) Q w)"
  by simp

lemma wp_iff: "wp m Q w \<longleftrightarrow> (\<forall>r w'. run_state m w = (r, w') \<longrightarrow> Q r w')"
  by (simp add: wp_def split: prod.splits)

lemma wpI: "(\<And>r w'. run_state m w = (r, w') \<Longrightarrow> Q r w') \<Longrightarrow> wp m Q w"
  by (simp add: wp_iff)

lemma wpD: "wp m Q w \<Longrightarrow> run_state m w = (r, w') \<Longrightarrow> Q r w'"
  by (simp add: wp_iff)

lemma wp_mono: "wp m P w \<Longrightarrow> (\<And>r w'. P r w' \<Longrightarrow> Q r w') \<Longrightarrow> wp m Q w"
  by (simp add: wp_iff)

lemma wp_conj: "wp m P w \<Longrightarrow> wp m Q w \<Longrightarrow> wp m (\<lambda>r w'. P r w' \<and> Q r w') w"
  by (simp add: wp_iff)

lemma wp_True [simp]: "wp m (\<lambda>_ _. True) w"
  by (simp add: wp_iff)

lemma wp_fst_snd: "wp m Q w = Q (fst (run_state m w)) (snd (run_state m w))"
  by (simp add: wp_def split: prod.splits)

text \<open>
  \<open>preserves m I\<close>: whatever \<open>m\<close> returns, it keeps the state predicate \<open>I\<close>.
\<close>

definition preserves :: "('w, 'a) state \<Rightarrow> ('w \<Rightarrow> bool) \<Rightarrow> bool" where
  "preserves m I \<longleftrightarrow> (\<forall>w. I w \<longrightarrow> wp m (\<lambda>_. I) w)"

named_theorems preserves_rules \<open>syntax-directed rules for preserves\<close>

lemma preserves_return [preserves_rules]: "preserves (State_Monad.return x) I"
  by (simp add: preserves_def wp_rules)

lemma preserves_bind [preserves_rules]:
  "preserves m I \<Longrightarrow> (\<And>x. preserves (f x) I) \<Longrightarrow> preserves (State_Monad.bind m f) I"
  unfolding preserves_def wp_bind by (blast intro: wp_mono)

lemma preserves_case_sum [preserves_rules]:
  "(\<And>e. preserves (f e) I) \<Longrightarrow> (\<And>x. preserves (g x) I) \<Longrightarrow>
   preserves (case r of Inl e \<Rightarrow> f e | Inr x \<Rightarrow> g x) I"
  by (cases r) simp_all

lemma preserves_if [preserves_rules]:
  "preserves m I \<Longrightarrow> preserves n I \<Longrightarrow> preserves (if b then m else n) I"
  by simp

lemma preserves_case_option [preserves_rules]:
  "preserves f I \<Longrightarrow> (\<And>x. preserves (g x) I) \<Longrightarrow>
   preserves (case r of None \<Rightarrow> f | Some x \<Rightarrow> g x) I"
  by (cases r) simp_all

lemma preserves_runD: "preserves m I \<Longrightarrow> run_state m w = (r, w') \<Longrightarrow> I w \<Longrightarrow> I w'"
  by (auto simp: preserves_def dest: wpD)

text \<open>\<open>leaves m f\<close>: \<open>m\<close> does not touch the part \<open>f\<close> of the world.\<close>

definition leaves :: "('w, 'a) state \<Rightarrow> ('w \<Rightarrow> 'b) \<Rightarrow> bool" where
  "leaves m f \<longleftrightarrow> (\<forall>w. wp m (\<lambda>_ w'. f w' = f w) w)"

lemma leavesD: "leaves m f \<Longrightarrow> wp m (\<lambda>_ w'. f w' = f w) w"
  by (simp add: leaves_def)

named_theorems leaves_rules \<open>syntax-directed rules for leaves\<close>

lemma leaves_return [simp, leaves_rules]: "leaves (State_Monad.return x) f"
  by (simp add: leaves_def wp_rules)

lemma leaves_get [leaves_rules]: "leaves State_Monad.get f"
  by (simp add: leaves_def wp_rules)

lemma leaves_bind [leaves_rules]:
  "leaves m f \<Longrightarrow> (\<And>x. leaves (g x) f) \<Longrightarrow> leaves (State_Monad.bind m g) f"
  unfolding leaves_def wp_bind by (blast intro: wp_mono [where P = "\<lambda>_ w'. f w' = f _"] dest: sym trans)

lemma leaves_case_sum [leaves_rules]:
  "(\<And>e. leaves (g e) f) \<Longrightarrow> (\<And>x. leaves (h x) f) \<Longrightarrow>
   leaves (case r of Inl e \<Rightarrow> g e | Inr x \<Rightarrow> h x) f"
  by (cases r) simp_all

lemma leaves_case_option [leaves_rules]:
  "leaves g f \<Longrightarrow> (\<And>x. leaves (h x) f) \<Longrightarrow> leaves (case r of None \<Rightarrow> g | Some x \<Rightarrow> h x) f"
  by (cases r) simp_all

lemma leaves_case_prod [leaves_rules]:
  "(\<And>x y. leaves (g x y) f) \<Longrightarrow> leaves (case p of (x, y) \<Rightarrow> g x y) f"
  by (cases p) simp

lemma leaves_if [leaves_rules]: "leaves m f \<Longrightarrow> leaves n f \<Longrightarrow> leaves (if b then m else n) f"
  by simp

lemma leaves_Let [leaves_rules]: "(\<And>x. leaves (g x) f) \<Longrightarrow> leaves (let x = t in g x) f"
  by simp

text \<open>Results of fallible code: a predicate transformer on sums.\<close>

definition on_ok :: "('a \<Rightarrow> bool) \<Rightarrow> 'e + 'a \<Rightarrow> bool" where
  "on_ok P r \<longleftrightarrow> (case r of Inl _ \<Rightarrow> True | Inr x \<Rightarrow> P x)"

lemma on_ok_simps [simp]: "on_ok P (Inl e)" "on_ok P (Inr x) = P x"
  by (simp_all add: on_ok_def)

lemma on_ok_True [simp]: "on_ok (\<lambda>_. True) r"
  by (cases r) simp_all

lemma case_sum_eq_Inr:
  "((case r of Inl e \<Rightarrow> Inl (f e) | Inr x \<Rightarrow> g x) = Inr y) = (\<exists>x. r = Inr x \<and> g x = Inr y)"
  by (cases r) auto

text \<open>Lists and maps.\<close>

lemma takeWhile_all: "list_all P xs \<Longrightarrow> takeWhile P xs = xs"
  by (simp add: list_all_iff)

lemma dropWhile_hd: "xs \<noteq> [] \<Longrightarrow> \<not> P (hd xs) \<Longrightarrow> dropWhile P xs = xs"
  by (cases xs) auto

lemma dropWhile_idem: "dropWhile P (dropWhile P xs) = dropWhile P xs"
  by (induction xs) auto

lemma restrict_map_upd_other: "k \<notin> A \<Longrightarrow> (m(k := v)) |` A = m |` A"
  by (auto simp: restrict_map_def)

end
