(* ===== verification/GoText.thy ===== *)
theory GoText
  imports Prelude
begin

text \<open>
  The parts of Go's \<open>strings\<close>, \<open>unicode/utf8\<close>, \<open>strconv\<close> and \<open>encoding/base64\<close> the program
  uses.  A Go string or byte slice is a list of bytes, which is what \<open>char list\<close> is; runes are
  code points of type \<open>nat\<close>.  The Unicode character tables are data of the Go distribution, so
  they are an argument, of record type \<open>unicode\<close>; \<open>unicode_laws\<close> states what their documentation
  says of the ASCII range.
\<close>

type_synonym rune = nat

abbreviation byte :: "char \<Rightarrow> nat" where
  "byte \<equiv> of_char"

section \<open>UTF-8\<close>

definition cont :: "nat \<Rightarrow> bool" where
  "cont b \<longleftrightarrow> 128 \<le> b \<and> b < 192"

text \<open>
  \<open>utf8.DecodeRune\<close>: the rune at the front, \<open>None\<close> for an invalid encoding, and its width;
  an invalid byte has width 1.
\<close>

definition second_ok :: "nat \<Rightarrow> nat \<Rightarrow> bool" where
  "second_ok b0 b1 \<longleftrightarrow> cont b1 \<and>
     (b0 = 224 \<longrightarrow> 160 \<le> b1) \<and> (b0 = 237 \<longrightarrow> b1 < 160) \<and>
     (b0 = 240 \<longrightarrow> 144 \<le> b1) \<and> (b0 = 244 \<longrightarrow> b1 < 144)"

fun decode_rune :: "nat list \<Rightarrow> rune option \<times> nat" where
  "decode_rune [] = (None, 1)"
| "decode_rune (b0 # bs) =
     (if b0 < 128 then (Some b0, 1)
      else if 194 \<le> b0 \<and> b0 < 224 then
        (case bs of
           b1 # _ \<Rightarrow> if second_ok b0 b1 then (Some ((b0 - 192) * 64 + (b1 - 128)), 2) else (None, 1)
         | _ \<Rightarrow> (None, 1))
      else if 224 \<le> b0 \<and> b0 < 240 then
        (case bs of
           b1 # b2 # _ \<Rightarrow>
             if second_ok b0 b1 \<and> cont b2
             then (Some ((b0 - 224) * 4096 + (b1 - 128) * 64 + (b2 - 128)), 3) else (None, 1)
         | _ \<Rightarrow> (None, 1))
      else if 240 \<le> b0 \<and> b0 < 245 then
        (case bs of
           b1 # b2 # b3 # _ \<Rightarrow>
             if second_ok b0 b1 \<and> cont b2 \<and> cont b3
             then (Some ((b0 - 240) * 262144 + (b1 - 128) * 4096 + (b2 - 128) * 64 + (b3 - 128)), 4)
             else (None, 1)
         | _ \<Rightarrow> (None, 1))
      else (None, 1))"

lemma decode_rune_width: "1 \<le> snd (decode_rune bs)"
  by (cases bs) (auto split: list.splits)

text \<open>
  A string cut into the pieces \<open>range\<close> iterates over: each piece is the rune it decodes to
  (\<open>None\<close> for an invalid byte) with the bytes it came from.
\<close>

function chunks :: "string \<Rightarrow> (rune option \<times> string) list" where
  "chunks s = (if s = [] then []
     else (fst (decode_rune (map of_char s)), take (snd (decode_rune (map of_char s))) s)
          # chunks (drop (snd (decode_rune (map of_char s))) s))"
  by pat_completeness auto
termination
proof (relation "measure length")
  fix s :: string
  assume "s \<noteq> []"
  then show "(drop (snd (decode_rune (map of_char s))) s, s) \<in> measure length"
    using decode_rune_width [of "map of_char s"] by simp
qed simp

declare chunks.simps [simp del]

lemma chunks_Nil [simp]: "chunks [] = []"
  by (simp add: chunks.simps)

lemma concat_chunks [simp]: "concat (map snd (chunks s)) = s"
proof (induction s rule: chunks.induct)
  case (1 s)
  then show ?case by (cases "s = []") (simp_all add: chunks.simps [of s])
qed

definition rune_of :: "rune option \<times> string \<Rightarrow> rune" where
  "rune_of c = (case fst c of Some r \<Rightarrow> r | None \<Rightarrow> 65533)"

definition runes :: "string \<Rightarrow> rune list" where
  "runes s = map rune_of (chunks s)"

definition valid_utf8 :: "string \<Rightarrow> bool" where
  "valid_utf8 s \<longleftrightarrow> list_all (\<lambda>c. fst c \<noteq> None) (chunks s)"

text \<open>\<open>utf8.AppendRune\<close>: surrogates and values above the last code point become U+FFFD.\<close>

definition scalar :: "rune \<Rightarrow> bool" where
  "scalar r \<longleftrightarrow> r < 55296 \<or> (57344 \<le> r \<and> r < 1114112)"

definition encode_scalar :: "rune \<Rightarrow> string" where
  "encode_scalar r =
     (if r < 128 then [char_of r]
      else if r < 2048 then [char_of (192 + r div 64), char_of (128 + r mod 64)]
      else if r < 65536 then
        [char_of (224 + r div 4096), char_of (128 + r div 64 mod 64), char_of (128 + r mod 64)]
      else [char_of (240 + r div 262144), char_of (128 + r div 4096 mod 64),
            char_of (128 + r div 64 mod 64), char_of (128 + r mod 64)])"

definition encode_rune :: "rune \<Rightarrow> string" where
  "encode_rune r = encode_scalar (if scalar r then r else 65533)"

definition encode_runes :: "rune list \<Rightarrow> string" where
  "encode_runes rs = concat (map encode_rune rs)"

lemma of_char_char_of_small [simp]: "n < 256 \<Longrightarrow> (of_char (char_of n :: char) :: nat) = n"
  by (simp add: of_char_of)

lemma of_char_less [simp]: "(of_char c :: nat) < 256"
  by (metis of_char_mod_256 mod_less_divisor zero_less_numeral)

lemma mod_lt64 [simp]: "128 + n mod 64 < (256::nat)"
  by (rule order_less_trans [of _ "128 + 64"]) simp_all

lemma cont_mod [simp]: "cont (128 + n mod 64)"
  by (simp add: cont_def)

lemma horner3: "a * 4096 + b * 64 + c = (a * 64 + b) * 64 + (c :: nat)"
  by simp

lemma horner4: "a * 262144 + b * 4096 + c * 64 + d = ((a * 64 + b) * 64 + c) * 64 + (d :: nat)"
  by simp

lemma decode_encode_scalar:
  assumes "scalar r"
  shows "decode_rune (map of_char (encode_scalar r @ s)) = (Some r, length (encode_scalar r))"
proof -
  consider "r < 128" | "128 \<le> r" "r < 2048" | "2048 \<le> r" "r < 65536" | "65536 \<le> r"
    by linarith
  then show ?thesis
  proof cases
    case 1
    then show ?thesis by (simp add: encode_scalar_def)
  next
    case 2
    have "2 \<le> r div 64" using 2 by (simp add: less_eq_div_iff_mult_less_eq)
    moreover have "r div 64 < 32" using 2 by (simp add: div_less_iff_less_mult)
    ultimately have "194 \<le> 192 + r div 64" "192 + r div 64 < 224"
      by simp_all
    moreover from this have "second_ok (192 + r div 64) (128 + r mod 64)"
      unfolding second_ok_def by (simp del: add_diff_cancel_left')
    ultimately show ?thesis using 2
      by (simp add: encode_scalar_def)
  next
    case 3
    define q where "q = r div 64"
    have q1: "r div 4096 = q div 64" using div_mult2_eq [of r 64 64] by (simp add: q_def)
    have q2: "32 \<le> q" "q < 1024" "\<not> (864 \<le> q \<and> q < 896)"
      using 3 assms
      by (auto simp: q_def scalar_def less_eq_div_iff_mult_less_eq div_less_iff_less_mult)
    have "q div 64 * 4096 + q mod 64 * 64 + r mod 64 = (q div 64 * 64 + q mod 64) * 64 + r mod 64"
      by (rule horner3)
    also have "\<dots> = r" unfolding div_mult_mod_eq by (simp add: q_def)
    finally have val: "q div 64 * 4096 + q mod 64 * 64 + r mod 64 = r" .
    have "q div 64 < 16" using q2 by (simp add: div_less_iff_less_mult)
    moreover have "q div 64 = 0 \<Longrightarrow> 32 \<le> q mod 64" "q div 64 = 13 \<Longrightarrow> q mod 64 < 32"
      using q2 div_mult_mod_eq [of q 64] mod_less_divisor [of 64 q] by linarith+
    ultimately have "224 + q div 64 < 240" "second_ok (224 + q div 64) (128 + q mod 64)"
      unfolding second_ok_def by simp_all
    then show ?thesis using 3 val
      by (simp add: encode_scalar_def q1 flip: q_def)
  next
    case 4
    define q where "q = r div 64"
    define p where "p = q div 64"
    have q1: "r div 4096 = p" "r div 262144 = p div 64"
      using div_mult2_eq [of r 64 64] div_mult2_eq [of r 4096 64] by (simp_all add: q_def p_def)
    have p2: "16 \<le> p" "p < 272"
      using 4 assms unfolding q1(1) [symmetric]
      by (auto simp: scalar_def less_eq_div_iff_mult_less_eq div_less_iff_less_mult)
    have "p div 64 * 262144 + p mod 64 * 4096 + q mod 64 * 64 + r mod 64 =
        ((p div 64 * 64 + p mod 64) * 64 + q mod 64) * 64 + r mod 64"
      by (rule horner4)
    also have "\<dots> = q * 64 + r mod 64"
      unfolding div_mult_mod_eq by (simp add: p_def)
    also have "\<dots> = r" by (simp add: q_def)
    finally have val: "p div 64 * 262144 + p mod 64 * 4096 + q mod 64 * 64 + r mod 64 = r" .
    have "p div 64 < 5" using p2 by (simp add: div_less_iff_less_mult)
    moreover have "p div 64 = 0 \<Longrightarrow> 16 \<le> p mod 64" "p div 64 = 4 \<Longrightarrow> p mod 64 < 16"
      using p2 div_mult_mod_eq [of p 64] mod_less_divisor [of 64 p] by linarith+
    ultimately have "240 + p div 64 < 245" "second_ok (240 + p div 64) (128 + p mod 64)"
      unfolding second_ok_def by simp_all
    then show ?thesis using 4 val
      by (simp add: encode_scalar_def q1 flip: q_def)
  qed
qed

lemma encode_scalar_not_Nil [simp]: "encode_scalar r \<noteq> []"
  by (simp add: encode_scalar_def)

lemma chunks_encode_scalar:
  "scalar r \<Longrightarrow> chunks (encode_scalar r @ s) = (Some r, encode_scalar r) # chunks s"
  by (subst chunks.simps) (simp add: decode_encode_scalar del: map_append)

lemma scalar_replacement [simp]: "scalar 65533"
  by (simp add: scalar_def)

lemma runes_Nil [simp]: "runes [] = []"
  by (simp add: runes_def)

lemma runes_encode_rune:
  "runes (encode_rune r @ s) = (if scalar r then r else 65533) # runes s"
  by (simp add: runes_def encode_rune_def chunks_encode_scalar rune_of_def)

text \<open>Decoding what was encoded gives the runes back, and never finds an invalid byte.\<close>

lemma runes_encode_runes: "list_all scalar rs \<Longrightarrow> runes (encode_runes rs) = rs"
  by (induction rs) (simp_all add: encode_runes_def runes_encode_rune)

lemma valid_utf8_encode_runes: "valid_utf8 (encode_runes rs)"
  by (induction rs)
     (simp_all add: encode_runes_def encode_rune_def valid_utf8_def chunks_encode_scalar)

text \<open>ASCII strings are their own runes.\<close>

definition ascii :: "string \<Rightarrow> bool" where
  "ascii s \<longleftrightarrow> list_all (\<lambda>c. byte c < 128) s"

lemma ascii_simps [simp]: "ascii []" "ascii (c # s) \<longleftrightarrow> byte c < 128 \<and> ascii s"
  by (simp_all add: ascii_def)

lemma ascii_append [simp]: "ascii (s @ t) \<longleftrightarrow> ascii s \<and> ascii t"
  by (simp add: ascii_def)

lemma chunks_ascii_Cons: "byte c < 128 \<Longrightarrow> chunks (c # s) = (Some (byte c), [c]) # chunks s"
  by (subst chunks.simps) simp

lemma chunks_ascii: "ascii s \<Longrightarrow> chunks s = map (\<lambda>c. (Some (byte c), [c])) s"
  by (induction s) (simp_all add: chunks_ascii_Cons)

lemma runes_ascii: "ascii s \<Longrightarrow> runes s = map of_char s"
  by (simp add: runes_def chunks_ascii rune_of_def)

lemma valid_utf8_ascii: "ascii s \<Longrightarrow> valid_utf8 s"
  by (simp add: valid_utf8_def chunks_ascii list_all_iff)

lemma length_runes_le: "length (runes s) \<le> length s"
proof (induction s rule: chunks.induct)
  case (1 s)
  show ?case
  proof (cases "s = []")
    case False
    then have "length (runes s) = Suc (length (runes (drop (snd (decode_rune (map byte s))) s)))"
      by (simp add: runes_def chunks.simps [of s])
    also have "\<dots> \<le> Suc (length s - 1)"
      using "1.IH" [OF False] decode_rune_width [of "map byte s"] by simp
    finally show ?thesis using False by (cases s) auto
  qed simp
qed

section \<open>Unicode tables\<close>

record unicode =
  uc_lower :: "rune \<Rightarrow> rune"
  uc_space :: "rune \<Rightarrow> bool"
  uc_letter :: "rune \<Rightarrow> bool"
  uc_digit :: "rune \<Rightarrow> bool"

text \<open>What package \<open>unicode\<close> documents for ASCII; a lower-case mapping never yields \<open>A\<close>..\<open>Z\<close>.\<close>

definition unicode_laws :: "unicode \<Rightarrow> bool" where
  "unicode_laws U \<longleftrightarrow>
     (\<forall>r < 128. uc_lower U r = (if 65 \<le> r \<and> r < 91 then r + 32 else r) \<and>
       uc_space U r = (9 \<le> r \<and> r \<le> 13 \<or> r = 32) \<and>
       uc_letter U r = (65 \<le> r \<and> r < 91 \<or> 97 \<le> r \<and> r < 123) \<and>
       uc_digit U r = (48 \<le> r \<and> r < 58))
     \<and> (\<forall>r. \<not> (65 \<le> uc_lower U r \<and> uc_lower U r < 91))"

text \<open>The tables restricted to ASCII, for concrete evaluation.\<close>

definition ascii_unicode :: unicode where
  "ascii_unicode = \<lparr>
     uc_lower = (\<lambda>r. if 65 \<le> r \<and> r < 91 then r + 32 else r),
     uc_space = (\<lambda>r. 9 \<le> r \<and> r \<le> 13 \<or> r = 32),
     uc_letter = (\<lambda>r. 65 \<le> r \<and> r < 91 \<or> 97 \<le> r \<and> r < 123),
     uc_digit = (\<lambda>r. 48 \<le> r \<and> r < 58)\<rparr>"

lemma unicode_laws_ascii [simp]: "unicode_laws ascii_unicode"
  by (simp add: unicode_laws_def ascii_unicode_def)

section \<open>Package strings\<close>

text \<open>\<open>strings.ToLower\<close>, \<open>strings.TrimSpace\<close>.\<close>

definition to_lower :: "unicode \<Rightarrow> string \<Rightarrow> string" where
  "to_lower U s = encode_runes (map (uc_lower U) (runes s))"

definition trim_list :: "('a \<Rightarrow> bool) \<Rightarrow> 'a list \<Rightarrow> 'a list" where
  "trim_list p xs = rev (dropWhile p (rev (dropWhile p xs)))"

definition trim_space :: "unicode \<Rightarrow> string \<Rightarrow> string" where
  "trim_space U s = concat (map snd (trim_list (\<lambda>c. uc_space U (rune_of c)) (chunks s)))"

text \<open>\<open>strings.TrimRight\<close> with an ASCII cutset, \<open>strings.Cut\<close>, \<open>strings.Split\<close>, \<open>strings.CutPrefix\<close>,
  \<open>strings.HasPrefix\<close>; every separator the program uses is one ASCII byte.\<close>

definition trim_right :: "char list \<Rightarrow> string \<Rightarrow> string" where
  "trim_right cs s = rev (dropWhile (\<lambda>c. c \<in> set cs) (rev s))"

fun cut :: "char \<Rightarrow> string \<Rightarrow> (string \<times> string) option" where
  "cut sep [] = None"
| "cut sep (c # s) =
     (if c = sep then Some ([], s)
      else (case cut sep s of None \<Rightarrow> None | Some (a, b) \<Rightarrow> Some (c # a, b)))"

fun split_on :: "char \<Rightarrow> string \<Rightarrow> string list" where
  "split_on sep [] = [[]]"
| "split_on sep (c # s) =
     (if c = sep then [] # split_on sep s
      else (case split_on sep s of [] \<Rightarrow> [[c]] | p # ps \<Rightarrow> (c # p) # ps))"

definition has_prefix :: "string \<Rightarrow> string \<Rightarrow> bool" where
  "has_prefix p s \<longleftrightarrow> take (length p) s = p"

definition cut_prefix :: "string \<Rightarrow> string \<Rightarrow> string option" where
  "cut_prefix p s = (if has_prefix p s then Some (drop (length p) s) else None)"

lemma cut_prefix_append [simp]: "cut_prefix p (p @ s) = Some s"
  by (simp add: cut_prefix_def has_prefix_def)

lemma cut_eq_None: "cut sep s = None \<longleftrightarrow> sep \<notin> set s"
  by (induction s) (auto split: option.splits)

lemma cut_append: "sep \<notin> set a \<Longrightarrow> cut sep (a @ sep # b) = Some (a, b)"
  by (induction a) auto

lemma cut_SomeD: "cut sep s = Some (a, b) \<Longrightarrow> s = a @ sep # b \<and> sep \<notin> set a"
  by (induction s arbitrary: a b) (fastforce split: if_splits option.splits)+

lemma cut_eq_Some: "cut sep s = Some (a, b) \<longleftrightarrow> s = a @ sep # b \<and> sep \<notin> set a"
  using cut_SomeD [of sep s a b] cut_append [of sep a b] by blast

lemma split_on_not_Nil [simp]: "split_on sep s \<noteq> []"
  by (cases s) (auto split: list.splits)

lemma split_on_none: "sep \<notin> set s \<Longrightarrow> split_on sep s = [s]"
  by (induction s) auto

lemma split_on_Cons: "sep \<notin> set a \<Longrightarrow> split_on sep (a @ sep # b) = a # split_on sep b"
  by (induction a) auto

text \<open>ASCII behaviour of the Unicode-aware operations.\<close>

lemma trim_list_Nil [simp]: "trim_list p [] = []"
  by (simp add: trim_list_def)

lemma trim_list_id:
  "xs \<noteq> [] \<Longrightarrow> \<not> p (hd xs) \<Longrightarrow> \<not> p (last xs) \<Longrightarrow> trim_list p xs = xs"
  by (simp add: trim_list_def dropWhile_hd hd_rev)

lemma trim_list_idem: "trim_list p (trim_list p xs) = trim_list p xs"
proof (cases "trim_list p xs = []")
  case False
  define ys where "ys = dropWhile p xs"
  from False have 1: "dropWhile p (rev ys) \<noteq> []" by (simp add: trim_list_def ys_def)
  then have "\<not> p (hd (dropWhile p (rev ys)))" by (rule hd_dropWhile)
  then have last: "\<not> p (last (trim_list p xs))"
    using 1 by (simp add: trim_list_def ys_def last_rev)
  obtain zs where zs: "rev ys = zs @ dropWhile p (rev ys)"
    by (metis takeWhile_dropWhile_id)
  then have "ys = trim_list p xs @ rev zs"
    by (metis rev_append rev_rev_ident trim_list_def ys_def)
  then have "hd ys = hd (trim_list p xs)" "ys \<noteq> []" using False by auto
  then have "\<not> p (hd (trim_list p xs))"
    using hd_dropWhile [of p xs] by (simp add: ys_def)
  then show ?thesis using False last by (simp add: trim_list_id)
qed simp

lemma set_trim_list: "set (trim_list p xs) \<subseteq> set xs"
  by (auto simp: trim_list_def dest!: set_dropWhileD)

lemma trim_list_map: "trim_list p (map f xs) = map f (trim_list (p \<circ> f) xs)"
  by (simp add: trim_list_def dropWhile_map rev_map)

lemma concat_map_single [simp]: "concat (map (\<lambda>c. [c]) s) = s"
  by (induction s) auto

lemma trim_space_ascii:
  "ascii s \<Longrightarrow> trim_space U s = trim_list (\<lambda>c. uc_space U (byte c)) s"
  by (simp add: trim_space_def chunks_ascii trim_list_map o_def rune_of_def)

lemma ascii_trim_space: "ascii s \<Longrightarrow> ascii (trim_space U s)"
  using set_trim_list [of _ s] by (auto simp: trim_space_ascii ascii_def list_all_iff)

lemma trim_space_Nil [simp]: "trim_space U [] = []"
  by (simp add: trim_space_def)

lemma to_lower_Nil [simp]: "to_lower U [] = []"
  by (simp add: to_lower_def encode_runes_def)

text \<open>ASCII lower case on bytes.\<close>

definition lower_byte :: "char \<Rightarrow> char" where
  "lower_byte c = (if 65 \<le> byte c \<and> byte c < 91 then char_of (byte c + 32) else c)"

lemma to_lower_ascii:
  assumes "unicode_laws U" "ascii s"
  shows "to_lower U s = map lower_byte s"
proof -
  have "encode_rune (uc_lower U (byte c)) = [lower_byte c]" if "byte c < 128" for c
    using that assms(1)
    by (auto simp: unicode_laws_def encode_rune_def encode_scalar_def scalar_def lower_byte_def)
  then show ?thesis using assms(2)
    by (induction s) (auto simp: to_lower_def runes_ascii encode_runes_def)
qed

text \<open>A string of lower-case ASCII runes: lowering gives it back, so lowering twice changes nothing more.\<close>

lemma to_lower_fixed:
  assumes "unicode_laws U" "ascii s" "list_all (\<lambda>c. \<not> (65 \<le> byte c \<and> byte c < 91)) s"
  shows "to_lower U s = s"
  using assms by (induction s) (auto simp: to_lower_ascii lower_byte_def)

lemma length_encode_rune: "length (encode_rune r) \<ge> 1"
  by (simp add: encode_rune_def encode_scalar_def)

text \<open>An ASCII byte of an encoded string is the encoding of that ASCII rune.\<close>

lemma ascii_in_encode_rune: "c \<in> set (encode_rune r) \<Longrightarrow> byte c < 128 \<Longrightarrow> r = byte c"
  by (auto simp: encode_rune_def encode_scalar_def scalar_def split: if_splits)

lemma to_lower_no_upper:
  assumes "unicode_laws U" "c \<in> set (to_lower U s)" "byte c < 128"
  shows "\<not> (65 \<le> byte c \<and> byte c < 91)"
  using assms
  by (auto simp: to_lower_def encode_runes_def unicode_laws_def dest!: ascii_in_encode_rune)
     (metis linorder_not_le)

end
