(* ===== verification/Errors.thy ===== *)
theory Errors
  imports Prelude
begin

text \<open>
  Error values.  Every Go error the program can produce or inspect is a tree: a sentinel
  (\<open>errors.New\<close> at package level), a wrapper made by \<open>fmt.Errorf\<close> with \<open>%w\<close>, a plain message, a
  PostgreSQL error with its code and constraint name, the file-system and HTTP errors the
  program tests for, or an application error of \<open>internal/shared/apperror/error.go\<close>.
  \<open>err_is\<close> is \<open>errors.Is\<close> and \<open>as_app_error\<close> is \<open>errors.As\<close> at \<open>*apperror.Error\<close>.  Message texts
  are kept as ASCII glosses of the Chinese originals.
\<close>

datatype sentinel =
  \<comment> \<open>internal/modules/user/errors.go\<close>
    UserNotFound | UsernameConflict | EmailConflict | LastSuperuser | UserInvalidInput
  | InvalidPassword | PasswordMismatch
  \<comment> \<open>internal/modules/auth/model.go\<close>
  | InvalidCredentials | UserDisabled | InvalidToken | RefreshReuse | RateLimited
  | SessionNotFound | AuthUnavailable
  \<comment> \<open>internal/modules/file/errors.go\<close>
  | InvalidFile | TypeNotAllowed | TooLarge | InvalidKey | FileNotFound | FileForbidden
  | FileUnavailable
  \<comment> \<open>internal/modules/systemconfig/errors.go\<close>
  | ConfigInvalidInput | ConfigInvalidType | SensitiveKey | ConfigNotFound | ConfigConflict
  | PostCommit
  \<comment> \<open>sentinels of the libraries: pgx.ErrNoRows, redis.Nil, fs.ErrNotExist, io.EOF,
      io.ErrUnexpectedEOF, http.MaxBytesError\<close>
  | NoRows | RedisNil | NotExist | EOF | UnexpectedEOF | MaxBytes

datatype err =
    Sentinel sentinel
  | Wrapped string "err list"
  | Plain string
  | PgError string string
  | AppError string string string int "err option" "(string \<times> string) list option" bool

text \<open>\<open>errors.Is\<close> walks the tree; an application error unwraps to its cause.\<close>

fun err_is :: "sentinel \<Rightarrow> err \<Rightarrow> bool" where
  "err_is t (Sentinel s) = (s = t)"
| "err_is t (Wrapped _ es) = list_ex (err_is t) es"
| "err_is t (Plain _) = False"
| "err_is t (PgError _ _) = False"
| "err_is t (AppError _ _ _ _ c _ _) = (case c of None \<Rightarrow> False | Some e \<Rightarrow> err_is t e)"

text \<open>\<open>errors.As(err, &pgErr)\<close>: the first PostgreSQL error in the tree.\<close>

fun as_pg_error :: "err \<Rightarrow> (string \<times> string) option" where
  "as_pg_error (Sentinel _) = None"
| "as_pg_error (Wrapped _ es) =
     foldr (\<lambda>e rest. case as_pg_error e of Some p \<Rightarrow> Some p | None \<Rightarrow> rest) es None"
| "as_pg_error (Plain _) = None"
| "as_pg_error (PgError c k) = Some (c, k)"
| "as_pg_error (AppError _ _ _ _ c _ _) = (case c of None \<Rightarrow> None | Some e \<Rightarrow> as_pg_error e)"

section \<open>internal/shared/apperror\<close>

definition new_error :: "string \<Rightarrow> string \<Rightarrow> string \<Rightarrow> int \<Rightarrow> err option \<Rightarrow> err" where
  "new_error code key message status cause = AppError code key message status cause None False"

definition validation :: "string \<Rightarrow> string \<Rightarrow> string \<Rightarrow> err option \<Rightarrow> err" where
  "validation code key message cause = new_error code key message 400 cause"

definition not_found :: "string \<Rightarrow> string \<Rightarrow> string \<Rightarrow> err option \<Rightarrow> err" where
  "not_found code key message cause = new_error code key message 404 cause"

text \<open>\<open>WithDetails\<close>, \<open>Error\<close> and \<open>Unwrap\<close> are called through a pointer that may be nil (\<open>None\<close>).\<close>

fun with_details :: "err option \<Rightarrow> (string \<times> string) list option \<Rightarrow> bool \<Rightarrow> err option" where
  "with_details (Some (AppError c k m st cause _ _)) d ex = Some (AppError c k m st cause d ex)"
| "with_details e d ex = e"

fun error_text :: "err option \<Rightarrow> string" where
  "error_text (Some (AppError c _ m _ _ _ _)) = c @ '': '' @ m"
| "error_text _ = ''''"

fun unwrap :: "err option \<Rightarrow> err option" where
  "unwrap (Some (AppError _ _ _ _ cause _ _)) = cause"
| "unwrap _ = None"

text \<open>The first application error of the tree, as \<open>errors.As\<close> finds it.\<close>

fun as_app_error :: "err \<Rightarrow> err option" where
  "as_app_error (Sentinel _) = None"
| "as_app_error (Wrapped _ es) =
     foldr (\<lambda>e rest. case as_app_error e of Some p \<Rightarrow> Some p | None \<Rightarrow> rest) es None"
| "as_app_error (Plain _) = None"
| "as_app_error (PgError _ _) = None"
| "as_app_error (AppError a b c d e f g) = Some (AppError a b c d e f g)"

lemma err_is_new_error [simp]:
  "err_is t (new_error c k m st cause) = (case cause of None \<Rightarrow> False | Some e \<Rightarrow> err_is t e)"
  by (simp add: new_error_def)

lemma as_app_error_new_error [simp]:
  "as_app_error (new_error c k m st cause) = Some (AppError c k m st cause None False)"
  by (simp add: new_error_def)

end
