(* ===== verification/Shared.thy ===== *)
theory Shared
  imports GoText Errors "HOL-Library.Word"
begin

text \<open>
  The small shared packages: \<open>internal/shared/pagination\<close> with its 32-bit arithmetic,
  \<open>internal/shared/requestmeta\<close>, and the types of time, duration and UUID that the modules
  share.  Times and durations are nanosecond counts; the UUID library is a parameter of record
  type \<open>uuid_pkg\<close>, with its documented laws in \<open>uuid_laws\<close>.
\<close>

section \<open>internal/shared/pagination\<close>

type_synonym i32 = "32 word"

definition default_page_size :: i32 where "default_page_size = 20"
definition max_page_size :: i32 where "max_page_size = 100"

record params =
  p_page :: i32
  p_size :: i32

text \<open>The three \<open>if\<close>s of \<open>Normalize\<close>, in order, on signed values.\<close>

definition normalize_params :: "params \<Rightarrow> params" where
  "normalize_params p =
     (let p1 = (if sint (p_page p) < 1 then p\<lparr>p_page := 1\<rparr> else p);
          p2 = (if sint (p_size p1) < 1 then p1\<lparr>p_size := default_page_size\<rparr> else p1)
      in if sint max_page_size < sint (p_size p2) then p2\<lparr>p_size := max_page_size\<rparr> else p2)"

definition offset :: "params \<Rightarrow> i32" where
  "offset p = (let q = normalize_params p in (p_page q - 1) * p_size q)"

lemma normalize_page: "1 \<le> sint (p_page (normalize_params p))"
  by (simp add: normalize_params_def Let_def)

lemma normalize_size: "1 \<le> sint (p_size (normalize_params p)) \<and> sint (p_size (normalize_params p)) \<le> 100"
  by (simp add: normalize_params_def Let_def default_page_size_def max_page_size_def)

lemma normalize_id:
  "1 \<le> sint (p_page p) \<Longrightarrow> 1 \<le> sint (p_size p) \<Longrightarrow> sint (p_size p) \<le> 100 \<Longrightarrow> normalize_params p = p"
  by (simp add: normalize_params_def Let_def max_page_size_def)

lemma normalize_idem: "normalize_params (normalize_params p) = normalize_params p"
  using normalize_page [of p] normalize_size [of p] by (simp add: normalize_id)

lemma sint_in_range: "- (2 ^ 31) \<le> sint (x :: i32) \<and> sint x < 2 ^ 31"
  using sint_lt [of x] sint_ge [of x] by simp

lemma sint_offset:
  "sint (offset p) =
     signed_take_bit 31 ((sint (p_page (normalize_params p)) - 1) * sint (p_size (normalize_params p)))"
proof -
  have "sint ((a - 1) * b) = signed_take_bit 31 ((sint a - 1) * sint b)" for a b :: i32
  proof -
    have "(a - 1) * b = word_of_int ((sint a - 1) * sint b)" by simp
    then show ?thesis by (simp only: sint_sbintrunc') simp
  qed
  then show ?thesis by (simp add: offset_def Let_def)
qed

lemma offset_exact:
  assumes "(sint (p_page (normalize_params p)) - 1) * sint (p_size (normalize_params p)) < 2 ^ 31"
  shows "sint (offset p) = (sint (p_page (normalize_params p)) - 1) * sint (p_size (normalize_params p))"
proof -
  have "0 \<le> (sint (p_page (normalize_params p)) - 1) * sint (p_size (normalize_params p))"
    using normalize_page [of p] normalize_size [of p] by (intro mult_nonneg_nonneg) auto
  then show ?thesis using assms
    by (subst sint_offset) (rule signed_take_bit_int_eq_self, simp_all)
qed

section \<open>internal/shared/requestmeta\<close>

text \<open>The one value the program stores in a context; \<open>None\<close> when nothing was stored.\<close>

record req_context =
  ctx_request_id :: "string option"

definition background :: req_context where
  "background = \<lparr>ctx_request_id = None\<rparr>"

definition with_request_id :: "req_context \<Rightarrow> string \<Rightarrow> req_context" where
  "with_request_id ctx v = ctx\<lparr>ctx_request_id := Some v\<rparr>"

definition request_id :: "req_context \<Rightarrow> string \<times> bool" where
  "request_id ctx =
     (case ctx_request_id ctx of
        Some v \<Rightarrow> (v, v \<noteq> '''')
      | None \<Rightarrow> ('''', False))"

lemma request_id_with_request_id: "v \<noteq> '''' \<Longrightarrow> request_id (with_request_id ctx v) = (v, True)"
  by (simp add: request_id_def with_request_id_def)

section \<open>Time and UUIDs\<close>

type_synonym time = int
type_synonym duration = int

abbreviation millisecond :: duration where "millisecond \<equiv> 1000000"
abbreviation second :: duration where "second \<equiv> 1000000000"

text \<open>\<open>internal/shared/clock\<close>: the clock is read off the world.\<close>

definition clock_now :: "('w \<Rightarrow> time) \<Rightarrow> ('w, time) state" where
  "clock_now c = do { w \<leftarrow> State_Monad.get; State_Monad.return (c w) }"

lemma wp_clock_now [wp_rules]: "wp (clock_now c) Q = (\<lambda>w. Q (c w) w)"
  by (simp add: clock_now_def wp_rules)

lemma clock_now_leaves: "leaves (clock_now c) f"
  unfolding clock_now_def by (intro leaves_rules)

type_synonym uuid = "128 word"

record uuid_pkg =
  u_string :: "uuid \<Rightarrow> string"
  u_parse :: "string \<Rightarrow> uuid option"

definition hex_digit :: "char \<Rightarrow> bool" where
  "hex_digit c \<longleftrightarrow> 48 \<le> byte c \<and> byte c < 58 \<or> 97 \<le> byte c \<and> byte c < 103"

text \<open>The textual form is 36 lower-case hexadecimal digits and dashes, and parsing reads it back.\<close>

definition uuid_laws :: "uuid_pkg \<Rightarrow> bool" where
  "uuid_laws P \<longleftrightarrow>
     (\<forall>u. u_parse P (u_string P u) = Some u \<and> length (u_string P u) = 36 \<and>
          list_all (\<lambda>c. hex_digit c \<or> c = CHR ''-'') (u_string P u))"

text \<open>The canonical 8-4-4-4-12 form, for concrete evaluation.\<close>

definition hex_char :: "nat \<Rightarrow> char" where
  "hex_char d = (if d < 10 then char_of (48 + d) else char_of (87 + d))"

definition hex_value :: "char \<Rightarrow> nat option" where
  "hex_value c = (if 48 \<le> byte c \<and> byte c < 58 then Some (byte c - 48)
     else if 97 \<le> byte c \<and> byte c < 103 then Some (byte c - 87) else None)"

fun hex_digits :: "nat \<Rightarrow> nat \<Rightarrow> string" where
  "hex_digits 0 n = []"
| "hex_digits (Suc k) n = hex_digits k (n div 16) @ [hex_char (n mod 16)]"

fun hex_number :: "string \<Rightarrow> nat \<Rightarrow> nat option" where
  "hex_number [] n = Some n"
| "hex_number (c # s) n = (case hex_value c of None \<Rightarrow> None | Some d \<Rightarrow> hex_number s (16 * n + d))"

definition canonical_uuid :: uuid_pkg where
  "canonical_uuid = \<lparr>
     u_string = (\<lambda>u. let h = hex_digits 32 (unat u) in
       take 8 h @ ''-'' @ take 4 (drop 8 h) @ ''-'' @ take 4 (drop 12 h) @ ''-'' @
       take 4 (drop 16 h) @ ''-'' @ drop 20 h),
     u_parse = (\<lambda>s. let h = filter (\<lambda>c. c \<noteq> CHR ''-'') s in
       if length h = 32 then map_option word_of_nat (hex_number h 0) else None)\<rparr>"

lemma length_hex_digits [simp]: "length (hex_digits k n) = k"
  by (induction k arbitrary: n) auto

lemma hex_char_digit: "d < 16 \<Longrightarrow> hex_digit (hex_char d)"
  by (auto simp: hex_digit_def hex_char_def)

lemma hex_value_char: "d < 16 \<Longrightarrow> hex_value (hex_char d) = Some d"
  by (auto simp: hex_value_def hex_char_def)

lemma hex_digits_ok: "list_all hex_digit (hex_digits k n)"
  by (induction k arbitrary: n) (auto simp: hex_char_digit)

lemma hex_number_append:
  "hex_number (s @ t) n = (case hex_number s n of None \<Rightarrow> None | Some m \<Rightarrow> hex_number t m)"
  by (induction s arbitrary: n) (auto split: option.splits)

lemma hex_number_digits: "hex_number (hex_digits k n) m = Some (m * 16 ^ k + n mod 16 ^ k)"
proof (induction k arbitrary: n m)
  case (Suc k)
  have "n mod (16 * 16 ^ k) = 16 * (n div 16 mod 16 ^ k) + n mod 16"
    by (simp add: mod_mult2_eq)
  then show ?case by (simp add: Suc.IH hex_number_append hex_value_char algebra_simps)
qed simp

lemma take_drop_split4:
  "take 8 h @ take 4 (drop 8 h) @ take 4 (drop 12 h) @ take 4 (drop 16 h) @ drop 20 h = h"
proof -
  have d: "take m (drop n h) @ drop (m + n) h = drop n h" for n m
    by (metis append_take_drop_id drop_drop)
  show ?thesis using d [of 4 16] d [of 4 12] d [of 4 8] by simp
qed

lemma uuid_laws_canonical [simp]: "uuid_laws canonical_uuid"
proof -
  have f: "filter (\<lambda>c. c \<noteq> CHR ''-'') s = s" if "list_all hex_digit s" for s
    using that by (intro filter_True) (auto simp: list_all_iff hex_digit_def)
  have "u_parse canonical_uuid (u_string canonical_uuid u) = Some u \<and>
      length (u_string canonical_uuid u) = 36 \<and>
      list_all (\<lambda>c. hex_digit c \<or> c = CHR ''-'') (u_string canonical_uuid u)" for u
  proof -
    define h where "h = hex_digits 32 (unat u)"
    have h: "list_all hex_digit h" "length h = 32" by (simp_all add: h_def hex_digits_ok)
    have sub: "list_all hex_digit (take n h)" "list_all hex_digit (drop n h)"
      "list_all hex_digit (take n (drop m h))" for n m
      using h(1) by (auto simp: list_all_iff dest: in_set_takeD in_set_dropD)
    have "hex_number h 0 = Some (unat u mod 16 ^ 32)"
      by (simp add: h_def hex_number_digits)
    also have "unat u mod 16 ^ 32 = unat u"
      using unsigned_less [of u] by (intro mod_less) simp
    finally have "hex_number h 0 = Some (unat u)" .
    moreover have "list_all (\<lambda>c. hex_digit c \<or> c = CHR ''-'') s" if "list_all hex_digit s" for s
      using that by (auto simp: list_all_iff)
    ultimately show ?thesis using sub h
      by (simp add: canonical_uuid_def Let_def f take_drop_split4 flip: h_def)
  qed
  then show ?thesis by (simp add: uuid_laws_def)
qed

end
