(* ===== verification/FileModel.thy ===== *)
theory FileModel
  imports Shared
begin

text \<open>
  \<open>internal/modules/file/model.go\<close> and \<open>service.go\<close>: object keys, and uploading, opening and deleting
  public files over an object store.  A reader is the bytes it will yield and the error that ends
  it (\<open>None\<close> for a plain end of file).  The content sniffer \<open>http.DetectContentType\<close> is the
  argument \<open>detect\<close>, over which the properties are general.
\<close>

section \<open>path.Clean\<close>

text \<open>The lexical processing of one path element, on the reversed stack of those kept.\<close>

fun clean_step :: "bool \<Rightarrow> string list \<Rightarrow> string \<Rightarrow> string list" where
  "clean_step rooted out x =
     (if x = '''' \<or> x = ''.'' then out
      else if x = ''..'' then
        (case out of
           [] \<Rightarrow> if rooted then [] else [''..'']
         | y # ys \<Rightarrow> if y = ''..'' then ''..'' # out else ys)
      else x # out)"

fun join :: "string list \<Rightarrow> string" where
  "join [] = ''''"
| "join [x] = x"
| "join (x # y # xs) = x @ CHR ''/'' # join (y # xs)"

definition path_clean :: "string \<Rightarrow> string" where
  "path_clean s =
     (if s = '''' then ''.''
      else
        let rooted = (hd s = CHR ''/'');
            out = join (rev (foldl (clean_step rooted) [] (split_on CHR ''/'' s)))
        in if rooted then CHR ''/'' # out else if out = '''' then ''.'' else out)"

section \<open>Object keys\<close>

record object_key =
  k_owner :: uuid
  k_object :: uuid
  k_ext :: string

definition key_string :: "uuid_pkg \<Rightarrow> object_key \<Rightarrow> string" where
  "key_string P k = u_string P (k_owner k) @ ''/'' @ u_string P (k_object k) @ ''.'' @ k_ext k"

definition allowed_extension :: "string \<Rightarrow> bool" where
  "allowed_extension ext \<longleftrightarrow> ext \<in> {''jpg'', ''png'', ''gif'', ''webp'', ''mp4'', ''webm''}"

definition parse_object_key :: "unicode \<Rightarrow> uuid_pkg \<Rightarrow> string \<Rightarrow> err + object_key" where
  "parse_object_key U P value =
     (if value = '''' \<or> CHR 0x5C \<in> set value \<or> path_clean value \<noteq> value then Inl (Sentinel InvalidKey)
      else (case cut CHR ''/'' value of
          None \<Rightarrow> Inl (Sentinel InvalidKey)
        | Some (owner, name) \<Rightarrow>
            if owner = '''' \<or> name = '''' \<or> CHR ''/'' \<in> set name then Inl (Sentinel InvalidKey)
            else (case cut CHR ''.'' name of
                None \<Rightarrow> Inl (Sentinel InvalidKey)
              | Some (object, ext) \<Rightarrow>
                  if object = '''' \<or> ext = '''' \<or> CHR ''.'' \<in> set ext \<or> ext \<noteq> to_lower U ext
                  then Inl (Sentinel InvalidKey)
                  else (case u_parse P owner of
                      None \<Rightarrow> Inl (Sentinel InvalidKey)
                    | Some owner_id \<Rightarrow>
                        if u_string P owner_id \<noteq> owner then Inl (Sentinel InvalidKey)
                        else (case u_parse P object of
                            None \<Rightarrow> Inl (Sentinel InvalidKey)
                          | Some object_id \<Rightarrow>
                              if u_string P object_id \<noteq> object \<or> \<not> allowed_extension ext
                              then Inl (Sentinel InvalidKey)
                              else Inr \<lparr>k_owner = owner_id, k_object = object_id, k_ext = ext\<rparr>)))))"

definition validate_key :: "unicode \<Rightarrow> uuid_pkg \<Rightarrow> object_key \<Rightarrow> err + unit" where
  "validate_key U P k =
     (if parse_object_key U P (key_string P k) = Inr k then Inr ()
      else Inl (Wrapped ''object key is invalid'' [Sentinel InvalidKey]))"

record uploaded =
  up_key :: object_key
  up_content_type :: string
  up_size :: int

definition uploaded_url :: "uuid_pkg \<Rightarrow> uploaded \<Rightarrow> string" where
  "uploaded_url P u = ''/files/'' @ key_string P (up_key u)"

section \<open>Readers\<close>

type_synonym reader = "string \<times> err option"

text \<open>\<open>io.ReadFull\<close>: what was read, the rest of the reader, and the error.\<close>

definition read_full :: "nat \<Rightarrow> reader \<Rightarrow> string \<times> reader \<times> err option" where
  "read_full n r =
     (case r of (bs, e) \<Rightarrow>
        (take n bs, (drop n bs, e),
         if n \<le> length bs then None
         else (let x = (case e of None \<Rightarrow> Sentinel EOF | Some x \<Rightarrow> x)
               in Some (if bs \<noteq> '''' \<and> x = Sentinel EOF then Sentinel UnexpectedEOF else x))))"

text \<open>\<open>io.MultiReader(bytes.NewReader(header), content)\<close>\<close>

definition prepend :: "string \<Rightarrow> reader \<Rightarrow> reader" where
  "prepend bs r = (bs @ fst r, snd r)"

section \<open>The service\<close>

definition sniff_bytes :: nat where "sniff_bytes = 512"

record object =
  ob_content :: string
  ob_size :: int
  ob_modified :: time

record 'w object_store =
  os_put :: "object_key \<Rightarrow> reader option \<Rightarrow> int \<Rightarrow> ('w, err + int) state"
  os_open :: "object_key \<Rightarrow> ('w, err + object) state"
  os_delete :: "object_key \<Rightarrow> ('w, err + unit) state"

record limits =
  li_image_max :: int
  li_video_enabled :: bool
  li_video_max :: int

record 'w file_service =
  fs_store :: "'w object_store"
  fs_ids :: "('w, err + uuid) state"
  fs_limit :: limits

definition new_file_service ::
  "'w object_store option \<Rightarrow> ('w, err + uuid) state option \<Rightarrow> limits \<Rightarrow> err + 'w file_service" where
  "new_file_service store ids lim =
     (case (store, ids) of
        (Some st, Some g) \<Rightarrow>
          if li_image_max lim < int sniff_bytes \<or> li_video_max lim < int sniff_bytes
          then Inl (Plain ''file service dependencies or limits are invalid'')
          else Inr \<lparr>fs_store = st, fs_ids = g, fs_limit = lim\<rparr>
      | _ \<Rightarrow> Inl (Plain ''file service dependencies or limits are invalid''))"

definition type_of_media :: "limits \<Rightarrow> string \<Rightarrow> string \<times> int \<times> bool" where
  "type_of_media l t =
     (if t = ''image/jpeg'' then (''jpg'', li_image_max l, True)
      else if t = ''image/png'' then (''png'', li_image_max l, True)
      else if t = ''image/gif'' then (''gif'', li_image_max l, True)
      else if t = ''image/webp'' then (''webp'', li_image_max l, True)
      else if t = ''video/mp4'' then (''mp4'', li_video_max l, li_video_enabled l)
      else if t = ''video/webm'' then (''webm'', li_video_max l, li_video_enabled l)
      else ('''', 0, False))"

definition media_of_extension :: "limits \<Rightarrow> string \<Rightarrow> string \<times> int \<times> bool" where
  "media_of_extension l ext =
     (if ext = ''jpg'' then (''image/jpeg'', li_image_max l, True)
      else if ext = ''png'' then (''image/png'', li_image_max l, True)
      else if ext = ''gif'' then (''image/gif'', li_image_max l, True)
      else if ext = ''webp'' then (''image/webp'', li_image_max l, True)
      else if ext = ''mp4'' then (''video/mp4'', li_video_max l, True)
      else if ext = ''webm'' then (''video/webm'', li_video_max l, True)
      else ('''', 0, False))"

text \<open>The media type of a header, as \<open>Upload\<close> reads it.\<close>

definition media_type :: "unicode \<Rightarrow> (string \<Rightarrow> string) \<Rightarrow> string \<Rightarrow> string" where
  "media_type U detect header = to_lower U (trim_space U (hd (split_on CHR '';'' (detect header))))"

definition upload ::
  "unicode \<Rightarrow> (string \<Rightarrow> string) \<Rightarrow> 'w file_service \<Rightarrow> uuid \<Rightarrow> reader option \<Rightarrow> ('w, err + uploaded) state" where
  "upload U detect s owner content0 =
     (case content0 of
        None \<Rightarrow> State_Monad.return (Inl (Sentinel InvalidFile))
      | Some content \<Rightarrow>
          if owner = 0 then State_Monad.return (Inl (Sentinel InvalidFile))
          else (case read_full sniff_bytes content of (header, rest, e) \<Rightarrow>
            if (case e of None \<Rightarrow> False | Some x \<Rightarrow> \<not> err_is EOF x \<and> \<not> err_is UnexpectedEOF x)
            then State_Monad.return (Inl (Wrapped ''read file header'' [Sentinel FileUnavailable, the e]))
            else if header = '''' then State_Monad.return (Inl (Sentinel InvalidFile))
            else (case type_of_media (fs_limit s) (media_type U detect header) of (ext, max_bytes, ok) \<Rightarrow>
              if \<not> ok then State_Monad.return (Inl (Sentinel TypeNotAllowed))
              else do {
                i \<leftarrow> fs_ids s;
                case i of
                  Inl x \<Rightarrow> State_Monad.return (Inl (Wrapped ''generate object id'' [Sentinel FileUnavailable, x]))
                | Inr object_id \<Rightarrow> do {
                    let key = \<lparr>k_owner = owner, k_object = object_id, k_ext = ext\<rparr>;
                    p \<leftarrow> os_put (fs_store s) key (Some (prepend header rest)) max_bytes;
                    case p of
                      Inl x \<Rightarrow> State_Monad.return (Inl x)
                    | Inr n \<Rightarrow> State_Monad.return (Inr \<lparr>up_key = key,
                        up_content_type = media_type U detect header, up_size = n\<rparr>) } })))"

definition open_file ::
  "unicode \<Rightarrow> uuid_pkg \<Rightarrow> 'w file_service \<Rightarrow> string \<Rightarrow> ('w, err + uploaded \<times> object) state" where
  "open_file U P s value =
     (case parse_object_key U P value of
        Inl e \<Rightarrow> State_Monad.return (Inl e)
      | Inr key \<Rightarrow>
          (case media_of_extension (fs_limit s) (k_ext key) of (media, _, ok) \<Rightarrow>
             if \<not> ok then State_Monad.return (Inl (Sentinel InvalidKey))
             else do {
               r \<leftarrow> os_open (fs_store s) key;
               case r of
                 Inl e \<Rightarrow> State_Monad.return (Inl e)
               | Inr ob \<Rightarrow> State_Monad.return
                   (Inr (\<lparr>up_key = key, up_content_type = media, up_size = ob_size ob\<rparr>, ob)) }))"

definition delete_file ::
  "unicode \<Rightarrow> uuid_pkg \<Rightarrow> 'w file_service \<Rightarrow> uuid \<Rightarrow> bool \<Rightarrow> string \<Rightarrow> ('w, err + unit) state" where
  "delete_file U P s actor superuser value =
     (case parse_object_key U P value of
        Inl e \<Rightarrow> State_Monad.return (Inl e)
      | Inr key \<Rightarrow>
          if actor = 0 \<or> (\<not> superuser \<and> actor \<noteq> k_owner key)
          then State_Monad.return (Inl (Sentinel FileForbidden))
          else os_delete (fs_store s) key)"

section \<open>Keys and paths\<close>

lemma clean_step_keep:
  "x \<noteq> '''' \<Longrightarrow> x \<noteq> ''.'' \<Longrightarrow> x \<noteq> ''..'' \<Longrightarrow> clean_step r out x = x # out"
  by simp

lemma path_clean_two:
  assumes "CHR ''/'' \<notin> set a" "CHR ''/'' \<notin> set b" "a \<noteq> ''''" "b \<noteq> ''''"
    "a \<noteq> ''.''" "a \<noteq> ''..''" "b \<noteq> ''.''" "b \<noteq> ''..''"
  shows "path_clean (a @ ''/'' @ b) = a @ ''/'' @ b"
proof -
  have split: "split_on CHR ''/'' (a @ CHR ''/'' # b) = [a, b]"
    using assms(1,2) by (simp add: split_on_Cons split_on_none)
  have "hd (a @ CHR ''/'' # b) \<noteq> CHR ''/''"
    using assms(1,3) by (cases a) auto
  then show ?thesis
    using assms(3-8) by (simp add: path_clean_def split Let_def del: clean_step.simps add: clean_step_keep)
qed

lemma allowed_plain:
  "allowed_extension ext \<Longrightarrow> ext \<noteq> '''' \<and> ascii ext \<and> CHR ''.'' \<notin> set ext \<and> CHR ''/'' \<notin> set ext \<and>
     CHR 0x5C \<notin> set ext \<and> list_all (\<lambda>c. \<not> (65 \<le> byte c \<and> byte c < 91)) ext"
  by (auto simp: allowed_extension_def)

lemma uuid_string_plain:
  assumes "uuid_laws P"
  shows "u_string P i \<noteq> ''''" "CHR ''/'' \<notin> set (u_string P i)" "CHR ''.'' \<notin> set (u_string P i)"
    "CHR 0x5C \<notin> set (u_string P i)" "u_string P i \<noteq> ''.''" "u_string P i \<noteq> ''..''"
    "u_parse P (u_string P i) = Some i" "u_string P i @ CHR ''.'' # x \<noteq> ''..''"
    "u_string P i @ CHR ''.'' # x \<noteq> ''.''"
proof -
  have u: "length (u_string P i) = 36" "list_all (\<lambda>c. hex_digit c \<or> c = CHR ''-'') (u_string P i)"
    using assms by (auto simp: uuid_laws_def)
  have "\<not> (hex_digit c \<or> c = CHR ''-'')" if "c \<in> {CHR ''/'', CHR ''.'', CHR 0x5C}" for c
    using that by (auto simp: hex_digit_def)
  then show "CHR ''/'' \<notin> set (u_string P i)" "CHR ''.'' \<notin> set (u_string P i)" "CHR 0x5C \<notin> set (u_string P i)"
    using u(2) by (auto simp: list_all_iff)
  show "u_string P i \<noteq> ''''" "u_string P i \<noteq> ''.''" "u_string P i \<noteq> ''..''" using u(1) by auto
  show "u_string P i @ CHR ''.'' # x \<noteq> ''..''" "u_string P i @ CHR ''.'' # x \<noteq> ''.''"
    using u(1) by (auto dest: arg_cong [of _ _ length])
  show "u_parse P (u_string P i) = Some i" using assms by (simp add: uuid_laws_def)
qed

lemma parse_key_string:
  assumes "unicode_laws U" "uuid_laws P" "allowed_extension (k_ext k)"
  shows "parse_object_key U P (key_string P k) = Inr k"
proof -
  note own = uuid_string_plain [OF assms(2), of "k_owner k"] and ob = uuid_string_plain [OF assms(2), of "k_object k"]
  note ext = allowed_plain [OF assms(3)]
  let ?name = "u_string P (k_object k) @ CHR ''.'' # k_ext k"
  have lower: "to_lower U (k_ext k) = k_ext k"
    using to_lower_fixed [OF assms(1)] ext by blast
  have name: "CHR ''/'' \<notin> set ?name" "?name \<noteq> ''''" "?name \<noteq> ''.''" "?name \<noteq> ''..''"
    using ob ext by auto
  have clean: "path_clean (key_string P k) = key_string P k"
    using path_clean_two [OF own(2) name(1) own(1) name(2) own(5,6) name(3,4)]
    by (simp add: key_string_def)
  have "key_string P k = u_string P (k_owner k) @ CHR ''/'' # ?name"
    by (simp add: key_string_def)
  moreover have "cut CHR ''/'' (u_string P (k_owner k) @ CHR ''/'' # ?name) = Some (u_string P (k_owner k), ?name)"
    "cut CHR ''.'' ?name = Some (u_string P (k_object k), k_ext k)"
    using own ob by (auto intro: cut_append)
  moreover have "CHR 0x5C \<notin> set (key_string P k)" using own ob ext by (auto simp: key_string_def)
  moreover have "key_string P k \<noteq> ''''" by (simp add: key_string_def)
  ultimately show ?thesis
    using clean own ob ext name lower assms(3) unfolding parse_object_key_def by simp
qed

lemma parse_object_key_Inr:
  assumes "parse_object_key U P value = Inr k"
  shows "key_string P k = value \<and> allowed_extension (k_ext k) \<and> path_clean value = value"
  using assms
  by (auto simp: parse_object_key_def key_string_def cut_eq_Some split: if_splits option.splits)

lemma validate_key_iff:
  assumes "unicode_laws U" "uuid_laws P"
  shows "validate_key U P k = Inr () \<longleftrightarrow> allowed_extension (k_ext k)"
  using parse_key_string [OF assms] parse_object_key_Inr [of U P "key_string P k" k]
  by (auto simp: validate_key_def)

lemma key_string_inj:
  assumes "uuid_laws P" "key_string P k = key_string P j"
  shows "k = j"
proof -
  note own = uuid_string_plain [OF assms(1)]
  have cut: "cut CHR ''/'' (key_string P i) =
      Some (u_string P (k_owner i), u_string P (k_object i) @ CHR ''.'' # k_ext i)"
    "cut CHR ''.'' (u_string P (k_object i) @ CHR ''.'' # k_ext i) = Some (u_string P (k_object i), k_ext i)" for i
    using own(2) [of "k_owner i"] own(3) [of "k_object i"] by (simp_all add: key_string_def cut_append)
  have "u_string P (k_owner k) = u_string P (k_owner j)" "u_string P (k_object k) = u_string P (k_object j)"
    "k_ext k = k_ext j"
    using cut [of k] cut [of j] assms(2) by auto
  then have "k_owner k = k_owner j" "k_object k = k_object j" using own(7) by (metis option.inject)+
  then show ?thesis using \<open>k_ext k = k_ext j\<close> by simp
qed

lemma media_of_type:
  assumes "type_of_media l t = (ext, m, True)"
  shows "media_of_extension l ext = (t, m, True) \<and> allowed_extension ext"
proof -
  have "(t, ext, m) \<in> {(''image/jpeg'', ''jpg'', li_image_max l), (''image/png'', ''png'', li_image_max l),
      (''image/gif'', ''gif'', li_image_max l), (''image/webp'', ''webp'', li_image_max l),
      (''video/mp4'', ''mp4'', li_video_max l), (''video/webm'', ''webm'', li_video_max l)}"
    using assms unfolding type_of_media_def by (simp split: if_split_asm)
  then show ?thesis by (elim insertE) (simp_all add: media_of_extension_def allowed_extension_def)
qed

end
