(* ===== verification/LocalStore.thy ===== *)
theory LocalStore
  imports FileModel "HOL-Library.AList"
begin

text \<open>
  \<open>internal/modules/file/localstore.go\<close> on a model of the directory it works in.  A disk has the
  entries below the storage root and the outcome of the system calls to come: each may fail, with
  or without having taken effect, and a write may fail after any number of bytes.  The properties
  hold for every such sequence.  The mutex only guards the root handle; calls are modelled one at a
  time.
\<close>

section \<open>The disk\<close>

datatype node = Directory | Regular string time

record fault =
  f_error :: err
  f_done :: bool
  f_bytes :: nat

record disk =
  dk_nodes :: "(string \<times> node) list"
  dk_root :: bool
  dk_faults :: "fault option list"
  dk_now :: time

abbreviation entry :: "disk \<Rightarrow> string \<Rightarrow> node option" where
  "entry d p \<equiv> map_of (dk_nodes d) p"

definition next_call :: "disk \<Rightarrow> fault option \<times> disk" where
  "next_call d = (case dk_faults d of [] \<Rightarrow> (None, d) | x # xs \<Rightarrow> (x, d\<lparr>dk_faults := xs\<rparr>))"

definition syscall :: "(disk \<Rightarrow> (err + 'a) \<times> disk) \<Rightarrow> (disk, err + 'a) state" where
  "syscall f = do {
     d \<leftarrow> State_Monad.get;
     case next_call d of
       (None, d1) \<Rightarrow> do { _ \<leftarrow> State_Monad.set (snd (f d1)); State_Monad.return (fst (f d1)) }
     | (Some x, d1) \<Rightarrow> do {
         _ \<leftarrow> State_Monad.set (if f_done x then snd (f d1) else d1);
         State_Monad.return (Inl (f_error x)) } }"

definition put_node :: "string \<Rightarrow> node \<Rightarrow> disk \<Rightarrow> disk" where
  "put_node p n d = d\<lparr>dk_nodes := AList.update p n (dk_nodes d)\<rparr>"

definition drop_node :: "string \<Rightarrow> disk \<Rightarrow> disk" where
  "drop_node p d = d\<lparr>dk_nodes := AList.delete p (dk_nodes d)\<rparr>"

definition parent :: "string \<Rightarrow> string" where
  "parent p = takeWhile (\<lambda>c. c \<noteq> CHR ''/'') p"

definition os_mkdir :: "string \<Rightarrow> disk \<Rightarrow> (err + unit) \<times> disk" where
  "os_mkdir p d =
     (case entry d p of
        None \<Rightarrow> (Inr (), put_node p Directory d)
      | Some Directory \<Rightarrow> (Inr (), d)
      | Some (Regular _ _) \<Rightarrow> (Inl (Plain ''not a directory''), d))"

text \<open>\<open>O_CREATE|O_EXCL|O_WRONLY\<close>\<close>

definition os_create :: "string \<Rightarrow> disk \<Rightarrow> (err + unit) \<times> disk" where
  "os_create p d =
     (case entry d (parent p) of
        Some Directory \<Rightarrow>
          (case entry d p of
             None \<Rightarrow> (Inr (), put_node p (Regular '''' (dk_now d)) d)
           | Some _ \<Rightarrow> (Inl (Plain ''file exists''), d))
      | _ \<Rightarrow> (Inl (Sentinel NotExist), d))"

definition os_append :: "string \<Rightarrow> string \<Rightarrow> disk \<Rightarrow> disk" where
  "os_append p bs d =
     (case entry d p of
        Some (Regular c _) \<Rightarrow> put_node p (Regular (c @ bs) (dk_now d)) d
      | _ \<Rightarrow> d)"

definition os_write :: "string \<Rightarrow> string \<Rightarrow> (disk, err + unit) state" where
  "os_write p bs = do {
     d \<leftarrow> State_Monad.get;
     case next_call d of
       (None, d1) \<Rightarrow> do { _ \<leftarrow> State_Monad.set (os_append p bs d1); State_Monad.return (Inr ()) }
     | (Some x, d1) \<Rightarrow> do {
         _ \<leftarrow> State_Monad.set (os_append p (take (f_bytes x) bs) d1);
         State_Monad.return (Inl (f_error x)) } }"

definition os_rename :: "string \<Rightarrow> string \<Rightarrow> disk \<Rightarrow> (err + unit) \<times> disk" where
  "os_rename p q d =
     (case entry d p of
        None \<Rightarrow> (Inl (Sentinel NotExist), d)
      | Some n \<Rightarrow>
          if entry d q = Some Directory then (Inl (Plain ''is a directory''), d)
          else (Inr (), put_node q n (drop_node p d)))"

definition os_remove :: "string \<Rightarrow> disk \<Rightarrow> (err + unit) \<times> disk" where
  "os_remove p d =
     (case entry d p of
        None \<Rightarrow> (Inl (Sentinel NotExist), d)
      | Some (Regular _ _) \<Rightarrow> (Inr (), drop_node p d)
      | Some Directory \<Rightarrow>
          if list_ex (\<lambda>(q, _). has_prefix (p @ ''/'') q) (dk_nodes d)
          then (Inl (Plain ''directory not empty''), d) else (Inr (), drop_node p d))"

definition os_open_node :: "string \<Rightarrow> disk \<Rightarrow> (err + node) \<times> disk" where
  "os_open_node p d = (case entry d p of None \<Rightarrow> Inl (Sentinel NotExist) | Some n \<Rightarrow> Inr n, d)"

text \<open>Calls that leave the entries alone: stat, sync, close, opening the root.\<close>

definition os_nop :: "(disk, err + unit) state" where
  "os_nop = syscall (\<lambda>d. (Inr (), d))"

section \<open>The store\<close>

record local_store =
  ls_path :: string

definition new_local_store :: "string \<Rightarrow> err + local_store" where
  "new_local_store p =
     (if p = '''' then Inl (Plain ''storage path must not be empty'') else Inr \<lparr>ls_path = p\<rparr>)"

definition local_unavailable :: "string \<Rightarrow> err \<Rightarrow> err" where
  "local_unavailable what e = Wrapped what [Sentinel FileUnavailable, e]"

text \<open>\<open>Start\<close> creates and opens the storage directory; a second one closes what it opened.\<close>

definition local_start :: "(disk, err + unit) state" where
  "local_start = do {
     m \<leftarrow> os_nop;
     case m of
       Inl e \<Rightarrow> State_Monad.return (Inl (local_unavailable ''create storage directory'' e))
     | Inr _ \<Rightarrow> do {
         o1 \<leftarrow> os_nop;
         case o1 of
           Inl e \<Rightarrow> State_Monad.return (Inl (local_unavailable ''open storage directory'' e))
         | Inr _ \<Rightarrow> do {
             d \<leftarrow> State_Monad.get;
             if dk_root d then do { _ \<leftarrow> os_nop; State_Monad.return (Inr ()) }
             else do { _ \<leftarrow> State_Monad.set (d\<lparr>dk_root := True\<rparr>); State_Monad.return (Inr ()) } } } }"

definition local_stop :: "(disk, err + unit) state" where
  "local_stop = do {
     d \<leftarrow> State_Monad.get;
     if \<not> dk_root d then State_Monad.return (Inr ())
     else do {
       r \<leftarrow> os_nop;
       d1 \<leftarrow> State_Monad.get;
       _ \<leftarrow> State_Monad.set (d1\<lparr>dk_root := False\<rparr>);
       State_Monad.return r } }"

definition active_root :: "(disk, err + unit) state" where
  "active_root = do {
     d \<leftarrow> State_Monad.get;
     State_Monad.return (if dk_root d then Inr () else Inl (Sentinel FileUnavailable)) }"

definition local_health :: "(disk, err + unit) state" where
  "local_health = do {
     a \<leftarrow> active_root;
     case a of
       Inl e \<Rightarrow> State_Monad.return (Inl e)
     | Inr _ \<Rightarrow> do {
         r \<leftarrow> os_nop;
         case r of
           Inl e \<Rightarrow> State_Monad.return (Inl (local_unavailable ''check storage directory'' e))
         | Inr _ \<Rightarrow> State_Monad.return (Inr ()) } }"

text \<open>
  \<open>contextReader\<close> and \<open>io.LimitReader\<close>: a context that ends after \<open>k\<close> bytes were read, and the
  first \<open>n\<close> bytes of a reader.
\<close>

definition context_reader :: "nat option \<Rightarrow> reader \<Rightarrow> reader" where
  "context_reader ctx r =
     (case ctx of
        None \<Rightarrow> r
      | Some k \<Rightarrow> if k \<le> length (fst r) then (take k (fst r), Some (Plain ''context'')) else r)"

definition limit_reader :: "nat \<Rightarrow> reader \<Rightarrow> reader" where
  "limit_reader n r = (if n \<le> length (fst r) then (take n (fst r), None) else r)"

definition temporary :: "uuid_pkg \<Rightarrow> object_key \<Rightarrow> string" where
  "temporary P k = u_string P (k_owner k) @ ''/'' @ ''.'' @ u_string P (k_object k) @ ''.tmp''"

text \<open>\<open>io.CopyBuffer\<close>: all bytes are written, then the reader's own error is reported.\<close>

definition copy_all :: "string \<Rightarrow> reader \<Rightarrow> (disk, err + int) state" where
  "copy_all p r = do {
     w \<leftarrow> (if fst r = '''' then State_Monad.return (Inr ()) else os_write p (fst r));
     State_Monad.return (case w of
         Inl e \<Rightarrow> Inl e
       | Inr _ \<Rightarrow> (case snd r of None \<Rightarrow> Inr (int (length (fst r))) | Some e \<Rightarrow> Inl e)) }"

text \<open>
  The body between opening the temporary file and the deferred clean-up: copying, then syncing,
  closing and renaming.  The flag is \<open>committed\<close>.
\<close>

definition put_commit :: "uuid_pkg \<Rightarrow> object_key \<Rightarrow> int \<Rightarrow> (disk, (err + int) \<times> bool) state" where
  "put_commit P k n = do {
     s \<leftarrow> os_nop;
     case s of
       Inl e \<Rightarrow> State_Monad.return (Inl (local_unavailable ''sync temporary object'' e), False)
     | Inr _ \<Rightarrow> do {
         x \<leftarrow> os_nop;
         case x of
           Inl e \<Rightarrow> State_Monad.return (Inl (local_unavailable ''close temporary object'' e), False)
         | Inr _ \<Rightarrow> do {
             r \<leftarrow> syscall (os_rename (temporary P k) (key_string P k));
             State_Monad.return (case r of
                 Inl e \<Rightarrow> (Inl (local_unavailable ''commit object'' e), False)
               | Inr _ \<Rightarrow> (Inr n, True)) } } }"

definition put_body ::
  "uuid_pkg \<Rightarrow> nat option \<Rightarrow> object_key \<Rightarrow> reader \<Rightarrow> int \<Rightarrow> (disk, (err + int) \<times> bool) state" where
  "put_body P ctx k content max_bytes = do {
     c \<leftarrow> copy_all (temporary P k) (limit_reader (nat (max_bytes + 1)) (context_reader ctx content));
     case c of
       Inl e \<Rightarrow> State_Monad.return (Inl (local_unavailable ''write temporary object'' e), False)
     | Inr n \<Rightarrow>
         if max_bytes < n then State_Monad.return (Inl (Sentinel TooLarge), False)
         else put_commit P k n }"

definition local_put ::
  "unicode \<Rightarrow> uuid_pkg \<Rightarrow> nat option \<Rightarrow> object_key \<Rightarrow> reader option \<Rightarrow> int \<Rightarrow> (disk, err + int) state" where
  "local_put U P ctx k content0 max_bytes =
     (case content0 of
        None \<Rightarrow> State_Monad.return (Inl (Sentinel InvalidKey))
      | Some content \<Rightarrow>
          if validate_key U P k \<noteq> Inr () \<or> max_bytes < 1 then State_Monad.return (Inl (Sentinel InvalidKey))
          else do {
            a \<leftarrow> active_root;
            case a of
              Inl e \<Rightarrow> State_Monad.return (Inl e)
            | Inr _ \<Rightarrow> do {
                m \<leftarrow> syscall (os_mkdir (u_string P (k_owner k)));
                case m of
                  Inl e \<Rightarrow> State_Monad.return (Inl (local_unavailable ''create object directory'' e))
                | Inr _ \<Rightarrow> do {
                    c \<leftarrow> syscall (os_create (temporary P k));
                    case c of
                      Inl e \<Rightarrow> State_Monad.return (Inl (local_unavailable ''create temporary object'' e))
                    | Inr _ \<Rightarrow> do {
                        b \<leftarrow> put_body P ctx k content max_bytes;
                        _ \<leftarrow> os_nop;
                        _ \<leftarrow> (if snd b then State_Monad.return (Inr ())
                              else syscall (os_remove (temporary P k)));
                        State_Monad.return (fst b) } } } })"

text \<open>\<open>Open\<close>: the file is opened, then its information decides whether it is an object.\<close>

definition open_info :: "node \<Rightarrow> (disk, err + object) state" where
  "open_info n = do {
     s \<leftarrow> os_nop;
     case s of
       Inl e \<Rightarrow> do {
         _ \<leftarrow> os_nop;
         State_Monad.return (Inl (local_unavailable ''read object information'' e)) }
     | Inr _ \<Rightarrow>
         (case n of
            Directory \<Rightarrow> do { _ \<leftarrow> os_nop; State_Monad.return (Inl (Sentinel FileNotFound)) }
          | Regular c t \<Rightarrow> State_Monad.return
              (Inr \<lparr>ob_content = c, ob_size = int (length c), ob_modified = t\<rparr>)) }"

definition local_open :: "unicode \<Rightarrow> uuid_pkg \<Rightarrow> object_key \<Rightarrow> (disk, err + object) state" where
  "local_open U P k =
     (case validate_key U P k of
        Inl e \<Rightarrow> State_Monad.return (Inl e)
      | Inr _ \<Rightarrow> do {
          a \<leftarrow> active_root;
          case a of
            Inl e \<Rightarrow> State_Monad.return (Inl e)
          | Inr _ \<Rightarrow> do {
              f \<leftarrow> syscall (os_open_node (key_string P k));
              case f of
                Inl e \<Rightarrow>
                  if err_is NotExist e then State_Monad.return (Inl (Sentinel FileNotFound))
                  else State_Monad.return (Inl (local_unavailable ''open object'' e))
              | Inr n \<Rightarrow> open_info n } })"

definition local_delete :: "unicode \<Rightarrow> uuid_pkg \<Rightarrow> object_key \<Rightarrow> (disk, err + unit) state" where
  "local_delete U P k =
     (case validate_key U P k of
        Inl e \<Rightarrow> State_Monad.return (Inl e)
      | Inr _ \<Rightarrow> do {
          a \<leftarrow> active_root;
          case a of
            Inl e \<Rightarrow> State_Monad.return (Inl e)
          | Inr _ \<Rightarrow> do {
              r \<leftarrow> syscall (os_remove (key_string P k));
              case r of
                Inl e \<Rightarrow>
                  if err_is NotExist e then State_Monad.return (Inl (Sentinel FileNotFound))
                  else State_Monad.return (Inl (local_unavailable ''delete object'' e))
              | Inr _ \<Rightarrow> State_Monad.return (Inr ()) } })"

definition local_object_store :: "unicode \<Rightarrow> uuid_pkg \<Rightarrow> nat option \<Rightarrow> disk object_store" where
  "local_object_store U P ctx = \<lparr>
     os_put = local_put U P ctx, os_open = local_open U P, os_delete = local_delete U P\<rparr>"

end
