(* ===== verification/LocalSpec.thy ===== *)
theory LocalSpec
  imports LocalStore
begin

text \<open>
  What the local store does to the directory under every sequence of failing system calls: an
  object is either untouched or completely in place, whatever call fails and whether or not it took
  effect; without failures nothing but the owner's directory remains of an upload that was refused.
\<close>

section \<open>System calls\<close>

text \<open>Failing calls report neither the store's own sentinel nor a missing file.\<close>

definition os_error :: "err \<Rightarrow> bool" where
  "os_error e \<longleftrightarrow> \<not> err_is NotExist e \<and> \<not> err_is FileNotFound e"

definition os_faults :: "disk \<Rightarrow> bool" where
  "os_faults d \<longleftrightarrow> list_all (\<lambda>x. case x of None \<Rightarrow> True | Some f \<Rightarrow> os_error (f_error f)) (dk_faults d)"

text \<open>The disk after the outcome of a call was consumed.\<close>

definition quiet :: "disk \<Rightarrow> disk \<Rightarrow> bool" where
  "quiet d d1 \<longleftrightarrow> dk_nodes d1 = dk_nodes d \<and> dk_root d1 = dk_root d \<and> os_faults d1 \<and>
     (dk_faults d = [] \<longrightarrow> dk_faults d1 = [])"

lemma quiet_next: "os_faults d \<Longrightarrow> next_call d = (x, d1) \<Longrightarrow>
    quiet d d1 \<and> (case x of None \<Rightarrow> True | Some f \<Rightarrow> os_error (f_error f) \<and> dk_faults d \<noteq> [])"
  by (auto simp: next_call_def quiet_def os_faults_def split: list.splits option.splits)

lemma syscall_spec:
  assumes "os_faults d"
  shows "wp (syscall f) (\<lambda>r d'. \<exists>d1. quiet d d1 \<and>
    ((r, d') = f d1 \<or>
     (\<exists>e. r = Inl e \<and> os_error e \<and> dk_faults d \<noteq> [] \<and> (d' = d1 \<or> d' = snd (f d1))))) d"
proof -
  obtain x d1 where n: "next_call d = (x, d1)" by (cases "next_call d")
  show ?thesis
    using quiet_next [OF assms n]
    by (cases x) (auto simp: syscall_def wp_rules n)
qed

lemma os_nop_spec:
  assumes "os_faults d"
  shows "wp os_nop (\<lambda>r d'. quiet d d' \<and> (dk_faults d = [] \<longrightarrow> r = Inr ()) \<and>
    (\<forall>e. r = Inl e \<longrightarrow> os_error e)) d"
  unfolding os_nop_def
  by (rule wp_mono [OF syscall_spec [OF assms]]) auto

lemma entry_put_node [simp]: "entry (put_node p n d) = (\<lambda>q. if q = p then Some n else entry d q)"
  by (simp add: put_node_def update_conv' fun_eq_iff)

lemma entry_drop_node [simp]: "entry (drop_node p d) = (\<lambda>q. if q = p then None else entry d q)"
  by (simp add: drop_node_def delete_conv' fun_eq_iff)

lemma nodes_frame [simp]:
  "dk_root (put_node p n d) = dk_root d" "dk_faults (put_node p n d) = dk_faults d"
  "dk_root (drop_node p d) = dk_root d" "dk_faults (drop_node p d) = dk_faults d"
  "os_faults (put_node p n d) = os_faults d" "os_faults (drop_node p d) = os_faults d"
  by (simp_all add: put_node_def drop_node_def os_faults_def)

section \<open>The names of an object\<close>

lemma names_distinct:
  assumes "uuid_laws P"
  shows "key_string P j \<noteq> u_string P i" "key_string P j \<noteq> temporary P k" "temporary P k \<noteq> u_string P i"
    "parent (temporary P k) = u_string P (k_owner k)"
proof -
  note own = uuid_string_plain [OF assms]
  show "key_string P j \<noteq> u_string P i" "temporary P k \<noteq> u_string P i"
    using own(2) [of i] unfolding key_string_def temporary_def by (metis append_Cons in_set_conv_decomp)+
  have split: "takeWhile (\<lambda>c. c \<noteq> CHR ''/'') (u_string P i @ CHR ''/'' # x) = u_string P i"
    "dropWhile (\<lambda>c. c \<noteq> CHR ''/'') (u_string P i @ CHR ''/'' # x) = CHR ''/'' # x" for i x
    using own(2) [of i] by (subst takeWhile_append2 dropWhile_append2; force)+
  then show "parent (temporary P k) = u_string P (k_owner k)"
    by (simp add: parent_def temporary_def)
  show "key_string P j \<noteq> temporary P k"
  proof
    assume "key_string P j = temporary P k"
    then have "u_string P (k_object j) @ CHR ''.'' # k_ext j = CHR ''.'' # u_string P (k_object k) @ ''.tmp''"
      using split(2) by (metis (no_types, lifting) key_string_def temporary_def append_Cons append_Nil list.inject)
    then show False using own(1,3) [of "k_object j"] by (cases "u_string P (k_object j)") auto
  qed
qed

section \<open>Put\<close>

lemma limited_whole:
  assumes "limit_reader (nat (m + 1)) (context_reader ctx (bs, e)) = (c, None)" "int (length c) \<le> m"
  shows "c = bs \<and> e = None"
  using assms by (auto simp: limit_reader_def context_reader_def split: option.splits if_splits)

text \<open>
  A disk reached while writing an object: everything but the owner's directory and the temporary
  file is as it was, and the temporary file is \<open>t\<close>.
\<close>

definition staged :: "uuid_pkg \<Rightarrow> object_key \<Rightarrow> disk \<Rightarrow> node option \<Rightarrow> disk \<Rightarrow> bool" where
  "staged P k d0 t d \<longleftrightarrow> os_faults d \<and> dk_root d = dk_root d0 \<and> (dk_faults d0 = [] \<longrightarrow> dk_faults d = []) \<and>
     (\<forall>p. p \<noteq> u_string P (k_owner k) \<longrightarrow> p \<noteq> temporary P k \<longrightarrow> entry d p = entry d0 p) \<and>
     entry d (temporary P k) = t"

lemma staged_quiet: "staged P k d0 t d \<Longrightarrow> quiet d d1 \<Longrightarrow> staged P k d0 t d1"
  by (auto simp: staged_def quiet_def)

lemma staged_start: "os_faults d \<Longrightarrow> staged P k d (entry d (temporary P k)) d"
  by (simp add: staged_def)

lemma staged_next:
  assumes "staged P k d0 t d"
  shows "os_faults d" "dk_faults d0 = [] \<Longrightarrow> dk_faults d = []"
  using assms by (auto simp: staged_def)

lemma nop_stage:
  assumes "staged P k d0 t d"
  shows "wp os_nop (\<lambda>r d'. staged P k d0 t d' \<and> (dk_faults d0 = [] \<longrightarrow> r = Inr ())) d"
  by (rule wp_mono [OF os_nop_spec [OF staged_next(1) [OF assms]]])
    (use assms staged_quiet staged_next in blast)

text \<open>The calls change one entry each, and no more of the disk.\<close>

definition at_most :: "string set \<Rightarrow> disk \<Rightarrow> disk \<Rightarrow> bool" where
  "at_most A d d' \<longleftrightarrow> dk_root d' = dk_root d \<and> dk_faults d' = dk_faults d \<and>
     (\<forall>q. q \<notin> A \<longrightarrow> entry d' q = entry d q)"

lemma at_most_refl: "at_most A d d"
  by (simp add: at_most_def)

lemma at_most_put: "p \<in> A \<Longrightarrow> at_most A d (put_node p n d)"
  by (auto simp: at_most_def)

lemma at_most_drop: "p \<in> A \<Longrightarrow> at_most A d (drop_node p d)"
  by (auto simp: at_most_def)

lemma mkdir_at_most: "at_most {p} d (snd (os_mkdir p d))"
  by (simp add: os_mkdir_def at_most_refl at_most_put split: option.split node.split)

lemma create_at_most: "at_most {p} d (snd (os_create p d))"
  by (simp add: os_create_def at_most_refl at_most_put split: option.split node.split)

lemma create_result:
  "fst (os_create p d) = Inr () \<Longrightarrow> entry d p = None \<and> entry (snd (os_create p d)) p = Some (Regular '''' (dk_now d))"
  "fst (os_create p d) \<noteq> Inr () \<Longrightarrow> snd (os_create p d) = d"
  by (simp_all add: os_create_def split: option.split_asm node.split_asm)

lemma staged_at_most:
  assumes "staged P k d0 t d" "at_most {u_string P (k_owner k), temporary P k} d d'"
  shows "staged P k d0 (entry d' (temporary P k)) d'"
  using assms unfolding staged_def at_most_def os_faults_def by simp

lemma at_most_quiet: "quiet d d1 \<Longrightarrow> staged P k d0 t d \<Longrightarrow> at_most A d1 d' \<Longrightarrow> temporary P k \<notin> A \<Longrightarrow>
    A \<subseteq> {u_string P (k_owner k)} \<Longrightarrow> staged P k d0 t d'"
  using staged_quiet [of P k d0 t d d1]
  by (auto simp: at_most_def staged_def os_faults_def)

lemma mkdir_stage:
  assumes "uuid_laws P" "staged P k d0 t d"
  shows "wp (syscall (os_mkdir (u_string P (k_owner k)))) (\<lambda>r d'. staged P k d0 t d') d"
proof (rule wp_mono [OF syscall_spec [OF staged_next(1) [OF assms(2)]]], elim exE conjE)
  fix r d' d1
  assume q: "quiet d d1" and "(r, d') = os_mkdir (u_string P (k_owner k)) d1 \<or>
    (\<exists>e. r = Inl e \<and> os_error e \<and> dk_faults d \<noteq> [] \<and>
       (d' = d1 \<or> d' = snd (os_mkdir (u_string P (k_owner k)) d1)))"
  then have "d' = d1 \<or> d' = snd (os_mkdir (u_string P (k_owner k)) d1)"
    by (metis snd_conv)
  then show "staged P k d0 t d'"
    using staged_quiet [OF assms(2) q] names_distinct(3) [OF assms(1)]
      at_most_quiet [OF q assms(2) mkdir_at_most] by auto
qed

lemma create_stage:
  assumes "uuid_laws P" "staged P k d0 t d"
  shows "wp (syscall (os_create (temporary P k))) (\<lambda>r d'. \<exists>u. staged P k d0 u d' \<and>
    (r = Inr () \<longrightarrow> t = None \<and> (\<exists>n. u = Some (Regular '''' n))) \<and>
    (r \<noteq> Inr () \<longrightarrow> dk_faults d0 = [] \<longrightarrow> u = t)) d"
proof (rule wp_mono [OF syscall_spec [OF staged_next(1) [OF assms(2)]]], elim exE conjE)
  fix r d' d1
  let ?f = "os_create (temporary P k)"
  assume q: "quiet d d1" and c: "(r, d') = ?f d1 \<or>
    (\<exists>e. r = Inl e \<and> os_error e \<and> dk_faults d \<noteq> [] \<and> (d' = d1 \<or> d' = snd (?f d1)))"
  have d1: "staged P k d0 t d1" by (rule staged_quiet [OF assms(2) q])
  have "at_most {u_string P (k_owner k), temporary P k} d1 (snd (?f d1))"
    using create_at_most [of "temporary P k" d1] by (simp add: at_most_def)
  then have "staged P k d0 (entry (snd (?f d1)) (temporary P k)) (snd (?f d1))"
    by (rule staged_at_most [OF d1])
  moreover have "entry d1 (temporary P k) = t" using d1 by (simp add: staged_def)
  ultimately show "\<exists>u. staged P k d0 u d' \<and> (r = Inr () \<longrightarrow> t = None \<and> (\<exists>n. u = Some (Regular '''' n))) \<and>
      (r \<noteq> Inr () \<longrightarrow> dk_faults d0 = [] \<longrightarrow> u = t)"
    using c d1 create_result [of "temporary P k" d1] staged_next(2) [OF assms(2)]
    by (cases "?f d1") (smt (verit) fst_conv snd_conv Inl_Inr_False prod.inject)
qed

lemma write_stage:
  assumes "staged P k d0 (Some (Regular c n)) d"
  shows "wp (os_write (temporary P k) bs) (\<lambda>r d'. \<exists>c' n'. staged P k d0 (Some (Regular c' n')) d' \<and>
    (r = Inr () \<longrightarrow> c' = c @ bs) \<and> (dk_faults d0 = [] \<longrightarrow> r = Inr ())) d"
proof -
  obtain x d1 where n: "next_call d = (x, d1)" by (cases "next_call d")
  show ?thesis
    using quiet_next [OF staged_next(1) [OF assms] n] assms
    by (cases x) (auto simp: os_write_def wp_rules n staged_def quiet_def os_append_def)
qed

lemma copy_stage:
  assumes "staged P k d0 (Some (Regular '''' n)) d"
  shows "wp (copy_all (temporary P k) r) (\<lambda>x d'. \<exists>c' n'. staged P k d0 (Some (Regular c' n')) d' \<and>
    (\<forall>m. x = Inr m \<longrightarrow> c' = fst r \<and> snd r = None \<and> m = int (length (fst r))) \<and>
    (dk_faults d0 = [] \<longrightarrow> snd r = None \<longrightarrow> x = Inr (int (length (fst r))))) d"
proof (cases "fst r = ''''")
  case True
  then show ?thesis using assms by (auto simp: copy_all_def wp_rules split: option.splits)
next
  case False
  then show ?thesis
    unfolding copy_all_def wp_bind if_not_P [OF False]
    by (intro wp_mono [OF write_stage [OF assms]]) (auto simp: wp_rules split: option.splits sum.splits)
qed

text \<open>
  The disk of a write that reached the rename: an object is as it was or completely in place, and
  every other object is untouched.
\<close>

definition landed :: "uuid_pkg \<Rightarrow> object_key \<Rightarrow> string \<Rightarrow> disk \<Rightarrow> bool" where
  "landed P k bs d \<longleftrightarrow> (\<exists>t. entry d (key_string P k) = Some (Regular bs t))"

definition placed ::
  "uuid_pkg \<Rightarrow> object_key \<Rightarrow> disk \<Rightarrow> string \<Rightarrow> err option \<Rightarrow> int \<Rightarrow> disk \<Rightarrow> bool" where
  "placed P k d0 bs e m d \<longleftrightarrow> os_faults d \<and> dk_root d = dk_root d0 \<and>
     (dk_faults d0 = [] \<longrightarrow> dk_faults d = []) \<and>
     (\<forall>p. p \<notin> {u_string P (k_owner k), temporary P k, key_string P k} \<longrightarrow> entry d p = entry d0 p) \<and>
     (entry d (key_string P k) = entry d0 (key_string P k) \<or>
      e = None \<and> int (length bs) \<le> m \<and> landed P k bs d)"

lemma staged_placed: "uuid_laws P \<Longrightarrow> staged P k d0 t d \<Longrightarrow> placed P k d0 bs e m d"
  using names_distinct [of P] by (auto simp: staged_def placed_def)

lemma placed_quiet: "placed P k d0 bs e m d \<Longrightarrow> quiet d d1 \<Longrightarrow> placed P k d0 bs e m d1"
  by (auto simp: placed_def quiet_def landed_def)

lemma placed_drop_temporary:
  "uuid_laws P \<Longrightarrow> placed P k d0 bs e m d \<Longrightarrow> placed P k d0 bs e m (drop_node (temporary P k) d)"
  using names_distinct [of P] by (auto simp: placed_def landed_def)

lemma rename_stage:
  assumes "uuid_laws P" "staged P k d0 (Some (Regular bs n)) d" "int (length bs) \<le> m"
  shows "wp (syscall (os_rename (temporary P k) (key_string P k))) (\<lambda>r d'. placed P k d0 bs None m d' \<and>
    (r = Inr () \<longrightarrow> landed P k bs d' \<and> entry d' (temporary P k) = None) \<and>
    (dk_faults d0 = [] \<longrightarrow> r \<noteq> Inr () \<longrightarrow> staged P k d0 (Some (Regular bs n)) d')) d"
proof (rule wp_mono [OF syscall_spec [OF staged_next(1) [OF assms(2)]]], elim exE conjE)
  fix r d' d1
  let ?f = "os_rename (temporary P k) (key_string P k)"
  assume q: "quiet d d1" and c: "(r, d') = ?f d1 \<or>
    (\<exists>e. r = Inl e \<and> os_error e \<and> dk_faults d \<noteq> [] \<and> (d' = d1 \<or> d' = snd (?f d1)))"
  have d1: "staged P k d0 (Some (Regular bs n)) d1" by (rule staged_quiet [OF assms(2) q])
  have names: "key_string P k \<noteq> temporary P k" "key_string P k \<noteq> u_string P (k_owner k)"
    using names_distinct [OF assms(1)] by auto
  let ?d2 = "put_node (key_string P k) (Regular bs n) (drop_node (temporary P k) d1)"
  have f: "?f d1 = (Inl (Plain ''is a directory''), d1) \<or> ?f d1 = (Inr (), ?d2)"
    using d1 by (simp add: os_rename_def staged_def)
  have d2: "landed P k bs ?d2" "entry ?d2 (temporary P k) = None" "placed P k d0 bs None m ?d2"
    using names d1 assms(3) by (auto simp: landed_def placed_def staged_def)
  have "d' = d1 \<or> d' = ?d2" "r = Inr () \<Longrightarrow> d' = ?d2" using c f by auto
  moreover have "d' = d1" if "dk_faults d0 = []" "r \<noteq> Inr ()"
    using that c f staged_next(2) [OF assms(2)] by auto
  ultimately show "placed P k d0 bs None m d' \<and>
      (r = Inr () \<longrightarrow> landed P k bs d' \<and> entry d' (temporary P k) = None) \<and>
      (dk_faults d0 = [] \<longrightarrow> r \<noteq> Inr () \<longrightarrow> staged P k d0 (Some (Regular bs n)) d')"
    using d1 d2 staged_placed [OF assms(1) d1] by auto
qed

text \<open>The result of writing the object, with the \<open>committed\<close> flag of the deferred clean-up.\<close>

definition written ::
  "uuid_pkg \<Rightarrow> object_key \<Rightarrow> disk \<Rightarrow> string \<Rightarrow> err option \<Rightarrow> int \<Rightarrow> (err + int) \<times> bool \<Rightarrow> disk \<Rightarrow> bool" where
  "written P k d0 bs e m b d \<longleftrightarrow> placed P k d0 bs e m d \<and>
     (case fst b of
        Inr n \<Rightarrow> snd b \<and> e = None \<and> n = int (length bs) \<and> n \<le> m \<and> landed P k bs d \<and>
          entry d (temporary P k) = None
      | Inl _ \<Rightarrow> \<not> snd b \<and>
          (dk_faults d0 = [] \<longrightarrow> (\<exists>c n. staged P k d0 (Some (Regular c n)) d)))"

lemma written_failed:
  "uuid_laws P \<Longrightarrow> staged P k d0 (Some (Regular c n)) d \<Longrightarrow> written P k d0 bs e m (Inl x, False) d"
  by (auto simp: written_def intro: staged_placed)

lemma put_commit_spec:
  assumes "uuid_laws P" "staged P k d0 (Some (Regular bs t)) d" "int (length bs) \<le> m"
  shows "wp (put_commit P k (int (length bs))) (written P k d0 bs None m) d"
proof -
  have rename: "wp (syscall (os_rename (temporary P k) (key_string P k))) (\<lambda>x. 
      written P k d0 bs None m (case x of
        Inl y \<Rightarrow> (Inl (local_unavailable ''commit object'' y), False)
      | Inr _ \<Rightarrow> (Inr (int (length bs)), True))) d1"
    if "staged P k d0 (Some (Regular bs t)) d1" for d1
    by (rule wp_mono [OF rename_stage [OF assms(1) that assms(3)]])
      (use assms(3) in \<open>auto simp: written_def split: sum.splits\<close>)
  have close: "wp os_nop (\<lambda>x d'. case x of
        Inl y \<Rightarrow> written P k d0 bs None m (Inl (local_unavailable ''close temporary object'' y), False) d'
      | Inr _ \<Rightarrow> wp (syscall (os_rename (temporary P k) (key_string P k))) (\<lambda>x.
          written P k d0 bs None m (case x of
            Inl y \<Rightarrow> (Inl (local_unavailable ''commit object'' y), False)
          | Inr _ \<Rightarrow> (Inr (int (length bs)), True))) d') d1"
    if "staged P k d0 (Some (Regular bs t)) d1" for d1
  proof (rule wp_mono [OF nop_stage [OF that]], goal_cases)
    case (1 r d2)
    then show ?case using rename [of d2] written_failed [OF assms(1), of k d0 bs t d2] by (cases r) simp_all
  qed
  show ?thesis
    unfolding put_commit_def wp_rules
  proof (rule wp_mono [OF nop_stage [OF assms(2)]], goal_cases)
    case (1 r d1)
    then show ?case
      using close [of d1] written_failed [OF assms(1), of k d0 bs t d1]
      by (cases r) simp_all
  qed
qed

lemma put_body_spec:
  assumes "uuid_laws P" "staged P k d0 (Some (Regular '''' n)) d"
  shows "wp (put_body P ctx k (bs, e) m) (written P k d0 bs e m) d"
proof -
  define r where "r = limit_reader (nat (m + 1)) (context_reader ctx (bs, e))"
  have commit: "wp (put_commit P k (int (length (fst r)))) (written P k d0 bs e m) d1"
    if "staged P k d0 (Some (Regular (fst r) t)) d1" "int (length (fst r)) \<le> m" "snd r = None" for t d1
    using put_commit_spec [OF assms(1) that(1,2)] limited_whole [of m ctx bs e "fst r"] that r_def
    by (auto simp: prod_eq_iff)
  show ?thesis
    unfolding put_body_def r_def [symmetric] wp_rules
  proof (rule wp_mono [OF copy_stage [OF assms(2), of r]], elim exE conjE)
    fix x :: "err + int" and d1 c' n'
    assume d1: "staged P k d0 (Some (Regular c' n')) d1"
      and "\<forall>m. x = Inr m \<longrightarrow> c' = fst r \<and> snd r = None \<and> m = int (length (fst r))"
    then show "case x of
        Inl y \<Rightarrow> written P k d0 bs e m (Inl (local_unavailable ''write temporary object'' y), False) d1
      | Inr n \<Rightarrow> if m < n then written P k d0 bs e m (Inl (Sentinel TooLarge), False) d1
          else wp (put_commit P k n) (written P k d0 bs e m) d1"
      using commit [of n' d1] written_failed [OF assms(1) d1] by (cases x) simp_all
  qed
qed

text \<open>The outcome of \<open>Put\<close>.\<close>

definition put_done ::
  "uuid_pkg \<Rightarrow> object_key \<Rightarrow> disk \<Rightarrow> string \<Rightarrow> err option \<Rightarrow> int \<Rightarrow> err + int \<Rightarrow> disk \<Rightarrow> bool" where
  "put_done P k d0 bs e m r d \<longleftrightarrow> placed P k d0 bs e m d \<and>
     (case r of
        Inr n \<Rightarrow> e = None \<and> n = int (length bs) \<and> n \<le> m \<and> landed P k bs d
      | Inl _ \<Rightarrow> dk_faults d0 = [] \<longrightarrow> staged P k d0 (entry d0 (temporary P k)) d)"

lemma put_early:
  "uuid_laws P \<Longrightarrow> staged P k d0 u d \<Longrightarrow> (dk_faults d0 = [] \<Longrightarrow> u = entry d0 (temporary P k)) \<Longrightarrow>
   put_done P k d0 bs e m (Inl x) d"
  by (auto simp: put_done_def intro: staged_placed)

lemma remove_cases:
  "snd (os_remove p d) = d \<or> snd (os_remove p d) = drop_node p d"
  "entry d p = Some (Regular c n) \<Longrightarrow> os_remove p d = (Inr (), drop_node p d)"
  by (simp_all add: os_remove_def split: option.split node.split)

lemma written_quiet: "written P k d0 bs e m b d \<Longrightarrow> quiet d d1 \<Longrightarrow> written P k d0 bs e m b d1"
  using placed_quiet [of P k d0 bs e m d d1] staged_quiet [of P k d0 _ d d1]
  by (auto simp: written_def quiet_def landed_def split: sum.splits)

lemma written_faults: "written P k d0 bs e m b d \<Longrightarrow> os_faults d"
  by (simp add: written_def placed_def)

lemma commit_done: "written P k d0 bs e m b d \<Longrightarrow> snd b \<Longrightarrow> put_done P k d0 bs e m (fst b) d"
  by (auto simp: written_def put_done_def split: sum.splits)

lemma cleanup_stage:
  assumes "uuid_laws P" "written P k d0 bs e m b d" "\<not> snd b" "entry d0 (temporary P k) = None"
  shows "wp (syscall (os_remove (temporary P k))) (\<lambda>_. put_done P k d0 bs e m (fst b)) d"
proof (rule wp_mono [OF syscall_spec [OF written_faults [OF assms(2)]]], elim exE conjE)
  fix r d' d1
  let ?f = "os_remove (temporary P k)"
  assume q: "quiet d d1" and c: "(r, d') = ?f d1 \<or>
    (\<exists>e. r = Inl e \<and> os_error e \<and> dk_faults d \<noteq> [] \<and> (d' = d1 \<or> d' = snd (?f d1)))"
  have w: "written P k d0 bs e m b d1" by (rule written_quiet [OF assms(2) q])
  then obtain x where b: "fst b = Inl x" using assms(3) by (auto simp: written_def split: sum.splits)
  have p: "placed P k d0 bs e m d1" "placed P k d0 bs e m (drop_node (temporary P k) d1)"
    using w placed_drop_temporary [OF assms(1)] by (auto simp: written_def)
  have "d' = d1 \<or> d' = drop_node (temporary P k) d1"
    using c remove_cases(1) [of "temporary P k" d1] by (metis snd_conv)
  then have "placed P k d0 bs e m d'" using p by auto
  moreover have "staged P k d0 None d'" if none: "dk_faults d0 = []"
  proof -
    obtain c n where s: "staged P k d0 (Some (Regular c n)) d1"
      using w b none by (auto simp: written_def)
    have "dk_faults d = []" using assms(2) none by (simp add: written_def placed_def)
    then have "d' = drop_node (temporary P k) d1"
      using c s remove_cases(2) [of d1 "temporary P k" c n] by (auto simp: staged_def)
    then show ?thesis using s by (auto simp: staged_def)
  qed
  ultimately show "put_done P k d0 bs e m (fst b) d'" by (simp add: put_done_def b assms(4))
qed

lemma finish_stage:
  assumes "uuid_laws P" "entry d0 (temporary P k) = None" "written P k d0 bs e m b d"
  shows "wp os_nop (\<lambda>_. wp (if snd b then State_Monad.return (Inr ()) else syscall (os_remove (temporary P k)))
    (\<lambda>_. put_done P k d0 bs e m (fst b))) d"
proof (rule wp_mono [OF os_nop_spec [OF written_faults [OF assms(3)]]], elim conjE)
  fix r d1 assume "quiet d d1"
  then have "written P k d0 bs e m b d1" by (rule written_quiet [OF assms(3)])
  then show "wp (if snd b then State_Monad.return (Inr ()) else syscall (os_remove (temporary P k)))
      (\<lambda>_. put_done P k d0 bs e m (fst b)) d1"
    using cleanup_stage [OF assms(1) _ _ assms(2)] commit_done by (simp add: wp_rules)
qed

lemma local_put_spec:
  assumes "unicode_laws U" "uuid_laws P" "os_faults d"
  shows "wp (local_put U P ctx k (Some (bs, e)) m) (\<lambda>r d'. put_done P k d bs e m r d' \<and>
    (\<forall>n. r = Inr n \<longrightarrow> allowed_extension (k_ext k) \<and> dk_root d)) d"
proof -
  let ?t = "entry d (temporary P k)"
  define post :: "err + int \<Rightarrow> disk \<Rightarrow> bool" where
    "post = (\<lambda>r d'. put_done P k d bs e m r d' \<and>
       (\<forall>n. r = Inr n \<longrightarrow> allowed_extension (k_ext k) \<and> dk_root d))"
  have early: "post (Inl x) d1" if "staged P k d u d1" "dk_faults d = [] \<Longrightarrow> u = ?t" for x d1 u
    using put_early [OF assms(2) that] by (simp add: post_def)
  have now: "post (Inl x) d" for x by (rule early [OF staged_start [OF assms(3)]]) simp
  have body: "wp (put_body P ctx k (bs, e) m) (\<lambda>b. wp os_nop (\<lambda>_.
      wp (if snd b then State_Monad.return (Inr ()) else syscall (os_remove (temporary P k)))
      (\<lambda>_. post (fst b)))) d1"
    if "staged P k d (Some (Regular '''' n)) d1" "?t = None" "allowed_extension (k_ext k)" "dk_root d" for n d1
  proof (rule wp_mono [OF put_body_spec [OF assms(2) that(1), of ctx bs e m]])
    fix b d2 assume "written P k d bs e m b d2"
    from finish_stage [OF assms(2) that(2) this]
    show "wp os_nop (\<lambda>_. wp (if snd b then State_Monad.return (Inr ()) else syscall (os_remove (temporary P k)))
      (\<lambda>_. post (fst b))) d2" using that(3,4) by (simp add: post_def)
  qed
  have create: "wp (syscall (os_create (temporary P k))) (\<lambda>r d2. case r of
      Inl x \<Rightarrow> post (Inl (local_unavailable ''create temporary object'' x)) d2
    | Inr _ \<Rightarrow> wp (put_body P ctx k (bs, e) m) (\<lambda>b. wp os_nop (\<lambda>_.
      wp (if snd b then State_Monad.return (Inr ()) else syscall (os_remove (temporary P k)))
      (\<lambda>_. post (fst b)))) d2) d1"
    if "staged P k d ?t d1" "allowed_extension (k_ext k)" "dk_root d" for d1
  proof (rule wp_mono [OF create_stage [OF assms(2) that(1)]], elim exE conjE, goal_cases)
    case (1 r d2 u)
    then show ?case using early [of u d2] body [OF _ _ that(2,3)] by (cases r) auto
  qed
  have "wp (local_put U P ctx k (Some (bs, e)) m) post d"
  proof (cases "validate_key U P k \<noteq> Inr () \<or> m < 1 \<or> \<not> dk_root d")
    case True
    then show ?thesis using now by (auto simp: local_put_def active_root_def wp_rules split: sum.splits)
  next
    case False
    then have ok: "allowed_extension (k_ext k)" "dk_root d"
      using validate_key_iff [OF assms(1,2)] by auto
    have "wp (syscall (os_mkdir (u_string P (k_owner k)))) (\<lambda>r d1. case r of
        Inl x \<Rightarrow> post (Inl (local_unavailable ''create object directory'' x)) d1
      | Inr _ \<Rightarrow> wp (syscall (os_create (temporary P k))) (\<lambda>r d2. case r of
          Inl x \<Rightarrow> post (Inl (local_unavailable ''create temporary object'' x)) d2
        | Inr _ \<Rightarrow> wp (put_body P ctx k (bs, e) m) (\<lambda>b. wp os_nop (\<lambda>_.
          wp (if snd b then State_Monad.return (Inr ()) else syscall (os_remove (temporary P k)))
          (\<lambda>_. post (fst b)))) d2) d1) d"
      by (rule wp_mono [OF mkdir_stage [OF assms(2) staged_start [OF assms(3)]]])
        (use early create [OF _ ok] in \<open>auto split: sum.split\<close>)
    then show ?thesis
      using False unfolding local_put_def active_root_def wp_rules by simp
  qed
  then show ?thesis by (simp add: post_def)
qed

section \<open>Open and Delete\<close>

definition open_done :: "unicode \<Rightarrow> uuid_pkg \<Rightarrow> object_key \<Rightarrow> disk \<Rightarrow> err + object \<Rightarrow> disk \<Rightarrow> bool" where
  "open_done U P k d r d' \<longleftrightarrow> quiet d d' \<and>
    (case r of
       Inr ob \<Rightarrow> validate_key U P k = Inr () \<and> dk_root d \<and> ob_size ob = int (length (ob_content ob)) \<and>
         entry d (key_string P k) = Some (Regular (ob_content ob) (ob_modified ob))
     | Inl e \<Rightarrow> validate_key U P k = Inr () \<longrightarrow> err_is FileNotFound e \<longrightarrow>
         (\<forall>c t. entry d (key_string P k) \<noteq> Some (Regular c t)))"

lemma quiet_trans: "quiet d d1 \<Longrightarrow> quiet d1 d2 \<Longrightarrow> quiet d d2"
  by (auto simp: quiet_def)

lemma quiet_refl: "os_faults d \<Longrightarrow> quiet d d"
  by (simp add: quiet_def)

lemma quiet_faults: "quiet d d1 \<Longrightarrow> os_faults d1"
  by (simp add: quiet_def)

lemma open_nop: "open_done U P k d r d1 \<Longrightarrow> wp os_nop (\<lambda>_. open_done U P k d r) d1"
  by (rule wp_mono [OF os_nop_spec])
    (auto simp: open_done_def intro: quiet_trans quiet_faults)

lemma open_failed:
  "quiet d d1 \<Longrightarrow> \<not> err_is FileNotFound e \<Longrightarrow> open_done U P k d (Inl e) d1"
  by (simp add: open_done_def)

lemma not_found_unavailable: "os_error e \<Longrightarrow> \<not> err_is FileNotFound (local_unavailable what e)"
  by (simp add: os_error_def local_unavailable_def)

lemma open_info_spec:
  assumes "quiet d d1" "entry d (key_string P k) = Some n" "validate_key U P k = Inr ()" "dk_root d"
  shows "wp (open_info n) (open_done U P k d) d1"
  unfolding open_info_def wp_bind
proof (rule wp_mono [OF os_nop_spec [OF quiet_faults [OF assms(1)]]], goal_cases)
  case (1 s d2)
  then have d2: "quiet d d2" using assms(1) quiet_trans by blast
  show ?case
  proof (cases s)
    case (Inl e)
    then show ?thesis
      using 1 open_nop [OF open_failed [OF d2 not_found_unavailable]] by (simp add: wp_rules)
  next
    case (Inr _)
    have "open_done U P k d (Inl (Sentinel FileNotFound)) d2" if "n = Directory"
      using that assms d2 by (simp add: open_done_def)
    moreover have "open_done U P k d (Inr \<lparr>ob_content = c, ob_size = int (length c), ob_modified = t\<rparr>) d2"
      if "n = Regular c t" for c t
      using that assms d2 by (simp add: open_done_def)
    ultimately show ?thesis
      using Inr open_nop by (cases n) (simp_all add: wp_rules)
  qed
qed

lemma open_node_spec:
  assumes "os_faults d"
  shows "wp (syscall (os_open_node p)) (\<lambda>f d1. quiet d d1 \<and> (case f of
      Inl e \<Rightarrow> os_error e \<or> e = Sentinel NotExist \<and> entry d p = None
    | Inr n \<Rightarrow> entry d p = Some n)) d"
  by (rule wp_mono [OF syscall_spec [OF assms]])
    (auto simp: os_open_node_def quiet_def split: option.splits)

lemma local_open_spec:
  assumes "os_faults d"
  shows "wp (local_open U P k) (open_done U P k d) d"
proof -
  have opened: "wp (syscall (os_open_node (key_string P k))) (\<lambda>f. wp (case f of
        Inl e \<Rightarrow> if err_is NotExist e then State_Monad.return (Inl (Sentinel FileNotFound))
          else State_Monad.return (Inl (local_unavailable ''open object'' e))
      | Inr n \<Rightarrow> open_info n) (open_done U P k d)) d"
    if "validate_key U P k = Inr ()" "dk_root d"
  proof (rule wp_mono [OF open_node_spec [OF assms]], elim conjE)
    fix f :: "err + node" and d1
    assume q: "quiet d d1" and f: "case f of
        Inl e \<Rightarrow> os_error e \<or> e = Sentinel NotExist \<and> entry d (key_string P k) = None
      | Inr n \<Rightarrow> entry d (key_string P k) = Some n"
    show "wp (case f of
        Inl e \<Rightarrow> if err_is NotExist e then State_Monad.return (Inl (Sentinel FileNotFound))
          else State_Monad.return (Inl (local_unavailable ''open object'' e))
      | Inr n \<Rightarrow> open_info n) (open_done U P k d) d1"
      using f q open_info_spec [OF q _ that] not_found_unavailable
      by (cases f) (auto simp: wp_rules open_done_def os_error_def local_unavailable_def)
  qed
  have now: "open_done U P k d (Inl e) d" if "validate_key U P k = Inr () \<Longrightarrow> \<not> err_is FileNotFound e" for e
    using that assms by (auto simp: open_done_def quiet_def)
  show ?thesis
    unfolding local_open_def active_root_def wp_rules
    using now opened [unfolded wp_rules] by (cases "validate_key U P k"; cases "dk_root d") auto
qed

text \<open>Deleting removes the object or leaves the disk alone.\<close>

lemma local_delete_spec:
  assumes "os_faults d"
  shows "wp (local_delete U P k) (\<lambda>r d'. os_faults d' \<and> dk_root d' = dk_root d \<and>
    (\<forall>p. p \<noteq> key_string P k \<longrightarrow> entry d' p = entry d p) \<and>
    (entry d' (key_string P k) = entry d (key_string P k) \<or> entry d' (key_string P k) = None) \<and>
    (r = Inr () \<longrightarrow> validate_key U P k = Inr () \<and> dk_root d \<and>
       entry d (key_string P k) \<noteq> None \<and> entry d' (key_string P k) = None) \<and>
    (dk_faults d = [] \<longrightarrow> validate_key U P k = Inr () \<longrightarrow> dk_root d \<longrightarrow>
       entry d (key_string P k) = None \<longrightarrow> r = Inl (Sentinel FileNotFound))) d"
proof -
  have removed: "wp (syscall (os_remove (key_string P k))) (\<lambda>r d'. os_faults d' \<and> dk_root d' = dk_root d \<and>
      (\<forall>p. p \<noteq> key_string P k \<longrightarrow> entry d' p = entry d p) \<and>
      (entry d' (key_string P k) = entry d (key_string P k) \<or> entry d' (key_string P k) = None) \<and>
      (r = Inr () \<longrightarrow> entry d (key_string P k) \<noteq> None \<and> entry d' (key_string P k) = None) \<and>
      (dk_faults d = [] \<longrightarrow> entry d (key_string P k) = None \<longrightarrow> r = Inl (Sentinel NotExist))) d"
  proof (rule wp_mono [OF syscall_spec [OF assms]], elim exE conjE)
    fix r d' d1 assume q: "quiet d d1" and c: "(r, d') = os_remove (key_string P k) d1 \<or>
      (\<exists>e. r = Inl e \<and> os_error e \<and> dk_faults d \<noteq> [] \<and> (d' = d1 \<or> d' = snd (os_remove (key_string P k) d1)))"
    have "os_remove (key_string P k) d1 = (Inl (Sentinel NotExist), d1) \<and> entry d1 (key_string P k) = None \<or>
        entry d1 (key_string P k) \<noteq> None \<and> (os_remove (key_string P k) d1 = (Inr (), drop_node (key_string P k) d1) \<or>
          os_remove (key_string P k) d1 = (Inl (Plain ''directory not empty''), d1))"
      by (simp add: os_remove_def split: option.split node.split)
    then show "os_faults d' \<and> dk_root d' = dk_root d \<and>
        (\<forall>p. p \<noteq> key_string P k \<longrightarrow> entry d' p = entry d p) \<and>
        (entry d' (key_string P k) = entry d (key_string P k) \<or> entry d' (key_string P k) = None) \<and>
        (r = Inr () \<longrightarrow> entry d (key_string P k) \<noteq> None \<and> entry d' (key_string P k) = None) \<and>
        (dk_faults d = [] \<longrightarrow> entry d (key_string P k) = None \<longrightarrow> r = Inl (Sentinel NotExist))"
      using c q by (elim disjE exE conjE) (simp_all add: quiet_def)
  qed
  show ?thesis
    unfolding local_delete_def active_root_def wp_rules
    using assms removed
    by (cases "dk_root d")
      (auto simp: wp_rules intro!: wp_mono [OF removed] split: sum.split)
qed

section \<open>Without failing calls\<close>

lemma syscall_now: "dk_faults d = [] \<Longrightarrow> wp (syscall f) Q d = Q (fst (f d)) (snd (f d))"
  by (simp add: syscall_def wp_rules next_call_def)

lemma os_nop_now: "dk_faults d = [] \<Longrightarrow> wp os_nop Q d = Q (Inr ()) d"
  by (simp add: os_nop_def syscall_now)

lemma os_write_now: "dk_faults d = [] \<Longrightarrow> wp (os_write p bs) Q d = Q (Inr ()) (os_append p bs d)"
  by (simp add: os_write_def wp_rules next_call_def)

lemmas now_rules = syscall_now os_nop_now os_write_now

lemma put_commit_succeeds:
  assumes "dk_faults d = []" "entry d (temporary P k) = Some n" "entry d (key_string P k) \<noteq> Some Directory"
  shows "wp (put_commit P k len) (\<lambda>r _. fst r = Inr len) d"
  using assms by (simp add: put_commit_def wp_rules now_rules os_rename_def)

lemma put_body_succeeds:
  assumes "dk_faults d = []" "entry d (temporary P k) = Some (Regular '''' n)"
    "entry d (key_string P k) \<noteq> Some Directory" "int (length bs) \<le> m" "bs \<noteq> ''''"
    "key_string P k \<noteq> temporary P k"
  shows "wp (put_body P None k (bs, None) m) (\<lambda>r _. fst r = Inr (int (length bs))) d"
proof -
  have "limit_reader (nat (m + 1)) (context_reader None (bs, None)) = (bs, None)"
    using assms(4) by (auto simp: limit_reader_def context_reader_def)
  then show ?thesis
    using assms put_commit_succeeds [of "put_node (temporary P k) (Regular bs (dk_now d)) d" P k]
    by (simp add: put_body_def copy_all_def wp_rules now_rules os_append_def)
qed

lemma local_put_succeeds:
  assumes "unicode_laws U" "uuid_laws P" "allowed_extension (k_ext k)" "dk_faults d = []" "dk_root d"
    "entry d (u_string P (k_owner k)) \<in> {None, Some Directory}" "entry d (temporary P k) = None"
    "entry d (key_string P k) \<noteq> Some Directory" "int (length bs) \<le> m" "bs \<noteq> ''''"
  shows "wp (local_put U P None k (Some (bs, None)) m) (\<lambda>r _. r = Inr (int (length bs))) d"
proof -
  note names = names_distinct [OF assms(2)]
  define d1 where "d1 = snd (os_mkdir (u_string P (k_owner k)) d)"
  have mk: "fst (os_mkdir (u_string P (k_owner k)) d) = Inr ()" and
    d1: "dk_faults d1 = []" "entry d1 (u_string P (k_owner k)) = Some Directory"
      "entry d1 (temporary P k) = None" "entry d1 (key_string P k) \<noteq> Some Directory"
    using assms(4,6-8) names by (auto simp: d1_def os_mkdir_def)
  define d2 where "d2 = put_node (temporary P k) (Regular '''' (dk_now d1)) d1"
  have create: "os_create (temporary P k) d1 = (Inr (), d2)"
    using d1 names by (simp add: os_create_def d2_def)
  have d2: "dk_faults d2 = []" "entry d2 (temporary P k) = Some (Regular '''' (dk_now d1))"
    "entry d2 (key_string P k) \<noteq> Some Directory"
    using d1 names by (auto simp: d2_def)
  have body: "wp (put_body P None k (bs, None) m) (\<lambda>b. wp os_nop (\<lambda>_.
      wp (if snd b then State_Monad.return (Inr ()) else syscall (os_remove (temporary P k)))
      (\<lambda>_ _. fst b = Inr (int (length bs))))) d2"
    by (rule wp_mono [OF put_body_succeeds [OF d2 assms(9,10) names(2)]]) (simp add: wp_def split: prod.split)
  have "validate_key U P k = Inr ()" "\<not> m < 1"
    using validate_key_iff [OF assms(1,2)] assms(3,9,10) by (auto, cases bs, auto)
  then show ?thesis
    using body assms(4,5) mk d1(1) create
    by (simp add: local_put_def active_root_def wp_rules syscall_now d1_def [symmetric])
qed

lemma local_open_succeeds:
  assumes "validate_key U P k = Inr ()" "dk_faults d = []" "dk_root d"
    "entry d (key_string P k) = Some (Regular c t)"
  shows "wp (local_open U P k) (\<lambda>r _. r = Inr \<lparr>ob_content = c, ob_size = int (length c), ob_modified = t\<rparr>) d"
  using assms
  by (simp add: local_open_def open_info_def active_root_def wp_rules now_rules os_open_node_def)

end
