(* ===== verification/FileModule.thy ===== *)
theory FileModule
  imports LocalSpec
begin

text \<open>
  The file module: what the service relies on in its object store, the local store keeps it under
  every sequence of failing system calls, and the properties of uploading, opening and deleting.
\<close>

section \<open>The contract of an object store\<close>

locale object_store_contract =
  fixes st :: "'w object_store" and objs :: "'w \<Rightarrow> object_key \<Rightarrow> string option" and ok :: "'w \<Rightarrow> bool"
    and lawful :: bool
  assumes put: "lawful \<Longrightarrow> ok w \<Longrightarrow> wp (os_put st k (Some (bs, e)) m) (\<lambda>r w'. ok w' \<and>
      (\<forall>j. j \<noteq> k \<longrightarrow> objs w' j = objs w j) \<and>
      (case r of Inr n \<Rightarrow> objs w' k = Some bs \<and> e = None \<and> n = int (length bs) \<and> n \<le> m
       | Inl _ \<Rightarrow> objs w' k = objs w k \<or> objs w' k = Some bs \<and> e = None \<and> int (length bs) \<le> m)) w"
    and open_: "lawful \<Longrightarrow> ok w \<Longrightarrow> wp (os_open st k) (\<lambda>r w'. ok w' \<and> objs w' = objs w \<and>
      (case r of Inr ob \<Rightarrow> objs w k = Some (ob_content ob) \<and> ob_size ob = int (length (ob_content ob))
       | Inl e \<Rightarrow> err_is FileNotFound e \<longrightarrow> objs w k = None)) w"
    and delete: "lawful \<Longrightarrow> ok w \<Longrightarrow> wp (os_delete st k) (\<lambda>r w'. ok w' \<and>
      (\<forall>j. j \<noteq> k \<longrightarrow> objs w' j = objs w j) \<and> (objs w' k = objs w k \<or> objs w' k = None) \<and>
      (r = Inr () \<longrightarrow> objs w' k = None)) w"

context object_store_contract
begin

text \<open>Uploading: the whole content under a fresh key of the uploader, or nothing else changed.\<close>

text \<open>What an upload of \<open>bs\<close> (and the reader's final error \<open>e\<close>) leaves behind.\<close>

definition uploaded_ok where
  "uploaded_ok U detect s owner bs e w u w' \<longleftrightarrow>
     owner \<noteq> 0 \<and> bs \<noteq> '''' \<and> e = None \<and> k_owner (up_key u) = owner \<and>
     objs w' (up_key u) = Some bs \<and> up_size u = int (length bs) \<and>
     up_content_type u = media_type U detect (take sniff_bytes bs) \<and>
     (\<exists>mx. type_of_media (fs_limit s) (up_content_type u) = (k_ext (up_key u), mx, True) \<and> up_size u \<le> mx) \<and>
     (\<forall>k. k \<noteq> up_key u \<longrightarrow> objs w' k = objs w k)"

lemma upload_put:
  assumes "lawful" "ok w" "fs_store s = st" "k_owner k = owner" "owner \<noteq> 0" "bs \<noteq> ''''"
    "type_of_media (fs_limit s) (media_type U detect (take sniff_bytes bs)) = (k_ext k, mx, True)"
  shows "wp (os_put (fs_store s) k (Some (bs, e)) mx) (\<lambda>r w'. ok w' \<and>
    (\<forall>j. k_owner j \<noteq> owner \<longrightarrow> objs w' j = objs w j) \<and>
    (case r of
       Inr n \<Rightarrow> uploaded_ok U detect s owner bs e w \<lparr>up_key = k,
         up_content_type = media_type U detect (take sniff_bytes bs), up_size = n\<rparr> w'
     | Inl _ \<Rightarrow> (\<forall>j. objs w' j = objs w j \<or> (objs w' j = Some bs \<and> e = None)))) w"
  unfolding assms(3)
proof (rule wp_mono [OF put [OF assms(1,2), of k bs e mx]], goal_cases)
  case (1 r w')
  have "objs w' j = objs w j" if "k_owner j \<noteq> owner" for j
    using 1 that assms(4) by metis
  moreover have "objs w' j = objs w j \<or> objs w' j = Some bs \<and> e = None" if "r = Inl x" for j x
    using 1 that by (cases "j = k") auto
  ultimately show ?case
    using 1 assms(4-7) by (cases r) (auto simp: uploaded_ok_def)
qed

lemma upload_spec:
  assumes "lawful" "ok w" "fs_store s = st" "\<And>f. leaves (fs_ids s) (f :: 'w \<Rightarrow> 'w)"
  shows "wp (upload U detect s owner (Some (bs, e))) (\<lambda>r w'. ok w' \<and>
    (\<forall>k. k_owner k \<noteq> owner \<longrightarrow> objs w' k = objs w k) \<and>
    (case r of
       Inr u \<Rightarrow> uploaded_ok U detect s owner bs e w u w'
     | Inl _ \<Rightarrow> (\<forall>k. objs w' k = objs w k \<or> (objs w' k = Some bs \<and> e = None)))) w"
proof -
  define header where "header = take sniff_bytes bs"
  define post :: "err + uploaded \<Rightarrow> 'w \<Rightarrow> bool" where "post = (\<lambda>r w'. ok w' \<and>
    (\<forall>k. k_owner k \<noteq> owner \<longrightarrow> objs w' k = objs w k) \<and>
    (case r of Inr u \<Rightarrow> uploaded_ok U detect s owner bs e w u w'
     | Inl _ \<Rightarrow> (\<forall>k. objs w' k = objs w k \<or> (objs w' k = Some bs \<and> e = None))))"
  have early: "post (Inl x) w" for x using assms(2) by (simp add: post_def)
  obtain rest x where full: "read_full sniff_bytes (bs, e) = (header, rest, x)"
    by (auto simp: read_full_def header_def)
  have rest: "prepend header rest = (bs, e)"
    using full by (auto simp: read_full_def prepend_def header_def)
  obtain ext mx allowed where ty: "type_of_media (fs_limit s) (media_type U detect header) = (ext, mx, allowed)"
    by (cases "type_of_media (fs_limit s) (media_type U detect header)") auto
  have put: "wp (os_put (fs_store s) \<lparr>k_owner = owner, k_object = i, k_ext = ext\<rparr> (Some (bs, e)) mx)
      (\<lambda>r w'. (\<forall>x. r = Inl x \<longrightarrow> post (Inl x) w') \<and>
        (\<forall>n. r = Inr n \<longrightarrow> post (Inr \<lparr>up_key = \<lparr>k_owner = owner, k_object = i, k_ext = ext\<rparr>,
            up_content_type = media_type U detect header, up_size = n\<rparr>) w')) w"
    if "allowed" "owner \<noteq> 0" "header \<noteq> ''''" for i
  proof (rule wp_mono [OF upload_put [OF assms(1-3), of _ owner bs U detect mx e]], goal_cases)
    case (5 r w')
    then show ?case by (cases r) (simp_all add: wp_rules post_def header_def)
  qed (use that ty in \<open>auto simp: header_def\<close>)
  have "wp (upload U detect s owner (Some (bs, e))) post w"
    unfolding upload_def option.case full prod.case rest ty
    by (auto simp: wp_rules early Let_def intro!: wp_mono [OF leavesD [OF assms(4) [of id], of w]] split: sum.splits)
      (use put in \<open>simp add: wp_rules\<close>)
  then show ?thesis by (simp add: post_def)
qed

text \<open>Opening and deleting by key: only what was stored is served, only the owner or a superuser deletes.\<close>

lemma open_spec:
  assumes "lawful" "ok w" "fs_store s = st"
  shows "wp (open_file U P s value) (\<lambda>r w'. ok w' \<and> objs w' = objs w \<and> (case r of
      Inr (u, ob) \<Rightarrow> parse_object_key U P value = Inr (up_key u) \<and> objs w (up_key u) = Some (ob_content ob) \<and>
        up_size u = int (length (ob_content ob)) \<and>
        fst (media_of_extension (fs_limit s) (k_ext (up_key u))) = up_content_type u
    | Inl e \<Rightarrow> \<forall>k. parse_object_key U P value = Inr k \<longrightarrow> e = Sentinel FileNotFound \<longrightarrow> objs w k = None)) w"
proof (cases "parse_object_key U P value")
  case (Inl e)
  then show ?thesis using assms(2) by (simp add: open_file_def wp_rules)
next
  case (Inr k)
  obtain media n known where m: "media_of_extension (fs_limit s) (k_ext k) = (media, n, known)"
    by (cases "media_of_extension (fs_limit s) (k_ext k)") auto
  show ?thesis
  proof (cases known)
    case True
    then show ?thesis
      unfolding open_file_def Inr sum.case m prod.case wp_rules assms(3)
      by (simp, intro wp_mono [OF open_ [OF assms(1,2), of k]])
        (auto simp: wp_rules m split: sum.splits)
  qed (use assms(2) in \<open>simp add: open_file_def Inr m wp_rules\<close>)
qed

lemma delete_spec:
  assumes "lawful" "ok w" "fs_store s = st"
  shows "wp (delete_file U P s actor superuser value) (\<lambda>r w'. ok w' \<and>
    (\<forall>j. parse_object_key U P value \<noteq> Inr j \<or> \<not> (superuser \<or> actor = k_owner j) \<or> actor = 0 \<longrightarrow> objs w' j = objs w j) \<and>
    (\<forall>j. objs w' j = objs w j \<or> objs w' j = None) \<and>
    (r = Inr () \<longrightarrow> (\<exists>k. parse_object_key U P value = Inr k \<and> actor \<noteq> 0 \<and>
       (superuser \<or> actor = k_owner k) \<and> objs w' k = None))) w"
proof (cases "parse_object_key U P value")
  case (Inr k)
  show ?thesis
  proof (cases "actor = 0 \<or> (\<not> superuser \<and> actor \<noteq> k_owner k)")
    case True
    then show ?thesis using assms(2) by (simp add: delete_file_def Inr wp_rules)
  next
    case False
    then have "wp (delete_file U P s actor superuser value) (\<lambda>r w'. ok w' \<and>
      (\<forall>j. j \<noteq> k \<longrightarrow> objs w' j = objs w j) \<and> (objs w' k = objs w k \<or> objs w' k = None) \<and>
      (r = Inr () \<longrightarrow> objs w' k = None)) w"
      using delete [OF assms(1,2), of k] assms(3) unfolding delete_file_def Inr sum.case by (subst if_not_P) auto
    then show ?thesis by (rule wp_mono) (use False Inr in \<open>auto; metis option.distinct(1)\<close>)
  qed
qed (use assms(2) in \<open>simp add: delete_file_def wp_rules\<close>)

end

section \<open>The local store keeps the contract\<close>

definition stored :: "uuid_pkg \<Rightarrow> disk \<Rightarrow> object_key \<Rightarrow> string option" where
  "stored P d k = (if allowed_extension (k_ext k)
     then (case entry d (key_string P k) of Some (Regular c _) \<Rightarrow> Some c | _ \<Rightarrow> None) else None)"

lemma placed_stored:
  assumes "unicode_laws U" "uuid_laws P" "placed P k d bs e m d'"
  shows "\<And>j. j \<noteq> k \<Longrightarrow> stored P d' j = stored P d j"
    "stored P d' k = stored P d k \<or> stored P d' k = Some bs \<and> e = None \<and> int (length bs) \<le> m"
    "allowed_extension (k_ext k) \<Longrightarrow> landed P k bs d' \<Longrightarrow> stored P d' k = Some bs"
proof -
  show "stored P d' j = stored P d j" if "j \<noteq> k" for j
  proof -
    have "key_string P j \<notin> {u_string P (k_owner k), temporary P k, key_string P k}"
      using that names_distinct [OF assms(2)] key_string_inj [OF assms(2), of j k] by auto
    then have "entry d' (key_string P j) = entry d (key_string P j)"
      using assms(3) unfolding placed_def by blast
    then show ?thesis by (simp add: stored_def)
  qed
  show "stored P d' k = stored P d k \<or> stored P d' k = Some bs \<and> e = None \<and> int (length bs) \<le> m"
    "allowed_extension (k_ext k) \<Longrightarrow> landed P k bs d' \<Longrightarrow> stored P d' k = Some bs"
    using assms(3) by (auto simp: stored_def placed_def landed_def)
qed

interpretation disk_store: object_store_contract
  "local_object_store U P ctx" "stored P" os_faults "unicode_laws U \<and> uuid_laws P"
  for U P ctx
proof (unfold_locales, goal_cases)
  case (1 w k bs e m)
  then have laws: "unicode_laws U" "uuid_laws P" by auto
  show ?case
    unfolding local_object_store_def object_store.simps
  proof (rule wp_mono [OF local_put_spec [OF laws 1(2)]], elim conjE)
    fix r w' assume r: "put_done P k w bs e m r w'" "\<forall>n. r = Inr n \<longrightarrow> allowed_extension (k_ext k) \<and> dk_root w"
    then have "placed P k w bs e m w'" by (simp add: put_done_def)
    note p = placed_stored [OF laws this] and os = this [unfolded placed_def]
    show "os_faults w' \<and> (\<forall>j. j \<noteq> k \<longrightarrow> stored P w' j = stored P w j) \<and> (case r of
        Inr n \<Rightarrow> stored P w' k = Some bs \<and> e = None \<and> n = int (length bs) \<and> n \<le> m
      | Inl _ \<Rightarrow> stored P w' k = stored P w k \<or> stored P w' k = Some bs \<and> e = None \<and> int (length bs) \<le> m)"
      using p(1,2,3) os r by (cases r) (auto simp: put_done_def)
  qed
next
  case (2 w k)
  then show ?case
    unfolding local_object_store_def object_store.simps
    by (intro wp_mono [OF local_open_spec])
      (auto simp: open_done_def quiet_def stored_def validate_key_iff fun_eq_iff
        split: sum.splits option.splits node.splits)
next
  case (3 w k)
  then have laws: "unicode_laws U" "uuid_laws P" by auto
  show ?case
    unfolding local_object_store_def object_store.simps
  proof (rule wp_mono [OF local_delete_spec [OF 3(2)]], elim conjE, intro conjI allI impI)
    fix r w' j assume "\<forall>p. p \<noteq> key_string P k \<longrightarrow> entry w' p = entry w p" and "j \<noteq> k"
    then show "stored P w' j = stored P w j"
      using key_string_inj [OF laws(2)] by (metis stored_def)
  qed (auto simp: stored_def)
qed

section \<open>Properties\<close>

lemma accepted_key_inside:
  assumes "uuid_laws P" "parse_object_key U P value = Inr k"
  shows "path_clean value = value \<and> CHR 0x5C \<notin> set value \<and>
    (\<exists>name. split_on CHR ''/'' value = [u_string P (k_owner k), name] \<and>
       name \<notin> {'''', ''.'', ''..''} \<and> u_string P (k_owner k) \<notin> {'''', ''.'', ''..''})"
proof -
  have k: "key_string P k = value" "allowed_extension (k_ext k)" "path_clean value = value"
    using parse_object_key_Inr [OF assms(2)] by auto
  note own = uuid_string_plain [OF assms(1), of "k_owner k"]
    and ob = uuid_string_plain [OF assms(1), of "k_object k"] and ext = allowed_plain [OF k(2)]
  let ?name = "u_string P (k_object k) @ CHR ''.'' # k_ext k"
  have v: "value = u_string P (k_owner k) @ CHR ''/'' # ?name"
    using k(1) by (simp add: key_string_def)
  have "CHR ''/'' \<notin> set ?name" using ob ext by auto
  then have "split_on CHR ''/'' value = [u_string P (k_owner k), ?name]"
    using own by (simp add: v split_on_Cons split_on_none)
  moreover have "CHR 0x5C \<notin> set value" using own ob ext by (auto simp: v)
  moreover have "?name \<notin> {'''', ''.'', ''..''}" using ob by auto
  ultimately show ?thesis using own k(3) by blast
qed

text \<open>The text of an object key reads back as that key, and every accepted text is the text of
  the key it is read as, with one of the allowed extensions.  Accepted text names a file directly
  below its owner's directory: two path elements, neither empty nor a dot element, no backslash, the
  first of them the owner's UUID, and the path is already in its clean form.\<close>

theorem object_key_text:
  assumes "unicode_laws U" "uuid_laws P"
  shows "(parse_object_key U P value = Inr k \<longleftrightarrow> allowed_extension (k_ext k) \<and> key_string P k = value) \<and>
    (parse_object_key U P value = Inr k \<longrightarrow> path_clean value = value \<and> CHR 0x5C \<notin> set value \<and>
      (\<exists>name. split_on CHR ''/'' value = [u_string P (k_owner k), name] \<and>
         name \<notin> {'''', ''.'', ''..''} \<and> u_string P (k_owner k) \<notin> {'''', ''.'', ''..''}))"
  using parse_key_string [OF assms, of k] parse_object_key_Inr [of U P _ k]
    accepted_key_inside [OF assms(2)] by blast

lemma object_key_text_witness:
  "parse_object_key ascii_unicode canonical_uuid
     (key_string canonical_uuid \<lparr>k_owner = 1, k_object = 2, k_ext = ''png''\<rparr>) =
   Inr \<lparr>k_owner = 1, k_object = 2, k_ext = ''png''\<rparr> \<and>
   (\<exists>name. split_on CHR ''/'' (key_string canonical_uuid \<lparr>k_owner = 1, k_object = 2, k_ext = ''png''\<rparr>) =
     [u_string canonical_uuid 1, name])"
  using object_key_text [OF unicode_laws_ascii uuid_laws_canonical,
      of _ "\<lparr>k_owner = 1, k_object = 2, k_ext = ''png''\<rparr>"] by (auto simp: allowed_extension_def)


definition sample_key :: object_key where
  "sample_key = \<lparr>k_owner = 1, k_object = 2, k_ext = ''png''\<rparr>"

definition sample_disk :: disk where
  "sample_disk = \<lparr>dk_nodes = [], dk_root = True, dk_faults = [], dk_now = 0\<rparr>"

definition full_disk :: disk where
  "full_disk = sample_disk\<lparr>dk_faults := [None, None, Some \<lparr>f_error = Plain ''disk full'', f_done = True, f_bytes = 2\<rparr>]\<rparr>"


text \<open>When no system call fails, a refused \<open>Put\<close>, because the content is too large, its reader
  fails, or the context ends, leaves no object, no temporary file and no other change but the
  owner's directory.\<close>

theorem refused_put_leaves_nothing:
  assumes "unicode_laws U" "uuid_laws P" "dk_faults d = []"
  shows "wp (local_put U P ctx k (Some (bs, e)) m) (\<lambda>r d'. \<forall>x. r = Inl x \<longrightarrow>
    (\<forall>p. p \<noteq> u_string P (k_owner k) \<longrightarrow> entry d' p = entry d p)) d"
proof (rule wp_mono [OF local_put_spec [OF assms(1,2)]], goal_cases)
  case 1 show ?case using assms(3) by (simp add: os_faults_def)
next
  case (2 r d')
  show ?case
  proof (intro allI impI)
    fix x p assume "r = Inl x" "p \<noteq> u_string P (k_owner k)"
    then show "entry d' p = entry d p"
      using 2 assms(3) by (cases "p = temporary P k") (auto simp: put_done_def staged_def)
  qed
qed

lemma refused_put_leaves_nothing_witness:
  "wp (local_put ascii_unicode canonical_uuid None sample_key (Some (''abcdef'', None)) 3)
     (\<lambda>r d'. \<forall>x. r = Inl x \<longrightarrow> entry d' (temporary canonical_uuid sample_key) = None) sample_disk"
proof (rule wp_mono [OF refused_put_leaves_nothing], goal_cases)
  case (4 r d')
  then show ?case using names_distinct(3) [OF uuid_laws_canonical, of sample_key 1] by (simp add: sample_disk_def sample_key_def)
qed (simp_all add: sample_disk_def)

text \<open>An upload changes no object of another owner; a successful one stored exactly the content,
  under a key of the uploader that did not lose any other object, with the media type sniffed from
  its first bytes, an extension that stands for this type, and a size within the limit of the type.\<close>

theorem upload_sound:
  assumes "unicode_laws U" "uuid_laws P" "os_faults d" "fs_store s = local_object_store U P ctx"
    "\<And>f. leaves (fs_ids s) (f :: disk \<Rightarrow> disk)"
  shows "wp (upload U detect s owner (Some (bs, e))) (\<lambda>r d'.
    (\<forall>k. k_owner k \<noteq> owner \<longrightarrow> stored P d' k = stored P d k) \<and>
    (\<forall>u. r = Inr u \<longrightarrow> owner \<noteq> 0 \<and> e = None \<and> bs \<noteq> '''' \<and> k_owner (up_key u) = owner \<and>
       stored P d' (up_key u) = Some bs \<and> (\<forall>k. k \<noteq> up_key u \<longrightarrow> stored P d' k = stored P d k) \<and>
       up_content_type u = media_type U detect (take 512 bs) \<and> up_size u = int (length bs) \<and>
       (\<exists>mx. type_of_media (fs_limit s) (up_content_type u) = (k_ext (up_key u), mx, True) \<and> up_size u \<le> mx))) d"
  by (rule wp_mono [OF disk_store.upload_spec [OF _ assms(3,4,5)]])
    (use assms(1,2) in \<open>auto simp: disk_store.uploaded_ok_def sniff_bytes_def\<close>)

text \<open>C26: deleting by key changes nothing unless the actor is the owner of the key or a superuser;
  it never changes the content of an object, and a success means the object is gone.\<close>

theorem delete_authorized:
  assumes "unicode_laws U" "uuid_laws P" "os_faults d" "fs_store s = local_object_store U P ctx"
  shows "wp (delete_file U P s actor superuser value) (\<lambda>r d'.
    (\<forall>j. parse_object_key U P value \<noteq> Inr j \<or> \<not> (superuser \<or> actor = k_owner j) \<or> actor = 0 \<longrightarrow>
       stored P d' j = stored P d j) \<and>
    (\<forall>j. stored P d' j = stored P d j \<or> stored P d' j = None) \<and>
    (r = Inr () \<longrightarrow> (\<exists>k. parse_object_key U P value = Inr k \<and> actor \<noteq> 0 \<and>
       (superuser \<or> actor = k_owner k) \<and> stored P d' k = None))) d"
  by (rule wp_mono [OF disk_store.delete_spec [OF _ assms(3,4)]]) (use assms(1,2) in auto)

definition sample_service :: "disk file_service" where
  "sample_service = \<lparr>fs_store = local_object_store ascii_unicode canonical_uuid None,
     fs_ids = State_Monad.return (Inr 2),
     fs_limit = \<lparr>li_image_max = 1000, li_video_enabled = False, li_video_max = 1000\<rparr>\<rparr>"

lemma upload_sound_witness:
  "wp (upload ascii_unicode (\<lambda>_. ''image/png'') sample_service 1 (Some (''abc'', None)))
     (\<lambda>r d'. \<forall>u. r = Inr u \<longrightarrow> stored canonical_uuid d' (up_key u) = Some ''abc'') sample_disk"
  by (rule wp_mono [OF upload_sound [OF unicode_laws_ascii uuid_laws_canonical, where ctx = None]])
    (simp_all add: sample_service_def sample_disk_def os_faults_def)

lemma delete_authorized_witness:
  "wp (delete_file ascii_unicode canonical_uuid sample_service 3 False (key_string canonical_uuid sample_key))
     (\<lambda>_ d'. stored canonical_uuid d' sample_key = stored canonical_uuid full_disk sample_key) full_disk"
proof (rule wp_mono [OF delete_authorized [OF unicode_laws_ascii uuid_laws_canonical, where ctx = None]], goal_cases)
  case (3 r d')
  have "parse_object_key ascii_unicode canonical_uuid (key_string canonical_uuid sample_key) = Inr sample_key"
    by (rule parse_key_string) (simp_all add: sample_key_def allowed_extension_def)
  then show ?case using 3 by (simp add: sample_key_def)
qed (simp_all add: sample_service_def full_disk_def sample_disk_def os_faults_def os_error_def)





end
