(* ===== verification/GoEncoding.thy ===== *)
theory GoEncoding
  imports GoText
begin

text \<open>
  Decimal integers (\<open>fmt\<close> verb \<open>%d\<close>, \<open>strconv.ParseUint\<close> with base 10) and unpadded base64
  (\<open>base64.RawStdEncoding\<close>), with the round trips the password format relies on.
\<close>

section \<open>Decimal\<close>

fun show_nat :: "nat \<Rightarrow> string" where
  "show_nat n = (if n < 10 then [char_of (48 + n)]
                 else show_nat (n div 10) @ [char_of (48 + n mod 10)])"

declare show_nat.simps [simp del]

definition is_digit :: "char \<Rightarrow> bool" where
  "is_digit c \<longleftrightarrow> 48 \<le> byte c \<and> byte c < 58"

definition digits_value :: "string \<Rightarrow> nat" where
  "digits_value s = foldl (\<lambda>n c. 10 * n + (byte c - 48)) 0 s"

text \<open>\<open>strconv.ParseUint(s, 10, bits)\<close>: a syntax or range error is \<open>None\<close>.\<close>

definition parse_uint :: "nat \<Rightarrow> string \<Rightarrow> nat option" where
  "parse_uint bits s =
     (if s \<noteq> [] \<and> list_all is_digit s \<and> digits_value s < 2 ^ bits
      then Some (digits_value s) else None)"

lemma show_nat_not_Nil [simp]: "show_nat n \<noteq> []"
  by (subst show_nat.simps) simp

lemma digit_char [simp]: "d < 10 \<Longrightarrow> (of_char (char_of (48 + d) :: char) :: nat) = 48 + d"
  by simp

lemma show_nat_digits: "list_all is_digit (show_nat n)"
proof (induction n rule: show_nat.induct)
  case (1 n)
  have "is_digit (char_of (48 + n mod 10))" by (simp add: is_digit_def)
  moreover have "n < 10 \<Longrightarrow> is_digit (char_of (48 + n))" by (simp add: is_digit_def)
  ultimately show ?case using "1.IH" by (simp add: show_nat.simps [of n])
qed

lemma digits_value_show_nat [simp]: "digits_value (show_nat n) = n"
proof (induction n rule: show_nat.induct)
  case (1 n)
  show ?case
  proof (cases "n < 10")
    case False
    then have "digits_value (show_nat n) = 10 * digits_value (show_nat (n div 10)) + n mod 10"
      by (simp add: show_nat.simps [of n] digits_value_def)
    with 1 False show ?thesis by simp
  qed (simp add: show_nat.simps [of n] digits_value_def)
qed

lemma parse_uint_show_nat: "n < 2 ^ bits \<Longrightarrow> parse_uint bits (show_nat n) = Some n"
  by (simp add: parse_uint_def show_nat_digits)

lemma parse_uint_bound: "parse_uint bits s = Some n \<Longrightarrow> n < 2 ^ bits"
  by (auto simp: parse_uint_def split: if_splits)

lemma digit_not_in_show_nat: "\<not> is_digit c \<Longrightarrow> c \<notin> set (show_nat n)"
  using show_nat_digits [of n] by (auto simp: list_all_iff)

section \<open>Base64 without padding\<close>

definition b64_char :: "nat \<Rightarrow> char" where
  "b64_char v =
     (if v < 26 then char_of (65 + v)
      else if v < 52 then char_of (97 + (v - 26))
      else if v < 62 then char_of (48 + (v - 52))
      else if v = 62 then CHR ''+'' else CHR ''/'')"

definition b64_value :: "char \<Rightarrow> nat option" where
  "b64_value c = (let n = byte c in
     if 65 \<le> n \<and> n < 91 then Some (n - 65)
     else if 97 \<le> n \<and> n < 123 then Some (n - 97 + 26)
     else if 48 \<le> n \<and> n < 58 then Some (n - 48 + 52)
     else if c = CHR ''+'' then Some 62
     else if c = CHR ''/'' then Some 63 else None)"

fun b64_sextets :: "nat list \<Rightarrow> nat list" where
  "b64_sextets [] = []"
| "b64_sextets [a] = [a div 4, a mod 4 * 16]"
| "b64_sextets [a, b] = [a div 4, a mod 4 * 16 + b div 16, b mod 16 * 4]"
| "b64_sextets (a # b # c # r) =
     [a div 4, a mod 4 * 16 + b div 16, b mod 16 * 4 + c div 64, c mod 64] @ b64_sextets r"

text \<open>The bytes of a list of sextets; bits left over at the end are dropped, a lone sextet is an error.\<close>

fun b64_bytes :: "nat list \<Rightarrow> nat list option" where
  "b64_bytes [] = Some []"
| "b64_bytes [x] = None"
| "b64_bytes [x, y] = Some [x * 4 + y div 16]"
| "b64_bytes [x, y, z] = Some [x * 4 + y div 16, y mod 16 * 16 + z div 4]"
| "b64_bytes (x # y # z # u # r) =
     map_option (\<lambda>bs. [x * 4 + y div 16, y mod 16 * 16 + z div 4, z mod 4 * 64 + u] @ bs) (b64_bytes r)"

definition b64_encode :: "string \<Rightarrow> string" where
  "b64_encode s = map b64_char (b64_sextets (map of_char s))"

text \<open>The decoder skips carriage returns and line feeds, as Go's does.\<close>

fun all_some :: "'a option list \<Rightarrow> 'a list option" where
  "all_some [] = Some []"
| "all_some (None # xs) = None"
| "all_some (Some x # xs) = map_option (Cons x) (all_some xs)"

definition b64_decode :: "string \<Rightarrow> string option" where
  "b64_decode s =
     (case all_some (map b64_value (filter (\<lambda>c. byte c \<noteq> 10 \<and> byte c \<noteq> 13) s)) of
        None \<Rightarrow> None
      | Some vs \<Rightarrow> map_option (map char_of) (b64_bytes vs))"

lemma b64_sextets_bound: "list_all (\<lambda>b. b < 256) bs \<Longrightarrow> list_all (\<lambda>v. v < 64) (b64_sextets bs)"
proof (induction bs rule: b64_sextets.induct)
  case (2 a)
  then show ?case by (simp add: div_less_iff_less_mult)
next
  case (3 a b)
  then have "a div 4 < 64" "b div 16 < 16" by (simp_all add: div_less_iff_less_mult)
  moreover have "a mod 4 \<le> 3" "b mod 16 \<le> 15" using mod_less_divisor [of 4 a] mod_less_divisor [of 16 b] by linarith+
  ultimately show ?case by simp
next
  case (4 a b c r)
  then have "a div 4 < 64" "b div 16 < 16" "c div 64 < 4" by (simp_all add: div_less_iff_less_mult)
  moreover have "a mod 4 \<le> 3" "b mod 16 \<le> 15" using mod_less_divisor [of 4 a] mod_less_divisor [of 16 b] by linarith+
  ultimately show ?case using 4 by simp
qed simp

lemma b64_bytes_sextets: "list_all (\<lambda>b. b < 256) bs \<Longrightarrow> b64_bytes (b64_sextets bs) = Some bs"
proof (induction bs rule: b64_sextets.induct)
  case (4 a b c r)
  then have "b div 16 < 16" "c div 64 < 4" by (simp_all add: div_less_iff_less_mult)
  then show ?case using 4 by simp
next
  case (3 a b)
  then have "b div 16 < 16" by (simp add: div_less_iff_less_mult)
  then show ?case by simp
qed simp_all

lemma b64_value_char [simp]: "v < 64 \<Longrightarrow> b64_value (b64_char v) = Some v"
  by (auto simp: b64_value_def b64_char_def Let_def)

lemma b64_char_kept: "v < 64 \<Longrightarrow> byte (b64_char v) \<noteq> 10 \<and> byte (b64_char v) \<noteq> 13"
  by (auto simp: b64_char_def)

lemma all_some_map_Some: "(\<And>x. x \<in> set xs \<Longrightarrow> f x = Some (g x)) \<Longrightarrow> all_some (map f xs) = Some (map g xs)"
  by (induction xs) auto

lemma b64_decode_encode [simp]: "b64_decode (b64_encode s) = Some s"
proof -
  define vs where "vs = b64_sextets (map of_char s)"
  have vs: "list_all (\<lambda>v. v < 64) vs" unfolding vs_def
    by (rule b64_sextets_bound) (simp add: list_all_iff)
  have "filter (\<lambda>c. byte c \<noteq> 10 \<and> byte c \<noteq> 13) (map b64_char vs) = map b64_char vs"
    using vs by (intro filter_True) (auto simp: list_all_iff b64_char_kept)
  moreover have "all_some (map b64_value (map b64_char vs)) = Some vs"
    using vs all_some_map_Some [of vs "b64_value \<circ> b64_char" id] by (auto simp: list_all_iff)
  moreover have "b64_bytes vs = Some (map of_char s)" unfolding vs_def
    by (rule b64_bytes_sextets) (simp add: list_all_iff)
  ultimately show ?thesis
    by (simp add: b64_decode_def b64_encode_def vs_def o_def)
qed

lemma b64_char_not_sep: "v < 64 \<Longrightarrow> b64_char v \<noteq> CHR ''$''"
  by (auto simp: b64_char_def dest!: arg_cong [of _ _ "of_char :: char \<Rightarrow> nat"])

lemma b64_encode_no_dollar: "CHR ''$'' \<notin> set (b64_encode s)"
proof -
  have "list_all (\<lambda>v. v < 64) (b64_sextets (map of_char s))"
    by (rule b64_sextets_bound) (simp add: list_all_iff)
  then show ?thesis by (auto simp: b64_encode_def list_all_iff) (metis b64_char_not_sep)
qed

lemma length_b64_sextets: "length (b64_sextets bs) \<le> 2 * length bs"
  by (induction bs rule: b64_sextets.induct) simp_all

lemma length_b64_encode: "length (b64_encode s) \<le> 2 * length s"
  using length_b64_sextets [of "map of_char s"] by (simp add: b64_encode_def)

end
