(* ===== verification/GoJson.thy ===== *)
theory GoJson
  imports GoEncoding
begin

text \<open>
  The parts of \<open>encoding/json\<close> the program uses on raw JSON text: strict decoding of one value into a
  string, an \<open>int64\<close>, a \<open>bool\<close> or a slice of strings, and encoding them again.  As in Go, \<open>null\<close>
  leaves the target at its zero value, invalid UTF-8 becomes U+FFFD, and encoding escapes HTML
  characters.  Any other JSON value in the input makes decoding into these targets fail, so it needs
  no representation.
\<close>

section \<open>Decoding\<close>

abbreviation dquote :: char where "dquote \<equiv> CHR 0x22"
abbreviation backslash :: char where "backslash \<equiv> CHR 0x5C"

definition json_ws :: "char \<Rightarrow> bool" where
  "json_ws c \<longleftrightarrow> byte c \<in> {32, 9, 10, 13}"

definition skip_ws :: "string \<Rightarrow> string" where
  "skip_ws s = dropWhile json_ws s"

text \<open>Invalid UTF-8 replaced, as \<open>unquote\<close> does.\<close>

definition repair :: "string \<Rightarrow> string" where
  "repair s = encode_runes (runes s)"

definition json_hex :: "char \<Rightarrow> nat option" where
  "json_hex c = (let n = byte c in
     if 48 \<le> n \<and> n < 58 then Some (n - 48)
     else if 97 \<le> n \<and> n < 103 then Some (n - 87)
     else if 65 \<le> n \<and> n < 71 then Some (n - 55) else None)"

fun json_hex4 :: "string \<Rightarrow> (nat \<times> string) option" where
  "json_hex4 (a # b # c # d # s) =
     (case (json_hex a, json_hex b, json_hex c, json_hex d) of
        (Some v, Some x, Some y, Some z) \<Rightarrow> Some (4096 * v + 256 * x + 16 * y + z, s)
      | _ \<Rightarrow> None)"
| "json_hex4 _ = None"

text \<open>A surrogate takes the following \<open>\u\<close> escape with it when they form a pair.\<close>

definition utf16_pair :: "nat \<Rightarrow> nat \<Rightarrow> rune option" where
  "utf16_pair a b =
     (if 55296 \<le> a \<and> a < 56320 \<and> 56320 \<le> b \<and> b < 57344
      then Some ((a - 55296) * 1024 + (b - 56320) + 65536) else None)"

definition escaped_rune :: "nat \<Rightarrow> string \<Rightarrow> rune \<times> string" where
  "escaped_rune v s =
     (if 55296 \<le> v \<and> v < 57344
      then (case s of
          c # e # t \<Rightarrow>
            if c = backslash \<and> e = CHR ''u''
            then (case json_hex4 t of
                Some (b, t1) \<Rightarrow> (case utf16_pair v b of Some r \<Rightarrow> (r, t1) | None \<Rightarrow> (65533, s))
              | None \<Rightarrow> (65533, s))
            else (65533, s)
        | _ \<Rightarrow> (65533, s))
      else (v, s))"

definition simple_escape :: "char \<Rightarrow> char option" where
  "simple_escape e =
     (if e \<in> {dquote, backslash, CHR ''/''} then Some e
      else if e = CHR ''b'' then Some (CHR 0x08)
      else if e = CHR ''f'' then Some (CHR 0x0C)
      else if e = CHR ''n'' then Some (CHR 0x0A)
      else if e = CHR ''r'' then Some (CHR 0x0D)
      else if e = CHR ''t'' then Some (CHR 0x09) else None)"

definition prefixed :: "string \<Rightarrow> (string \<times> string) option \<Rightarrow> (string \<times> string) option" where
  "prefixed p r = (case r of None \<Rightarrow> None | Some (x, s) \<Rightarrow> Some (p @ x, s))"

lemma json_hex4_length: "json_hex4 s = Some (v, t) \<Longrightarrow> length t < length s"
  by (cases s rule: json_hex4.cases) (auto split: option.splits)

lemma escaped_rune_length: "length (snd (escaped_rune v s)) \<le> length s"
  by (auto simp: escaped_rune_def dest!: json_hex4_length split: list.splits option.splits)

text \<open>After the opening quote: the bytes of the literal and what follows the closing quote.\<close>

function json_body :: "string \<Rightarrow> (string \<times> string) option" where
  "json_body [] = None"
| "json_body (c # s) =
     (if c = dquote then Some ([], s)
      else if c = backslash then
        (case s of
           [] \<Rightarrow> None
         | e # t \<Rightarrow>
             if e = CHR ''u''
             then (case json_hex4 t of
                 None \<Rightarrow> None
               | Some (v, t1) \<Rightarrow>
                   prefixed (encode_rune (fst (escaped_rune v t1))) (json_body (snd (escaped_rune v t1))))
             else (case simple_escape e of
                 None \<Rightarrow> None
               | Some b \<Rightarrow> prefixed [b] (json_body t)))
      else if byte c < (32 :: nat) then None
      else prefixed [c] (json_body s))"
  by pat_completeness auto
termination
proof (relation "measure length")
  fix c :: char and s t t1 :: string and e y and v
  assume "s = e # t" "json_hex4 t = Some y" "(v, t1) = y"
  then have "length t1 < length t" using json_hex4_length by auto
  then show "(snd (escaped_rune v t1), c # s) \<in> measure length"
    using escaped_rune_length [of v t1] \<open>s = e # t\<close> by simp
qed auto

declare json_body.simps(2) [simp del]

definition json_string :: "string \<Rightarrow> (string \<times> string) option" where
  "json_string s =
     (case s of
        c # t \<Rightarrow> if c = dquote then map_option (\<lambda>(x, r). (repair x, r)) (json_body t) else None
      | [] \<Rightarrow> None)"

definition string_target :: "string \<Rightarrow> (string \<times> string) option" where
  "string_target s =
     (case cut_prefix ''null'' s of Some r \<Rightarrow> Some ('''', r) | None \<Rightarrow> json_string s)"

definition int_target :: "string \<Rightarrow> (int \<times> string) option" where
  "int_target s =
     (case cut_prefix ''null'' s of
        Some r \<Rightarrow> Some (0, r)
      | None \<Rightarrow>
          (let neg = (case s of c # _ \<Rightarrow> c = CHR ''-'' | [] \<Rightarrow> False);
               t = (if neg then tl s else s);
               ds = takeWhile is_digit t;
               v = (if neg then - int (digits_value ds) else int (digits_value ds))
           in if ds = '''' \<or> (hd ds = CHR ''0'' \<and> length ds \<noteq> 1) \<or> v < - (2 ^ 63) \<or> 2 ^ 63 \<le> v
              then None else Some (v, dropWhile is_digit t)))"

definition bool_target :: "string \<Rightarrow> (bool \<times> string) option" where
  "bool_target s =
     (case cut_prefix ''null'' s of
        Some r \<Rightarrow> Some (False, r)
      | None \<Rightarrow>
          (case cut_prefix ''true'' s of
             Some r \<Rightarrow> Some (True, r)
           | None \<Rightarrow> (case cut_prefix ''false'' s of Some r \<Rightarrow> Some (False, r) | None \<Rightarrow> None)))"

lemma prefixed_eq_Some: "prefixed p r = Some (x, s) \<longleftrightarrow> (\<exists>y. r = Some (y, s) \<and> x = p @ y)"
  by (auto simp: prefixed_def split: option.splits)

lemma json_body_length: "json_body s = Some (x, r) \<Longrightarrow> length r < length s"
proof (induction s arbitrary: x r rule: json_body.induct)
  case (2 c s)
  consider "c = dquote" | e t where "c = backslash" "s = e # t" | "c = backslash" "s = []"
    | "c \<noteq> dquote" "c \<noteq> backslash"
    by (cases s) auto
  then show ?case
  proof cases
    case (2 e t)
    show ?thesis
    proof (cases "e = CHR ''u''")
      case True
      then obtain v t1 y where "json_hex4 t = Some (v, t1)" "json_body (snd (escaped_rune v t1)) = Some (y, r)"
        using 2 "2.prems" by (auto simp: json_body.simps prefixed_eq_Some split: option.splits)
      then show ?thesis
        using "2.IH"(1) 2 True json_hex4_length [of t v t1] escaped_rune_length [of v t1] by fastforce
    next
      case False
      then obtain b y where "simple_escape e = Some b" "json_body t = Some (y, r)"
        using 2 "2.prems" by (auto simp: json_body.simps prefixed_eq_Some split: option.splits)
      then show ?thesis using "2.IH"(2) 2 False by fastforce
    qed
  next
    case 4
    then obtain y where "json_body s = Some (y, r)" "\<not> byte c < (32 :: nat)"
      using "2.prems" by (auto simp: json_body.simps prefixed_eq_Some split: if_splits)
    then show ?thesis using "2.IH"(3) 4 by fastforce
  qed (use "2.prems" in \<open>auto simp: json_body.simps\<close>)
qed simp

lemma cut_prefix_Some: "cut_prefix p s = Some r \<longleftrightarrow> s = p @ r"
  by (auto simp: cut_prefix_def has_prefix_def) (metis append_take_drop_id)

lemma json_string_length: "json_string s = Some (x, r) \<Longrightarrow> length r < length s"
  by (auto simp: json_string_def dest!: json_body_length split: list.splits if_splits)

lemma string_target_length: "string_target s = Some (x, r) \<Longrightarrow> length r < length s"
  by (auto simp: string_target_def cut_prefix_Some split: option.splits dest: json_string_length)

text \<open>The elements of an array, from the first one on.\<close>

function json_items :: "string \<Rightarrow> (string list \<times> string) option" where
  "json_items s =
     (case string_target (skip_ws s) of
        None \<Rightarrow> None
      | Some (x, r) \<Rightarrow>
          (case skip_ws r of
             [] \<Rightarrow> None
           | c # t \<Rightarrow>
               if c = CHR '','' then map_option (\<lambda>(xs, u). (x # xs, u)) (json_items t)
               else if c = CHR '']'' then Some ([x], t) else None))"
  by pat_completeness auto
termination
proof (relation "measure length")
  fix s r t :: string and y x c
  assume "string_target (skip_ws s) = Some y" "(x, r) = y" "skip_ws r = c # t"
  then have "length r < length (skip_ws s)" "length (c # t) \<le> length r"
    using string_target_length [of "skip_ws s" x r] length_dropWhile_le [of json_ws r]
    by (auto simp: skip_ws_def)
  then show "(t, s) \<in> measure length"
    using length_dropWhile_le [of json_ws s] by (simp add: skip_ws_def)
qed simp

declare json_items.simps [simp del]

text \<open>A slice is nil (\<open>None\<close>) or has elements.\<close>

definition strings_target :: "string \<Rightarrow> (string list option \<times> string) option" where
  "strings_target s =
     (case cut_prefix ''null'' s of
        Some r \<Rightarrow> Some (None, r)
      | None \<Rightarrow>
          (case s of
             [] \<Rightarrow> None
           | c # t \<Rightarrow>
               if c \<noteq> CHR ''['' then None
               else (case skip_ws t of
                   [] \<Rightarrow> None
                 | d # u \<Rightarrow> if d = CHR '']'' then Some (Some [], u)
                     else map_option (\<lambda>(xs, r). (Some xs, r)) (json_items t))))"

section \<open>Encoding\<close>

definition hex_low :: "nat \<Rightarrow> char" where
  "hex_low d = (if d < 10 then char_of (48 + d) else char_of (87 + d))"

definition escape_byte :: "char \<Rightarrow> string" where
  "escape_byte c =
     (if c \<in> {dquote, backslash} then [backslash, c]
      else if c = CHR 0x08 then [backslash, CHR ''b'']
      else if c = CHR 0x0C then [backslash, CHR ''f'']
      else if c = CHR 0x0A then [backslash, CHR ''n'']
      else if c = CHR 0x0D then [backslash, CHR ''r'']
      else if c = CHR 0x09 then [backslash, CHR ''t'']
      else if byte c < (32 :: nat) \<or> c \<in> {CHR ''<'', CHR ''>'', CHR 0x26}
      then backslash # ''u00'' @ [hex_low (byte c div 16), hex_low (byte c mod 16)]
      else [c])"

definition escape_chunk :: "rune option \<times> string \<Rightarrow> string" where
  "escape_chunk ch =
     (case fst ch of
        None \<Rightarrow> backslash # ''ufffd''
      | Some r \<Rightarrow>
          if r < 128 then escape_byte (char_of r)
          else if r = 8232 then backslash # ''u2028''
          else if r = 8233 then backslash # ''u2029''
          else snd ch)"

definition encode_string :: "string \<Rightarrow> string" where
  "encode_string s = dquote # concat (map escape_chunk (chunks s)) @ [dquote]"

definition encode_int :: "int \<Rightarrow> string" where
  "encode_int n = (if n < 0 then CHR ''-'' # show_nat (nat (- n)) else show_nat (nat n))"

definition encode_bool :: "bool \<Rightarrow> string" where
  "encode_bool b = (if b then ''true'' else ''false'')"

fun comma_join :: "string list \<Rightarrow> string" where
  "comma_join [] = ''''"
| "comma_join [x] = x"
| "comma_join (x # y # xs) = x @ CHR '','' # comma_join (y # xs)"

definition encode_strings :: "string list option \<Rightarrow> string" where
  "encode_strings v =
     (case v of None \<Rightarrow> ''null'' | Some xs \<Rightarrow> CHR ''['' # comma_join (map encode_string xs) @ '']'')"

section \<open>Raw messages\<close>

text \<open>
  \<open>json.Marshal\<close> of a \<open>json.RawMessage\<close>: the text must be one valid JSON value, and comes out without
  insignificant white space and with HTML characters escaped.  \<open>skip_value\<close> reads past one value;
  \<open>depth\<close> is the nesting still allowed, \<open>fuel\<close> bounds the recursion (every second step consumes a
  byte).
\<close>

definition skip_number :: "string \<Rightarrow> string option" where
  "skip_number s0 =
     (let s = (case s0 of c # t \<Rightarrow> if c = CHR ''-'' then t else s0 | [] \<Rightarrow> s0);
          ip = takeWhile is_digit s; s1 = dropWhile is_digit s
      in if ip = '''' \<or> (hd ip = CHR ''0'' \<and> length ip \<noteq> 1) then None
         else
           let fraction = (s1 \<noteq> '''' \<and> hd s1 = CHR ''.'');
               fp = (if fraction then takeWhile is_digit (tl s1) else '''');
               s2 = (if fraction then dropWhile is_digit (tl s1) else s1)
           in if fraction \<and> fp = '''' then None
              else if s2 \<noteq> '''' \<and> hd s2 \<in> {CHR ''e'', CHR ''E''}
              then
                let t = tl s2;
                    s3 = (if t \<noteq> '''' \<and> hd t \<in> {CHR ''+'', CHR ''-''} then tl t else t)
                in if takeWhile is_digit s3 = '''' then None else Some (dropWhile is_digit s3)
              else Some s2)"

definition skip_scalar :: "string \<Rightarrow> string option" where
  "skip_scalar s =
     (case cut_prefix ''null'' s of
        Some r \<Rightarrow> Some r
      | None \<Rightarrow>
          (case cut_prefix ''true'' s of
             Some r \<Rightarrow> Some r
           | None \<Rightarrow> (case cut_prefix ''false'' s of Some r \<Rightarrow> Some r | None \<Rightarrow> skip_number s)))"

fun skip_value :: "nat \<Rightarrow> nat \<Rightarrow> string \<Rightarrow> string option"
  and skip_elements :: "nat \<Rightarrow> nat \<Rightarrow> string \<Rightarrow> string option"
  and skip_members :: "nat \<Rightarrow> nat \<Rightarrow> string \<Rightarrow> string option" where
  "skip_value 0 depth s = None"
| "skip_value (Suc fuel) depth s =
     (case skip_ws s of
        [] \<Rightarrow> None
      | c # t \<Rightarrow>
          if c = dquote then map_option snd (json_body t)
          else if c = CHR ''['' then
            (if depth = 0 then None
             else (case skip_ws t of
                 [] \<Rightarrow> None
               | d # u \<Rightarrow> if d = CHR '']'' then Some u else skip_elements fuel (depth - 1) t))
          else if c = CHR 0x7B then
            (if depth = 0 then None
             else (case skip_ws t of
                 [] \<Rightarrow> None
               | d # u \<Rightarrow> if d = CHR 0x7D then Some u else skip_members fuel (depth - 1) t))
          else skip_scalar (c # t))"
| "skip_elements 0 depth s = None"
| "skip_elements (Suc fuel) depth s =
     (case skip_value fuel depth s of
        None \<Rightarrow> None
      | Some r \<Rightarrow>
          (case skip_ws r of
             [] \<Rightarrow> None
           | c # t \<Rightarrow> if c = CHR '','' then skip_elements fuel depth t
               else if c = CHR '']'' then Some t else None))"
| "skip_members 0 depth s = None"
| "skip_members (Suc fuel) depth s =
     (case skip_ws s of
        [] \<Rightarrow> None
      | q # k \<Rightarrow>
          if q \<noteq> dquote then None
          else (case json_body k of
              None \<Rightarrow> None
            | Some (_, r0) \<Rightarrow>
                (case skip_ws r0 of
                   [] \<Rightarrow> None
                 | colon # v \<Rightarrow>
                     if colon \<noteq> CHR '':'' then None
                     else (case skip_value fuel depth v of
                         None \<Rightarrow> None
                       | Some r \<Rightarrow>
                           (case skip_ws r of
                              [] \<Rightarrow> None
                            | c # t \<Rightarrow> if c = CHR '','' then skip_members fuel depth t
                                else if c = CHR 0x7D then Some t else None)))))"

definition json_valid :: "string \<Rightarrow> bool" where
  "json_valid s =
     (case skip_value (2 * length s + 2) 10000 s of None \<Rightarrow> False | Some r \<Rightarrow> skip_ws r = '''')"

fun json_compact :: "bool \<Rightarrow> string \<Rightarrow> string" where
  "json_compact quoted [] = []"
| "json_compact quoted (c # s) =
     (if \<not> quoted then
        (if json_ws c then json_compact False s else c # json_compact (c = dquote) s)
      else if c = backslash then
        (case s of [] \<Rightarrow> [c] | e # t \<Rightarrow> c # e # json_compact True t)
      else if c = dquote then c # json_compact False s
      else if c \<in> {CHR ''<'', CHR ''>'', CHR 0x26}
      then backslash # ''u00'' @ [hex_low (byte c div 16), hex_low (byte c mod 16)] @ json_compact True s
      else
        (case s of
           d # e # t \<Rightarrow>
             if c = CHR 0xE2 \<and> d = CHR 0x80 \<and> e = CHR 0xA8 then backslash # ''u2028'' @ json_compact True t
             else if c = CHR 0xE2 \<and> d = CHR 0x80 \<and> e = CHR 0xA9 then backslash # ''u2029'' @ json_compact True t
             else c # json_compact True s
         | _ \<Rightarrow> c # json_compact True s))"

definition raw_message :: "string \<Rightarrow> string option" where
  "raw_message s = (if s = '''' then Some ''null'' else if json_valid s then Some (json_compact False s) else None)"

section \<open>Decoding what was encoded\<close>

text \<open>A decoded rune is a scalar value, and its bytes are its encoding.\<close>

lemma char_of_byte_sum: "n = byte c \<Longrightarrow> char_of n = c"
  by simp

lemma base64_digit: "w < 64 \<Longrightarrow> (q * 64 + w) div 64 = q" "w < 64 \<Longrightarrow> (q * 64 + w) mod 64 = (w :: nat)"
  by simp_all

lemma div_4096: "r div 4096 = r div 64 div (64 :: nat)" "r div 262144 = r div 64 div 64 div (64 :: nat)"
  by (simp_all add: div_mult2_eq [symmetric])

lemma decode_rune_Some:
  assumes "decode_rune (map byte s) = (Some r, n)"
  shows "scalar r \<and> take n s = encode_scalar r"
proof -
  obtain b0 s0 where s: "s = b0 # s0" using assms by (cases s) auto
  consider "byte b0 < (128::nat)" | "194 \<le> (byte b0 :: nat)" "byte b0 < (224::nat)"
    | "224 \<le> (byte b0 :: nat)" "byte b0 < (240::nat)" | "240 \<le> (byte b0 :: nat)" "byte b0 < (245::nat)"
    using assms s by (auto split: if_splits)
  then show ?thesis
  proof cases
    case 1
    then show ?thesis using assms s by (auto simp: scalar_def encode_scalar_def)
  next
    case 2
    then obtain b1 s1 where b: "s0 = b1 # s1" "second_ok (byte b0) (byte b1)" "n = 2"
      "r = (byte b0 - 192) * 64 + (byte b1 - 128)"
      using assms s by (cases s0) (auto split: if_splits)
    define x y where "x = (byte b0 :: nat) - 192" and "y = (byte b1 :: nat) - 128"
    have xy: "byte b0 = 192 + x" "byte b1 = 128 + y" "2 \<le> x" "x < 32" "y < 64"
      using 2 b(2) by (auto simp: x_def y_def second_ok_def cont_def)
    have r: "r = x * 64 + y" using b(4) by (simp add: x_def y_def)
    have "r div 64 = x" "r mod 64 = y" "128 \<le> r" "r < 2048" using xy by (auto simp: r)
    then show ?thesis
      using xy(1,2) [THEN char_of_byte_sum [OF sym]] by (simp add: s b(1,3) encode_scalar_def scalar_def)
  next
    case 3
    then obtain b1 b2 s1 where b: "s0 = b1 # b2 # s1" "second_ok (byte b0) (byte b1)" "cont (byte b2)" "n = 3"
      "r = (byte b0 - 224) * 4096 + (byte b1 - 128) * 64 + (byte b2 - 128)"
      using assms s by (cases s0; cases "tl s0") (auto split: if_splits)
    define x y z where "x = (byte b0 :: nat) - 224" and "y = (byte b1 :: nat) - 128" and "z = (byte b2 :: nat) - 128"
    have xy: "byte b0 = 224 + x" "byte b1 = 128 + y" "byte b2 = 128 + z" "x < 16" "y < 64" "z < 64"
      "x = 0 \<longrightarrow> 32 \<le> y" "x = 13 \<longrightarrow> y < 32"
      using 3 b(2,3) by (auto simp: x_def y_def z_def second_ok_def cont_def)
    have r: "r = (x * 64 + y) * 64 + z" using b(5) by (simp add: x_def y_def z_def)
    have "r div 64 = x * 64 + y" "r mod 64 = z" using xy(6) by (simp_all only: r base64_digit)
    moreover from this(1) have "r div 4096 = x" using xy(5) by (simp only: div_4096 base64_digit)
    moreover have "2048 \<le> r" "r < 65536" using xy by (auto simp: r)
    moreover have "x \<le> 12 \<or> x = 13 \<or> 14 \<le> x" by linarith
    then have "scalar r" using xy by (elim disjE) (simp_all add: r scalar_def)
    ultimately show ?thesis
      using xy(1-3) [THEN char_of_byte_sum [OF sym]] base64_digit(2) [OF xy(5), of x] by (simp add: s b(1,4) encode_scalar_def)
  next
    case 4
    then obtain b1 b2 b3 s1 where b: "s0 = b1 # b2 # b3 # s1" "second_ok (byte b0) (byte b1)" "cont (byte b2)"
      "cont (byte b3)" "n = 4"
      "r = (byte b0 - 240) * 262144 + (byte b1 - 128) * 4096 + (byte b2 - 128) * 64 + (byte b3 - 128)"
      using assms s by (cases s0; cases "tl s0"; cases "tl (tl s0)") (auto split: if_splits)
    define x y z w where "x = (byte b0 :: nat) - 240" and "y = (byte b1 :: nat) - 128" and
      "z = (byte b2 :: nat) - 128" and "w = (byte b3 :: nat) - 128"
    have xy: "byte b0 = 240 + x" "byte b1 = 128 + y" "byte b2 = 128 + z" "byte b3 = 128 + w" "x < 5" "y < 64"
      "z < 64" "w < 64" "x = 0 \<longrightarrow> 16 \<le> y" "x = 4 \<longrightarrow> y < 16"
      using 4 b(2-4) by (auto simp: x_def y_def z_def w_def second_ok_def cont_def)
    have r: "r = ((x * 64 + y) * 64 + z) * 64 + w" using b(6) by (simp add: x_def y_def z_def w_def)
    have d: "r div 64 = (x * 64 + y) * 64 + z" "r mod 64 = w" using xy(8) by (simp_all only: r base64_digit)
    moreover from d(1) have "r div 4096 = x * 64 + y" using xy(7) by (simp only: div_4096 base64_digit)
    moreover from d(1) have "r div 262144 = x" using xy(6,7) by (simp only: div_4096 base64_digit)
    moreover have "65536 \<le> r" using xy(9) by (cases "x = 0") (simp_all add: r)
    moreover have "x \<le> 3 \<or> x = 4" using xy(5) by linarith
    then have "r < 1114112" using xy(6-8,10) by (elim disjE) (simp_all add: r)
    then have "scalar r" using \<open>65536 \<le> r\<close> by (simp add: scalar_def)
    moreover have "r div 64 mod 64 = z" "r div 4096 mod 64 = y"
      using d(1) \<open>r div 4096 = x * 64 + y\<close> xy(6,7) by (simp_all only: base64_digit)
    ultimately show ?thesis
      using xy(1-4) [THEN char_of_byte_sum [OF sym]] by (simp add: s b(1,5) encode_scalar_def)
  qed
qed

lemma chunks_Some: "(Some r, bs) \<in> set (chunks s) \<Longrightarrow> scalar r \<and> bs = encode_scalar r"
proof (induction s rule: chunks.induct)
  case (1 s)
  show ?case
  proof (cases "s = []")
    case False
    then show ?thesis
      using 1 decode_rune_Some [of s r "snd (decode_rune (map byte s))"]
      by (cases "decode_rune (map byte s)") (auto simp: chunks.simps [of s])
  qed (use 1 in simp)
qed

text \<open>The bytes of a piece after repair.\<close>

definition repaired :: "rune option \<times> string \<Rightarrow> string" where
  "repaired ch = encode_rune (rune_of ch)"

lemma repair_chunks: "repair s = concat (map repaired (chunks s))"
  by (simp add: repair_def runes_def encode_runes_def repaired_def [abs_def] o_def)

lemma runes_scalar: "list_all scalar (runes s)"
  by (auto simp: runes_def rune_of_def list_all_iff dest!: chunks_Some split: option.splits)

lemma repair_idem [simp]: "repair (repair s) = repair s"
  by (simp add: repair_def runes_encode_runes runes_scalar)

lemma hex_low_value [simp]: "d < 16 \<Longrightarrow> json_hex (hex_low d) = Some d"
  by (auto simp: json_hex_def hex_low_def)

lemma json_hex4_low:
  assumes "n < 128"
  shows "json_hex4 (CHR ''0'' # CHR ''0'' # hex_low (n div 16) # hex_low (n mod 16) # t) = Some (n, t)"
proof -
  have "json_hex CHR ''0'' = Some 0" by (simp add: json_hex_def)
  moreover have "n div 16 < 16" "n mod 16 < 16" "16 * (n div 16) + n mod 16 = n" using assms by auto
  ultimately show ?thesis by simp
qed

lemma escaped_rune_plain: "v < 55296 \<Longrightarrow> escaped_rune v t = (v, t)"
  by (simp add: escaped_rune_def)

text \<open>Reading back the escapes.\<close>

lemma json_body_simple:
  "simple_escape e = Some b \<Longrightarrow> json_body (backslash # e # t) = prefixed [b] (json_body t)"
  by (auto simp: json_body.simps simple_escape_def split: if_splits)

lemma json_body_unicode:
  "json_hex4 (x @ t) = Some (v, t) \<Longrightarrow> v < 55296 \<Longrightarrow>
   json_body (backslash # CHR ''u'' # x @ t) = prefixed (encode_rune v) (json_body t)"
  by (simp add: json_body.simps escaped_rune_plain)

lemma json_body_plain:
  "\<not> byte c < (32 :: nat) \<Longrightarrow> c \<noteq> dquote \<Longrightarrow> c \<noteq> backslash \<Longrightarrow> json_body (c # t) = prefixed [c] (json_body t)"
  by (simp add: json_body.simps)

lemma prefixed_prefixed [simp]: "prefixed p (prefixed q r) = prefixed (p @ q) r"
  by (auto simp: prefixed_def split: option.splits)

lemma prefixed_Nil [simp]: "prefixed [] r = r"
  by (auto simp: prefixed_def split: option.splits)

lemma json_body_high:
  "list_all (\<lambda>c. 128 \<le> (byte c :: nat)) bs \<Longrightarrow> json_body (bs @ t) = prefixed bs (json_body t)"
proof (induction bs)
  case (Cons c bs)
  then have "c \<noteq> dquote" "c \<noteq> backslash" "\<not> byte c < (32 :: nat)" by auto
  then show ?case using Cons by (simp add: json_body_plain)
qed simp

lemma json_body_escape_byte:
  assumes "byte c < (128 :: nat)"
  shows "json_body (escape_byte c @ t) = prefixed [c] (json_body t)"
proof -
  have u: "json_body (backslash # CHR ''u'' # (''00'' @ [hex_low (byte c div 16), hex_low (byte c mod 16)]) @ t) =
      prefixed (encode_rune (byte c)) (json_body t)"
    using assms json_hex4_low [of "byte c" t] by (intro json_body_unicode) simp_all
  moreover have "encode_rune (byte c) = [c]"
    using assms by (simp add: encode_rune_def encode_scalar_def scalar_def)
  ultimately show ?thesis
    by (auto simp: escape_byte_def json_body_simple simple_escape_def json_body_plain)
qed

lemma encode_scalar_high: "128 \<le> r \<Longrightarrow> scalar r \<Longrightarrow> list_all (\<lambda>c. 128 \<le> (byte c :: nat)) (encode_scalar r)"
  by (auto simp: encode_scalar_def scalar_def)

lemma json_body_escape_chunk:
  assumes "ch \<in> set (chunks s)"
  shows "json_body (escape_chunk ch @ t) = prefixed (repaired ch) (json_body t)"
proof (cases "fst ch")
  case None
  have "json_hex4 (''fffd'' @ t) = Some (65533, t)" by (simp add: json_hex_def)
  then have "json_body (backslash # CHR ''u'' # ''fffd'' @ t) = prefixed (encode_rune 65533) (json_body t)"
    by (simp add: json_body.simps escaped_rune_def)
  then show ?thesis using None by (simp add: escape_chunk_def repaired_def rune_of_def)
next
  case (Some r)
  then have r: "scalar r" "snd ch = encode_scalar r"
    using assms chunks_Some [of r "snd ch" s] by (cases ch; simp)+
  have rep: "repaired ch = encode_scalar r" using Some r by (simp add: repaired_def rune_of_def encode_rune_def)
  have sep: "json_body (backslash # CHR ''u'' # ''2028'' @ t) = prefixed (encode_rune 8232) (json_body t)"
    "json_body (backslash # CHR ''u'' # ''2029'' @ t) = prefixed (encode_rune 8233) (json_body t)"
    by (rule json_body_unicode; simp add: json_hex_def)+
  show ?thesis
  proof (cases "r < 128")
    case True
    then show ?thesis
      using Some rep json_body_escape_byte [of "char_of r" t] by (simp add: escape_chunk_def encode_scalar_def)
  next
    case False
    then show ?thesis
      using Some rep sep r json_body_high [OF encode_scalar_high, of r t]
      by (auto simp: escape_chunk_def encode_rune_def scalar_def)
  qed
qed

lemma json_body_encoded:
  "set chs \<subseteq> set (chunks s) \<Longrightarrow>
   json_body (concat (map escape_chunk chs) @ dquote # t) = Some (concat (map repaired chs), t)"
proof (induction chs)
  case Nil show ?case by (simp add: json_body.simps)
next
  case (Cons ch chs)
  then show ?case using json_body_escape_chunk [of ch s] by (simp add: prefixed_def)
qed

text \<open>A string that was encoded decodes to itself, with invalid bytes replaced.\<close>

lemma string_target_encode: "string_target (encode_string s @ t) = Some (repair s, t)"
proof -
  have "json_body (concat (map escape_chunk (chunks s)) @ dquote # t) = Some (repair s, t)"
    using json_body_encoded [of "chunks s" s t] by (simp add: repair_chunks)
  then have "json_string (encode_string s @ t) = Some (repair s, t)"
    by (simp add: json_string_def encode_string_def)
  moreover have "cut_prefix ''null'' (encode_string s @ t) = None"
    by (simp add: cut_prefix_def has_prefix_def encode_string_def)
  ultimately show ?thesis by (simp add: string_target_def)
qed

text \<open>Whitespace does not start an encoded value or a separator.\<close>

lemma skip_ws_encode [simp]: "skip_ws (encode_string s @ t) = encode_string s @ t"
  by (simp add: skip_ws_def encode_string_def json_ws_def)

lemma skip_ws_sep [simp]: "skip_ws (CHR '','' # t) = CHR '','' # t" "skip_ws (CHR '']'' # t) = CHR '']'' # t"
  by (simp_all add: skip_ws_def json_ws_def)

lemma json_items_encode:
  "xs \<noteq> [] \<Longrightarrow> json_items (comma_join (map encode_string xs) @ CHR '']'' # t) = Some (map repair xs, t)"
proof (induction xs rule: comma_join.induct)
  case (2 x)
  show ?case
    by (subst json_items.simps) (simp add: string_target_encode)
next
  case (3 x y xs)
  then have "json_items (comma_join (map encode_string (y # xs)) @ CHR '']'' # t) = Some (map repair (y # xs), t)"
    by simp
  then show ?case
    by (subst json_items.simps) (simp add: string_target_encode)
qed simp

lemma strings_target_encode:
  "strings_target (encode_strings v @ t) = Some (map_option (map repair) v, t)"
proof (cases v)
  case None
  then show ?thesis by (simp add: strings_target_def encode_strings_def cut_prefix_def has_prefix_def)
next
  case (Some xs)
  have np: "cut_prefix ''null'' (CHR ''['' # s) = None" for s
    by (simp add: cut_prefix_def has_prefix_def)
  show ?thesis
  proof (cases xs)
    case Nil
    then show ?thesis using Some np by (simp add: strings_target_def encode_strings_def)
  next
    case (Cons x ys)
    define s where "s = comma_join (map encode_string xs) @ CHR '']'' # t"
    obtain u where u: "s = dquote # u"
      using Cons by (cases ys) (auto simp: s_def encode_string_def)
    have items: "json_items s = Some (map repair xs, t)"
      using json_items_encode [of xs t] Cons by (simp add: s_def)
    have ws: "skip_ws s = dquote # u" by (simp add: u skip_ws_def json_ws_def)
    have "strings_target (CHR ''['' # s) = Some (Some (map repair xs), t)"
      unfolding strings_target_def np using ws items by simp
    then show ?thesis using Some by (simp add: encode_strings_def s_def)
  qed
qed

lemma take_digits: "takeWhile is_digit (show_nat n @ t) = show_nat n @ takeWhile is_digit t"
    "dropWhile is_digit (show_nat n @ t) = dropWhile is_digit t"
  using show_nat_digits [of n]
  by (simp_all add: takeWhile_append dropWhile_append list_all_iff)

lemma show_nat_leading: "hd (show_nat n) = CHR ''0'' \<Longrightarrow> length (show_nat n) = 1"
proof (induction n rule: show_nat.induct)
  case (1 n)
  show ?case
  proof (cases "n < 10")
    case False
    then have "hd (show_nat (n div 10)) = CHR ''0''" "length (show_nat (n div 10)) = 1"
      using 1 by (auto simp: show_nat.simps [of n])
    then have "show_nat (n div 10) = ''0''" by (cases "show_nat (n div 10)") auto
    then have "n div 10 = 0" using digits_value_show_nat [of "n div 10"] by (simp add: digits_value_def)
    then show ?thesis using False by simp
  qed (simp add: show_nat.simps)
qed

lemma show_nat_hd: "\<exists>c s. show_nat n = c # s \<and> is_digit c"
  using show_nat_digits [of n] show_nat_not_Nil [of n] by (cases "show_nat n") auto

lemma digit_not: "is_digit c \<Longrightarrow> c \<noteq> CHR ''-'' \<and> c \<noteq> CHR ''n''"
  by (auto simp: is_digit_def)

lemma int_target_encode:
  assumes "- (2 ^ 63) \<le> n" "n < 2 ^ 63"
  shows "int_target (encode_int n) = Some (n, '''')"
proof -
  have d: "takeWhile is_digit (show_nat k) = show_nat k" "dropWhile is_digit (show_nat k) = ''''" for k
    using take_digits [of k "''''"] by simp_all
  obtain c s where c: "show_nat k = c # s" "is_digit c" "c \<noteq> CHR ''-''" "c \<noteq> CHR ''n''"
    if "k = nat (abs n)" for k
    using show_nat_hd [of "nat (abs n)"] digit_not by blast
  show ?thesis
  proof (cases "n < 0")
    case True
    have "cut_prefix ''null'' (encode_int n) = None"
      using True by (simp add: encode_int_def cut_prefix_def has_prefix_def)
    then show ?thesis
      using True assms show_nat_leading [of "nat (- n)"]
      by (auto simp: int_target_def encode_int_def Let_def d)
  next
    case False
    then have e: "encode_int n = c # s" "show_nat (nat n) = c # s"
      using c(1) [of "nat n"] by (simp_all add: encode_int_def)
    have "cut_prefix ''null'' (c # s) = None"
      using c(4) by (simp add: cut_prefix_def has_prefix_def)
    then show ?thesis
      using False assms show_nat_leading [of "nat n"] c(3) d [of "nat n"] digits_value_show_nat [of "nat n"]
      by (auto simp: int_target_def Let_def e)
  qed
qed

lemma bool_target_encode: "bool_target (encode_bool b) = Some (b, '''')"
  by (simp add: bool_target_def encode_bool_def cut_prefix_def has_prefix_def)

end
