(* ===== verification/GoDuration.thy ===== *)
theory GoDuration
  imports GoEncoding
begin

text \<open>
  \<open>time.ParseDuration\<close>, with its 64-bit arithmetic written out.  The nanoseconds of a decimal
  fraction go through \<open>float64\<close>; that computation, \<open>uint64(float64(f) * (float64(unit) / scale))\<close>,
  is the argument \<open>frac\<close>, applied to \<open>f\<close>, the unit and the number of digits of the scale.
\<close>

text \<open>\<open>leadingInt\<close>: \<open>None\<close> on overflow.\<close>

fun leading_int :: "nat \<Rightarrow> string \<Rightarrow> (nat \<times> string) option" where
  "leading_int x [] = Some (x, [])"
| "leading_int x (c # s) =
     (if \<not> is_digit c then Some (x, c # s)
      else if 2 ^ 63 div 10 < x then None
      else let y = x * 10 + (byte c - 48) in
        if 2 ^ 63 < y then None else leading_int y s)"

text \<open>\<open>leadingFraction\<close>: digits after an overflow are skipped.\<close>

fun leading_fraction :: "nat \<Rightarrow> nat \<Rightarrow> bool \<Rightarrow> string \<Rightarrow> nat \<times> nat \<times> string" where
  "leading_fraction x scale over [] = (x, scale, [])"
| "leading_fraction x scale over (c # s) =
     (if \<not> is_digit c then (x, scale, c # s)
      else if over \<or> (2 ^ 63 - 1) div 10 < x then leading_fraction x scale True s
      else let y = x * 10 + (byte c - 48) in
        if 2 ^ 63 < y then leading_fraction x scale True s else leading_fraction y (Suc scale) False s)"

definition duration_unit :: "string \<Rightarrow> nat option" where
  "duration_unit u =
     (if u = ''ns'' then Some 1
      else if u \<in> {''us'', [CHR 0xC2, CHR 0xB5, CHR ''s''], [CHR 0xCE, CHR 0xBC, CHR ''s'']} then Some 1000
      else if u = ''ms'' then Some 1000000
      else if u = ''s'' then Some 1000000000
      else if u = ''m'' then Some 60000000000
      else if u = ''h'' then Some 3600000000000
      else None)"

definition unit_char :: "char \<Rightarrow> bool" where
  "unit_char c \<longleftrightarrow> c \<noteq> CHR ''.'' \<and> \<not> is_digit c"

text \<open>One number with its unit: the nanoseconds it adds and the rest of the text.\<close>

definition duration_part :: "(nat \<Rightarrow> nat \<Rightarrow> nat \<Rightarrow> nat) \<Rightarrow> string \<Rightarrow> (nat \<times> string) option" where
  "duration_part frac s =
     (case leading_int 0 s of
        None \<Rightarrow> None
      | Some (v, s1) \<Rightarrow>
          (let pre = (length s1 \<noteq> length s);
               dot = (s1 \<noteq> [] \<and> hd s1 = CHR ''.'');
               (f, scale, s2) = (if dot then leading_fraction 0 0 False (tl s1) else (0, 0, s1));
               post = (dot \<and> length s2 \<noteq> length (tl s1));
               u = takeWhile unit_char s2
           in if \<not> pre \<and> \<not> post then None
              else (case duration_unit u of
                  None \<Rightarrow> None
                | Some unit \<Rightarrow>
                    if 2 ^ 63 div unit < v then None
                    else let n = v * unit + (if 0 < f then frac f unit scale else 0) in
                      if 0 < f \<and> 2 ^ 63 < n then None
                      else Some (n, dropWhile unit_char s2))))"

lemma leading_int_length: "leading_int x s = Some (v, r) \<Longrightarrow> length r \<le> length s"
  by (induction x s rule: leading_int.induct) (auto simp: Let_def split: if_splits)

lemma leading_fraction_length: "length (snd (snd (leading_fraction x k b s))) \<le> length s"
  by (induction s arbitrary: x k b) (auto simp: Let_def intro: le_SucI)

lemma duration_part_length:
  assumes "duration_part frac s = Some (n, r)"
  shows "length r < length s"
proof -
  obtain v s1 where 1: "leading_int 0 s = Some (v, s1)"
    using assms by (auto simp: duration_part_def split: option.splits)
  define dot where "dot = (s1 \<noteq> [] \<and> hd s1 = CHR ''.'')"
  obtain f k s2 where 2: "(if dot then leading_fraction 0 0 False (tl s1) else (0, 0, s1)) = (f, k, s2)"
    by (cases "if dot then leading_fraction 0 0 False (tl s1) else (0, 0, s1)") auto
  have "length s2 \<le> length s1"
    using 2 leading_fraction_length [of 0 0 False "tl s1"] by (cases s1) (auto split: if_splits)
  then have len: "length s2 \<le> length s" using leading_int_length [OF 1] by simp
  have r: "r = dropWhile unit_char s2" "duration_unit (takeWhile unit_char s2) \<noteq> None"
    using assms 1 2 by (auto simp: duration_part_def Let_def dot_def split: option.splits if_splits)
  then have "takeWhile unit_char s2 \<noteq> []" by (auto simp: duration_unit_def)
  moreover have "length (takeWhile unit_char s2) + length r = length s2"
    using arg_cong [OF takeWhile_dropWhile_id [of unit_char s2], of length] r(1) unfolding length_append by simp
  ultimately have "length r < length s2" by (cases "takeWhile unit_char s2") auto
  then show ?thesis using len by simp
qed

function duration_loop :: "(nat \<Rightarrow> nat \<Rightarrow> nat \<Rightarrow> nat) \<Rightarrow> nat \<Rightarrow> string \<Rightarrow> nat option" where
  "duration_loop frac d s =
     (if s = [] then Some d
      else if hd s \<noteq> CHR ''.'' \<and> \<not> is_digit (hd s) then None
      else (case duration_part frac s of
          None \<Rightarrow> None
        | Some (n, r) \<Rightarrow>
            let d1 = (d + n) mod 2 ^ 64 in
            if 2 ^ 63 < d1 then None else duration_loop frac d1 r))"
  by pat_completeness auto
termination
  by (relation "measure (\<lambda>(_, _, s). length s)") (auto dest: duration_part_length)

declare duration_loop.simps [simp del]

definition parse_duration :: "(nat \<Rightarrow> nat \<Rightarrow> nat \<Rightarrow> nat) \<Rightarrow> string \<Rightarrow> int option" where
  "parse_duration frac s0 =
     (let signed = (s0 \<noteq> [] \<and> hd s0 \<in> {CHR ''-'', CHR ''+''});
          neg = (signed \<and> hd s0 = CHR ''-'');
          s = (if signed then tl s0 else s0)
      in if s = ''0'' then Some 0
         else if s = '''' then None
         else (case duration_loop frac 0 s of
             None \<Rightarrow> None
           | Some d \<Rightarrow>
               if neg then Some (- int d)
               else if 2 ^ 63 - 1 < d then None else Some (int d)))"

end
