(* ===== verification/ConfigModel.thy ===== *)
theory ConfigModel
  imports GoJson GoDuration Shared
begin

text \<open>
  \<open>internal/modules/systemconfig/model.go\<close> and \<open>events.go\<close>: the typed values of the dynamic
  configuration, their validation and normal form, the keys that are refused, and the event bus.  A
  \<open>json.RawMessage\<close> is its bytes; the nil and the empty message are not told apart, since the code
  refuses both.
\<close>

section \<open>model.go\<close>

type_synonym value_type = string

definition type_string :: value_type where "type_string = ''string''"
definition type_integer :: value_type where "type_integer = ''integer''"
definition type_boolean :: value_type where "type_boolean = ''boolean''"
definition type_duration :: value_type where "type_duration = ''duration''"
definition type_string_list :: value_type where "type_string_list = ''string_list''"

lemmas type_defs = type_string_def type_integer_def type_boolean_def type_duration_def
  type_string_list_def

record sys_config =
  sc_key :: string
  sc_value :: string
  sc_value_type :: value_type
  sc_is_public :: bool
  sc_description :: string
  sc_created_at :: time
  sc_updated_at :: time

record config_input =
  in_key :: string
  in_value :: string
  in_value_type :: value_type
  in_is_public :: bool
  in_description :: string

record config_changed =
  ch_key :: string
  ch_deleted :: bool
  ch_changed_at :: time

text \<open>\<open>^[a-z][a-z0-9_.-]{1,127}$\<close>\<close>

definition key_head :: "char \<Rightarrow> bool" where
  "key_head c \<longleftrightarrow> 97 \<le> byte c \<and> byte c < 123"

definition key_tail :: "char \<Rightarrow> bool" where
  "key_tail c \<longleftrightarrow> key_head c \<or> is_digit c \<or> c \<in> {CHR ''_'', CHR ''.'', CHR ''-''}"

fun config_key_pattern :: "string \<Rightarrow> bool" where
  "config_key_pattern [] = False"
| "config_key_pattern (c # cs) =
     (key_head c \<and> 1 \<le> length cs \<and> length cs \<le> 127 \<and> list_all key_tail cs)"

text \<open>\<open>strings.FieldsFunc\<close> with an ASCII separator set.\<close>

fun fields_func :: "(char \<Rightarrow> bool) \<Rightarrow> string \<Rightarrow> string list" where
  "fields_func p [] = []"
| "fields_func p (c # s) =
     (if p c then fields_func p s
      else (case s of
          [] \<Rightarrow> [[c]]
        | d # _ \<Rightarrow> if p d then [c] # fields_func p s
            else (case fields_func p s of [] \<Rightarrow> [[c]] | f # fs \<Rightarrow> (c # f) # fs)))"

definition reserved_prefixes :: "string list" where
  "reserved_prefixes = [''app.'', ''server.'', ''database.'', ''redis.'', ''auth.'', ''cors.'', ''log.'',
     ''modules.'', ''file.'', ''systemconfig.'']"

definition sensitive_words :: "string list" where
  "sensitive_words = [''secret'', ''password'', ''passwd'', ''token'', ''cookie'', ''credential'',
     ''privatekey'', ''private'', ''key'', ''authorization'', ''dsn'']"

definition key_separator :: "char \<Rightarrow> bool" where
  "key_separator c \<longleftrightarrow> c = CHR ''.'' \<or> c = CHR ''-'' \<or> c = CHR ''_''"

definition sensitive_key :: "unicode \<Rightarrow> string \<Rightarrow> bool" where
  "sensitive_key U key =
     (let lower = to_lower U key in
      list_ex (\<lambda>p. has_prefix p lower) reserved_prefixes \<or>
      list_ex (\<lambda>s. s \<in> set sensitive_words) (fields_func key_separator lower))"

text \<open>\<open>decodeStrict\<close>: one value, then nothing but white space.\<close>

definition decode_strict :: "(string \<Rightarrow> ('a \<times> string) option) \<Rightarrow> string \<Rightarrow> 'a option" where
  "decode_strict target raw =
     (case target (skip_ws raw) of
        None \<Rightarrow> None
      | Some (x, rest) \<Rightarrow> if skip_ws rest = '''' then Some x else None)"

definition normalize_value :: "(nat \<Rightarrow> nat \<Rightarrow> nat \<Rightarrow> nat) \<Rightarrow> value_type \<Rightarrow> string \<Rightarrow> err + string" where
  "normalize_value frac t raw =
     (if t = type_string then
        (case decode_strict string_target raw of
           None \<Rightarrow> Inl (Sentinel ConfigInvalidType) | Some s \<Rightarrow> Inr (encode_string s))
      else if t = type_integer then
        (case decode_strict int_target raw of
           None \<Rightarrow> Inl (Sentinel ConfigInvalidType) | Some n \<Rightarrow> Inr (encode_int n))
      else if t = type_boolean then
        (case decode_strict bool_target raw of
           None \<Rightarrow> Inl (Sentinel ConfigInvalidType) | Some b \<Rightarrow> Inr (encode_bool b))
      else if t = type_duration then
        (case decode_strict string_target raw of
           None \<Rightarrow> Inl (Sentinel ConfigInvalidType)
         | Some s \<Rightarrow>
             if parse_duration frac s = None then Inl (Sentinel ConfigInvalidType)
             else Inr (encode_string s))
      else if t = type_string_list then
        (case decode_strict strings_target raw of
           None \<Rightarrow> Inl (Sentinel ConfigInvalidType)
         | Some v \<Rightarrow>
             (let values = (case v of None \<Rightarrow> [] | Some xs \<Rightarrow> xs) in
              if 1000 < length values \<or> list_ex (\<lambda>x. 1024 < length x) values
              then Inl (Sentinel ConfigInvalidType)
              else Inr (encode_strings v)))
      else Inl (Sentinel ConfigInvalidType))"

definition validate_and_normalize ::
  "unicode \<Rightarrow> (nat \<Rightarrow> nat \<Rightarrow> nat \<Rightarrow> nat) \<Rightarrow> config_input \<Rightarrow> err + config_input" where
  "validate_and_normalize U frac input0 =
     (let input = input0\<lparr>in_key := trim_space U (in_key input0),
                        in_description := trim_space U (in_description input0)\<rparr> in
      if \<not> config_key_pattern (in_key input) \<or> 255 < length (in_description input) \<or>
         in_value input = '''' \<or> 64 * 1024 < length (in_value input)
      then Inl (Sentinel ConfigInvalidInput)
      else if sensitive_key U (in_key input) then Inl (Sentinel SensitiveKey)
      else (case normalize_value frac (in_value_type input) (in_value input) of
          Inl e \<Rightarrow> Inl e
        | Inr v \<Rightarrow> Inr (input\<lparr>in_value := v\<rparr>)))"

section \<open>events.go\<close>

text \<open>Subscribers run in the order of their subscription, on the list at the time of publishing.\<close>

type_synonym 'w subscriber = "config_changed \<Rightarrow> ('w, unit) state"

definition subscribe :: "'w subscriber option \<Rightarrow> 'w subscriber list \<Rightarrow> 'w subscriber list" where
  "subscribe s bus = (case s of None \<Rightarrow> bus | Some f \<Rightarrow> bus @ [f])"

fun publish :: "'w subscriber list \<Rightarrow> config_changed \<Rightarrow> ('w, unit) state" where
  "publish [] event = State_Monad.return ()"
| "publish (f # fs) event = do { _ \<leftarrow> f event; publish fs event }"

lemma publish_leaves: "(\<And>s e. s \<in> set bus \<Longrightarrow> leaves (s e) f) \<Longrightarrow> leaves (publish bus event) f"
  by (induction bus) (auto intro!: leaves_rules)

section \<open>Values\<close>

text \<open>What a JSON text says at a type.\<close>

datatype config_value =
    StringValue string
  | IntegerValue int
  | BooleanValue bool
  | DurationValue string
  | ListValue "string list option"

definition decode_value :: "(nat \<Rightarrow> nat \<Rightarrow> nat \<Rightarrow> nat) \<Rightarrow> value_type \<Rightarrow> string \<Rightarrow> config_value option" where
  "decode_value frac t raw =
     (if t = type_string then map_option StringValue (decode_strict string_target raw)
      else if t = type_integer then map_option IntegerValue (decode_strict int_target raw)
      else if t = type_boolean then map_option BooleanValue (decode_strict bool_target raw)
      else if t = type_duration then
        (case decode_strict string_target raw of
           None \<Rightarrow> None | Some s \<Rightarrow> if parse_duration frac s = None then None else Some (DurationValue s))
      else if t = type_string_list then
        (case decode_strict strings_target raw of
           None \<Rightarrow> None
         | Some v \<Rightarrow> if 1000 < length (case v of None \<Rightarrow> [] | Some xs \<Rightarrow> xs) \<or>
               list_ex (\<lambda>x. 1024 < length x) (case v of None \<Rightarrow> [] | Some xs \<Rightarrow> xs)
             then None else Some (ListValue v))
      else None)"

lemma type_distinct [simp]:
  "type_integer \<noteq> type_string" "type_boolean \<noteq> type_string" "type_duration \<noteq> type_string"
  "type_string_list \<noteq> type_string" "type_boolean \<noteq> type_integer" "type_duration \<noteq> type_integer"
  "type_string_list \<noteq> type_integer" "type_duration \<noteq> type_boolean" "type_string_list \<noteq> type_boolean"
  "type_string_list \<noteq> type_duration"
  by (simp_all add: type_defs)

text \<open>Decoding gives repaired strings, so encoding loses nothing.\<close>

lemma string_target_repaired: "string_target s = Some (x, r) \<Longrightarrow> repair x = x"
  by (auto simp: string_target_def json_string_def repair_def [of "''''"] encode_runes_def
      split: option.splits list.splits if_splits)

lemma json_items_repaired: "json_items s = Some (xs, r) \<Longrightarrow> map repair xs = xs"
proof (induction s arbitrary: xs r rule: json_items.induct)
  case (1 s)
  from "1.prems" obtain x q c t where x: "string_target (skip_ws s) = Some (x, q)" "skip_ws q = c # t"
    and "(\<exists>ys. c = CHR '','' \<and> json_items t = Some (ys, r) \<and> xs = x # ys) \<or> (c = CHR '']'' \<and> xs = [x])"
    by (subst (asm) json_items.simps) (auto split: option.splits list.splits if_splits)
  then show ?case
    using "1.IH" [OF x(1) refl x(2)] string_target_repaired [OF x(1)] by auto
qed

lemma strings_target_repaired: "strings_target s = Some (v, r) \<Longrightarrow> map_option (map repair) v = v"
  by (auto simp: strings_target_def dest!: json_items_repaired split: option.splits list.splits if_splits)

lemma decode_strict_encode:
  assumes "target s = Some (x, '''')" "skip_ws s = s"
  shows "decode_strict target s = Some x"
  using assms by (simp add: decode_strict_def skip_ws_def)

lemma decode_strictD: "decode_strict target raw = Some x \<Longrightarrow> \<exists>r. target (skip_ws raw) = Some (x, r)"
  by (auto simp: decode_strict_def split: option.splits if_splits)

lemma skip_ws_plain [simp]:
  "skip_ws (encode_string s) = encode_string s" "skip_ws (encode_bool b) = encode_bool b"
  "skip_ws (encode_strings v) = encode_strings v" "skip_ws (encode_int n) = encode_int n"
proof -
  show "skip_ws (encode_string s) = encode_string s" "skip_ws (encode_bool b) = encode_bool b"
    "skip_ws (encode_strings v) = encode_strings v"
    by (auto simp: skip_ws_def encode_string_def encode_bool_def encode_strings_def json_ws_def split: option.splits)
  obtain c t where "show_nat (nat n) = c # t" "is_digit c" using show_nat_hd [of "nat n"] by blast
  moreover have "\<not> json_ws c" if "is_digit c" for c using that by (auto simp: is_digit_def json_ws_def)
  ultimately show "skip_ws (encode_int n) = encode_int n"
    by (auto simp: skip_ws_def encode_int_def json_ws_def)
qed

lemma int_target_bounds: "int_target s = Some (n, r) \<Longrightarrow> - (2 ^ 63) \<le> n \<and> n < 2 ^ 63"
  by (auto simp: int_target_def Let_def split: option.splits if_splits)

lemma string_round: "decode_strict string_target raw = Some s \<Longrightarrow>
    decode_strict string_target (encode_string s) = Some s"
  using string_target_encode [of s "''''"] string_target_repaired
  by (intro decode_strict_encode) (auto dest!: decode_strictD)

lemma strings_round: "decode_strict strings_target raw = Some v \<Longrightarrow>
    decode_strict strings_target (encode_strings v) = Some v"
  using strings_target_encode [of v "''''"] strings_target_repaired
  by (intro decode_strict_encode) (auto dest!: decode_strictD)

lemma int_round: "decode_strict int_target raw = Some n \<Longrightarrow>
    decode_strict int_target (encode_int n) = Some n"
  using int_target_encode [of n] int_target_bounds
  by (intro decode_strict_encode) (auto dest!: decode_strictD)

lemma bool_round: "decode_strict bool_target (encode_bool b) = Some b"
  by (intro decode_strict_encode) (simp_all add: bool_target_encode)

text \<open>Normalising keeps the value, accepts exactly what decodes, and is done after one pass.\<close>

lemma normalize_value_iff: "(\<exists>v. normalize_value frac t raw = Inr v) \<longleftrightarrow> decode_value frac t raw \<noteq> None"
  by (auto simp: normalize_value_def decode_value_def Let_def split: option.splits)

lemma normalize_value_keeps:
  assumes "normalize_value frac t raw = Inr v"
  shows "decode_value frac t v = decode_value frac t raw \<and> normalize_value frac t v = Inr v"
proof -
  consider "t = type_string" | "t = type_integer" | "t = type_boolean" | "t = type_duration" | "t = type_string_list"
    using assms unfolding normalize_value_def by (metis Inl_Inr_False)
  then show ?thesis
  proof cases
    case 1
    then show ?thesis using assms
      by (auto simp: normalize_value_def decode_value_def string_round split: option.splits)
  next
    case 2
    then show ?thesis using assms
      by (auto simp: normalize_value_def decode_value_def int_round split: option.splits)
  next
    case 3
    then show ?thesis using assms
      by (auto simp: normalize_value_def decode_value_def bool_round split: option.splits)
  next
    case 4
    then show ?thesis using assms
      by (auto simp: normalize_value_def decode_value_def string_round split: option.splits if_splits)
  next
    case 5
    then obtain x where x: "decode_strict strings_target raw = Some x"
      using assms by (auto simp: normalize_value_def split: option.splits)
    show ?thesis
      using assms unfolding 5 normalize_value_def decode_value_def Let_def
      by (simp add: x split: if_splits) (auto simp: strings_round [OF x])
  qed
qed

end
