(* ===== verification/Driver.thy ===== *)
theory Driver
  imports Shared
begin

text \<open>
  What the repositories of the modules share.  The PostgreSQL driver (pgx) is a parameter: a
  connection that executes statements, with transactions.  A table is a value \<open>'t\<close>; a statement is
  a function from the table to its result, or an error, and the table it leaves.
  \<open>database_laws\<close> states what the driver promises: a statement runs completely or not at all, a
  transaction works on its own view and a commit publishes it.  \<open>transact\<close> is the body the modules'
  \<open>WithinTransaction\<close> have in common.
\<close>

section \<open>Parameters, columns and results\<close>

text \<open>A text parameter must be valid UTF-8 without NUL bytes.\<close>

definition text_ok :: "string \<Rightarrow> bool" where
  "text_ok s \<longleftrightarrow> valid_utf8 s \<and> CHR 0x00 \<notin> set s"

definition text_params :: "string list \<Rightarrow> err + unit" where
  "text_params ss = (if list_all text_ok ss then Inr () else Inl (PgError ''22021'' ''''))"

definition opt_text :: "string option \<Rightarrow> string list" where
  "opt_text v = (case v of None \<Rightarrow> [] | Some s \<Rightarrow> [s])"

text \<open>Assignment to \<open>varchar(n)\<close>: excess spaces are cut off, anything else is an error.\<close>

definition assign_varchar :: "nat \<Rightarrow> string \<Rightarrow> err + string" where
  "assign_varchar n s =
     (if length (runes s) \<le> n then Inr s
      else if list_all (\<lambda>r. r = 32) (drop n (runes s)) then Inr (encode_runes (take n (runes s)))
      else Inl (PgError ''22001'' ''''))"

definition assign_opt_varchar :: "nat \<Rightarrow> string option \<Rightarrow> err + string option" where
  "assign_opt_varchar n v =
     (case v of None \<Rightarrow> Inr None
      | Some s \<Rightarrow> (case assign_varchar n s of Inl e \<Rightarrow> Inl e | Inr t \<Rightarrow> Inr (Some t)))"

text \<open>A statement whose parameters cannot be encoded fails before it runs.\<close>

definition with_text :: "string list \<Rightarrow> (err + 'r) \<times> 't \<Rightarrow> 't \<Rightarrow> (err + 'r) \<times> 't" where
  "with_text ss res t = (case text_params ss of Inl e \<Rightarrow> (Inl e, t) | Inr _ \<Rightarrow> res)"

definition map_res :: "('a \<Rightarrow> 'b) \<Rightarrow> (err + 'a) \<times> 't \<Rightarrow> (err + 'b) \<times> 't" where
  "map_res f res = ((case fst res of Inl e \<Rightarrow> Inl e | Inr x \<Rightarrow> Inr (f x)), snd res)"

lemma snd_map_res [simp]: "snd (map_res f res) = snd res"
  by (simp add: map_res_def)

lemma fst_map_res: "fst (map_res f res) = (case fst res of Inl e \<Rightarrow> Inl e | Inr x \<Rightarrow> Inr (f x))"
  by (simp add: map_res_def)

lemma case_sum_unit: "(case r of Inl e \<Rightarrow> Inl e | Inr (_ :: unit) \<Rightarrow> Inr ()) = r"
  by (cases r) auto

definition failing_keeps :: "(err + 'a) \<times> 't \<Rightarrow> 't \<Rightarrow> bool" where
  "failing_keeps res t \<longleftrightarrow> (\<forall>e. fst res = Inl e \<longrightarrow> snd res = t)"

lemma failing_keepsD: "failing_keeps res t \<Longrightarrow> res = (Inl e, t') \<Longrightarrow> t' = t"
  by (simp add: failing_keeps_def)

lemma failing_keeps_with_text [simp]: "failing_keeps res t \<Longrightarrow> failing_keeps (with_text ss res t) t"
  by (auto simp: failing_keeps_def with_text_def split: sum.splits)

lemma failing_keeps_map_res [simp]: "failing_keeps (map_res f res) t = failing_keeps res t"
  by (auto simp: failing_keeps_def map_res_def split: sum.splits)

lemma failing_keeps_pair [simp]: "failing_keeps (r, t) t"
  by (simp add: failing_keeps_def)

section \<open>Operations on a table\<close>

text \<open>
  Failures of the connection: not a missing row, not a constraint, none of the modules' own
  errors.
\<close>

definition infra_err :: "err \<Rightarrow> bool" where
  "infra_err e \<longleftrightarrow>
     (\<forall>s \<in> {UserNotFound, UsernameConflict, EmailConflict, LastSuperuser, UserInvalidInput,
            InvalidPassword, PasswordMismatch, ConfigInvalidInput, ConfigInvalidType, SensitiveKey,
            ConfigNotFound, ConfigConflict, PostCommit, NoRows}. \<not> err_is s e) \<and>
     (case as_pg_error e of None \<Rightarrow> True | Some (c, k) \<Rightarrow> c \<noteq> ''23505'')"

lemma infra_err_wrapped [simp]: "infra_err (Wrapped m [e]) = infra_err e"
  by (auto simp: infra_err_def split: option.splits)

definition acts_as ::
  "('w, err + 'a) state \<Rightarrow> ('w \<Rightarrow> 't) \<Rightarrow> ('w \<Rightarrow> 'o) \<Rightarrow> ('t \<Rightarrow> (err + 'a) \<times> 't) \<Rightarrow> bool" where
  "acts_as m tbl rest f \<longleftrightarrow> (\<forall>w. wp m (\<lambda>r w'. rest w' = rest w \<and>
     (f (tbl w) = (r, tbl w') \<or>
      (\<exists>e. r = Inl e \<and> infra_err e \<and> (tbl w' = tbl w \<or> tbl w' = snd (f (tbl w)))))) w)"

lemma acts_as_map:
  assumes "acts_as m tbl rest f" "\<And>e. infra_err e \<Longrightarrow> \<exists>e'. h (Inl e) = Inl e' \<and> infra_err e'"
  shows "acts_as (do { r \<leftarrow> m; State_Monad.return (h r) }) tbl rest (\<lambda>t. (h (fst (f t)), snd (f t)))"
  unfolding acts_as_def wp_rules
proof
  fix w
  show "wp m (\<lambda>r w'. rest w' = rest w \<and>
     ((h (fst (f (tbl w))), snd (f (tbl w))) = (h r, tbl w') \<or>
      (\<exists>e. h r = Inl e \<and> infra_err e \<and>
        (tbl w' = tbl w \<or> tbl w' = snd (h (fst (f (tbl w))), snd (f (tbl w))))))) w"
    by (rule wp_mono [OF assms(1) [unfolded acts_as_def, rule_format]])
       (use assms(2) in fastforce)
qed

lemma acts_asD:
  assumes "acts_as m tbl rest f" "run_state m w = (r, w')"
  obtains "rest w' = rest w" "f (tbl w) = (r, tbl w')"
  | e where "rest w' = rest w" "r = Inl e" "infra_err e" "tbl w' = tbl w \<or> tbl w' = snd (f (tbl w))"
  using assms by (auto simp: acts_as_def dest: wpD)

text \<open>The rule that walks over a call of a repository.\<close>

lemma wp_acts:
  assumes "acts_as m tbl rest f"
    "\<And>w'. rest w' = rest w \<Longrightarrow> tbl w' = snd (f (tbl w)) \<Longrightarrow> Q (fst (f (tbl w))) w'"
    "\<And>e w'. rest w' = rest w \<Longrightarrow> infra_err e \<Longrightarrow> tbl w' = tbl w \<or> tbl w' = snd (f (tbl w)) \<Longrightarrow> Q (Inl e) w'"
  shows "wp m Q w"
  using assms(1) [unfolded acts_as_def, rule_format, of w]
  by (rule wp_mono) (use assms(2,3) in \<open>auto simp: prod_eq_iff\<close>)

lemma wp_acts_cases:
  assumes "acts_as m tbl rest f"
    "\<And>x w'. rest w' = rest w \<Longrightarrow> f (tbl w) = (Inr x, tbl w') \<Longrightarrow> Q (Inr x) w'"
    "\<And>e w'. rest w' = rest w \<Longrightarrow> f (tbl w) = (Inl e, tbl w') \<Longrightarrow> Q (Inl e) w'"
    "\<And>e w'. rest w' = rest w \<Longrightarrow> infra_err e \<Longrightarrow> tbl w' = tbl w \<or> tbl w' = snd (f (tbl w)) \<Longrightarrow> Q (Inl e) w'"
  shows "wp m Q w"
  using assms(1) [unfolded acts_as_def, rule_format, of w]
proof (rule wp_mono)
  fix r w'
  assume "rest w' = rest w \<and> (f (tbl w) = (r, tbl w') \<or>
      (\<exists>e. r = Inl e \<and> infra_err e \<and> (tbl w' = tbl w \<or> tbl w' = snd (f (tbl w)))))"
  then show "Q r w'" using assms(2-4) by (cases r) auto
qed

definition wrap_error :: "string \<Rightarrow> (err + 'a) \<times> 't \<Rightarrow> (err + 'a) \<times> 't" where
  "wrap_error msg res = ((case fst res of Inl e \<Rightarrow> Inl (Wrapped msg [e]) | Inr x \<Rightarrow> Inr x), snd res)"

lemma failing_keeps_wrap_error [simp]: "failing_keeps res t \<Longrightarrow> failing_keeps (wrap_error op res) t"
  by (auto simp: failing_keeps_def wrap_error_def split: sum.splits)

definition wrapped :: "string \<Rightarrow> ('w, err + 'a) state \<Rightarrow> ('w, err + 'a) state" where
  "wrapped msg m = do {
     r \<leftarrow> m;
     State_Monad.return (case r of Inl e \<Rightarrow> Inl (Wrapped msg [e]) | Inr x \<Rightarrow> Inr x) }"

lemma wrapped_acts:
  "acts_as m tbl rest f \<Longrightarrow> acts_as (wrapped msg m) tbl rest (\<lambda>t. wrap_error msg (f t))"
  unfolding wrapped_def wrap_error_def by (erule acts_as_map) simp

section \<open>Connections and transactions\<close>

text \<open>\<open>'s\<close> are the statements, \<open>'r\<close> what their rows scan to.\<close>

record ('w, 's, 'r) conn =
  db_exec :: "'s \<Rightarrow> ('w, err + 'r) state"

record ('w, 's, 'r) transaction =
  tx_dbtx :: "('w, 's, 'r) conn"
  tx_commit :: "('w, err + unit) state"
  tx_rollback :: "('w, err + unit) state"

record ('w, 's, 'r) pool =
  db_pool :: "('w, 's, 'r) conn"
  db_begin :: "('w, err + ('w, 's, 'r) transaction) state"

type_synonym ('s, 'r, 't) runner = "'s \<Rightarrow> 't \<Rightarrow> (err + 'r) \<times> 't"

definition conn_laws ::
  "('s, 'r, 't) runner \<Rightarrow> ('w, 's, 'r) conn \<Rightarrow> ('w \<Rightarrow> 't) \<Rightarrow> ('w \<Rightarrow> 'o) \<Rightarrow> bool" where
  "conn_laws run q tbl rest \<longleftrightarrow> (\<forall>st. acts_as (db_exec q st) tbl rest (run st))"

definition tx_laws ::
  "('s, 'r, 't) runner \<Rightarrow> ('w, 's, 'r) transaction \<Rightarrow> ('w \<Rightarrow> 't) \<Rightarrow> ('w \<Rightarrow> 't) \<Rightarrow> bool" where
  "tx_laws run tx view com \<longleftrightarrow> conn_laws run (tx_dbtx tx) view com \<and>
     (\<forall>w. wp (tx_commit tx) (\<lambda>r w'. case r of
        Inr _ \<Rightarrow> com w' = view w
      | Inl e \<Rightarrow> infra_err e \<and> (com w' = com w \<or> com w' = view w)) w) \<and>
     (\<forall>w. wp (tx_rollback tx) (\<lambda>_ w'. com w' = com w) w)"

definition database_laws ::
  "('s, 'r, 't) runner \<Rightarrow> ('w, 's, 'r) pool \<Rightarrow> ('w \<Rightarrow> 't) \<Rightarrow> ('w \<Rightarrow> 't) \<Rightarrow> bool" where
  "database_laws run db view com \<longleftrightarrow> conn_laws run (db_pool db) com (\<lambda>_. ()) \<and>
     (\<forall>w. wp (db_begin db) (\<lambda>r w'. com w' = com w \<and> (case r of
        Inr tx \<Rightarrow> view w' = com w \<and> tx_laws run tx view com
      | Inl e \<Rightarrow> infra_err e)) w)"

lemma acts_as_scan:
  assumes "conn_laws run q tbl rest" "\<And>e. \<exists>e'. h (Inl e) = Inl e' \<and> (infra_err e \<longrightarrow> infra_err e')"
    "\<And>t. (h (fst (run st t)), snd (run st t)) = f t"
  shows "acts_as (do { r \<leftarrow> db_exec q st; State_Monad.return (h r) }) tbl rest f"
proof -
  have "acts_as (do { r \<leftarrow> db_exec q st; State_Monad.return (h r) }) tbl rest
      (\<lambda>t. (h (fst (run st t)), snd (run st t)))"
    using assms(1,2) by (intro acts_as_map) (auto simp: conn_laws_def)
  then show ?thesis by (simp add: assms(3))
qed

text \<open>
  The outcome of a transaction whose callback establishes \<open>R\<close> between the table before, its result
  and the table after: a success committed exactly that; a failure committed nothing, except that a
  failing commit may still have taken effect.
\<close>

definition tx_outcome ::
  "('t \<Rightarrow> err + 'a \<Rightarrow> 't \<Rightarrow> bool) \<Rightarrow> 't \<Rightarrow> err + 'a \<Rightarrow> 't \<Rightarrow> bool" where
  "tx_outcome R t r t' \<longleftrightarrow>
     (case r of
        Inr x \<Rightarrow> R t (Inr x) t'
      | Inl e \<Rightarrow> (t' = t \<and> ((\<exists>t''. R t (Inl e) t'') \<or> infra_err e)) \<or>
                (infra_err e \<and> (\<exists>x. R t (Inr x) t')))"

lemma tx_outcome_intros:
  "R t (Inr x) t' \<Longrightarrow> tx_outcome R t (Inr x) t'"
  "R t (Inl e) t' \<Longrightarrow> tx_outcome R t (Inl e) t"
  "infra_err e \<Longrightarrow> tx_outcome R t (Inl e) t"
  "infra_err e \<Longrightarrow> R t (Inr x) t' \<Longrightarrow> tx_outcome R t (Inl e) t'"
  by (auto simp: tx_outcome_def)

lemma tx_outcome_infra [simp]: "infra_err e \<Longrightarrow> tx_outcome R t (Inl e) t"
  by (simp add: tx_outcome_def)

lemma tx_outcome_infra_commit [simp]:
  "infra_err e \<Longrightarrow> R t (Inr x) t' \<Longrightarrow> tx_outcome R t (Inl e) t'"
  by (auto simp: tx_outcome_def)

definition transact ::
  "string \<Rightarrow> string \<Rightarrow> ('w, 's, 'r) pool \<Rightarrow> (('w, 's, 'r) conn \<Rightarrow> ('w, err + 'a) state) \<Rightarrow> ('w, err + 'a) state" where
  "transact begin_failed commit_failed db fn = do {
     b \<leftarrow> db_begin db;
     case b of
       Inl e \<Rightarrow> State_Monad.return (Inl (Wrapped begin_failed [e]))
     | Inr tx \<Rightarrow> do {
         result \<leftarrow> do {
           r \<leftarrow> fn (tx_dbtx tx);
           case r of
             Inl e \<Rightarrow> State_Monad.return (Inl e)
           | Inr x \<Rightarrow> do {
               c \<leftarrow> tx_commit tx;
               case c of
                 Inl e \<Rightarrow> State_Monad.return (Inl (Wrapped commit_failed [e]))
               | Inr _ \<Rightarrow> State_Monad.return (Inr x) } };
         _ \<leftarrow> tx_rollback tx;
         State_Monad.return result } }"

lemma commit_outcome:
  assumes "tx_laws run tx view com" "com w = t" "R t r (view w)"
  shows "wp (case r of
        Inl e \<Rightarrow> State_Monad.return (Inl e)
      | Inr x \<Rightarrow> do {
          c \<leftarrow> tx_commit tx;
          case c of
            Inl e \<Rightarrow> State_Monad.return (Inl (Wrapped msg [e]))
          | Inr _ \<Rightarrow> State_Monad.return (Inr x) })
      (\<lambda>r w'. wp (tx_rollback tx) (\<lambda>_ w'. tx_outcome R t r (com w')) w') w"
proof -
  have rb: "wp (tx_rollback tx) (\<lambda>_ w'. tx_outcome R t r (com w')) v"
    if "tx_outcome R t r (com v)" for t r v
    using assms(1) that by (auto simp: tx_laws_def elim!: allE [where x = v] elim: wp_mono)
  have cm: "wp (tx_commit tx) (\<lambda>c w'. case c of Inr _ \<Rightarrow> com w' = view w
      | Inl e \<Rightarrow> infra_err e \<and> (com w' = com w \<or> com w' = view w)) w"
    using assms(1) by (simp add: tx_laws_def)
  show ?thesis
  proof (cases r)
    case (Inl e)
    with assms(2,3) show ?thesis by (auto simp: wp_rules intro!: rb intro: tx_outcome_intros)
  next
    case (Inr x)
    show ?thesis unfolding Inr sum.case wp_rules
      by (rule wp_mono [OF cm])
         (use assms(2,3) Inr in \<open>auto simp: wp_rules intro!: rb intro: tx_outcome_intros split: sum.splits\<close>)
  qed
qed

text \<open>\<open>K\<close> is whatever else is known of the connection a transaction works on.\<close>

lemma transact_atomic:
  assumes "database_laws run db view com"
    "\<And>v. wp (db_begin db) (\<lambda>r _. \<forall>tx. r = Inr tx \<longrightarrow> K (tx_dbtx tx)) v"
    "\<And>q v. conn_laws run q view com \<Longrightarrow> K q \<Longrightarrow>
       wp (fn q) (\<lambda>r w'. R (view v) r (view w') \<and> com w' = com v) v"
  shows "wp (transact m1 m2 db fn) (\<lambda>r w'. tx_outcome R (com w) r (com w')) w"
proof -
  have b: "wp (db_begin db) (\<lambda>r w'. com w' = com w \<and> (case r of
      Inr tx \<Rightarrow> view w' = com w \<and> tx_laws run tx view com | Inl e \<Rightarrow> infra_err e)) w"
    using assms(1) by (simp add: database_laws_def)
  show ?thesis
    unfolding transact_def wp_bind
  proof (rule wp_mono [OF wp_conj [OF b assms(2)]], goal_cases)
    case (1 r w1)
    show ?case
    proof (cases r)
      case (Inr tx)
      then have laws: "view w1 = com w" "com w1 = com w" "tx_laws run tx view com"
        "conn_laws run (tx_dbtx tx) view com" "K (tx_dbtx tx)"
        using 1 by (auto simp: tx_laws_def)
      show ?thesis
        unfolding Inr sum.case wp_bind wp_return
        by (rule wp_mono [OF assms(3) [OF laws(4,5)]], elim conjE, rule commit_outcome [OF laws(3)])
          (use laws in simp_all)
    qed (use 1 in \<open>simp add: wp_return\<close>)
  qed
qed

section \<open>What the database does not touch\<close>

definition conn_leaves :: "('w, 's, 'r) conn \<Rightarrow> ('w \<Rightarrow> 'o) \<Rightarrow> bool" where
  "conn_leaves q frame \<longleftrightarrow> (\<forall>st. leaves (db_exec q st) frame)"

definition database_leaves :: "('w, 's, 'r) pool \<Rightarrow> ('w \<Rightarrow> 'o) \<Rightarrow> bool" where
  "database_leaves db frame \<longleftrightarrow> conn_leaves (db_pool db) frame \<and>
     (\<forall>w. wp (db_begin db) (\<lambda>r w'. frame w' = frame w \<and> (\<forall>tx. r = Inr tx \<longrightarrow>
        conn_leaves (tx_dbtx tx) frame \<and> leaves (tx_commit tx) frame \<and> leaves (tx_rollback tx) frame)) w)"

lemma acts_as_framed:
  assumes "acts_as m tbl rest f" "leaves m frame"
  shows "acts_as m tbl (\<lambda>w. (rest w, frame w)) f"
  unfolding acts_as_def
proof
  fix w
  from wp_conj [OF assms(1) [unfolded acts_as_def, rule_format, of w] leavesD [OF assms(2), of w]]
  show "wp m (\<lambda>r w'. (rest w', frame w') = (rest w, frame w) \<and> (f (tbl w) = (r, tbl w') \<or>
      (\<exists>e. r = Inl e \<and> infra_err e \<and> (tbl w' = tbl w \<or> tbl w' = snd (f (tbl w)))))) w"
    by (rule wp_mono) auto
qed

lemma conn_laws_framed:
  "conn_laws run q tbl rest \<Longrightarrow> conn_leaves q frame \<Longrightarrow> conn_laws run q tbl (\<lambda>w. (rest w, frame w))"
  by (simp add: conn_laws_def conn_leaves_def acts_as_framed)

lemma transact_leaves:
  assumes "database_laws run db view com" "database_leaves db frame"
    "\<And>q. conn_laws run q view com \<Longrightarrow> conn_leaves q frame \<Longrightarrow> leaves (fn q) frame"
  shows "leaves (transact m1 m2 db fn) frame"
  unfolding leaves_def
proof
  fix w
  have b: "wp (db_begin db) (\<lambda>r w'. frame w' = frame w \<and> (\<forall>tx. r = Inr tx \<longrightarrow>
      conn_laws run (tx_dbtx tx) view com \<and> conn_leaves (tx_dbtx tx) frame \<and>
      leaves (tx_commit tx) frame \<and> leaves (tx_rollback tx) frame)) w"
    by (rule wp_mono [OF wp_conj [OF assms(1) [unfolded database_laws_def, THEN conjunct2, rule_format, of w]
          assms(2) [unfolded database_leaves_def, THEN conjunct2, rule_format, of w]]])
      (auto simp: tx_laws_def)
  show "wp (transact m1 m2 db fn) (\<lambda>_ w'. frame w' = frame w) w"
    unfolding transact_def wp_bind
  proof (rule wp_mono [OF b], goal_cases)
    case (1 r w1)
    show ?case
    proof (cases r)
      case (Inr tx)
      then have "leaves (do {
          result \<leftarrow> do {
            r \<leftarrow> fn (tx_dbtx tx);
            case r of
              Inl e \<Rightarrow> State_Monad.return (Inl e)
            | Inr x \<Rightarrow> do {
                c \<leftarrow> tx_commit tx;
                case c of
                  Inl e \<Rightarrow> State_Monad.return (Inl (Wrapped m2 [e]))
                | Inr _ \<Rightarrow> State_Monad.return (Inr x) } };
          _ \<leftarrow> tx_rollback tx;
          State_Monad.return result }) frame"
        using 1 by (intro leaves_rules assms(3)) auto
      from leavesD [OF this, of w1] 1 show ?thesis unfolding Inr sum.case by simp
    qed (use 1 in \<open>simp add: wp_return\<close>)
  qed
qed

end
