(* ===== verification/Sorting.thy ===== *)
theory Sorting
  imports Prelude "HOL-Library.Multiset"
begin

text \<open>A stable sort by a comparison, the model of \<open>sort.Slice\<close> and of SQL's \<open>ORDER BY\<close>.\<close>

fun insert_by :: "('a \<Rightarrow> 'a \<Rightarrow> bool) \<Rightarrow> 'a \<Rightarrow> 'a list \<Rightarrow> 'a list" where
  "insert_by lt x [] = [x]"
| "insert_by lt x (y # ys) = (if lt y x then y # insert_by lt x ys else x # y # ys)"

definition sort_by :: "('a \<Rightarrow> 'a \<Rightarrow> bool) \<Rightarrow> 'a list \<Rightarrow> 'a list" where
  "sort_by lt xs = foldr (insert_by lt) xs []"

lemma sort_by_Nil [simp]: "sort_by lt [] = []"
  by (simp add: sort_by_def)

lemma insert_by_mset [simp]: "mset (insert_by lt x xs) = add_mset x (mset xs)"
  by (induction xs) auto

lemma sort_by_mset [simp]: "mset (sort_by lt xs) = mset xs"
  by (induction xs) (auto simp: sort_by_def)

lemma set_sort_by [simp]: "set (sort_by lt xs) = set xs"
  by (metis set_mset_mset sort_by_mset)

lemma insert_by_sorted:
  assumes "\<And>a b. le a b \<longleftrightarrow> \<not> lt b a" "\<And>a b. le a b \<or> le b a" "\<And>a b c. le a b \<Longrightarrow> le b c \<Longrightarrow> le a c"
    and "sorted_wrt le xs"
  shows "sorted_wrt le (insert_by lt x xs)"
  using assms(4)
proof (induction xs)
  case (Cons y ys)
  have set: "set (insert_by lt x ys) = insert x (set ys)"
    by (metis insert_by_mset set_mset_add_mset_insert set_mset_mset)
  show ?case
    using Cons set assms(1) [of x y] assms(2) [of x y] assms(3) by (cases "lt y x") (auto simp: assms(1))
qed simp

lemma sort_by_sorted:
  assumes "\<And>a b. le a b \<longleftrightarrow> \<not> lt b a" "\<And>a b. le a b \<or> le b a" "\<And>a b c. le a b \<Longrightarrow> le b c \<Longrightarrow> le a c"
  shows "sorted_wrt le (sort_by lt xs)"
  by (induction xs) (auto simp: sort_by_def intro!: insert_by_sorted assms(1,2) intro: assms(3))

end
