(* ===== verification/ConfigSql.thy ===== *)
theory ConfigSql
  imports ConfigModel Driver Sorting
begin

text \<open>
  The \<open>system_configs\<close> table of \<open>db/migrations/000001_initial.sql\<close> and the statements of
  \<open>db/queries/system_configs.sql\<close> as sqlc generated them in \<open>db/generated/system_configs.sql.go\<close>.
  The server's \<open>jsonb\<close> input and output (the text a stored document comes back as, or the error) and
  its collation of keys are the parameter \<open>pg_text\<close>; \<open>pg_text_laws\<close> states that \<open>jsonb\<close> keeps what
  a document says and that the collation is an order.
\<close>

record pg_text =
  pt_jsonb :: "string \<Rightarrow> err + string"
  pt_le :: "string \<Rightarrow> string \<Rightarrow> bool"

definition pg_text_laws :: "(nat \<Rightarrow> nat \<Rightarrow> nat \<Rightarrow> nat) \<Rightarrow> pg_text \<Rightarrow> bool" where
  "pg_text_laws frac P \<longleftrightarrow>
     (\<forall>s. case pt_jsonb P s of
        Inr t \<Rightarrow> (\<forall>ty. decode_value frac ty t = decode_value frac ty s)
      | Inl e \<Rightarrow> (\<exists>c. e = PgError c '''' \<and> c \<noteq> ''23505'')) \<and>
     (\<forall>a b. pt_le P a b \<or> pt_le P b a) \<and>
     (\<forall>a b c. pt_le P a b \<longrightarrow> pt_le P b c \<longrightarrow> pt_le P a c)"

record db_config =
  dc_key :: string
  dc_value :: string
  dc_value_type :: string
  dc_is_public :: bool
  dc_description :: string
  dc_created_at :: "time option"
  dc_updated_at :: "time option"

type_synonym configs = "db_config list"

record create_config_params =
  cc_key :: string
  cc_value :: string
  cc_value_type :: string
  cc_is_public :: bool
  cc_description :: string
  cc_created_at :: "time option"
  cc_updated_at :: "time option"

record update_config_params =
  up_config_key :: string
  up_value :: string
  up_value_type :: string
  up_is_public :: bool
  up_description :: string
  up_updated_at :: "time option"

section \<open>Column types and constraints\<close>

definition assign_config :: "pg_text \<Rightarrow> db_config \<Rightarrow> err + db_config" where
  "assign_config P r =
     (case assign_varchar 128 (dc_key r) of Inl e \<Rightarrow> Inl e | Inr k \<Rightarrow>
     (case pt_jsonb P (dc_value r) of Inl e \<Rightarrow> Inl e | Inr v \<Rightarrow>
     (case assign_varchar 16 (dc_value_type r) of Inl e \<Rightarrow> Inl e | Inr t \<Rightarrow>
     (case assign_varchar 255 (dc_description r) of Inl e \<Rightarrow> Inl e | Inr d \<Rightarrow>
        Inr (r\<lparr>dc_key := k, dc_value := v, dc_value_type := t, dc_description := d\<rparr>)))))"

definition check_config :: "db_config \<Rightarrow> err + unit" where
  "check_config r =
     (if dc_created_at r = None \<or> dc_updated_at r = None then Inl (PgError ''23502'' '''')
      else if \<not> config_key_pattern (dc_key r) then Inl (PgError ''23514'' ''system_configs_key_format'')
      else if dc_value_type r \<notin> {''string'', ''integer'', ''boolean'', ''duration'', ''string_list''}
      then Inl (PgError ''23514'' ''system_configs_value_type'')
      else Inr ())"

definition store_config :: "pg_text \<Rightarrow> configs \<Rightarrow> db_config \<Rightarrow> err + db_config" where
  "store_config P others r0 =
     (case assign_config P r0 of Inl e \<Rightarrow> Inl e | Inr r \<Rightarrow>
     (case check_config r of Inl e \<Rightarrow> Inl e | Inr _ \<Rightarrow>
        if list_ex (\<lambda>x. dc_key x = dc_key r) others
        then Inl (PgError ''23505'' ''system_configs_pkey'') else Inr r))"

section \<open>The statements\<close>

definition create_system_config ::
  "pg_text \<Rightarrow> create_config_params \<Rightarrow> configs \<Rightarrow> (err + db_config) \<times> configs" where
  "create_system_config P a t =
     with_text [cc_key a, cc_value_type a, cc_description a]
       (case store_config P t
           \<lparr>dc_key = cc_key a, dc_value = cc_value a, dc_value_type = cc_value_type a,
            dc_is_public = cc_is_public a, dc_description = cc_description a,
            dc_created_at = cc_created_at a, dc_updated_at = cc_updated_at a\<rparr> of
          Inl e \<Rightarrow> (Inl e, t)
        | Inr r \<Rightarrow> (Inr r, t @ [r])) t"

definition get_system_config :: "string \<Rightarrow> configs \<Rightarrow> (err + db_config) \<times> configs" where
  "get_system_config k t =
     with_text [k]
       (case find (\<lambda>r. dc_key r = k) t of None \<Rightarrow> (Inl (Sentinel NoRows), t) | Some r \<Rightarrow> (Inr r, t)) t"

definition by_key :: "pg_text \<Rightarrow> configs \<Rightarrow> configs" where
  "by_key P t = sort_by (\<lambda>a b. \<not> pt_le P (dc_key b) (dc_key a)) t"

definition list_system_configs :: "pg_text \<Rightarrow> configs \<Rightarrow> (err + db_config list) \<times> configs" where
  "list_system_configs P t = (Inr (take 1000 (by_key P t)), t)"

definition list_public_system_configs :: "pg_text \<Rightarrow> configs \<Rightarrow> (err + db_config list) \<times> configs" where
  "list_public_system_configs P t = (Inr (take 1000 (by_key P (filter dc_is_public t))), t)"

definition update_system_config ::
  "pg_text \<Rightarrow> update_config_params \<Rightarrow> configs \<Rightarrow> (err + db_config) \<times> configs" where
  "update_system_config P a t =
     with_text [up_config_key a, up_value_type a, up_description a]
       (case pt_jsonb P (up_value a) of
          Inl e \<Rightarrow> (Inl e, t)
        | Inr _ \<Rightarrow>
            (case find (\<lambda>r. dc_key r = up_config_key a) t of
               None \<Rightarrow> (Inl (Sentinel NoRows), t)
             | Some r0 \<Rightarrow>
                 (case store_config P (filter (\<lambda>x. dc_key x \<noteq> up_config_key a) t)
                     (r0\<lparr>dc_value := up_value a, dc_value_type := up_value_type a,
                         dc_is_public := up_is_public a, dc_description := up_description a,
                         dc_updated_at := up_updated_at a\<rparr>) of
                    Inl e \<Rightarrow> (Inl e, t)
                  | Inr r \<Rightarrow> (Inr r, map (\<lambda>x. if dc_key x = up_config_key a then r else x) t)))) t"

definition delete_system_config :: "string \<Rightarrow> configs \<Rightarrow> (err + int) \<times> configs" where
  "delete_system_config k t =
     with_text [k]
       (Inr (int (length (filter (\<lambda>r. dc_key r = k) t))), filter (\<lambda>r. dc_key r \<noteq> k) t) t"

datatype config_stmt =
    CreateSystemConfig create_config_params
  | GetSystemConfig string
  | ListSystemConfigs
  | ListPublicSystemConfigs
  | UpdateSystemConfig update_config_params
  | DeleteSystemConfig string

datatype config_res = ConfigRow db_config | ConfigRows "db_config list" | RowsAffected int

fun run_config_stmt :: "pg_text \<Rightarrow> config_stmt \<Rightarrow> configs \<Rightarrow> (err + config_res) \<times> configs" where
  "run_config_stmt P (CreateSystemConfig a) t = map_res ConfigRow (create_system_config P a t)"
| "run_config_stmt P (GetSystemConfig k) t = map_res ConfigRow (get_system_config k t)"
| "run_config_stmt P ListSystemConfigs t = map_res ConfigRows (list_system_configs P t)"
| "run_config_stmt P ListPublicSystemConfigs t = map_res ConfigRows (list_public_system_configs P t)"
| "run_config_stmt P (UpdateSystemConfig a) t = map_res ConfigRow (update_system_config P a t)"
| "run_config_stmt P (DeleteSystemConfig k) t = map_res RowsAffected (delete_system_config k t)"

section \<open>Invariant\<close>

text \<open>
  Keys are unique and well formed, times are set, types are known, and every document decodes at the
  row's type.
\<close>

definition config_row_ok :: "(nat \<Rightarrow> nat \<Rightarrow> nat \<Rightarrow> nat) \<Rightarrow> db_config \<Rightarrow> bool" where
  "config_row_ok frac r \<longleftrightarrow> config_key_pattern (dc_key r) \<and> dc_created_at r \<noteq> None \<and> dc_updated_at r \<noteq> None \<and>
     decode_value frac (dc_value_type r) (dc_value r) \<noteq> None"

definition configs_ok :: "(nat \<Rightarrow> nat \<Rightarrow> nat \<Rightarrow> nat) \<Rightarrow> configs \<Rightarrow> bool" where
  "configs_ok frac t \<longleftrightarrow> list_all (config_row_ok frac) t \<and> distinct (map dc_key t)"

lemma key_pattern_ascii: "config_key_pattern k \<Longrightarrow> ascii k \<and> length k \<le> 128"
  by (cases k) (auto simp: key_head_def key_tail_def is_digit_def ascii_def list_all_iff)

lemma assign_varchar_short: "length (runes s) \<le> n \<Longrightarrow> assign_varchar n s = Inr s"
  by (simp add: assign_varchar_def)

lemma key_assign: "config_key_pattern k \<Longrightarrow> assign_varchar 128 k = Inr k"
  using key_pattern_ascii [of k] length_runes_le [of k] by (intro assign_varchar_short) auto

lemma store_config_Inr:
  assumes "store_config P others r0 = Inr r" "config_key_pattern (dc_key r0)"
    "length (runes (dc_description r0)) \<le> 255" "length (runes (dc_value_type r0)) \<le> 16"
  shows "(\<exists>v. pt_jsonb P (dc_value r0) = Inr v \<and> r = r0\<lparr>dc_value := v\<rparr>) \<and>
    \<not> list_ex (\<lambda>x. dc_key x = dc_key r0) others \<and> dc_created_at r0 \<noteq> None \<and> dc_updated_at r0 \<noteq> None"
  using assms key_assign [OF assms(2)]
  by (auto simp: store_config_def assign_config_def check_config_def assign_varchar_short
      split: sum.splits if_splits)

lemma set_by_key [simp]: "set (by_key P t) = set t"
  by (simp add: by_key_def)

lemma by_key_sorted:
  assumes "pg_text_laws frac P"
  shows "sorted_wrt (\<lambda>a b. pt_le P (dc_key a) (dc_key b)) (by_key P t)"
  unfolding by_key_def
  by (rule sort_by_sorted) (use assms in \<open>auto simp: pg_text_laws_def\<close>)

lemma by_key_perm: "mset (by_key P t) = mset t"
  by (simp add: by_key_def)

end
