(* ===== verification/ConfigService.thy ===== *)
theory ConfigService
  imports ConfigSql
begin

text \<open>
  \<open>internal/modules/systemconfig/repository.go\<close> and \<open>service.go\<close>: the interfaces the service calls,
  what their providers promise, and the service.  The callback of a unit of work hands its
  \<open>Config\<close> out through a captured variable; here it returns it (\<open>None\<close> where it has none).
\<close>

section \<open>repository.go\<close>

record 'w config_repository =
  cr_create :: "sys_config \<Rightarrow> ('w, err + sys_config) state"
  cr_get :: "string \<Rightarrow> ('w, err + sys_config) state"
  cr_list :: "('w, err + sys_config list) state"
  cr_list_public :: "('w, err + sys_config list) state"
  cr_update :: "sys_config \<Rightarrow> ('w, err + sys_config) state"
  cr_delete :: "string \<Rightarrow> ('w, err + unit) state"

record 'w config_uow =
  cw_within :: "('w config_repository \<Rightarrow> ('w, err + sys_config option) state) \<Rightarrow> ('w, err + sys_config option) state"

text \<open>\<open>PublicCache.Get\<close> returns the items and whether it was a hit.\<close>

record 'w public_cache =
  pc_get :: "('w, err + sys_config list option) state"
  pc_put :: "sys_config list \<Rightarrow> ('w, err + unit) state"
  pc_delete :: "('w, err + unit) state"

section \<open>service.go\<close>

record 'w config_service =
  cs_repository :: "'w config_repository"
  cs_uow :: "'w config_uow"
  cs_cache :: "'w public_cache"
  cs_events :: "'w subscriber list"
  cs_clock :: "'w \<Rightarrow> time"

definition new_config_service ::
  "'w config_repository option \<Rightarrow> 'w config_uow option \<Rightarrow> 'w public_cache option \<Rightarrow>
    'w subscriber list option \<Rightarrow> ('w \<Rightarrow> time) option \<Rightarrow> err + 'w config_service" where
  "new_config_service repo uow cache events clk =
     (case (repo, uow, cache, events, clk) of
        (Some r, Some u, Some c, Some e, Some k) \<Rightarrow>
          Inr \<lparr>cs_repository = r, cs_uow = u, cs_cache = c, cs_events = e, cs_clock = k\<rparr>
      | _ \<Rightarrow> Inl (Plain ''system config service dependencies must not be nil''))"

definition after_commit :: "'w config_service \<Rightarrow> config_changed \<Rightarrow> ('w, err option) state" where
  "after_commit s event = do {
     r \<leftarrow> pc_delete (cs_cache s);
     _ \<leftarrow> publish (cs_events s) event;
     State_Monad.return (case r of
         Inl e \<Rightarrow> Some (Wrapped ''committed, but the public cache was not invalidated'' [Sentinel PostCommit, e])
       | Inr _ \<Rightarrow> None) }"

text \<open>A committed item is returned together with the error of the side effects, if there was one.\<close>

definition config_create ::
  "unicode \<Rightarrow> (nat \<Rightarrow> nat \<Rightarrow> nat \<Rightarrow> nat) \<Rightarrow> 'w config_service \<Rightarrow> config_input \<Rightarrow>
    ('w, err + sys_config \<times> err option) state" where
  "config_create U frac s input =
     (case validate_and_normalize U frac input of
        Inl e \<Rightarrow> State_Monad.return (Inl e)
      | Inr n \<Rightarrow> do {
          now \<leftarrow> clock_now (cs_clock s);
          let item = \<lparr>sc_key = in_key n, sc_value = in_value n, sc_value_type = in_value_type n,
            sc_is_public = in_is_public n, sc_description = in_description n,
            sc_created_at = now, sc_updated_at = now\<rparr>;
          r \<leftarrow> cw_within (cs_uow s) (\<lambda>repo. do {
            c \<leftarrow> cr_create repo item;
            State_Monad.return (case c of Inl e \<Rightarrow> Inl e | Inr x \<Rightarrow> Inr (Some x)) });
          case r of
            Inl e \<Rightarrow> State_Monad.return (Inl e)
          | Inr x \<Rightarrow> do {
              let created = (case x of Some c \<Rightarrow> c | None \<Rightarrow> item);
              a \<leftarrow> after_commit s \<lparr>ch_key = sc_key created, ch_deleted = False, ch_changed_at = now\<rparr>;
              State_Monad.return (Inr (created, a)) } })"

definition config_get :: "'w config_service \<Rightarrow> string \<Rightarrow> ('w, err + sys_config) state" where
  "config_get s key =
     (if \<not> config_key_pattern key then State_Monad.return (Inl (Sentinel ConfigInvalidInput))
      else cr_get (cs_repository s) key)"

definition config_list :: "'w config_service \<Rightarrow> ('w, err + sys_config list) state" where
  "config_list s = cr_list (cs_repository s)"

definition config_list_public :: "'w config_service \<Rightarrow> ('w, err + sys_config list) state" where
  "config_list_public s = do {
     g \<leftarrow> pc_get (cs_cache s);
     case g of
       Inr (Some items) \<Rightarrow> State_Monad.return (Inr items)
     | _ \<Rightarrow> do {
         r \<leftarrow> cr_list_public (cs_repository s);
         case r of
           Inl e \<Rightarrow> State_Monad.return (Inl e)
         | Inr items \<Rightarrow> do {
             _ \<leftarrow> pc_put (cs_cache s) items;
             State_Monad.return (Inr items) } } }"

definition zero_config_time :: time where "zero_config_time = 0"

definition config_update ::
  "unicode \<Rightarrow> (nat \<Rightarrow> nat \<Rightarrow> nat \<Rightarrow> nat) \<Rightarrow> 'w config_service \<Rightarrow> string \<Rightarrow> config_input \<Rightarrow>
    ('w, err + sys_config \<times> err option) state" where
  "config_update U frac s key input =
     (case validate_and_normalize U frac (input\<lparr>in_key := key\<rparr>) of
        Inl e \<Rightarrow> State_Monad.return (Inl e)
      | Inr n \<Rightarrow> do {
          now \<leftarrow> clock_now (cs_clock s);
          let item = \<lparr>sc_key = in_key n, sc_value = in_value n, sc_value_type = in_value_type n,
            sc_is_public = in_is_public n, sc_description = in_description n,
            sc_created_at = zero_config_time, sc_updated_at = now\<rparr>;
          r \<leftarrow> cw_within (cs_uow s) (\<lambda>repo. do {
            c \<leftarrow> cr_update repo item;
            State_Monad.return (case c of Inl e \<Rightarrow> Inl e | Inr x \<Rightarrow> Inr (Some x)) });
          case r of
            Inl e \<Rightarrow> State_Monad.return (Inl e)
          | Inr x \<Rightarrow> do {
              let updated = (case x of Some c \<Rightarrow> c | None \<Rightarrow> item);
              a \<leftarrow> after_commit s \<lparr>ch_key = sc_key updated, ch_deleted = False, ch_changed_at = now\<rparr>;
              State_Monad.return (Inr (updated, a)) } })"

definition config_delete :: "unicode \<Rightarrow> 'w config_service \<Rightarrow> string \<Rightarrow> ('w, err + unit) state" where
  "config_delete U s key =
     (if \<not> config_key_pattern key then State_Monad.return (Inl (Sentinel ConfigInvalidInput))
      else if sensitive_key U key then State_Monad.return (Inl (Sentinel SensitiveKey))
      else do {
        now \<leftarrow> clock_now (cs_clock s);
        r \<leftarrow> cw_within (cs_uow s) (\<lambda>repo. do {
          c \<leftarrow> cr_delete repo key;
          State_Monad.return (case c of Inl e \<Rightarrow> Inl e | Inr _ \<Rightarrow> Inr None) });
        case r of
          Inl e \<Rightarrow> State_Monad.return (Inl e)
        | Inr _ \<Rightarrow> do {
            a \<leftarrow> after_commit s \<lparr>ch_key = key, ch_deleted = True, ch_changed_at = now\<rparr>;
            State_Monad.return (case a of Some e \<Rightarrow> Inl e | None \<Rightarrow> Inr ()) } })"

section \<open>The table functions of the repository\<close>

definition from_config_record :: "db_config \<Rightarrow> sys_config" where
  "from_config_record r = \<lparr>sc_key = dc_key r, sc_value = dc_value r, sc_value_type = dc_value_type r,
     sc_is_public = dc_is_public r, sc_description = dc_description r,
     sc_created_at = (case dc_created_at r of Some t \<Rightarrow> t | None \<Rightarrow> zero_config_time),
     sc_updated_at = (case dc_updated_at r of Some t \<Rightarrow> t | None \<Rightarrow> zero_config_time)\<rparr>"

definition from_config_records :: "db_config list \<Rightarrow> sys_config list" where
  "from_config_records rs = map from_config_record rs"

definition config_timestamp :: "time \<Rightarrow> time option" where
  "config_timestamp t = Some t"

definition map_config_error :: "err \<Rightarrow> err" where
  "map_config_error e =
     (if err_is NoRows e then Sentinel ConfigNotFound
      else (case as_pg_error e of
          Some (code, _) \<Rightarrow>
            if code = ''23505'' then Sentinel ConfigConflict
            else Wrapped ''system config PostgreSQL operation failed'' [e]
        | None \<Rightarrow> Wrapped ''system config PostgreSQL operation failed'' [e]))"

definition config_result :: "(err + db_config) \<times> configs \<Rightarrow> (err + sys_config) \<times> configs" where
  "config_result res =
     ((case fst res of Inl e \<Rightarrow> Inl (map_config_error e) | Inr r \<Rightarrow> Inr (from_config_record r)), snd res)"

definition config_results :: "string \<Rightarrow> (err + db_config list) \<times> configs \<Rightarrow> (err + sys_config list) \<times> configs" where
  "config_results msg res =
     ((case fst res of Inl e \<Rightarrow> Inl (Wrapped msg [e]) | Inr rs \<Rightarrow> Inr (from_config_records rs)), snd res)"

definition delete_result :: "(err + int) \<times> configs \<Rightarrow> (err + unit) \<times> configs" where
  "delete_result res =
     ((case fst res of
         Inl e \<Rightarrow> Inl (Wrapped ''delete system config'' [e])
       | Inr n \<Rightarrow> if n = 0 then Inl (Sentinel ConfigNotFound) else Inr ()), snd res)"

definition config_create_params :: "sys_config \<Rightarrow> create_config_params" where
  "config_create_params item = \<lparr>cc_key = sc_key item, cc_value = sc_value item,
     cc_value_type = sc_value_type item, cc_is_public = sc_is_public item,
     cc_description = sc_description item, cc_created_at = config_timestamp (sc_created_at item),
     cc_updated_at = config_timestamp (sc_updated_at item)\<rparr>"

definition config_update_params :: "sys_config \<Rightarrow> update_config_params" where
  "config_update_params item = \<lparr>up_config_key = sc_key item, up_value = sc_value item,
     up_value_type = sc_value_type item, up_is_public = sc_is_public item,
     up_description = sc_description item, up_updated_at = config_timestamp (sc_updated_at item)\<rparr>"

section \<open>What the providers promise\<close>

locale config_repository_contract =
  fixes P :: pg_text and rep :: "'w config_repository" and tbl :: "'w \<Rightarrow> configs" and rest :: "'w \<Rightarrow> 'o"
    and lawful :: bool
  assumes create: "lawful \<Longrightarrow> acts_as (cr_create rep item) tbl rest
      (\<lambda>t. config_result (create_system_config P (config_create_params item) t))"
    and get: "lawful \<Longrightarrow> acts_as (cr_get rep k) tbl rest (\<lambda>t. config_result (get_system_config k t))"
    and list: "lawful \<Longrightarrow> acts_as (cr_list rep) tbl rest
      (\<lambda>t. config_results ''query system configs'' (list_system_configs P t))"
    and list_public: "lawful \<Longrightarrow> acts_as (cr_list_public rep) tbl rest
      (\<lambda>t. config_results ''query public system configs'' (list_public_system_configs P t))"
    and update: "lawful \<Longrightarrow> acts_as (cr_update rep item) tbl rest
      (\<lambda>t. config_result (update_system_config P (config_update_params item) t))"
    and delete: "lawful \<Longrightarrow> acts_as (cr_delete rep k) tbl rest
      (\<lambda>t. delete_result (delete_system_config k t))"

text \<open>
  A callback that, on every lawful repository, acts as one function on the table.  The transaction
  of such a callback commits what the function does, or fails and changes nothing, except that a
  commit that fails may still have taken effect; it leaves \<open>frame\<close> alone.
\<close>

definition config_callback ::
  "pg_text \<Rightarrow> ('w \<Rightarrow> 'o) \<Rightarrow> ('w config_repository \<Rightarrow> ('w, err + 'a) state) \<Rightarrow> (configs \<Rightarrow> (err + 'a) \<times> configs) \<Rightarrow> bool" where
  "config_callback P frame fn f \<longleftrightarrow> (\<forall>rep tbl. \<forall>rest :: 'w \<Rightarrow> configs \<times> 'o.
     config_repository_contract P rep tbl rest True \<longrightarrow> acts_as (fn rep) tbl rest f)"

definition config_committed :: "(configs \<Rightarrow> (err + 'a) \<times> configs) \<Rightarrow> configs \<Rightarrow> err + 'a \<Rightarrow> configs \<Rightarrow> bool" where
  "config_committed f t r t' \<longleftrightarrow>
     (case r of
        Inr x \<Rightarrow> f t = (Inr x, t')
      | Inl e \<Rightarrow> (t' = t \<and> (fst (f t) = Inl e \<or> infra_err e)) \<or>
          (infra_err e \<and> (\<exists>x. f t = (Inr x, t'))))"

locale config_uow_contract =
  fixes P :: pg_text and uow :: "'w config_uow" and com :: "'w \<Rightarrow> configs" and frame :: "'w \<Rightarrow> 'o"
    and lawful :: bool
  assumes within: "lawful \<Longrightarrow> config_callback P frame fn f \<Longrightarrow>
      wp (cw_within uow fn) (\<lambda>r w'. frame w' = frame w \<and> config_committed f (com w) r (com w')) w"

text \<open>
  A cache of the public list: \<open>hit\<close> is what it would answer; an entry may vanish at any time.
  \<open>cached\<close> is the list as it comes back after it was stored.
\<close>

locale public_cache_contract =
  fixes cache :: "'w public_cache" and hit :: "'w \<Rightarrow> sys_config list option" and
    cached :: "sys_config list \<Rightarrow> sys_config list" and com :: "'w \<Rightarrow> configs" and lawful :: bool
  assumes get: "lawful \<Longrightarrow> wp (pc_get cache) (\<lambda>r w'. com w' = com w \<and> hit w' \<in> {hit w, None} \<and>
      (\<forall>items. r = Inr (Some items) \<longrightarrow> hit w = Some items)) w"
    and put: "lawful \<Longrightarrow> wp (pc_put cache items) (\<lambda>r w'. com w' = com w \<and>
      hit w' \<in> {hit w, None, Some (cached items)}) w"
    and delete: "lawful \<Longrightarrow> wp (pc_delete cache) (\<lambda>r w'. com w' = com w \<and> hit w' \<in> {hit w, None} \<and>
      (r = Inr () \<longrightarrow> hit w' = None)) w"

end
