(* ===== verification/ConfigSpec.thy ===== *)
theory ConfigSpec
  imports ConfigService
begin

text \<open>
  What the dynamic configuration service does, proved over the contracts of its repository, unit of
  work and cache.
\<close>

locale config_providers =
  repo: config_repository_contract P "cs_repository s" com hit lawful +
  tx: config_uow_contract P "cs_uow s" com hit lawful +
  cache: public_cache_contract "cs_cache s" hit cached com lawful
  for P and s :: "'w config_service" and com and hit and cached and lawful

text \<open>The public list of a table.\<close>

definition public_rows :: "pg_text \<Rightarrow> configs \<Rightarrow> sys_config list" where
  "public_rows P t = from_config_records (take 1000 (by_key P (filter dc_is_public t)))"

text \<open>Subscribers that leave the table and the cache alone.\<close>

definition bus_quiet :: "'w subscriber list \<Rightarrow> ('w \<Rightarrow> configs) \<Rightarrow> ('w \<Rightarrow> 'o) \<Rightarrow> bool" where
  "bus_quiet bus com hit \<longleftrightarrow> (\<forall>f \<in> set bus. \<forall>e. leaves (f e) com \<and> leaves (f e) hit)"

lemma publish_quiet:
  "bus_quiet bus com hit \<Longrightarrow> wp (publish bus e) (\<lambda>_ w'. com w' = com w \<and> hit w' = hit w) w"
  by (intro wp_conj leavesD publish_leaves) (auto simp: bus_quiet_def)

text \<open>The table functions of the callbacks.\<close>

definition some_result :: "(err + sys_config) \<times> configs \<Rightarrow> (err + sys_config option) \<times> configs" where
  "some_result res = ((case fst res of Inl e \<Rightarrow> Inl e | Inr x \<Rightarrow> Inr (Some x)), snd res)"

definition none_result :: "(err + unit) \<times> configs \<Rightarrow> (err + sys_config option) \<times> configs" where
  "none_result res = ((case fst res of Inl e \<Rightarrow> Inl e | Inr _ \<Rightarrow> Inr None), snd res)"

lemma create_callback:
  "config_callback P frame (\<lambda>repo. do {
       c \<leftarrow> cr_create repo item;
       State_Monad.return (case c of Inl e \<Rightarrow> Inl e | Inr x \<Rightarrow> Inr (Some x)) })
     (\<lambda>t. some_result (config_result (create_system_config P (config_create_params item) t)))"
  unfolding config_callback_def some_result_def
  by (intro allI impI acts_as_map [OF config_repository_contract.create]) auto

lemma update_callback:
  "config_callback P frame (\<lambda>repo. do {
       c \<leftarrow> cr_update repo item;
       State_Monad.return (case c of Inl e \<Rightarrow> Inl e | Inr x \<Rightarrow> Inr (Some x)) })
     (\<lambda>t. some_result (config_result (update_system_config P (config_update_params item) t)))"
  unfolding config_callback_def some_result_def
  by (intro allI impI acts_as_map [OF config_repository_contract.update]) auto

lemma delete_callback:
  "config_callback P frame (\<lambda>repo. do {
       c \<leftarrow> cr_delete repo k;
       State_Monad.return (case c of Inl e \<Rightarrow> Inl e | Inr _ \<Rightarrow> Inr None) })
     (\<lambda>t. none_result (delete_result (delete_system_config k t)))"
  unfolding config_callback_def none_result_def
  by (intro allI impI acts_as_map [OF config_repository_contract.delete]) auto

text \<open>
  The outcome of a write.  A success reports what the statement returned, and no error means the cache
  is empty; a failure left everything as it was, except that a commit that fails may still have taken
  effect.
\<close>

definition written_config ::
  "(configs \<Rightarrow> (err + 'a) \<times> configs) \<Rightarrow> configs \<Rightarrow> 'h option \<Rightarrow> err + 'a \<times> err option \<Rightarrow> configs \<Rightarrow> 'h option \<Rightarrow> bool" where
  "written_config f t h r t' h' \<longleftrightarrow>
     (case r of
        Inr (x, a) \<Rightarrow> f t = (Inr x, t') \<and> h' \<in> {h, None} \<and>
          (case a of None \<Rightarrow> h' = None | Some e \<Rightarrow> err_is PostCommit e)
      | Inl e \<Rightarrow> h' = h \<and>
          ((t' = t \<and> (fst (f t) = Inl e \<or> infra_err e)) \<or> (infra_err e \<and> (\<exists>x. f t = (Inr x, t')))))"

context config_providers
begin

lemma after_commit_spec:
  assumes "lawful" "bus_quiet (cs_events s) com hit"
  shows "wp (after_commit s event) (\<lambda>a w'. com w' = com w \<and> hit w' \<in> {hit w, None} \<and>
    (case a of None \<Rightarrow> hit w' = None | Some e \<Rightarrow> err_is PostCommit e)) w"
  unfolding after_commit_def wp_rules
proof (rule wp_mono [OF cache.delete [OF assms(1)]], elim conjE)
  fix r :: "err + unit" and w1 assume 1: "com w1 = com w" "hit w1 \<in> {hit w, None}" "r = Inr () \<longrightarrow> hit w1 = None"
  show "wp (publish (cs_events s) event) (\<lambda>_ w'. com w' = com w \<and> hit w' \<in> {hit w, None} \<and>
      (case case r of
          Inl e \<Rightarrow> Some (Wrapped ''committed, but the public cache was not invalidated'' [Sentinel PostCommit, e])
        | Inr _ \<Rightarrow> None of None \<Rightarrow> hit w' = None | Some e \<Rightarrow> err_is PostCommit e)) w1"
    by (rule wp_mono [OF publish_quiet [OF assms(2)]]) (use 1 in \<open>auto split: sum.split\<close>)
qed

lemma list_public_spec:
  assumes "lawful" "\<forall>items. hit w = Some items \<longrightarrow> items = cached (public_rows P (com w))"
  shows "wp (config_list_public s) (\<lambda>r w'. com w' = com w \<and>
    (\<forall>items. hit w' = Some items \<longrightarrow> items = cached (public_rows P (com w))) \<and>
    on_ok (\<lambda>items. items \<in> {public_rows P (com w), cached (public_rows P (com w))}) r) w"
proof -
  define post :: "err + sys_config list \<Rightarrow> 'w \<Rightarrow> bool" where "post = (\<lambda>r w'. com w' = com w \<and>
    (\<forall>items. hit w' = Some items \<longrightarrow> items = cached (public_rows P (com w))) \<and>
    on_ok (\<lambda>items. items \<in> {public_rows P (com w), cached (public_rows P (com w))}) r)"
  have put: "wp (pc_put (cs_cache s) (public_rows P (com w))) (\<lambda>_. post (Inr (public_rows P (com w)))) w1"
    if "com w1 = com w" "hit w1 \<in> {hit w, None}" for w1
    by (rule wp_mono [OF cache.put [OF assms(1)]]) (use that assms(2) in \<open>auto simp: post_def\<close>)
  have read: "wp (cr_list_public (cs_repository s)) (\<lambda>r w2. case r of
        Inl e \<Rightarrow> post (Inl e) w2
      | Inr items \<Rightarrow> wp (pc_put (cs_cache s) items) (\<lambda>_. post (Inr items)) w2) w1"
    if "com w1 = com w" "hit w1 \<in> {hit w, None}" for w1
    by (rule wp_acts_cases [OF repo.list_public [OF assms(1)]])
      (use that put assms(2) in \<open>auto simp: config_results_def list_public_system_configs_def public_rows_def post_def\<close>)
  have "wp (config_list_public s) post w"
    unfolding config_list_public_def wp_rules
  proof (rule wp_mono [OF cache.get [OF assms(1)]], elim conjE, goal_cases)
    case (1 r w1)
    show ?case
    proof (cases "\<exists>items. r = Inr (Some items)")
      case True
      then show ?thesis using 1 assms(2) by (auto simp: post_def)
    next
      case False
      then have "r = Inr None \<or> (\<exists>e. r = Inl e)" by (metis sum.exhaust option.exhaust)
      then show ?thesis using read [of w1] 1(1,2) by (elim disjE exE) simp_all
    qed
  qed
  then show ?thesis by (simp add: post_def)
qed

text \<open>A transaction followed by \<open>afterCommit\<close>.\<close>

lemma write_spec:
  assumes "lawful" "bus_quiet (cs_events s) com hit" "config_callback P hit fn f"
  shows "wp (cw_within (cs_uow s) fn) (\<lambda>r w1. case r of
      Inl e \<Rightarrow> written_config f (com w) (hit w) (Inl e) (com w1) (hit w1)
    | Inr x \<Rightarrow> wp (after_commit s (ev x)) (\<lambda>a w2. written_config f (com w) (hit w) (Inr (x, a)) (com w2) (hit w2)) w1) w"
proof (rule wp_mono [OF tx.within [OF assms(1,3)]], elim conjE)
  fix r :: "err + sys_config option" and w1
  assume 1: "hit w1 = hit w" "config_committed f (com w) r (com w1)"
  show "case r of
      Inl e \<Rightarrow> written_config f (com w) (hit w) (Inl e) (com w1) (hit w1)
    | Inr x \<Rightarrow> wp (after_commit s (ev x)) (\<lambda>a w2. written_config f (com w) (hit w) (Inr (x, a)) (com w2) (hit w2)) w1"
  proof (cases r)
    case (Inl e)
    then show ?thesis using 1 by (simp add: config_committed_def written_config_def)
  next
    case (Inr x)
    have "wp (after_commit s (ev x)) (\<lambda>a w2. written_config f (com w) (hit w) (Inr (x, a)) (com w2) (hit w2)) w1"
      by (rule wp_mono [OF after_commit_spec [OF assms(1,2)]])
        (use 1 Inr in \<open>auto simp: config_committed_def written_config_def split: option.splits\<close>)
    then show ?thesis by (simp add: Inr)
  qed
qed

text \<open>The callback's result without its wrapping.\<close>

lemma some_written:
  "written_config (\<lambda>t. some_result (f t)) t h (Inl e) t' h' \<Longrightarrow> written_config f t h (Inl e) t' h'"
  "written_config (\<lambda>t. some_result (f t)) t h (Inr (x, a)) t' h' \<Longrightarrow>
     written_config f t h (Inr (case x of Some c \<Rightarrow> c | None \<Rightarrow> item, a)) t' h'"
  by (auto simp: written_config_def some_result_def prod_eq_iff split: sum.splits)

lemma none_written:
  "written_config (\<lambda>t. none_result (f t)) t h (Inl e) t' h' \<Longrightarrow> written_config f t h (Inl e) t' h'"
  "written_config (\<lambda>t. none_result (f t)) t h (Inr (x, a)) t' h' \<Longrightarrow> written_config f t h (Inr ((), a)) t' h'"
  by (auto simp: written_config_def none_result_def prod_eq_iff split: sum.splits)

lemma write_item_spec:
  assumes "lawful" "bus_quiet (cs_events s) com hit" "config_callback P hit fn (\<lambda>t. some_result (f t))"
  shows "wp (do {
      r \<leftarrow> cw_within (cs_uow s) fn;
      case r of
        Inl e \<Rightarrow> State_Monad.return (Inl e)
      | Inr x \<Rightarrow> do {
          a \<leftarrow> after_commit s (ev (case x of Some c \<Rightarrow> c | None \<Rightarrow> item));
          State_Monad.return (Inr (case x of Some c \<Rightarrow> c | None \<Rightarrow> item, a)) } })
    (\<lambda>r w'. written_config f (com w) (hit w) r (com w') (hit w')) w"
  unfolding wp_rules
proof (rule wp_mono [OF write_spec [OF assms, where ev = "\<lambda>x. ev (case x of Some c \<Rightarrow> c | None \<Rightarrow> item)"]])
  fix r :: "err + sys_config option" and w1
  assume 1: "case r of
      Inl e \<Rightarrow> written_config (\<lambda>t. some_result (f t)) (com w) (hit w) (Inl e) (com w1) (hit w1)
    | Inr x \<Rightarrow> wp (after_commit s (ev (case x of Some c \<Rightarrow> c | None \<Rightarrow> item)))
        (\<lambda>a w2. written_config (\<lambda>t. some_result (f t)) (com w) (hit w) (Inr (x, a)) (com w2) (hit w2)) w1"
  show "case r of
      Inl e \<Rightarrow> written_config f (com w) (hit w) (Inl e) (com w1) (hit w1)
    | Inr x \<Rightarrow> wp (after_commit s (ev (case x of Some c \<Rightarrow> c | None \<Rightarrow> item)))
        (\<lambda>a w2. written_config f (com w) (hit w) (Inr (case x of Some c \<Rightarrow> c | None \<Rightarrow> item, a)) (com w2) (hit w2)) w1"
    using 1 by (cases r) (auto intro: some_written elim!: wp_mono)
qed

lemma create_spec:
  assumes "lawful" "bus_quiet (cs_events s) com hit" "validate_and_normalize U frac input = Inr n"
    "item = \<lparr>sc_key = in_key n, sc_value = in_value n, sc_value_type = in_value_type n,
       sc_is_public = in_is_public n, sc_description = in_description n,
       sc_created_at = cs_clock s w, sc_updated_at = cs_clock s w\<rparr>"
  shows "wp (config_create U frac s input) (\<lambda>r w'. written_config
    (\<lambda>t. config_result (create_system_config P (config_create_params item) t)) (com w) (hit w) r (com w') (hit w')) w"
  using write_item_spec [OF assms(1,2) create_callback, where item = item and w = w and
      ev = "\<lambda>c. \<lparr>ch_key = sc_key c, ch_deleted = False, ch_changed_at = cs_clock s w\<rparr>"]
  by (simp only: config_create_def assms(3,4) sum.case wp_bind wp_clock_now Let_def)

lemma update_spec:
  assumes "lawful" "bus_quiet (cs_events s) com hit"
    "validate_and_normalize U frac (input\<lparr>in_key := key\<rparr>) = Inr n"
    "item = \<lparr>sc_key = in_key n, sc_value = in_value n, sc_value_type = in_value_type n,
       sc_is_public = in_is_public n, sc_description = in_description n,
       sc_created_at = zero_config_time, sc_updated_at = cs_clock s w\<rparr>"
  shows "wp (config_update U frac s key input) (\<lambda>r w'. written_config
    (\<lambda>t. config_result (update_system_config P (config_update_params item) t)) (com w) (hit w) r (com w') (hit w')) w"
  using write_item_spec [OF assms(1,2) update_callback, where item = item and w = w and
      ev = "\<lambda>c. \<lparr>ch_key = sc_key c, ch_deleted = False, ch_changed_at = cs_clock s w\<rparr>"]
  by (simp only: config_update_def assms(3,4) sum.case wp_bind wp_clock_now Let_def)

lemma delete_spec:
  assumes "lawful" "bus_quiet (cs_events s) com hit" "config_key_pattern key" "\<not> sensitive_key U key"
  shows "wp (config_delete U s key) (\<lambda>r w'. \<exists>q. written_config
    (\<lambda>t. delete_result (delete_system_config key t)) (com w) (hit w) q (com w') (hit w') \<and>
    r = (case q of Inl e \<Rightarrow> Inl e | Inr (_, Some e) \<Rightarrow> Inl e | Inr (_, None) \<Rightarrow> Inr ())) w"
proof -
  let ?f = "\<lambda>t. delete_result (delete_system_config key t)"
  let ?ev = "\<lparr>ch_key = key, ch_deleted = True, ch_changed_at = cs_clock s w\<rparr>"
  have "\<not> \<not> config_key_pattern key" using assms(3) by simp
  note guards = if_not_P [OF this] if_not_P [OF assms(4)]
  show ?thesis
    unfolding config_delete_def guards wp_rules
  proof (rule wp_mono [OF write_spec [OF assms(1,2) delete_callback, where ev = "\<lambda>_. ?ev"]])
    fix r :: "err + sys_config option" and w1
    assume 1: "case r of
        Inl e \<Rightarrow> written_config (\<lambda>t. none_result (?f t)) (com w) (hit w) (Inl e) (com w1) (hit w1)
      | Inr x \<Rightarrow> wp (after_commit s ?ev)
          (\<lambda>a w2. written_config (\<lambda>t. none_result (?f t)) (com w) (hit w) (Inr (x, a)) (com w2) (hit w2)) w1"
    show "case r of
        Inl e \<Rightarrow> \<exists>q. written_config ?f (com w) (hit w) q (com w1) (hit w1) \<and>
          Inl e = (case q of Inl e \<Rightarrow> Inl e | Inr (_, Some e) \<Rightarrow> Inl e | Inr (_, None) \<Rightarrow> Inr ())
      | Inr x \<Rightarrow> wp (after_commit s ?ev) (\<lambda>a w2. \<exists>q. written_config ?f (com w) (hit w) q (com w2) (hit w2) \<and>
          (case a of None \<Rightarrow> Inr () | Some e \<Rightarrow> Inl e) =
          (case q of Inl e \<Rightarrow> Inl e | Inr (_, Some e) \<Rightarrow> Inl e | Inr (_, None) \<Rightarrow> Inr ())) w1"
    proof (cases r)
      case (Inl e)
      then show ?thesis using 1 none_written(1) by (auto intro!: exI [of _ "Inl e"])
    next
      case (Inr x)
      then have "wp (after_commit s ?ev)
          (\<lambda>a w2. written_config (\<lambda>t. none_result (?f t)) (com w) (hit w) (Inr (x, a)) (com w2) (hit w2)) w1"
        using 1 by simp
      then show ?thesis unfolding Inr sum.case
        by (rule wp_mono) (auto dest!: none_written(2) split: option.split intro!: exI [of _ "Inr ((), _)"])
    qed
  qed
qed

end

end
