(* ===== verification/ConfigRepo.thy ===== *)
theory ConfigRepo
  imports ConfigService
begin

text \<open>
  The PostgreSQL adapter of the dynamic configuration: the query functions of
  \<open>db/generated/system_configs.sql.go\<close>, the repository and the transaction wrapper of
  \<open>internal/modules/systemconfig/postgres/repository.go\<close>, over the driver of theory \<open>Driver\<close>.
\<close>

type_synonym 'w config_conn = "('w, config_stmt, config_res) conn"
type_synonym 'w config_database = "('w, config_stmt, config_res) pool"

section \<open>db/generated/system_configs.sql.go\<close>

definition config_scan_error :: err where "config_scan_error = Plain ''scan''"

definition scan_config :: "err + config_res \<Rightarrow> err + db_config" where
  "scan_config r = (case r of Inl e \<Rightarrow> Inl e | Inr (ConfigRow x) \<Rightarrow> Inr x | Inr _ \<Rightarrow> Inl config_scan_error)"

definition scan_configs :: "err + config_res \<Rightarrow> err + db_config list" where
  "scan_configs r = (case r of Inl e \<Rightarrow> Inl e | Inr (ConfigRows x) \<Rightarrow> Inr x | Inr _ \<Rightarrow> Inl config_scan_error)"

definition scan_affected :: "err + config_res \<Rightarrow> err + int" where
  "scan_affected r = (case r of Inl e \<Rightarrow> Inl e | Inr (RowsAffected x) \<Rightarrow> Inr x | Inr _ \<Rightarrow> Inl config_scan_error)"

definition q_create_system_config ::
  "'w config_conn \<Rightarrow> create_config_params \<Rightarrow> ('w, err + db_config) state" where
  "q_create_system_config q arg = do {
     r \<leftarrow> db_exec q (CreateSystemConfig arg); State_Monad.return (scan_config r) }"

definition q_delete_system_config :: "'w config_conn \<Rightarrow> string \<Rightarrow> ('w, err + int) state" where
  "q_delete_system_config q key = do {
     r \<leftarrow> db_exec q (DeleteSystemConfig key); State_Monad.return (scan_affected r) }"

definition q_get_system_config :: "'w config_conn \<Rightarrow> string \<Rightarrow> ('w, err + db_config) state" where
  "q_get_system_config q key = do {
     r \<leftarrow> db_exec q (GetSystemConfig key); State_Monad.return (scan_config r) }"

definition q_list_public_system_configs :: "'w config_conn \<Rightarrow> ('w, err + db_config list) state" where
  "q_list_public_system_configs q = do {
     r \<leftarrow> db_exec q ListPublicSystemConfigs; State_Monad.return (scan_configs r) }"

definition q_list_system_configs :: "'w config_conn \<Rightarrow> ('w, err + db_config list) state" where
  "q_list_system_configs q = do {
     r \<leftarrow> db_exec q ListSystemConfigs; State_Monad.return (scan_configs r) }"

definition q_update_system_config ::
  "'w config_conn \<Rightarrow> update_config_params \<Rightarrow> ('w, err + db_config) state" where
  "q_update_system_config q arg = do {
     r \<leftarrow> db_exec q (UpdateSystemConfig arg); State_Monad.return (scan_config r) }"

section \<open>internal/modules/systemconfig/postgres/repository.go\<close>

definition config_mapped :: "err + db_config \<Rightarrow> err + sys_config" where
  "config_mapped r = (case r of Inl e \<Rightarrow> Inl (map_config_error e) | Inr x \<Rightarrow> Inr (from_config_record x))"

definition crepo_create :: "'w config_conn \<Rightarrow> sys_config \<Rightarrow> ('w, err + sys_config) state" where
  "crepo_create q item = do {
     r \<leftarrow> q_create_system_config q (config_create_params item);
     State_Monad.return (config_mapped r) }"

definition crepo_get :: "'w config_conn \<Rightarrow> string \<Rightarrow> ('w, err + sys_config) state" where
  "crepo_get q key = do {
     r \<leftarrow> q_get_system_config q key;
     State_Monad.return (config_mapped r) }"

definition crepo_list :: "'w config_conn \<Rightarrow> ('w, err + sys_config list) state" where
  "crepo_list q = do {
     r \<leftarrow> q_list_system_configs q;
     State_Monad.return (case r of
         Inl e \<Rightarrow> Inl (Wrapped ''query system configs'' [e]) | Inr rs \<Rightarrow> Inr (from_config_records rs)) }"

definition crepo_list_public :: "'w config_conn \<Rightarrow> ('w, err + sys_config list) state" where
  "crepo_list_public q = do {
     r \<leftarrow> q_list_public_system_configs q;
     State_Monad.return (case r of
         Inl e \<Rightarrow> Inl (Wrapped ''query public system configs'' [e]) | Inr rs \<Rightarrow> Inr (from_config_records rs)) }"

definition crepo_update :: "'w config_conn \<Rightarrow> sys_config \<Rightarrow> ('w, err + sys_config) state" where
  "crepo_update q item = do {
     r \<leftarrow> q_update_system_config q (config_update_params item);
     State_Monad.return (config_mapped r) }"

definition crepo_delete :: "'w config_conn \<Rightarrow> string \<Rightarrow> ('w, err + unit) state" where
  "crepo_delete q key = do {
     r \<leftarrow> q_delete_system_config q key;
     State_Monad.return (case r of
         Inl e \<Rightarrow> Inl (Wrapped ''delete system config'' [e])
       | Inr n \<Rightarrow> if n = 0 then Inl (Sentinel ConfigNotFound) else Inr ()) }"

definition config_repository_of :: "'w config_conn \<Rightarrow> 'w config_repository" where
  "config_repository_of q = \<lparr>
     cr_create = crepo_create q, cr_get = crepo_get q, cr_list = crepo_list q,
     cr_list_public = crepo_list_public q, cr_update = crepo_update q, cr_delete = crepo_delete q\<rparr>"

definition config_store :: "'w config_database \<Rightarrow> 'w config_repository" where
  "config_store db = config_repository_of (db_pool db)"

definition config_within_transaction ::
  "'w config_database \<Rightarrow> ('w config_repository \<Rightarrow> ('w, err + 'a) state) option \<Rightarrow> ('w, err + 'a) state" where
  "config_within_transaction db callback =
     (case callback of
        None \<Rightarrow> State_Monad.return (Inl (Plain ''transaction callback must not be nil''))
      | Some fn \<Rightarrow> do {
          b \<leftarrow> db_begin db;
          case b of
            Inl e \<Rightarrow> State_Monad.return (Inl (Wrapped ''begin system config transaction'' [e]))
          | Inr tx \<Rightarrow> do {
              result \<leftarrow> do {
                r \<leftarrow> fn (config_repository_of (tx_dbtx tx));
                case r of
                  Inl e \<Rightarrow> State_Monad.return (Inl e)
                | Inr x \<Rightarrow> do {
                    c \<leftarrow> tx_commit tx;
                    case c of
                      Inl e \<Rightarrow> State_Monad.return (Inl (Wrapped ''commit system config transaction'' [e]))
                    | Inr _ \<Rightarrow> State_Monad.return (Inr x) } };
              _ \<leftarrow> tx_rollback tx;
              State_Monad.return result } })"

definition config_uow_of :: "'w config_database \<Rightarrow> 'w config_uow" where
  "config_uow_of db = \<lparr>cw_within = (\<lambda>fn. config_within_transaction db (Some fn))\<rparr>"

section \<open>The adapter meets the contract\<close>

lemma map_config_error_infra: "infra_err e \<Longrightarrow> infra_err (map_config_error e)"
  by (auto simp: map_config_error_def infra_err_def split: option.splits)

lemma config_scans [simp]:
  "scan_config (fst (map_res ConfigRow a)) = fst a" "scan_configs (fst (map_res ConfigRows b)) = fst b"
  "scan_affected (fst (map_res RowsAffected c)) = fst c"
  by (auto simp: fst_map_res scan_config_def scan_configs_def scan_affected_def split: sum.splits)

lemma scan_infra:
  "\<exists>e'. scan_config (Inl e) = Inl e' \<and> (infra_err e \<longrightarrow> infra_err e')"
  "\<exists>e'. scan_configs (Inl e) = Inl e' \<and> (infra_err e \<longrightarrow> infra_err e')"
  "\<exists>e'. scan_affected (Inl e) = Inl e' \<and> (infra_err e \<longrightarrow> infra_err e')"
  by (simp_all add: scan_config_def scan_configs_def scan_affected_def)

lemma config_row_acts:
  assumes "conn_laws (run_config_stmt P) q tbl rest" "\<And>t. run_config_stmt P st t = map_res ConfigRow (f t)"
  shows "acts_as (do { r \<leftarrow> do { r \<leftarrow> db_exec q st; State_Monad.return (scan_config r) };
    State_Monad.return (config_mapped r) }) tbl rest (\<lambda>t. config_result (f t))"
  unfolding config_result_def config_mapped_def [symmetric]
  by (rule acts_as_map [OF acts_as_scan [OF assms(1) scan_infra(1)]])
    (simp_all add: assms(2) config_mapped_def map_config_error_infra)

lemma config_rows_acts:
  assumes "conn_laws (run_config_stmt P) q tbl rest" "\<And>t. run_config_stmt P st t = map_res ConfigRows (f t)"
  shows "acts_as (do { r \<leftarrow> do { r \<leftarrow> db_exec q st; State_Monad.return (scan_configs r) };
    State_Monad.return (case r of Inl e \<Rightarrow> Inl (Wrapped msg [e]) | Inr rs \<Rightarrow> Inr (from_config_records rs)) })
    tbl rest (\<lambda>t. config_results msg (f t))"
  unfolding config_results_def
  by (rule acts_as_map [OF acts_as_scan [OF assms(1) scan_infra(2)]]) (simp_all add: assms(2))

lemma config_delete_acts:
  assumes "conn_laws (run_config_stmt P) q tbl rest"
  shows "acts_as (crepo_delete q k) tbl rest (\<lambda>t. delete_result (delete_system_config k t))"
  unfolding crepo_delete_def q_delete_system_config_def delete_result_def
  by (rule acts_as_map [OF acts_as_scan [OF assms scan_infra(3)]]) simp_all

lemma config_repository_of_contract:
  "config_repository_contract P (config_repository_of q) tbl rest (conn_laws (run_config_stmt P) q tbl rest)"
  by unfold_locales
    (simp_all only: config_repository_of_def config_repository.simps crepo_create_def crepo_get_def crepo_list_def
      crepo_list_public_def crepo_update_def q_create_system_config_def q_get_system_config_def
      q_list_system_configs_def q_list_public_system_configs_def q_update_system_config_def
      config_row_acts config_rows_acts config_delete_acts run_config_stmt.simps)

interpretation config_store: config_repository_contract P "config_store db" com frame
  "database_laws (run_config_stmt P) db view com \<and> database_leaves db frame"
  for P db view com frame
proof -
  have "conn_laws (run_config_stmt P) (db_pool db) com frame"
    if "database_laws (run_config_stmt P) db view com" "database_leaves db frame"
    using conn_laws_framed [of "run_config_stmt P" "db_pool db" com "\<lambda>_. ()" frame] that
    by (simp add: database_laws_def database_leaves_def conn_laws_def acts_as_def)
  then show "config_repository_contract P (config_store db) com frame
      (database_laws (run_config_stmt P) db view com \<and> database_leaves db frame)"
    using config_repository_of_contract [of P "db_pool db" com frame]
    by (simp add: config_store_def config_repository_contract_def)
qed

lemma config_within_transact:
  "config_within_transaction db (Some fn) = transact ''begin system config transaction''
     ''commit system config transaction'' db (\<lambda>q. fn (config_repository_of q))"
  by (simp only: config_within_transaction_def transact_def option.case)

lemma config_within_atomic:
  assumes "database_laws (run_config_stmt P) db view com" "database_leaves db frame"
    "config_callback P frame fn f"
  shows "wp (config_within_transaction db (Some fn))
    (\<lambda>r w'. frame w' = frame w \<and> config_committed f (com w) r (com w')) w"
proof -
  define R where "R = (\<lambda>t r t'. f t = (r, t') \<or>
    (\<exists>e. r = Inl e \<and> infra_err e \<and> (t' = t \<or> t' = snd (f t))))"
  have acts: "acts_as (fn (config_repository_of q)) view (\<lambda>w. (com w, frame w)) f"
    if "conn_laws (run_config_stmt P) q view com" "conn_leaves q frame" for q
    using assms(3) config_repository_of_contract [of P q view "\<lambda>w. (com w, frame w)"] conn_laws_framed [OF that]
    by (simp add: config_callback_def)
  have keeps: "leaves (config_within_transaction db (Some fn)) frame"
    unfolding config_within_transact
  proof (rule transact_leaves [OF assms(1,2)])
    fix q assume "conn_laws (run_config_stmt P) q view com" "conn_leaves q frame"
    from acts [OF this] show "leaves (fn (config_repository_of q)) frame"
      unfolding acts_as_def leaves_def by (auto elim!: wp_mono dest: spec)
  qed
  have "wp (config_within_transaction db (Some fn)) (\<lambda>r w'. tx_outcome R (com w) r (com w')) w"
    unfolding config_within_transact
  proof (rule transact_atomic [OF assms(1), where K = "\<lambda>q. conn_leaves q frame"])
    fix v show "wp (db_begin db) (\<lambda>r _. \<forall>tx. r = Inr tx \<longrightarrow> conn_leaves (tx_dbtx tx) frame) v"
      using assms(2) unfolding database_leaves_def by (auto elim!: wp_mono dest: spec [of _ v])
  next
    fix q v assume "conn_laws (run_config_stmt P) q view com" "conn_leaves q frame"
    from acts [OF this] show "wp (fn (config_repository_of q)) (\<lambda>r w'. R (view v) r (view w') \<and> com w' = com v) v"
      unfolding acts_as_def R_def by (auto elim!: wp_mono dest: spec [of _ v])
  qed
  from wp_conj [OF leavesD [OF keeps] this] show ?thesis
  proof (rule wp_mono, elim conjE)
    fix r w' assume "frame w' = frame w" "tx_outcome R (com w) r (com w')"
    then show "frame w' = frame w \<and> config_committed f (com w) r (com w')"
      by (cases r) (auto simp: tx_outcome_def config_committed_def R_def)
  qed
qed

interpretation config_tx: config_uow_contract P "config_uow_of db" com frame
  "database_laws (run_config_stmt P) db view com \<and> database_leaves db frame"
  for P db view com frame
  by unfold_locales (simp only: config_uow_of_def config_uow.simps, elim conjE, rule config_within_atomic)

end
