(* ===== verification/UserModel.thy ===== *)
theory UserModel
  imports Shared
begin

text \<open>
  \<open>internal/modules/user/model.go\<close> and the input normalisation of \<open>service.go\<close>.  The address
  and URL parsers of the Go library (\<open>net/mail\<close>, \<open>net/url\<close>) are fields of the parameter
  \<open>parsers\<close>; the Unicode tables are the parameter \<open>unicode\<close>.
\<close>

section \<open>internal/modules/user/model.go\<close>

type_synonym status = string

definition status_active :: status where "status_active = ''active''"
definition status_disabled :: status where "status_disabled = ''disabled''"
definition status_archived :: status where "status_archived = ''archived''"

definition status_valid :: "status \<Rightarrow> bool" where
  "status_valid s \<longleftrightarrow> s = status_active \<or> s = status_disabled \<or> s = status_archived"

record user =
  u_id :: uuid
  u_username :: string
  u_password_hash :: string
  u_display_name :: string
  u_email :: "string option"
  u_avatar_url :: "string option"
  u_status :: status
  u_is_superuser :: bool
  u_allow_multiple_sessions :: bool
  u_session_version :: int
  u_password_changed_at :: time
  u_last_login_at :: "time option"
  u_created_at :: time
  u_updated_at :: time
  u_archived_at :: "time option"

record create_input =
  ci_username :: string
  ci_password :: string
  ci_display_name :: string
  ci_email :: string
  ci_avatar_url :: string
  ci_is_superuser :: bool
  ci_allow_multiple_sessions :: bool

record profile_input =
  pi_username :: string
  pi_display_name :: string
  pi_email :: string
  pi_avatar_url :: string

record list_filter =
  lf_username :: string
  lf_status :: status
  lf_page :: i32
  lf_size :: i32

record user_page =
  pg_items :: "user list"
  pg_total :: int
  pg_page :: i32
  pg_size :: i32

section \<open>Normalisation\<close>

text \<open>
  \<open>mail.ParseAddress\<close> gives the address part; \<open>url.ParseRequestURI\<close> the scheme and the host.
\<close>

record parsers =
  mail_address :: "string \<Rightarrow> string option"
  request_uri :: "string \<Rightarrow> (string \<times> string) option"

text \<open>\<open>^[a-z0-9][a-z0-9._-]{2,63}$\<close>, with \<open>upper\<close> also \<open>^[A-Za-z0-9][A-Za-z0-9._-]{2,63}$\<close>.\<close>

definition name_char :: "bool \<Rightarrow> char \<Rightarrow> bool" where
  "name_char upper c \<longleftrightarrow> 97 \<le> byte c \<and> byte c < 123 \<or> 48 \<le> byte c \<and> byte c < 58 \<or>
     upper \<and> 65 \<le> byte c \<and> byte c < 91"

definition name_tail_char :: "bool \<Rightarrow> char \<Rightarrow> bool" where
  "name_tail_char upper c \<longleftrightarrow>
     name_char upper c \<or> c = CHR ''.'' \<or> c = CHR ''_'' \<or> c = CHR ''-''"

fun name_format :: "bool \<Rightarrow> string \<Rightarrow> bool" where
  "name_format upper [] = False"
| "name_format upper (c # cs) =
     (name_char upper c \<and> 2 \<le> length cs \<and> length cs \<le> 63 \<and> list_all (name_tail_char upper) cs)"

definition username_pattern :: "string \<Rightarrow> bool" where
  "username_pattern s = name_format False s"

definition invalid_input :: "string \<Rightarrow> err" where
  "invalid_input what = Wrapped what [Sentinel UserInvalidInput]"

definition normalize_profile :: "unicode \<Rightarrow> parsers \<Rightarrow> profile_input \<Rightarrow> err + profile_input" where
  "normalize_profile U P input0 =
    (let input = input0\<lparr>pi_username := to_lower U (trim_space U (pi_username input0))\<rparr> in
     if \<not> username_pattern (pi_username input) then Inl (invalid_input ''username'')
     else
       let input = input\<lparr>pi_display_name := trim_space U (pi_display_name input)\<rparr>;
           input = (if pi_display_name input = '''' then input\<lparr>pi_display_name := pi_username input\<rparr>
                    else input)
       in if 64 < length (runes (pi_display_name input)) then Inl (invalid_input ''display_name'')
       else
         let input = input\<lparr>pi_email := to_lower U (trim_space U (pi_email input))\<rparr> in
         if pi_email input \<noteq> '''' \<and>
            (mail_address P (pi_email input) \<noteq> Some (pi_email input) \<or> 254 < length (pi_email input))
         then Inl (invalid_input ''email'')
         else
           let input = input\<lparr>pi_avatar_url := trim_space U (pi_avatar_url input)\<rparr> in
           if pi_avatar_url input \<noteq> '''' \<and>
              (case request_uri P (pi_avatar_url input) of
                 None \<Rightarrow> True
               | Some (scheme, host) \<Rightarrow> (scheme \<noteq> ''http'' \<and> scheme \<noteq> ''https'') \<or> host = '''')
           then Inl (invalid_input ''avatar_url'')
           else Inr input)"

definition normalize_create_input ::
  "unicode \<Rightarrow> parsers \<Rightarrow> create_input \<Rightarrow> err + create_input" where
  "normalize_create_input U P input =
     (case normalize_profile U P \<lparr>pi_username = ci_username input,
         pi_display_name = ci_display_name input, pi_email = ci_email input,
         pi_avatar_url = ci_avatar_url input\<rparr> of
        Inl e \<Rightarrow> Inl e
      | Inr profile \<Rightarrow>
          Inr (input\<lparr>ci_username := pi_username profile, ci_display_name := pi_display_name profile,
                     ci_email := pi_email profile, ci_avatar_url := pi_avatar_url profile\<rparr>))"

definition optional_string :: "string \<Rightarrow> string option" where
  "optional_string v = (if v = '''' then None else Some v)"

section \<open>What normalisation guarantees\<close>

definition display_ok :: "string \<Rightarrow> bool" where
  "display_ok s \<longleftrightarrow> s \<noteq> '''' \<and> length (runes s) \<le> 64"

text \<open>The shape of a profile that normalisation accepts.\<close>

definition normal_profile :: "profile_input \<Rightarrow> bool" where
  "normal_profile p \<longleftrightarrow> username_pattern (pi_username p) \<and> display_ok (pi_display_name p) \<and>
     length (pi_email p) \<le> 254"

lemma name_format_mono: "name_format False s \<Longrightarrow> name_format True s"
  by (cases s) (auto simp: name_char_def name_tail_char_def list_all_iff)

lemma name_format_length: "name_format u s \<Longrightarrow> 3 \<le> length s \<and> length s \<le> 64"
  by (cases s) auto

lemma name_format_ascii: "name_format u s \<Longrightarrow> ascii s"
  by (cases s) (auto simp: name_char_def name_tail_char_def list_all_iff ascii_def)

lemma name_format_lower: "name_format False s \<Longrightarrow> list_all (\<lambda>c. \<not> (65 \<le> byte c \<and> byte c < 91)) s"
  by (cases s) (auto simp: name_char_def name_tail_char_def list_all_iff)

lemma normalize_profile_normal:
  assumes "normalize_profile U P i = Inr p"
  shows "normal_profile p"
proof -
  have "u \<noteq> ''''" if "username_pattern u" for u
    using that by (cases u) (auto simp: username_pattern_def)
  then show ?thesis using assms
    by (auto simp: normalize_profile_def Let_def normal_profile_def display_ok_def split: if_splits)
qed

lemma normalize_profile_error:
  "normalize_profile U P i = Inl e \<Longrightarrow> err_is UserInvalidInput e"
  by (auto simp: normalize_profile_def Let_def invalid_input_def split: if_splits)

lemma normalize_create_normal:
  assumes "normalize_create_input U P i = Inr c"
  shows "normal_profile \<lparr>pi_username = ci_username c, pi_display_name = ci_display_name c,
           pi_email = ci_email c, pi_avatar_url = ci_avatar_url c\<rparr> \<and>
         ci_password c = ci_password i \<and> ci_is_superuser c = ci_is_superuser i \<and>
         ci_allow_multiple_sessions c = ci_allow_multiple_sessions i"
  using assms
  by (auto simp: normalize_create_input_def normal_profile_def
      dest!: normalize_profile_normal split: sum.splits)

lemma status_valid_cases:
  "status_valid s \<longleftrightarrow> s = ''active'' \<or> s = ''disabled'' \<or> s = ''archived''"
  by (auto simp: status_valid_def status_active_def status_disabled_def status_archived_def)

end
