(* ===== verification/UserSql.thy ===== *)
theory UserSql
  imports UserModel Driver
begin

text \<open>
  The \<open>users\<close> table of \<open>db/migrations/000001_initial.sql\<close> and the statements of
  \<open>db/queries/users.sql\<close> as sqlc generated them in \<open>db/generated/users.sql.go\<close>.  A table is the
  list of its rows; each statement is a function from the table to its result (or the
  PostgreSQL error) and the table it leaves.  The order of the checks is PostgreSQL's: parameters,
  column types, NOT NULL, CHECK constraints in name order, unique indexes.  The collation-dependent
  operators \<open>lower\<close> and \<open>ILIKE\<close> of the server are fields of the parameter \<open>pg_ops\<close>.
\<close>

record db_user =
  c_id :: uuid
  c_username :: string
  c_password_hash :: string
  c_display_name :: string
  c_email :: "string option"
  c_avatar_url :: "string option"
  c_status :: string
  c_is_superuser :: bool
  c_allow_multiple_sessions :: bool
  c_session_version :: int
  c_password_changed_at :: "time option"
  c_last_login_at :: "time option"
  c_created_at :: "time option"
  c_updated_at :: "time option"
  c_archived_at :: "time option"

type_synonym users = "db_user list"

record pg_ops =
  pg_lower :: "string \<Rightarrow> string"
  pg_ilike :: "string \<Rightarrow> string \<Rightarrow> bool"

text \<open>\<open>lower\<close> agrees with the ASCII mapping on ASCII strings.\<close>

definition pg_laws :: "pg_ops \<Rightarrow> bool" where
  "pg_laws P \<longleftrightarrow> (\<forall>s. ascii s \<longrightarrow> pg_lower P s = map lower_byte s)"

section \<open>Column types and constraints\<close>

definition assign_columns :: "db_user \<Rightarrow> err + db_user" where
  "assign_columns r =
     (case assign_varchar 64 (c_username r) of Inl e \<Rightarrow> Inl e | Inr un \<Rightarrow>
     (case assign_varchar 64 (c_display_name r) of Inl e \<Rightarrow> Inl e | Inr dn \<Rightarrow>
     (case assign_opt_varchar 254 (c_email r) of Inl e \<Rightarrow> Inl e | Inr em \<Rightarrow>
     (case assign_varchar 16 (c_status r) of Inl e \<Rightarrow> Inl e | Inr st \<Rightarrow>
        Inr (r\<lparr>c_username := un, c_display_name := dn, c_email := em, c_status := st\<rparr>)))))"

definition not_null :: "db_user \<Rightarrow> bool" where
  "not_null r \<longleftrightarrow> c_password_changed_at r \<noteq> None \<and> c_created_at r \<noteq> None \<and> c_updated_at r \<noteq> None"

definition check_user :: "db_user \<Rightarrow> err + unit" where
  "check_user r =
     (if \<not> not_null r then Inl (PgError ''23502'' '''')
      else if (c_status r = ''archived'') \<noteq> (c_archived_at r \<noteq> None)
      then Inl (PgError ''23514'' ''users_archived_state'')
      else if \<not> (1 \<le> length (runes (c_display_name r)) \<and> length (runes (c_display_name r)) \<le> 64)
      then Inl (PgError ''23514'' ''users_display_name_length'')
      else if \<not> 0 < c_session_version r then Inl (PgError ''23514'' ''users_session_version'')
      else if c_status r \<notin> {''active'', ''disabled'', ''archived''}
      then Inl (PgError ''23514'' ''users_status'')
      else if \<not> name_format True (c_username r)
      then Inl (PgError ''23514'' ''users_username_format'')
      else Inr ())"

definition same_email :: "pg_ops \<Rightarrow> db_user \<Rightarrow> db_user \<Rightarrow> bool" where
  "same_email P r x \<longleftrightarrow>
     (case (c_email r, c_email x) of (Some a, Some b) \<Rightarrow> pg_lower P a = pg_lower P b | _ \<Rightarrow> False)"

definition unique_user :: "pg_ops \<Rightarrow> users \<Rightarrow> db_user \<Rightarrow> err + unit" where
  "unique_user P others r =
     (if list_ex (\<lambda>x. c_id x = c_id r) others then Inl (PgError ''23505'' ''users_pkey'')
      else if list_ex (\<lambda>x. pg_lower P (c_username x) = pg_lower P (c_username r)) others
      then Inl (PgError ''23505'' ''users_username_unique'')
      else if list_ex (same_email P r) others
      then Inl (PgError ''23505'' ''users_email_unique'')
      else Inr ())"

definition store_user :: "pg_ops \<Rightarrow> users \<Rightarrow> db_user \<Rightarrow> err + db_user" where
  "store_user P others r0 =
     (case assign_columns r0 of Inl e \<Rightarrow> Inl e | Inr r \<Rightarrow>
     (case check_user r of Inl e \<Rightarrow> Inl e | Inr _ \<Rightarrow>
     (case unique_user P others r of Inl e \<Rightarrow> Inl e | Inr _ \<Rightarrow> Inr r)))"

section \<open>The statements\<close>

text \<open>
  \<open>UPDATE users SET ... WHERE id = uid RETURNING ...\<close>: the updated row, if there is one.
\<close>

definition update_user ::
  "pg_ops \<Rightarrow> uuid \<Rightarrow> (db_user \<Rightarrow> err + db_user) \<Rightarrow> users \<Rightarrow> (err + db_user option) \<times> users" where
  "update_user P uid f t =
     (case find (\<lambda>r. c_id r = uid) t of
        None \<Rightarrow> (Inr None, t)
      | Some r0 \<Rightarrow>
          (case f r0 of
             Inl e \<Rightarrow> (Inl e, t)
           | Inr r1 \<Rightarrow>
               (case store_user P (filter (\<lambda>x. c_id x \<noteq> uid) t) r1 of
                  Inl e \<Rightarrow> (Inl e, t)
                | Inr r \<Rightarrow> (Inr (Some r), map (\<lambda>x. if c_id x = uid then r else x) t))))"

definition bump_version :: "db_user \<Rightarrow> err + db_user" where
  "bump_version r =
     (if c_session_version r + 1 < 2 ^ 63 then Inr (r\<lparr>c_session_version := c_session_version r + 1\<rparr>)
      else Inl (PgError ''22003'' ''''))"

text \<open>\<open>:one\<close> reads the returned row, \<open>pgx.ErrNoRows\<close> when there is none; \<open>:exec\<close> ignores it.\<close>

definition one_row :: "(err + db_user option) \<times> users \<Rightarrow> (err + db_user) \<times> users" where
  "one_row res =
     ((case fst res of Inl e \<Rightarrow> Inl e | Inr None \<Rightarrow> Inl (Sentinel NoRows) | Inr (Some r) \<Rightarrow> Inr r), snd res)"

definition exec_only :: "(err + db_user option) \<times> users \<Rightarrow> (err + unit) \<times> users" where
  "exec_only res = ((case fst res of Inl e \<Rightarrow> Inl e | Inr _ \<Rightarrow> Inr ()), snd res)"

record create_user_params =
  cu_id :: uuid
  cu_username :: string
  cu_password_hash :: string
  cu_display_name :: string
  cu_email :: "string option"
  cu_avatar_url :: "string option"
  cu_status :: string
  cu_is_superuser :: bool
  cu_allow_multiple_sessions :: bool
  cu_session_version :: int
  cu_password_changed_at :: "time option"
  cu_created_at :: "time option"
  cu_updated_at :: "time option"

definition create_user :: "pg_ops \<Rightarrow> create_user_params \<Rightarrow> users \<Rightarrow> (err + db_user) \<times> users" where
  "create_user P a t =
     with_text ([cu_username a, cu_password_hash a, cu_display_name a, cu_status a] @
         opt_text (cu_email a) @ opt_text (cu_avatar_url a))
       (case store_user P t
           \<lparr>c_id = cu_id a, c_username = cu_username a, c_password_hash = cu_password_hash a,
            c_display_name = cu_display_name a, c_email = cu_email a,
            c_avatar_url = cu_avatar_url a, c_status = cu_status a,
            c_is_superuser = cu_is_superuser a,
            c_allow_multiple_sessions = cu_allow_multiple_sessions a,
            c_session_version = cu_session_version a,
            c_password_changed_at = cu_password_changed_at a, c_last_login_at = None,
            c_created_at = cu_created_at a, c_updated_at = cu_updated_at a,
            c_archived_at = None\<rparr> of
          Inl e \<Rightarrow> (Inl e, t)
        | Inr r \<Rightarrow> (Inr r, t @ [r])) t"

definition get_user_by_id :: "uuid \<Rightarrow> users \<Rightarrow> (err + db_user) \<times> users" where
  "get_user_by_id uid t = one_row (Inr (find (\<lambda>r. c_id r = uid) t), t)"

definition get_user_by_username :: "pg_ops \<Rightarrow> string \<Rightarrow> users \<Rightarrow> (err + db_user) \<times> users" where
  "get_user_by_username P name t =
     with_text [name]
       (one_row (Inr (find (\<lambda>r. pg_lower P (c_username r) = pg_lower P name) t), t)) t"

definition user_matches :: "pg_ops \<Rightarrow> string \<Rightarrow> string \<Rightarrow> db_user \<Rightarrow> bool" where
  "user_matches P name_filter status_filter r \<longleftrightarrow>
     (name_filter = '''' \<or> pg_ilike P (c_username r) (''%'' @ name_filter @ ''%'')) \<and>
     (status_filter = '''' \<or> c_status r = status_filter)"

definition created_key :: "db_user \<Rightarrow> time" where
  "created_key r = (case c_created_at r of Some x \<Rightarrow> x | None \<Rightarrow> 0)"

text \<open>\<open>ORDER BY created_at DESC, id DESC\<close>: two stable sorts, the less significant key first.\<close>

definition newest_first :: "users \<Rightarrow> users" where
  "newest_first rs = rev (sort_key created_key (sort_key c_id rs))"

definition list_users ::
  "pg_ops \<Rightarrow> string \<Rightarrow> string \<Rightarrow> i32 \<Rightarrow> i32 \<Rightarrow> users \<Rightarrow> (err + db_user list) \<times> users" where
  "list_users P name_filter status_filter page_offset page_limit t =
     with_text [name_filter, status_filter]
       (if sint page_offset < 0 then (Inl (PgError ''2201X'' ''''), t)
        else if sint page_limit < 0 then (Inl (PgError ''2201W'' ''''), t)
        else (Inr (take (nat (sint page_limit)) (drop (nat (sint page_offset))
               (newest_first (filter (user_matches P name_filter status_filter) t)))), t)) t"

definition count_users :: "pg_ops \<Rightarrow> string \<Rightarrow> string \<Rightarrow> users \<Rightarrow> (err + int) \<times> users" where
  "count_users P name_filter status_filter t =
     with_text [name_filter, status_filter]
       (Inr (int (length (filter (user_matches P name_filter status_filter) t))), t) t"

definition update_user_profile ::
  "pg_ops \<Rightarrow> uuid \<Rightarrow> string \<Rightarrow> string \<Rightarrow> string option \<Rightarrow> string option \<Rightarrow> time option \<Rightarrow> users \<Rightarrow>
    (err + db_user) \<times> users" where
  "update_user_profile P uid name display email avatar now t =
     with_text ([name, display] @ opt_text email @ opt_text avatar)
       (one_row (update_user P uid (\<lambda>r. Inr (r\<lparr>c_username := name, c_display_name := display,
          c_email := email, c_avatar_url := avatar, c_updated_at := now\<rparr>)) t)) t"

definition set_user_status ::
  "pg_ops \<Rightarrow> uuid \<Rightarrow> string \<Rightarrow> time option \<Rightarrow> users \<Rightarrow> (err + db_user) \<times> users" where
  "set_user_status P uid st now t =
     with_text [st]
       (one_row (update_user P uid (\<lambda>r. bump_version (r\<lparr>c_status := st,
          c_archived_at := (if st = ''archived'' then now else None), c_updated_at := now\<rparr>)) t)) t"

definition set_user_superuser ::
  "pg_ops \<Rightarrow> uuid \<Rightarrow> bool \<Rightarrow> time option \<Rightarrow> users \<Rightarrow> (err + db_user) \<times> users" where
  "set_user_superuser P uid enabled now t =
     one_row (update_user P uid
       (\<lambda>r. bump_version (r\<lparr>c_is_superuser := enabled, c_updated_at := now\<rparr>)) t)"

definition set_user_multiple_sessions ::
  "pg_ops \<Rightarrow> uuid \<Rightarrow> bool \<Rightarrow> time option \<Rightarrow> users \<Rightarrow> (err + db_user) \<times> users" where
  "set_user_multiple_sessions P uid enabled now t =
     one_row (update_user P uid
       (\<lambda>r. bump_version (r\<lparr>c_allow_multiple_sessions := enabled, c_updated_at := now\<rparr>)) t)"

definition update_user_password ::
  "pg_ops \<Rightarrow> uuid \<Rightarrow> string \<Rightarrow> time option \<Rightarrow> users \<Rightarrow> (err + db_user) \<times> users" where
  "update_user_password P uid hash now t =
     with_text [hash]
       (one_row (update_user P uid (\<lambda>r. bump_version (r\<lparr>c_password_hash := hash,
          c_password_changed_at := now, c_updated_at := now\<rparr>)) t)) t"

definition update_user_password_hash ::
  "pg_ops \<Rightarrow> uuid \<Rightarrow> string \<Rightarrow> time option \<Rightarrow> users \<Rightarrow> (err + unit) \<times> users" where
  "update_user_password_hash P uid hash now t =
     with_text [hash]
       (exec_only (update_user P uid
          (\<lambda>r. Inr (r\<lparr>c_password_hash := hash, c_updated_at := now\<rparr>)) t)) t"

definition update_user_last_login ::
  "pg_ops \<Rightarrow> uuid \<Rightarrow> time option \<Rightarrow> users \<Rightarrow> (err + unit) \<times> users" where
  "update_user_last_login P uid now t =
     exec_only (update_user P uid
       (\<lambda>r. Inr (r\<lparr>c_last_login_at := now, c_updated_at := now\<rparr>)) t)"

definition active_superuser :: "db_user \<Rightarrow> bool" where
  "active_superuser r \<longleftrightarrow> c_is_superuser r \<and> c_status r = ''active''"

definition count_active_superusers :: "users \<Rightarrow> (err + int) \<times> users" where
  "count_active_superusers t = (Inr (int (length (filter active_superuser t))), t)"

text \<open>The advisory lock changes no row; what it excludes is modelled in \<open>SuperuserRace\<close>.\<close>

definition lock_superuser_changes :: "users \<Rightarrow> (err + unit) \<times> users" where
  "lock_superuser_changes t = (Inr (), t)"

section \<open>Statements as data\<close>

text \<open>What \<open>DBTX\<close> is given to execute, and what a row or result of it scans to.\<close>

datatype user_stmt =
    CreateUser create_user_params
  | GetUserByID uuid
  | GetUserByUsername string
  | ListUsers string string i32 i32
  | CountUsers string string
  | UpdateUserProfile uuid string string "string option" "string option" "time option"
  | SetUserStatus uuid string "time option"
  | SetUserSuperuser uuid bool "time option"
  | SetUserMultipleSessions uuid bool "time option"
  | UpdateUserPassword uuid string "time option"
  | UpdateUserPasswordHash uuid string "time option"
  | UpdateUserLastLogin uuid "time option"
  | LockSuperuserChanges
  | CountActiveSuperusers

datatype user_res = UserRow db_user | UserRows "db_user list" | CountRow int | NoResult

fun run_user_stmt :: "pg_ops \<Rightarrow> user_stmt \<Rightarrow> users \<Rightarrow> (err + user_res) \<times> users" where
  "run_user_stmt P (CreateUser a) t = map_res UserRow (create_user P a t)"
| "run_user_stmt P (GetUserByID uid) t = map_res UserRow (get_user_by_id uid t)"
| "run_user_stmt P (GetUserByUsername n) t = map_res UserRow (get_user_by_username P n t)"
| "run_user_stmt P (ListUsers uf sf off lim) t = map_res UserRows (list_users P uf sf off lim t)"
| "run_user_stmt P (CountUsers uf sf) t = map_res CountRow (count_users P uf sf t)"
| "run_user_stmt P (UpdateUserProfile uid n d e a now) t =
     map_res UserRow (update_user_profile P uid n d e a now t)"
| "run_user_stmt P (SetUserStatus uid st now) t = map_res UserRow (set_user_status P uid st now t)"
| "run_user_stmt P (SetUserSuperuser uid b now) t =
     map_res UserRow (set_user_superuser P uid b now t)"
| "run_user_stmt P (SetUserMultipleSessions uid b now) t =
     map_res UserRow (set_user_multiple_sessions P uid b now t)"
| "run_user_stmt P (UpdateUserPassword uid h now) t =
     map_res UserRow (update_user_password P uid h now t)"
| "run_user_stmt P (UpdateUserPasswordHash uid h now) t =
     map_res (\<lambda>_. NoResult) (update_user_password_hash P uid h now t)"
| "run_user_stmt P (UpdateUserLastLogin uid now) t =
     map_res (\<lambda>_. NoResult) (update_user_last_login P uid now t)"
| "run_user_stmt P LockSuperuserChanges t = map_res (\<lambda>_. NoResult) (lock_superuser_changes t)"
| "run_user_stmt P CountActiveSuperusers t = map_res CountRow (count_active_superusers t)"

section \<open>Table invariant\<close>

text \<open>
  Rows satisfy the column types and CHECK constraints; two rows never collide on a unique index.
\<close>

definition compatible :: "pg_ops \<Rightarrow> db_user \<Rightarrow> db_user \<Rightarrow> bool" where
  "compatible P r x \<longleftrightarrow> c_id x \<noteq> c_id r \<and> pg_lower P (c_username x) \<noteq> pg_lower P (c_username r) \<and>
     \<not> same_email P r x"

definition row_ok :: "db_user \<Rightarrow> bool" where
  "row_ok r \<longleftrightarrow> assign_columns r = Inr r \<and> check_user r = Inr ()"

definition users_ok :: "pg_ops \<Rightarrow> users \<Rightarrow> bool" where
  "users_ok P t \<longleftrightarrow> sorted_wrt (compatible P) t \<and> list_all row_ok t"

lemma compatible_sym: "compatible P r x = compatible P x r"
  by (auto simp: compatible_def same_email_def split: option.splits)

lemma unique_user_Inr: "unique_user P others r = Inr () \<longleftrightarrow> list_all (compatible P r) others"
  by (auto simp: unique_user_def compatible_def list_all_iff list_ex_iff)

lemma runes_encode_runes_length: "length (runes (encode_runes rs)) = length rs"
  by (induction rs) (simp_all add: encode_runes_def runes_encode_rune)

lemma assign_varchar_fixed: "assign_varchar n s = Inr t \<Longrightarrow> assign_varchar n t = Inr t"
  by (auto simp: assign_varchar_def runes_encode_runes_length split: if_splits)

lemma assign_opt_varchar_fixed: "assign_opt_varchar n s = Inr t \<Longrightarrow> assign_opt_varchar n t = Inr t"
  by (auto simp: assign_opt_varchar_def dest: assign_varchar_fixed split: option.splits sum.splits)

lemma assign_columns_Inr:
  "assign_columns r = Inr r' \<longleftrightarrow> (\<exists>un dn em st. assign_varchar 64 (c_username r) = Inr un \<and>
     assign_varchar 64 (c_display_name r) = Inr dn \<and> assign_opt_varchar 254 (c_email r) = Inr em \<and>
     assign_varchar 16 (c_status r) = Inr st \<and>
     r' = r\<lparr>c_username := un, c_display_name := dn, c_email := em, c_status := st\<rparr>)"
  by (auto simp: assign_columns_def split: sum.splits)

lemma assign_columns_fixed:
  assumes "assign_columns r = Inr r'"
  shows "assign_columns r' = Inr r'"
proof -
  obtain un dn em st where *: "assign_varchar 64 (c_username r) = Inr un"
    "assign_varchar 64 (c_display_name r) = Inr dn" "assign_opt_varchar 254 (c_email r) = Inr em"
    "assign_varchar 16 (c_status r) = Inr st"
    and r': "r' = r\<lparr>c_username := un, c_display_name := dn, c_email := em, c_status := st\<rparr>"
    using assms unfolding assign_columns_Inr by blast
  from * have "assign_varchar 64 un = Inr un" "assign_varchar 64 dn = Inr dn"
    "assign_opt_varchar 254 em = Inr em" "assign_varchar 16 st = Inr st"
    by (auto intro: assign_varchar_fixed assign_opt_varchar_fixed)
  then show ?thesis by (simp add: assign_columns_def r')
qed

lemma assign_columns_keeps:
  "assign_columns r = Inr r' \<Longrightarrow> c_id r' = c_id r \<and> c_is_superuser r' = c_is_superuser r \<and>
     c_session_version r' = c_session_version r \<and> c_password_hash r' = c_password_hash r \<and>
     c_allow_multiple_sessions r' = c_allow_multiple_sessions r \<and>
     c_avatar_url r' = c_avatar_url r \<and> c_password_changed_at r' = c_password_changed_at r \<and>
     c_last_login_at r' = c_last_login_at r \<and> c_created_at r' = c_created_at r \<and>
     c_updated_at r' = c_updated_at r \<and> c_archived_at r' = c_archived_at r"
  by (auto simp: assign_columns_Inr)

lemma store_user_InrD:
  "store_user P others r0 = Inr r \<Longrightarrow>
     assign_columns r0 = Inr r \<and> row_ok r \<and> list_all (compatible P r) others"
  by (auto simp: store_user_def row_ok_def unique_user_Inr dest: assign_columns_fixed
      split: sum.splits)

lemma sorted_wrt_replace:
  assumes "sorted_wrt R t" "\<And>x y. R x y = R y x" "\<forall>x \<in> set t. \<not> p x \<longrightarrow> R r x"
    "\<And>x y. R x y \<Longrightarrow> p x \<Longrightarrow> \<not> p y"
  shows "sorted_wrt R (map (\<lambda>x. if p x then r else x) t)"
  using assms(1,3)
proof (induction t)
  case (Cons a t)
  then show ?case using assms(2,4) by auto
qed simp

lemma find_id: "find (\<lambda>r. c_id r = uid) t = Some r \<Longrightarrow> r \<in> set t \<and> c_id r = uid"
  by (auto simp: find_Some_iff)

lemma users_ok_replace:
  assumes "users_ok P t" "c_id r = uid" "row_ok r"
    "list_all (compatible P r) (filter (\<lambda>x. c_id x \<noteq> uid) t)"
  shows "users_ok P (map (\<lambda>x. if c_id x = uid then r else x) t)"
proof -
  have "sorted_wrt (compatible P) (map (\<lambda>x. if c_id x = uid then r else x) t)"
  proof (rule sorted_wrt_replace)
    show "compatible P x y = compatible P y x" for x y by (rule compatible_sym)
  qed (use assms(1,4) in \<open>auto simp: users_ok_def list_all_iff compatible_def\<close>)
  moreover have "list_all row_ok (map (\<lambda>x. if c_id x = uid then r else x) t)"
    using assms(1,3) by (auto simp: users_ok_def list_all_iff)
  ultimately show ?thesis by (simp add: users_ok_def)
qed

text \<open>Everything an UPDATE can do to the table.\<close>

lemma update_user_cases:
  obtains (missing) "find (\<lambda>r. c_id r = uid) t = None" "update_user P uid f t = (Inr None, t)"
  | (failed) e where "update_user P uid f t = (Inl e, t)"
  | (updated) r0 r1 r where "find (\<lambda>r. c_id r = uid) t = Some r0" "f r0 = Inr r1"
      "store_user P (filter (\<lambda>x. c_id x \<noteq> uid) t) r1 = Inr r"
      "update_user P uid f t = (Inr (Some r), map (\<lambda>x. if c_id x = uid then r else x) t)"
proof (cases "find (\<lambda>r. c_id r = uid) t")
  case None
  then show ?thesis using missing by (simp add: update_user_def)
next
  case (Some r0)
  show ?thesis
  proof (cases "f r0")
    case (Inl e)
    then show ?thesis using failed Some by (simp add: update_user_def)
  next
    case (Inr r1)
    then show ?thesis using failed updated Some
      by (cases "store_user P (filter (\<lambda>x. c_id x \<noteq> uid) t) r1") (simp_all add: update_user_def)
  qed
qed

lemma bump_version_Inr: "bump_version r = Inr r' \<longleftrightarrow>
    c_session_version r + 1 < 2 ^ 63 \<and> r' = r\<lparr>c_session_version := c_session_version r + 1\<rparr>"
  by (auto simp: bump_version_def)

text \<open>The columns an UPDATE may write keep the row's id.\<close>

definition keeps_id :: "(db_user \<Rightarrow> err + db_user) \<Rightarrow> bool" where
  "keeps_id f \<longleftrightarrow> (\<forall>r r'. f r = Inr r' \<longrightarrow> c_id r' = c_id r)"

lemma update_user_ok:
  assumes "users_ok P t" "keeps_id f"
  shows "users_ok P (snd (update_user P uid f t))"
proof (cases rule: update_user_cases [where P = P and uid = uid and f = f and t = t])
  case (updated r0 r1 r)
  have "c_id r = uid"
    using updated(1,2) assms(2) store_user_InrD [OF updated(3)]
    by (auto simp: keeps_id_def dest!: find_id assign_columns_keeps)
  then show ?thesis
    using users_ok_replace [OF assms(1), of r uid] store_user_InrD [OF updated(3)] updated(4) by simp
qed (use assms in simp_all)

lemma snd_one_row [simp]: "snd (one_row res') = snd res'"
  and snd_exec_only [simp]: "snd (exec_only res'') = snd res''"
  by (simp_all add: one_row_def exec_only_def)

lemma snd_with_text: "snd (with_text ss res t) = (if text_params ss = Inr () then snd res else t)"
  by (auto simp: with_text_def split: sum.splits)

text \<open>A statement that fails leaves the table as it was.\<close>

lemma failing_keeps_update [simp]:
  "failing_keeps (one_row (update_user P uid f t)) t" "failing_keeps (exec_only (update_user P uid f t)) t"
  by (cases rule: update_user_cases [where P = P and uid = uid and f = f and t = t];
      simp add: failing_keeps_def one_row_def exec_only_def)+

lemma create_user_ok: "users_ok P t \<Longrightarrow> users_ok P (snd (create_user P a t))"
  by (auto simp: create_user_def snd_with_text users_ok_def sorted_wrt_append list_all_iff
      compatible_sym [of P] dest!: store_user_InrD split: sum.splits)

lemmas user_update_defs = update_user_profile_def set_user_status_def set_user_superuser_def
  set_user_multiple_sessions_def update_user_password_def update_user_password_hash_def
  update_user_last_login_def

lemmas user_read_defs = get_user_by_id_def get_user_by_username_def list_users_def
  count_users_def lock_superuser_changes_def count_active_superusers_def

lemma failing_keeps_create [simp]: "failing_keeps (create_user P a t) t"
  by (auto simp: create_user_def failing_keeps_def with_text_def split: sum.splits)

lemma failing_keeps_read [simp]: "failing_keeps (one_row (r, t)) t"
  by (simp add: failing_keeps_def)

lemma failing_keeps_updates [simp]:
  "failing_keeps (update_user_profile P uid n d em av now t) t"
  "failing_keeps (set_user_status P uid st now t) t"
  "failing_keeps (set_user_superuser P uid b now t) t"
  "failing_keeps (set_user_multiple_sessions P uid b now t) t"
  "failing_keeps (update_user_password P uid h now t) t"
  "failing_keeps (update_user_password_hash P uid h now t) t"
  "failing_keeps (update_user_last_login P uid now t) t"
  by (simp_all add: user_update_defs)

lemma run_user_stmt_failing: "failing_keeps (run_user_stmt P st t) t"
  by (cases st) (simp_all add: user_update_defs user_read_defs)

definition user_table_read :: "user_stmt \<Rightarrow> bool" where
  "user_table_read st \<longleftrightarrow> (case st of GetUserByID _ \<Rightarrow> True | GetUserByUsername _ \<Rightarrow> True
     | ListUsers _ _ _ _ \<Rightarrow> True | CountUsers _ _ \<Rightarrow> True | LockSuperuserChanges \<Rightarrow> True
     | CountActiveSuperusers \<Rightarrow> True | _ \<Rightarrow> False)"

lemma read_keeps_table: "user_table_read st \<Longrightarrow> snd (run_user_stmt P st t) = t"
  by (cases st) (auto simp: user_table_read_def user_read_defs snd_with_text)

lemma run_user_stmt_ok: "users_ok P t \<Longrightarrow> users_ok P (snd (run_user_stmt P st t))"
proof (cases "user_table_read st")
  case False
  assume "users_ok P t"
  moreover have "keeps_id (\<lambda>r. bump_version (f r))" if "\<And>r. c_id (f r) = c_id r" for f
    using that by (auto simp: keeps_id_def bump_version_Inr)
  moreover have "keeps_id (\<lambda>r. Inr (f r))" if "\<And>r. c_id (f r) = c_id r" for f
    using that by (auto simp: keeps_id_def)
  ultimately show ?thesis using False
    by (cases st) (auto simp: user_table_read_def user_update_defs snd_with_text
        intro!: create_user_ok update_user_ok)
qed (simp add: read_keeps_table)

end
