(* ===== verification/UserContract.thy ===== *)
theory UserContract
  imports UserSql
begin

text \<open>
  The interfaces of \<open>internal/modules/user/repository.go\<close> and what their provider promises.  The
  promise is stated against the abstract table: an operation of a repository behaves as one
  function on the table (\<open>acts_as\<close>), or fails for an infrastructure reason, in which case the
  change was either made completely or not at all.
\<close>

record 'w repository =
  r_create :: "user \<Rightarrow> ('w, err + user) state"
  r_get_by_id :: "uuid \<Rightarrow> ('w, err + user) state"
  r_get_by_username :: "string \<Rightarrow> ('w, err + user) state"
  r_list :: "list_filter \<Rightarrow> i32 \<Rightarrow> i32 \<Rightarrow> ('w, err + user list \<times> int) state"
  r_update_profile :: "uuid \<Rightarrow> profile_input \<Rightarrow> time \<Rightarrow> ('w, err + user) state"
  r_set_status :: "uuid \<Rightarrow> status \<Rightarrow> time \<Rightarrow> ('w, err + user) state"
  r_set_superuser :: "uuid \<Rightarrow> bool \<Rightarrow> time \<Rightarrow> ('w, err + user) state"
  r_set_multiple_sessions :: "uuid \<Rightarrow> bool \<Rightarrow> time \<Rightarrow> ('w, err + user) state"
  r_update_password :: "uuid \<Rightarrow> string \<Rightarrow> time \<Rightarrow> ('w, err + user) state"
  r_update_password_hash :: "uuid \<Rightarrow> string \<Rightarrow> time \<Rightarrow> ('w, err + unit) state"
  r_update_last_login :: "uuid \<Rightarrow> time \<Rightarrow> ('w, err + unit) state"
  r_lock_superuser_changes :: "('w, err + unit) state"
  r_count_active_superusers :: "('w, err + int) state"

text \<open>\<open>UnitOfWork\<close>: the callback hands its \<open>User\<close> out through a captured variable; here it returns it.\<close>

record 'w unit_of_work =
  within_tx :: "('w repository \<Rightarrow> ('w, err + user) state) \<Rightarrow> ('w, err + user) state"

section \<open>Results of the adapter\<close>

text \<open>\<open>mapResult\<close>, \<open>toUser\<close> and the conversions of \<open>postgres/repository.go\<close>.\<close>

definition zero_time :: time where "zero_time = 0"

definition from_text :: "string option \<Rightarrow> string option" where
  "from_text v = (case v of None \<Rightarrow> None | Some s \<Rightarrow> Some s)"

definition to_text :: "string option \<Rightarrow> string option" where
  "to_text v = (case v of None \<Rightarrow> None | Some s \<Rightarrow> Some s)"

definition to_text_value :: "string \<Rightarrow> string option" where
  "to_text_value v = (if v = '''' then None else Some v)"

definition to_timestamp :: "time \<Rightarrow> time option" where
  "to_timestamp t = Some t"

definition from_timestamp :: "time option \<Rightarrow> time option" where
  "from_timestamp v = (case v of None \<Rightarrow> None | Some t \<Rightarrow> Some t)"

definition time_of :: "time option \<Rightarrow> time" where
  "time_of v = (case v of None \<Rightarrow> zero_time | Some t \<Rightarrow> t)"

definition to_user :: "db_user \<Rightarrow> user" where
  "to_user item = \<lparr>
     u_id = c_id item, u_username = c_username item, u_password_hash = c_password_hash item,
     u_display_name = c_display_name item, u_email = from_text (c_email item),
     u_avatar_url = from_text (c_avatar_url item), u_status = c_status item,
     u_is_superuser = c_is_superuser item,
     u_allow_multiple_sessions = c_allow_multiple_sessions item,
     u_session_version = c_session_version item,
     u_password_changed_at = time_of (c_password_changed_at item),
     u_last_login_at = from_timestamp (c_last_login_at item),
     u_created_at = time_of (c_created_at item), u_updated_at = time_of (c_updated_at item),
     u_archived_at = from_timestamp (c_archived_at item)\<rparr>"

definition map_result :: "string \<Rightarrow> err + db_user \<Rightarrow> err + user" where
  "map_result operation result =
     (case result of
        Inr r \<Rightarrow> Inr (to_user r)
      | Inl err \<Rightarrow>
          if err_is NoRows err then Inl (Sentinel UserNotFound)
          else (case as_pg_error err of
              Some (code, constraint) \<Rightarrow>
                if code = ''23505'' \<and> constraint = ''users_username_unique''
                then Inl (Sentinel UsernameConflict)
                else if code = ''23505'' \<and> constraint = ''users_email_unique''
                then Inl (Sentinel EmailConflict)
                else Inl (Wrapped (operation @ '' failed'') [err])
            | None \<Rightarrow> Inl (Wrapped (operation @ '' failed'') [err])))"

text \<open>The table functions the repository's operations stand for.\<close>

definition user_result :: "string \<Rightarrow> (err + db_user) \<times> users \<Rightarrow> (err + user) \<times> users" where
  "user_result op res = (map_result op (fst res), snd res)"

lemma failing_keeps_user_result [simp]: "failing_keeps res t \<Longrightarrow> failing_keeps (user_result op res) t"
  by (auto simp: failing_keeps_def user_result_def map_result_def split: sum.splits)

definition create_params :: "user \<Rightarrow> create_user_params" where
  "create_params item = \<lparr>
     cu_id = u_id item, cu_username = u_username item, cu_password_hash = u_password_hash item,
     cu_display_name = u_display_name item, cu_email = to_text (u_email item),
     cu_avatar_url = to_text (u_avatar_url item), cu_status = u_status item,
     cu_is_superuser = u_is_superuser item,
     cu_allow_multiple_sessions = u_allow_multiple_sessions item,
     cu_session_version = u_session_version item,
     cu_password_changed_at = to_timestamp (u_password_changed_at item),
     cu_created_at = to_timestamp (u_created_at item),
     cu_updated_at = to_timestamp (u_updated_at item)\<rparr>"

definition list_table :: "pg_ops \<Rightarrow> list_filter \<Rightarrow> i32 \<Rightarrow> i32 \<Rightarrow> users \<Rightarrow> (err + user list \<times> int) \<times> users" where
  "list_table P f limit off t =
     (case fst (list_users P (lf_username f) (lf_status f) off limit t) of
        Inl e \<Rightarrow> (Inl (Wrapped ''list users failed'' [e]), t)
      | Inr rows \<Rightarrow>
          (case fst (count_users P (lf_username f) (lf_status f) t) of
             Inl e \<Rightarrow> (Inl (Wrapped ''count users failed'' [e]), t)
           | Inr cnt \<Rightarrow> (Inr (map to_user rows, cnt), t)))"

locale user_repository =
  fixes P :: pg_ops and rep :: "'w repository" and tbl :: "'w \<Rightarrow> users" and rest :: "'w \<Rightarrow> 'o"
    and lawful :: bool
  assumes create: "lawful \<Longrightarrow> acts_as (r_create rep u) tbl rest
      (\<lambda>t. user_result ''create user'' (create_user P (create_params u) t))"
    and get_by_id: "lawful \<Longrightarrow> acts_as (r_get_by_id rep uid) tbl rest
      (\<lambda>t. user_result ''read user'' (get_user_by_id uid t))"
    and get_by_username: "lawful \<Longrightarrow> acts_as (r_get_by_username rep name) tbl rest
      (\<lambda>t. user_result ''read user'' (get_user_by_username P name t))"
    and list: "lawful \<Longrightarrow> acts_as (r_list rep f limit off) tbl rest (list_table P f limit off)"
    and update_profile: "lawful \<Longrightarrow> acts_as (r_update_profile rep uid i now) tbl rest
      (\<lambda>t. user_result ''update user profile'' (update_user_profile P uid (pi_username i)
         (pi_display_name i) (to_text_value (pi_email i)) (to_text_value (pi_avatar_url i))
         (to_timestamp now) t))"
    and set_status: "lawful \<Longrightarrow> acts_as (r_set_status rep uid st now) tbl rest
      (\<lambda>t. user_result ''update user status'' (set_user_status P uid st (to_timestamp now) t))"
    and set_superuser: "lawful \<Longrightarrow> acts_as (r_set_superuser rep uid b now) tbl rest
      (\<lambda>t. user_result ''update superuser state'' (set_user_superuser P uid b (to_timestamp now) t))"
    and set_multiple_sessions: "lawful \<Longrightarrow> acts_as (r_set_multiple_sessions rep uid b now) tbl rest
      (\<lambda>t. user_result ''update multiple sessions''
         (set_user_multiple_sessions P uid b (to_timestamp now) t))"
    and update_password: "lawful \<Longrightarrow> acts_as (r_update_password rep uid h now) tbl rest
      (\<lambda>t. user_result ''update user password'' (update_user_password P uid h (to_timestamp now) t))"
    and update_password_hash: "lawful \<Longrightarrow> acts_as (r_update_password_hash rep uid h now) tbl rest
      (\<lambda>t. wrap_error ''upgrade password hash failed''
         (update_user_password_hash P uid h (to_timestamp now) t))"
    and update_last_login: "lawful \<Longrightarrow> acts_as (r_update_last_login rep uid now) tbl rest
      (\<lambda>t. wrap_error ''update last login failed''
         (update_user_last_login P uid (to_timestamp now) t))"
    and lock_superusers: "lawful \<Longrightarrow> acts_as (r_lock_superuser_changes rep) tbl rest
      (\<lambda>t. wrap_error ''lock superuser changes failed'' (lock_superuser_changes t))"
    and count_superusers: "lawful \<Longrightarrow> acts_as (r_count_active_superusers rep) tbl rest
      (\<lambda>t. wrap_error ''count active superusers failed'' (count_active_superusers t))"

text \<open>
  A unit of work: whatever relation between the table before, the outcome and the table after
  the callback establishes on a lawful transaction repository, the whole transaction
  establishes on the committed table; when it fails, nothing was committed, except that a
  failing commit may still have taken effect.
\<close>

definition tx_callback ::
  "pg_ops \<Rightarrow> ('w repository \<Rightarrow> ('w, err + 'a) state) \<Rightarrow> (users \<Rightarrow> err + 'a \<Rightarrow> users \<Rightarrow> bool) \<Rightarrow>
    ('w \<Rightarrow> users) \<Rightarrow> bool" where
  "tx_callback P fn R com \<longleftrightarrow> (\<forall>rep view. user_repository P rep view com True \<longrightarrow>
     (\<forall>w. wp (fn rep) (\<lambda>r w'. R (view w) r (view w') \<and> com w' = com w) w))"

lemma tx_callbackD:
  "tx_callback P fn R com \<Longrightarrow> user_repository P rep view com True \<Longrightarrow>
     wp (fn rep) (\<lambda>r w'. R (view w) r (view w') \<and> com w' = com w) w"
  by (simp add: tx_callback_def)

locale user_unit_of_work =
  fixes P :: pg_ops and uow :: "'w unit_of_work" and com :: "'w \<Rightarrow> users" and lawful :: bool
  assumes atomic: "lawful \<Longrightarrow> tx_callback P fn R com \<Longrightarrow>
      wp (within_tx uow fn) (\<lambda>r w'. tx_outcome R (com w) r (com w')) w"

end
