(* ===== verification/Passwords.thy ===== *)
theory Passwords
  imports GoEncoding Shared
begin

text \<open>
  \<open>internal/modules/user/password.go\<close>: the password policy, the Argon2id parameters and their
  safety bounds, the PHC string format, and the password manager built from them.  The key
  derivation function (\<open>golang.org/x/crypto/argon2\<close>) is the argument \<open>idkey\<close> and the random
  source the argument \<open>rand\<close>; \<open>argon2_laws\<close> and \<open>rand_laws\<close> are their documented contracts
  (a key of the length asked for, a buffer filled completely).
\<close>

type_synonym u32 = "32 word"
type_synonym u8 = "8 word"

definition argon_version :: nat where "argon_version = 19"
definition max_password_bytes :: nat where "max_password_bytes = 512"
definition max_argon_memory :: nat where "max_argon_memory = 256 * 1024"
definition max_argon_time :: nat where "max_argon_time = 10"
definition max_argon_threads :: nat where "max_argon_threads = 16"

record argon2_params =
  memory_kib :: u32
  time_cost :: u32
  threads :: u8
  salt_len :: u32
  key_len :: u32

definition default_argon2_params :: argon2_params where
  "default_argon2_params =
     \<lparr>memory_kib = 64 * 1024, time_cost = 3, threads = 2, salt_len = 16, key_len = 32\<rparr>"

definition validate_argon2_params :: "argon2_params \<Rightarrow> err + unit" where
  "validate_argon2_params p =
     (if unat (memory_kib p) < 8 * 1024 \<or> max_argon_memory < unat (memory_kib p) \<or>
         unat (time_cost p) < 1 \<or> max_argon_time < unat (time_cost p) \<or>
         unat (threads p) < 1 \<or> max_argon_threads < unat (threads p) \<or>
         unat (salt_len p) < 8 \<or> 64 < unat (salt_len p) \<or>
         unat (key_len p) < 16 \<or> 64 < unat (key_len p)
      then Inl (Plain ''argon2id parameters out of the safe range'') else Inr ())"

section \<open>Password policy\<close>

definition weak_passwords :: "string list" where
  "weak_passwords = [''password1'', ''password123'', ''admin123'', ''qwerty123'',
     ''abc12345'', ''letmein123'', ''welcome123'', ''iloveyou1'']"

definition scan_classes :: "unicode \<Rightarrow> rune list \<Rightarrow> bool \<times> bool" where
  "scan_classes U rs =
     foldl (\<lambda>(l, d) r. (l \<or> uc_letter U r, d \<or> uc_digit U r)) (False, False) rs"

definition validate_password :: "unicode \<Rightarrow> string \<Rightarrow> err + unit" where
  "validate_password U password =
     (if \<not> valid_utf8 password \<or> max_password_bytes < length password
      then Inl (Sentinel InvalidPassword)
      else let rs = runes password in
        if length rs < 8 \<or> 128 < length rs then Inl (Sentinel InvalidPassword)
        else let (has_letter, has_digit) = scan_classes U rs in
          if \<not> has_letter \<or> \<not> has_digit \<or> to_lower U password \<in> set weak_passwords
          then Inl (Sentinel InvalidPassword) else Inr ())"

lemma scan_classes_eq: "scan_classes U rs = (list_ex (uc_letter U) rs, list_ex (uc_digit U) rs)"
proof -
  have "foldl (\<lambda>(l, d) r. (l \<or> uc_letter U r, d \<or> uc_digit U r)) (a, b) rs =
      (a \<or> list_ex (uc_letter U) rs, b \<or> list_ex (uc_digit U) rs)" for a b
    by (induction rs arbitrary: a b) auto
  then show ?thesis by (simp add: scan_classes_def)
qed

lemma validate_password_error: "validate_password U s = Inl e \<Longrightarrow> e = Sentinel InvalidPassword"
  by (auto simp: validate_password_def Let_def split: if_splits prod.splits)

section \<open>The PHC string format\<close>

definition encode_phc :: "argon2_params \<Rightarrow> string \<Rightarrow> string \<Rightarrow> string" where
  "encode_phc p salt hash =
     ''$argon2id$v='' @ show_nat argon_version @ ''$m='' @ show_nat (unat (memory_kib p)) @
     '',t='' @ show_nat (unat (time_cost p)) @ '',p='' @ show_nat (unat (threads p)) @
     ''$'' @ b64_encode salt @ ''$'' @ b64_encode hash"

definition parse_phc_value :: "string \<Rightarrow> string \<Rightarrow> err + nat" where
  "parse_phc_value value prefix =
     (case cut_prefix prefix value of
        None \<Rightarrow> Inl (Plain ''invalid argon2id parameter'')
      | Some raw \<Rightarrow>
          if raw = '''' then Inl (Plain ''invalid argon2id parameter'')
          else (case parse_uint 32 raw of
                  None \<Rightarrow> Inl (Plain ''parse argon2id parameter'')
                | Some n \<Rightarrow> Inr n))"

text \<open>The final part of \<open>decodePHC\<close>: the caps, the conversions to fixed width and the validation.\<close>

definition phc_params :: "nat \<Rightarrow> nat \<Rightarrow> nat \<Rightarrow> string \<Rightarrow> string \<Rightarrow> err + (argon2_params \<times> string \<times> string)" where
  "phc_params memory time thr salt hash =
     (if max_argon_memory < memory \<or> max_argon_time < time \<or> max_argon_threads < thr \<or>
         64 < length salt \<or> 64 < length hash
      then Inl (Plain ''argon2id parameters out of the safe range'')
      else let p = \<lparr>memory_kib = word_of_nat memory, time_cost = word_of_nat time,
                    threads = word_of_nat thr, salt_len = word_of_nat (length salt),
                    key_len = word_of_nat (length hash)\<rparr>
        in case validate_argon2_params p of Inl e \<Rightarrow> Inl e | Inr _ \<Rightarrow> Inr (p, salt, hash))"

definition decode_phc :: "string \<Rightarrow> err + (argon2_params \<times> string \<times> string)" where
  "decode_phc encoded =
     (case split_on CHR ''$'' encoded of
        [p0, p1, p2, p3, p4, p5] \<Rightarrow>
          if p0 \<noteq> '''' \<or> p1 \<noteq> ''argon2id'' \<or> p2 \<noteq> ''v=19'' \<or> 1024 < length encoded
          then Inl (Plain ''invalid argon2id digest'')
          else (case split_on CHR '','' p3 of
            [v0, v1, v2] \<Rightarrow>
              (case parse_phc_value v0 ''m='' of Inl e \<Rightarrow> Inl e | Inr memory \<Rightarrow>
              (case parse_phc_value v1 ''t='' of Inl e \<Rightarrow> Inl e | Inr time \<Rightarrow>
              (case parse_phc_value v2 ''p='' of
                 Inl e \<Rightarrow> Inl (Plain ''invalid argon2id parallelism'')
               | Inr thr \<Rightarrow>
                 if 255 < thr then Inl (Plain ''invalid argon2id parallelism'')
                 else (case b64_decode p4 of
                     None \<Rightarrow> Inl (Plain ''decode argon2id salt'')
                   | Some salt \<Rightarrow>
                     (case b64_decode p5 of
                        None \<Rightarrow> Inl (Plain ''decode argon2id digest'')
                      | Some hash \<Rightarrow> phc_params memory time thr salt hash)))))
          | _ \<Rightarrow> Inl (Plain ''invalid argon2id parameters''))
      | _ \<Rightarrow> Inl (Plain ''invalid argon2id digest''))"

lemma length_show_nat: "n < 10 ^ k \<Longrightarrow> 0 < k \<Longrightarrow> length (show_nat n) \<le> k"
proof (induction n arbitrary: k rule: show_nat.induct)
  case (1 n)
  show ?case
  proof (cases "n < 10")
    case False
    then obtain j where k: "k = Suc j" "0 < j"
      using "1.prems" by (cases k; cases "k - 1") auto
    then have "n div 10 < 10 ^ j" using "1.prems" by (simp add: div_less_iff_less_mult mult.commute)
    then have "length (show_nat (n div 10)) \<le> j" using "1.IH" False k by simp
    then show ?thesis using False k by (simp add: show_nat.simps [of n])
  qed (use "1.prems" in \<open>simp add: show_nat.simps [of n]\<close>)
qed

lemma dollar_comma_not_digit [simp]: "\<not> is_digit CHR ''$''" "\<not> is_digit CHR '',''"
  by (simp_all add: is_digit_def)

lemma show_nat_19: "show_nat argon_version = ''19''"
  by code_simp

lemma parse_phc_value_show:
  "n < 2 ^ 32 \<Longrightarrow> parse_phc_value (prefix @ show_nat n) prefix = Inr n"
  by (simp add: parse_phc_value_def parse_uint_show_nat)

lemma validate_argon2_bounds:
  "validate_argon2_params p = Inr () \<longleftrightarrow>
     unat (memory_kib p) \<in> {8 * 1024..max_argon_memory} \<and> unat (time_cost p) \<in> {1..max_argon_time} \<and>
     unat (threads p) \<in> {1..max_argon_threads} \<and> unat (salt_len p) \<in> {8..64} \<and>
     unat (key_len p) \<in> {16..64}"
  by (auto simp: validate_argon2_params_def)

lemma split_encode_phc:
  "split_on CHR ''$'' (encode_phc p salt hash) =
     ['''', ''argon2id'', ''v=19'',
      ''m='' @ show_nat (unat (memory_kib p)) @ '',t='' @ show_nat (unat (time_cost p)) @
      '',p='' @ show_nat (unat (threads p)), b64_encode salt, b64_encode hash]"
proof -
  have 1: "encode_phc p salt hash = [] @ CHR ''$'' # (''argon2id'' @ CHR ''$'' # (''v=19'' @ CHR ''$'' #
      ((''m='' @ show_nat (unat (memory_kib p)) @ '',t='' @ show_nat (unat (time_cost p)) @
        '',p='' @ show_nat (unat (threads p))) @ CHR ''$'' # (b64_encode salt @ CHR ''$'' # b64_encode hash))))"
    by (simp add: encode_phc_def show_nat_19)
  show ?thesis unfolding 1
    by (subst split_on_Cons, simp add: digit_not_in_show_nat b64_encode_no_dollar)+
       (simp add: split_on_none b64_encode_no_dollar)
qed

lemma length_encode_phc:
  assumes "validate_argon2_params p = Inr ()" "length salt \<le> 64" "length hash \<le> 64"
  shows "length (encode_phc p salt hash) \<le> 1024"
proof -
  have "length (show_nat (unat (memory_kib p))) \<le> 6" "length (show_nat (unat (time_cost p))) \<le> 2"
    "length (show_nat (unat (threads p))) \<le> 2"
    using assms(1)
    by (auto intro!: length_show_nat simp: validate_argon2_bounds max_argon_memory_def
        max_argon_time_def max_argon_threads_def)
  then show ?thesis
    using assms(2,3) length_b64_encode [of salt] length_b64_encode [of hash]
    by (simp add: encode_phc_def show_nat_19)
qed

lemma phc_params_sound:
  "phc_params m t h salt hash = Inr (p, s1, h1) \<Longrightarrow>
     s1 = salt \<and> h1 = hash \<and> validate_argon2_params p = Inr () \<and>
     unat (salt_len p) = length salt \<and> unat (key_len p) = length hash \<and>
     unat (memory_kib p) = m \<and> unat (time_cost p) = t \<and> unat (threads p) = h"
  by (auto simp: phc_params_def Let_def unat_of_nat take_bit_nat_eq_self max_argon_memory_def
      max_argon_time_def max_argon_threads_def split: if_splits sum.splits)

text \<open>What a successful decoding guarantees: validated parameters that name the decoded lengths.\<close>

lemma decode_phc_sound:
  "decode_phc s = Inr (p, salt, hash) \<Longrightarrow>
     validate_argon2_params p = Inr () \<and> unat (salt_len p) = length salt \<and>
     unat (key_len p) = length hash"
  by (auto simp: decode_phc_def split: list.splits if_splits sum.splits option.splits
      dest!: phc_params_sound)

lemma decode_encode_phc:
  assumes "validate_argon2_params p = Inr ()" "length salt = unat (salt_len p)"
    "length hash = unat (key_len p)"
  shows "decode_phc (encode_phc p salt hash) = Inr (p, salt, hash)"
proof -
  define params where "params = ''m='' @ show_nat (unat (memory_kib p)) @ '',t='' @
      show_nat (unat (time_cost p)) @ '',p='' @ show_nat (unat (threads p))"
  have len: "length salt \<le> 64" "length hash \<le> 64"
    using assms by (auto simp: validate_argon2_bounds)
  have small: "unat (memory_kib p) < 2 ^ 32" "unat (time_cost p) < 2 ^ 32" "unat (threads p) < 2 ^ 32"
    "unat (threads p) \<le> 255"
    using assms(1) by (auto simp: validate_argon2_bounds max_argon_memory_def
        max_argon_time_def max_argon_threads_def)
  have "params = (''m='' @ show_nat (unat (memory_kib p))) @ CHR '','' #
      ((''t='' @ show_nat (unat (time_cost p))) @ CHR '','' # (''p='' @ show_nat (unat (threads p))))"
    by (simp add: params_def)
  then have "split_on CHR '','' params = [''m='' @ show_nat (unat (memory_kib p)),
      ''t='' @ show_nat (unat (time_cost p)), ''p='' @ show_nat (unat (threads p))]"
    by (subst (asm) eq_commute, hypsubst)
       ((subst split_on_Cons, simp add: digit_not_in_show_nat)+,
        simp add: split_on_none digit_not_in_show_nat)
  moreover have "phc_params (unat (memory_kib p)) (unat (time_cost p)) (unat (threads p)) salt hash
      = Inr (p, salt, hash)"
  proof -
    have eta: "\<lparr>memory_kib = memory_kib p, time_cost = time_cost p, threads = threads p,
        salt_len = salt_len p, key_len = key_len p\<rparr> = p" by (cases p) simp
    have "\<not> max_argon_memory < unat (memory_kib p)" "\<not> max_argon_time < unat (time_cost p)"
      "\<not> max_argon_threads < unat (threads p)"
      using assms(1) by (auto simp: validate_argon2_bounds)
    then show ?thesis using assms len
      by (simp add: phc_params_def eta)
  qed
  moreover have "split_on CHR ''$'' (encode_phc p salt hash) =
      ['''', ''argon2id'', ''v=19'', params, b64_encode salt, b64_encode hash]"
    by (simp only: split_encode_phc params_def)
  moreover have "parse_phc_value (''m='' @ show_nat (unat (memory_kib p))) ''m='' = Inr (unat (memory_kib p))"
    "parse_phc_value (''t='' @ show_nat (unat (time_cost p))) ''t='' = Inr (unat (time_cost p))"
    "parse_phc_value (''p='' @ show_nat (unat (threads p))) ''p='' = Inr (unat (threads p))"
    using small by (simp_all only: parse_phc_value_show)
  ultimately show ?thesis
    using length_encode_phc [OF assms(1) len] small(4)
    by (simp add: decode_phc_def)
qed

section \<open>The password manager\<close>

text \<open>The interface \<open>PasswordManager\<close> of the user service; hashing draws on the world's randomness.\<close>

record 'w password_manager =
  pm_validate :: "string \<Rightarrow> err + unit"
  pm_hash :: "string \<Rightarrow> ('w, err + string) state"
  pm_verify :: "string \<Rightarrow> string \<Rightarrow> ('w, err + bool) state"
  pm_needs_rehash :: "string \<Rightarrow> bool"

type_synonym 'w rand_read = "nat \<Rightarrow> ('w, err + string) state"
type_synonym argon2_idkey = "string \<Rightarrow> string \<Rightarrow> u32 \<Rightarrow> u32 \<Rightarrow> u8 \<Rightarrow> u32 \<Rightarrow> string"

definition argon2_laws :: "argon2_idkey \<Rightarrow> bool" where
  "argon2_laws idkey \<longleftrightarrow> (\<forall>pw salt t m p n. length (idkey pw salt t m p n) = unat n)"

definition rand_laws :: "'w rand_read \<Rightarrow> bool" where
  "rand_laws rand \<longleftrightarrow> (\<forall>n w. wp (rand n) (\<lambda>r _. on_ok (\<lambda>bs. length bs = n) r) w)"

definition new_passwords :: "argon2_params \<Rightarrow> err + argon2_params" where
  "new_passwords p = (case validate_argon2_params p of Inl e \<Rightarrow> Inl e | Inr _ \<Rightarrow> Inr p)"

definition hash_password ::
  "unicode \<Rightarrow> 'w rand_read \<Rightarrow> argon2_idkey \<Rightarrow> argon2_params \<Rightarrow> string \<Rightarrow> ('w, err + string) state" where
  "hash_password U rand idkey p password =
     (case validate_password U password of
        Inl e \<Rightarrow> State_Monad.return (Inl e)
      | Inr _ \<Rightarrow> do {
          r \<leftarrow> rand (unat (salt_len p));
          case r of
            Inl e \<Rightarrow> State_Monad.return (Inl (Wrapped ''generate password salt'' [e]))
          | Inr salt \<Rightarrow>
              (let hash = idkey password salt (time_cost p) (memory_kib p) (threads p) (key_len p)
               in State_Monad.return (Inr (encode_phc p salt hash)))
        })"

definition verify_password :: "argon2_idkey \<Rightarrow> string \<Rightarrow> string \<Rightarrow> err + bool" where
  "verify_password idkey password encoded =
     (case decode_phc encoded of
        Inl e \<Rightarrow> Inl e
      | Inr (p, salt, expected) \<Rightarrow>
          (let actual = idkey password salt (time_cost p) (memory_kib p) (threads p) (key_len p)
           in Inr (actual = expected)))"

definition needs_rehash :: "argon2_params \<Rightarrow> string \<Rightarrow> bool" where
  "needs_rehash current encoded =
     (case decode_phc encoded of Inl _ \<Rightarrow> True | Inr (p, _, _) \<Rightarrow> p \<noteq> current)"

definition passwords ::
  "unicode \<Rightarrow> 'w rand_read \<Rightarrow> argon2_idkey \<Rightarrow> argon2_params \<Rightarrow> 'w password_manager" where
  "passwords U rand idkey p =
     \<lparr>pm_validate = validate_password U,
      pm_hash = hash_password U rand idkey p,
      pm_verify = (\<lambda>password encoded. State_Monad.return (verify_password idkey password encoded)),
      pm_needs_rehash = needs_rehash p\<rparr>"

text \<open>
  The contract the user service relies on.  A manager that is set up correctly (\<open>lawful\<close>) makes
  digests that verify the password they were made from, and that need no rehash.
\<close>

locale password_contract =
  fixes pm :: "'w password_manager" and lawful :: bool
  assumes hash_spec: "lawful \<Longrightarrow>
      wp (pm_hash pm pw) (\<lambda>r _. on_ok (\<lambda>h. \<not> pm_needs_rehash pm h \<and>
        (\<forall>w. run_state (pm_verify pm pw h) w = (Inr True, w))) r) w"
    and hash_valid: "wp (pm_hash pm pw) (\<lambda>r _. on_ok (\<lambda>_. pm_validate pm pw = Inr ()) r) w"
    and verify_pure: "snd (run_state (pm_verify pm pw h) w) = w"
begin

lemma hash_ok:
  "lawful \<Longrightarrow> run_state (pm_hash pm pw) w = (Inr h, w') \<Longrightarrow>
     pm_validate pm pw = Inr () \<and> \<not> pm_needs_rehash pm h \<and>
     run_state (pm_verify pm pw h) v = (Inr True, v)"
  using wpD [OF hash_spec] wpD [OF hash_valid] by fastforce

end

lemma hash_password_spec:
  assumes "argon2_laws idkey" "rand_laws rand" "validate_argon2_params p = Inr ()"
  shows "wp (hash_password U rand idkey p pw)
    (\<lambda>r _. on_ok (\<lambda>h. \<exists>salt. length salt = unat (salt_len p) \<and>
       decode_phc h = Inr (p, salt, idkey pw salt (time_cost p) (memory_kib p) (threads p) (key_len p))) r) w"
proof (cases "validate_password U pw")
  case Inr
  have "wp (rand (unat (salt_len p))) (\<lambda>r _. on_ok (\<lambda>bs. length bs = unat (salt_len p)) r) w"
    using assms(2) by (simp add: rand_laws_def)
  then have "wp (rand (unat (salt_len p))) (\<lambda>r w'. case r of Inl e \<Rightarrow> True | Inr salt \<Rightarrow>
      length salt = unat (salt_len p)) w"
    by (rule wp_mono) (simp add: on_ok_def)
  then show ?thesis using Inr assms(1,3)
    unfolding hash_password_def wp_rules
    by (auto simp: wp_rules argon2_laws_def decode_encode_phc elim!: wp_mono split: sum.splits)
qed (simp add: hash_password_def wp_rules)

interpretation pw: password_contract "passwords U rand idkey p"
    "argon2_laws idkey \<and> rand_laws rand \<and> validate_argon2_params p = Inr ()"
  for U rand idkey p
proof unfold_locales
  fix pw and w
  assume "argon2_laws idkey \<and> rand_laws rand \<and> validate_argon2_params p = Inr ()"
  then show "wp (pm_hash (passwords U rand idkey p) pw) (\<lambda>r _. on_ok
      (\<lambda>h. \<not> pm_needs_rehash (passwords U rand idkey p) h \<and>
        (\<forall>w. run_state (pm_verify (passwords U rand idkey p) pw h) w = (Inr True, w))) r) w"
    using hash_password_spec [of idkey rand p U pw w]
    by (auto simp: passwords_def verify_password_def needs_rehash_def on_ok_def
        elim!: wp_mono split: sum.splits)
next
  fix pw and w
  show "wp (pm_hash (passwords U rand idkey p) pw)
      (\<lambda>r _. on_ok (\<lambda>_. pm_validate (passwords U rand idkey p) pw = Inr ()) r) w"
    by (cases "validate_password U pw")
      (auto simp: passwords_def hash_password_def wp_rules intro!: wp_mono [OF wp_True]
        split: sum.splits)
qed (simp add: passwords_def)

end
