(* ===== verification/UserService.thy ===== *)
theory UserService
  imports UserContract Passwords
begin

text \<open>
  \<open>internal/modules/user/service.go\<close>: the user service over its interfaces.  The clock is read
  from the world, the identifier generator is an operation on it; the Unicode tables and the
  parsers of the Go library are the arguments \<open>U\<close> and \<open>Ps\<close>.
\<close>

section \<open>The service\<close>

record 'w user_service =
  us_repository :: "'w repository"
  us_unit_of_work :: "'w unit_of_work"
  us_passwords :: "'w password_manager"
  us_dummy_hash :: string
  us_clock :: "'w \<Rightarrow> time"
  us_ids :: "('w, err + uuid) state"

definition new_user_service ::
  "'w repository option \<Rightarrow> 'w unit_of_work option \<Rightarrow> 'w password_manager option \<Rightarrow>
    ('w \<Rightarrow> time) option \<Rightarrow> ('w, err + uuid) state option \<Rightarrow> ('w, err + 'w user_service) state" where
  "new_user_service repository uow pwm clock ids =
     (case (repository, uow, pwm, clock, ids) of
        (Some rep, Some tx, Some pm, Some c, Some g) \<Rightarrow> do {
          r \<leftarrow> pm_hash pm ''TimingDefensePassword9'';
          case r of
            Inl e \<Rightarrow> State_Monad.return (Inl (Wrapped ''build timing defense digest'' [e]))
          | Inr dummy \<Rightarrow> State_Monad.return (Inr \<lparr>us_repository = rep, us_unit_of_work = tx,
              us_passwords = pm, us_dummy_hash = dummy, us_clock = c, us_ids = g\<rparr>) }
      | _ \<Rightarrow> State_Monad.return (Inl (Plain ''user service dependencies must not be nil'')))"

definition service_create ::
  "unicode \<Rightarrow> parsers \<Rightarrow> 'w user_service \<Rightarrow> create_input \<Rightarrow> ('w, err + user) state" where
  "service_create U Ps s input0 =
     (case normalize_create_input U Ps input0 of
        Inl e \<Rightarrow> State_Monad.return (Inl e)
      | Inr input \<Rightarrow>
          (case pm_validate (us_passwords s) (ci_password input) of
             Inl _ \<Rightarrow> State_Monad.return (Inl (Sentinel InvalidPassword))
           | Inr _ \<Rightarrow> do {
               h \<leftarrow> pm_hash (us_passwords s) (ci_password input);
               case h of
                 Inl e \<Rightarrow> State_Monad.return (Inl (Wrapped ''hash password'' [e]))
               | Inr hash \<Rightarrow> do {
                   i \<leftarrow> us_ids s;
                   case i of
                     Inl e \<Rightarrow> State_Monad.return (Inl (Wrapped ''generate user id'' [e]))
                   | Inr identifier \<Rightarrow> do {
                       now \<leftarrow> clock_now (us_clock s);
                       r_create (us_repository s) \<lparr>
                         u_id = identifier, u_username = ci_username input, u_password_hash = hash,
                         u_display_name = ci_display_name input,
                         u_email = optional_string (ci_email input),
                         u_avatar_url = optional_string (ci_avatar_url input),
                         u_status = status_active, u_is_superuser = ci_is_superuser input,
                         u_allow_multiple_sessions = ci_allow_multiple_sessions input,
                         u_session_version = 1, u_password_changed_at = now,
                         u_last_login_at = None, u_created_at = now, u_updated_at = now,
                         u_archived_at = None\<rparr> } } }))"

definition service_create_admin ::
  "unicode \<Rightarrow> parsers \<Rightarrow> 'w user_service \<Rightarrow> create_input \<Rightarrow> ('w, err + user) state" where
  "service_create_admin U Ps s input = service_create U Ps s (input\<lparr>ci_is_superuser := True\<rparr>)"

definition service_get_by_id :: "'w user_service \<Rightarrow> uuid \<Rightarrow> ('w, err + user) state" where
  "service_get_by_id s uid = r_get_by_id (us_repository s) uid"

definition service_get_by_username ::
  "unicode \<Rightarrow> 'w user_service \<Rightarrow> string \<Rightarrow> ('w, err + user) state" where
  "service_get_by_username U s name = r_get_by_username (us_repository s) (to_lower U (trim_space U name))"

definition verify_credentials ::
  "unicode \<Rightarrow> 'w user_service \<Rightarrow> string \<Rightarrow> string \<Rightarrow> ('w, err + user) state" where
  "verify_credentials U s name password = do {
     g \<leftarrow> service_get_by_username U s name;
     case g of
       Inl e \<Rightarrow>
         if err_is UserNotFound e then do {
           _ \<leftarrow> pm_verify (us_passwords s) password (us_dummy_hash s);
           State_Monad.return (Inl e) }
         else State_Monad.return (Inl e)
     | Inr current \<Rightarrow> do {
         m \<leftarrow> pm_verify (us_passwords s) password (u_password_hash current);
         case m of
           Inl e \<Rightarrow> State_Monad.return (Inl (Wrapped ''verify user password'' [e]))
         | Inr matched \<Rightarrow>
             if \<not> matched then State_Monad.return (Inl (Sentinel PasswordMismatch))
             else if pm_needs_rehash (us_passwords s) (u_password_hash current) then do {
               h \<leftarrow> pm_hash (us_passwords s) password;
               case h of
                 Inl e \<Rightarrow> State_Monad.return (Inl (Wrapped ''upgrade user password hash'' [e]))
               | Inr hash \<Rightarrow> do {
                   now \<leftarrow> clock_now (us_clock s);
                   p \<leftarrow> r_update_password_hash (us_repository s) (u_id current) hash now;
                   case p of
                     Inl e \<Rightarrow> State_Monad.return (Inl (Wrapped ''upgrade user password hash'' [e]))
                   | Inr _ \<Rightarrow> State_Monad.return
                       (Inr (current\<lparr>u_password_hash := hash, u_updated_at := now\<rparr>)) } }
             else State_Monad.return (Inr current) } }"

definition record_login :: "'w user_service \<Rightarrow> uuid \<Rightarrow> ('w, err + unit) state" where
  "record_login s uid = do {
     now \<leftarrow> clock_now (us_clock s);
     r_update_last_login (us_repository s) uid now }"

definition service_list :: "unicode \<Rightarrow> 'w user_service \<Rightarrow> list_filter \<Rightarrow> ('w, err + user_page) state" where
  "service_list U s f0 =
     (let ps = normalize_params \<lparr>p_page = lf_page f0, p_size = lf_size f0\<rparr>;
          f = f0\<lparr>lf_username := trim_space U (lf_username f0)\<rparr>
      in if lf_status f \<noteq> '''' \<and> \<not> status_valid (lf_status f)
         then State_Monad.return (Inl (Sentinel UserInvalidInput))
         else do {
           r \<leftarrow> r_list (us_repository s) f (p_size ps) (offset ps);
           case r of
             Inl e \<Rightarrow> State_Monad.return (Inl e)
           | Inr (items, cnt) \<Rightarrow> State_Monad.return
               (Inr \<lparr>pg_items = items, pg_total = cnt, pg_page = p_page ps, pg_size = p_size ps\<rparr>) })"

definition service_update_profile ::
  "unicode \<Rightarrow> parsers \<Rightarrow> 'w user_service \<Rightarrow> uuid \<Rightarrow> profile_input \<Rightarrow> ('w, err + user) state" where
  "service_update_profile U Ps s uid input =
     (case normalize_profile U Ps input of
        Inl e \<Rightarrow> State_Monad.return (Inl e)
      | Inr normalized \<Rightarrow> do {
          now \<leftarrow> clock_now (us_clock s);
          r_update_profile (us_repository s) uid normalized now })"

text \<open>The transaction of \<open>protectLastSuperuser\<close>, then the function itself.\<close>

definition protect_body ::
  "uuid \<Rightarrow> ('w repository \<Rightarrow> user \<Rightarrow> ('w, err + user) state) \<Rightarrow> bool \<Rightarrow>
    'w repository \<Rightarrow> ('w, err + user) state" where
  "protect_body uid change may_remove repository = do {
     l \<leftarrow> r_lock_superuser_changes repository;
     case l of
       Inl e \<Rightarrow> State_Monad.return (Inl e)
     | Inr _ \<Rightarrow> do {
         g \<leftarrow> r_get_by_id repository uid;
         case g of
           Inl e \<Rightarrow> State_Monad.return (Inl e)
         | Inr current \<Rightarrow>
             if may_remove \<and> u_is_superuser current \<and> u_status current = status_active then do {
               c \<leftarrow> r_count_active_superusers repository;
               case c of
                 Inl e \<Rightarrow> State_Monad.return (Inl e)
               | Inr cnt \<Rightarrow>
                   if cnt \<le> 1 then State_Monad.return (Inl (Sentinel LastSuperuser))
                   else change repository current }
             else change repository current } }"

definition protect_last_superuser ::
  "'w user_service \<Rightarrow> uuid \<Rightarrow> ('w repository \<Rightarrow> user \<Rightarrow> ('w, err + user) state) \<Rightarrow> bool \<Rightarrow>
    ('w, err + user) state" where
  "protect_last_superuser s uid change may_remove =
     within_tx (us_unit_of_work s) (protect_body uid change may_remove)"

definition service_set_status :: "'w user_service \<Rightarrow> uuid \<Rightarrow> status \<Rightarrow> ('w, err + user) state" where
  "service_set_status s uid st =
     (if \<not> status_valid st then State_Monad.return (Inl (Sentinel UserInvalidInput))
      else protect_last_superuser s uid
        (\<lambda>repository current.
           if u_status current = st then State_Monad.return (Inr current)
           else do {
             now \<leftarrow> clock_now (us_clock s);
             r_set_status repository uid st now })
        (st \<noteq> status_active))"

definition service_set_superuser :: "'w user_service \<Rightarrow> uuid \<Rightarrow> bool \<Rightarrow> ('w, err + user) state" where
  "service_set_superuser s uid enabled =
     protect_last_superuser s uid
       (\<lambda>repository current.
          if u_is_superuser current = enabled then State_Monad.return (Inr current)
          else do {
            now \<leftarrow> clock_now (us_clock s);
            r_set_superuser repository uid enabled now })
       (\<not> enabled)"

definition service_set_multiple_sessions ::
  "'w user_service \<Rightarrow> uuid \<Rightarrow> bool \<Rightarrow> ('w, err + user) state" where
  "service_set_multiple_sessions s uid enabled = do {
     now \<leftarrow> clock_now (us_clock s);
     r_set_multiple_sessions (us_repository s) uid enabled now }"

definition reset_password :: "'w user_service \<Rightarrow> uuid \<Rightarrow> string \<Rightarrow> ('w, err + user) state" where
  "reset_password s uid password =
     (case pm_validate (us_passwords s) password of
        Inl _ \<Rightarrow> State_Monad.return (Inl (Sentinel InvalidPassword))
      | Inr _ \<Rightarrow> do {
          h \<leftarrow> pm_hash (us_passwords s) password;
          case h of
            Inl e \<Rightarrow> State_Monad.return (Inl (Wrapped ''hash password'' [e]))
          | Inr hash \<Rightarrow> do {
              now \<leftarrow> clock_now (us_clock s);
              r_update_password (us_repository s) uid hash now } })"

definition change_password ::
  "'w user_service \<Rightarrow> uuid \<Rightarrow> string \<Rightarrow> string \<Rightarrow> ('w, err + user) state" where
  "change_password s uid old_password new_password = do {
     g \<leftarrow> r_get_by_id (us_repository s) uid;
     case g of
       Inl e \<Rightarrow> State_Monad.return (Inl e)
     | Inr current \<Rightarrow> do {
         m \<leftarrow> pm_verify (us_passwords s) old_password (u_password_hash current);
         case m of
           Inl e \<Rightarrow> State_Monad.return (Inl (Wrapped ''verify old password'' [e]))
         | Inr matched \<Rightarrow>
             if \<not> matched then State_Monad.return (Inl (Sentinel PasswordMismatch))
             else reset_password s uid new_password } }"

definition service_archive :: "'w user_service \<Rightarrow> uuid \<Rightarrow> ('w, err + user) state" where
  "service_archive s uid = service_set_status s uid status_archived"

section \<open>Counting active superusers\<close>

definition superusers :: "users \<Rightarrow> nat" where
  "superusers t = length (filter active_superuser t)"

definition find_user :: "uuid \<Rightarrow> users \<Rightarrow> db_user option" where
  "find_user uid t = find (\<lambda>r. c_id r = uid) t"

lemma users_ok_distinct: "users_ok P t \<Longrightarrow> distinct (map c_id t)"
proof -
  have "sorted_wrt (compatible P) t \<Longrightarrow> distinct (map c_id t)"
    by (induction t) (auto simp: compatible_def)
  then show "users_ok P t \<Longrightarrow> ?thesis" by (simp add: users_ok_def)
qed

lemma superusers_Cons: "superusers (r # t) = of_bool (active_superuser r) + superusers t"
  by (simp add: superusers_def)

lemma superusers_replace:
  assumes "distinct (map c_id t)" "find_user uid t = Some r0"
  shows "superusers (map (\<lambda>x. if c_id x = uid then r else x) t) + of_bool (active_superuser r0) =
    superusers t + of_bool (active_superuser r)"
proof -
  have other: "map (\<lambda>x. if c_id x = uid then r else x) t = t" if "uid \<notin> c_id ` set t" for t
    using that by (intro map_idI) auto
  show ?thesis using assms
    by (induction t) (auto simp: superusers_Cons find_user_def other split: if_splits)
qed

text \<open>What an UPDATE of one row does to the number of active superusers.\<close>

lemma update_user_superusers:
  assumes "users_ok P t" "update_user P uid f t = (Inr (Some r), t')"
    "\<And>a b. f a = Inr b \<Longrightarrow> c_id b = c_id a"
  obtains r0 r1 where "find_user uid t = Some r0" "f r0 = Inr r1" "assign_columns r1 = Inr r"
    "users_ok P t'" "find_user uid t' = Some r"
    "superusers t' + of_bool (active_superuser r0) = superusers t + of_bool (active_superuser r)"
proof (cases rule: update_user_cases [where P = P and uid = uid and f = f and t = t])
  case (updated r0 r1 r')
  have r: "r' = r" "t' = map (\<lambda>x. if c_id x = uid then r else x) t"
    using assms(2) updated(4) by auto
  have store: "assign_columns r1 = Inr r" using store_user_InrD [OF updated(3)] r by simp
  have "c_id r = uid"
    using updated(1,2) assms(3) assign_columns_keeps [OF store] by (auto dest: find_id)
  then have "find (\<lambda>x. c_id x = uid) t' = Some r"
    using updated(1) unfolding r(2) by (induction t) (auto split: if_splits)
  moreover have "users_ok P t'"
    using update_user_ok [OF assms(1), of f uid] assms(2,3) by (auto simp: keeps_id_def)
  ultimately show ?thesis
    using that updated(1,2) store superusers_replace [of t uid r0 r] users_ok_distinct [OF assms(1)]
    by (simp add: find_user_def r(2))
qed (use assms in simp_all)

section \<open>What protectLastSuperuser guarantees\<close>

text \<open>
  The relation between the table, the outcome and the table after the callback: \<open>same\<close> says when
  there is nothing to change and \<open>chg\<close> is the statement otherwise run.
\<close>

definition protect_rel ::
  "uuid \<Rightarrow> bool \<Rightarrow> (user \<Rightarrow> bool) \<Rightarrow> (time \<Rightarrow> users \<Rightarrow> (err + user) \<times> users) \<Rightarrow>
    users \<Rightarrow> err + user \<Rightarrow> users \<Rightarrow> bool" where
  "protect_rel uid may_remove same chg t r t' \<longleftrightarrow>
     (case r of
        Inr u \<Rightarrow> (case find_user uid t of
            None \<Rightarrow> False
          | Some row \<Rightarrow> (may_remove \<and> active_superuser row \<longrightarrow> 1 < superusers t) \<and>
              (if same (to_user row) then u = to_user row \<and> t' = t else \<exists>now. chg now t = (Inr u, t')))
      | Inl e \<Rightarrow> infra_err e \<or> (case find_user uid t of
            None \<Rightarrow> e = Sentinel UserNotFound
          | Some row \<Rightarrow>
              if may_remove \<and> active_superuser row \<and> superusers t \<le> 1
              then e = Sentinel LastSuperuser
              else \<not> same (to_user row) \<and> (\<exists>now. fst (chg now t) = Inl e)))"

lemma protect_rel_infra: "infra_err e \<Longrightarrow> protect_rel uid b same chg t (Inl e) t'"
  by (simp add: protect_rel_def)

lemma protect_rel_change:
  assumes "find_user uid t = Some row" "\<not> (may_remove \<and> active_superuser row \<and> superusers t \<le> 1)"
    "\<not> same (to_user row)" "t' = snd (chg now t)"
  shows "protect_rel uid may_remove same chg t (fst (chg now t)) t'"
proof (cases "fst (chg now t)")
  case (Inl e)
  then have "\<exists>now. fst (chg now t) = Inl e" by blast
  then show ?thesis using assms(1-3) unfolding Inl protect_rel_def by auto
next
  case (Inr u)
  then have "chg now t = (Inr u, t')" using assms(4) by (simp add: prod_eq_iff)
  then have "\<exists>now. chg now t = (Inr u, t')" by blast
  then show ?thesis using assms(1-3) unfolding Inr protect_rel_def by auto
qed

lemma protect_rel_same:
  "find_user uid t = Some row \<Longrightarrow> \<not> (may_remove \<and> active_superuser row \<and> superusers t \<le> 1) \<Longrightarrow>
     same (to_user row) \<Longrightarrow> protect_rel uid may_remove same chg t (Inr (to_user row)) t"
  by (auto simp: protect_rel_def)

lemma protect_rel_missing:
  "find_user uid t = None \<Longrightarrow> protect_rel uid may_remove same chg t (Inl (Sentinel UserNotFound)) t'"
  by (simp add: protect_rel_def)

lemma protect_rel_last:
  "find_user uid t = Some row \<Longrightarrow> may_remove \<Longrightarrow> active_superuser row \<Longrightarrow> superusers t \<le> 1 \<Longrightarrow>
     protect_rel uid may_remove same chg t (Inl (Sentinel LastSuperuser)) t'"
  by (simp add: protect_rel_def)

lemma get_user_result:
  "user_result op (get_user_by_id uid t) =
     ((case find_user uid t of None \<Rightarrow> Inl (Sentinel UserNotFound) | Some r \<Rightarrow> Inr (to_user r)), t)"
  by (auto simp: user_result_def get_user_by_id_def one_row_def map_result_def find_user_def
      split: option.splits)

lemma to_user_simps [simp]:
  "u_is_superuser (to_user r) = c_is_superuser r" "u_status (to_user r) = c_status r"
  "u_id (to_user r) = c_id r" "u_session_version (to_user r) = c_session_version r"
  "u_password_hash (to_user r) = c_password_hash r" "u_username (to_user r) = c_username r"
  "u_allow_multiple_sessions (to_user r) = c_allow_multiple_sessions r"
  by (simp_all add: to_user_def)

lemma protect_body_spec:
  assumes "user_repository P rep view com True"
    "\<And>cur v Q. wp (change rep cur) Q v = (if same cur then Q (Inr cur) v else wp (upd (clk v)) Q v)"
    "\<And>now. acts_as (upd now) view com (chg now)"
  shows "wp (protect_body uid change may_remove rep)
    (\<lambda>r w'. protect_rel uid may_remove same chg (view w) r (view w') \<and> com w' = com w) w"
proof -
  note lock = user_repository.lock_superusers [OF assms(1) TrueI]
    and get = user_repository.get_by_id [OF assms(1) TrueI, of uid]
    and count = user_repository.count_superusers [OF assms(1) TrueI]
  let ?post = "\<lambda>r w'. protect_rel uid may_remove same chg (view w) r (view w') \<and> com w' = com w"
  have upd: "wp (change rep (to_user row)) ?post v"
    if "view v = view w" "com v = com w" "find_user uid (view w) = Some row"
      "\<not> (may_remove \<and> active_superuser row \<and> superusers (view w) \<le> 1)" for v row
  proof (cases "same (to_user row)")
    case False
    have "wp (upd (clk v)) ?post v"
      by (rule wp_acts [OF assms(3)])
         (use that False in \<open>auto intro: protect_rel_infra protect_rel_change [of uid "view w" row]\<close>)
    then show ?thesis using False by (simp add: assms(2))
  qed (use that in \<open>auto simp: assms(2) intro: protect_rel_same\<close>)
  have counted: "wp (do { c \<leftarrow> r_count_active_superusers rep; case c of
        Inl e \<Rightarrow> State_Monad.return (Inl e)
      | Inr cnt \<Rightarrow> if cnt \<le> 1 then State_Monad.return (Inl (Sentinel LastSuperuser))
          else change rep (to_user row) }) ?post v"
    if "view v = view w" "com v = com w" "find_user uid (view w) = Some row"
      "may_remove" "active_superuser row" for v row
    unfolding wp_rules
  proof (rule wp_acts [OF count], goal_cases)
    case (1 v')
    then show ?case using that upd [of v' row]
      by (auto simp: wrap_error_def count_active_superusers_def wp_rules
          superusers_def [symmetric] intro: protect_rel_last)
  qed (use that in \<open>auto simp: wp_rules protect_rel_infra wrap_error_def count_active_superusers_def\<close>)
  have got: "wp (do { g \<leftarrow> r_get_by_id rep uid; case g of
        Inl e \<Rightarrow> State_Monad.return (Inl e)
      | Inr current \<Rightarrow>
          if may_remove \<and> u_is_superuser current \<and> u_status current = status_active then do {
            c \<leftarrow> r_count_active_superusers rep;
            case c of
              Inl e \<Rightarrow> State_Monad.return (Inl e)
            | Inr cnt \<Rightarrow>
                if cnt \<le> 1 then State_Monad.return (Inl (Sentinel LastSuperuser))
                else change rep current }
          else change rep current }) ?post v"
    if "view v = view w" "com v = com w" for v
    unfolding wp_bind
  proof (rule wp_acts [OF get], goal_cases)
    case (1 v')
    show ?case
    proof (cases "find_user uid (view w)")
      case (Some row)
      with 1 that show ?thesis
        using counted [of v' row] upd [of v' row]
        by (auto simp: get_user_result status_active_def active_superuser_def)
    qed (use 1 that in \<open>simp add: get_user_result wp_rules protect_rel_missing\<close>)
  qed (use that in \<open>auto simp: wp_rules protect_rel_infra get_user_result\<close>)
  show ?thesis
    unfolding protect_body_def
    by (subst wp_bind, rule wp_acts [OF lock])
       (auto simp: wrap_error_def lock_superuser_changes_def wp_return protect_rel_infra intro: got)
qed

section \<open>Effects of the statements\<close>

lemma assign_columns_self: "assign_columns r = Inr r \<longleftrightarrow>
    assign_varchar 64 (c_username r) = Inr (c_username r) \<and>
    assign_varchar 64 (c_display_name r) = Inr (c_display_name r) \<and>
    assign_opt_varchar 254 (c_email r) = Inr (c_email r) \<and>
    assign_varchar 16 (c_status r) = Inr (c_status r)"
proof -
  have "r = r\<lparr>c_username := a, c_display_name := b, c_email := c, c_status := d\<rparr> \<longleftrightarrow>
      a = c_username r \<and> b = c_display_name r \<and> c = c_email r \<and> d = c_status r" for a b c d
    by (cases r) auto
  then show ?thesis unfolding assign_columns_Inr by auto
qed

lemma assign_varchar_status: "status_valid st \<Longrightarrow> assign_varchar 16 st = Inr st"
  by (auto simp: status_valid_cases assign_varchar_def runes_ascii)

text \<open>Updates that bump the session version: the row found, its new contents, the new table.\<close>

definition bumped :: "db_user \<Rightarrow> db_user" where
  "bumped r = r\<lparr>c_session_version := c_session_version r + 1\<rparr>"

lemma bump_update_effect:
  assumes "users_ok P t" "one_row (update_user P uid (\<lambda>r. bump_version (g r)) t) = (Inr r, t')"
    "\<And>x. c_id (g x) = c_id x" "\<And>x. row_ok x \<Longrightarrow> assign_columns (g x) = Inr (g x)"
  obtains r0 where "find_user uid t = Some r0" "r = bumped (g r0)" "find_user uid t' = Some r"
    "users_ok P t'"
    "superusers t' + of_bool (active_superuser r0) = superusers t + of_bool (active_superuser r)"
proof -
  have "update_user P uid (\<lambda>r. bump_version (g r)) t = (Inr (Some r), t')"
    using assms(2) by (auto simp: one_row_def prod_eq_iff split: sum.splits option.splits)
  then obtain r0 r1 where *: "find_user uid t = Some r0" "bump_version (g r0) = Inr r1"
      "assign_columns r1 = Inr r" "users_ok P t'" "find_user uid t' = Some r"
      "superusers t' + of_bool (active_superuser r0) = superusers t + of_bool (active_superuser r)"
    by (rule update_user_superusers [OF assms(1)]) (auto simp: bump_version_Inr assms(3))
  have "r0 \<in> set t" using *(1) by (auto simp: find_user_def dest: find_id)
  then have "assign_columns (g r0) = Inr (g r0)"
    using assms(1,4) by (auto simp: users_ok_def list_all_iff)
  then have "assign_columns (bumped (g r0)) = Inr (bumped (g r0))"
    by (simp add: assign_columns_self bumped_def)
  moreover have "r1 = bumped (g r0)" using *(2) by (simp add: bump_version_Inr bumped_def)
  ultimately have "r = bumped (g r0)" using *(3) by simp
  then show ?thesis using that * by blast
qed

lemma user_result_InrD:
  "user_result op res = (Inr u, t') \<Longrightarrow> \<exists>r. res = (Inr r, t') \<and> u = to_user r"
  by (cases res) (auto simp: user_result_def map_result_def split: sum.splits if_splits option.splits)

lemma with_text_InrD: "with_text ss res t = (Inr x, t') \<Longrightarrow> res = (Inr x, t')"
  by (auto simp: with_text_def split: sum.splits)

lemma row_ok_columns: "row_ok r \<Longrightarrow> assign_columns r = Inr r"
  by (simp add: row_ok_def)

definition with_status :: "status \<Rightarrow> time \<Rightarrow> db_user \<Rightarrow> db_user" where
  "with_status st now r = r\<lparr>c_status := st,
     c_archived_at := (if st = ''archived'' then Some now else None), c_updated_at := Some now\<rparr>"

definition with_superuser :: "bool \<Rightarrow> time \<Rightarrow> db_user \<Rightarrow> db_user" where
  "with_superuser b now r = r\<lparr>c_is_superuser := b, c_updated_at := Some now\<rparr>"

lemma set_status_effect:
  assumes "users_ok P t" "status_valid st"
    "user_result op (set_user_status P uid st (to_timestamp now) t) = (Inr u, t')"
  obtains r0 where "find_user uid t = Some r0" "u = to_user (bumped (with_status st now r0))"
    "find_user uid t' = Some (bumped (with_status st now r0))" "users_ok P t'"
    "superusers t' + of_bool (active_superuser r0) =
       superusers t + of_bool (c_is_superuser r0 \<and> st = ''active'')"
proof -
  obtain r where r: "set_user_status P uid st (to_timestamp now) t = (Inr r, t')" "u = to_user r"
    using user_result_InrD [OF assms(3)] by blast
  have "one_row (update_user P uid (\<lambda>r. bump_version (with_status st now r)) t) = (Inr r, t')"
    using with_text_InrD [OF r(1) [unfolded set_user_status_def]]
    by (simp only: with_status_def to_timestamp_def)
  then obtain r0 where *: "find_user uid t = Some r0" "r = bumped (with_status st now r0)"
      "find_user uid t' = Some r" "users_ok P t'"
      "superusers t' + of_bool (active_superuser r0) = superusers t + of_bool (active_superuser r)"
    by (rule bump_update_effect [OF assms(1)])
       (auto simp: with_status_def assign_columns_self assign_varchar_status [OF assms(2)]
        dest: row_ok_columns)
  moreover have "active_superuser r \<longleftrightarrow> c_is_superuser r0 \<and> st = ''active''"
    by (simp add: *(2) active_superuser_def bumped_def with_status_def)
  ultimately show ?thesis using that r(2) by simp
qed

lemma set_superuser_effect:
  assumes "users_ok P t"
    "user_result op (set_user_superuser P uid b (to_timestamp now) t) = (Inr u, t')"
  obtains r0 where "find_user uid t = Some r0" "u = to_user (bumped (with_superuser b now r0))"
    "find_user uid t' = Some (bumped (with_superuser b now r0))" "users_ok P t'"
    "superusers t' + of_bool (active_superuser r0) =
       superusers t + of_bool (b \<and> c_status r0 = ''active'')"
proof -
  obtain r where r: "set_user_superuser P uid b (to_timestamp now) t = (Inr r, t')" "u = to_user r"
    using user_result_InrD [OF assms(2)] by blast
  have "one_row (update_user P uid (\<lambda>r. bump_version (with_superuser b now r)) t) = (Inr r, t')"
    using r(1) by (simp add: set_user_superuser_def with_superuser_def to_timestamp_def)
  then obtain r0 where *: "find_user uid t = Some r0" "r = bumped (with_superuser b now r0)"
      "find_user uid t' = Some r" "users_ok P t'"
      "superusers t' + of_bool (active_superuser r0) = superusers t + of_bool (active_superuser r)"
    by (rule bump_update_effect [OF assms(1)])
       (auto simp: with_superuser_def assign_columns_self dest: row_ok_columns)
  moreover have "active_superuser r \<longleftrightarrow> b \<and> c_status r0 = ''active''"
    by (simp add: *(2) active_superuser_def bumped_def with_superuser_def)
  ultimately show ?thesis using that r(2) by simp
qed

section \<open>The service over a lawful unit of work\<close>

text \<open>The change relations of \<open>SetStatus\<close> and \<open>SetSuperuser\<close>.\<close>

definition status_change :: "pg_ops \<Rightarrow> uuid \<Rightarrow> status \<Rightarrow> time \<Rightarrow> users \<Rightarrow> (err + user) \<times> users" where
  "status_change P uid st now t =
     user_result ''update user status'' (set_user_status P uid st (to_timestamp now) t)"

definition superuser_change :: "pg_ops \<Rightarrow> uuid \<Rightarrow> bool \<Rightarrow> time \<Rightarrow> users \<Rightarrow> (err + user) \<times> users" where
  "superuser_change P uid b now t =
     user_result ''update superuser state'' (set_user_superuser P uid b (to_timestamp now) t)"

abbreviation status_rel :: "pg_ops \<Rightarrow> uuid \<Rightarrow> status \<Rightarrow> users \<Rightarrow> err + user \<Rightarrow> users \<Rightarrow> bool" where
  "status_rel P uid st \<equiv>
     protect_rel uid (st \<noteq> ''active'') (\<lambda>u. u_status u = st) (status_change P uid st)"

abbreviation superuser_rel :: "pg_ops \<Rightarrow> uuid \<Rightarrow> bool \<Rightarrow> users \<Rightarrow> err + user \<Rightarrow> users \<Rightarrow> bool" where
  "superuser_rel P uid b \<equiv>
     protect_rel uid (\<not> b) (\<lambda>u. u_is_superuser u = b) (superuser_change P uid b)"

lemma set_status_acts:
  "user_repository P rep view com True \<Longrightarrow>
     acts_as (r_set_status rep uid st now) view com (status_change P uid st now)"
  unfolding status_change_def [abs_def] by (erule user_repository.set_status) simp

lemma set_superuser_acts:
  "user_repository P rep view com True \<Longrightarrow>
     acts_as (r_set_superuser rep uid b now) view com (superuser_change P uid b now)"
  unfolding superuser_change_def [abs_def] by (erule user_repository.set_superuser) simp

context user_unit_of_work
begin

lemma protect_tx:
  assumes "lawful" "us_unit_of_work s = uow"
    "\<And>rep cur v Q. wp (change rep cur) Q v =
       (if same cur then Q (Inr cur) v else wp (upd rep (clk v)) Q v)"
    "\<And>rep view now. user_repository P rep view com True \<Longrightarrow>
       acts_as (upd rep now) view com (chg now)"
  shows "wp (protect_last_superuser s uid change b)
    (\<lambda>r w'. tx_outcome (protect_rel uid b same chg) (com w) r (com w')) w"
proof -
  have "tx_callback P (protect_body uid change b) (protect_rel uid b same chg) com"
    unfolding tx_callback_def
  proof (intro allI impI)
    fix rep view w
    assume rep: "user_repository P rep view com True"
    show "wp (protect_body uid change b rep)
        (\<lambda>r w'. protect_rel uid b same chg (view w) r (view w') \<and> com w' = com w) w"
      by (rule protect_body_spec [where upd = "upd rep" and clk = clk]) (rule rep assms(3) assms(4) [OF rep])+
  qed
  then show ?thesis
    unfolding protect_last_superuser_def assms(2) by (rule atomic [OF assms(1)])
qed

lemma set_status_tx:
  assumes "lawful" "us_unit_of_work s = uow" "status_valid st"
  shows "wp (service_set_status s uid st)
    (\<lambda>r w'. tx_outcome (status_rel P uid st) (com w) r (com w')) w"
proof -
  have "service_set_status s uid st = protect_last_superuser s uid (\<lambda>repository current.
      if u_status current = st then State_Monad.return (Inr current)
      else do { now \<leftarrow> clock_now (us_clock s); r_set_status repository uid st now }) (st \<noteq> ''active'')"
    using assms(3) by (simp add: service_set_status_def status_active_def)
  then show ?thesis
    by (simp only:) (rule protect_tx [where clk = "us_clock s", OF assms(1,2) _ set_status_acts], simp_all add: wp_rules)
qed

lemma set_superuser_tx:
  assumes "lawful" "us_unit_of_work s = uow"
  shows "wp (service_set_superuser s uid b)
    (\<lambda>r w'. tx_outcome (superuser_rel P uid b) (com w) r (com w')) w"
  unfolding service_set_superuser_def
  by (rule protect_tx [where clk = "us_clock s", OF assms _ set_superuser_acts], simp_all add: wp_rules)

end

end
