(* ===== verification/AuthModel.thy ===== *)
theory AuthModel
  imports UserService
begin

text \<open>
  \<open>internal/modules/auth/model.go\<close>: sessions, token pairs, identities and the three interfaces of
  the authentication service; and the record of a refresh token from \<open>auth/redis/store.go\<close>.
\<close>

record session =
  s_id :: uuid
  s_family_id :: uuid
  s_user_id :: uuid
  s_user_version :: int
  s_current_digest :: string
  s_created_at :: time
  s_expires_at :: time

record refresh_record =
  rr_session_id :: uuid
  rr_family_id :: uuid
  rr_user_id :: uuid
  rr_state :: string

record token_pair =
  tp_access_token :: string
  tp_refresh_token :: string
  tp_expires_at :: time
  tp_session_id :: uuid
  tp_user :: user

record identity =
  id_user :: user
  id_session_id :: uuid

record session_summary =
  ss_id :: uuid
  ss_created_at :: time
  ss_expires_at :: time
  ss_current :: bool

record 'w auth_users =
  au_verify_credentials :: "string \<Rightarrow> string \<Rightarrow> ('w, err + user) state"
  au_get_by_id :: "uuid \<Rightarrow> ('w, err + user) state"
  au_record_login :: "uuid \<Rightarrow> ('w, err + unit) state"

record 'w session_store =
  st_create :: "session \<Rightarrow> duration \<Rightarrow> bool \<Rightarrow> ('w, err + unit) state"
  st_get :: "uuid \<Rightarrow> ('w, err + session) state"
  st_list_by_user :: "uuid \<Rightarrow> ('w, err + session list) state"
  st_rotate :: "string \<Rightarrow> string \<Rightarrow> time \<Rightarrow> duration \<Rightarrow> ('w, err + session) state"
  st_revoke :: "uuid \<Rightarrow> ('w, err + unit) state"
  st_revoke_user :: "uuid \<Rightarrow> ('w, err + unit) state"

record 'w rate_limiter =
  rl_allow :: "string \<Rightarrow> int \<Rightarrow> duration \<Rightarrow> ('w, err + bool) state"

text \<open>The user service as the authentication service sees it.\<close>

definition auth_users_of :: "unicode \<Rightarrow> 'w user_service \<Rightarrow> 'w auth_users" where
  "auth_users_of U s = \<lparr>
     au_verify_credentials = verify_credentials U s,
     au_get_by_id = service_get_by_id s,
     au_record_login = record_login s\<rparr>"

end
