(* ===== verification/RedisModel.thy ===== *)
theory RedisModel
  imports AuthModel ConfigModel
begin

text \<open>
  The Redis commands the program uses, as functions on a keyspace.  An entry is a value with an
  optional deadline in milliseconds; a key past its deadline does not exist.  Stored JSON
  documents are kept as the values they encode; \<open>TextVal\<close> stands for any other string.  The client
  library is a parameter, a function that performs one command; \<open>redis_laws\<close> states that it
  performs it as documented, at some later time, or fails, in which case the command may or may
  not have taken effect.
\<close>

datatype rvalue =
    DocSession session
  | DocRefresh refresh_record
  | TextVal string
  | IntVal int
  | Members "string list"
  | DocConfigs "sys_config list"

record rdb =
  entries :: "string \<Rightarrow> (rvalue \<times> int option) option"
  now_ms :: int

text \<open>The entry of a key that exists now, its value, its deadline.\<close>

definition live :: "rdb \<Rightarrow> string \<Rightarrow> (rvalue \<times> int option) option" where
  "live d k =
     (case entries d k of
        None \<Rightarrow> None
      | Some (v, t) \<Rightarrow>
          (case t of None \<Rightarrow> Some (v, t) | Some x \<Rightarrow> if now_ms d < x then Some (v, t) else None))"

definition lookup :: "rdb \<Rightarrow> string \<Rightarrow> rvalue option" where
  "lookup d k = (case live d k of None \<Rightarrow> None | Some (v, _) \<Rightarrow> Some v)"

definition deadline :: "rdb \<Rightarrow> string \<Rightarrow> int option" where
  "deadline d k = (case live d k of None \<Rightarrow> None | Some (_, t) \<Rightarrow> t)"

definition put :: "string \<Rightarrow> rvalue \<Rightarrow> int option \<Rightarrow> rdb \<Rightarrow> rdb" where
  "put k v t d = d\<lparr>entries := (entries d)(k := Some (v, t))\<rparr>"

definition remove :: "string \<Rightarrow> rdb \<Rightarrow> rdb" where
  "remove k d = d\<lparr>entries := (entries d)(k := None)\<rparr>"

definition at_time :: "int \<Rightarrow> rdb \<Rightarrow> rdb" where
  "at_time t d = d\<lparr>now_ms := t\<rparr>"

section \<open>Commands\<close>

datatype reply = Ok | IntReply int | Bulk rvalue | Array "rvalue list" | MembersReply "string list"

definition wrong_type :: err where "wrong_type = Plain ''WRONGTYPE''"

text \<open>The client's conversion of a duration to milliseconds (\<open>SET\<close>) and whole seconds (\<open>EXPIRE\<close>).\<close>

definition px_of :: "duration \<Rightarrow> int" where
  "px_of ttl = (if ttl < millisecond then 1 else ttl div millisecond)"

definition ex_of :: "duration \<Rightarrow> int" where
  "ex_of ttl = (if 0 < ttl \<and> ttl < second then 1 else ttl div second)"

definition do_get :: "string \<Rightarrow> rdb \<Rightarrow> (err + reply) \<times> rdb" where
  "do_get k d =
     (case lookup d k of
        None \<Rightarrow> (Inl (Sentinel RedisNil), d)
      | Some (Members _) \<Rightarrow> (Inl wrong_type, d)
      | Some v \<Rightarrow> (Inr (Bulk v), d))"

definition do_set :: "string \<Rightarrow> rvalue \<Rightarrow> duration \<Rightarrow> rdb \<Rightarrow> (err + reply) \<times> rdb" where
  "do_set k v ttl d = (Inr Ok, put k v (if 0 < ttl then Some (now_ms d + px_of ttl) else None) d)"

text \<open>\<open>SET key value PX ms\<close> as a script issues it.\<close>

definition do_set_px :: "string \<Rightarrow> rvalue \<Rightarrow> int \<Rightarrow> rdb \<Rightarrow> (err + reply) \<times> rdb" where
  "do_set_px k v ms d =
     (if ms \<le> 0 then (Inl (Plain ''ERR invalid expire time''), d)
      else (Inr Ok, put k v (Some (now_ms d + ms)) d))"

definition do_del :: "string list \<Rightarrow> rdb \<Rightarrow> (err + reply) \<times> rdb" where
  "do_del ks d = (Inr (IntReply (int (length (filter (\<lambda>k. lookup d k \<noteq> None) (remdups ks))))), fold remove ks d)"

definition do_sadd :: "string \<Rightarrow> string \<Rightarrow> rdb \<Rightarrow> (err + reply) \<times> rdb" where
  "do_sadd k m d =
     (case lookup d k of
        None \<Rightarrow> (Inr (IntReply 1), put k (Members [m]) None d)
      | Some (Members ms) \<Rightarrow>
          if m \<in> set ms then (Inr (IntReply 0), d)
          else (Inr (IntReply 1), put k (Members (ms @ [m])) (deadline d k) d)
      | Some _ \<Rightarrow> (Inl wrong_type, d))"

definition do_srem :: "string \<Rightarrow> string list \<Rightarrow> rdb \<Rightarrow> (err + reply) \<times> rdb" where
  "do_srem k xs d =
     (case lookup d k of
        None \<Rightarrow> (Inr (IntReply 0), d)
      | Some (Members ms) \<Rightarrow>
          let rest = filter (\<lambda>m. m \<notin> set xs) ms in
          (Inr (IntReply (int (length ms - length rest))),
           if rest = [] then remove k d else put k (Members rest) (deadline d k) d)
      | Some _ \<Rightarrow> (Inl wrong_type, d))"

definition do_smembers :: "string \<Rightarrow> rdb \<Rightarrow> (err + reply) \<times> rdb" where
  "do_smembers k d =
     (case lookup d k of
        None \<Rightarrow> (Inr (MembersReply []), d)
      | Some (Members ms) \<Rightarrow> (Inr (MembersReply ms), d)
      | Some _ \<Rightarrow> (Inl wrong_type, d))"

definition do_pexpire :: "string \<Rightarrow> int \<Rightarrow> rdb \<Rightarrow> (err + reply) \<times> rdb" where
  "do_pexpire k ms d =
     (case lookup d k of
        None \<Rightarrow> (Inr (IntReply 0), d)
      | Some v \<Rightarrow> (Inr (IntReply 1), if ms \<le> 0 then remove k d else put k v (Some (now_ms d + ms)) d))"

definition do_incr :: "string \<Rightarrow> rdb \<Rightarrow> (err + reply) \<times> rdb" where
  "do_incr k d =
     (case lookup d k of
        None \<Rightarrow> (Inr (IntReply 1), put k (IntVal 1) None d)
      | Some (IntVal n) \<Rightarrow>
          if n + 1 < 2 ^ 63 then (Inr (IntReply (n + 1)), put k (IntVal (n + 1)) (deadline d k) d)
          else (Inl (Plain ''ERR increment or decrement would overflow''), d)
      | Some (Members _) \<Rightarrow> (Inl wrong_type, d)
      | Some _ \<Rightarrow> (Inl (Plain ''ERR value is not an integer or out of range''), d))"

datatype basic_cmd =
    CGet string
  | CSet string rvalue duration
  | CDel "string list"
  | CSAdd string string
  | CSRem string "string list"
  | CSMembers string
  | CExpire string duration
  | CIncr string

fun run_basic :: "basic_cmd \<Rightarrow> rdb \<Rightarrow> (err + reply) \<times> rdb" where
  "run_basic (CGet k) d = do_get k d"
| "run_basic (CSet k v ttl) d = do_set k v ttl d"
| "run_basic (CDel ks) d = do_del ks d"
| "run_basic (CSAdd k m) d = do_sadd k m d"
| "run_basic (CSRem k ms) d = do_srem k ms d"
| "run_basic (CSMembers k) d = do_smembers k d"
| "run_basic (CExpire k ttl) d = do_pexpire k (1000 * ex_of ttl) d"
| "run_basic (CIncr k) d = do_incr k d"

text \<open>\<open>MULTI\<close>/\<open>EXEC\<close>: every queued command runs, the first error is reported.\<close>

fun run_multi :: "basic_cmd list \<Rightarrow> rdb \<Rightarrow> (err + reply) \<times> rdb" where
  "run_multi [] d = (Inr Ok, d)"
| "run_multi (c # cs) d =
     (case run_basic c d of (r, d1) \<Rightarrow>
        (case run_multi cs d1 of (rs, d2) \<Rightarrow> ((case r of Inl e \<Rightarrow> Inl e | Inr _ \<Rightarrow> rs), d2)))"

section \<open>rotate.lua\<close>

record rotate_args =
  ra_refresh_prefix :: string
  ra_old_digest :: string
  ra_session_prefix :: string
  ra_user_prefix :: string
  ra_new_digest :: string
  ra_now :: time
  ra_ttl_ms :: int
  ra_expires_at :: time

text \<open>
  What the script sees of a document: \<open>cjson.decode\<close> of a token, and the \<open>current_digest\<close> field of
  a session document (absent in a token document).  Numbers pass through a Lua double; \<open>lua_num\<close>
  is that conversion, exact below \<open>10^14\<close>.
\<close>

definition lua_token :: "rvalue \<Rightarrow> refresh_record option" where
  "lua_token v = (case v of DocRefresh t \<Rightarrow> Some t | _ \<Rightarrow> None)"

definition lua_digest :: "rvalue \<Rightarrow> string option option" where
  "lua_digest v = (case v of DocSession s \<Rightarrow> Some (Some (s_current_digest s)) | DocRefresh _ \<Rightarrow> Some None
     | _ \<Rightarrow> None)"

definition lua_laws :: "(int \<Rightarrow> int) \<Rightarrow> bool" where
  "lua_laws lua_num \<longleftrightarrow> (\<forall>n. 0 \<le> n \<and> n < 10 ^ 14 \<longrightarrow> lua_num n = n)"

definition script_error :: err where "script_error = Plain ''ERR Error running script''"

text \<open>The branch for a token that was already spent: the session and its current token go.\<close>

definition rotate_spent ::
  "uuid_pkg \<Rightarrow> rotate_args \<Rightarrow> refresh_record \<Rightarrow> rdb \<Rightarrow> (err + reply) \<times> rdb" where
  "rotate_spent P a token d =
     (let session_key = ra_session_prefix a @ u_string P (rr_session_id token);
          finish = (\<lambda>d1.
            let d2 = remove session_key d1 in
            case do_srem (ra_user_prefix a @ u_string P (rr_user_id token))
                   [u_string P (rr_session_id token)] d2 of
              (Inl e, d3) \<Rightarrow> (Inl e, d3)
            | (Inr _, d3) \<Rightarrow> (Inr (Array [IntVal (-1), TextVal '''']), d3))
      in case do_get session_key d of
           (Inl e, _) \<Rightarrow> if err_is RedisNil e then finish d else (Inl e, d)
         | (Inr (Bulk raw), _) \<Rightarrow>
             (case lua_digest raw of
                Some (Some digest) \<Rightarrow> finish (remove (ra_refresh_prefix a @ digest) d)
              | _ \<Rightarrow> (Inl script_error, d))
         | (Inr _, _) \<Rightarrow> (Inl script_error, d))"

text \<open>The branch that rotates.\<close>

definition rotate_active ::
  "uuid_pkg \<Rightarrow> (int \<Rightarrow> int) \<Rightarrow> rotate_args \<Rightarrow> refresh_record \<Rightarrow> session \<Rightarrow> rdb \<Rightarrow> (err + reply) \<times> rdb" where
  "rotate_active P lua_num a token session0 d =
     (let session_key = ra_session_prefix a @ u_string P (rr_session_id token);
          spent = DocRefresh (token\<lparr>rr_state := ''spent''\<rparr>);
          session = session0\<lparr>s_user_version := lua_num (s_user_version session0),
            s_current_digest := ra_new_digest a, s_expires_at := ra_expires_at a\<rparr>;
          new_token = DocRefresh \<lparr>rr_session_id = rr_session_id token,
            rr_family_id = rr_family_id token, rr_user_id = rr_user_id token, rr_state = ''active''\<rparr>
      in case do_set_px (ra_refresh_prefix a @ ra_old_digest a) spent (ra_ttl_ms a) d of
           (Inl e, d1) \<Rightarrow> (Inl e, d1)
         | (Inr _, d1) \<Rightarrow>
             let d2 = snd (do_set_px (ra_refresh_prefix a @ ra_new_digest a) new_token (ra_ttl_ms a) d1);
                 d3 = snd (do_set_px session_key (DocSession session) (ra_ttl_ms a) d2);
                 d4 = snd (do_pexpire (ra_user_prefix a @ u_string P (rr_user_id token)) (ra_ttl_ms a) d3)
             in (Inr (Array [IntVal 1, DocSession session]), d4))"

definition rotate_script ::
  "uuid_pkg \<Rightarrow> (int \<Rightarrow> int) \<Rightarrow> rotate_args \<Rightarrow> rdb \<Rightarrow> (err + reply) \<times> rdb" where
  "rotate_script P lua_num a d =
     (case do_get (ra_refresh_prefix a @ ra_old_digest a) d of
        (Inl e, _) \<Rightarrow>
          if err_is RedisNil e then (Inr (Array [IntVal 0, TextVal '''']), d) else (Inl e, d)
      | (Inr (Bulk raw_token), _) \<Rightarrow>
          (case lua_token raw_token of
             None \<Rightarrow> (Inl script_error, d)
           | Some token \<Rightarrow>
               if rr_state token = ''spent'' then rotate_spent P a token d
               else (case do_get (ra_session_prefix a @ u_string P (rr_session_id token)) d of
                   (Inl e, _) \<Rightarrow>
                     if err_is RedisNil e then (Inr (Array [IntVal 0, TextVal '''']), d) else (Inl e, d)
                 | (Inr (Bulk (DocSession session)), _) \<Rightarrow>
                     if s_current_digest session \<noteq> ra_old_digest a
                     then (Inr (Array [IntVal 0, TextVal '''']), d)
                     else rotate_active P lua_num a token session d
                 | (Inr (Bulk raw), _) \<Rightarrow>
                     (case lua_digest raw of
                        None \<Rightarrow> (Inl script_error, d)
                      | Some _ \<Rightarrow> (Inr (Array [IntVal 0, TextVal '''']), d))
                 | (Inr _, _) \<Rightarrow> (Inl script_error, d)))
      | (Inr _, _) \<Rightarrow> (Inl script_error, d))"

section \<open>The client\<close>

datatype rcmd = Basic basic_cmd | Multi "basic_cmd list" | Rotate rotate_args

fun run_cmd :: "uuid_pkg \<Rightarrow> (int \<Rightarrow> int) \<Rightarrow> rcmd \<Rightarrow> rdb \<Rightarrow> (err + reply) \<times> rdb" where
  "run_cmd P L (Basic c) d = run_basic c d"
| "run_cmd P L (Multi cs) d = run_multi cs d"
| "run_cmd P L (Rotate a) d = rotate_script P L a d"

type_synonym 'w redis_client = "rcmd \<Rightarrow> ('w, err + reply) state"

text \<open>A failure of the connection is not \<open>redis.Nil\<close> and none of the module's own errors.\<close>

definition net_err :: "err \<Rightarrow> bool" where
  "net_err e \<longleftrightarrow> (\<forall>s \<in> {RedisNil, InvalidToken, RefreshReuse, SessionNotFound, RateLimited,
     InvalidCredentials, UserDisabled, AuthUnavailable}. \<not> err_is s e)"

lemma net_err_wrapped [simp]: "net_err (Wrapped m [e]) = net_err e"
  by (simp add: net_err_def)

definition redis_laws ::
  "uuid_pkg \<Rightarrow> (int \<Rightarrow> int) \<Rightarrow> 'w redis_client \<Rightarrow> ('w \<Rightarrow> rdb) \<Rightarrow> bool" where
  "redis_laws P L c db \<longleftrightarrow> (\<forall>cmd w. wp (c cmd) (\<lambda>r w'. \<exists>t \<ge> now_ms (db w).
     (run_cmd P L cmd (at_time t (db w)) = (r, db w')) \<or>
     (\<exists>e. r = Inl e \<and> net_err e \<and>
        (db w' = at_time t (db w) \<or> db w' = snd (run_cmd P L cmd (at_time t (db w)))))) w)"

section \<open>Keys\<close>

lemma live_put: "live (put k v t d) k' =
    (if k' = k then (case t of None \<Rightarrow> Some (v, t) | Some x \<Rightarrow> if now_ms d < x then Some (v, t) else None)
     else live d k')"
  by (auto simp: live_def put_def split: option.splits)

lemma live_remove: "live (remove k d) k' = (if k' = k then None else live d k')"
  by (auto simp: live_def remove_def split: option.splits)

lemma live_fold_remove: "live (fold remove ks d) k = (if k \<in> set ks then None else live d k)"
  by (induction ks arbitrary: d) (auto simp: live_remove)

lemma live_at_time: "now_ms d \<le> t \<Longrightarrow> live (at_time t d) k =
    (case live d k of None \<Rightarrow> None | Some (v, x) \<Rightarrow>
       (case x of None \<Rightarrow> Some (v, x) | Some y \<Rightarrow> if t < y then Some (v, x) else None))"
  by (auto simp: live_def at_time_def split: option.splits)

lemma live_deadline: "live d k = Some (v, Some x) \<Longrightarrow> now_ms d < x"
  by (auto simp: live_def split: option.splits if_splits prod.splits)

lemma now_simps [simp]: "now_ms (put k v t d) = now_ms d" "now_ms (remove k d) = now_ms d"
    "now_ms (at_time t' d) = t'" "now_ms (fold remove ks d) = now_ms d"
proof -
  show "now_ms (fold remove ks d) = now_ms d"
    by (induction ks arbitrary: d) (simp_all add: remove_def)
qed (simp_all add: put_def remove_def at_time_def)

lemma lookup_live: "lookup d k = Some v \<longleftrightarrow> (\<exists>t. live d k = Some (v, t))"
    "lookup d k = None \<longleftrightarrow> live d k = None"
  by (auto simp: lookup_def split: option.splits)

text \<open>The rule that walks over a command.\<close>

lemma wp_redis:
  assumes "redis_laws P L c db"
    "\<And>t r w'. now_ms (db w) \<le> t \<Longrightarrow> run_cmd P L cmd (at_time t (db w)) = (r, db w') \<Longrightarrow> Q r w'"
    "\<And>t e w'. now_ms (db w) \<le> t \<Longrightarrow> net_err e \<Longrightarrow>
       db w' = at_time t (db w) \<or> db w' = snd (run_cmd P L cmd (at_time t (db w))) \<Longrightarrow> Q (Inl e) w'"
  shows "wp (c cmd) Q w"
  using assms(1) [unfolded redis_laws_def, rule_format, of cmd w]
  by (rule wp_mono) (use assms(2,3) in blast)

end
