(* ===== verification/ConfigCache.thy ===== *)
theory ConfigCache
  imports ConfigService RedisModel
begin

text \<open>
  \<open>internal/modules/systemconfig/redis/cache.go\<close>: the cache of the public list, over the Redis model.
  The stored document is the list of items it encodes, with every value as \<open>json.Marshal\<close> writes it.
\<close>

record 'w config_cache =
  ca_client :: "'w redis_client"
  ca_key :: string
  ca_ttl :: duration

definition new_config_cache :: "'w redis_client option \<Rightarrow> string \<Rightarrow> duration \<Rightarrow> err + 'w config_cache" where
  "new_config_cache client environment ttl =
     (case client of
        None \<Rightarrow> Inl (Plain ''system config Redis cache dependencies are invalid'')
      | Some c \<Rightarrow>
          if environment = '''' \<or> ttl \<le> 0
          then Inl (Plain ''system config Redis cache dependencies are invalid'')
          else Inr \<lparr>ca_client = c, ca_key = ''goba:'' @ environment @ '':systemconfig:public'', ca_ttl = ttl\<rparr>)"

text \<open>An item after \<open>json.Marshal\<close> and \<open>json.Unmarshal\<close>; \<open>None\<close> when its value is not JSON.\<close>

definition marshal_item :: "sys_config \<Rightarrow> sys_config option" where
  "marshal_item i =
     (case raw_message (sc_value i) of
        None \<Rightarrow> None
      | Some v \<Rightarrow> Some (i\<lparr>sc_key := repair (sc_key i), sc_value := v, sc_value_type := repair (sc_value_type i),
          sc_description := repair (sc_description i)\<rparr>))"

fun marshal_items :: "sys_config list \<Rightarrow> sys_config list option" where
  "marshal_items [] = Some []"
| "marshal_items (i # is) =
     (case marshal_item i of
        None \<Rightarrow> None
      | Some j \<Rightarrow> (case marshal_items is of None \<Rightarrow> None | Some js \<Rightarrow> Some (j # js)))"

definition cache_get :: "'w config_cache \<Rightarrow> ('w, err + sys_config list option) state" where
  "cache_get c = do {
     r \<leftarrow> ca_client c (Basic (CGet (ca_key c)));
     State_Monad.return (case r of
         Inl e \<Rightarrow>
           if err_is RedisNil e then Inr None
           else Inl (Wrapped ''read public system config cache'' [e])
       | Inr (Bulk (DocConfigs items)) \<Rightarrow> Inr (Some items)
       | Inr _ \<Rightarrow> Inl (Wrapped ''parse public system config cache'' [Plain ''json''])) }"

definition cache_put :: "'w config_cache \<Rightarrow> sys_config list \<Rightarrow> ('w, err + unit) state" where
  "cache_put c items =
     (case marshal_items items of
        None \<Rightarrow> State_Monad.return (Inl (Wrapped ''encode public system config cache'' [Plain ''json'']))
      | Some js \<Rightarrow> do {
          r \<leftarrow> ca_client c (Basic (CSet (ca_key c) (DocConfigs js) (ca_ttl c)));
          State_Monad.return (case r of
              Inl e \<Rightarrow> Inl (Wrapped ''write public system config cache'' [e])
            | Inr _ \<Rightarrow> Inr ()) })"

definition cache_delete :: "'w config_cache \<Rightarrow> ('w, err + unit) state" where
  "cache_delete c = do {
     r \<leftarrow> ca_client c (Basic (CDel [ca_key c]));
     State_Monad.return (case r of
         Inl e \<Rightarrow> Inl (Wrapped ''delete public system config cache'' [e])
       | Inr _ \<Rightarrow> Inr ()) }"

definition public_cache_of :: "'w config_cache \<Rightarrow> 'w public_cache" where
  "public_cache_of c = \<lparr>pc_get = cache_get c, pc_put = cache_put c, pc_delete = cache_delete c\<rparr>"

section \<open>The cache meets the contract\<close>

text \<open>What the cache would answer now, and what a list comes back as.\<close>

definition cache_hit :: "string \<Rightarrow> rdb \<Rightarrow> sys_config list option" where
  "cache_hit k d = (case lookup d k of Some (DocConfigs items) \<Rightarrow> Some items | _ \<Rightarrow> None)"

definition cached_items :: "sys_config list \<Rightarrow> sys_config list" where
  "cached_items items = (case marshal_items items of Some js \<Rightarrow> js | None \<Rightarrow> items)"

lemma cache_hit_later: "now_ms d \<le> t \<Longrightarrow> cache_hit k (at_time t d) \<in> {cache_hit k d, None}"
  by (auto simp: cache_hit_def lookup_def live_at_time split: option.splits rvalue.splits)

lemma cache_hit_put: "cache_hit k (put k (DocConfigs js) t d) \<in> {Some js, None}"
  by (auto simp: cache_hit_def lookup_def live_put split: option.splits)

lemma cache_hit_remove [simp]: "cache_hit k (remove k d) = None"
  by (simp add: cache_hit_def lookup_def live_remove)

definition cache_lawful ::
  "uuid_pkg \<Rightarrow> (int \<Rightarrow> int) \<Rightarrow> 'w config_cache \<Rightarrow> ('w \<Rightarrow> rdb) \<Rightarrow> ('w \<Rightarrow> 'o) \<Rightarrow> bool" where
  "cache_lawful P L c db com \<longleftrightarrow> redis_laws P L (ca_client c) db \<and> (\<forall>cmd. leaves (ca_client c cmd) com)"

lemma cache_step:
  assumes "cache_lawful P L c db com"
    "\<And>t r w'. now_ms (db w) \<le> t \<Longrightarrow> com w' = com w \<Longrightarrow>
       run_cmd P L cmd (at_time t (db w)) = (r, db w') \<Longrightarrow> Q r w'"
    "\<And>t e w'. now_ms (db w) \<le> t \<Longrightarrow> com w' = com w \<Longrightarrow> net_err e \<Longrightarrow>
       db w' = at_time t (db w) \<or> db w' = snd (run_cmd P L cmd (at_time t (db w))) \<Longrightarrow> Q (Inl e) w'"
  shows "wp (ca_client c cmd) Q w"
proof -
  have l: "redis_laws P L (ca_client c) db" "leaves (ca_client c cmd) com"
    using assms(1) by (simp_all add: cache_lawful_def)
  have "wp (ca_client c cmd) (\<lambda>r w'. com w' = com w \<and> (com w' = com w \<longrightarrow> Q r w')) w"
    by (rule wp_conj [OF leavesD [OF l(2)] wp_redis [OF l(1)]]) (use assms(2,3) in blast)+
  then show ?thesis by (rule wp_mono) blast
qed

interpretation redis_cache: public_cache_contract "public_cache_of c" "\<lambda>w. cache_hit (ca_key c) (db w)" cached_items com
  "cache_lawful P L c db com"
  for P L c db com
proof (unfold_locales, goal_cases)
  case (1 w)
  show ?case
    unfolding public_cache_of_def public_cache.simps cache_get_def wp_rules
  proof (rule cache_step [OF 1], goal_cases)
    case (1 t r w')
    then have "db w' = at_time t (db w)" "r = fst (do_get (ca_key c) (at_time t (db w)))"
      by (auto simp: do_get_def split: option.splits rvalue.splits)
    with 1 show ?case using cache_hit_later [OF 1(1), of "ca_key c"]
      by (auto simp: do_get_def cache_hit_def split: option.splits rvalue.splits)
  next
    case (2 t e w')
    then have "db w' = at_time t (db w)"
      by (auto simp: do_get_def split: option.splits rvalue.splits)
    with 2 show ?case using cache_hit_later [OF 2(1), of "ca_key c"] by (auto simp: net_err_def)
  qed
next
  case (2 items w)
  show ?case
  proof (cases "marshal_items items")
    case None
    then show ?thesis by (simp add: public_cache_of_def cache_put_def wp_rules)
  next
    case (Some js)
    show ?thesis
      unfolding public_cache_of_def public_cache.simps cache_put_def Some option.case wp_rules
    proof (rule cache_step [OF 2], goal_cases)
      case (1 t r w')
      then obtain x where "db w' = put (ca_key c) (DocConfigs js) x (at_time t (db w))"
        unfolding run_cmd.simps run_basic.simps do_set_def prod.inject by (metis)
      then show ?case
        using 1 cache_hit_put [of "ca_key c" js x "at_time t (db w)"] Some by (auto simp: cached_items_def)
    next
      case (2 t e w')
      then have "db w' = at_time t (db w) \<or> (\<exists>x. db w' = put (ca_key c) (DocConfigs js) x (at_time t (db w)))"
        unfolding run_cmd.simps run_basic.simps do_set_def snd_conv by metis
      then show ?case
      proof (elim disjE exE)
        fix x assume "db w' = put (ca_key c) (DocConfigs js) x (at_time t (db w))"
        then show ?thesis
          using 2(2) cache_hit_put [of "ca_key c" js x "at_time t (db w)"] Some by (auto simp: cached_items_def)
      qed (use 2(2) cache_hit_later [OF 2(1), of "ca_key c"] in auto)
    qed
  qed
next
  case (3 w)
  show ?case
    unfolding public_cache_of_def public_cache.simps cache_delete_def wp_rules
  proof (rule cache_step [OF 3], goal_cases)
    case (1 t r w')
    then have "db w' = remove (ca_key c) (at_time t (db w))" by (auto simp: do_del_def)
    then show ?case using 1(2) by simp
  next
    case (2 t e w')
    then show ?case using cache_hit_later [OF 2(1), of "ca_key c"] by (auto simp: do_del_def)
  qed
qed

end
