(* ===== verification/ConfigModule.thy ===== *)
theory ConfigModule
  imports ConfigSpec ConfigRepo ConfigCache
begin

text \<open>
  The dynamic configuration module assembled: the service over its PostgreSQL adapter and its Redis
  cache, its properties, and a world in memory on which they are evaluated.
\<close>

section \<open>The module wired\<close>

definition cache_view :: "'w config_cache \<Rightarrow> ('w \<Rightarrow> rdb) \<Rightarrow> 'w \<Rightarrow> sys_config list option" where
  "cache_view c db w = cache_hit (ca_key c) (db w)"

definition config_wired ::
  "(nat \<Rightarrow> nat \<Rightarrow> nat \<Rightarrow> nat) \<Rightarrow> pg_text \<Rightarrow> 'w config_database \<Rightarrow> ('w \<Rightarrow> configs) \<Rightarrow> ('w \<Rightarrow> configs) \<Rightarrow>
   uuid_pkg \<Rightarrow> (int \<Rightarrow> int) \<Rightarrow> 'w config_cache \<Rightarrow> ('w \<Rightarrow> rdb) \<Rightarrow> 'w config_service \<Rightarrow> bool" where
  "config_wired frac P db view com Q L c rdb s \<longleftrightarrow>
     cs_repository s = config_store db \<and> cs_uow s = config_uow_of db \<and> cs_cache s = public_cache_of c \<and>
     pg_text_laws frac P \<and> database_laws (run_config_stmt P) db view com \<and>
     database_leaves db (cache_view c rdb) \<and> cache_lawful Q L c rdb com \<and>
     bus_quiet (cs_events s) com (cache_view c rdb)"

interpretation configs: config_providers P s com "cache_view c rdb" cached_items
  "config_wired frac P db view com Q L c rdb s"
  for P s com c rdb frac db view Q L
proof (unfold_locales, goal_cases)
  case (1 item)
  then show ?case using config_store.create unfolding config_wired_def by metis
next
  case (2 k)
  then show ?case using config_store.get unfolding config_wired_def by metis
next
  case 3
  then show ?case using config_store.list unfolding config_wired_def by metis
next
  case 4
  then show ?case using config_store.list_public unfolding config_wired_def by metis
next
  case (5 item)
  then show ?case using config_store.update unfolding config_wired_def by metis
next
  case (6 k)
  then show ?case using config_store.delete unfolding config_wired_def by metis
next
  case (7 fn f w)
  then show ?case using config_tx.within [of P db view com "cache_view c rdb" fn f w] unfolding config_wired_def by auto
next
  case (8 w)
  then show ?case using redis_cache.get [of Q L c rdb com w] unfolding config_wired_def cache_view_def by auto
next
  case (9 items w)
  then show ?case using redis_cache.put [of Q L c rdb com items w] unfolding config_wired_def cache_view_def by auto
next
  case (10 w)
  then show ?case using redis_cache.delete [of Q L c rdb com w] unfolding config_wired_def cache_view_def by auto
qed

lemma wired_quiet: "config_wired frac P db view com Q L c rdb s \<Longrightarrow> bus_quiet (cs_events s) com (cache_view c rdb)"
  by (simp add: config_wired_def)

lemma wired_text: "config_wired frac P db view com Q L c rdb s \<Longrightarrow> pg_text_laws frac P"
  by (simp add: config_wired_def)

section \<open>The statements on normal input\<close>

lemma normalize_value_type: "normalize_value frac t raw = Inr v \<Longrightarrow>
    t \<in> {''string'', ''integer'', ''boolean'', ''duration'', ''string_list''}"
  unfolding normalize_value_def type_defs by (simp split: if_splits)

lemma value_type_short: "t \<in> {''string'', ''integer'', ''boolean'', ''duration'', ''string_list''} \<Longrightarrow> length (runes t) \<le> 16"
  using length_runes_le [of t] by auto

lemma validate_Inr:
  assumes "validate_and_normalize U frac input = Inr n"
  shows "in_key n = trim_space U (in_key input)" "in_description n = trim_space U (in_description input)"
    "config_key_pattern (in_key n)" "\<not> sensitive_key U (in_key n)" "length (in_description n) \<le> 255"
    "in_is_public n = in_is_public input" "in_value_type n = in_value_type input"
    "normalize_value frac (in_value_type input) (in_value input) = Inr (in_value n)"
proof -
  define i where "i = input\<lparr>in_key := trim_space U (in_key input), in_description := trim_space U (in_description input)\<rparr>"
  have unf: "validate_and_normalize U frac input = (if \<not> config_key_pattern (in_key i) \<or> 255 < length (in_description i) \<or>
         in_value i = '''' \<or> 64 * 1024 < length (in_value i)
      then Inl (Sentinel ConfigInvalidInput)
      else if sensitive_key U (in_key i) then Inl (Sentinel SensitiveKey)
      else (case normalize_value frac (in_value_type i) (in_value i) of
          Inl e \<Rightarrow> Inl e | Inr v \<Rightarrow> Inr (i\<lparr>in_value := v\<rparr>)))"
    unfolding validate_and_normalize_def Let_def i_def by (rule refl)
  then obtain v where v: "config_key_pattern (in_key i)" "\<not> 255 < length (in_description i)"
    "\<not> sensitive_key U (in_key i)" "normalize_value frac (in_value_type i) (in_value i) = Inr v" "n = i\<lparr>in_value := v\<rparr>"
    using assms by (auto split: if_split_asm sum.split_asm)
  then show "in_key n = trim_space U (in_key input)" "in_description n = trim_space U (in_description input)"
    "config_key_pattern (in_key n)" "\<not> sensitive_key U (in_key n)" "length (in_description n) \<le> 255"
    "in_is_public n = in_is_public input" "in_value_type n = in_value_type input"
    "normalize_value frac (in_value_type input) (in_value input) = Inr (in_value n)"
    by (simp_all add: i_def)
qed

lemma with_text_Inr: "with_text ss res t = (Inr x, t') \<Longrightarrow> res = (Inr x, t')"
  by (auto simp: with_text_def split: sum.splits)

lemma jsonb_keeps:
  assumes "pg_text_laws frac P" "pt_jsonb P s = Inr v"
  shows "decode_value frac t v = decode_value frac t s"
  using assms(1) [unfolded pg_text_laws_def, THEN conjunct1, rule_format, of s] assms(2) by simp

text \<open>A row built from normal input that was accepted.\<close>

lemma create_row:
  assumes "pg_text_laws frac P" "validate_and_normalize U frac input = Inr n"
    "create_system_config P \<lparr>cc_key = in_key n, cc_value = in_value n, cc_value_type = in_value_type n,
       cc_is_public = in_is_public n, cc_description = in_description n, cc_created_at = Some now,
       cc_updated_at = Some now\<rparr> t = (Inr r, t')"
  shows "t' = t @ [r] \<and> (\<forall>x \<in> set t. dc_key x \<noteq> in_key n) \<and> config_row_ok frac r \<and>
    (\<exists>v. r = \<lparr>dc_key = in_key n, dc_value = v, dc_value_type = in_value_type n, dc_is_public = in_is_public n,
       dc_description = in_description n, dc_created_at = Some now, dc_updated_at = Some now\<rparr> \<and>
     decode_value frac (in_value_type n) v = decode_value frac (in_value_type n) (in_value input))"
proof -
  note v = validate_Inr [OF assms(2)]
  let ?r0 = "\<lparr>dc_key = in_key n, dc_value = in_value n, dc_value_type = in_value_type n,
    dc_is_public = in_is_public n, dc_description = in_description n, dc_created_at = Some now,
    dc_updated_at = Some now\<rparr>"
  have st: "store_config P t ?r0 = Inr r" "t' = t @ [r]"
    using with_text_Inr [OF assms(3) [unfolded create_system_config_def]] by (auto split: sum.splits)
  have short: "length (runes (in_description n)) \<le> 255" "length (runes (in_value_type n)) \<le> 16"
    using v(5) length_runes_le [of "in_description n"] value_type_short [OF normalize_value_type [OF v(8)]] v(7)
    by auto
  obtain x where x: "pt_jsonb P (in_value n) = Inr x" "r = ?r0\<lparr>dc_value := x\<rparr>"
    and free: "\<not> list_ex (\<lambda>y. dc_key y = in_key n) t"
    using store_config_Inr [OF st(1)] v(3) short by auto
  have dec: "decode_value frac (in_value_type n) x = decode_value frac (in_value_type n) (in_value input)"
    using jsonb_keeps [OF assms(1) x(1)] normalize_value_keeps [OF v(8)] v(7) by simp
  moreover have "decode_value frac (in_value_type n) (in_value input) \<noteq> None"
    using normalize_value_iff [of frac "in_value_type n" "in_value input"] v(7,8) by auto
  ultimately have "config_row_ok frac r" using x v(3) by (simp add: config_row_ok_def)
  then show ?thesis using st(2) x dec free by (auto simp: list_ex_iff)
qed







section \<open>A world in memory\<close>

fun bytes_le :: "string \<Rightarrow> string \<Rightarrow> bool" where
  "bytes_le [] _ = True"
| "bytes_le (x # xs) [] = False"
| "bytes_le (x # xs) (y # ys) = (byte x < (byte y :: nat) \<or> (byte x = (byte y :: nat) \<and> bytes_le xs ys))"

lemma bytes_le_total: "bytes_le a b \<or> bytes_le b a"
  by (induction a b rule: bytes_le.induct) auto

lemma bytes_le_trans: "bytes_le a b \<Longrightarrow> bytes_le b c \<Longrightarrow> bytes_le a c"
proof (induction a b arbitrary: c rule: bytes_le.induct)
  case (3 x xs y ys)
  then show ?case by (cases c) auto
qed auto

definition plain_text :: pg_text where
  "plain_text = \<lparr>pt_jsonb = (\<lambda>s. if json_valid s then Inr s else Inl (PgError ''22P02'' '''')), pt_le = bytes_le\<rparr>"

lemma plain_text_laws [simp]: "pg_text_laws frac plain_text"
  by (auto simp: pg_text_laws_def plain_text_def bytes_le_total intro: bytes_le_trans)

type_synonym config_world = "(configs \<times> configs) \<times> rdb"

definition on_committed :: "config_stmt \<Rightarrow> (config_world, err + config_res) state" where
  "on_committed st = do {
     w \<leftarrow> State_Monad.get;
     _ \<leftarrow> State_Monad.set ((snd (run_config_stmt plain_text st (fst (fst w))), snd (fst w)), snd w);
     State_Monad.return (fst (run_config_stmt plain_text st (fst (fst w)))) }"

definition on_view :: "config_stmt \<Rightarrow> (config_world, err + config_res) state" where
  "on_view st = do {
     w \<leftarrow> State_Monad.get;
     _ \<leftarrow> State_Monad.set ((fst (fst w), snd (run_config_stmt plain_text st (snd (fst w)))), snd w);
     State_Monad.return (fst (run_config_stmt plain_text st (snd (fst w)))) }"

definition mem_config_db :: "config_world config_database" where
  "mem_config_db = \<lparr>
     db_pool = \<lparr>db_exec = on_committed\<rparr>,
     db_begin = do {
       w \<leftarrow> State_Monad.get;
       _ \<leftarrow> State_Monad.set ((fst (fst w), fst (fst w)), snd w);
       State_Monad.return (Inr \<lparr>
         tx_dbtx = \<lparr>db_exec = on_view\<rparr>,
         tx_commit = do {
           w \<leftarrow> State_Monad.get;
           _ \<leftarrow> State_Monad.set ((snd (fst w), snd (fst w)), snd w);
           State_Monad.return (Inr ()) },
         tx_rollback = State_Monad.return (Inr ())\<rparr>) }\<rparr>"

lemma mem_config_db_laws [simp]:
  "database_laws (run_config_stmt plain_text) mem_config_db (snd \<circ> fst) (fst \<circ> fst)"
  "database_leaves mem_config_db (\<lambda>w. f (snd w))"
  by (simp_all add: database_laws_def database_leaves_def conn_laws_def conn_leaves_def tx_laws_def acts_as_def
      leaves_def mem_config_db_def on_committed_def on_view_def wp_rules)

definition mem_config_redis :: "config_world redis_client" where
  "mem_config_redis cmd = do {
     w \<leftarrow> State_Monad.get;
     let (r, d) = run_cmd canonical_uuid id cmd (snd w) in do {
       _ \<leftarrow> State_Monad.set (fst w, d);
       State_Monad.return r } }"

definition mem_config_cache :: "config_world config_cache" where
  "mem_config_cache = \<lparr>ca_client = mem_config_redis, ca_key = ''goba:test:systemconfig:public'', ca_ttl = 60 * second\<rparr>"

lemma wp_mem_config_redis: "wp (mem_config_redis cmd) Q w =
    Q (fst (run_cmd canonical_uuid id cmd (snd w))) (fst w, snd (run_cmd canonical_uuid id cmd (snd w)))"
  by (simp add: mem_config_redis_def wp_rules Let_def split: prod.splits)

lemma mem_config_cache_lawful [simp]: "cache_lawful canonical_uuid id mem_config_cache snd (\<lambda>w. f (fst w))"
proof -
  have "at_time (now_ms d) d = d" for d by (simp add: at_time_def)
  then show ?thesis
    by (auto simp: cache_lawful_def redis_laws_def leaves_def wp_mem_config_redis mem_config_cache_def
        intro!: exI [of _ "now_ms _"])
qed

definition mem_configs :: "config_world config_service" where
  "mem_configs = \<lparr>cs_repository = config_store mem_config_db, cs_uow = config_uow_of mem_config_db,
     cs_cache = public_cache_of mem_config_cache, cs_events = [], cs_clock = (\<lambda>_. 7)\<rparr>"

definition no_fraction :: "nat \<Rightarrow> nat \<Rightarrow> nat \<Rightarrow> nat" where
  "no_fraction f unit scale = 0"

lemma mem_config_wired [simp]:
  "config_wired no_fraction plain_text mem_config_db (snd \<circ> fst) (fst \<circ> fst) canonical_uuid id mem_config_cache snd mem_configs"
  using mem_config_cache_lawful [of fst] mem_config_db_laws(1) [unfolded comp_def]
  by (simp add: config_wired_def mem_configs_def bus_quiet_def cache_view_def [abs_def] comp_def)

definition empty_configs :: config_world where
  "empty_configs = (([], []), \<lparr>entries = (\<lambda>_. None), now_ms = 0\<rparr>)"

definition sample_input :: config_input where
  "sample_input = \<lparr>in_key = ''ui.limit'', in_value = '' 10 '', in_value_type = ''integer'', in_is_public = True,
     in_description = ''page limit''\<rparr>"

section \<open>Properties\<close>

text \<open>C28: input that is accepted has a key of the allowed form that names no start-up
  setting and no secret, a description of at most 255 bytes, and a value that decodes at its type;
  the normal form decodes to the same value and is left alone by a second normalisation.\<close>

theorem accepted_input_normal_form:
  assumes "validate_and_normalize U frac input = Inr n"
  shows "config_key_pattern (in_key n) \<and> \<not> sensitive_key U (in_key n) \<and> length (in_description n) \<le> 255 \<and>
    decode_value frac (in_value_type n) (in_value n) = decode_value frac (in_value_type n) (in_value input) \<and>
    decode_value frac (in_value_type n) (in_value input) \<noteq> None \<and>
    normalize_value frac (in_value_type n) (in_value n) = Inr (in_value n)"
  using validate_Inr [OF assms] normalize_value_keeps [of frac "in_value_type input" "in_value input" "in_value n"]
    normalize_value_iff [of frac "in_value_type input" "in_value input"] by auto

text \<open>A creation that succeeds adds exactly one row, under a key no row had, whose value
  decodes to the value of the input and whose times are the current one; the cache is then empty,
  or the error says that it could not be emptied after the commit.  A creation that fails adds no
  row, unless the connection failed.\<close>

theorem config_create_correct:
  assumes "config_wired frac P db view com Q L c rdb s"
  shows "wp (config_create U frac s input) (\<lambda>r w'. case r of
    Inr (item, a) \<Rightarrow> (\<exists>row. com w' = com w @ [row] \<and> item = from_config_record row \<and>
        (\<forall>x \<in> set (com w). dc_key x \<noteq> dc_key row) \<and>
        dc_key row = trim_space U (in_key input) \<and> dc_value_type row = in_value_type input \<and>
        dc_is_public row = in_is_public input \<and> dc_description row = trim_space U (in_description input) \<and>
        decode_value frac (in_value_type input) (dc_value row) =
          decode_value frac (in_value_type input) (in_value input) \<and> config_row_ok frac row \<and>
        dc_created_at row = Some (cs_clock s w) \<and> dc_updated_at row = Some (cs_clock s w)) \<and>
      (case a of None \<Rightarrow> cache_view c rdb w' = None | Some e \<Rightarrow> err_is PostCommit e)
  | Inl e \<Rightarrow> com w' = com w \<or> infra_err e) w"
proof (cases "validate_and_normalize U frac input")
  case (Inl e)
  then show ?thesis by (simp add: config_create_def wp_rules)
next
  case (Inr n)
  note v = validate_Inr [OF Inr]
  show ?thesis
  proof (rule wp_mono [OF configs.create_spec [OF assms wired_quiet [OF assms] Inr refl]], goal_cases)
    case (1 r w')
    show ?case
    proof (cases r)
      case Inl
      then show ?thesis using 1 by (auto simp: written_config_def)
    next
      case (Inr p)
      then obtain item a where p: "p = (item, a)" by (cases p)
      obtain row where row: "create_system_config P \<lparr>cc_key = in_key n, cc_value = in_value n,
          cc_value_type = in_value_type n, cc_is_public = in_is_public n, cc_description = in_description n,
          cc_created_at = Some (cs_clock s w), cc_updated_at = Some (cs_clock s w)\<rparr> (com w) = (Inr row, com w')"
        "item = from_config_record row"
        using 1 Inr p by (auto simp: written_config_def config_result_def config_create_params_def
            config_timestamp_def prod_eq_iff split: sum.splits)
      show ?thesis
        using create_row [OF wired_text [OF assms] \<open>validate_and_normalize U frac input = Inr n\<close> row(1)] row(2) 1 v
        unfolding Inr p by (auto simp: written_config_def intro!: exI [of _ row])
    qed
  qed
qed

lemma config_create_correct_witness:
  "wp (config_create ascii_unicode no_fraction mem_configs sample_input)
     (\<lambda>r w'. \<forall>item a. r = Inr (item, a) \<longrightarrow> length (fst (fst w')) = 1) empty_configs"
  by (rule wp_mono [OF config_create_correct [OF mem_config_wired]]) (auto simp: empty_configs_def)

lemma accepted_input_normal_form_witness:
  "decode_value no_fraction ''integer'' ''10'' = Some (IntegerValue 10)"
proof -
  have "trim_space ascii_unicode ''ui.limit'' = ''ui.limit''" "trim_space ascii_unicode ''page limit'' = ''page limit''"
    by (simp_all add: trim_space_ascii ascii_def trim_list_def ascii_unicode_def)
  moreover have "to_lower ascii_unicode ''ui.limit'' = ''ui.limit''"
    by (rule to_lower_fixed) simp_all
  moreover have int: "decode_strict int_target '' 10 '' = Some 10" "decode_strict int_target ''10'' = Some 10"
    by (simp_all add: decode_strict_def int_target_def skip_ws_def json_ws_def cut_prefix_def has_prefix_def
        is_digit_def digits_value_def)
  ultimately have n: "validate_and_normalize ascii_unicode no_fraction sample_input =
      Inr (sample_input\<lparr>in_value := encode_int 10\<rparr>)"
    by (simp add: validate_and_normalize_def sample_input_def Let_def key_head_def key_tail_def is_digit_def
        sensitive_key_def reserved_prefixes_def has_prefix_def sensitive_words_def key_separator_def
        normalize_value_def type_defs)
  from accepted_input_normal_form [OF n] show ?thesis
    by (simp add: sample_input_def encode_int_def show_nat.simps decode_value_def type_defs int)
qed






end
