(* ===== verification/Lifecycle.thy ===== *)
theory Lifecycle
  imports Errors "HOL-Library.AList"
begin

text \<open>
  Health checks and the life cycle of the application: \<open>internal/platform/health/service.go\<close>,
  \<open>internal/app/lifecycle.go\<close> and \<open>internal/app/run.go\<close>.  A component is a name with optional
  start, stop and health functions.  \<open>Run\<close> is compared with a protocol given as a step relation: what
  is started in order is stopped in the reverse order, and the server runs in between.
\<close>

section \<open>Health checks\<close>

datatype health_status = HealthOk | HealthDown

type_synonym 'w check = "('w, err + unit) state"

text \<open>The checks in the order in which the loop over the map visits them; a check may be nil.\<close>

record 'w health_service =
  hs_checks :: "(string \<times> 'w check option) list"

definition new_health_service :: "(string \<times> 'w check option) list \<Rightarrow> 'w health_service" where
  "new_health_service checks = \<lparr>hs_checks = checks\<rparr>"

definition health_live :: "'w health_service \<Rightarrow> health_status" where
  "health_live s = HealthOk"

record readiness =
  rdy_ready :: bool
  rdy_checks :: "(string \<times> health_status) list"

definition run_check :: "'w check option \<Rightarrow> ('w, health_status) state" where
  "run_check c = (case c of
     None \<Rightarrow> State_Monad.return HealthDown
   | Some f \<Rightarrow> do { r \<leftarrow> f; State_Monad.return (case r of Inl _ \<Rightarrow> HealthDown | Inr _ \<Rightarrow> HealthOk) })"

fun ready_loop :: "(string \<times> 'w check option) list \<Rightarrow> readiness \<Rightarrow> ('w, readiness) state" where
  "ready_loop [] result = State_Monad.return result"
| "ready_loop ((name, c) # checks) result = do {
     st \<leftarrow> run_check c;
     ready_loop checks \<lparr>rdy_ready = (rdy_ready result \<and> st = HealthOk),
       rdy_checks = rdy_checks result @ [(name, st)]\<rparr> }"

definition health_ready :: "'w health_service \<Rightarrow> ('w, readiness) state" where
  "health_ready s = ready_loop (hs_checks s) \<lparr>rdy_ready = True, rdy_checks = []\<rparr>"

lemma ready_loop_spec:
  "wp (ready_loop checks result) (\<lambda>r w'. \<exists>sts. length sts = length checks \<and>
     rdy_checks r = rdy_checks result @ zip (map fst checks) sts \<and>
     (rdy_ready r \<longleftrightarrow> rdy_ready result \<and> list_all (\<lambda>st. st = HealthOk) sts)) w"
proof (induction checks result arbitrary: w rule: ready_loop.induct)
  case (1 result)
  then show ?case by (auto simp: wp_rules)
next
  case (2 name c checks result)
  define post where "post = (\<lambda>(result0 :: readiness) checks0 (r :: readiness) (w' :: 'a). \<exists>sts. length sts = length (checks0 :: (string \<times> 'a check option) list) \<and>
     rdy_checks r = rdy_checks result0 @ zip (map fst checks0) sts \<and>
     (rdy_ready r \<longleftrightarrow> rdy_ready result0 \<and> list_all (\<lambda>st. st = HealthOk) sts))"
  have step: "post result ((name, c) # checks) r w'"
    if "post \<lparr>rdy_ready = rdy_ready result \<and> st = HealthOk, rdy_checks = rdy_checks result @ [(name, st)]\<rparr> checks r w'"
    for st r w'
  proof -
    from that obtain sts where "length sts = length checks"
      "rdy_checks r = rdy_checks result @ (name, st) # zip (map fst checks) sts"
      "rdy_ready r \<longleftrightarrow> rdy_ready result \<and> st = HealthOk \<and> list_all (\<lambda>st. st = HealthOk) sts"
      by (auto simp: post_def)
    then show ?thesis unfolding post_def by (intro exI [of _ "st # sts"]) auto
  qed
  have "wp (ready_loop ((name, c) # checks) result) (post result ((name, c) # checks)) w"
    unfolding ready_loop.simps wp_rules
  proof (rule wp_mono [OF wp_True])
    fix st w1
    show "wp (ready_loop checks \<lparr>rdy_ready = rdy_ready result \<and> st = HealthOk,
        rdy_checks = rdy_checks result @ [(name, st)]\<rparr>) (post result ((name, c) # checks)) w1"
      by (rule wp_mono [OF "2.IH"]) (rule step [of st], simp only: post_def)
  qed
  then show ?case unfolding post_def .
qed

section \<open>Components\<close>

record 'w component =
  lc_name :: string
  lc_start :: "('w, err + unit) state option"
  lc_stop :: "('w, err + unit) state option"
  lc_health :: "'w check option"

text \<open>\<open>startComponents\<close>: how many are started, and the error of the one that failed.\<close>

fun start_from :: "nat \<Rightarrow> 'w component list \<Rightarrow> ('w, nat \<times> err option) state" where
  "start_from i [] = State_Monad.return (i, None)"
| "start_from i (c # cs) =
     (case lc_start c of
        None \<Rightarrow> start_from (Suc i) cs
      | Some f \<Rightarrow> do {
          r \<leftarrow> f;
          case r of
            Inl e \<Rightarrow> State_Monad.return (i, Some (Wrapped (''start '' @ lc_name c) [e]))
          | Inr _ \<Rightarrow> start_from (Suc i) cs })"

definition start_components :: "'w component list \<Rightarrow> ('w, nat \<times> err option) state" where
  "start_components cs = start_from 0 cs"

text \<open>\<open>stopComponents\<close>: every one of the first \<open>count\<close>, last first; the first error is kept.\<close>

fun stop_list :: "'w component list \<Rightarrow> err option \<Rightarrow> ('w, err option) state" where
  "stop_list [] kept = State_Monad.return kept"
| "stop_list (c # cs) kept =
     (case lc_stop c of
        None \<Rightarrow> stop_list cs kept
      | Some f \<Rightarrow> do {
          r \<leftarrow> f;
          stop_list cs (case (r, kept) of
              (Inl e, None) \<Rightarrow> Some (Wrapped (''stop '' @ lc_name c) [e]) | _ \<Rightarrow> kept) })"

definition stop_components :: "'w component list \<Rightarrow> nat \<Rightarrow> ('w, err option) state" where
  "stop_components cs count = stop_list (rev (take count cs)) None"

definition component_checks :: "'w component list \<Rightarrow> (string \<times> 'w check option) list" where
  "component_checks cs = fold (\<lambda>c m. if lc_health c = None then m
     else AList.update (lc_name c) (lc_health c) m) cs []"

record 'w application =
  ap_components :: "'w component list"
  ap_server :: "('w, err + unit) state option"

definition run_app :: "'w application option \<Rightarrow> ('w, err + unit) state" where
  "run_app a0 =
     (case a0 of
        None \<Rightarrow> State_Monad.return (Inl (Plain ''application is not assembled''))
      | Some a \<Rightarrow>
          (case ap_server a of
             None \<Rightarrow> State_Monad.return (Inl (Plain ''application is not assembled''))
           | Some server \<Rightarrow> do {
               s \<leftarrow> start_components (ap_components a);
               case snd s of
                 Some e \<Rightarrow> do {
                   _ \<leftarrow> stop_components (ap_components a) (fst s);
                   State_Monad.return (Inl e) }
               | None \<Rightarrow> do {
                   r \<leftarrow> server;
                   _ \<leftarrow> stop_components (ap_components a) (fst s);
                   State_Monad.return r } }))"

section \<open>The protocol\<close>

text \<open>
  What happens, as seen from outside: a component's start succeeds or fails, the server runs, a
  component's stop is called.  The state of the protocol is the phase and how many are up.
\<close>

datatype event = Started nat | StartFailed nat | Served | Stopped nat

datatype phase = Starting nat | Serving | Stopping nat

text \<open>\<open>n\<close> components, of which those in \<open>S\<close> have a start and those in \<open>T\<close> a stop function.\<close>

inductive lifecycle_step ::
  "nat \<Rightarrow> (nat \<Rightarrow> bool) \<Rightarrow> (nat \<Rightarrow> bool) \<Rightarrow> phase \<Rightarrow> event option \<Rightarrow> phase \<Rightarrow> bool"
  for n S T where
  Skip_start: "i < n \<Longrightarrow> \<not> S i \<Longrightarrow> lifecycle_step n S T (Starting i) None (Starting (Suc i))"
| Start: "i < n \<Longrightarrow> S i \<Longrightarrow> lifecycle_step n S T (Starting i) (Some (Started i)) (Starting (Suc i))"
| Fail: "i < n \<Longrightarrow> S i \<Longrightarrow> lifecycle_step n S T (Starting i) (Some (StartFailed i)) (Stopping i)"
| All_up: "lifecycle_step n S T (Starting n) None Serving"
| Serve: "lifecycle_step n S T Serving (Some Served) (Stopping n)"
| Skip_stop: "\<not> T i \<Longrightarrow> lifecycle_step n S T (Stopping (Suc i)) None (Stopping i)"
| Stop: "T i \<Longrightarrow> lifecycle_step n S T (Stopping (Suc i)) (Some (Stopped i)) (Stopping i)"

inductive lifecycle_run ::
  "nat \<Rightarrow> (nat \<Rightarrow> bool) \<Rightarrow> (nat \<Rightarrow> bool) \<Rightarrow> phase \<Rightarrow> event list \<Rightarrow> phase \<Rightarrow> bool"
  for n S T where
  Done: "lifecycle_run n S T p [] p"
| Silent: "lifecycle_step n S T p None q \<Longrightarrow> lifecycle_run n S T q es r \<Longrightarrow> lifecycle_run n S T p es r"
| Visible: "lifecycle_step n S T p (Some e) q \<Longrightarrow> lifecycle_run n S T q es r \<Longrightarrow> lifecycle_run n S T p (e # es) r"

inductive_cases stopping_stepE: "lifecycle_step n S T (Stopping k) e q"
inductive_cases serving_stepE: "lifecycle_step n S T Serving e q"
inductive_cases starting_stepE: "lifecycle_step n S T (Starting k) e q"

lemma lifecycle_run_trans:
  "lifecycle_run n S T p es q \<Longrightarrow> lifecycle_run n S T q fs r \<Longrightarrow> lifecycle_run n S T p (es @ fs) r"
  by (induction rule: lifecycle_run.induct) (auto intro: lifecycle_run.intros)

text \<open>The only way through the protocol, as one list of events.\<close>

definition stops :: "(nat \<Rightarrow> bool) \<Rightarrow> nat \<Rightarrow> event list" where
  "stops T k = map Stopped (rev (filter T [0..<k]))"

definition lifecycle_events :: "nat \<Rightarrow> (nat \<Rightarrow> bool) \<Rightarrow> (nat \<Rightarrow> bool) \<Rightarrow> nat \<Rightarrow> event list" where
  "lifecycle_events n S T k =
     map Started (filter S [0..<k]) @ (if k < n then [StartFailed k] else [Served]) @ stops T k"

lemma stops_Suc: "stops T (Suc k) = (if T k then [Stopped k] else []) @ stops T k"
  by (simp add: stops_def)

lemma run_stopping:
  "lifecycle_run n S T p es q \<Longrightarrow> p = Stopping k \<Longrightarrow> q = Stopping 0 \<Longrightarrow> es = stops T k"
proof (induction arbitrary: k rule: lifecycle_run.induct)
  case (Done p)
  then show ?case by (simp add: stops_def)
next
  case (Silent p q es r)
  from Silent.hyps(1) Silent.IH Silent.prems show ?case
    by (auto simp: stops_Suc elim!: stopping_stepE)
next
  case (Visible p e q es r)
  from Visible.hyps(1) Visible.IH Visible.prems show ?case
    by (auto simp: stops_Suc elim!: stopping_stepE)
qed

lemma run_serving:
  "lifecycle_run n S T p es q \<Longrightarrow> p = Serving \<Longrightarrow> q = Stopping 0 \<Longrightarrow> es = Served # stops T n"
  by (induction rule: lifecycle_run.induct) (auto elim!: serving_stepE dest: run_stopping)

lemma run_starting:
  "lifecycle_run n S T p es q \<Longrightarrow> p = Starting i \<Longrightarrow> q = Stopping 0 \<Longrightarrow> i \<le> n \<Longrightarrow>
     \<exists>k. i \<le> k \<and> k \<le> n \<and> (k < n \<longrightarrow> S k) \<and>
       es = map Started (filter S [i..<k]) @ (if k < n then [StartFailed k] else [Served]) @ stops T k"
proof (induction arbitrary: i rule: lifecycle_run.induct)
  case (Done p)
  then show ?case by simp
next
  case (Silent p q es r)
  from Silent.hyps(1) [unfolded Silent.prems(1)] consider
    (Skip_start) "i < n" "q = Starting (Suc i)" "\<not> S i" | (All_up) "i = n" "q = Serving"
    by (rule starting_stepE) auto
  then show ?case
  proof cases
    case Skip_start
    from Silent.IH [OF this(2) Silent.prems(2)] Skip_start obtain k where
      "Suc i \<le> k" "k \<le> n" "k < n \<longrightarrow> S k"
      "es = map Started (filter S [Suc i..<k]) @ (if k < n then [StartFailed k] else [Served]) @ stops T k" by auto
    with Skip_start show ?thesis by (intro exI [of _ k]) (auto simp: upt_conv_Cons)
  next
    case All_up
    with run_serving [OF Silent.hyps(2) _ Silent.prems(2)] show ?thesis
      by (intro exI [of _ n]) auto
  qed
next
  case (Visible p e q es r)
  from Visible.hyps(1) [unfolded Visible.prems(1)] consider
    (Start) "i < n" "q = Starting (Suc i)" "S i" "e = Started i" | (Fail) "i < n" "q = Stopping i" "S i" "e = StartFailed i"
    by (rule starting_stepE) auto
  then show ?case
  proof cases
    case Start
    from Visible.IH [OF this(2) Visible.prems(2)] Start obtain k where
      "Suc i \<le> k" "k \<le> n" "k < n \<longrightarrow> S k"
      "es = map Started (filter S [Suc i..<k]) @ (if k < n then [StartFailed k] else [Served]) @ stops T k" by auto
    with Start show ?thesis by (intro exI [of _ k]) (auto simp: upt_conv_Cons)
  next
    case Fail
    with run_stopping [OF Visible.hyps(2) _ Visible.prems(2)] show ?thesis
      by (intro exI [of _ i]) auto
  qed
qed

lemma lifecycle_run_events:
  "lifecycle_run n S T (Starting 0) es (Stopping 0) \<Longrightarrow>
     \<exists>k \<le> n. (k < n \<longrightarrow> S k) \<and> es = lifecycle_events n S T k"
  using run_starting [of n S T "Starting 0" es "Stopping 0" 0] by (auto simp: lifecycle_events_def)

section \<open>Observing a run\<close>

text \<open>
  The same functions with a log beside the world.  \<open>traces m' m P\<close>: \<open>m'\<close> does what \<open>m\<close> does, and what
  it adds to the log is described by \<open>P\<close>.
\<close>

definition record_event :: "('a \<Rightarrow> event) \<Rightarrow> ('w, 'a) state \<Rightarrow> ('w \<times> event list, 'a) state" where
  "record_event ev f = do {
     w \<leftarrow> State_Monad.get;
     let (r, w1) = run_state f (fst w) in do {
       _ \<leftarrow> State_Monad.set (w1, snd w @ [ev r]);
       State_Monad.return r } }"

definition observe_component :: "nat \<Rightarrow> 'w component \<Rightarrow> ('w \<times> event list) component" where
  "observe_component i c = \<lparr>lc_name = lc_name c,
     lc_start = map_option (record_event (\<lambda>r. case r of Inl _ \<Rightarrow> StartFailed i | Inr _ \<Rightarrow> Started i)) (lc_start c),
     lc_stop = map_option (record_event (\<lambda>_. Stopped i)) (lc_stop c), lc_health = None\<rparr>"

definition observe_all :: "'w component list \<Rightarrow> ('w \<times> event list) component list" where
  "observe_all cs = map (\<lambda>i. observe_component i (cs ! i)) [0..<length cs]"

definition observe_app :: "'w application \<Rightarrow> ('w \<times> event list) application" where
  "observe_app a = \<lparr>ap_components = observe_all (ap_components a),
     ap_server = map_option (record_event (\<lambda>_. Served)) (ap_server a)\<rparr>"

definition traces ::
  "('w \<times> event list, 'a) state \<Rightarrow> ('w, 'a) state \<Rightarrow> ('a \<Rightarrow> event list \<Rightarrow> bool) \<Rightarrow> bool" where
  "traces m' m P \<longleftrightarrow> (\<forall>w log. wp m' (\<lambda>r w'. wp m (\<lambda>r1 w1. r1 = r \<and> w1 = fst w') w \<and>
     (\<exists>es. snd w' = log @ es \<and> P r es)) (w, log))"

lemma traces_return: "P x [] \<Longrightarrow> traces (State_Monad.return x) (State_Monad.return x) P"
  by (simp add: traces_def wp_rules)

lemma traces_record: "(\<And>r. P r [ev r]) \<Longrightarrow> traces (record_event ev f) f P"
  by (simp add: traces_def record_event_def wp_rules wp_fst_snd split: prod.splits)

lemma traces_run:
  assumes "traces m' m P"
  obtains r w1 es where "run_state m' (w, log) = (r, w1, log @ es)" "run_state m w = (r, w1)" "P r es"
proof -
  obtain r w1 l1 where 1: "run_state m' (w, log) = (r, w1, l1)" by (metis prod_cases3)
  obtain r2 w2 where 2: "run_state m w = (r2, w2)" by fastforce
  have "wp m' (\<lambda>r w'. wp m (\<lambda>r1 w1. r1 = r \<and> w1 = fst w') w \<and> (\<exists>es. snd w' = log @ es \<and> P r es)) (w, log)"
    using assms unfolding traces_def by blast
  then have "r2 = r" "w2 = w1" "\<exists>es. l1 = log @ es \<and> P r es" by (simp_all add: wp_def 1 2)
  then show thesis using that 1 2 by blast
qed

lemma traces_bind:
  assumes "traces m' m P" "\<And>x es. P x es \<Longrightarrow> traces (k' x) (k x) (\<lambda>r fs. Q r (es @ fs))"
  shows "traces (State_Monad.bind m' k') (State_Monad.bind m k) Q"
  unfolding traces_def
proof (intro allI)
  fix w log
  obtain x w1 es where m: "run_state m' (w, log) = (x, w1, log @ es)" "run_state m w = (x, w1)" "P x es"
    by (rule traces_run [OF assms(1)])
  obtain r w2 fs where k: "run_state (k' x) (w1, log @ es) = (r, w2, (log @ es) @ fs)"
    "run_state (k x) w1 = (r, w2)" "Q r (es @ fs)"
    by (rule traces_run [OF assms(2) [OF m(3)]])
  show "wp (State_Monad.bind m' k') (\<lambda>r w'. wp (State_Monad.bind m k) (\<lambda>r1 w1. r1 = r \<and> w1 = fst w') w \<and>
      (\<exists>es. snd w' = log @ es \<and> Q r es)) (w, log)"
    using m k by (simp add: wp_rules wp_fst_snd)
qed

lemma traces_mono: "traces m' m P \<Longrightarrow> (\<And>r es. P r es \<Longrightarrow> Q r es) \<Longrightarrow> traces m' m Q"
  unfolding traces_def by (intro allI, drule spec, drule spec, erule wp_mono) auto

section \<open>A run follows the protocol\<close>

definition starts :: "'w component list \<Rightarrow> nat \<Rightarrow> bool" where
  "starts cs i \<longleftrightarrow> lc_start (cs ! i) \<noteq> None"

definition has_stop :: "'w component list \<Rightarrow> nat \<Rightarrow> bool" where
  "has_stop cs i \<longleftrightarrow> lc_stop (cs ! i) \<noteq> None"

lemma drop_observe:
  "i < length cs \<Longrightarrow> drop i (observe_all cs) = observe_component i (cs ! i) # drop (Suc i) (observe_all cs)"
  by (simp add: observe_all_def drop_map upt_conv_Cons)

lemma start_from_traces:
  assumes "i \<le> length cs"
  shows "traces (start_from i (drop i (observe_all cs))) (start_from i (drop i cs))
    (\<lambda>r es. case snd r of
       None \<Rightarrow> fst r = length cs \<and> lifecycle_run (length cs) (starts cs) (has_stop cs) (Starting i) es Serving
     | Some _ \<Rightarrow> fst r \<le> length cs \<and> lifecycle_run (length cs) (starts cs) (has_stop cs) (Starting i) es (Stopping (fst r)))"
  using assms
proof (induction i rule: inc_induct)
  case base
  then show ?case
    using lifecycle_run.Silent [OF lifecycle_step.All_up lifecycle_run.Done, of "length cs" "starts cs" "has_stop cs"]
    by (auto intro!: traces_return simp: observe_all_def)
next
  case (step i)
  have cs: "drop i cs = cs ! i # drop (Suc i) cs" using step.hyps by (simp add: Cons_nth_drop_Suc)
  show ?case
  proof (cases "lc_start (cs ! i)")
    case None
    then have "lifecycle_step (length cs) (starts cs) (has_stop cs) (Starting i) None (Starting (Suc i))"
      using step.hyps by (intro lifecycle_step.Skip_start) (auto simp: starts_def)
    then show ?thesis
      using None step.IH unfolding drop_observe [OF step.hyps(2)] cs
      by (auto simp: observe_component_def intro: lifecycle_run.Silent elim!: traces_mono split: option.splits)
  next
    case (Some f)
    then have s: "starts cs i" by (simp add: starts_def)
    have ok: "traces (start_from (Suc i) (drop (Suc i) (observe_all cs))) (start_from (Suc i) (drop (Suc i) cs))
      (\<lambda>r fs. case snd r of
         None \<Rightarrow> fst r = length cs \<and> lifecycle_run (length cs) (starts cs) (has_stop cs) (Starting i) ([Started i] @ fs) Serving
       | Some _ \<Rightarrow> fst r \<le> length cs \<and>
           lifecycle_run (length cs) (starts cs) (has_stop cs) (Starting i) ([Started i] @ fs) (Stopping (fst r)))"
      using lifecycle_step.Start [OF step.hyps(2), of "starts cs", OF s] step.IH
      by (auto intro: lifecycle_run.Visible elim!: traces_mono split: option.splits)
    have failed: "lifecycle_run (length cs) (starts cs) (has_stop cs) (Starting i) [StartFailed i] (Stopping i)"
      using lifecycle_step.Fail [OF step.hyps(2), of "starts cs", OF s] by (auto intro: lifecycle_run.intros)
    show ?thesis
      unfolding drop_observe [OF step.hyps(2)] cs start_from.simps observe_component_def component.simps Some
        option.map option.case
      by (rule traces_bind [OF traces_record [where P = "\<lambda>r es. es = [case r of Inl _ \<Rightarrow> StartFailed i | Inr _ \<Rightarrow> Started i]"]])
        (use ok failed step.hyps in \<open>auto intro!: traces_return split: sum.splits\<close>)
  qed
qed

lemma take_observe: "k \<le> length cs \<Longrightarrow> take k (observe_all cs) = map (\<lambda>i. observe_component i (cs ! i)) [0..<k]"
  by (simp add: observe_all_def take_map)

lemma stop_list_traces:
  assumes "k \<le> length cs"
  shows "traces (stop_list (rev (take k (observe_all cs))) kept) (stop_list (rev (take k cs)) kept)
    (\<lambda>r es. lifecycle_run n S (has_stop cs) (Stopping k) es (Stopping 0))"
  using assms
proof (induction k arbitrary: kept)
  case 0
  then show ?case by (auto intro: traces_return lifecycle_run.Done)
next
  case (Suc k)
  have split: "rev (take (Suc k) cs) = cs ! k # rev (take k cs)"
    "rev (take (Suc k) (observe_all cs)) = observe_component k (cs ! k) # rev (take k (observe_all cs))"
    using Suc.prems by (simp_all add: take_Suc_conv_app_nth take_observe)
  show ?case
  proof (cases "lc_stop (cs ! k)")
    case None
    then have "lifecycle_step n S (has_stop cs) (Stopping (Suc k)) None (Stopping k)"
      by (intro lifecycle_step.Skip_stop) (simp add: has_stop_def)
    then have "traces (stop_list (rev (take k (observe_all cs))) kept) (stop_list (rev (take k cs)) kept)
        (\<lambda>r es. lifecycle_run n S (has_stop cs) (Stopping (Suc k)) es (Stopping 0))"
      using Suc by (intro traces_mono [OF Suc.IH]) (auto intro: lifecycle_run.Silent)
    then show ?thesis
      unfolding split using None by (simp add: observe_component_def)
  next
    case (Some f)
    then have stop: "lifecycle_step n S (has_stop cs) (Stopping (Suc k)) (Some (Stopped k)) (Stopping k)"
      by (intro lifecycle_step.Stop) (simp add: has_stop_def)
    show ?thesis
      unfolding split stop_list.simps observe_component_def component.simps Some option.map option.case
      by (rule traces_bind [OF traces_record [where P = "\<lambda>r es. es = [Stopped k]"]])
        (use Suc.prems stop in \<open>auto intro: lifecycle_run.Visible intro!: traces_mono [OF Suc.IH]\<close>)
  qed
qed

lemma run_app_traces:
  assumes "ap_server a = Some server"
  shows "traces (run_app (Some (observe_app a))) (run_app (Some a))
    (\<lambda>r es. lifecycle_run (length (ap_components a)) (starts (ap_components a)) (has_stop (ap_components a))
       (Starting 0) es (Stopping 0))"
proof -
  let ?cs = "ap_components a"
  let ?run = "lifecycle_run (length ?cs) (starts ?cs) (has_stop ?cs)"
  have start: "traces (start_components (observe_all ?cs)) (start_components ?cs)
    (\<lambda>r es. case snd r of
       None \<Rightarrow> fst r = length ?cs \<and> ?run (Starting 0) es Serving
     | Some _ \<Rightarrow> fst r \<le> length ?cs \<and> ?run (Starting 0) es (Stopping (fst r)))"
    using start_from_traces [of 0 ?cs] by (simp add: start_components_def)
  have stop: "traces (State_Monad.bind (stop_components (observe_all ?cs) k) (\<lambda>_. State_Monad.return r))
      (State_Monad.bind (stop_components ?cs k) (\<lambda>_. State_Monad.return r))
      (\<lambda>_ fs. ?run (Starting 0) (es @ fs) (Stopping 0))"
    if "k \<le> length ?cs" "?run (Starting 0) es (Stopping k)" for k es and r :: "err + unit"
    unfolding stop_components_def
    by (rule traces_bind [OF stop_list_traces [OF that(1)]])
      (auto intro!: traces_return lifecycle_run_trans [OF that(2)])
  have serve: "?run (Starting 0) (es @ [Served]) (Stopping (length ?cs))" if "?run (Starting 0) es Serving" for es
    using that by (rule lifecycle_run_trans) (auto intro: lifecycle_run.intros lifecycle_step.Serve)
  have server: "traces (State_Monad.bind (record_event (\<lambda>_. Served) server) (\<lambda>r.
        State_Monad.bind (stop_components (observe_all ?cs) k) (\<lambda>_. State_Monad.return r)))
      (State_Monad.bind server (\<lambda>r. State_Monad.bind (stop_components ?cs k) (\<lambda>_. State_Monad.return r)))
      (\<lambda>_ fs. ?run (Starting 0) (es @ fs) (Stopping 0))"
    if "k = length ?cs" "?run (Starting 0) es Serving" for k es
    by (rule traces_bind [OF traces_record [where P = "\<lambda>_ gs. gs = [Served]"]])
      (use stop [OF _ serve [OF that(2)]] that(1) in auto)
  show ?thesis
    unfolding run_app_def option.case observe_app_def application.simps assms option.map
    by (rule traces_bind [OF start]) (auto split: option.splits intro: stop server)
qed

section \<open>Properties\<close>

text \<open>C12: a run of the application follows the life-cycle protocol: the components are started
  in order until one fails; the server runs exactly when none failed; then, whatever failed, every
  component that has been started is stopped, in the reverse order, and no other.  The log that
  records this does not change the run.\<close>

theorem run_follows_lifecycle:
  assumes "ap_server a = Some server"
  shows "wp (run_app (Some (observe_app a))) (\<lambda>r (w', es). run_state (run_app (Some a)) w = (r, w') \<and>
    lifecycle_run (length (ap_components a)) (starts (ap_components a)) (has_stop (ap_components a))
      (Starting 0) es (Stopping 0) \<and>
    (\<exists>k \<le> length (ap_components a). (k < length (ap_components a) \<longrightarrow> starts (ap_components a) k) \<and>
       es = lifecycle_events (length (ap_components a)) (starts (ap_components a)) (has_stop (ap_components a)) k))
    (w, [])"
proof -
  obtain r w1 es where "run_state (run_app (Some (observe_app a))) (w, []) = (r, w1, [] @ es)"
    "run_state (run_app (Some a)) w = (r, w1)"
    "lifecycle_run (length (ap_components a)) (starts (ap_components a)) (has_stop (ap_components a))
      (Starting 0) es (Stopping 0)"
    by (rule traces_run [OF run_app_traces [OF assms], of w "[]"])
  then show ?thesis using lifecycle_run_events by (simp add: wp_def)
qed

definition sample_app :: "nat application" where
  "sample_app = \<lparr>ap_components = [
     \<lparr>lc_name = ''postgresql'', lc_start = Some (State_Monad.return (Inr ())), lc_stop = Some (State_Monad.return (Inr ())),
       lc_health = None\<rparr>,
     \<lparr>lc_name = ''redis'', lc_start = Some (State_Monad.return (Inl (Plain ''refused''))),
       lc_stop = Some (State_Monad.return (Inr ())), lc_health = None\<rparr>],
     ap_server = Some (State_Monad.return (Inr ()))\<rparr>"

lemma run_follows_lifecycle_witness:
  "\<exists>k \<le> 2. snd (snd (run_state (run_app (Some (observe_app sample_app))) (0, []))) =
     lifecycle_events 2 (starts (ap_components sample_app)) (has_stop (ap_components sample_app)) k"
proof -
  have "ap_server sample_app = Some (State_Monad.return (Inr ()))" "length (ap_components sample_app) = 2"
    by (simp_all add: sample_app_def)
  with run_follows_lifecycle [OF this(1), of 0] show ?thesis
    by (auto simp: wp_fst_snd split: prod.splits)
qed

end
