(* ===== verification/AuthContract.thy ===== *)
theory AuthContract
  imports AuthModel
begin

text \<open>
  What the authentication service relies on: the session store as a partial map from session ids
  to sessions that operations may end, add one to or rotate, and the user service as a reader of
  the users table.  \<open>inv\<close> is the provider's own invariant, \<open>rest\<close> the part of the world its
  operations leave alone.
\<close>

text \<open>Sessions may end; none appears or changes.\<close>

definition ends :: "(uuid \<Rightarrow> session option) \<Rightarrow> (uuid \<Rightarrow> session option) \<Rightarrow> bool" where
  "ends f g \<longleftrightarrow> (\<forall>i s. g i = Some s \<longrightarrow> f i = Some s)"

text \<open>
  The session after a rotation; \<open>L\<close> is the passage of the version number through the script's
  floating-point numbers.
\<close>

definition rotated :: "(int \<Rightarrow> int) \<Rightarrow> session \<Rightarrow> string \<Rightarrow> time \<Rightarrow> session" where
  "rotated L s g expires = s\<lparr>s_user_version := L (s_user_version s), s_current_digest := g,
     s_expires_at := expires\<rparr>"

definition may_rotate ::
  "(int \<Rightarrow> int) \<Rightarrow> string \<Rightarrow> string \<Rightarrow> time \<Rightarrow> (uuid \<Rightarrow> session option) \<Rightarrow> (uuid \<Rightarrow> session option) \<Rightarrow> bool" where
  "may_rotate L old new expires f g \<longleftrightarrow> (\<forall>i x. g i = Some x \<longrightarrow>
     f i = Some x \<or> (\<exists>s. f i = Some s \<and> s_current_digest s = old \<and> x = rotated L s new expires))"

lemma ends_refl [simp]: "ends f f"
  by (simp add: ends_def)

lemma ends_trans: "ends f g \<Longrightarrow> ends g h \<Longrightarrow> ends f h"
  by (simp add: ends_def)

lemma ends_None: "ends f g \<Longrightarrow> f i = None \<Longrightarrow> g i = None"
  by (cases "g i") (auto simp: ends_def)

lemma may_rotate_ends: "may_rotate L old new e f g \<Longrightarrow> ends g h \<Longrightarrow> may_rotate L old new e f h"
  unfolding may_rotate_def ends_def by blast

lemma ends_may_rotate: "ends f g \<Longrightarrow> may_rotate L old new e f g"
  unfolding may_rotate_def ends_def by blast

text \<open>A refresh lifetime of whole seconds, which is what \<open>EXPIRE\<close> can express.\<close>

definition whole_seconds :: "duration \<Rightarrow> bool" where
  "whole_seconds ttl \<longleftrightarrow> 0 < ttl \<and> ttl mod second = 0"

locale session_contract =
  fixes st :: "'w session_store" and S :: "'w \<Rightarrow> uuid \<Rightarrow> session option" and inv :: "'w \<Rightarrow> bool"
    and L :: "int \<Rightarrow> int" and ttl :: duration and rest :: "'w \<Rightarrow> 'o" and lawful :: bool
  assumes keyed: "lawful \<Longrightarrow> inv w \<Longrightarrow> S w i = Some s \<Longrightarrow> s_id s = i"
    and get: "lawful \<Longrightarrow> inv w \<Longrightarrow> wp (st_get st i) (\<lambda>r w'. inv w' \<and> rest w' = rest w \<and>
      ends (S w) (S w') \<and> (case r of Inr s \<Rightarrow> S w' i = Some s \<and> s_id s = i
        | Inl e \<Rightarrow> err_is InvalidToken e \<longrightarrow> S w' i = None)) w"
    and revoke: "lawful \<Longrightarrow> inv w \<Longrightarrow> wp (st_revoke st i) (\<lambda>r w'. inv w' \<and> rest w' = rest w \<and>
      ends (S w) (S w') \<and> (r = Inr () \<longrightarrow> S w' i = None)) w"
    and revoke_user: "lawful \<Longrightarrow> inv w \<Longrightarrow> wp (st_revoke_user st u) (\<lambda>r w'. inv w' \<and> rest w' = rest w \<and>
      ends (S w) (S w') \<and> (r = Inr () \<longrightarrow> (\<forall>i s. S w' i = Some s \<longrightarrow> s_user_id s \<noteq> u))) w"
    and list: "lawful \<Longrightarrow> inv w \<Longrightarrow> wp (st_list_by_user st u) (\<lambda>r w'. inv w' \<and> rest w' = rest w \<and>
      ends (S w) (S w') \<and> on_ok (\<lambda>ss. (\<forall>s \<in> set ss. S w (s_id s) = Some s \<and> s_user_id s = u) \<and>
        (\<forall>i s. S w' i = Some s \<longrightarrow> s_user_id s = u \<longrightarrow> s \<in> set ss)) r) w"
    and create: "lawful \<Longrightarrow> inv w \<Longrightarrow> wp (st_create st s ttl multi) (\<lambda>r w'. inv w' \<and> rest w' = rest w \<and>
      (\<forall>j x. S w' j = Some x \<longrightarrow> S w j = Some x \<or> j = s_id s \<and> x = s) \<and>
      (r = Inr () \<longrightarrow> S w' (s_id s) = Some s \<and>
        (\<not> multi \<longrightarrow> (\<forall>j x. S w' j = Some x \<longrightarrow> s_user_id x = s_user_id s \<longrightarrow> j = s_id s)))) w"
    and rotate: "lawful \<Longrightarrow> inv w \<Longrightarrow> wp (st_rotate st old new now ttl) (\<lambda>r w'. inv w' \<and> rest w' = rest w \<and>
      may_rotate L old new (now + ttl) (S w) (S w') \<and>
      (case r of Inr s' \<Rightarrow> (\<exists>s. S w (s_id s) = Some s \<and> s_current_digest s = old \<and>
          s' = rotated L s new (now + ttl) \<and> S w' (s_id s) = Some s')
        | Inl e \<Rightarrow> (err_is InvalidToken e \<or> err_is RefreshReuse e \<longrightarrow> ends (S w) (S w')))) w"

text \<open>The user service; \<open>checks name password row\<close> is what accepting credentials entails.\<close>

locale account_contract =
  fixes us :: "'w auth_users" and tbl :: "'w \<Rightarrow> users" and frame :: "'w \<Rightarrow> 'o"
    and checks :: "string \<Rightarrow> string \<Rightarrow> db_user \<Rightarrow> bool" and lawful :: bool
  assumes get_account: "lawful \<Longrightarrow> wp (au_get_by_id us uid) (\<lambda>r w'. frame w' = frame w \<and> tbl w' = tbl w \<and>
      on_ok (\<lambda>u. \<exists>row. find_user uid (tbl w) = Some row \<and> u = to_user row) r) w"
    and verify_account: "lawful \<Longrightarrow> wp (au_verify_credentials us name password) (\<lambda>r w'. frame w' = frame w \<and>
      on_ok (\<lambda>u. \<exists>row \<in> set (tbl w). checks name password row \<and> u_id u = c_id row \<and>
        u_status u = c_status row \<and> u_session_version u = c_session_version row \<and>
        u_allow_multiple_sessions u = c_allow_multiple_sessions row) r) w"
    and record_account: "lawful \<Longrightarrow> wp (au_record_login us uid) (\<lambda>_ w'. frame w' = frame w) w"

text \<open>
  The login counters: a call counts one, in the running window or as the first of a new one, and
  allows as long as the count is within the limit; the counter then shows it, unless the window
  has passed meanwhile.
\<close>

locale limiter_contract =
  fixes rl :: "'w rate_limiter" and C :: "'w \<Rightarrow> string \<Rightarrow> int" and S :: "'w \<Rightarrow> uuid \<Rightarrow> session option"
    and inv :: "'w \<Rightarrow> bool" and rest :: "'w \<Rightarrow> 'o" and lawful :: bool
  assumes allow: "lawful \<Longrightarrow> inv w \<Longrightarrow> 0 < window \<Longrightarrow> wp (rl_allow rl k limit window) (\<lambda>r w'. inv w' \<and>
      rest w' = rest w \<and> ends (S w) (S w') \<and>
      on_ok (\<lambda>b. \<exists>n. (b \<longleftrightarrow> n \<le> limit) \<and> (n = C w k + 1 \<or> n = 1) \<and> (C w' k = n \<or> C w' k = 0)) r) w"

text \<open>All together: each side leaves the other's state alone.\<close>

locale auth_providers =
  sessions: session_contract st S inv L ttl tbl lawful +
  limiter: limiter_contract rl C S inv tbl lawful +
  accounts: account_contract us tbl frame checks lawful
  for st :: "'w session_store" and S inv L ttl and tbl :: "'w \<Rightarrow> users" and rl C us frame checks lawful +
  assumes frame: "lawful \<Longrightarrow> frame w' = frame w \<Longrightarrow> S w' = S w \<and> inv w' = inv w"

end
