(* ===== verification/ConfigTypes.thy ===== *)
theory ConfigTypes
  imports Shared
begin

text \<open>
  The configuration records of \<open>internal/platform/config/config.go\<close> and their defaults.  Field
  names carry the initial of their record; durations are nanoseconds and Go's \<open>int\<close> is \<open>int\<close>, the
  values being read from 64-bit parsers and range checked by \<open>Validate\<close>.
\<close>

record app_config =
  a_environment :: string
  a_debug :: bool
  a_docs_enabled :: bool

record server_config =
  sv_host :: string
  sv_port :: int
  sv_header_timeout :: duration
  sv_read_timeout :: duration
  sv_write_timeout :: duration
  sv_idle_timeout :: duration
  sv_shutdown_timeout :: duration
  sv_trusted_proxies :: "string list"

datatype secret = Secret string

fun reveal :: "secret \<Rightarrow> string" where
  "reveal (Secret s) = s"

fun secret_string :: "secret \<Rightarrow> string" where
  "secret_string (Secret s) = (if s = '''' then '''' else ''[REDACTED]'')"

record database_config =
  d_host :: string
  d_port :: int
  d_name :: string
  d_user :: string
  d_password :: secret
  d_password_file :: string
  d_ssl_mode :: string
  d_min_connections :: int
  d_max_connections :: int
  d_connect_timeout :: duration
  d_health_timeout :: duration

record redis_config =
  r_host :: string
  r_port :: int
  r_database :: int
  r_username :: string
  r_password :: secret
  r_password_file :: string
  r_tls :: bool
  r_pool_size :: int
  r_min_idle_conns :: int
  r_connect_timeout :: duration
  r_read_timeout :: duration
  r_write_timeout :: duration
  r_health_timeout :: duration

record cors_config =
  co_allow_origins :: "string list"
  co_allow_methods :: "string list"
  co_allow_headers :: "string list"
  co_allow_credentials :: bool

record auth_config =
  au_issuer :: string
  au_audience :: string
  au_access_token_ttl :: duration
  au_refresh_token_ttl :: duration
  au_private_key :: secret
  au_private_key_file :: string
  au_key_id :: string
  au_verification_key_files :: "(string \<times> string) list"
  au_verification_keys :: "(string \<times> string) list"
  au_refresh_cookie :: string
  au_cookie_domain :: string
  au_cookie_path :: string
  au_cookie_secure :: bool
  au_cookie_same_site :: string
  au_login_attempts :: int
  au_login_window :: duration

record file_config =
  f_storage_path :: string
  f_image_max_bytes :: int
  f_video_enabled :: bool
  f_video_max_bytes :: int

record log_config =
  l_level :: string
  l_format :: string

record module_config =
  m_file :: bool
  m_system_config :: bool

record config =
  cfg_app :: app_config
  cfg_server :: server_config
  cfg_database :: database_config
  cfg_redis :: redis_config
  cfg_cors :: cors_config
  cfg_auth :: auth_config
  cfg_file :: file_config
  cfg_cache_ttl :: duration
  cfg_log :: log_config
  cfg_modules :: module_config

definition default_config :: config where
  "default_config = \<lparr>
     cfg_app = \<lparr>a_environment = ''development'', a_debug = False, a_docs_enabled = True\<rparr>,
     cfg_server = \<lparr>sv_host = ''0.0.0.0'', sv_port = 8000, sv_header_timeout = 5 * second,
       sv_read_timeout = 15 * second, sv_write_timeout = 15 * second,
       sv_idle_timeout = 60 * second, sv_shutdown_timeout = 15 * second, sv_trusted_proxies = []\<rparr>,
     cfg_database = \<lparr>d_host = ''127.0.0.1'', d_port = 5432, d_name = ''goba'', d_user = ''goba'',
       d_password = Secret '''', d_password_file = '''', d_ssl_mode = ''disable'',
       d_min_connections = 1, d_max_connections = 10, d_connect_timeout = 5 * second,
       d_health_timeout = 2 * second\<rparr>,
     cfg_redis = \<lparr>r_host = ''127.0.0.1'', r_port = 6379, r_database = 0, r_username = '''',
       r_password = Secret '''', r_password_file = '''', r_tls = False, r_pool_size = 10,
       r_min_idle_conns = 1, r_connect_timeout = 5 * second, r_read_timeout = 3 * second,
       r_write_timeout = 3 * second, r_health_timeout = 2 * second\<rparr>,
     cfg_cors = \<lparr>co_allow_origins = [],
       co_allow_methods = [''GET'', ''POST'', ''PUT'', ''PATCH'', ''DELETE'', ''OPTIONS''],
       co_allow_headers = [''Content-Type'', ''Authorization'', ''X-Request-ID''],
       co_allow_credentials = False\<rparr>,
     cfg_auth = \<lparr>au_issuer = ''goba-slim'', au_audience = ''goba-slim'',
       au_access_token_ttl = 15 * 60 * second, au_refresh_token_ttl = 720 * 3600 * second,
       au_private_key = Secret '''', au_private_key_file = '''', au_key_id = ''default'',
       au_verification_key_files = [], au_verification_keys = [],
       au_refresh_cookie = ''goba_refresh'', au_cookie_domain = '''',
       au_cookie_path = ''/api/v1/auth'', au_cookie_secure = False,
       au_cookie_same_site = ''strict'', au_login_attempts = 5, au_login_window = 60 * second\<rparr>,
     cfg_file = \<lparr>f_storage_path = ''var/uploads'', f_image_max_bytes = 5 * 2 ^ 20,
       f_video_enabled = False, f_video_max_bytes = 100 * 2 ^ 20\<rparr>,
     cfg_cache_ttl = 5 * 60 * second,
     cfg_log = \<lparr>l_level = ''info'', l_format = ''json''\<rparr>,
     cfg_modules = \<lparr>m_file = False, m_system_config = False\<rparr>\<rparr>"

end
