(* ===== verification/Tokens.thy ===== *)
theory Tokens
  imports ConfigTypes AuthModel
begin

text \<open>
  \<open>internal/modules/auth/jwt.go\<close>: loading the Ed25519 keys, signing and verifying access tokens.
  The PEM and X.509 decoders, the JWT library and Ed25519 are fields of the parameter \<open>jwt_lib\<close>,
  over abstract private and public keys; \<open>jwt_laws\<close> states what \<open>jwt.ParseWithClaims\<close> documents: it
  accepts exactly the decodable tokens with an allowed algorithm, a key from the key function, a
  valid signature, the expected issuer and audience and a time inside the validity window.
\<close>

record claims =
  cl_session_id :: uuid
  cl_version :: int
  cl_issuer :: string
  cl_audience :: "string list"
  cl_subject :: string
  cl_issued_at :: "time option"
  cl_not_before :: "time option"
  cl_expires_at :: "time option"
  cl_id :: string

text \<open>A decoded token: the algorithm and key id of its header, and its claims.\<close>

record jwt_token =
  jt_alg :: string
  jt_kid :: "string option"
  jt_claims :: claims

datatype ('sk, 'pk) parsed_key = Ed25519Private 'sk | Ed25519Public 'pk | OtherKey

record ('sk, 'pk) jwt_lib =
  pem_decode :: "string \<Rightarrow> (string \<times> string) option"
  pkcs8_parse :: "string \<Rightarrow> ('sk, 'pk) parsed_key option"
  pkix_parse :: "string \<Rightarrow> ('sk, 'pk) parsed_key option"
  public_of :: "'sk \<Rightarrow> 'pk"
  jwt_sign :: "'sk \<Rightarrow> jwt_token \<Rightarrow> string option"
  jwt_decode :: "string \<Rightarrow> jwt_token option"
  jwt_signed_by :: "'pk \<Rightarrow> string \<Rightarrow> bool"
  jwt_parse :: "(jwt_token \<Rightarrow> err + 'pk) \<Rightarrow> string \<Rightarrow> string \<Rightarrow> time \<Rightarrow> string list \<Rightarrow> string \<Rightarrow> err + jwt_token"

definition alg_eddsa :: string where "alg_eddsa = ''EdDSA''"

text \<open>Dates in a token have a precision of one second.\<close>

definition numeric_date :: "time \<Rightarrow> time" where
  "numeric_date t = (t div second) * second"

definition in_window :: "claims \<Rightarrow> time \<Rightarrow> bool" where
  "in_window c now \<longleftrightarrow> (case cl_expires_at c of None \<Rightarrow> True | Some e \<Rightarrow> now < e) \<and>
     (case cl_not_before c of None \<Rightarrow> True | Some b \<Rightarrow> b \<le> now)"

definition jwt_laws :: "('sk, 'pk) jwt_lib \<Rightarrow> bool" where
  "jwt_laws J \<longleftrightarrow>
     (\<forall>keyf iss aud now algs enc tok. jwt_parse J keyf iss aud now algs enc = Inr tok \<longleftrightarrow>
        jwt_decode J enc = Some tok \<and> jt_alg tok \<in> set algs \<and>
        (\<exists>pk. keyf tok = Inr pk \<and> jwt_signed_by J pk enc) \<and>
        cl_issuer (jt_claims tok) = iss \<and> aud \<in> set (cl_audience (jt_claims tok)) \<and>
        in_window (jt_claims tok) now) \<and>
     (\<forall>sk tok enc. jwt_sign J sk tok = Some enc \<longrightarrow>
        jwt_decode J enc = Some tok \<and> jwt_signed_by J (public_of J sk) enc)"

record ('sk, 'pk) tokens =
  tk_private_key :: 'sk
  tk_public_keys :: "string \<Rightarrow> 'pk option"
  tk_issuer :: string
  tk_audience :: string
  tk_key_id :: string
  tk_ttl :: duration

definition parse_public_key :: "('sk, 'pk) jwt_lib \<Rightarrow> string \<Rightarrow> err + 'pk" where
  "parse_public_key J encoded =
     (case pem_decode J encoded of
        None \<Rightarrow> Inl (Plain ''not an Ed25519 PKIX PEM'')
      | Some (block, rest) \<Rightarrow>
          if rest \<noteq> '''' then Inl (Plain ''not an Ed25519 PKIX PEM'')
          else (case pkix_parse J block of
              None \<Rightarrow> Inl (Plain ''not an Ed25519 PKIX PEM'')
            | Some (Ed25519Public pk) \<Rightarrow> Inr pk
            | Some _ \<Rightarrow> Inl (Plain ''not an Ed25519 public key'')))"

text \<open>The loop over the verification keys, in the order the map yields them.\<close>

fun add_keys ::
  "('sk, 'pk) jwt_lib \<Rightarrow> string \<Rightarrow> (string \<times> string) list \<Rightarrow> (string \<Rightarrow> 'pk option) \<Rightarrow>
    err + (string \<Rightarrow> 'pk option)" where
  "add_keys J current [] keys = Inr keys"
| "add_keys J current ((key_id, encoded) # others) keys =
     (if key_id = current then Inl (Plain ''verification keys must not contain the current key_id'')
      else (case parse_public_key J encoded of
          Inl e \<Rightarrow> Inl (Wrapped ''parse verification key'' [e])
        | Inr pk \<Rightarrow> add_keys J current others (keys(key_id \<mapsto> pk))))"

definition new_tokens :: "('sk, 'pk) jwt_lib \<Rightarrow> auth_config \<Rightarrow> err + ('sk, 'pk) tokens" where
  "new_tokens J cfg =
     (case pem_decode J (reveal (au_private_key cfg)) of
        None \<Rightarrow> Inl (Plain ''auth.private_key must be an Ed25519 PKCS#8 PEM'')
      | Some (block, _) \<Rightarrow>
          (case pkcs8_parse J block of
             None \<Rightarrow> Inl (Plain ''parse Ed25519 private key'')
           | Some (Ed25519Private sk) \<Rightarrow>
               (case add_keys J (au_key_id cfg) (au_verification_keys cfg) [au_key_id cfg \<mapsto> public_of J sk] of
                  Inl e \<Rightarrow> Inl e
                | Inr keys \<Rightarrow> Inr \<lparr>tk_private_key = sk, tk_public_keys = keys,
                    tk_issuer = au_issuer cfg, tk_audience = au_audience cfg,
                    tk_key_id = au_key_id cfg, tk_ttl = au_access_token_ttl cfg\<rparr>)
           | Some _ \<Rightarrow> Inl (Plain ''auth.private_key is not an Ed25519 private key'')))"

text \<open>The token id is a fresh random UUID, from the world.\<close>

definition sign_claims :: "uuid_pkg \<Rightarrow> ('sk, 'pk) tokens \<Rightarrow> uuid \<Rightarrow> uuid \<Rightarrow> int \<Rightarrow> time \<Rightarrow> string \<Rightarrow> claims" where
  "sign_claims P t uid sid version now token_id = \<lparr>
     cl_session_id = sid, cl_version = version, cl_issuer = tk_issuer t,
     cl_audience = [tk_audience t], cl_subject = u_string P uid,
     cl_issued_at = Some (numeric_date now), cl_not_before = Some (numeric_date now),
     cl_expires_at = Some (numeric_date (now + tk_ttl t)), cl_id = token_id\<rparr>"

definition tokens_sign ::
  "uuid_pkg \<Rightarrow> ('sk, 'pk) jwt_lib \<Rightarrow> ('w, uuid) state \<Rightarrow> ('sk, 'pk) tokens \<Rightarrow>
    uuid \<Rightarrow> uuid \<Rightarrow> int \<Rightarrow> time \<Rightarrow> ('w, err + string \<times> time) state" where
  "tokens_sign P J new_id t uid sid version now = do {
     i \<leftarrow> new_id;
     let tok = \<lparr>jt_alg = alg_eddsa, jt_kid = Some (tk_key_id t),
                jt_claims = sign_claims P t uid sid version now (u_string P i)\<rparr> in
     case jwt_sign J (tk_private_key t) tok of
       None \<Rightarrow> State_Monad.return (Inl (Wrapped ''sign access token'' [Plain ''jwt'']))
     | Some enc \<Rightarrow> State_Monad.return (Inr (enc, now + tk_ttl t)) }"

text \<open>The key function handed to the parser.\<close>

definition key_for :: "('sk, 'pk) tokens \<Rightarrow> jwt_token \<Rightarrow> err + 'pk" where
  "key_for t tok =
     (if jt_alg tok \<noteq> alg_eddsa then Inl (Sentinel InvalidToken)
      else (case jt_kid tok of
          None \<Rightarrow> Inl (Sentinel InvalidToken)
        | Some kid \<Rightarrow>
            if kid = '''' then Inl (Sentinel InvalidToken)
            else (case tk_public_keys t kid of
                None \<Rightarrow> Inl (Sentinel InvalidToken)
              | Some pk \<Rightarrow> Inr pk)))"

definition tokens_verify :: "('sk, 'pk) jwt_lib \<Rightarrow> ('sk, 'pk) tokens \<Rightarrow> string \<Rightarrow> time \<Rightarrow> err + claims" where
  "tokens_verify J t encoded now =
     (case jwt_parse J (key_for t) (tk_issuer t) (tk_audience t) now [alg_eddsa] encoded of
        Inl _ \<Rightarrow> Inl (Sentinel InvalidToken)
      | Inr tok \<Rightarrow>
          let c = jt_claims tok in
          if cl_subject c = '''' \<or> cl_session_id c = 0 \<or> cl_id c = ''''
          then Inl (Sentinel InvalidToken) else Inr c)"

section \<open>Correctness\<close>

lemma tokens_verify_Inr:
  assumes "jwt_laws J"
  shows "tokens_verify J t enc now = Inr c \<longleftrightarrow>
    (\<exists>tok pk kid. jwt_decode J enc = Some tok \<and> c = jt_claims tok \<and> jt_alg tok = alg_eddsa \<and>
       jt_kid tok = Some kid \<and> kid \<noteq> '''' \<and> tk_public_keys t kid = Some pk \<and> jwt_signed_by J pk enc \<and>
       cl_issuer c = tk_issuer t \<and> tk_audience t \<in> set (cl_audience c) \<and> in_window c now \<and>
       cl_subject c \<noteq> '''' \<and> cl_session_id c \<noteq> 0 \<and> cl_id c \<noteq> '''')"
proof -
  have parse: "jwt_parse J (key_for t) (tk_issuer t) (tk_audience t) now [alg_eddsa] enc = Inr tok \<longleftrightarrow>
      jwt_decode J enc = Some tok \<and> jt_alg tok = alg_eddsa \<and>
      (\<exists>pk. key_for t tok = Inr pk \<and> jwt_signed_by J pk enc) \<and>
      cl_issuer (jt_claims tok) = tk_issuer t \<and> tk_audience t \<in> set (cl_audience (jt_claims tok)) \<and>
      in_window (jt_claims tok) now" for tok
    using assms by (simp add: jwt_laws_def)
  have key: "key_for t tok = Inr pk \<longleftrightarrow> jt_alg tok = alg_eddsa \<and>
      (\<exists>kid. jt_kid tok = Some kid \<and> kid \<noteq> '''' \<and> tk_public_keys t kid = Some pk)" for tok pk
    by (auto simp: key_for_def split: option.splits)
  have "tokens_verify J t enc now = Inr c \<longleftrightarrow>
      (\<exists>tok. jwt_parse J (key_for t) (tk_issuer t) (tk_audience t) now [alg_eddsa] enc = Inr tok \<and>
         c = jt_claims tok \<and> cl_subject c \<noteq> '''' \<and> cl_session_id c \<noteq> 0 \<and> cl_id c \<noteq> '''')"
    by (auto simp: tokens_verify_def Let_def split: sum.splits)
  then show ?thesis unfolding parse key by auto
qed

lemma add_keys_keeps:
  "add_keys J current others keys = Inr keys' \<Longrightarrow> keys' current = keys current"
  by (induction J current others keys rule: add_keys.induct) (auto split: if_splits sum.splits)

lemma new_tokens_Inr:
  assumes "new_tokens J cfg = Inr t"
  shows "tk_public_keys t (tk_key_id t) = Some (public_of J (tk_private_key t)) \<and>
    tk_issuer t = au_issuer cfg \<and> tk_audience t = au_audience cfg \<and> tk_key_id t = au_key_id cfg \<and>
    tk_ttl t = au_access_token_ttl cfg"
  using assms
  by (auto simp: new_tokens_def split: option.splits sum.splits parsed_key.splits dest!: add_keys_keeps)

lemma numeric_date_le: "numeric_date t \<le> t"
  unfolding numeric_date_def using div_mult_mod_eq [of t second] pos_mod_sign [of second t] by linarith

lemma tokens_sign_spec:
  "wp (tokens_sign P J new_id t uid sid version now) (\<lambda>r _. on_ok (\<lambda>(enc, exp). exp = now + tk_ttl t \<and>
     (\<exists>i. jwt_sign J (tk_private_key t) \<lparr>jt_alg = alg_eddsa, jt_kid = Some (tk_key_id t),
        jt_claims = sign_claims P t uid sid version now (u_string P i)\<rparr> = Some enc)) r) w"
  unfolding tokens_sign_def wp_rules
  by (rule wp_mono [OF wp_True]) (auto simp: wp_rules Let_def split: option.splits)

end
