(* ===== verification/AuthService.thy ===== *)
theory AuthService
  imports AuthContract Tokens Sorting
begin

text \<open>
  \<open>internal/modules/auth/service.go\<close>: login, refresh, authentication of access tokens and the
  management of sessions, over the three interfaces.  Randomness, new identifiers, SHA-256 and the
  libraries of the token code are the fields of \<open>auth_env\<close>; \<open>uuid.Must(uuid.NewV7())\<close> does not
  return when randomness fails, so the generator is total.
\<close>

record ('w, 'sk, 'pk) auth_env =
  ae_unicode :: unicode
  ae_uuid :: uuid_pkg
  ae_jwt :: "('sk, 'pk) jwt_lib"
  ae_sha256 :: "string \<Rightarrow> string"
  ae_rand :: "'w rand_read"
  ae_new_v7 :: "('w, uuid) state"
  ae_new_v4 :: "('w, uuid) state"

record ('w, 'sk, 'pk) auth_service =
  as_users :: "'w auth_users"
  as_sessions :: "'w session_store"
  as_limiter :: "'w rate_limiter"
  as_tokens :: "('sk, 'pk) tokens"
  as_clock :: "'w \<Rightarrow> time"
  as_refresh_ttl :: duration
  as_max_attempts :: int
  as_login_window :: duration

definition new_auth_service ::
  "'w auth_users option \<Rightarrow> 'w session_store option \<Rightarrow> 'w rate_limiter option \<Rightarrow>
    ('sk, 'pk) tokens option \<Rightarrow> ('w \<Rightarrow> time) option \<Rightarrow> duration \<Rightarrow> int \<Rightarrow> duration \<Rightarrow>
    err + ('w, 'sk, 'pk) auth_service" where
  "new_auth_service users sessions limiter tokens clk refresh_ttl max_attempts login_window =
     (case (users, sessions, limiter, tokens, clk) of
        (Some u, Some s, Some l, Some t, Some c) \<Rightarrow> Inr \<lparr>
          as_users = u, as_sessions = s, as_limiter = l, as_tokens = t, as_clock = c,
          as_refresh_ttl = refresh_ttl, as_max_attempts = max_attempts,
          as_login_window = login_window\<rparr>
      | _ \<Rightarrow> Inl (Plain ''auth service dependencies must not be nil''))"

section \<open>Refresh tokens\<close>

text \<open>\<open>base64.RawURLEncoding\<close> is the unpadded encoding with \<open>-\<close> and \<open>_\<close> for \<open>+\<close> and \<open>/\<close>.\<close>

definition url_char :: "char \<Rightarrow> char" where
  "url_char c = (if c = CHR ''+'' then CHR ''-'' else if c = CHR ''/'' then CHR ''_'' else c)"

definition b64url_encode :: "string \<Rightarrow> string" where
  "b64url_encode s = map url_char (b64_encode s)"

definition digest_token :: "(string \<Rightarrow> string) \<Rightarrow> string \<Rightarrow> string" where
  "digest_token sha256 tok = b64url_encode (sha256 tok)"

definition new_refresh_token ::
  "(string \<Rightarrow> string) \<Rightarrow> 'w rand_read \<Rightarrow> ('w, err + string \<times> string) state" where
  "new_refresh_token sha256 rand = do {
     r \<leftarrow> rand 32;
     case r of
       Inl e \<Rightarrow> State_Monad.return (Inl (Wrapped ''generate refresh token'' [e]))
     | Inr v \<Rightarrow> (let tok = b64url_encode v in State_Monad.return (Inr (tok, digest_token sha256 tok))) }"

section \<open>Operations\<close>

definition unavailable :: "string \<Rightarrow> err \<Rightarrow> err" where
  "unavailable what e = Wrapped what [Sentinel AuthUnavailable, e]"

text \<open>The loop over the limiter keys.\<close>

fun check_limits :: "('w, 'sk, 'pk) auth_service \<Rightarrow> string list \<Rightarrow> ('w, err + unit) state" where
  "check_limits s [] = State_Monad.return (Inr ())"
| "check_limits s (k # ks) = do {
     a \<leftarrow> rl_allow (as_limiter s) k (as_max_attempts s) (as_login_window s);
     case a of
       Inl e \<Rightarrow> State_Monad.return (Inl (unavailable ''login limit'' e))
     | Inr allowed \<Rightarrow>
         if \<not> allowed then State_Monad.return (Inl (Sentinel RateLimited)) else check_limits s ks }"

text \<open>The second half of \<open>Login\<close>, for an account whose credentials were accepted.\<close>

definition open_session ::
  "('w, 'sk, 'pk) auth_env \<Rightarrow> ('w, 'sk, 'pk) auth_service \<Rightarrow> user \<Rightarrow> ('w, err + token_pair) state" where
  "open_session E s account = do {
     now \<leftarrow> clock_now (as_clock s);
     session_id \<leftarrow> ae_new_v7 E;
     family_id \<leftarrow> ae_new_v7 E;
     t \<leftarrow> new_refresh_token (ae_sha256 E) (ae_rand E);
     case t of
       Inl e \<Rightarrow> State_Monad.return (Inl e)
     | Inr (refresh, digest) \<Rightarrow> do {
         let session = \<lparr>s_id = session_id, s_family_id = family_id, s_user_id = u_id account,
           s_user_version = u_session_version account, s_current_digest = digest,
           s_created_at = now, s_expires_at = now + as_refresh_ttl s\<rparr>;
         c \<leftarrow> st_create (as_sessions s) session (as_refresh_ttl s) (u_allow_multiple_sessions account);
         case c of
           Inl e \<Rightarrow> State_Monad.return (Inl (unavailable ''create auth session'' e))
         | Inr _ \<Rightarrow> do {
             a \<leftarrow> tokens_sign (ae_uuid E) (ae_jwt E) (ae_new_v4 E) (as_tokens s) (u_id account)
                    session_id (u_session_version account) now;
             case a of
               Inl e \<Rightarrow> do {
                 _ \<leftarrow> st_revoke (as_sessions s) session_id;
                 State_Monad.return (Inl e) }
             | Inr (access, expires_at) \<Rightarrow> do {
                 l \<leftarrow> au_record_login (as_users s) (u_id account);
                 case l of
                   Inl e \<Rightarrow> do {
                     _ \<leftarrow> st_revoke (as_sessions s) session_id;
                     State_Monad.return (Inl e) }
                 | Inr _ \<Rightarrow> State_Monad.return (Inr \<lparr>tp_access_token = access,
                     tp_refresh_token = refresh, tp_expires_at = expires_at,
                     tp_session_id = session_id, tp_user = account\<rparr>) } } } }"

definition login ::
  "('w, 'sk, 'pk) auth_env \<Rightarrow> ('w, 'sk, 'pk) auth_service \<Rightarrow> string \<Rightarrow> string \<Rightarrow> string \<Rightarrow>
    ('w, err + token_pair) state" where
  "login E s name password client_key0 =
     (let normalized = to_lower (ae_unicode E) (trim_space (ae_unicode E) name);
          trimmed = trim_space (ae_unicode E) client_key0;
          client_key = (if trimmed = '''' then ''unknown'' else trimmed)
      in do {
        limits \<leftarrow> check_limits s [''ip:'' @ client_key, ''account:'' @ normalized];
        case limits of
          Inl e \<Rightarrow> State_Monad.return (Inl e)
        | Inr _ \<Rightarrow> do {
            v \<leftarrow> au_verify_credentials (as_users s) normalized password;
            case v of
              Inl e \<Rightarrow>
                if err_is UserNotFound e \<or> err_is PasswordMismatch e
                then State_Monad.return (Inl (Sentinel InvalidCredentials))
                else State_Monad.return (Inl e)
            | Inr account \<Rightarrow>
                if u_status account \<noteq> status_active then State_Monad.return (Inl (Sentinel UserDisabled))
                else open_session E s account } })"

definition auth_refresh ::
  "('w, 'sk, 'pk) auth_env \<Rightarrow> ('w, 'sk, 'pk) auth_service \<Rightarrow> string \<Rightarrow> ('w, err + token_pair) state" where
  "auth_refresh E s refresh = do {
     t \<leftarrow> new_refresh_token (ae_sha256 E) (ae_rand E);
     case t of
       Inl e \<Rightarrow> State_Monad.return (Inl e)
     | Inr (new_token, new_digest) \<Rightarrow> do {
         now \<leftarrow> clock_now (as_clock s);
         r \<leftarrow> st_rotate (as_sessions s) (digest_token (ae_sha256 E) refresh) new_digest now (as_refresh_ttl s);
         case r of
           Inl e \<Rightarrow>
             if \<not> err_is InvalidToken e \<and> \<not> err_is RefreshReuse e
             then State_Monad.return (Inl (unavailable ''rotate auth session'' e))
             else State_Monad.return (Inl e)
         | Inr session \<Rightarrow> do {
             g \<leftarrow> au_get_by_id (as_users s) (s_user_id session);
             case g of
               Inl _ \<Rightarrow> do {
                 _ \<leftarrow> st_revoke (as_sessions s) (s_id session);
                 State_Monad.return (Inl (Sentinel InvalidToken)) }
             | Inr account \<Rightarrow>
                 if u_status account \<noteq> status_active \<or> u_session_version account \<noteq> s_user_version session
                 then do {
                   _ \<leftarrow> st_revoke (as_sessions s) (s_id session);
                   State_Monad.return (Inl (Sentinel InvalidToken)) }
                 else do {
                   a \<leftarrow> tokens_sign (ae_uuid E) (ae_jwt E) (ae_new_v4 E) (as_tokens s) (u_id account)
                          (s_id session) (u_session_version account) now;
                   case a of
                     Inl e \<Rightarrow> State_Monad.return (Inl e)
                   | Inr (access, expires_at) \<Rightarrow> State_Monad.return (Inr \<lparr>tp_access_token = access,
                       tp_refresh_token = new_token, tp_expires_at = expires_at,
                       tp_session_id = s_id session, tp_user = account\<rparr>) } } } }"

definition authenticate ::
  "('w, 'sk, 'pk) auth_env \<Rightarrow> ('w, 'sk, 'pk) auth_service \<Rightarrow> string \<Rightarrow> ('w, err + identity) state" where
  "authenticate E s access = do {
     now \<leftarrow> clock_now (as_clock s);
     case tokens_verify (ae_jwt E) (as_tokens s) access now of
       Inl _ \<Rightarrow> State_Monad.return (Inl (Sentinel InvalidToken))
     | Inr c \<Rightarrow>
         (case u_parse (ae_uuid E) (cl_subject c) of
            None \<Rightarrow> State_Monad.return (Inl (Sentinel InvalidToken))
          | Some uid \<Rightarrow> do {
              g \<leftarrow> st_get (as_sessions s) (cl_session_id c);
              case g of
                Inl e \<Rightarrow>
                  if err_is InvalidToken e then State_Monad.return (Inl (Sentinel InvalidToken))
                  else State_Monad.return (Inl (unavailable ''read auth session'' e))
              | Inr session \<Rightarrow>
                  if s_user_id session \<noteq> uid \<or> s_user_version session \<noteq> cl_version c
                  then State_Monad.return (Inl (Sentinel InvalidToken))
                  else do {
                    a \<leftarrow> au_get_by_id (as_users s) uid;
                    case a of
                      Inl _ \<Rightarrow> State_Monad.return (Inl (Sentinel InvalidToken))
                    | Inr account \<Rightarrow>
                        if u_status account \<noteq> status_active \<or> u_session_version account \<noteq> cl_version c
                        then State_Monad.return (Inl (Sentinel InvalidToken))
                        else State_Monad.return (Inr \<lparr>id_user = account, id_session_id = s_id session\<rparr>) } }) }"

definition logout :: "('w, 'sk, 'pk) auth_service \<Rightarrow> uuid \<Rightarrow> ('w, err + unit) state" where
  "logout s session_id = do {
     r \<leftarrow> st_revoke (as_sessions s) session_id;
     case r of
       Inl e \<Rightarrow> State_Monad.return (Inl (unavailable ''revoke auth session'' e))
     | Inr _ \<Rightarrow> State_Monad.return (Inr ()) }"

text \<open>\<open>sort.Slice\<close> with the comparison of \<open>ListSessions\<close>: newest first, then by the id's text.\<close>

fun str_less :: "string \<Rightarrow> string \<Rightarrow> bool" where
  "str_less _ [] = False"
| "str_less [] (_ # _) = True"
| "str_less (a # s) (b # t) = (byte a < byte b \<or> byte a = byte b \<and> str_less s t)"

definition summary_less :: "uuid_pkg \<Rightarrow> session_summary \<Rightarrow> session_summary \<Rightarrow> bool" where
  "summary_less P a b =
     (if ss_created_at a = ss_created_at b then str_less (u_string P (ss_id a)) (u_string P (ss_id b))
      else ss_created_at b < ss_created_at a)"

definition summary_of :: "uuid \<Rightarrow> session \<Rightarrow> session_summary" where
  "summary_of current s = \<lparr>ss_id = s_id s, ss_created_at = s_created_at s,
     ss_expires_at = s_expires_at s, ss_current = (s_id s = current)\<rparr>"

definition list_sessions ::
  "('w, 'sk, 'pk) auth_env \<Rightarrow> ('w, 'sk, 'pk) auth_service \<Rightarrow> uuid \<Rightarrow> uuid \<Rightarrow>
    ('w, err + session_summary list) state" where
  "list_sessions E s uid current = do {
     r \<leftarrow> st_list_by_user (as_sessions s) uid;
     case r of
       Inl e \<Rightarrow> State_Monad.return (Inl (unavailable ''read user sessions'' e))
     | Inr ss \<Rightarrow> State_Monad.return (Inr (sort_by (summary_less (ae_uuid E)) (map (summary_of current) ss))) }"

definition revoke_session :: "('w, 'sk, 'pk) auth_service \<Rightarrow> uuid \<Rightarrow> uuid \<Rightarrow> ('w, err + unit) state" where
  "revoke_session s uid session_id = do {
     g \<leftarrow> st_get (as_sessions s) session_id;
     case g of
       Inl e \<Rightarrow>
         if err_is InvalidToken e then State_Monad.return (Inl (Sentinel SessionNotFound))
         else State_Monad.return (Inl (unavailable ''read auth session'' e))
     | Inr session \<Rightarrow>
         if s_user_id session \<noteq> uid then State_Monad.return (Inl (Sentinel SessionNotFound))
         else do {
           r \<leftarrow> st_revoke (as_sessions s) session_id;
           case r of
             Inl e \<Rightarrow> State_Monad.return (Inl (unavailable ''revoke auth session'' e))
           | Inr _ \<Rightarrow> State_Monad.return (Inr ()) } }"

fun revoke_others_loop :: "('w, 'sk, 'pk) auth_service \<Rightarrow> uuid \<Rightarrow> session list \<Rightarrow> ('w, err + unit) state" where
  "revoke_others_loop s current [] = State_Monad.return (Inr ())"
| "revoke_others_loop s current (x # xs) =
     (if s_id x = current then revoke_others_loop s current xs
      else do {
        r \<leftarrow> st_revoke (as_sessions s) (s_id x);
        case r of
          Inl e \<Rightarrow> State_Monad.return (Inl (unavailable ''revoke other auth sessions'' e))
        | Inr _ \<Rightarrow> revoke_others_loop s current xs })"

definition revoke_other_sessions :: "('w, 'sk, 'pk) auth_service \<Rightarrow> uuid \<Rightarrow> uuid \<Rightarrow> ('w, err + unit) state" where
  "revoke_other_sessions s uid current = do {
     r \<leftarrow> st_list_by_user (as_sessions s) uid;
     case r of
       Inl e \<Rightarrow> State_Monad.return (Inl (unavailable ''read user sessions'' e))
     | Inr ss \<Rightarrow> revoke_others_loop s current ss }"

definition auth_revoke_user :: "('w, 'sk, 'pk) auth_service \<Rightarrow> uuid \<Rightarrow> ('w, err + unit) state" where
  "auth_revoke_user s uid = do {
     r \<leftarrow> st_revoke_user (as_sessions s) uid;
     case r of
       Inl e \<Rightarrow> State_Monad.return (Inl (unavailable ''revoke user sessions'' e))
     | Inr _ \<Rightarrow> State_Monad.return (Inr ()) }"

end
