(* ===== verification/HttpTypes.thy ===== *)
theory HttpTypes
  imports AuthService FileModel ConfigService ConfigTypes Lifecycle
begin

text \<open>
  Requests and responses: the types of \<open>api/openapi/generated/openapi.gen.go\<close> that the handlers use,
  the part of a Gin context they read and write, and \<open>internal/transport/httpapi/errors.go\<close>.

  Binding a JSON body and parsing parameters is the work of Gin and the OpenAPI runtime, so a handler
  takes the outcome of it as an argument.  A response is the writer after the handler: its status,
  headers, cookies and body, and whether the body has been written.
\<close>

section \<open>Request bodies\<close>

record login_request =
  lr_password :: string
  lr_username :: string

record change_password_request =
  cq_new_password :: string
  cq_old_password :: string

record create_user_request =
  uq_allow_multiple_sessions :: "bool option"
  uq_avatar_url :: "string option"
  uq_display_name :: "string option"
  uq_email :: "string option"
  uq_is_superuser :: "bool option"
  uq_password :: string
  uq_username :: string

record update_user_request =
  mq_avatar_url :: "string option"
  mq_display_name :: string
  mq_email :: "string option"
  mq_username :: string

record set_user_status_request =
  tq_status :: status

record reset_password_request =
  pq_password :: string

record list_users_params =
  lq_page :: "int option"
  lq_size :: "int option"
  lq_username :: "string option"
  lq_status :: "status option"

text \<open>\<open>systemConfigRequest\<close> of the handler: a missing \<open>is_public\<close> is told from a false one.\<close>

record system_config_request =
  sq_key :: string
  sq_value :: string
  sq_value_type :: value_type
  sq_is_public :: "bool option"
  sq_description :: "string option"

section \<open>Response bodies\<close>

record error_response =
  er_code :: string
  er_message :: string
  er_request_id :: string
  er_details :: "(string \<times> string) list option"

record user_body =
  ub_id :: uuid
  ub_username :: string
  ub_display_name :: string
  ub_email :: "string option"
  ub_avatar_url :: "string option"
  ub_status :: status
  ub_is_superuser :: bool
  ub_allow_multiple_sessions :: bool
  ub_created_at :: time
  ub_updated_at :: time

record pagination =
  pn_page :: int
  pn_size :: int
  pn_total :: int

record user_page_body =
  upb_items :: "user_body list"
  upb_pagination :: pagination

record token_response =
  tr_access_token :: string
  tr_token_type :: string
  tr_expires_at :: time
  tr_session_id :: uuid
  tr_user :: user_body

record session_body =
  sb_id :: uuid
  sb_created_at :: time
  sb_expires_at :: time
  sb_current :: bool

record password_policy =
  pp_max_length :: int
  pp_min_length :: int
  pp_reject_common :: bool
  pp_require_digit :: bool
  pp_require_letter :: bool

record file_body =
  fb_key :: string
  fb_url :: string
  fb_content_type :: string
  fb_size :: int

record config_body =
  cb_key :: string
  cb_value :: string
  cb_value_type :: value_type
  cb_is_public :: bool
  cb_description :: string
  cb_created_at :: time
  cb_updated_at :: time

record public_config_body =
  pb_key :: string
  pb_value :: string
  pb_value_type :: value_type

record readiness_body =
  rb_ready :: bool
  rb_checks :: "(string \<times> health_status) list"

datatype body =
    ErrorBody error_response
  | TokenBody token_response
  | UserBody user_body
  | UserPageBody user_page_body
  | SessionsBody "session_body list"
  | PolicyBody password_policy
  | FileBody file_body
  | ContentBody string
  | ConfigBody config_body
  | ConfigsBody "config_body list"
  | PublicConfigsBody "public_config_body list"
  | LivenessBody health_status
  | ReadinessBody readiness_body

section \<open>The Gin context\<close>

record http_request =
  rq_method :: string
  rq_path :: string
  rq_header :: "string \<Rightarrow> string"
  rq_cookie :: "string \<Rightarrow> err + string"
  rq_client_ip :: string
  rq_context :: req_context

datatype same_site = SameSiteNone | SameSiteLax | SameSiteStrict

record cookie =
  ck_name :: string
  ck_value :: string
  ck_path :: string
  ck_domain :: string
  ck_max_age :: int
  ck_http_only :: bool
  ck_secure :: bool
  ck_same_site :: same_site

record response =
  rs_status :: int
  rs_headers :: "(string \<times> string) list"
  rs_cookies :: "cookie list"
  rs_body :: "body option"
  rs_written :: bool

definition fresh_response :: response where
  "fresh_response = \<lparr>rs_status = 200, rs_headers = [], rs_cookies = [], rs_body = None, rs_written = False\<rparr>"

text \<open>\<open>ctx.JSON\<close>, \<open>ctx.Status\<close>, \<open>ctx.Header\<close>, \<open>http.SetCookie\<close>\<close>

definition send :: "int \<Rightarrow> body \<Rightarrow> response \<Rightarrow> response" where
  "send status b rs = rs\<lparr>rs_status := status, rs_body := Some b, rs_written := True\<rparr>"

definition send_status :: "int \<Rightarrow> response \<Rightarrow> response" where
  "send_status status rs = rs\<lparr>rs_status := status\<rparr>"

definition add_header :: "string \<Rightarrow> string \<Rightarrow> response \<Rightarrow> response" where
  "add_header name v rs = rs\<lparr>rs_headers := AList.update name v (rs_headers rs)\<rparr>"

definition add_cookie :: "cookie \<Rightarrow> response \<Rightarrow> response" where
  "add_cookie c rs = rs\<lparr>rs_cookies := rs_cookies rs @ [c]\<rparr>"

section \<open>errors.go\<close>

definition clone_details :: "(string \<times> string) list option \<Rightarrow> (string \<times> string) list option" where
  "clone_details d = d"

definition internal_error :: error_response where
  "internal_error = \<lparr>er_code = ''INTERNAL_ERROR'', er_message = ''internal server error'',
     er_request_id = '''', er_details = None\<rparr>"

definition response_from_error :: "err \<Rightarrow> int \<times> error_response" where
  "response_from_error e =
     (case as_app_error e of
        Some (AppError code key message status cause details expose) \<Rightarrow>
          if status < 400 \<or> 599 < status \<or> code = '''' \<or> message = '''' then (500, internal_error)
          else (status, \<lparr>er_code = code, er_message = message, er_request_id = '''',
            er_details = (if expose then clone_details details else None)\<rparr>)
      | _ \<Rightarrow> (500, internal_error))"

definition write_error :: "http_request \<Rightarrow> err \<Rightarrow> response \<Rightarrow> response" where
  "write_error rq e rs =
     (if rs_written rs then rs
      else (case response_from_error e of (status, r) \<Rightarrow>
        send status (ErrorBody (case request_id (rq_context rq) of
            (i, ok) \<Rightarrow> if ok then r\<lparr>er_request_id := i\<rparr> else r)) rs))"

end
