(* ===== verification/HttpErrors.thy ===== *)
theory HttpErrors
  imports HttpTypes
begin

text \<open>
  How \<open>internal/transport/httpapi/handler.go\<close> turns the errors of the services into responses, and
  which responses that can be.
\<close>

section \<open>The mappings\<close>

definition auth_http_error :: "err \<Rightarrow> err" where
  "auth_http_error e =
     (if err_is SessionNotFound e then
        not_found ''SESSION_NOT_FOUND'' ''error.session_not_found'' ''session not found'' (Some e)
      else if err_is InvalidCredentials e \<or> err_is InvalidToken e \<or> err_is RefreshReuse e then
        new_error ''AUTHENTICATION_FAILED'' ''error.authentication_failed'' ''authentication failed'' 401 (Some e)
      else if err_is UserDisabled e then
        new_error ''USER_DISABLED'' ''error.user_disabled'' ''user is disabled'' 403 (Some e)
      else if err_is RateLimited e then
        new_error ''LOGIN_RATE_LIMITED'' ''error.login_rate_limited'' ''too many login attempts'' 429 (Some e)
      else if err_is AuthUnavailable e then
        new_error ''AUTHENTICATION_UNAVAILABLE'' ''error.authentication_unavailable''
          ''authentication is unavailable'' 503 (Some e)
      else e)"

definition user_http_error :: "err \<Rightarrow> err" where
  "user_http_error e =
     (if err_is PasswordMismatch e \<or> err_is InvalidPassword e \<or> err_is UserInvalidInput e then
        validation ''INVALID_PASSWORD'' ''error.invalid_password'' ''password is not acceptable'' (Some e)
      else if err_is UserNotFound e then
        not_found ''USER_NOT_FOUND'' ''error.user_not_found'' ''user not found'' (Some e)
      else if err_is UsernameConflict e \<or> err_is EmailConflict e \<or> err_is LastSuperuser e then
        new_error ''USER_CONFLICT'' ''error.user_conflict'' ''user state conflict'' 409 (Some e)
      else e)"

text \<open>\<open>*http.MaxBytesError\<close>, found by \<open>errors.As\<close>, is the sentinel \<open>MaxBytes\<close>.\<close>

definition file_http_error :: "err \<Rightarrow> err" where
  "file_http_error e =
     (if err_is InvalidFile e then
        validation ''FILE_INVALID'' ''error.file_invalid'' ''file is invalid'' (Some e)
      else if err_is InvalidKey e then
        validation ''FILE_KEY_INVALID'' ''error.file_key_invalid'' ''file key is invalid'' (Some e)
      else if err_is TypeNotAllowed e then
        new_error ''FILE_TYPE_NOT_ALLOWED'' ''error.file_type_not_allowed'' ''file type is not supported'' 415 (Some e)
      else if err_is TooLarge e \<or> err_is MaxBytes e then
        new_error ''FILE_TOO_LARGE'' ''error.file_too_large'' ''file is too large'' 413 (Some e)
      else if err_is FileNotFound e then
        not_found ''FILE_NOT_FOUND'' ''error.file_not_found'' ''file not found'' (Some e)
      else if err_is FileForbidden e then
        new_error ''FILE_DELETE_FORBIDDEN'' ''error.file_delete_forbidden'' ''not allowed to delete the file'' 403 (Some e)
      else if err_is FileUnavailable e then
        new_error ''FILE_STORAGE_UNAVAILABLE'' ''error.file_storage_unavailable''
          ''file storage is unavailable'' 503 (Some e)
      else e)"

definition system_config_http_error :: "err \<Rightarrow> err" where
  "system_config_http_error e =
     (if err_is ConfigInvalidType e then
        validation ''SYSTEM_CONFIG_INVALID_TYPE'' ''error.system_config_invalid_type''
          ''value does not have its type'' (Some e)
      else if err_is SensitiveKey e then
        new_error ''SYSTEM_CONFIG_SENSITIVE_KEY'' ''error.system_config_sensitive_key''
          ''key belongs to a start-up or security setting'' 403 (Some e)
      else if err_is ConfigInvalidInput e then
        validation ''SYSTEM_CONFIG_INVALID'' ''error.system_config_invalid'' ''setting is invalid'' (Some e)
      else if err_is ConfigNotFound e then
        not_found ''SYSTEM_CONFIG_NOT_FOUND'' ''error.system_config_not_found'' ''setting not found'' (Some e)
      else if err_is ConfigConflict e then
        new_error ''SYSTEM_CONFIG_CONFLICT'' ''error.system_config_conflict'' ''key exists'' 409 (Some e)
      else if err_is PostCommit e then
        new_error ''SYSTEM_CONFIG_COMMITTED_WITH_CACHE_ERROR'' ''error.system_config_committed_with_cache_error''
          ''setting is saved, but the cache was not refreshed'' 503 (Some e)
      else e)"

section \<open>The responses\<close>

text \<open>What a client is told of an error of each service: by sentinel, the status and the code.\<close>

definition auth_table :: "(sentinel \<times> int \<times> string) list" where
  "auth_table = [(SessionNotFound, 404, ''SESSION_NOT_FOUND''), (InvalidCredentials, 401, ''AUTHENTICATION_FAILED''),
     (InvalidToken, 401, ''AUTHENTICATION_FAILED''), (RefreshReuse, 401, ''AUTHENTICATION_FAILED''),
     (UserDisabled, 403, ''USER_DISABLED''), (RateLimited, 429, ''LOGIN_RATE_LIMITED''),
     (AuthUnavailable, 503, ''AUTHENTICATION_UNAVAILABLE'')]"

definition user_table :: "(sentinel \<times> int \<times> string) list" where
  "user_table = [(PasswordMismatch, 400, ''INVALID_PASSWORD''), (InvalidPassword, 400, ''INVALID_PASSWORD''),
     (UserInvalidInput, 400, ''INVALID_PASSWORD''), (UserNotFound, 404, ''USER_NOT_FOUND''),
     (UsernameConflict, 409, ''USER_CONFLICT''), (EmailConflict, 409, ''USER_CONFLICT''),
     (LastSuperuser, 409, ''USER_CONFLICT'')]"

definition file_table :: "(sentinel \<times> int \<times> string) list" where
  "file_table = [(InvalidFile, 400, ''FILE_INVALID''), (InvalidKey, 400, ''FILE_KEY_INVALID''),
     (TypeNotAllowed, 415, ''FILE_TYPE_NOT_ALLOWED''), (TooLarge, 413, ''FILE_TOO_LARGE''),
     (MaxBytes, 413, ''FILE_TOO_LARGE''), (FileNotFound, 404, ''FILE_NOT_FOUND''),
     (FileForbidden, 403, ''FILE_DELETE_FORBIDDEN''), (FileUnavailable, 503, ''FILE_STORAGE_UNAVAILABLE'')]"

definition system_config_table :: "(sentinel \<times> int \<times> string) list" where
  "system_config_table = [(ConfigInvalidType, 400, ''SYSTEM_CONFIG_INVALID_TYPE''),
     (SensitiveKey, 403, ''SYSTEM_CONFIG_SENSITIVE_KEY''), (ConfigInvalidInput, 400, ''SYSTEM_CONFIG_INVALID''),
     (ConfigNotFound, 404, ''SYSTEM_CONFIG_NOT_FOUND''), (ConfigConflict, 409, ''SYSTEM_CONFIG_CONFLICT''),
     (PostCommit, 503, ''SYSTEM_CONFIG_COMMITTED_WITH_CACHE_ERROR'')]"

text \<open>
  The response by the first sentinel of the table found in the error; the default is the internal
  error.  \<open>plain\<close> errors, the errors of the modules, contain no application error.
\<close>

definition told :: "(sentinel \<times> int \<times> string) list \<Rightarrow> err \<Rightarrow> int \<times> string" where
  "told table e = (case find (\<lambda>(s, _). err_is s e) table of
     Some (_, status, code) \<Rightarrow> (status, code) | None \<Rightarrow> (500, ''INTERNAL_ERROR''))"

definition answers :: "err \<Rightarrow> int \<times> string \<Rightarrow> bool" where
  "answers e x \<longleftrightarrow> (case response_from_error e of (status, r) \<Rightarrow>
     status = fst x \<and> er_code r = snd x \<and> er_message r \<noteq> '''' \<and> er_details r = None)"

lemma answers_new_error:
  "answers (new_error code key message status cause) (status, code)"
  if "400 \<le> status" "status \<le> 599" "code \<noteq> ''''" "message \<noteq> ''''"
  using that by (simp add: answers_def response_from_error_def)

lemma answers_plain: "as_app_error e = None \<Longrightarrow> answers e (500, ''INTERNAL_ERROR'')"
  by (simp add: answers_def response_from_error_def internal_error_def)

lemma auth_error_told:
  assumes "as_app_error e = None" shows "answers (auth_http_error e) (told auth_table e)"
  using answers_plain [OF assms]
  by (simp add: auth_http_error_def told_def auth_table_def not_found_def answers_new_error)

lemma user_error_told:
  assumes "as_app_error e = None" shows "answers (user_http_error e) (told user_table e)"
  using answers_plain [OF assms]
  by (simp add: user_http_error_def told_def user_table_def not_found_def validation_def answers_new_error)

lemma file_error_told:
  assumes "as_app_error e = None" shows "answers (file_http_error e) (told file_table e)"
  using answers_plain [OF assms]
  by (simp add: file_http_error_def told_def file_table_def not_found_def validation_def answers_new_error)

lemma system_config_error_told:
  assumes "as_app_error e = None" shows "answers (system_config_http_error e) (told system_config_table e)"
  using answers_plain [OF assms]
  by (simp add: system_config_http_error_def told_def system_config_table_def not_found_def validation_def
      answers_new_error)

end
