(* ===== verification/HttpApi.thy ===== *)
theory HttpApi
  imports HttpErrors
begin

text \<open>
  The handlers of \<open>internal/transport/httpapi/handler.go\<close>, in its order.  A handler takes the request,
  the outcome of binding its body or parameters, and the response as the middleware left it.  A
  service may be nil; a call on a nil service panics, and the recovery middleware then writes the
  internal error.
\<close>

section \<open>The handler\<close>

record ('w, 'sk, 'pk) http_env =
  he_auth :: "('w, 'sk, 'pk) auth_env"
  he_parsers :: parsers
  he_frac :: "nat \<Rightarrow> nat \<Rightarrow> nat \<Rightarrow> nat"
  he_detect :: "string \<Rightarrow> string"

abbreviation he_unicode where "he_unicode E \<equiv> ae_unicode (he_auth E)"
abbreviation he_uuid where "he_uuid E \<equiv> ae_uuid (he_auth E)"

record ('w, 'sk, 'pk) handler =
  hd_health :: "'w health_service"
  hd_auth :: "('w, 'sk, 'pk) auth_service option"
  hd_files :: "'w file_service option"
  hd_system_configs :: "'w config_service option"
  hd_users :: "'w user_service option"
  hd_config :: auth_config
  hd_cors :: cors_config

definition new_handler ::
  "'w health_service \<Rightarrow> ('w, 'sk, 'pk) auth_service option \<Rightarrow> 'w file_service option \<Rightarrow> 'w config_service option \<Rightarrow>
    'w user_service option \<Rightarrow> auth_config \<Rightarrow> cors_config \<Rightarrow> ('w, 'sk, 'pk) handler" where
  "new_handler health auth files configs users cfg cors = \<lparr>hd_health = health, hd_auth = auth, hd_files = files,
     hd_system_configs = configs, hd_users = users, hd_config = cfg, hd_cors = cors\<rparr>"

definition recovered :: err where "recovered = Plain ''recovered panic''"

definition panicked :: "http_request \<Rightarrow> response \<Rightarrow> ('w, response) state" where
  "panicked rq rs = State_Monad.return (write_error rq recovered rs)"

text \<open>\<open>WriteError\<close> and return.\<close>

definition fail_with :: "http_request \<Rightarrow> response \<Rightarrow> err \<Rightarrow> ('w, response) state" where
  "fail_with rq rs e = State_Monad.return (write_error rq e rs)"

section \<open>Who is calling\<close>

text \<open>\<open>strings.EqualFold\<close> with an ASCII word none of whose letters has other case forms.\<close>

definition equal_fold :: "string \<Rightarrow> string \<Rightarrow> bool" where
  "equal_fold s word \<longleftrightarrow> map lower_byte s = map lower_byte word"

definition bearer :: "string \<Rightarrow> string option" where
  "bearer v =
     (case cut CHR '' '' v of
        None \<Rightarrow> None
      | Some (scheme, encoded) \<Rightarrow> if \<not> equal_fold scheme ''Bearer'' \<or> encoded = '''' then None else Some encoded)"

definition identity_of ::
  "('w, 'sk, 'pk) http_env \<Rightarrow> ('w, 'sk, 'pk) handler \<Rightarrow> http_request \<Rightarrow> ('w, err + identity) state" where
  "identity_of E h rq =
     (case (bearer (rq_header rq ''Authorization''), hd_auth h) of
        (Some encoded, Some auth) \<Rightarrow> do {
          r \<leftarrow> authenticate (he_auth E) auth encoded;
          State_Monad.return (case r of Inl e \<Rightarrow> Inl (auth_http_error e) | Inr i \<Rightarrow> Inr i) }
      | _ \<Rightarrow> State_Monad.return (Inl (auth_http_error (Sentinel InvalidToken))))"

definition superuser_required :: err where
  "superuser_required =
     new_error ''SUPERUSER_REQUIRED'' ''error.superuser_required'' ''superuser required'' 403 None"

definition superuser_of ::
  "('w, 'sk, 'pk) http_env \<Rightarrow> ('w, 'sk, 'pk) handler \<Rightarrow> http_request \<Rightarrow> ('w, err + identity) state" where
  "superuser_of E h rq = do {
     r \<leftarrow> identity_of E h rq;
     State_Monad.return (case r of
         Inl e \<Rightarrow> Inl e
       | Inr i \<Rightarrow> if \<not> u_is_superuser (id_user i) then Inl superuser_required else Inr i) }"

text \<open>The opening lines of a handler that needs an identity, or a superuser.\<close>

definition for_identity ::
  "('w, 'sk, 'pk) http_env \<Rightarrow> ('w, 'sk, 'pk) handler \<Rightarrow> http_request \<Rightarrow> response \<Rightarrow>
    (identity \<Rightarrow> ('w, response) state) \<Rightarrow> ('w, response) state" where
  "for_identity E h rq rs body = do {
     r \<leftarrow> identity_of E h rq;
     case r of Inl e \<Rightarrow> fail_with rq rs e | Inr i \<Rightarrow> body i }"

definition for_superuser ::
  "('w, 'sk, 'pk) http_env \<Rightarrow> ('w, 'sk, 'pk) handler \<Rightarrow> http_request \<Rightarrow> response \<Rightarrow>
    (identity \<Rightarrow> ('w, response) state) \<Rightarrow> ('w, response) state" where
  "for_superuser E h rq rs body = do {
     r \<leftarrow> superuser_of E h rq;
     case r of Inl e \<Rightarrow> fail_with rq rs e | Inr i \<Rightarrow> body i }"

section \<open>Responses\<close>

definition user_response :: "user \<Rightarrow> user_body" where
  "user_response u = \<lparr>ub_id = u_id u, ub_username = u_username u, ub_display_name = u_display_name u,
     ub_email = u_email u, ub_avatar_url = u_avatar_url u, ub_status = u_status u,
     ub_is_superuser = u_is_superuser u, ub_allow_multiple_sessions = u_allow_multiple_sessions u,
     ub_created_at = u_created_at u, ub_updated_at = u_updated_at u\<rparr>"

definition token_response_of :: "token_pair \<Rightarrow> token_response" where
  "token_response_of p = \<lparr>tr_access_token = tp_access_token p, tr_token_type = ''Bearer'',
     tr_expires_at = tp_expires_at p, tr_session_id = tp_session_id p, tr_user = user_response (tp_user p)\<rparr>"

definition same_site_of :: "string \<Rightarrow> same_site" where
  "same_site_of v = (if v = ''none'' then SameSiteNone else if v = ''lax'' then SameSiteLax else SameSiteStrict)"

text \<open>\<open>int(ttl.Seconds())\<close>: whole seconds; the lifetimes in use are far below the precision of a float.\<close>

definition refresh_cookie :: "auth_config \<Rightarrow> string \<Rightarrow> cookie" where
  "refresh_cookie cfg v = \<lparr>ck_name = au_refresh_cookie cfg, ck_value = v, ck_path = au_cookie_path cfg,
     ck_domain = au_cookie_domain cfg, ck_max_age = au_refresh_token_ttl cfg div second, ck_http_only = True,
     ck_secure = au_cookie_secure cfg, ck_same_site = same_site_of (au_cookie_same_site cfg)\<rparr>"

definition expired_cookie :: "auth_config \<Rightarrow> cookie" where
  "expired_cookie cfg = \<lparr>ck_name = au_refresh_cookie cfg, ck_value = '''', ck_path = au_cookie_path cfg,
     ck_domain = au_cookie_domain cfg, ck_max_age = -1, ck_http_only = True,
     ck_secure = au_cookie_secure cfg, ck_same_site = same_site_of (au_cookie_same_site cfg)\<rparr>"

definition set_refresh_cookie :: "('w, 'sk, 'pk) handler \<Rightarrow> string \<Rightarrow> response \<Rightarrow> response" where
  "set_refresh_cookie h v = add_cookie (refresh_cookie (hd_config h) v)"

definition delete_refresh_cookie :: "('w, 'sk, 'pk) handler \<Rightarrow> response \<Rightarrow> response" where
  "delete_refresh_cookie h = add_cookie (expired_cookie (hd_config h))"

definition origin_allowed :: "('w, 'sk, 'pk) handler \<Rightarrow> string \<Rightarrow> bool" where
  "origin_allowed h origin \<longleftrightarrow> origin = '''' \<or> list_ex (\<lambda>allowed. origin = allowed) (co_allow_origins (hd_cors h))"

definition system_config_input ::
  "string \<Rightarrow> string \<Rightarrow> value_type \<Rightarrow> bool \<Rightarrow> string option \<Rightarrow> err + config_input" where
  "system_config_input key v t public description = Inr \<lparr>in_key = key, in_value = v, in_value_type = t,
     in_is_public = public, in_description = (case description of Some d \<Rightarrow> d | None \<Rightarrow> '''')\<rparr>"

definition system_config_response :: "sys_config \<Rightarrow> err + config_body" where
  "system_config_response item =
     (if \<not> json_valid (sc_value item) then Inl (Plain ''stored setting is not JSON'')
      else Inr \<lparr>cb_key = sc_key item, cb_value = sc_value item, cb_value_type = sc_value_type item,
        cb_is_public = sc_is_public item, cb_description = sc_description item,
        cb_created_at = sc_created_at item, cb_updated_at = sc_updated_at item\<rparr>)"

definition decode_system_config_value :: "string \<Rightarrow> err + string" where
  "decode_system_config_value raw =
     (if \<not> json_valid raw then Inl (Plain ''stored setting is not JSON'') else Inr raw)"

text \<open>The loops that map a list and stop at the first error.\<close>

fun map_results :: "('a \<Rightarrow> err + 'b) \<Rightarrow> 'a list \<Rightarrow> err + 'b list" where
  "map_results f [] = Inr []"
| "map_results f (x # xs) =
     (case f x of
        Inl e \<Rightarrow> Inl e
      | Inr y \<Rightarrow> (case map_results f xs of Inl e \<Rightarrow> Inl e | Inr ys \<Rightarrow> Inr (y # ys)))"

definition public_config_response :: "sys_config \<Rightarrow> err + public_config_body" where
  "public_config_response item =
     (case decode_system_config_value (sc_value item) of
        Inl e \<Rightarrow> Inl e
      | Inr v \<Rightarrow> Inr \<lparr>pb_key = sc_key item, pb_value = v, pb_value_type = sc_value_type item\<rparr>)"

section \<open>Settings\<close>

definition list_public_system_configs_h ::
  "('w, 'sk, 'pk) handler \<Rightarrow> http_request \<Rightarrow> response \<Rightarrow> ('w, response) state" where
  "list_public_system_configs_h h rq rs =
     (case hd_system_configs h of
        None \<Rightarrow> panicked rq rs
      | Some configs \<Rightarrow> do {
          r \<leftarrow> config_list_public configs;
          case r of
            Inl e \<Rightarrow> fail_with rq rs (system_config_http_error e)
          | Inr items \<Rightarrow>
              (case map_results public_config_response items of
                 Inl e \<Rightarrow> fail_with rq rs e
               | Inr bodies \<Rightarrow> State_Monad.return (send 200 (PublicConfigsBody bodies) rs)) })"

definition list_system_configs_h ::
  "('w, 'sk, 'pk) http_env \<Rightarrow> ('w, 'sk, 'pk) handler \<Rightarrow> http_request \<Rightarrow> response \<Rightarrow> ('w, response) state" where
  "list_system_configs_h E h rq rs = for_superuser E h rq rs (\<lambda>_.
     case hd_system_configs h of
       None \<Rightarrow> panicked rq rs
     | Some configs \<Rightarrow> do {
         r \<leftarrow> config_list configs;
         case r of
           Inl e \<Rightarrow> fail_with rq rs (system_config_http_error e)
         | Inr items \<Rightarrow>
             (case map_results system_config_response items of
                Inl e \<Rightarrow> fail_with rq rs e
              | Inr bodies \<Rightarrow> State_Monad.return (send 200 (ConfigsBody bodies) rs)) })"

definition send_config :: "http_request \<Rightarrow> response \<Rightarrow> int \<Rightarrow> sys_config \<Rightarrow> ('w, response) state" where
  "send_config rq rs status item =
     (case system_config_response item of
        Inl e \<Rightarrow> fail_with rq rs e
      | Inr b \<Rightarrow> State_Monad.return (send status (ConfigBody b) rs))"

definition get_system_config_h ::
  "('w, 'sk, 'pk) http_env \<Rightarrow> ('w, 'sk, 'pk) handler \<Rightarrow> http_request \<Rightarrow> response \<Rightarrow> string \<Rightarrow> ('w, response) state" where
  "get_system_config_h E h rq rs key = for_superuser E h rq rs (\<lambda>_.
     case hd_system_configs h of
       None \<Rightarrow> panicked rq rs
     | Some configs \<Rightarrow> do {
         r \<leftarrow> config_get configs key;
         case r of
           Inl e \<Rightarrow> fail_with rq rs (system_config_http_error e)
         | Inr item \<Rightarrow> send_config rq rs 200 item })"

text \<open>A saved item whose side effects failed is reported as the error of the side effects.\<close>

definition create_system_config_h ::
  "('w, 'sk, 'pk) http_env \<Rightarrow> ('w, 'sk, 'pk) handler \<Rightarrow> http_request \<Rightarrow> response \<Rightarrow>
    err + system_config_request \<Rightarrow> ('w, response) state" where
  "create_system_config_h E h rq rs bound = for_superuser E h rq rs (\<lambda>_.
     case bound of
       Inl _ \<Rightarrow> fail_with rq rs (system_config_http_error (Sentinel ConfigInvalidInput))
     | Inr request \<Rightarrow>
         (case sq_is_public request of
            None \<Rightarrow> fail_with rq rs (system_config_http_error (Sentinel ConfigInvalidInput))
          | Some public \<Rightarrow>
              (case system_config_input (sq_key request) (sq_value request) (sq_value_type request) public
                      (sq_description request) of
                 Inl e \<Rightarrow> fail_with rq rs e
               | Inr input \<Rightarrow>
                   (case hd_system_configs h of
                      None \<Rightarrow> panicked rq rs
                    | Some configs \<Rightarrow> do {
                        r \<leftarrow> config_create (he_unicode E) (he_frac E) configs input;
                        case r of
                          Inl e \<Rightarrow> fail_with rq rs (system_config_http_error e)
                        | Inr (item, after) \<Rightarrow>
                            (case after of
                               Some e \<Rightarrow> fail_with rq rs (system_config_http_error e)
                             | None \<Rightarrow> send_config rq rs 201 item) }))))"

definition update_system_config_h ::
  "('w, 'sk, 'pk) http_env \<Rightarrow> ('w, 'sk, 'pk) handler \<Rightarrow> http_request \<Rightarrow> response \<Rightarrow> string \<Rightarrow>
    err + system_config_request \<Rightarrow> ('w, response) state" where
  "update_system_config_h E h rq rs key bound = for_superuser E h rq rs (\<lambda>_.
     case bound of
       Inl _ \<Rightarrow> fail_with rq rs (system_config_http_error (Sentinel ConfigInvalidInput))
     | Inr request \<Rightarrow>
         (case sq_is_public request of
            None \<Rightarrow> fail_with rq rs (system_config_http_error (Sentinel ConfigInvalidInput))
          | Some public \<Rightarrow>
              (case system_config_input key (sq_value request) (sq_value_type request) public
                      (sq_description request) of
                 Inl e \<Rightarrow> fail_with rq rs e
               | Inr input \<Rightarrow>
                   (case hd_system_configs h of
                      None \<Rightarrow> panicked rq rs
                    | Some configs \<Rightarrow> do {
                        r \<leftarrow> config_update (he_unicode E) (he_frac E) configs key input;
                        case r of
                          Inl e \<Rightarrow> fail_with rq rs (system_config_http_error e)
                        | Inr (item, after) \<Rightarrow>
                            (case after of
                               Some e \<Rightarrow> fail_with rq rs (system_config_http_error e)
                             | None \<Rightarrow> send_config rq rs 200 item) }))))"

definition delete_system_config_h ::
  "('w, 'sk, 'pk) http_env \<Rightarrow> ('w, 'sk, 'pk) handler \<Rightarrow> http_request \<Rightarrow> response \<Rightarrow> string \<Rightarrow> ('w, response) state" where
  "delete_system_config_h E h rq rs key = for_superuser E h rq rs (\<lambda>_.
     case hd_system_configs h of
       None \<Rightarrow> panicked rq rs
     | Some configs \<Rightarrow> do {
         r \<leftarrow> config_delete (he_unicode E) configs key;
         case r of
           Inl e \<Rightarrow> fail_with rq rs (system_config_http_error e)
         | Inr _ \<Rightarrow> State_Monad.return (send_status 204 rs) })"

section \<open>Files\<close>

text \<open>
  A multipart body is its parts, then the error that ends it (\<open>io.EOF\<close> at a plain end); other parts
  than a file named \<open>file\<close> are read and dropped.
\<close>

record part =
  pt_form_name :: string
  pt_file_name :: string
  pt_content :: reader

fun upload_parts ::
  "('w, 'sk, 'pk) http_env \<Rightarrow> 'w file_service \<Rightarrow> http_request \<Rightarrow> response \<Rightarrow> uuid \<Rightarrow> part list \<Rightarrow> err \<Rightarrow>
    ('w, response) state" where
  "upload_parts E files rq rs owner [] next_err =
     (if err_is EOF next_err then fail_with rq rs (file_http_error (Sentinel InvalidFile))
      else fail_with rq rs (file_http_error next_err))"
| "upload_parts E files rq rs owner (p # ps) next_err =
     (if pt_form_name p \<noteq> ''file'' \<or> pt_file_name p = '''' then upload_parts E files rq rs owner ps next_err
      else do {
        r \<leftarrow> upload (he_unicode E) (he_detect E) files owner (Some (pt_content p));
        case r of
          Inl e \<Rightarrow> fail_with rq rs (file_http_error e)
        | Inr u \<Rightarrow> State_Monad.return (send 201 (FileBody \<lparr>fb_key = key_string (he_uuid E) (up_key u),
            fb_url = uploaded_url (he_uuid E) u, fb_content_type = up_content_type u, fb_size = up_size u\<rparr>) rs) })"

definition upload_file_h ::
  "('w, 'sk, 'pk) http_env \<Rightarrow> ('w, 'sk, 'pk) handler \<Rightarrow> http_request \<Rightarrow> response \<Rightarrow>
    err + part list \<times> err \<Rightarrow> ('w, response) state" where
  "upload_file_h E h rq rs multipart = for_identity E h rq rs (\<lambda>i.
     case hd_files h of
       None \<Rightarrow> fail_with rq rs (file_http_error (Sentinel FileUnavailable))
     | Some files \<Rightarrow>
         (case multipart of
            Inl _ \<Rightarrow> fail_with rq rs (file_http_error (Sentinel InvalidFile))
          | Inr (parts, next_err) \<Rightarrow> upload_parts E files rq rs (u_id (id_user i)) parts next_err))"

text \<open>\<open>http.ServeContent\<close> is reduced to the whole content; ranges and conditional requests are the library's.\<close>

definition get_file_h ::
  "('w, 'sk, 'pk) http_env \<Rightarrow> ('w, 'sk, 'pk) handler \<Rightarrow> http_request \<Rightarrow> response \<Rightarrow> uuid \<Rightarrow> string \<Rightarrow> ('w, response) state" where
  "get_file_h E h rq rs owner name =
     (case hd_files h of
        None \<Rightarrow> fail_with rq rs (file_http_error (Sentinel FileNotFound))
      | Some files \<Rightarrow> do {
          r \<leftarrow> open_file (he_unicode E) (he_uuid E) files (u_string (he_uuid E) owner @ ''/'' @ name);
          case r of
            Inl e \<Rightarrow> fail_with rq rs (file_http_error e)
          | Inr (u, ob) \<Rightarrow> State_Monad.return (send 200 (ContentBody (ob_content ob))
              (add_header ''Content-Type'' (up_content_type u)
                (add_header ''Cache-Control'' ''public, max-age=31536000, immutable'' rs))) })"

definition delete_file_h ::
  "('w, 'sk, 'pk) http_env \<Rightarrow> ('w, 'sk, 'pk) handler \<Rightarrow> http_request \<Rightarrow> response \<Rightarrow> uuid \<Rightarrow> string \<Rightarrow> ('w, response) state" where
  "delete_file_h E h rq rs owner name = for_identity E h rq rs (\<lambda>i.
     case hd_files h of
       None \<Rightarrow> fail_with rq rs (file_http_error (Sentinel FileNotFound))
     | Some files \<Rightarrow> do {
         r \<leftarrow> delete_file (he_unicode E) (he_uuid E) files (u_id (id_user i)) (u_is_superuser (id_user i))
           (u_string (he_uuid E) owner @ ''/'' @ name);
         case r of
           Inl e \<Rightarrow> fail_with rq rs (file_http_error e)
         | Inr _ \<Rightarrow> State_Monad.return (send_status 204 rs) })"

section \<open>Sign-in and the caller's own account\<close>

definition login_h ::
  "('w, 'sk, 'pk) http_env \<Rightarrow> ('w, 'sk, 'pk) handler \<Rightarrow> http_request \<Rightarrow> response \<Rightarrow> err + login_request \<Rightarrow>
    ('w, response) state" where
  "login_h E h rq rs bound =
     (case bound of
        Inl e \<Rightarrow> fail_with rq rs (validation ''INVALID_LOGIN'' ''error.invalid_login'' ''login is invalid'' (Some e))
      | Inr request \<Rightarrow>
          (case hd_auth h of
             None \<Rightarrow> panicked rq rs
           | Some auth \<Rightarrow> do {
               r \<leftarrow> login (he_auth E) auth (lr_username request) (lr_password request) (rq_client_ip rq);
               case r of
                 Inl e \<Rightarrow> fail_with rq rs (auth_http_error e)
               | Inr pair \<Rightarrow> State_Monad.return (send 200 (TokenBody (token_response_of pair))
                   (add_header ''Cache-Control'' ''no-store'' (set_refresh_cookie h (tp_refresh_token pair) rs))) }))"

definition origin_rejected :: err where
  "origin_rejected = new_error ''ORIGIN_REJECTED'' ''error.origin_rejected'' ''origin is not trusted'' 403 None"

definition refresh_token_h ::
  "('w, 'sk, 'pk) http_env \<Rightarrow> ('w, 'sk, 'pk) handler \<Rightarrow> http_request \<Rightarrow> response \<Rightarrow> ('w, response) state" where
  "refresh_token_h E h rq rs =
     (if \<not> origin_allowed h (rq_header rq ''Origin'') then fail_with rq rs origin_rejected
      else (case rq_cookie rq (au_refresh_cookie (hd_config h)) of
          Inl _ \<Rightarrow> fail_with rq rs (auth_http_error (Sentinel InvalidToken))
        | Inr refresh \<Rightarrow>
            (case hd_auth h of
               None \<Rightarrow> panicked rq rs
             | Some auth \<Rightarrow> do {
                 r \<leftarrow> auth_refresh (he_auth E) auth refresh;
                 case r of
                   Inl e \<Rightarrow> fail_with rq (delete_refresh_cookie h rs) (auth_http_error e)
                 | Inr pair \<Rightarrow> State_Monad.return (send 200 (TokenBody (token_response_of pair))
                     (add_header ''Cache-Control'' ''no-store'' (set_refresh_cookie h (tp_refresh_token pair) rs))) })))"

definition logout_h ::
  "('w, 'sk, 'pk) http_env \<Rightarrow> ('w, 'sk, 'pk) handler \<Rightarrow> http_request \<Rightarrow> response \<Rightarrow> ('w, response) state" where
  "logout_h E h rq rs = for_identity E h rq rs (\<lambda>i.
     case hd_auth h of
       None \<Rightarrow> panicked rq rs
     | Some auth \<Rightarrow> do {
         r \<leftarrow> logout auth (id_session_id i);
         case r of
           Inl e \<Rightarrow> fail_with rq rs (auth_http_error e)
         | Inr _ \<Rightarrow> State_Monad.return (send_status 204 (delete_refresh_cookie h rs)) })"

definition get_password_policy_h :: "response \<Rightarrow> ('w, response) state" where
  "get_password_policy_h rs = State_Monad.return (send 200 (PolicyBody \<lparr>pp_max_length = 128, pp_min_length = 8,
     pp_reject_common = True, pp_require_digit = True, pp_require_letter = True\<rparr>) rs)"

definition get_current_user_h ::
  "('w, 'sk, 'pk) http_env \<Rightarrow> ('w, 'sk, 'pk) handler \<Rightarrow> http_request \<Rightarrow> response \<Rightarrow> ('w, response) state" where
  "get_current_user_h E h rq rs = for_identity E h rq rs (\<lambda>i.
     State_Monad.return (send 200 (UserBody (user_response (id_user i))) rs))"

definition session_body_of :: "session_summary \<Rightarrow> session_body" where
  "session_body_of s = \<lparr>sb_id = ss_id s, sb_created_at = ss_created_at s, sb_expires_at = ss_expires_at s,
     sb_current = ss_current s\<rparr>"

definition list_current_user_sessions_h ::
  "('w, 'sk, 'pk) http_env \<Rightarrow> ('w, 'sk, 'pk) handler \<Rightarrow> http_request \<Rightarrow> response \<Rightarrow> ('w, response) state" where
  "list_current_user_sessions_h E h rq rs = for_identity E h rq rs (\<lambda>i.
     case hd_auth h of
       None \<Rightarrow> panicked rq rs
     | Some auth \<Rightarrow> do {
         r \<leftarrow> list_sessions (he_auth E) auth (u_id (id_user i)) (id_session_id i);
         case r of
           Inl e \<Rightarrow> fail_with rq rs (auth_http_error e)
         | Inr sessions \<Rightarrow> State_Monad.return (send 200 (SessionsBody (map session_body_of sessions)) rs) })"

definition revoke_other_current_user_sessions_h ::
  "('w, 'sk, 'pk) http_env \<Rightarrow> ('w, 'sk, 'pk) handler \<Rightarrow> http_request \<Rightarrow> response \<Rightarrow> ('w, response) state" where
  "revoke_other_current_user_sessions_h E h rq rs = for_identity E h rq rs (\<lambda>i.
     case hd_auth h of
       None \<Rightarrow> panicked rq rs
     | Some auth \<Rightarrow> do {
         r \<leftarrow> revoke_other_sessions auth (u_id (id_user i)) (id_session_id i);
         case r of
           Inl e \<Rightarrow> fail_with rq rs (auth_http_error e)
         | Inr _ \<Rightarrow> State_Monad.return (send_status 204 rs) })"

definition revoke_current_user_session_h ::
  "('w, 'sk, 'pk) http_env \<Rightarrow> ('w, 'sk, 'pk) handler \<Rightarrow> http_request \<Rightarrow> response \<Rightarrow> uuid \<Rightarrow> ('w, response) state" where
  "revoke_current_user_session_h E h rq rs session_id = for_identity E h rq rs (\<lambda>i.
     case hd_auth h of
       None \<Rightarrow> panicked rq rs
     | Some auth \<Rightarrow> do {
         r \<leftarrow> revoke_session auth (u_id (id_user i)) session_id;
         case r of
           Inl e \<Rightarrow> fail_with rq rs (auth_http_error e)
         | Inr _ \<Rightarrow> State_Monad.return (send_status 204
             (if session_id = id_session_id i then delete_refresh_cookie h rs else rs)) })"

definition invalid_password_request :: "err \<Rightarrow> err" where
  "invalid_password_request e =
     validation ''INVALID_PASSWORD'' ''error.invalid_password'' ''password is invalid'' (Some e)"

definition change_password_h ::
  "('w, 'sk, 'pk) http_env \<Rightarrow> ('w, 'sk, 'pk) handler \<Rightarrow> http_request \<Rightarrow> response \<Rightarrow> err + change_password_request \<Rightarrow>
    ('w, response) state" where
  "change_password_h E h rq rs bound = for_identity E h rq rs (\<lambda>i.
     case bound of
       Inl e \<Rightarrow> fail_with rq rs (invalid_password_request e)
     | Inr request \<Rightarrow>
         (case (hd_users h, hd_auth h) of
            (Some users, Some auth) \<Rightarrow> do {
              r \<leftarrow> change_password users (u_id (id_user i)) (cq_old_password request) (cq_new_password request);
              case r of
                Inl e \<Rightarrow> fail_with rq rs (user_http_error e)
              | Inr _ \<Rightarrow> do {
                  v \<leftarrow> auth_revoke_user auth (u_id (id_user i));
                  case v of
                    Inl e \<Rightarrow> fail_with rq rs (auth_http_error e)
                  | Inr _ \<Rightarrow> State_Monad.return (send_status 204 (delete_refresh_cookie h rs)) } }
          | _ \<Rightarrow> panicked rq rs))"

section \<open>Accounts\<close>

definition invalid_page :: err where
  "invalid_page = validation ''INVALID_PAGE'' ''error.invalid_page'' ''page is invalid'' None"

definition invalid_user_request :: "err \<Rightarrow> err" where
  "invalid_user_request e = validation ''INVALID_USER'' ''error.invalid_user'' ''user is invalid'' (Some e)"

text \<open>The checks on the page and its size, and the filter they give; a missing one is 0.\<close>

definition list_filter_of :: "list_users_params \<Rightarrow> err + list_filter" where
  "list_filter_of params =
     (if (case lq_page params of None \<Rightarrow> False | Some p \<Rightarrow> p < 1 \<or> 2147483647 < p) then Inl invalid_page
      else if (case lq_size params of None \<Rightarrow> False | Some n \<Rightarrow> n < 1 \<or> 100 < n) then Inl invalid_page
      else Inr \<lparr>lf_username = (case lq_username params of None \<Rightarrow> '''' | Some x \<Rightarrow> x),
        lf_status = (case lq_status params of None \<Rightarrow> '''' | Some x \<Rightarrow> x),
        lf_page = (case lq_page params of None \<Rightarrow> 0 | Some p \<Rightarrow> word_of_int p),
        lf_size = (case lq_size params of None \<Rightarrow> 0 | Some n \<Rightarrow> word_of_int n)\<rparr>)"

definition list_users_h ::
  "('w, 'sk, 'pk) http_env \<Rightarrow> ('w, 'sk, 'pk) handler \<Rightarrow> http_request \<Rightarrow> response \<Rightarrow> list_users_params \<Rightarrow>
    ('w, response) state" where
  "list_users_h E h rq rs params = for_superuser E h rq rs (\<lambda>_.
     case list_filter_of params of
       Inl e \<Rightarrow> fail_with rq rs e
     | Inr f \<Rightarrow>
         (case hd_users h of
            None \<Rightarrow> panicked rq rs
          | Some users \<Rightarrow> do {
              r \<leftarrow> service_list (he_unicode E) users f;
              case r of
                Inl e \<Rightarrow> fail_with rq rs (user_http_error e)
              | Inr page \<Rightarrow> State_Monad.return (send 200 (UserPageBody \<lparr>
                  upb_items = map user_response (pg_items page),
                  upb_pagination = \<lparr>pn_page = sint (pg_page page), pn_size = sint (pg_size page),
                    pn_total = pg_total page\<rparr>\<rparr>) rs) }))"

definition create_input_of :: "create_user_request \<Rightarrow> create_input" where
  "create_input_of q = \<lparr>ci_username = uq_username q, ci_password = uq_password q,
     ci_display_name = (case uq_display_name q of None \<Rightarrow> '''' | Some x \<Rightarrow> x),
     ci_email = (case uq_email q of None \<Rightarrow> '''' | Some x \<Rightarrow> x),
     ci_avatar_url = (case uq_avatar_url q of None \<Rightarrow> '''' | Some x \<Rightarrow> x),
     ci_is_superuser = (case uq_is_superuser q of None \<Rightarrow> False | Some x \<Rightarrow> x),
     ci_allow_multiple_sessions = (case uq_allow_multiple_sessions q of None \<Rightarrow> False | Some x \<Rightarrow> x)\<rparr>"

definition create_user_h ::
  "('w, 'sk, 'pk) http_env \<Rightarrow> ('w, 'sk, 'pk) handler \<Rightarrow> http_request \<Rightarrow> response \<Rightarrow> err + create_user_request \<Rightarrow>
    ('w, response) state" where
  "create_user_h E h rq rs bound = for_superuser E h rq rs (\<lambda>_.
     case bound of
       Inl e \<Rightarrow> fail_with rq rs (invalid_user_request e)
     | Inr request \<Rightarrow>
         (case hd_users h of
            None \<Rightarrow> panicked rq rs
          | Some users \<Rightarrow> do {
              r \<leftarrow> service_create (he_unicode E) (he_parsers E) users (create_input_of request);
              case r of
                Inl e \<Rightarrow> fail_with rq rs (user_http_error e)
              | Inr u \<Rightarrow> State_Monad.return (send 201 (UserBody (user_response u)) rs) }))"

definition update_user_h ::
  "('w, 'sk, 'pk) http_env \<Rightarrow> ('w, 'sk, 'pk) handler \<Rightarrow> http_request \<Rightarrow> response \<Rightarrow> uuid \<Rightarrow> err + update_user_request \<Rightarrow>
    ('w, response) state" where
  "update_user_h E h rq rs uid bound = for_superuser E h rq rs (\<lambda>_.
     case bound of
       Inl e \<Rightarrow> fail_with rq rs (invalid_user_request e)
     | Inr request \<Rightarrow>
         (case hd_users h of
            None \<Rightarrow> panicked rq rs
          | Some users \<Rightarrow> do {
              r \<leftarrow> service_update_profile (he_unicode E) (he_parsers E) users uid
                \<lparr>pi_username = mq_username request, pi_display_name = mq_display_name request,
                 pi_email = (case mq_email request of None \<Rightarrow> '''' | Some x \<Rightarrow> x),
                 pi_avatar_url = (case mq_avatar_url request of None \<Rightarrow> '''' | Some x \<Rightarrow> x)\<rparr>;
              case r of
                Inl e \<Rightarrow> fail_with rq rs (user_http_error e)
              | Inr u \<Rightarrow> State_Monad.return (send 200 (UserBody (user_response u)) rs) }))"

text \<open>An account that is no longer active loses its sessions; a failure of that is sent unmapped.\<close>

definition set_user_status_h ::
  "('w, 'sk, 'pk) http_env \<Rightarrow> ('w, 'sk, 'pk) handler \<Rightarrow> http_request \<Rightarrow> response \<Rightarrow> uuid \<Rightarrow> err + set_user_status_request \<Rightarrow>
    ('w, response) state" where
  "set_user_status_h E h rq rs uid bound = for_superuser E h rq rs (\<lambda>_.
     case bound of
       Inl e \<Rightarrow> fail_with rq rs (validation ''INVALID_STATUS'' ''error.invalid_status'' ''status is invalid'' (Some e))
     | Inr request \<Rightarrow>
         (case (hd_users h, hd_auth h) of
            (Some users, Some auth) \<Rightarrow> do {
              r \<leftarrow> service_set_status users uid (tq_status request);
              case r of
                Inl e \<Rightarrow> fail_with rq rs (user_http_error e)
              | Inr u \<Rightarrow>
                  if u_status u \<noteq> status_active then do {
                    v \<leftarrow> auth_revoke_user auth (u_id u);
                    case v of
                      Inl e \<Rightarrow> fail_with rq rs e
                    | Inr _ \<Rightarrow> State_Monad.return (send 200 (UserBody (user_response u)) rs) }
                  else State_Monad.return (send 200 (UserBody (user_response u)) rs) }
          | _ \<Rightarrow> panicked rq rs))"

definition reset_user_password_h ::
  "('w, 'sk, 'pk) http_env \<Rightarrow> ('w, 'sk, 'pk) handler \<Rightarrow> http_request \<Rightarrow> response \<Rightarrow> uuid \<Rightarrow> err + reset_password_request \<Rightarrow>
    ('w, response) state" where
  "reset_user_password_h E h rq rs uid bound = for_superuser E h rq rs (\<lambda>_.
     case bound of
       Inl e \<Rightarrow> fail_with rq rs (invalid_password_request e)
     | Inr request \<Rightarrow>
         (case (hd_users h, hd_auth h) of
            (Some users, Some auth) \<Rightarrow> do {
              r \<leftarrow> reset_password users uid (pq_password request);
              case r of
                Inl e \<Rightarrow> fail_with rq rs (user_http_error e)
              | Inr _ \<Rightarrow> do {
                  v \<leftarrow> auth_revoke_user auth uid;
                  case v of
                    Inl e \<Rightarrow> fail_with rq rs e
                  | Inr _ \<Rightarrow> State_Monad.return (send_status 204 rs) } }
          | _ \<Rightarrow> panicked rq rs))"

definition archive_user_h ::
  "('w, 'sk, 'pk) http_env \<Rightarrow> ('w, 'sk, 'pk) handler \<Rightarrow> http_request \<Rightarrow> response \<Rightarrow> uuid \<Rightarrow> ('w, response) state" where
  "archive_user_h E h rq rs uid = for_superuser E h rq rs (\<lambda>_.
     case (hd_users h, hd_auth h) of
       (Some users, Some auth) \<Rightarrow> do {
         r \<leftarrow> service_archive users uid;
         case r of
           Inl e \<Rightarrow> fail_with rq rs (user_http_error e)
         | Inr _ \<Rightarrow> do {
             v \<leftarrow> auth_revoke_user auth uid;
             case v of
               Inl e \<Rightarrow> fail_with rq rs e
             | Inr _ \<Rightarrow> State_Monad.return (send_status 204 rs) } }
     | _ \<Rightarrow> panicked rq rs)"

section \<open>Health\<close>

definition get_liveness_h :: "('w, 'sk, 'pk) handler \<Rightarrow> response \<Rightarrow> ('w, response) state" where
  "get_liveness_h h rs = State_Monad.return (send 200 (LivenessBody (health_live (hd_health h))) rs)"

definition get_readiness_h :: "('w, 'sk, 'pk) handler \<Rightarrow> response \<Rightarrow> ('w, response) state" where
  "get_readiness_h h rs = do {
     r \<leftarrow> health_ready (hd_health h);
     State_Monad.return (send (if rdy_ready r then 200 else 503)
       (ReadinessBody \<lparr>rb_ready = rdy_ready r, rb_checks = rdy_checks r\<rparr>) rs) }"

end
