(* ===== verification/HttpGateway.thy ===== *)
theory HttpGateway
  imports HttpApi
begin

text \<open>
  The HTTP server in front of the handlers: the middleware of
  \<open>internal/platform/httpserver/middleware.go\<close>, the routes and the documentation pages of
  \<open>router.go\<close>, and the wrappers and the route table generated in \<open>openapi.gen.go\<close>.

  Gin, the OpenAPI validator and the binding of parameters and bodies are libraries: they are the
  fields of \<open>gin_lib\<close>.  A middleware is a function of the rest of the chain.  Recovery is the
  \<open>panicked\<close> of the handlers; the access log and the deadline of a request change no response and
  are left out.
\<close>

section \<open>The wire\<close>

record wire =
  wi_request :: http_request
  wi_query :: string
  wi_body :: "reader option"

datatype operation =
    OpLogin
  | OpLogout
  | OpGetPasswordPolicy
  | OpRefreshToken
  | OpUploadFile
  | OpDeleteFile
  | OpGetCurrentUser
  | OpChangePassword
  | OpListCurrentUserSessions
  | OpRevokeOtherCurrentUserSessions
  | OpRevokeCurrentUserSession
  | OpListSystemConfigs
  | OpCreateSystemConfig
  | OpListPublicSystemConfigs
  | OpDeleteSystemConfig
  | OpGetSystemConfig
  | OpUpdateSystemConfig
  | OpListUsers
  | OpCreateUser
  | OpArchiveUser
  | OpUpdateUser
  | OpResetUserPassword
  | OpSetUserStatus
  | OpGetFile
  | OpGetLiveness
  | OpGetReadiness

text \<open>What a route leads to: an operation of the interface or a page of the documentation.\<close>

datatype target = Api operation | OpenApiJson | DocsPage | Favicon

type_synonym route = "string \<times> string \<times> target"

record gin_lib =
  gl_match :: "route list \<Rightarrow> string \<Rightarrow> string \<Rightarrow> (target \<times> (string \<Rightarrow> string)) option"
  gl_valid :: "bool \<Rightarrow> wire \<Rightarrow> int option"
  gl_uuid :: "string \<Rightarrow> err + uuid"
  gl_text :: "string \<Rightarrow> err + string"
  gl_query_int :: "string \<Rightarrow> string \<Rightarrow> err + int option"
  gl_query_text :: "string \<Rightarrow> string \<Rightarrow> err + string option"
  gl_login :: "reader option \<Rightarrow> err + login_request"
  gl_change_password :: "reader option \<Rightarrow> err + change_password_request"
  gl_create_user :: "reader option \<Rightarrow> err + create_user_request"
  gl_update_user :: "reader option \<Rightarrow> err + update_user_request"
  gl_set_status :: "reader option \<Rightarrow> err + set_user_status_request"
  gl_reset_password :: "reader option \<Rightarrow> err + reset_password_request"
  gl_system_config :: "reader option \<Rightarrow> err + system_config_request"
  gl_multipart :: "wire \<Rightarrow> err + part list \<times> err"
  gl_spec_json :: "err + string"

text \<open>The router of Gin finds a route among the registered ones, by method and path.\<close>

definition gin_laws :: "gin_lib \<Rightarrow> bool" where
  "gin_laws L \<longleftrightarrow> (\<forall>rs m p t ps. gl_match L rs m p = Some (t, ps) \<longrightarrow> (\<exists>pattern. (m, pattern, t) \<in> set rs))"

section \<open>The generated wrappers\<close>

text \<open>
  Each wrapper binds its parameters, then runs the middleware of the operation, of which there is
  none, and calls the handler.  A parameter that cannot be bound goes to the error handler that
  \<open>NewRouter\<close> passes.
\<close>

definition invalid_request :: "err option \<Rightarrow> err" where
  "invalid_request cause = validation ''INVALID_REQUEST'' ''error.invalid_request'' ''request is invalid'' cause"

definition with_param ::
  "http_request \<Rightarrow> response \<Rightarrow> string \<Rightarrow> err + 'a \<Rightarrow> ('a \<Rightarrow> ('w, response) state) \<Rightarrow> ('w, response) state" where
  "with_param rq rs name r body =
     (case r of
        Inl e \<Rightarrow> fail_with rq rs (invalid_request (Some (Wrapped (''Invalid format for parameter '' @ name) [e])))
      | Inr x \<Rightarrow> body x)"

type_synonym ('w, 'sk, 'pk) wrapper =
  "('w, 'sk, 'pk) http_env \<Rightarrow> gin_lib \<Rightarrow> ('w, 'sk, 'pk) handler \<Rightarrow> (string \<Rightarrow> string) \<Rightarrow> wire \<Rightarrow> response \<Rightarrow>
    ('w, response) state"

definition wrap_login :: "('w, 'sk, 'pk) wrapper" where
  "wrap_login E L h ps wq rs =
     login_h E h (wi_request wq) rs (gl_login L (wi_body wq))"

definition wrap_logout :: "('w, 'sk, 'pk) wrapper" where
  "wrap_logout E L h ps wq rs =
     logout_h E h (wi_request wq) rs"

definition wrap_get_password_policy :: "('w, 'sk, 'pk) wrapper" where
  "wrap_get_password_policy E L h ps wq rs =
     get_password_policy_h rs"

definition wrap_refresh_token :: "('w, 'sk, 'pk) wrapper" where
  "wrap_refresh_token E L h ps wq rs =
     refresh_token_h E h (wi_request wq) rs"

definition wrap_upload_file :: "('w, 'sk, 'pk) wrapper" where
  "wrap_upload_file E L h ps wq rs =
     upload_file_h E h (wi_request wq) rs (gl_multipart L wq)"

definition wrap_delete_file :: "('w, 'sk, 'pk) wrapper" where
  "wrap_delete_file E L h ps wq rs =
     with_param (wi_request wq) rs ''ownerId'' (gl_uuid L (ps ''ownerId'')) (\<lambda>owner.
       with_param (wi_request wq) rs ''fileName'' (gl_text L (ps ''fileName'')) (\<lambda>name.
       delete_file_h E h (wi_request wq) rs owner name))"

definition wrap_get_current_user :: "('w, 'sk, 'pk) wrapper" where
  "wrap_get_current_user E L h ps wq rs =
     get_current_user_h E h (wi_request wq) rs"

definition wrap_change_password :: "('w, 'sk, 'pk) wrapper" where
  "wrap_change_password E L h ps wq rs =
     change_password_h E h (wi_request wq) rs (gl_change_password L (wi_body wq))"

definition wrap_list_current_user_sessions :: "('w, 'sk, 'pk) wrapper" where
  "wrap_list_current_user_sessions E L h ps wq rs =
     list_current_user_sessions_h E h (wi_request wq) rs"

definition wrap_revoke_other_current_user_sessions :: "('w, 'sk, 'pk) wrapper" where
  "wrap_revoke_other_current_user_sessions E L h ps wq rs =
     revoke_other_current_user_sessions_h E h (wi_request wq) rs"

definition wrap_revoke_current_user_session :: "('w, 'sk, 'pk) wrapper" where
  "wrap_revoke_current_user_session E L h ps wq rs =
     with_param (wi_request wq) rs ''sessionId'' (gl_uuid L (ps ''sessionId'')) (\<lambda>sid.
       revoke_current_user_session_h E h (wi_request wq) rs sid)"

definition wrap_list_system_configs :: "('w, 'sk, 'pk) wrapper" where
  "wrap_list_system_configs E L h ps wq rs =
     list_system_configs_h E h (wi_request wq) rs"

definition wrap_create_system_config :: "('w, 'sk, 'pk) wrapper" where
  "wrap_create_system_config E L h ps wq rs =
     create_system_config_h E h (wi_request wq) rs (gl_system_config L (wi_body wq))"

definition wrap_list_public_system_configs :: "('w, 'sk, 'pk) wrapper" where
  "wrap_list_public_system_configs E L h ps wq rs =
     list_public_system_configs_h h (wi_request wq) rs"

definition wrap_delete_system_config :: "('w, 'sk, 'pk) wrapper" where
  "wrap_delete_system_config E L h ps wq rs =
     with_param (wi_request wq) rs ''key'' (gl_text L (ps ''key'')) (\<lambda>key.
       delete_system_config_h E h (wi_request wq) rs key)"

definition wrap_get_system_config :: "('w, 'sk, 'pk) wrapper" where
  "wrap_get_system_config E L h ps wq rs =
     with_param (wi_request wq) rs ''key'' (gl_text L (ps ''key'')) (\<lambda>key.
       get_system_config_h E h (wi_request wq) rs key)"

definition wrap_update_system_config :: "('w, 'sk, 'pk) wrapper" where
  "wrap_update_system_config E L h ps wq rs =
     with_param (wi_request wq) rs ''key'' (gl_text L (ps ''key'')) (\<lambda>key.
       update_system_config_h E h (wi_request wq) rs key (gl_system_config L (wi_body wq)))"

definition wrap_list_users :: "('w, 'sk, 'pk) wrapper" where
  "wrap_list_users E L h ps wq rs =
     with_param (wi_request wq) rs ''page'' (gl_query_int L (wi_query wq) ''page'') (\<lambda>page.
       with_param (wi_request wq) rs ''size'' (gl_query_int L (wi_query wq) ''size'') (\<lambda>size.
       with_param (wi_request wq) rs ''username'' (gl_query_text L (wi_query wq) ''username'') (\<lambda>username.
       with_param (wi_request wq) rs ''status'' (gl_query_text L (wi_query wq) ''status'') (\<lambda>status.
         list_users_h E h (wi_request wq) rs
           \<lparr>lq_page = page, lq_size = size, lq_username = username, lq_status = status\<rparr>))))"

definition wrap_create_user :: "('w, 'sk, 'pk) wrapper" where
  "wrap_create_user E L h ps wq rs =
     create_user_h E h (wi_request wq) rs (gl_create_user L (wi_body wq))"

definition wrap_archive_user :: "('w, 'sk, 'pk) wrapper" where
  "wrap_archive_user E L h ps wq rs =
     with_param (wi_request wq) rs ''userId'' (gl_uuid L (ps ''userId'')) (\<lambda>uid.
       archive_user_h E h (wi_request wq) rs uid)"

definition wrap_update_user :: "('w, 'sk, 'pk) wrapper" where
  "wrap_update_user E L h ps wq rs =
     with_param (wi_request wq) rs ''userId'' (gl_uuid L (ps ''userId'')) (\<lambda>uid.
       update_user_h E h (wi_request wq) rs uid (gl_update_user L (wi_body wq)))"

definition wrap_reset_user_password :: "('w, 'sk, 'pk) wrapper" where
  "wrap_reset_user_password E L h ps wq rs =
     with_param (wi_request wq) rs ''userId'' (gl_uuid L (ps ''userId'')) (\<lambda>uid.
       reset_user_password_h E h (wi_request wq) rs uid (gl_reset_password L (wi_body wq)))"

definition wrap_set_user_status :: "('w, 'sk, 'pk) wrapper" where
  "wrap_set_user_status E L h ps wq rs =
     with_param (wi_request wq) rs ''userId'' (gl_uuid L (ps ''userId'')) (\<lambda>uid.
       set_user_status_h E h (wi_request wq) rs uid (gl_set_status L (wi_body wq)))"

definition wrap_get_file :: "('w, 'sk, 'pk) wrapper" where
  "wrap_get_file E L h ps wq rs =
     with_param (wi_request wq) rs ''ownerId'' (gl_uuid L (ps ''ownerId'')) (\<lambda>owner.
       with_param (wi_request wq) rs ''fileName'' (gl_text L (ps ''fileName'')) (\<lambda>name.
       get_file_h E h (wi_request wq) rs owner name))"

definition wrap_get_liveness :: "('w, 'sk, 'pk) wrapper" where
  "wrap_get_liveness E L h ps wq rs =
     get_liveness_h h rs"

definition wrap_get_readiness :: "('w, 'sk, 'pk) wrapper" where
  "wrap_get_readiness E L h ps wq rs =
     get_readiness_h h rs"

fun call_operation :: "operation \<Rightarrow> ('w, 'sk, 'pk) wrapper" where
  "call_operation OpLogin = wrap_login"
| "call_operation OpLogout = wrap_logout"
| "call_operation OpGetPasswordPolicy = wrap_get_password_policy"
| "call_operation OpRefreshToken = wrap_refresh_token"
| "call_operation OpUploadFile = wrap_upload_file"
| "call_operation OpDeleteFile = wrap_delete_file"
| "call_operation OpGetCurrentUser = wrap_get_current_user"
| "call_operation OpChangePassword = wrap_change_password"
| "call_operation OpListCurrentUserSessions = wrap_list_current_user_sessions"
| "call_operation OpRevokeOtherCurrentUserSessions = wrap_revoke_other_current_user_sessions"
| "call_operation OpRevokeCurrentUserSession = wrap_revoke_current_user_session"
| "call_operation OpListSystemConfigs = wrap_list_system_configs"
| "call_operation OpCreateSystemConfig = wrap_create_system_config"
| "call_operation OpListPublicSystemConfigs = wrap_list_public_system_configs"
| "call_operation OpDeleteSystemConfig = wrap_delete_system_config"
| "call_operation OpGetSystemConfig = wrap_get_system_config"
| "call_operation OpUpdateSystemConfig = wrap_update_system_config"
| "call_operation OpListUsers = wrap_list_users"
| "call_operation OpCreateUser = wrap_create_user"
| "call_operation OpArchiveUser = wrap_archive_user"
| "call_operation OpUpdateUser = wrap_update_user"
| "call_operation OpResetUserPassword = wrap_reset_user_password"
| "call_operation OpSetUserStatus = wrap_set_user_status"
| "call_operation OpGetFile = wrap_get_file"
| "call_operation OpGetLiveness = wrap_get_liveness"
| "call_operation OpGetReadiness = wrap_get_readiness"

text \<open>\<open>RegisterHandlersWithOptions\<close>: the route table, in its order.\<close>

definition api_routes :: "(string \<times> string \<times> operation) list" where
  "api_routes = [
     (''POST'', ''/api/v1/auth/login'', OpLogin),
     (''POST'', ''/api/v1/auth/logout'', OpLogout),
     (''GET'', ''/api/v1/auth/password-policy'', OpGetPasswordPolicy),
     (''POST'', ''/api/v1/auth/refresh'', OpRefreshToken),
     (''POST'', ''/api/v1/files'', OpUploadFile),
     (''DELETE'', ''/api/v1/files/:ownerId/:fileName'', OpDeleteFile),
     (''GET'', ''/api/v1/me'', OpGetCurrentUser),
     (''PUT'', ''/api/v1/me/password'', OpChangePassword),
     (''GET'', ''/api/v1/me/sessions'', OpListCurrentUserSessions),
     (''DELETE'', ''/api/v1/me/sessions/others'', OpRevokeOtherCurrentUserSessions),
     (''DELETE'', ''/api/v1/me/sessions/:sessionId'', OpRevokeCurrentUserSession),
     (''GET'', ''/api/v1/system-configs'', OpListSystemConfigs),
     (''POST'', ''/api/v1/system-configs'', OpCreateSystemConfig),
     (''GET'', ''/api/v1/system-configs/public'', OpListPublicSystemConfigs),
     (''DELETE'', ''/api/v1/system-configs/:key'', OpDeleteSystemConfig),
     (''GET'', ''/api/v1/system-configs/:key'', OpGetSystemConfig),
     (''PUT'', ''/api/v1/system-configs/:key'', OpUpdateSystemConfig),
     (''GET'', ''/api/v1/users'', OpListUsers),
     (''POST'', ''/api/v1/users'', OpCreateUser),
     (''DELETE'', ''/api/v1/users/:userId'', OpArchiveUser),
     (''PATCH'', ''/api/v1/users/:userId'', OpUpdateUser),
     (''PUT'', ''/api/v1/users/:userId/password'', OpResetUserPassword),
     (''PUT'', ''/api/v1/users/:userId/status'', OpSetUserStatus),
     (''GET'', ''/files/:ownerId/:fileName'', OpGetFile),
     (''GET'', ''/livez'', OpGetLiveness),
     (''GET'', ''/readyz'', OpGetReadiness)]"

section \<open>router.go\<close>

text \<open>
  \<open>optionalModuleRouter\<close> drops the routes of disabled modules; it overrides \<open>GET\<close>, \<open>POST\<close>, \<open>DELETE\<close>
  and \<open>PUT\<close>, each with its own test.
\<close>

definition router_get :: "module_config \<Rightarrow> string \<Rightarrow> bool" where
  "router_get modules path \<longleftrightarrow>
     (if \<not> m_file modules \<and> path = ''/files/:ownerId/:fileName'' then False
      else if \<not> m_system_config modules \<and> has_prefix ''/api/v1/system-configs'' path then False
      else True)"

definition router_post :: "module_config \<Rightarrow> string \<Rightarrow> bool" where
  "router_post modules path \<longleftrightarrow>
     (if \<not> m_file modules \<and> path = ''/api/v1/files'' then False
      else if \<not> m_system_config modules \<and> has_prefix ''/api/v1/system-configs'' path then False
      else True)"

definition router_delete :: "module_config \<Rightarrow> string \<Rightarrow> bool" where
  "router_delete modules path \<longleftrightarrow>
     (if \<not> m_file modules \<and> path = ''/api/v1/files/:ownerId/:fileName'' then False
      else if \<not> m_system_config modules \<and> has_prefix ''/api/v1/system-configs'' path then False
      else True)"

definition router_put :: "module_config \<Rightarrow> string \<Rightarrow> bool" where
  "router_put modules path \<longleftrightarrow>
     (if \<not> m_system_config modules \<and> has_prefix ''/api/v1/system-configs'' path then False else True)"

definition route_kept :: "module_config \<Rightarrow> string \<times> string \<times> operation \<Rightarrow> bool" where
  "route_kept modules r = (case r of (verb, path, _) \<Rightarrow>
     if verb = ''GET'' then router_get modules path
     else if verb = ''POST'' then router_post modules path
     else if verb = ''DELETE'' then router_delete modules path
     else if verb = ''PUT'' then router_put modules path
     else True)"

definition documentation_routes :: "route list" where
  "documentation_routes = [(''GET'', ''/openapi.json'', OpenApiJson), (''GET'', ''/docs'', DocsPage),
     (''GET'', ''/favicon.ico'', Favicon)]"

definition router_routes :: "config \<Rightarrow> route list" where
  "router_routes cfg =
     map (\<lambda>(verb, path, op). (verb, path, Api op)) (filter (route_kept (cfg_modules cfg)) api_routes) @
     (if a_environment (cfg_app cfg) \<noteq> ''production'' \<and> a_docs_enabled (cfg_app cfg)
      then documentation_routes else [])"

text \<open>\<open>fileUploadBodyLimit\<close>, in 64 bits.\<close>

definition int64 :: "int \<Rightarrow> int" where
  "int64 = signed_take_bit 63"

definition default_max_body_bytes :: int where "default_max_body_bytes = push_bit 20 10"
definition multipart_overhead_bytes :: int where "multipart_overhead_bytes = push_bit 20 1"

definition file_upload_body_limit :: "config \<Rightarrow> int" where
  "file_upload_body_limit cfg =
     (if \<not> m_file (cfg_modules cfg) then default_max_body_bytes
      else (let limit = f_image_max_bytes (cfg_file cfg);
                limit = (if f_video_enabled (cfg_file cfg) \<and> limit < f_video_max_bytes (cfg_file cfg)
                  then f_video_max_bytes (cfg_file cfg) else limit)
            in int64 (limit + multipart_overhead_bytes)))"

text \<open>
  \<open>openAPIValidationMiddleware\<close>: the validator gives the status of a refusal; the body of an upload
  is not validated.
\<close>

definition is_upload :: "http_request \<Rightarrow> bool" where
  "is_upload rq \<longleftrightarrow> rq_method rq = ''POST'' \<and> rq_path rq = ''/api/v1/files''"

definition openapi_validation_error :: "http_request \<Rightarrow> response \<Rightarrow> int \<Rightarrow> ('w, response) state" where
  "openapi_validation_error rq rs status =
     (if status = 404 then State_Monad.return (send_status status rs)
      else fail_with rq rs (invalid_request None))"

type_synonym 'w chain = "wire \<Rightarrow> response \<Rightarrow> ('w, response) state"

definition openapi_validation_middleware :: "gin_lib \<Rightarrow> 'w chain \<Rightarrow> 'w chain" where
  "openapi_validation_middleware L next wq rs =
     (case gl_valid L (is_upload (wi_request wq)) wq of
        Some status \<Rightarrow> openapi_validation_error (wi_request wq) rs status
      | None \<Rightarrow> next wq rs)"

definition swagger_ui_html :: string where
  \<open>swagger_ui_html = (let nl = [CHR 0x0A] in
     ''<!doctype html>'' @ nl @
     ''<html lang="zh-CN">'' @ nl @
     ''<head>'' @ nl @
     ''  <meta charset="utf-8">'' @ nl @
     ''  <meta name="viewport" content="width=device-width, initial-scale=1">'' @ nl @
     ''  <title>GoBA Slim API</title>'' @ nl @
     ''  <link rel="stylesheet" href="https://unpkg.com/swagger-ui-dist@5/swagger-ui.css">'' @ nl @
     ''</head>'' @ nl @
     ''<body>'' @ nl @
     ''  <div id="swagger-ui"></div>'' @ nl @
     ''  <script src="https://unpkg.com/swagger-ui-dist@5/swagger-ui-bundle.js"></script>'' @ nl @
     ''  <script>'' @ nl @
     ''    window.ui = SwaggerUIBundle({'' @ nl @
     ''      url: "/openapi.json",'' @ nl @
     ''      dom_id: "#swagger-ui",'' @ nl @
     ''      presets: [SwaggerUIBundle.presets.apis],'' @ nl @
     ''      layout: "BaseLayout"'' @ nl @
     ''    });'' @ nl @
     ''  </script>'' @ nl @
     ''</body>'' @ nl @
     ''</html>'')\<close>

text \<open>\<open>registerDocumentation\<close>\<close>

definition documentation :: "gin_lib \<Rightarrow> target \<Rightarrow> wire \<Rightarrow> response \<Rightarrow> ('w, response) state" where
  "documentation L t wq rs =
     (case t of
        OpenApiJson \<Rightarrow>
          (case gl_spec_json L of
             Inl e \<Rightarrow> fail_with (wi_request wq) rs e
           | Inr spec \<Rightarrow> State_Monad.return (send 200 (ContentBody spec)
               (add_header ''Content-Type'' ''application/json; charset=utf-8'' rs)))
      | DocsPage \<Rightarrow> State_Monad.return (send 200 (ContentBody swagger_ui_html)
          (add_header ''Content-Type'' ''text/html; charset=utf-8'' rs))
      | _ \<Rightarrow> State_Monad.return (send_status 204 rs))"

text \<open>A request that no route matches is answered by Gin, after the middleware.\<close>

definition router_engine :: "('w, 'sk, 'pk) http_env \<Rightarrow> gin_lib \<Rightarrow> ('w, 'sk, 'pk) handler \<Rightarrow> config \<Rightarrow> 'w chain" where
  "router_engine E L h cfg wq rs =
     (case gl_match L (router_routes cfg) (rq_method (wi_request wq)) (rq_path (wi_request wq)) of
        None \<Rightarrow> State_Monad.return (send 404 (ContentBody ''404 page not found'') rs)
      | Some (Api op, ps) \<Rightarrow> openapi_validation_middleware L (call_operation op E L h ps) wq rs
      | Some (t, ps) \<Rightarrow> documentation L t wq rs)"

section \<open>middleware.go\<close>

definition min_request_id_length :: nat where "min_request_id_length = 8"
definition max_request_id_length :: nat where "max_request_id_length = 128"

definition request_id_rune :: "unicode \<Rightarrow> rune \<Rightarrow> bool" where
  "request_id_rune U r \<longleftrightarrow> \<not> (\<not> uc_letter U r \<and> \<not> uc_digit U r \<and>
     r \<noteq> byte (CHR ''-'') \<and> r \<noteq> byte (CHR ''_'') \<and> r \<noteq> byte (CHR ''.''))"

definition valid_request_id :: "unicode \<Rightarrow> string \<Rightarrow> bool" where
  "valid_request_id U v \<longleftrightarrow>
     (if length v < min_request_id_length \<or> max_request_id_length < length v then False
      else list_all (request_id_rune U) (runes v))"

text \<open>\<open>hex.EncodeToString\<close>\<close>

definition hex_nibble :: "nat \<Rightarrow> char" where
  "hex_nibble n = char_of (if n < 10 then 48 + n else 87 + n)"

definition hex_encode :: "string \<Rightarrow> string" where
  "hex_encode s = concat (map (\<lambda>c. [hex_nibble (byte c div 16), hex_nibble (byte c mod 16)]) s)"

definition new_request_id :: "'w rand_read \<Rightarrow> ('w, string) state" where
  "new_request_id rand = do {
     r \<leftarrow> rand 16;
     State_Monad.return (case r of Inr v \<Rightarrow> hex_encode v | Inl _ \<Rightarrow> ''request-id-unavailable'') }"

definition request_id_middleware :: "unicode \<Rightarrow> 'w rand_read \<Rightarrow> 'w chain \<Rightarrow> 'w chain" where
  "request_id_middleware U rand next wq rs = do {
     let given = rq_header (wi_request wq) ''X-Request-ID'';
     i \<leftarrow> (if \<not> valid_request_id U given then new_request_id rand else State_Monad.return given);
     next (wq\<lparr>wi_request := (wi_request wq)\<lparr>rq_context := with_request_id (rq_context (wi_request wq)) i\<rparr>\<rparr>)
       (add_header ''X-Request-ID'' i rs) }"

definition default_content_security_policy :: string where
  "default_content_security_policy =
     ''default-src 'self'; base-uri 'self'; frame-ancestors 'none'; form-action 'self'' @ [CHR 0x27]"

definition swagger_content_security_policy :: string where
  "swagger_content_security_policy =
     ''default-src 'self'; style-src 'self' 'unsafe-inline' https://unpkg.com; '' @
     ''script-src 'self' 'unsafe-inline' https://unpkg.com; img-src 'self' data:; '' @
     ''font-src 'self' https://unpkg.com; connect-src 'self'; base-uri 'self'; '' @
     ''frame-ancestors 'none'; form-action 'self'' @ [CHR 0x27]"

definition security_headers_middleware :: "'w chain \<Rightarrow> 'w chain" where
  "security_headers_middleware next wq rs = next wq
     (add_header ''Content-Security-Policy''
        (if rq_path (wi_request wq) = ''/docs'' then swagger_content_security_policy
         else default_content_security_policy)
     (add_header ''Referrer-Policy'' ''strict-origin-when-cross-origin''
     (add_header ''X-Frame-Options'' ''DENY''
     (add_header ''X-Content-Type-Options'' ''nosniff'' rs))))"

fun join_with :: "string \<Rightarrow> string list \<Rightarrow> string" where
  "join_with sep [] = ''''"
| "join_with sep [x] = x"
| "join_with sep (x # y # xs) = x @ sep @ join_with sep (y # xs)"

definition cors_headers :: "cors_config \<Rightarrow> string \<Rightarrow> response \<Rightarrow> response" where
  "cors_headers cors origin rs =
     (let methods = join_with '', '' (co_allow_methods cors);
          headers = join_with '', '' (co_allow_headers cors);
          rs = add_header ''Vary'' ''Origin'' (add_header ''Access-Control-Allow-Origin'' origin rs);
          rs = (if co_allow_credentials cors then add_header ''Access-Control-Allow-Credentials'' ''true'' rs else rs);
          rs = (if methods \<noteq> '''' then add_header ''Access-Control-Allow-Methods'' methods rs else rs)
      in if headers \<noteq> '''' then add_header ''Access-Control-Allow-Headers'' headers rs else rs)"

definition cors_middleware :: "cors_config \<Rightarrow> 'w chain \<Rightarrow> 'w chain" where
  "cors_middleware cors next wq rs =
     (let rq = wi_request wq; origin = rq_header rq ''Origin'' in
      if origin = '''' then next wq rs
      else if origin \<notin> set (co_allow_origins cors) then next wq rs
      else (let rs = cors_headers cors origin rs in
        if rq_method rq = ''OPTIONS'' \<and> rq_header rq ''Access-Control-Request-Method'' \<noteq> ''''
        then State_Monad.return (send_status 204 rs)
        else next wq rs))"

text \<open>\<open>http.MaxBytesReader\<close>: what lies beyond the limit is an error instead; a negative limit is 0.\<close>

definition max_bytes_reader :: "int \<Rightarrow> reader \<Rightarrow> reader" where
  "max_bytes_reader limit r = (case r of (bs, e) \<Rightarrow>
     if int (length bs) \<le> max 0 limit then (bs, e) else (take (nat limit) bs, Some (Sentinel MaxBytes)))"

definition body_limit_middleware :: "int \<Rightarrow> int \<Rightarrow> 'w chain \<Rightarrow> 'w chain" where
  "body_limit_middleware max_bytes file_max_bytes next wq rs =
     (case wi_body wq of
        None \<Rightarrow> next wq rs
      | Some body \<Rightarrow>
          (let limit = (if is_upload (wi_request wq) then file_max_bytes else max_bytes)
           in next (wq\<lparr>wi_body := Some (max_bytes_reader limit body)\<rparr>) rs))"

text \<open>\<open>NewRouter\<close>: the middleware in the order of \<open>router.Use\<close>, around the routes.\<close>

definition new_router :: "('w, 'sk, 'pk) http_env \<Rightarrow> gin_lib \<Rightarrow> ('w, 'sk, 'pk) handler \<Rightarrow> config \<Rightarrow> 'w chain" where
  "new_router E L h cfg =
     request_id_middleware (he_unicode E) (ae_rand (he_auth E))
       (security_headers_middleware
         (cors_middleware (cfg_cors cfg)
           (body_limit_middleware default_max_body_bytes (file_upload_body_limit cfg)
             (router_engine E L h cfg))))"

end
