(* ===== verification/SessionStore.thy ===== *)
theory SessionStore
  imports RedisModel
begin

text \<open>
  \<open>internal/modules/auth/redis/store.go\<close>: sessions, refresh tokens, the per-user index and the
  login counters.  Encoding a session or a token as JSON cannot fail, so the error branches of
  \<open>json.Marshal\<close> are left out; decoding can.
\<close>

record 'w redis_store =
  rs_client :: "'w redis_client"
  rs_session_prefix :: string
  rs_refresh_prefix :: string
  rs_user_prefix :: string
  rs_limit_prefix :: string

definition new_redis_store :: "'w redis_client option \<Rightarrow> string \<Rightarrow> err + 'w redis_store" where
  "new_redis_store client environment =
     (case client of
        None \<Rightarrow> Inl (Plain ''auth Redis dependencies must not be empty'')
      | Some c \<Rightarrow>
          if environment = '''' then Inl (Plain ''auth Redis dependencies must not be empty'')
          else
            let prefix = ''goba:'' @ environment @ '':auth:'' in
            Inr \<lparr>rs_client = c, rs_session_prefix = prefix @ ''session:'',
                 rs_refresh_prefix = prefix @ ''refresh:'', rs_user_prefix = prefix @ ''user:'',
                 rs_limit_prefix = prefix @ ''limit:''\<rparr>)"

section \<open>Keys and documents\<close>

definition sess_key :: "uuid_pkg \<Rightarrow> 'w redis_store \<Rightarrow> uuid \<Rightarrow> string" where
  "sess_key P st i = rs_session_prefix st @ u_string P i"

definition refresh_key :: "'w redis_store \<Rightarrow> string \<Rightarrow> string" where
  "refresh_key st digest = rs_refresh_prefix st @ digest"

definition user_key :: "uuid_pkg \<Rightarrow> 'w redis_store \<Rightarrow> uuid \<Rightarrow> string" where
  "user_key P st u = rs_user_prefix st @ u_string P u"

definition limit_key :: "'w redis_store \<Rightarrow> string \<Rightarrow> string" where
  "limit_key st k = rs_limit_prefix st @ k"

text \<open>\<open>json.Unmarshal\<close> into a session: a token document sets the fields it shares.\<close>

definition unmarshal_session :: "rvalue \<Rightarrow> session option" where
  "unmarshal_session v =
     (case v of
        DocSession s \<Rightarrow> Some s
      | DocRefresh t \<Rightarrow> Some \<lparr>s_id = 0, s_family_id = rr_family_id t, s_user_id = rr_user_id t,
          s_user_version = 0, s_current_digest = '''', s_created_at = zero_time,
          s_expires_at = zero_time\<rparr>
      | _ \<Rightarrow> None)"

definition bad_reply :: err where "bad_reply = Plain ''unexpected reply''"

definition members_reply :: "err + reply \<Rightarrow> err + string list" where
  "members_reply r = (case r of Inl e \<Rightarrow> Inl e | Inr (MembersReply ms) \<Rightarrow> Inr ms | Inr _ \<Rightarrow> Inl bad_reply)"

definition int_reply :: "err + reply \<Rightarrow> err + int" where
  "int_reply r = (case r of Inl e \<Rightarrow> Inl e | Inr (IntReply n) \<Rightarrow> Inr n | Inr _ \<Rightarrow> Inl bad_reply)"

definition slice_reply :: "err + reply \<Rightarrow> err + rvalue list" where
  "slice_reply r = (case r of Inl e \<Rightarrow> Inl e | Inr (Array vs) \<Rightarrow> Inr vs | Inr _ \<Rightarrow> Inl bad_reply)"

text \<open>\<open>toInt64\<close>: an integer, or a string \<open>strconv.ParseInt\<close> reads.\<close>

definition parse_int64 :: "string \<Rightarrow> int option" where
  "parse_int64 s =
     (let (neg, digits) = (case s of
          CHR ''-'' # ds \<Rightarrow> (True, ds) | CHR ''+'' # ds \<Rightarrow> (False, ds) | ds \<Rightarrow> (False, ds))
      in if digits \<noteq> [] \<and> list_all is_digit digits then
           (let n = (if neg then - int (digits_value digits) else int (digits_value digits))
            in if - (2 ^ 63) \<le> n \<and> n < 2 ^ 63 then Some n else None)
         else None)"

definition to_int64 :: "rvalue \<Rightarrow> err + int" where
  "to_int64 v =
     (case v of
        IntVal n \<Rightarrow> Inr n
      | TextVal s \<Rightarrow> (case parse_int64 s of Some n \<Rightarrow> Inr n | None \<Rightarrow> Inl (Plain ''invalid Lua state''))
      | _ \<Rightarrow> Inl (Plain ''invalid Lua state''))"

section \<open>Operations\<close>

definition store_get :: "uuid_pkg \<Rightarrow> 'w redis_store \<Rightarrow> uuid \<Rightarrow> ('w, err + session) state" where
  "store_get P st sid = do {
     r \<leftarrow> rs_client st (Basic (CGet (sess_key P st sid)));
     case r of
       Inl e \<Rightarrow>
         if err_is RedisNil e then State_Monad.return (Inl (Sentinel InvalidToken))
         else State_Monad.return (Inl (Wrapped ''read auth session'' [e]))
     | Inr (Bulk v) \<Rightarrow>
         (case unmarshal_session v of
            None \<Rightarrow> State_Monad.return (Inl (Wrapped ''parse auth session'' [Plain ''json'']))
          | Some s \<Rightarrow> State_Monad.return (Inr s))
     | Inr _ \<Rightarrow> State_Monad.return (Inl bad_reply) }"

definition store_revoke :: "uuid_pkg \<Rightarrow> 'w redis_store \<Rightarrow> uuid \<Rightarrow> ('w, err + unit) state" where
  "store_revoke P st sid = do {
     g \<leftarrow> store_get P st sid;
     case g of
       Inl e \<Rightarrow>
         if err_is InvalidToken e then State_Monad.return (Inr ()) else State_Monad.return (Inl e)
     | Inr s \<Rightarrow> do {
         r \<leftarrow> rs_client st (Multi [
           CDel [sess_key P st (s_id s), refresh_key st (s_current_digest s)],
           CSRem (user_key P st (s_user_id s)) [u_string P (s_id s)]]);
         case r of
           Inl e \<Rightarrow> State_Monad.return (Inl (Wrapped ''revoke auth session'' [e]))
         | Inr _ \<Rightarrow> State_Monad.return (Inr ()) } }"

text \<open>The loop of \<open>RevokeUser\<close>.\<close>

fun revoke_all :: "uuid_pkg \<Rightarrow> 'w redis_store \<Rightarrow> string list \<Rightarrow> ('w, err + unit) state" where
  "revoke_all P st [] = State_Monad.return (Inr ())"
| "revoke_all P st (v # vs) =
     (case u_parse P v of
        None \<Rightarrow> revoke_all P st vs
      | Some sid \<Rightarrow> do {
          r \<leftarrow> store_revoke P st sid;
          case r of Inl e \<Rightarrow> State_Monad.return (Inl e) | Inr _ \<Rightarrow> revoke_all P st vs })"

definition store_revoke_user :: "uuid_pkg \<Rightarrow> 'w redis_store \<Rightarrow> uuid \<Rightarrow> ('w, err + unit) state" where
  "store_revoke_user P st uid = do {
     r \<leftarrow> rs_client st (Basic (CSMembers (user_key P st uid)));
     case members_reply r of
       Inl e \<Rightarrow> State_Monad.return (Inl (Wrapped ''read user session index'' [e]))
     | Inr ids \<Rightarrow> do {
         v \<leftarrow> revoke_all P st ids;
         case v of
           Inl e \<Rightarrow> State_Monad.return (Inl e)
         | Inr _ \<Rightarrow> do {
             x \<leftarrow> rs_client st (Basic (CDel [user_key P st uid]));
             case x of
               Inl e \<Rightarrow> State_Monad.return (Inl (Wrapped ''delete user session index'' [e]))
             | Inr _ \<Rightarrow> State_Monad.return (Inr ()) } } }"

definition store_session :: "uuid_pkg \<Rightarrow> 'w redis_store \<Rightarrow> session \<Rightarrow> duration \<Rightarrow> ('w, err + unit) state" where
  "store_session P st s ttl = do {
     r \<leftarrow> rs_client st (Multi [
       CSet (sess_key P st (s_id s)) (DocSession s) ttl,
       CSet (refresh_key st (s_current_digest s)) (DocRefresh \<lparr>rr_session_id = s_id s,
         rr_family_id = s_family_id s, rr_user_id = s_user_id s, rr_state = ''active''\<rparr>) ttl,
       CSAdd (user_key P st (s_user_id s)) (u_string P (s_id s)),
       CExpire (user_key P st (s_user_id s)) ttl]);
     case r of
       Inl e \<Rightarrow> State_Monad.return (Inl (Wrapped ''save auth session'' [e]))
     | Inr _ \<Rightarrow> State_Monad.return (Inr ()) }"

definition store_create ::
  "uuid_pkg \<Rightarrow> 'w redis_store \<Rightarrow> session \<Rightarrow> duration \<Rightarrow> bool \<Rightarrow> ('w, err + unit) state" where
  "store_create P st s ttl allow_multiple =
     (if \<not> allow_multiple then do {
        r \<leftarrow> store_revoke_user P st (s_user_id s);
        case r of Inl e \<Rightarrow> State_Monad.return (Inl e) | Inr _ \<Rightarrow> store_session P st s ttl }
      else store_session P st s ttl)"

text \<open>The loop of \<open>ListByUser\<close>: the sessions found and the index entries that are stale.\<close>

fun list_loop ::
  "uuid_pkg \<Rightarrow> 'w redis_store \<Rightarrow> uuid \<Rightarrow> string list \<Rightarrow> session list \<Rightarrow> string list \<Rightarrow>
    ('w, err + session list \<times> string list) state" where
  "list_loop P st uid [] sessions stale = State_Monad.return (Inr (sessions, stale))"
| "list_loop P st uid (v # vs) sessions stale =
     (case u_parse P v of
        None \<Rightarrow> list_loop P st uid vs sessions (stale @ [v])
      | Some sid \<Rightarrow> do {
          g \<leftarrow> store_get P st sid;
          case g of
            Inl e \<Rightarrow>
              if err_is InvalidToken e then list_loop P st uid vs sessions (stale @ [v])
              else State_Monad.return (Inl e)
          | Inr s \<Rightarrow>
              if s_user_id s \<noteq> uid then list_loop P st uid vs sessions (stale @ [v])
              else list_loop P st uid vs (sessions @ [s]) stale })"

definition store_list_by_user :: "uuid_pkg \<Rightarrow> 'w redis_store \<Rightarrow> uuid \<Rightarrow> ('w, err + session list) state" where
  "store_list_by_user P st uid = do {
     r \<leftarrow> rs_client st (Basic (CSMembers (user_key P st uid)));
     case members_reply r of
       Inl e \<Rightarrow> State_Monad.return (Inl (Wrapped ''read user session index'' [e]))
     | Inr ids \<Rightarrow> do {
         l \<leftarrow> list_loop P st uid ids [] [];
         case l of
           Inl e \<Rightarrow> State_Monad.return (Inl e)
         | Inr (sessions, stale) \<Rightarrow>
             if stale \<noteq> [] then do {
               x \<leftarrow> rs_client st (Basic (CSRem (user_key P st uid) stale));
               case x of
                 Inl e \<Rightarrow> State_Monad.return (Inl (Wrapped ''clean stale session index'' [e]))
               | Inr _ \<Rightarrow> State_Monad.return (Inr sessions) }
             else State_Monad.return (Inr sessions) } }"

definition rotate_args_of ::
  "'w redis_store \<Rightarrow> string \<Rightarrow> string \<Rightarrow> time \<Rightarrow> duration \<Rightarrow> rotate_args" where
  "rotate_args_of st old_digest new_digest now ttl = \<lparr>
     ra_refresh_prefix = rs_refresh_prefix st, ra_old_digest = old_digest,
     ra_session_prefix = rs_session_prefix st, ra_user_prefix = rs_user_prefix st,
     ra_new_digest = new_digest, ra_now = now, ra_ttl_ms = ttl div millisecond,
     ra_expires_at = now + ttl\<rparr>"

definition rotate_result :: "err + reply \<Rightarrow> err + session" where
  "rotate_result r =
     (case slice_reply r of
        Inl e \<Rightarrow> Inl (Wrapped ''rotate refresh token'' [e])
      | Inr [c, raw] \<Rightarrow>
          (case to_int64 c of
             Inl e \<Rightarrow> Inl e
           | Inr code \<Rightarrow>
               if code = -1 then Inl (Sentinel RefreshReuse)
               else if code \<noteq> 1 then Inl (Sentinel InvalidToken)
               else (case raw of
                   IntVal _ \<Rightarrow> Inl (Sentinel InvalidToken)
                 | _ \<Rightarrow> (case unmarshal_session raw of
                     None \<Rightarrow> Inl (Wrapped ''parse rotated session'' [Plain ''json''])
                   | Some s \<Rightarrow> Inr s)))
      | Inr _ \<Rightarrow> Inl (Sentinel InvalidToken))"

definition store_rotate ::
  "uuid_pkg \<Rightarrow> 'w redis_store \<Rightarrow> string \<Rightarrow> string \<Rightarrow> time \<Rightarrow> duration \<Rightarrow> ('w, err + session) state" where
  "store_rotate P st old_digest new_digest now ttl = do {
     r \<leftarrow> rs_client st (Rotate (rotate_args_of st old_digest new_digest now ttl));
     State_Monad.return (rotate_result r) }"

definition store_allow :: "'w redis_store \<Rightarrow> string \<Rightarrow> int \<Rightarrow> duration \<Rightarrow> ('w, err + bool) state" where
  "store_allow st key limit window = do {
     r \<leftarrow> rs_client st (Basic (CIncr (limit_key st key)));
     case int_reply r of
       Inl e \<Rightarrow> State_Monad.return (Inl (Wrapped ''update login limit'' [e]))
     | Inr count \<Rightarrow>
         if count = 1 then do {
           x \<leftarrow> rs_client st (Basic (CExpire (limit_key st key) window));
           case x of
             Inl e \<Rightarrow> State_Monad.return (Inl (Wrapped ''set login limit expiry'' [e]))
           | Inr _ \<Rightarrow> State_Monad.return (Inr (count \<le> limit)) }
         else State_Monad.return (Inr (count \<le> limit)) }"

definition redis_session_store :: "uuid_pkg \<Rightarrow> 'w redis_store \<Rightarrow> 'w session_store" where
  "redis_session_store P st = \<lparr>
     st_create = store_create P st, st_get = store_get P st,
     st_list_by_user = store_list_by_user P st, st_rotate = store_rotate P st,
     st_revoke = store_revoke P st, st_revoke_user = store_revoke_user P st\<rparr>"

definition redis_rate_limiter :: "'w redis_store \<Rightarrow> 'w rate_limiter" where
  "redis_rate_limiter st = \<lparr>rl_allow = store_allow st\<rparr>"

end
