(* ===== verification/SessionSpec.thy ===== *)
theory SessionSpec
  imports SessionStore AuthContract
begin

text \<open>
  What the session store guarantees about the keyspace: the invariant of its documents and of the
  per-user index, kept by every operation, and the effect of each operation on the sessions.
\<close>

section \<open>Keys never clash\<close>

definition store_ok :: "uuid_pkg \<Rightarrow> (int \<Rightarrow> int) \<Rightarrow> 'w redis_store \<Rightarrow> ('w \<Rightarrow> rdb) \<Rightarrow> bool" where
  "store_ok P L st db \<longleftrightarrow> uuid_laws P \<and> lua_laws L \<and> redis_laws P L (rs_client st) db \<and>
     (\<exists>c env. new_redis_store (Some c) env = Inr st)"

definition keys_ok :: "uuid_pkg \<Rightarrow> 'w redis_store \<Rightarrow> bool" where
  "keys_ok P st \<longleftrightarrow> uuid_laws P \<and> (\<exists>c env. new_redis_store (Some c) env = Inr st)"

lemma store_ok_keys: "store_ok P L st db \<Longrightarrow> keys_ok P st"
  by (simp add: store_ok_def keys_ok_def)

lemma keys_apart:
  assumes "keys_ok P st"
  shows "sess_key P st i = sess_key P st j \<longleftrightarrow> i = j" "user_key P st u = user_key P st v \<longleftrightarrow> u = v"
    "refresh_key st g = refresh_key st h \<longleftrightarrow> g = h" "limit_key st a = limit_key st b \<longleftrightarrow> a = b"
    "sess_key P st i \<noteq> refresh_key st g" "sess_key P st i \<noteq> user_key P st u"
    "sess_key P st i \<noteq> limit_key st a" "refresh_key st g \<noteq> user_key P st u"
    "refresh_key st g \<noteq> limit_key st a" "user_key P st u \<noteq> limit_key st a"
    "refresh_key st g \<noteq> sess_key P st i" "user_key P st u \<noteq> sess_key P st i"
    "limit_key st a \<noteq> sess_key P st i" "user_key P st u \<noteq> refresh_key st g"
    "limit_key st a \<noteq> refresh_key st g" "limit_key st a \<noteq> user_key P st u"
proof -
  obtain c env where new: "new_redis_store (Some c) env = Inr st"
    using assms by (auto simp: keys_ok_def)
  define p where "p = ''goba:'' @ env @ '':auth:''"
  have st: "rs_session_prefix st = p @ ''session:''" "rs_refresh_prefix st = p @ ''refresh:''"
    "rs_user_prefix st = p @ ''user:''" "rs_limit_prefix st = p @ ''limit:''"
    using new by (auto simp: new_redis_store_def Let_def p_def split: if_splits)
  have inj: "u_string P i = u_string P j \<longleftrightarrow> i = j" for i j
    using assms unfolding keys_ok_def uuid_laws_def by (metis option.inject)
  show "sess_key P st i = sess_key P st j \<longleftrightarrow> i = j" "user_key P st u = user_key P st v \<longleftrightarrow> u = v"
    "refresh_key st g = refresh_key st h \<longleftrightarrow> g = h" "limit_key st a = limit_key st b \<longleftrightarrow> a = b"
    by (simp_all add: sess_key_def user_key_def refresh_key_def limit_key_def inj)
  show "sess_key P st i \<noteq> refresh_key st g" "sess_key P st i \<noteq> user_key P st u"
    "sess_key P st i \<noteq> limit_key st a" "refresh_key st g \<noteq> user_key P st u"
    "refresh_key st g \<noteq> limit_key st a" "user_key P st u \<noteq> limit_key st a"
    "refresh_key st g \<noteq> sess_key P st i" "user_key P st u \<noteq> sess_key P st i"
    "limit_key st a \<noteq> sess_key P st i" "user_key P st u \<noteq> refresh_key st g"
    "limit_key st a \<noteq> refresh_key st g" "limit_key st a \<noteq> user_key P st u"
    by (simp_all add: sess_key_def user_key_def refresh_key_def limit_key_def st)
qed

lemma uuid_string_inj: "keys_ok P st \<Longrightarrow> u_string P i = u_string P j \<longleftrightarrow> i = j"
  unfolding keys_ok_def uuid_laws_def by (metis option.inject)

section \<open>The invariant\<close>

text \<open>
  Under a session key there is the document of that session, gone after at most one refresh
  lifetime; under a user key an index; under a refresh key a token.  A live session is in its
  user's index, which outlives it, and its current token names its user.
\<close>

definition typed_keys :: "uuid_pkg \<Rightarrow> 'w redis_store \<Rightarrow> duration \<Rightarrow> rdb \<Rightarrow> bool" where
  "typed_keys P st ttl d \<longleftrightarrow>
     (\<forall>i v t. live d (sess_key P st i) = Some (v, t) \<longrightarrow>
        (\<exists>s x. v = DocSession s \<and> s_id s = i \<and> t = Some x \<and> x \<le> now_ms d + px_of ttl)) \<and>
     (\<forall>u v t. live d (user_key P st u) = Some (v, t) \<longrightarrow> (\<exists>ms. v = Members ms)) \<and>
     (\<forall>g v t. live d (refresh_key st g) = Some (v, t) \<longrightarrow> (\<exists>r. v = DocRefresh r))"

definition indexed :: "uuid_pkg \<Rightarrow> 'w redis_store \<Rightarrow> rdb \<Rightarrow> bool" where
  "indexed P st d \<longleftrightarrow> (\<forall>i s x. live d (sess_key P st i) = Some (DocSession s, Some x) \<longrightarrow>
     (\<exists>ms t. live d (user_key P st (s_user_id s)) = Some (Members ms, t) \<and>
        u_string P i \<in> set ms \<and> (\<forall>y. t = Some y \<longrightarrow> x \<le> y)))"

definition tokens_match :: "uuid_pkg \<Rightarrow> 'w redis_store \<Rightarrow> rdb \<Rightarrow> bool" where
  "tokens_match P st d \<longleftrightarrow> (\<forall>i s x r y. live d (sess_key P st i) = Some (DocSession s, x) \<longrightarrow>
     live d (refresh_key st (s_current_digest s)) = Some (DocRefresh r, y) \<longrightarrow>
     rr_session_id r = i \<longrightarrow> rr_user_id r = s_user_id s)"

definition store_inv :: "uuid_pkg \<Rightarrow> 'w redis_store \<Rightarrow> duration \<Rightarrow> rdb \<Rightarrow> bool" where
  "store_inv P st ttl d \<longleftrightarrow> typed_keys P st ttl d \<and> indexed P st d \<and> tokens_match P st d"

definition sess :: "uuid_pkg \<Rightarrow> 'w redis_store \<Rightarrow> rdb \<Rightarrow> uuid \<Rightarrow> session option" where
  "sess P st d i = (case lookup d (sess_key P st i) of Some (DocSession s) \<Rightarrow> Some s | _ \<Rightarrow> None)"

lemma sess_live: "sess P st d i = Some s \<longleftrightarrow> (\<exists>t. live d (sess_key P st i) = Some (DocSession s, t))"
  by (auto simp: sess_def lookup_def split: option.splits rvalue.splits)

lemma typed_keysD:
  assumes "typed_keys P st ttl d"
  shows "live d (sess_key P st i) = Some (v, t) \<Longrightarrow>
      \<exists>s x. v = DocSession s \<and> s_id s = i \<and> t = Some x \<and> x \<le> now_ms d + px_of ttl"
    "live d (user_key P st u) = Some (v, t) \<Longrightarrow> \<exists>ms. v = Members ms"
    "live d (refresh_key st g) = Some (v, t) \<Longrightarrow> \<exists>r. v = DocRefresh r"
  using assms unfolding typed_keys_def by blast+

lemma typed_sess: "typed_keys P st ttl d \<Longrightarrow> sess P st d i = None \<longleftrightarrow> live d (sess_key P st i) = None"
  by (auto simp: sess_def lookup_def typed_keys_def split: option.splits rvalue.splits)

lemma live_later: "live (at_time t d) k = Some (v, x) \<Longrightarrow> now_ms d \<le> t \<Longrightarrow>
    live d k = Some (v, x) \<and> (\<forall>y. x = Some y \<longrightarrow> t < y)"
  by (auto simp: live_at_time split: option.splits if_splits)

lemma live_laterI: "live d k = Some (v, x) \<Longrightarrow> now_ms d \<le> t \<Longrightarrow> \<forall>y. x = Some y \<longrightarrow> t < y \<Longrightarrow>
    live (at_time t d) k = Some (v, x)"
  by (auto simp: live_at_time split: option.splits)

lemma store_inv_at_time:
  assumes "store_inv P st ttl d" "now_ms d \<le> t"
  shows "store_inv P st ttl (at_time t d)"
proof -
  have "typed_keys P st ttl (at_time t d)"
    using assms unfolding store_inv_def typed_keys_def by (fastforce dest: live_later)
  moreover have "indexed P st (at_time t d)"
    unfolding indexed_def
  proof (intro allI impI)
    fix i s x
    assume "live (at_time t d) (sess_key P st i) = Some (DocSession s, Some x)"
    then have s: "live d (sess_key P st i) = Some (DocSession s, Some x)" "t < x"
      using assms(2) by (auto dest: live_later)
    then obtain ms y where "live d (user_key P st (s_user_id s)) = Some (Members ms, y)"
        "u_string P i \<in> set ms" "\<forall>z. y = Some z \<longrightarrow> x \<le> z"
      using assms(1) unfolding store_inv_def indexed_def by blast
    then show "\<exists>ms y. live (at_time t d) (user_key P st (s_user_id s)) = Some (Members ms, y) \<and>
        u_string P i \<in> set ms \<and> (\<forall>z. y = Some z \<longrightarrow> x \<le> z)"
      using s(2) assms(2) by (fastforce intro: live_laterI)
  qed
  moreover have "tokens_match P st (at_time t d)"
    using assms unfolding store_inv_def tokens_match_def by (blast dest: live_later)
  ultimately show ?thesis by (simp add: store_inv_def)
qed

lemma sess_at_time:
  "now_ms d \<le> t \<Longrightarrow> sess P st (at_time t d) i = Some s \<Longrightarrow> sess P st d i = Some s"
  by (auto simp: sess_live dest: live_later)

section \<open>Operations that only take away\<close>

definition shrunk :: "uuid_pkg \<Rightarrow> 'w redis_store \<Rightarrow> rdb \<Rightarrow> rdb \<Rightarrow> bool" where
  "shrunk P st d d' \<longleftrightarrow> now_ms d' = now_ms d \<and>
     (\<forall>i. live d' (sess_key P st i) = live d (sess_key P st i) \<or> live d' (sess_key P st i) = None) \<and>
     (\<forall>g. live d' (refresh_key st g) = live d (refresh_key st g) \<or> live d' (refresh_key st g) = None) \<and>
     (\<forall>u. live d' (user_key P st u) = None \<or>
        (\<exists>ms ms' t. live d (user_key P st u) = Some (Members ms, t) \<and>
           live d' (user_key P st u) = Some (Members ms', t))) \<and>
     (\<forall>i s x ms t. live d' (sess_key P st i) = Some (DocSession s, x) \<longrightarrow>
        live d (user_key P st (s_user_id s)) = Some (Members ms, t) \<longrightarrow> u_string P i \<in> set ms \<longrightarrow>
        (\<exists>ms'. live d' (user_key P st (s_user_id s)) = Some (Members ms', t) \<and> u_string P i \<in> set ms'))"

lemma shrunk_inv:
  assumes "store_inv P st ttl d" "shrunk P st d d'"
  shows "store_inv P st ttl d'"
proof -
  have same: "live d' (sess_key P st i) = Some e \<Longrightarrow> live d (sess_key P st i) = Some e"
    "live d' (refresh_key st g) = Some e \<Longrightarrow> live d (refresh_key st g) = Some e" for i g e
    using assms(2) unfolding shrunk_def by (metis option.distinct(1))+
  have now: "now_ms d' = now_ms d" using assms(2) by (simp add: shrunk_def)
  have typed: "typed_keys P st ttl d" using assms(1) by (simp add: store_inv_def)
  have "typed_keys P st ttl d'"
    unfolding typed_keys_def now
  proof (intro conjI allI impI)
    fix u v t
    assume "live d' (user_key P st u) = Some (v, t)"
    then show "\<exists>ms. v = Members ms"
      using assms(2) unfolding shrunk_def by (metis option.distinct(1) option.inject prod.inject)
  next
    fix i v t
    assume "live d' (sess_key P st i) = Some (v, t)"
    then have "live d (sess_key P st i) = Some (v, t)" by (rule same)
    then show "\<exists>s x. v = DocSession s \<and> s_id s = i \<and> t = Some x \<and> x \<le> now_ms d + px_of ttl"
      using typed unfolding typed_keys_def by blast
  next
    fix g v t
    assume "live d' (refresh_key st g) = Some (v, t)"
    then have "live d (refresh_key st g) = Some (v, t)" by (rule same)
    then show "\<exists>r. v = DocRefresh r" using typed unfolding typed_keys_def by blast
  qed
  moreover have "indexed P st d'"
    unfolding indexed_def
  proof (intro allI impI)
    fix i s x
    assume l: "live d' (sess_key P st i) = Some (DocSession s, Some x)"
    then obtain ms t where "live d (user_key P st (s_user_id s)) = Some (Members ms, t)"
        "u_string P i \<in> set ms" "\<forall>y. t = Some y \<longrightarrow> x \<le> y"
      using assms(1) same unfolding store_inv_def indexed_def by blast
    then show "\<exists>ms t. live d' (user_key P st (s_user_id s)) = Some (Members ms, t) \<and>
        u_string P i \<in> set ms \<and> (\<forall>y. t = Some y \<longrightarrow> x \<le> y)"
      using assms(2) l unfolding shrunk_def by metis
  qed
  moreover have "tokens_match P st d'"
    using assms(1) same unfolding store_inv_def tokens_match_def by blast
  ultimately show ?thesis by (simp add: store_inv_def)
qed

definition srem_entry :: "string list \<Rightarrow> (rvalue \<times> int option) option \<Rightarrow> (rvalue \<times> int option) option" where
  "srem_entry xs e =
     (case e of
        Some (Members ms, t) \<Rightarrow>
          (let rest = filter (\<lambda>m. m \<notin> set xs) ms in if rest = [] then None else Some (Members rest, t))
      | _ \<Rightarrow> None)"

lemma srem_live:
  assumes "\<forall>v t. live d k = Some (v, t) \<longrightarrow> (\<exists>ms. v = Members ms)"
  shows "(\<exists>n. fst (do_srem k xs d) = Inr (IntReply n)) \<and> now_ms (snd (do_srem k xs d)) = now_ms d \<and>
    live (snd (do_srem k xs d)) = (live d)(k := srem_entry xs (live d k))"
proof (cases "live d k")
  case None
  then show ?thesis by (simp add: do_srem_def lookup_def srem_entry_def fun_upd_idem)
next
  case (Some e)
  then obtain ms t where e: "live d k = Some (Members ms, t)" using assms by (cases e) auto
  then have "\<forall>x. t = Some x \<longrightarrow> now_ms d < x" by (auto dest: live_deadline)
  then show ?thesis using e
    by (auto simp: do_srem_def lookup_def deadline_def srem_entry_def Let_def live_put live_remove
        fun_eq_iff split: option.splits)
qed

lemma typed_user:
  "store_inv P st ttl d \<Longrightarrow> live d (user_key P st u) = Some (v, t) \<Longrightarrow> \<exists>ms. v = Members ms"
  unfolding store_inv_def typed_keys_def by blast

text \<open>Deleting a session, a token and the index entry, as \<open>Revoke\<close> and the script do.\<close>

definition drop_keys :: "uuid_pkg \<Rightarrow> 'w redis_store \<Rightarrow> uuid \<Rightarrow> string list \<Rightarrow> uuid \<Rightarrow> rdb \<Rightarrow> rdb" where
  "drop_keys P st i gs u d =
     snd (do_srem (user_key P st u) [u_string P i]
       (fold remove (sess_key P st i # map (refresh_key st) gs) d))"

lemma drop_keys_live:
  assumes "keys_ok P st" "store_inv P st ttl d"
  shows "live (drop_keys P st i gs u d) k =
      (if k = sess_key P st i \<or> k \<in> refresh_key st ` set gs then None
       else if k = user_key P st u then srem_entry [u_string P i] (live d k) else live d k)"
    "now_ms (drop_keys P st i gs u d) = now_ms d"
    "\<exists>n. fst (do_srem (user_key P st u) [u_string P i]
       (fold remove (sess_key P st i # map (refresh_key st) gs) d)) = Inr (IntReply n)"
proof -
  let ?d = "fold remove (sess_key P st i # map (refresh_key st) gs) d"
  have mem: "\<forall>v t. live ?d (user_key P st u) = Some (v, t) \<longrightarrow> (\<exists>ms. v = Members ms)"
    using typed_user [OF assms(2)] by (auto simp: live_fold_remove live_remove split: if_splits)
  note srem = srem_live [where d = ?d and k = "user_key P st u" and xs = "[u_string P i]", OF mem]
  show "\<exists>n. fst (do_srem (user_key P st u) [u_string P i] ?d) = Inr (IntReply n)"
    using srem by blast
  show "now_ms (drop_keys P st i gs u d) = now_ms d"
    using srem by (simp add: drop_keys_def)
  have "user_key P st u \<noteq> sess_key P st i" "user_key P st u \<notin> refresh_key st ` set gs"
    using keys_apart [OF assms(1)] by auto
  then show "live (drop_keys P st i gs u d) k =
      (if k = sess_key P st i \<or> k \<in> refresh_key st ` set gs then None
       else if k = user_key P st u then srem_entry [u_string P i] (live d k) else live d k)"
    using srem by (auto simp: drop_keys_def live_fold_remove live_remove)
qed

lemma drop_keys_shrunk:
  assumes "keys_ok P st" "store_inv P st ttl d"
  shows "shrunk P st d (drop_keys P st i gs u d)"
proof -
  note live = drop_keys_live [OF assms, where i = i and gs = gs and u = u] and apart = keys_apart [OF assms(1)]
  have user: "live d (user_key P st v) = Some (e, t) \<Longrightarrow> \<exists>ms. e = Members ms" for v e t
    using typed_user [OF assms(2)] .
  have "live (drop_keys P st i gs u d) (user_key P st v) = None \<or>
      (\<exists>ms ms' t. live d (user_key P st v) = Some (Members ms, t) \<and>
         live (drop_keys P st i gs u d) (user_key P st v) = Some (Members ms', t))" for v
    using user [of v]
    by (cases "live d (user_key P st v)") (auto simp: live apart srem_entry_def Let_def split: if_splits)
  moreover have "\<exists>ms'. live (drop_keys P st i gs u d) (user_key P st (s_user_id s)) = Some (Members ms', t) \<and>
      u_string P j \<in> set ms'"
    if "live (drop_keys P st i gs u d) (sess_key P st j) = Some (DocSession s, x)"
      "live d (user_key P st (s_user_id s)) = Some (Members ms, t)" "u_string P j \<in> set ms" for j s x ms t
  proof -
    have "j \<noteq> i" using that(1) by (auto simp: live apart)
    then have "u_string P j \<noteq> u_string P i" using uuid_string_inj [OF assms(1)] by simp
    then show ?thesis using that(2,3)
      by (auto simp: live apart srem_entry_def Let_def filter_empty_conv)
  qed
  ultimately show ?thesis
    unfolding shrunk_def by (auto simp: live apart)
qed

section \<open>rotate.lua\<close>

text \<open>A refresh token that the script would accept.\<close>

definition usable :: "uuid_pkg \<Rightarrow> 'w redis_store \<Rightarrow> rdb \<Rightarrow> string \<Rightarrow> session \<Rightarrow> bool" where
  "usable P st d g s \<longleftrightarrow> (\<exists>t x. live d (refresh_key st g) = Some (DocRefresh t, x) \<and>
     rr_state t \<noteq> ''spent'' \<and> sess P st d (rr_session_id t) = Some s \<and> s_current_digest s = g)"

lemma do_get_live:
  "do_get k d = ((case live d k of None \<Rightarrow> Inl (Sentinel RedisNil)
     | Some (Members _, _) \<Rightarrow> Inl wrong_type | Some (v, _) \<Rightarrow> Inr (Bulk v)), d)"
  by (auto simp: do_get_def lookup_def split: option.splits rvalue.splits)

lemma typed_sess_entry:
  assumes "store_inv P st ttl d"
  obtains (none) "live d (sess_key P st i) = None" "sess P st d i = None"
  | (some) s x where "live d (sess_key P st i) = Some (DocSession s, Some x)" "sess P st d i = Some s"
      "s_id s = i" "x \<le> now_ms d + px_of ttl"
proof (cases "live d (sess_key P st i)")
  case None
  then show ?thesis by (intro none) (auto simp: sess_def lookup_def)
next
  case (Some e)
  then obtain v t where e: "live d (sess_key P st i) = Some (v, t)" by (cases e) auto
  then obtain s x where "v = DocSession s" "s_id s = i" "t = Some x" "x \<le> now_ms d + px_of ttl"
    using assms unfolding store_inv_def typed_keys_def by blast
  with e show ?thesis by (intro some [of s x]) (auto simp: sess_def lookup_def)
qed

lemma typed_refresh_entry:
  assumes "store_inv P st ttl d"
  obtains (none) "live d (refresh_key st g) = None"
  | (some) t x where "live d (refresh_key st g) = Some (DocRefresh t, x)"
proof (cases "live d (refresh_key st g)")
  case (Some e)
  then obtain v x where "live d (refresh_key st g) = Some (v, x)" by (cases e) auto
  then show ?thesis using assms that unfolding store_inv_def typed_keys_def by blast
qed (rule none)

text \<open>The keyspace after a rotation.\<close>

definition rotated_db ::
  "uuid_pkg \<Rightarrow> 'w redis_store \<Rightarrow> string \<Rightarrow> string \<Rightarrow> int \<Rightarrow> refresh_record \<Rightarrow> session \<Rightarrow> rdb \<Rightarrow> rdb" where
  "rotated_db P st old new ms t s' d =
     snd (do_pexpire (user_key P st (rr_user_id t)) ms
       (put (sess_key P st (rr_session_id t)) (DocSession s') (Some (now_ms d + ms))
         (put (refresh_key st new) (DocRefresh (t\<lparr>rr_state := ''active''\<rparr>)) (Some (now_ms d + ms))
           (put (refresh_key st old) (DocRefresh (t\<lparr>rr_state := ''spent''\<rparr>)) (Some (now_ms d + ms)) d))))"

lemma pexpire_live:
  "0 < ms \<Longrightarrow> live (snd (do_pexpire k ms d)) k' =
     (if k' = k then map_option (\<lambda>(v, _). (v, Some (now_ms d + ms))) (live d k) else live d k')"
  "0 < ms \<Longrightarrow> now_ms (snd (do_pexpire k ms d)) = now_ms d"
  by (auto simp: do_pexpire_def lookup_def live_put split: option.splits)

lemma rotate_script_cases:
  assumes "keys_ok P st" "store_inv P st ttl d" "0 < ttl div millisecond"
  obtains (refused) "rotate_script P L (rotate_args_of st old new now ttl) d = (Inr (Array [IntVal 0, TextVal '''']), d)"
      "\<And>s. \<not> usable P st d old s"
  | (reused) t x where "live d (refresh_key st old) = Some (DocRefresh t, x)" "rr_state t = ''spent''"
      "rotate_script P L (rotate_args_of st old new now ttl) d =
         (Inr (Array [IntVal (-1), TextVal '''']),
          drop_keys P st (rr_session_id t)
            (case sess P st d (rr_session_id t) of None \<Rightarrow> [] | Some s \<Rightarrow> [s_current_digest s])
            (rr_user_id t) d)"
  | (rotates) t x s where "live d (refresh_key st old) = Some (DocRefresh t, x)" "rr_state t \<noteq> ''spent''"
      "sess P st d (rr_session_id t) = Some s" "s_current_digest s = old" "usable P st d old s"
      "rotate_script P L (rotate_args_of st old new now ttl) d =
         (Inr (Array [IntVal 1, DocSession (rotated L s new (now + ttl))]),
          rotated_db P st old new (ttl div millisecond) t (rotated L s new (now + ttl)) d)"
  using assms(2)
proof (cases rule: typed_refresh_entry [where g = old])
  case none
  then show ?thesis
    by (intro refused) (simp_all add: rotate_script_def rotate_args_of_def do_get_live
        refresh_key_def usable_def)
next
  case (some t x)
  let ?i = "rr_session_id t"
  have token: "do_get (rs_refresh_prefix st @ old) d = (Inr (Bulk (DocRefresh t)), d)"
    using some by (simp add: do_get_live refresh_key_def)
  have eta: "\<lparr>rr_session_id = rr_session_id t, rr_family_id = rr_family_id t,
      rr_user_id = rr_user_id t, rr_state = q\<rparr> = t\<lparr>rr_state := q\<rparr>" for q
    by (cases t) simp
  show ?thesis
  proof (cases "rr_state t = ''spent''")
    case True
    have srem: "\<exists>n. do_srem (rs_user_prefix st @ u_string P (rr_user_id t)) [u_string P ?i]
        (remove (rs_session_prefix st @ u_string P ?i) (fold remove (map (refresh_key st) gs) d)) =
        (Inr (IntReply n), drop_keys P st ?i gs (rr_user_id t) d)" for gs
    proof -
      have "remove (sess_key P st ?i) (fold remove (map (refresh_key st) gs) d) =
          fold remove (sess_key P st ?i # map (refresh_key st) gs) d"
        by (induction gs arbitrary: d) (auto simp: remove_def fun_upd_twist keys_apart [OF assms(1)])
      then show ?thesis using drop_keys_live(3) [OF assms(1,2), of "rr_user_id t" ?i gs]
        by (simp add: prod_eq_iff drop_keys_def user_key_def sess_key_def)
    qed
    show ?thesis
      using assms(2)
    proof (cases rule: typed_sess_entry [where i = ?i])
      case none
      then show ?thesis
        using token True srem [of "[]"]
        by (intro reused [OF some True])
           (auto simp: rotate_script_def rotate_args_of_def lua_token_def rotate_spent_def Let_def
             do_get_live sess_key_def)
    next
      case (some s y)
      then show ?thesis
        using token True srem [of "[s_current_digest s]"]
        by (intro reused [OF \<open>live d (refresh_key st old) = Some (DocRefresh t, x)\<close> True])
           (auto simp: rotate_script_def rotate_args_of_def lua_token_def rotate_spent_def Let_def
             do_get_live sess_key_def lua_digest_def refresh_key_def)
    qed
  next
    case False
    show ?thesis
      using assms(2)
    proof (cases rule: typed_sess_entry [where i = ?i])
      case none
      then show ?thesis
        using token False some
        by (intro refused)
           (simp_all add: rotate_script_def rotate_args_of_def lua_token_def do_get_live sess_key_def usable_def)
    next
      case (some s y)
      show ?thesis
      proof (cases "s_current_digest s = old")
        case True
        show ?thesis
          using token False True some assms(3) \<open>live d (refresh_key st old) = Some (DocRefresh t, x)\<close>
          by (intro rotates [of t x s])
             (auto simp: rotate_script_def rotate_args_of_def lua_token_def do_get_live sess_key_def
               usable_def rotate_active_def Let_def do_set_px_def eta rotated_db_def rotated_def
               refresh_key_def user_key_def)
      next
        case neq: False
        then show ?thesis
          using token False some \<open>live d (refresh_key st old) = Some (DocRefresh t, x)\<close>
          by (intro refused)
             (auto simp: rotate_script_def rotate_args_of_def lua_token_def do_get_live sess_key_def
               usable_def)
      qed
    qed
  qed
qed

text \<open>
  A session installed under its key with the deadline of a full lifetime, its current token naming
  its user, and its index entry refreshed: what both a creation and a rotation end with.
\<close>

lemma installed_inv:
  assumes "keys_ok P st" "store_inv P st ttl d" "now_ms d' = now_ms d" "s_id s = i"
    and live': "\<And>j. live d' (sess_key P st j) =
        (if j = i then Some (DocSession s, Some (now_ms d + px_of ttl)) else live d (sess_key P st j))"
      "\<And>g. live d' (refresh_key st g) =
        (if g = s_current_digest s then Some (DocRefresh r, y) else
         if g \<in> G then Some (DocRefresh r', y) else live d (refresh_key st g))"
      "\<And>u. live d' (user_key P st u) =
        (if u = s_user_id s then Some (Members ms, z) else live d (user_key P st u))"
    and r: "rr_session_id r = i" "rr_user_id r = s_user_id s" "rr_session_id r' = i" "rr_user_id r' = s_user_id s"
    and ms: "u_string P i \<in> set ms" "\<forall>x. z = Some x \<longrightarrow> now_ms d + px_of ttl \<le> x"
      "\<And>ms0 t. live d (user_key P st (s_user_id s)) = Some (Members ms0, t) \<Longrightarrow> set ms0 \<subseteq> set ms"
  shows "store_inv P st ttl d'"
proof -
  have typed: "typed_keys P st ttl d" and ind: "indexed P st d" and tok: "tokens_match P st d"
    using assms(2) by (auto simp: store_inv_def)
  have "typed_keys P st ttl d'"
    unfolding typed_keys_def live' assms(3)
  proof (intro conjI allI impI)
    fix j v t
    assume "(if j = i then Some (DocSession s, Some (now_ms d + px_of ttl)) else live d (sess_key P st j)) = Some (v, t)"
    then show "\<exists>s x. v = DocSession s \<and> s_id s = j \<and> t = Some x \<and> x \<le> now_ms d + px_of ttl"
      using assms(4) by (auto split: if_splits dest: typed_keysD [OF typed])
  next
    fix u v t
    assume "(if u = s_user_id s then Some (Members ms, z) else live d (user_key P st u)) = Some (v, t)"
    then show "\<exists>ms. v = Members ms"
      by (auto split: if_splits dest: typed_keysD [OF typed])
  next
    fix g v t
    assume "(if g = s_current_digest s then Some (DocRefresh r, y) else
         if g \<in> G then Some (DocRefresh r', y) else live d (refresh_key st g)) = Some (v, t)"
    then show "\<exists>r. v = DocRefresh r"
      by (auto split: if_splits dest: typed_keysD [OF typed])
  qed
  moreover have "indexed P st d'"
    unfolding indexed_def live'
  proof (intro allI impI)
    fix j q x
    assume l: "(if j = i then Some (DocSession s, Some (now_ms d + px_of ttl)) else live d (sess_key P st j)) =
      Some (DocSession q, Some x)"
    show "\<exists>ms' t. (if s_user_id q = s_user_id s then Some (Members ms, z) else live d (user_key P st (s_user_id q))) =
        Some (Members ms', t) \<and> u_string P j \<in> set ms' \<and> (\<forall>y. t = Some y \<longrightarrow> x \<le> y)"
    proof (cases "j = i")
      case False
      then have q: "live d (sess_key P st j) = Some (DocSession q, Some x)" using l by simp
      then obtain ms0 t where *: "live d (user_key P st (s_user_id q)) = Some (Members ms0, t)"
          "u_string P j \<in> set ms0" "\<forall>y. t = Some y \<longrightarrow> x \<le> y"
        using ind unfolding indexed_def by blast
      have "x \<le> now_ms d + px_of ttl" using typed q unfolding typed_keys_def by blast
      then show ?thesis using * ms by (cases "s_user_id q = s_user_id s") fastforce+
    qed (use l ms in auto)
  qed
  moreover have "tokens_match P st d'"
    unfolding tokens_match_def live' using tok r unfolding tokens_match_def
    by (auto split: if_splits)
  ultimately show ?thesis by (simp add: store_inv_def)
qed

lemma rotated_db_live:
  assumes "keys_ok P st" "0 < ms"
  shows "live (rotated_db P st old new ms t s' d) k =
      (if k = user_key P st (rr_user_id t) then
         map_option (\<lambda>(v, _). (v, Some (now_ms d + ms))) (live d k)
       else if k = sess_key P st (rr_session_id t) then Some (DocSession s', Some (now_ms d + ms))
       else if k = refresh_key st new then Some (DocRefresh (t\<lparr>rr_state := ''active''\<rparr>), Some (now_ms d + ms))
       else if k = refresh_key st old then Some (DocRefresh (t\<lparr>rr_state := ''spent''\<rparr>), Some (now_ms d + ms))
       else live d k)"
    "now_ms (rotated_db P st old new ms t s' d) = now_ms d"
  using assms(2)
  by (auto simp: rotated_db_def pexpire_live live_put keys_apart [OF assms(1)])

lemma px_of_ms: "0 < ttl div millisecond \<Longrightarrow> px_of ttl = ttl div millisecond"
  by (auto simp: px_of_def)

lemma rotated_db_inv:
  assumes "keys_ok P st" "store_inv P st ttl d" "0 < ttl div millisecond"
    "live d (refresh_key st old) = Some (DocRefresh t, x)" "sess P st d (rr_session_id t) = Some s"
    "s_current_digest s = old" "s' = rotated L s new expires"
  shows "store_inv P st ttl (rotated_db P st old new (ttl div millisecond) t s' d)"
proof -
  note live = rotated_db_live [OF assms(1,3)] and apart = keys_apart [OF assms(1)]
  obtain sx where entry: "live d (sess_key P st (rr_session_id t)) = Some (DocSession s, Some sx)"
      "s_id s = rr_session_id t"
    using assms(2,5) by (auto elim: typed_sess_entry [where i = "rr_session_id t"])
  then have user: "rr_user_id t = s_user_id s"
    using assms(2,4,6) unfolding store_inv_def tokens_match_def by blast
  obtain ms z where index: "live d (user_key P st (s_user_id s)) = Some (Members ms, z)"
      "u_string P (rr_session_id t) \<in> set ms"
    using assms(2) entry(1) unfolding store_inv_def indexed_def by blast
  show ?thesis
    by (rule installed_inv [OF assms(1,2), where s = s' and i = "rr_session_id t" and
          r = "t\<lparr>rr_state := ''active''\<rparr>" and r' = "t\<lparr>rr_state := ''spent''\<rparr>" and G = "{old}" and
          ms = ms and z = "Some (now_ms d + px_of ttl)" and y = "Some (now_ms d + px_of ttl)"])
       (use index entry in \<open>auto simp: live apart assms(7) rotated_def user px_of_ms [OF assms(3)]\<close>)
qed

section \<open>The operations\<close>

text \<open>No session appears or changes; sessions may end.\<close>

definition fewer :: "uuid_pkg \<Rightarrow> 'w redis_store \<Rightarrow> rdb \<Rightarrow> rdb \<Rightarrow> bool" where
  "fewer P st d d' \<longleftrightarrow> (\<forall>i s. sess P st d' i = Some s \<longrightarrow> sess P st d i = Some s)"

lemma fewer_refl [simp]: "fewer P st d d"
  by (simp add: fewer_def)

lemma fewer_trans: "fewer P st d e \<Longrightarrow> fewer P st e f \<Longrightarrow> fewer P st d f"
  by (simp add: fewer_def)

lemma fewer_trans3: "fewer P st d e \<Longrightarrow> fewer P st e f \<Longrightarrow> fewer P st f g \<Longrightarrow> fewer P st d g"
  by (simp add: fewer_def)

lemma fewer_None: "fewer P st d d' \<Longrightarrow> sess P st d i = None \<Longrightarrow> sess P st d' i = None"
  by (cases "sess P st d' i") (auto simp: fewer_def)

lemma shrunk_fewer: "shrunk P st d d' \<Longrightarrow> fewer P st d d'"
  unfolding fewer_def shrunk_def sess_live by (metis option.distinct(1))

lemma wp_store:
  assumes "store_ok P L st db" "store_inv P st ttl (db w)"
    "\<And>d r w'. store_inv P st ttl d \<Longrightarrow> fewer P st (db w) d \<Longrightarrow> now_ms (db w) \<le> now_ms d \<Longrightarrow>
       run_cmd P L cmd d = (r, db w') \<Longrightarrow> Q r w'"
    "\<And>d e w'. store_inv P st ttl d \<Longrightarrow> fewer P st (db w) d \<Longrightarrow> now_ms (db w) \<le> now_ms d \<Longrightarrow> net_err e \<Longrightarrow>
       db w' = d \<or> db w' = snd (run_cmd P L cmd d) \<Longrightarrow> Q (Inl e) w'"
  shows "wp (rs_client st cmd) Q w"
proof -
  have laws: "redis_laws P L (rs_client st) db" using assms(1) by (simp add: store_ok_def)
  have at: "store_inv P st ttl (at_time t (db w))" "fewer P st (db w) (at_time t (db w))"
    if "now_ms (db w) \<le> t" for t
    using store_inv_at_time [OF assms(2) that] sess_at_time [OF that] by (auto simp: fewer_def)
  show ?thesis
    by (rule wp_redis [OF laws]) (use assms(3,4) at in fastforce)+
qed

lemma net_err_simps [simp]:
  "net_err e \<Longrightarrow> \<not> err_is RedisNil e" "net_err e \<Longrightarrow> \<not> err_is InvalidToken e"
  "net_err e \<Longrightarrow> \<not> err_is RefreshReuse e"
  by (simp_all add: net_err_def)

lemma store_get_spec:
  assumes "store_ok P L st db" "store_inv P st ttl (db w)"
  shows "wp (store_get P st i) (\<lambda>r w'. store_inv P st ttl (db w') \<and> fewer P st (db w) (db w') \<and>
    (case r of Inr s \<Rightarrow> sess P st (db w') i = Some s \<and> s_id s = i
     | Inl e \<Rightarrow> (err_is InvalidToken e \<longrightarrow> sess P st (db w') i = None) \<and> \<not> err_is RefreshReuse e)) w"
  unfolding store_get_def wp_bind
proof (rule wp_store [OF assms], goal_cases)
  case (1 d r w')
  note get = 1(4) [unfolded run_cmd.simps run_basic.simps do_get_live prod.inject]
  from 1(1) show ?case
  proof (cases rule: typed_sess_entry [where i = i])
    case none
    with 1 get show ?thesis by (auto simp: wp_rules)
  next
    case (some s x)
    then have r: "r = Inr (Bulk (DocSession s))" "db w' = d" using get by auto
    then show ?thesis using 1 some by (simp add: wp_rules unmarshal_session_def)
  qed
next
  case (2 d e w')
  then have "db w' = d" by (auto simp: do_get_live)
  with 2 show ?case by (simp add: wp_rules)
qed

lemma revoke_cmd:
  assumes "keys_ok P st" "store_inv P st ttl d"
  shows "\<exists>r. run_cmd P L (Multi [CDel [sess_key P st i, refresh_key st g], CSRem (user_key P st u) [u_string P i]]) d =
      (Inr r, drop_keys P st i [g] u d)"
  using drop_keys_live(3) [OF assms, of u i "[g]"]
  by (auto simp: do_del_def drop_keys_def split: prod.splits)

lemma drop_keys_sess:
  assumes "keys_ok P st" "store_inv P st ttl d"
  shows "sess P st (drop_keys P st i gs u d) i = None"
    "store_inv P st ttl (drop_keys P st i gs u d)" "fewer P st d (drop_keys P st i gs u d)"
proof -
  have "shrunk P st d (drop_keys P st i gs u d)" by (rule drop_keys_shrunk [OF assms])
  then show "store_inv P st ttl (drop_keys P st i gs u d)" "fewer P st d (drop_keys P st i gs u d)"
    using shrunk_inv [OF assms(2)] shrunk_fewer by auto
  show "sess P st (drop_keys P st i gs u d) i = None"
    by (simp add: sess_def lookup_def drop_keys_live [OF assms])
qed

lemma store_revoke_spec:
  assumes "store_ok P L st db" "store_inv P st ttl (db w)"
  shows "wp (store_revoke P st i) (\<lambda>r w'. store_inv P st ttl (db w') \<and> fewer P st (db w) (db w') \<and>
    (r = Inr () \<longrightarrow> sess P st (db w') i = None) \<and>
    (\<forall>e. r = Inl e \<longrightarrow> \<not> err_is InvalidToken e \<and> \<not> err_is RefreshReuse e)) w"
  unfolding store_revoke_def wp_bind
proof (rule wp_mono [OF store_get_spec [OF assms]], goal_cases)
  case (1 r w1)
  note keys = store_ok_keys [OF assms(1)]
  show ?case
  proof (cases r)
    case (Inl e)
    with 1 show ?thesis by (auto simp: wp_rules)
  next
    case (Inr s)
    with 1 have inv: "store_inv P st ttl (db w1)" and few: "fewer P st (db w) (db w1)" and s: "s_id s = i"
      by auto
    show ?thesis
      unfolding Inr sum.case wp_bind
    proof (rule wp_store [OF assms(1) inv], goal_cases)
      case (1 d r w')
      then show ?case
        using revoke_cmd [OF keys 1(1), of L i "s_current_digest s" "s_user_id s"]
          drop_keys_sess [OF keys 1(1), of i "[s_current_digest s]" "s_user_id s"] s few
        by (auto simp: wp_rules intro: fewer_trans fewer_trans3)
    next
      case (2 d e w')
      then show ?case
        using revoke_cmd [OF keys 2(1), of L i "s_current_digest s" "s_user_id s"]
          drop_keys_sess [OF keys 2(1), of i "[s_current_digest s]" "s_user_id s"] s few
        by (auto simp: wp_rules intro: fewer_trans fewer_trans3)
    qed
  qed
qed

lemma revoke_all_spec:
  assumes "store_ok P L st db" "store_inv P st ttl (db w)"
  shows "wp (revoke_all P st vs) (\<lambda>r w'. store_inv P st ttl (db w') \<and> fewer P st (db w) (db w') \<and>
    (r = Inr () \<longrightarrow> (\<forall>v \<in> set vs. \<forall>i. u_parse P v = Some i \<longrightarrow> sess P st (db w') i = None)) \<and>
    (\<forall>e. r = Inl e \<longrightarrow> \<not> err_is InvalidToken e \<and> \<not> err_is RefreshReuse e)) w"
  using assms(2)
proof (induction vs arbitrary: w)
  case Nil
  then show ?case by (simp add: wp_rules)
next
  case (Cons v vs)
  show ?case
  proof (cases "u_parse P v")
    case None
    then show ?thesis using Cons.IH [OF Cons.prems] by simp
  next
    case (Some i)
    show ?thesis
      unfolding revoke_all.simps Some option.case wp_bind
    proof (rule wp_mono [OF store_revoke_spec [OF assms(1) Cons.prems, of i]], goal_cases)
      case (1 r w1)
      show ?case
      proof (cases r)
        case (Inr x)
        then have w1: "store_inv P st ttl (db w1)" "fewer P st (db w) (db w1)" "sess P st (db w1) i = None"
          using 1 by auto
        show ?thesis unfolding Inr sum.case
          by (rule wp_mono [OF Cons.IH [OF w1(1)]])
             (use w1 Some in \<open>auto intro: fewer_trans fewer_None\<close>)
      qed (use 1 in \<open>auto simp: wp_rules\<close>)
    qed
  qed
qed

lemma remove_user_shrunk:
  assumes "keys_ok P st" "store_inv P st ttl d" "\<And>i s. sess P st d i = Some s \<Longrightarrow> s_user_id s \<noteq> u"
  shows "shrunk P st d (remove (user_key P st u) d)"
proof -
  have "(\<exists>ms ms' t. live d (user_key P st v) = Some (Members ms, t) \<and>
      live d (user_key P st v) = Some (Members ms', t)) \<or> live d (user_key P st v) = None" for v
    using typed_user [OF assms(2), of v] by (cases "live d (user_key P st v)") auto
  then show ?thesis
    using assms(3) unfolding shrunk_def
    by (auto simp: live_remove keys_apart [OF assms(1)] sess_live)
qed

lemma smembers_live:
  "store_inv P st ttl d \<Longrightarrow> do_smembers (user_key P st u) d =
     (Inr (MembersReply (case live d (user_key P st u) of Some (Members ms, _) \<Rightarrow> ms | _ \<Rightarrow> [])), d)"
  using typed_user [of P st ttl d u]
  by (auto simp: do_smembers_def lookup_def split: option.splits)

lemma index_complete:
  assumes "store_inv P st ttl d" "sess P st d i = Some s" "s_user_id s = u"
  shows "u_string P i \<in> set (case live d (user_key P st u) of Some (Members ms, _) \<Rightarrow> ms | _ \<Rightarrow> [])"
proof -
  obtain x where "live d (sess_key P st i) = Some (DocSession s, Some x)"
    using assms(1,2) by (auto elim: typed_sess_entry [where i = i])
  then obtain ms t where "live d (user_key P st u) = Some (Members ms, t)" "u_string P i \<in> set ms"
    using assms(1,3) unfolding store_inv_def indexed_def by blast
  then show ?thesis by simp
qed

lemma store_revoke_user_spec:
  assumes "store_ok P L st db" "store_inv P st ttl (db w)"
  shows "wp (store_revoke_user P st u) (\<lambda>r w'. store_inv P st ttl (db w') \<and> fewer P st (db w) (db w') \<and>
    (r = Inr () \<longrightarrow> (\<forall>i s. sess P st (db w') i = Some s \<longrightarrow> s_user_id s \<noteq> u)) \<and>
    (\<forall>e. r = Inl e \<longrightarrow> \<not> err_is InvalidToken e \<and> \<not> err_is RefreshReuse e)) w"
proof -
  note keys = store_ok_keys [OF assms(1)]
  have parse: "u_parse P (u_string P i) = Some i" for i
    using assms(1) by (simp add: store_ok_def uuid_laws_def)
  show ?thesis
    unfolding store_revoke_user_def wp_bind
  proof (rule wp_store [OF assms], goal_cases)
    case (1 d r w1)
    define ids where "ids = (case live d (user_key P st u) of Some (Members ms, _) \<Rightarrow> ms | _ \<Rightarrow> [])"
    have r: "members_reply r = Inr ids" "db w1 = d"
      using 1(1,4) by (auto simp: smembers_live members_reply_def ids_def)
    show ?case
      unfolding r(1) sum.case wp_bind
    proof (rule wp_mono [OF revoke_all_spec [OF assms(1) 1(1) [folded r(2)], of ids]], goal_cases)
      case (1 v w2)
      show ?case
      proof (cases v)
        case (Inr x)
        then have w2: "store_inv P st ttl (db w2)" "fewer P st d (db w2)"
          "\<And>m i. m \<in> set ids \<Longrightarrow> u_parse P m = Some i \<Longrightarrow> sess P st (db w2) i = None"
          using 1 r(2) by auto
        have gone: "s_user_id s \<noteq> u" if "sess P st (db w2) i = Some s" for i s
        proof
          assume "s_user_id s = u"
          moreover have "sess P st d i = Some s" using that w2(2) by (simp add: fewer_def)
          ultimately have "u_string P i \<in> set ids"
            using index_complete \<open>store_inv P st ttl d\<close> unfolding ids_def by blast
          then show False using w2(3) [OF _ parse] that by auto
        qed
        show ?thesis
          unfolding Inr sum.case wp_bind
        proof (rule wp_store [OF assms(1) w2(1)], goal_cases)
          have after: "store_inv P st ttl e' \<and> fewer P st (db w) e' \<and>
              (\<forall>i s. sess P st e' i = Some s \<longrightarrow> s_user_id s \<noteq> u)"
            if e: "store_inv P st ttl e" "fewer P st (db w2) e" and e': "e' = e \<or> e' = remove (user_key P st u) e"
            for e e'
          proof -
            have none: "s_user_id s \<noteq> u" if "sess P st e i = Some s" for i s
              using e(2) gone that by (auto simp: fewer_def)
            note del = remove_user_shrunk [OF keys e(1) none]
            have few: "fewer P st e e'" using shrunk_fewer [OF del] e' by auto
            have "fewer P st (db w) e'"
              using \<open>fewer P st (db w) d\<close> w2(2) e(2) few by (blast intro: fewer_trans)
            moreover have "store_inv P st ttl e'" using shrunk_inv [OF e(1) del] e(1) e' by auto
            moreover have "s_user_id s \<noteq> u" if "sess P st e' i = Some s" for i s
              using few none that by (auto simp: fewer_def)
            ultimately show ?thesis by blast
          qed
          {
            case (1 e r w3)
            then have "db w3 = remove (user_key P st u) e" "\<exists>x. r = Inr x" by (auto simp: do_del_def)
            then show ?case using after [OF 1(1,2), of "db w3"] by (auto simp: wp_rules)
          next
            case (2 e x w3)
            then have "db w3 = e \<or> db w3 = remove (user_key P st u) e" by (auto simp: do_del_def)
            then show ?case using after [OF 2(1,2), of "db w3"] 2(4) by (auto simp: wp_rules)
          }
        qed
      qed (use 1 r(2) \<open>fewer P st (db w) d\<close> in \<open>auto simp: wp_rules intro: fewer_trans\<close>)
    qed
  next
    case (2 d e w')
    then have "db w' = d" by (auto simp: smembers_live)
    with 2 show ?case by (simp add: wp_rules members_reply_def)
  qed
qed

text \<open>Saving a session; the index must outlive it, so the lifetime is a whole number of seconds.\<close>

lemma whole_seconds_ms:
  assumes "whole_seconds ttl"
  shows "1000 * ex_of ttl = px_of ttl" "0 < px_of ttl" "0 < ttl div millisecond" "0 < ttl"
proof -
  obtain k where k: "ttl = k * second" using assms by (auto simp: whole_seconds_def mod_eq_0_iff_dvd dvd_def mult.commute)
  then have "0 < k" using assms by (simp add: whole_seconds_def zero_less_mult_iff)
  then have "1 \<le> k" by simp
  have "ttl div millisecond = 1000 * k" "ttl div second = k" by (simp_all add: k)
  moreover have "\<not> ttl < second" "\<not> ttl < millisecond" using \<open>1 \<le> k\<close> by (simp_all add: k)
  ultimately show "1000 * ex_of ttl = px_of ttl" "0 < px_of ttl" "0 < ttl div millisecond" "0 < ttl"
    using \<open>0 < k\<close> by (simp_all add: ex_of_def px_of_def k)
qed

definition token_of :: "session \<Rightarrow> refresh_record" where
  "token_of s = \<lparr>rr_session_id = s_id s, rr_family_id = s_family_id s, rr_user_id = s_user_id s,
     rr_state = ''active''\<rparr>"

definition save_cmds :: "uuid_pkg \<Rightarrow> 'w redis_store \<Rightarrow> session \<Rightarrow> duration \<Rightarrow> basic_cmd list" where
  "save_cmds P st s ttl = [
     CSet (sess_key P st (s_id s)) (DocSession s) ttl,
     CSet (refresh_key st (s_current_digest s)) (DocRefresh (token_of s)) ttl,
     CSAdd (user_key P st (s_user_id s)) (u_string P (s_id s)),
     CExpire (user_key P st (s_user_id s)) ttl]"

lemma sadd_live:
  assumes "\<forall>v t. live d k = Some (v, t) \<longrightarrow> (\<exists>ms. v = Members ms)"
  shows "\<exists>n ms t. fst (do_sadd k m d) = Inr n \<and> now_ms (snd (do_sadd k m d)) = now_ms d \<and>
    live (snd (do_sadd k m d)) = (live d)(k := Some (Members ms, t)) \<and> m \<in> set ms \<and>
    (\<forall>ms0 t. live d k = Some (Members ms0, t) \<longrightarrow> set ms0 \<subseteq> set ms)"
proof (cases "live d k")
  case None
  then show ?thesis by (auto simp: do_sadd_def lookup_def live_put fun_eq_iff)
next
  case (Some e)
  then obtain ms t where e: "live d k = Some (Members ms, t)" using assms by (cases e) auto
  then have "\<forall>x. t = Some x \<longrightarrow> now_ms d < x" by (auto dest: live_deadline)
  then show ?thesis using e
    by (cases "m \<in> set ms")
       (auto simp: do_sadd_def lookup_def deadline_def live_put fun_eq_iff split: option.splits
         intro!: exI [of _ ms] exI [of _ t] exI [of _ "ms @ [m]"])
qed

text \<open>The only session that may appear is the one given.\<close>

definition plus_one :: "uuid_pkg \<Rightarrow> 'w redis_store \<Rightarrow> session \<Rightarrow> rdb \<Rightarrow> rdb \<Rightarrow> bool" where
  "plus_one P st s d d' \<longleftrightarrow> (\<forall>j x. sess P st d' j = Some x \<longrightarrow> sess P st d j = Some x \<or> j = s_id s \<and> x = s)"

lemma plus_one_fewer: "fewer P st d e \<Longrightarrow> plus_one P st s e f \<Longrightarrow> plus_one P st s d f"
  unfolding plus_one_def fewer_def by blast

lemma fewer_plus_one: "fewer P st d e \<Longrightarrow> plus_one P st s d e"
  unfolding plus_one_def fewer_def by blast

lemma save_cmds_run:
  assumes "keys_ok P st" "store_inv P st ttl d" "whole_seconds ttl"
  shows "\<exists>r d'. run_multi (save_cmds P st s ttl) d = (Inr r, d') \<and> store_inv P st ttl d' \<and>
    sess P st d' (s_id s) = Some s \<and> plus_one P st s d d'"
proof -
  note apart = keys_apart [OF assms(1)] and ms = whole_seconds_ms [OF assms(3)]
  let ?x = "Some (now_ms d + px_of ttl)"
  define d1 where "d1 = put (refresh_key st (s_current_digest s)) (DocRefresh (token_of s)) ?x
      (put (sess_key P st (s_id s)) (DocSession s) ?x d)"
  let ?u = "user_key P st (s_user_id s)"
  have d1: "now_ms d1 = now_ms d" "live d1 k = (if k = refresh_key st (s_current_digest s) then Some (DocRefresh (token_of s), ?x)
      else if k = sess_key P st (s_id s) then Some (DocSession s, ?x) else live d k)" for k
    using ms(2) by (simp_all add: d1_def live_put)
  have "\<forall>v t. live d1 ?u = Some (v, t) \<longrightarrow> (\<exists>ms. v = Members ms)"
    using typed_user [OF assms(2)] by (simp add: d1 apart)
  from sadd_live [OF this, of "u_string P (s_id s)"] obtain n ms t d2 where
    d2: "do_sadd ?u (u_string P (s_id s)) d1 = (Inr n, d2)" "now_ms d2 = now_ms d"
      "live d2 = (live d1)(?u := Some (Members ms, t))" "u_string P (s_id s) \<in> set ms"
      "\<forall>ms0 t. live d1 ?u = Some (Members ms0, t) \<longrightarrow> set ms0 \<subseteq> set ms"
    by (metis d1(1) prod.collapse)
  define d3 where "d3 = snd (do_pexpire ?u (px_of ttl) d2)"
  have d3: "now_ms d3 = now_ms d"
    "live d3 k = (if k = ?u then Some (Members ms, ?x) else live d1 k)" for k
    using pexpire_live [OF ms(2), of ?u d2] d2(2,3) by (auto simp: d3_def)
  have "\<exists>q. do_pexpire ?u (px_of ttl) d2 = (Inr q, d3)"
    using ms(2) d2(3) by (auto simp: do_pexpire_def lookup_def d3_def)
  then have run: "\<exists>r. run_multi (save_cmds P st s ttl) d = (Inr r, d3)"
    using d2(1) ms by (auto simp: save_cmds_def do_set_def d1_def)
  moreover have "store_inv P st ttl d3"
    by (rule installed_inv [OF assms(1,2) d3(1) refl, where r = "token_of s" and r' = "token_of s"
          and G = "{}" and ms = ms and z = ?x and y = ?x])
       (use d2(4,5) in \<open>auto simp: d3 d1 apart token_of_def\<close>)
  moreover have "sess P st d3 (s_id s) = Some s"
    by (simp add: sess_live d3 d1 apart)
  moreover have "plus_one P st s d d3"
    by (auto simp: plus_one_def sess_live d3 d1 apart split: if_splits)
  ultimately show ?thesis by blast
qed

lemma store_session_spec:
  assumes "store_ok P L st db" "store_inv P st ttl (db w)" "whole_seconds ttl"
  shows "wp (store_session P st s ttl) (\<lambda>r w'. store_inv P st ttl (db w') \<and> plus_one P st s (db w) (db w') \<and>
    (r = Inr () \<longrightarrow> sess P st (db w') (s_id s) = Some s) \<and>
    (\<forall>e. r = Inl e \<longrightarrow> \<not> err_is InvalidToken e \<and> \<not> err_is RefreshReuse e)) w"
  unfolding store_session_def save_cmds_def [unfolded token_of_def, symmetric] wp_bind
proof (rule wp_store [OF assms(1,2)], goal_cases)
  case (1 d r w')
  then show ?case
    using save_cmds_run [OF store_ok_keys [OF assms(1)] 1(1) assms(3), of s]
    by (auto simp: wp_rules intro: plus_one_fewer)
next
  case (2 d e w')
  then show ?case
    using save_cmds_run [OF store_ok_keys [OF assms(1)] 2(1) assms(3), of s]
    by (auto simp: wp_rules intro: plus_one_fewer fewer_plus_one)
qed

lemma store_create_spec:
  assumes "store_ok P L st db" "store_inv P st ttl (db w)" "whole_seconds ttl"
  shows "wp (store_create P st s ttl multi) (\<lambda>r w'. store_inv P st ttl (db w') \<and> plus_one P st s (db w) (db w') \<and>
    (r = Inr () \<longrightarrow> sess P st (db w') (s_id s) = Some s \<and>
       (\<not> multi \<longrightarrow> (\<forall>j x. sess P st (db w') j = Some x \<longrightarrow> s_user_id x = s_user_id s \<longrightarrow> j = s_id s))) \<and>
    (\<forall>e. r = Inl e \<longrightarrow> \<not> err_is InvalidToken e \<and> \<not> err_is RefreshReuse e)) w"
proof (cases multi)
  case True
  show ?thesis
    using store_session_spec [OF assms, of s] by (simp add: store_create_def True)
next
  case False
  show ?thesis
    unfolding store_create_def if_P [OF False] wp_bind
  proof (rule wp_mono [OF store_revoke_user_spec [OF assms(1,2), of "s_user_id s"]], goal_cases)
    case (1 r w1)
    show ?case
    proof (cases r)
      case (Inr x)
      with 1 have w1: "store_inv P st ttl (db w1)" "fewer P st (db w) (db w1)"
        "\<forall>i q. sess P st (db w1) i = Some q \<longrightarrow> s_user_id q \<noteq> s_user_id s" by auto
      show ?thesis unfolding Inr sum.case
      proof (rule wp_mono [OF store_session_spec [OF assms(1) w1(1) assms(3), of s]], goal_cases)
        case (1 r w')
        then have "j = s_id s" if "sess P st (db w') j = Some x" "s_user_id x = s_user_id s" for j x
          using that w1(3) unfolding plus_one_def by blast
        then show ?case using 1 plus_one_fewer [OF w1(2)] by blast
      qed
    qed (use 1 in \<open>auto simp: wp_rules fewer_plus_one\<close>)
  qed
qed

text \<open>Listing: the sessions found are live and the user's, and no live one is missed.\<close>

definition list_result ::
  "uuid_pkg \<Rightarrow> 'w redis_store \<Rightarrow> uuid \<Rightarrow> string list \<Rightarrow> rdb \<Rightarrow> rdb \<Rightarrow> session list \<Rightarrow> string list \<Rightarrow> bool" where
  "list_result P st u vs d d' found stale \<longleftrightarrow>
     (\<forall>s \<in> set found. sess P st d (s_id s) = Some s \<and> s_user_id s = u) \<and>
     (\<forall>v \<in> set vs. \<forall>i s. u_parse P v = Some i \<longrightarrow> sess P st d' i = Some s \<longrightarrow> s_user_id s = u \<longrightarrow> s \<in> set found) \<and>
     (\<forall>v \<in> set stale. \<forall>i s. u_parse P v = Some i \<longrightarrow> sess P st d' i = Some s \<longrightarrow> s_user_id s \<noteq> u)"

lemma list_loop_spec:
  assumes "store_ok P L st db" "store_inv P st ttl (db w)"
    "list_result P st u done (db0) (db w) found stale" "fewer P st db0 (db w)"
  shows "wp (list_loop P st u vs found stale) (\<lambda>r w'. store_inv P st ttl (db w') \<and> fewer P st (db w) (db w') \<and>
    (case r of
       Inr (found', stale') \<Rightarrow> list_result P st u (done @ vs) db0 (db w') found' stale'
     | Inl e \<Rightarrow> \<not> err_is InvalidToken e \<and> \<not> err_is RefreshReuse e)) w"
  using assms(2-4)
proof (induction vs arbitrary: w found stale "done")
  case Nil
  then show ?case by (simp add: wp_rules)
next
  case (Cons v vs)
  have later: "list_result P st u done db0 (db w1) found stale" if "fewer P st (db w) (db w1)" for w1
    using Cons.prems(2) that unfolding list_result_def fewer_def by blast
  show ?case
  proof (cases "u_parse P v")
    case None
    then have "list_result P st u (done @ [v]) db0 (db w) found (stale @ [v])"
      using Cons.prems(2) by (auto simp: list_result_def)
    from Cons.IH [OF Cons.prems(1) this Cons.prems(3), unfolded append_assoc append.simps]
    show ?thesis using None by simp
  next
    case (Some i)
    show ?thesis
      unfolding list_loop.simps Some option.case wp_bind
    proof (rule wp_mono [OF store_get_spec [OF assms(1) Cons.prems(1), of i]], goal_cases)
      case (1 r w1)
      then have w1: "store_inv P st ttl (db w1)" "fewer P st (db w) (db w1)" by auto
      have few0: "fewer P st db0 (db w1)" by (rule fewer_trans [OF Cons.prems(3) w1(2)])
      have next_step: "wp (list_loop P st u vs found' stale') (\<lambda>r w'. store_inv P st ttl (db w') \<and>
          fewer P st (db w) (db w') \<and> (case r of
            Inr (found', stale') \<Rightarrow> list_result P st u (done @ v # vs) db0 (db w') found' stale'
          | Inl e \<Rightarrow> \<not> err_is InvalidToken e \<and> \<not> err_is RefreshReuse e)) w1"
        if "list_result P st u (done @ [v]) db0 (db w1) found' stale'" for found' stale'
        by (rule wp_mono [OF Cons.IH [OF w1(1) that few0, unfolded append_assoc append.simps]])
             (use w1(2) in \<open>auto intro: fewer_trans\<close>)
      show ?case
      proof (cases r)
        case (Inl e)
        show ?thesis
        proof (cases "err_is InvalidToken e")
          case True
          then have "sess P st (db w1) i = None" using 1 Inl by simp
          then have "list_result P st u (done @ [v]) db0 (db w1) found (stale @ [v])"
            using later [OF w1(2)] Some by (auto simp: list_result_def)
          from next_step [OF this] show ?thesis using Inl True by simp
        qed (use 1 Inl w1 in \<open>auto simp: wp_rules\<close>)
      next
        case (Inr s)
        then have s: "sess P st (db w1) i = Some s" "s_id s = i" using 1 by auto
        then have s0: "sess P st db0 (s_id s) = Some s" using few0 by (simp add: fewer_def)
        show ?thesis
        proof (cases "s_user_id s = u")
          case True
          then have "list_result P st u (done @ [v]) db0 (db w1) (found @ [s]) stale"
            using later [OF w1(2)] Some s s0 by (auto simp: list_result_def)
          from next_step [OF this] show ?thesis using Inr True by simp
        next
          case False
          then have "list_result P st u (done @ [v]) db0 (db w1) found (stale @ [v])"
            using later [OF w1(2)] Some s by (auto simp: list_result_def)
          from next_step [OF this] show ?thesis using Inr False by simp
        qed
      qed
    qed
  qed
qed

lemma srem_stale_shrunk:
  assumes "keys_ok P st" "store_inv P st ttl d"
    "\<forall>i s. u_string P i \<in> set stale \<longrightarrow> sess P st d i = Some s \<longrightarrow> s_user_id s \<noteq> u"
  shows "shrunk P st d (snd (do_srem (user_key P st u) stale d))"
    "\<exists>n. fst (do_srem (user_key P st u) stale d) = Inr n"
proof -
  note apart = keys_apart [OF assms(1)]
  have "\<forall>v t. live d (user_key P st u) = Some (v, t) \<longrightarrow> (\<exists>ms. v = Members ms)"
    using typed_user [OF assms(2)] by blast
  note srem = srem_live [OF this, of stale]
  then show "\<exists>n. fst (do_srem (user_key P st u) stale d) = Inr n" by blast
  let ?d = "snd (do_srem (user_key P st u) stale d)"
  have live: "live ?d k = (if k = user_key P st u then srem_entry stale (live d k) else live d k)" for k
    using srem by simp
  have "live ?d (user_key P st v) = None \<or> (\<exists>ms ms' t. live d (user_key P st v) = Some (Members ms, t) \<and>
      live ?d (user_key P st v) = Some (Members ms', t))" for v
    using typed_user [OF assms(2), of v]
    by (cases "live d (user_key P st v)") (auto simp: live apart srem_entry_def Let_def split: if_splits)
  moreover have "\<exists>ms'. live ?d (user_key P st (s_user_id s)) = Some (Members ms', t) \<and> u_string P i \<in> set ms'"
    if "live ?d (sess_key P st i) = Some (DocSession s, x)"
      "live d (user_key P st (s_user_id s)) = Some (Members ms, t)" "u_string P i \<in> set ms" for i s x ms t
  proof (cases "s_user_id s = u")
    case True
    have "sess P st d i = Some s" using that(1) by (simp add: live apart sess_live)
    then have "u_string P i \<notin> set stale" using assms(3) True by blast
    then show ?thesis using that(2,3) True
      by (auto simp: live apart srem_entry_def Let_def filter_empty_conv)
  qed (use that in \<open>auto simp: live apart\<close>)
  ultimately show "shrunk P st d ?d"
    using srem unfolding shrunk_def by (auto simp: live apart)
qed

lemma store_list_spec:
  assumes "store_ok P L st db" "store_inv P st ttl (db w)"
  shows "wp (store_list_by_user P st u) (\<lambda>r w'. store_inv P st ttl (db w') \<and> fewer P st (db w) (db w') \<and>
    (case r of
       Inr ss \<Rightarrow> (\<forall>s \<in> set ss. sess P st (db w) (s_id s) = Some s \<and> s_user_id s = u) \<and>
         (\<forall>i s. sess P st (db w') i = Some s \<longrightarrow> s_user_id s = u \<longrightarrow> s \<in> set ss)
     | Inl e \<Rightarrow> \<not> err_is InvalidToken e \<and> \<not> err_is RefreshReuse e)) w"
proof -
  note keys = store_ok_keys [OF assms(1)]
  have parse: "u_parse P (u_string P i) = Some i" for i
    using assms(1) by (simp add: store_ok_def uuid_laws_def)
  show ?thesis
    unfolding store_list_by_user_def wp_bind
  proof (rule wp_store [OF assms], goal_cases)
    case (1 d r w1)
    define ids where "ids = (case live d (user_key P st u) of Some (Members ms, _) \<Rightarrow> ms | _ \<Rightarrow> [])"
    have r: "members_reply r = Inr ids" "db w1 = d"
      using 1(1,4) by (auto simp: smembers_live members_reply_def ids_def)
    have few: "fewer P st (db w) d" using 1(2) .
    have nil: "list_result P st u [] (db w) (db w1) [] []" by (simp add: list_result_def)
    have complete: "u_string P i \<in> set ids" if "sess P st d' i = Some s" "s_user_id s = u" "fewer P st d d'" for i s d'
      using index_complete [OF 1(1) _ that(2)] that(1,3) unfolding ids_def fewer_def by blast
    show ?case
      unfolding r(1) sum.case wp_bind
    proof (rule wp_mono [OF list_loop_spec [OF assms(1) 1(1) [folded r(2)] nil few [folded r(2)], of ids]], goal_cases)
      case (1 l w2)
      then have w2: "store_inv P st ttl (db w2)" "fewer P st d (db w2)" using r(2) by auto
      show ?case
      proof (cases l)
        case (Inr p)
        obtain found stale where p: "p = (found, stale)" by (cases p)
        then have res: "list_result P st u ids (db w) (db w2) found stale" using 1 Inr by simp
        have fin: "(\<forall>s \<in> set found. sess P st (db w) (s_id s) = Some s \<and> s_user_id s = u) \<and>
            (\<forall>i s. sess P st d' i = Some s \<longrightarrow> s_user_id s = u \<longrightarrow> s \<in> set found)"
          if "fewer P st (db w2) d'" for d'
          using res complete [OF _ _ fewer_trans [OF w2(2) that]] parse that
          unfolding list_result_def fewer_def by blast
        have few2: "fewer P st (db w) (db w2)" by (rule fewer_trans [OF few w2(2)])
        have gone: "\<forall>i s. u_string P i \<in> set stale \<longrightarrow> sess P st e i = Some s \<longrightarrow> s_user_id s \<noteq> u"
          if "fewer P st (db w2) e" for e
          using res that parse unfolding list_result_def fewer_def by blast
        have ok: "store_inv P st ttl e' \<and> fewer P st (db w2) e'"
          if "store_inv P st ttl e" "fewer P st (db w2) e"
            "e' = e \<or> e' = snd (do_srem (user_key P st u) stale e)" for e e'
        proof -
          note sh = srem_stale_shrunk(1) [OF keys that(1) gone [OF that(2)]]
          then show ?thesis
            using that shrunk_inv [OF that(1) sh] shrunk_fewer [OF sh] by (auto intro: fewer_trans)
        qed
        show ?thesis
        proof (cases "stale = []")
          case True
          then show ?thesis using Inr p w2(1) few2 fin [OF fewer_refl] by (simp add: wp_rules)
        next
          case False
          have "wp (rs_client st (Basic (CSRem (user_key P st u) stale))) (\<lambda>r w'. store_inv P st ttl (db w') \<and>
              fewer P st (db w2) (db w') \<and> (\<forall>e. r = Inl e \<longrightarrow> net_err e)) w2"
          proof (rule wp_store [OF assms(1) w2(1)], goal_cases)
            case (1 e q w')
            have "\<exists>n. q = Inr n"
              using srem_stale_shrunk(2) [OF keys 1(1) gone [OF 1(2)]] 1(4) by auto
            then show ?case using ok [OF 1(1,2), of "db w'"] 1(4) by auto
          next
            case (2 e x w')
            then show ?case using ok [OF 2(1,2), of "db w'"] by auto
          qed
          then have "wp (rs_client st (Basic (CSRem (user_key P st u) stale))) (\<lambda>x w'. case x of
              Inl e \<Rightarrow> store_inv P st ttl (db w') \<and> fewer P st (db w) (db w') \<and> \<not> err_is InvalidToken e \<and> \<not> err_is RefreshReuse e
            | Inr _ \<Rightarrow> store_inv P st ttl (db w') \<and> fewer P st (db w) (db w') \<and>
                (\<forall>s \<in> set found. sess P st (db w) (s_id s) = Some s \<and> s_user_id s = u) \<and>
                (\<forall>i s. sess P st (db w') i = Some s \<longrightarrow> s_user_id s = u \<longrightarrow> s \<in> set found)) w2"
            by (rule wp_mono) (use few2 fin in \<open>auto split: sum.splits intro: fewer_trans\<close>)
          then show ?thesis using False
            unfolding Inr p sum.case prod.case wp_rules by (auto elim!: wp_mono split: sum.splits)
        qed
      qed (use 1 few r(2) in \<open>auto simp: wp_rules intro: fewer_trans\<close>)
    qed
  next
    case (2 d e w')
    then have "db w' = d" by (auto simp: smembers_live)
    with 2 show ?case by (simp add: wp_rules members_reply_def)
  qed
qed

text \<open>Rotation and the login counter.\<close>

lemma rotate_result_simps [simp]:
  "rotate_result (Inl e) = Inl (Wrapped ''rotate refresh token'' [e])"
  "rotate_result (Inr (Array [IntVal 0, v])) = Inl (Sentinel InvalidToken)"
  "rotate_result (Inr (Array [IntVal (-1), v])) = Inl (Sentinel RefreshReuse)"
  "rotate_result (Inr (Array [IntVal 1, DocSession s])) = Inr s"
  by (simp_all add: rotate_result_def slice_reply_def to_int64_def unmarshal_session_def)

text \<open>What one run of the script means for the session store.\<close>

definition rotate_effect ::
  "uuid_pkg \<Rightarrow> (int \<Rightarrow> int) \<Rightarrow> 'w redis_store \<Rightarrow> string \<Rightarrow> string \<Rightarrow> time \<Rightarrow> rdb \<Rightarrow> err + session \<Rightarrow> rdb \<Rightarrow> bool" where
  "rotate_effect P L st old new expires d r d' \<longleftrightarrow>
     (case r of
        Inr s' \<Rightarrow> (\<exists>s. usable P st d old s \<and> s' = rotated L s new expires \<and>
          sess P st d' (s_id s) = Some s' \<and>
          (\<forall>j x. j \<noteq> s_id s \<longrightarrow> sess P st d' j = Some x \<longrightarrow> sess P st d j = Some x) \<and>
          (\<exists>t x. live d (refresh_key st old) = Some (DocRefresh t, x) \<and> rr_session_id t = s_id s \<and>
             (old \<noteq> new \<longrightarrow> (\<exists>y. live d' (refresh_key st old) = Some (DocRefresh (t\<lparr>rr_state := ''spent''\<rparr>), y)))))
      | Inl e \<Rightarrow>
          if err_is RefreshReuse e then
            (\<exists>t x. live d (refresh_key st old) = Some (DocRefresh t, x) \<and> rr_state t = ''spent'' \<and>
               sess P st d' (rr_session_id t) = None \<and> fewer P st d d' \<and>
               (\<forall>s. sess P st d (rr_session_id t) = Some s \<longrightarrow>
                  live d' (refresh_key st (s_current_digest s)) = None))
          else (\<forall>s. \<not> usable P st d old s) \<and> d' = d)"

lemma rotate_script_effect:
  assumes "keys_ok P st" "store_inv P st ttl d" "0 < ttl div millisecond"
    "rotate_script P L (rotate_args_of st old new now ttl) d = (r, d')"
  shows "store_inv P st ttl d' \<and> rotate_effect P L st old new (now + ttl) d (rotate_result r) d'"
  using assms(1-3)
proof (cases rule: rotate_script_cases [where L = L and old = old and new = new and now = now])
  case refused
  then show ?thesis using assms(2,4) by (auto simp: rotate_effect_def)
next
  case (reused t x)
  define gs where "gs = (case sess P st d (rr_session_id t) of None \<Rightarrow> [] | Some s \<Rightarrow> [s_current_digest s])"
  have r: "r = Inr (Array [IntVal (-1), TextVal ''''])"
      "d' = drop_keys P st (rr_session_id t) gs (rr_user_id t) d"
    using reused assms(4) by (auto simp: gs_def)
  have "live d' (refresh_key st (s_current_digest s)) = None" if "sess P st d (rr_session_id t) = Some s" for s
    unfolding r(2) by (simp add: drop_keys_live [OF assms(1,2)] gs_def that)
  then show ?thesis
    using reused r drop_keys_sess [OF assms(1,2), of "rr_session_id t" gs "rr_user_id t"]
    by (auto simp: rotate_effect_def)
next
  case (rotates t x s)
  have r: "r = Inr (Array [IntVal 1, DocSession (rotated L s new (now + ttl))])"
      "d' = rotated_db P st old new (ttl div millisecond) t (rotated L s new (now + ttl)) d"
    using rotates assms(4) by auto
  note inv = rotated_db_inv [where L = L and new = new and expires = "now + ttl",
      OF assms(1-3) rotates(1,3,4) refl]
  have id: "s_id s = rr_session_id t"
    using assms(2) rotates(3) by (auto elim: typed_sess_entry [where i = "rr_session_id t"])
  have "sess P st d' (s_id s) = Some (rotated L s new (now + ttl))"
    "\<forall>j x. j \<noteq> s_id s \<longrightarrow> sess P st d' j = Some x \<longrightarrow> sess P st d j = Some x"
    "old \<noteq> new \<Longrightarrow> \<exists>y. live d' (refresh_key st old) = Some (DocRefresh (t\<lparr>rr_state := ''spent''\<rparr>), y)"
    by (auto simp: r(2) sess_live id rotated_db_live [OF assms(1,3)] keys_apart [OF assms(1)])
  then show ?thesis using inv rotates r id by (auto simp: rotate_effect_def)
qed

lemma store_rotate_spec:
  assumes "store_ok P L st db" "store_inv P st ttl (db w)" "0 < ttl div millisecond"
  shows "wp (store_rotate P st old new now ttl) (\<lambda>r w'. store_inv P st ttl (db w') \<and>
    (\<exists>d. fewer P st (db w) d \<and> now_ms (db w) \<le> now_ms d \<and> d = at_time (now_ms d) (db w) \<and>
       (rotate_effect P L st old new (now + ttl) d r (db w') \<or>
        (\<exists>e. r = Inl e \<and> \<not> err_is InvalidToken e \<and> \<not> err_is RefreshReuse e \<and>
           (db w' = d \<or> (\<exists>r'. rotate_effect P L st old new (now + ttl) d r' (db w'))))))) w"
proof -
  note keys = store_ok_keys [OF assms(1)]
  have laws: "redis_laws P L (rs_client st) db" using assms(1) by (simp add: store_ok_def)
  have at: "store_inv P st ttl (at_time t (db w))" "fewer P st (db w) (at_time t (db w))"
    "at_time t (db w) = at_time (now_ms (at_time t (db w))) (db w)" if "now_ms (db w) \<le> t" for t
    using store_inv_at_time [OF assms(2) that] sess_at_time [OF that] by (auto simp: fewer_def)
  show ?thesis
    unfolding store_rotate_def wp_rules
  proof (rule wp_redis [OF laws], goal_cases)
    case (1 t r w')
    then have "rotate_script P L (rotate_args_of st old new now ttl) (at_time t (db w)) = (r, db w')" by simp
    from rotate_script_effect [OF keys at(1) [OF 1(1)] assms(3) this] show ?case
      using at [OF 1(1)] 1(1) by (auto intro!: exI [of _ "at_time t (db w)"])
  next
    case (2 t e w')
    obtain r d' where run: "rotate_script P L (rotate_args_of st old new now ttl) (at_time t (db w)) = (r, d')"
      by (cases "rotate_script P L (rotate_args_of st old new now ttl) (at_time t (db w))")
    from rotate_script_effect [OF keys at(1) [OF 2(1)] assms(3) this] 2(3) run show ?case
      using at [OF 2(1)] 2(1,2) by (auto intro!: exI [of _ "at_time t (db w)"])
  qed
qed

end
