(* ===== verification/AuthSpec.thy ===== *)
theory AuthSpec
  imports AuthService
begin

text \<open>
  What the authentication service guarantees over any providers that keep their contracts: whom an
  accepted access token speaks for, which session a login or a refresh leaves behind, and what the
  revocations remove.
\<close>

section \<open>Vocabulary\<close>

text \<open>The generators of the environment leave the observed part of the world alone.\<close>

definition env_leaves :: "('w, 'sk, 'pk) auth_env \<Rightarrow> ('w \<Rightarrow> 'o) \<Rightarrow> bool" where
  "env_leaves E f \<longleftrightarrow> leaves (ae_new_v7 E) f \<and> leaves (ae_new_v4 E) f \<and> (\<forall>n. leaves (ae_rand E n) f)"

text \<open>The session and the row that make an identity good for the claims of a token.\<close>

definition vouched ::
  "uuid_pkg \<Rightarrow> claims \<Rightarrow> (uuid \<Rightarrow> session option) \<Rightarrow> users \<Rightarrow> identity \<Rightarrow> bool" where
  "vouched P c f t i \<longleftrightarrow> (\<exists>uid x row. u_parse P (cl_subject c) = Some uid \<and>
     f (cl_session_id c) = Some x \<and> s_user_id x = uid \<and> s_user_version x = cl_version c \<and>
     find_user uid t = Some row \<and> c_status row = status_active \<and>
     c_session_version row = cl_version c \<and>
     i = \<lparr>id_user = to_user row, id_session_id = cl_session_id c\<rparr>)"

definition signed_for ::
  "uuid_pkg \<Rightarrow> ('sk, 'pk) jwt_lib \<Rightarrow> ('sk, 'pk) tokens \<Rightarrow> uuid \<Rightarrow> uuid \<Rightarrow> int \<Rightarrow> time \<Rightarrow> string \<Rightarrow> time \<Rightarrow> bool" where
  "signed_for P J t uid sid v now enc expires \<longleftrightarrow> expires = now + tk_ttl t \<and>
     (\<exists>i. jwt_sign J (tk_private_key t) \<lparr>jt_alg = alg_eddsa, jt_kid = Some (tk_key_id t),
        jt_claims = sign_claims P t uid sid v now (u_string P i)\<rparr> = Some enc)"

text \<open>What a token pair promises about the sessions: its session carries the refresh token's digest.\<close>

definition good_pair ::
  "('w, 'sk, 'pk) auth_env \<Rightarrow> ('w, 'sk, 'pk) auth_service \<Rightarrow> user \<Rightarrow> int \<Rightarrow> (uuid \<Rightarrow> session option) \<Rightarrow> token_pair \<Rightarrow> bool" where
  "good_pair E s account version f p \<longleftrightarrow> tp_user p = account \<and>
     (\<exists>x now. f (tp_session_id p) = Some x \<and> s_id x = tp_session_id p \<and> s_user_id x = u_id account \<and>
        s_user_version x = version \<and> s_expires_at x = now + as_refresh_ttl s \<and>
        s_current_digest x = digest_token (ae_sha256 E) (tp_refresh_token p) \<and>
        signed_for (ae_uuid E) (ae_jwt E) (as_tokens s) (u_id account) (tp_session_id p)
          (u_session_version account) now (tp_access_token p) (tp_expires_at p))"

definition alone :: "uuid \<Rightarrow> uuid \<Rightarrow> (uuid \<Rightarrow> session option) \<Rightarrow> bool" where
  "alone uid sid f \<longleftrightarrow> (\<forall>j x. f j = Some x \<longrightarrow> s_user_id x = uid \<longrightarrow> j = sid)"

text \<open>Sessions that were there before, or are of the given account in its present version.\<close>

definition only_for :: "uuid \<Rightarrow> int \<Rightarrow> (uuid \<Rightarrow> session option) \<Rightarrow> (uuid \<Rightarrow> session option) \<Rightarrow> bool" where
  "only_for uid version f g \<longleftrightarrow>
     (\<forall>j x. g j = Some x \<longrightarrow> f j = Some x \<or> s_user_id x = uid \<and> s_user_version x = version)"

lemma only_for_ends: "only_for u v f g \<Longrightarrow> ends g h \<Longrightarrow> only_for u v f h"
  "ends f g \<Longrightarrow> only_for u v g h \<Longrightarrow> only_for u v f h" "ends f g \<Longrightarrow> only_for u v f g"
  by (auto simp: only_for_def ends_def)

lemma find_user_id: "find_user uid t = Some row \<Longrightarrow> c_id row = uid \<and> row \<in> set t"
  by (auto simp: find_user_def find_Some_iff)

lemma new_refresh_token_spec:
  assumes "\<And>n. leaves (rand n) f"
  shows "wp (new_refresh_token h rand) (\<lambda>r w'. f w' = f w \<and> on_ok (\<lambda>(tok, d). d = digest_token h tok) r) w"
  unfolding new_refresh_token_def wp_rules
  by (rule wp_mono [OF leavesD [OF assms]]) (auto simp: wp_rules Let_def split: sum.splits)

lemma tokens_sign_leaves:
  assumes "leaves new_id f"
  shows "wp (tokens_sign P J new_id t uid sid v now) (\<lambda>r w'. f w' = f w \<and>
    on_ok (\<lambda>(enc, expires). signed_for P J t uid sid v now enc expires) r) w"
proof -
  have "wp (tokens_sign P J new_id t uid sid v now) (\<lambda>_ w'. f w' = f w) w"
    unfolding tokens_sign_def wp_rules
    by (rule wp_mono [OF leavesD [OF assms]]) (auto simp: wp_rules Let_def split: option.splits)
  from wp_conj [OF this tokens_sign_spec] show ?thesis
    by (rule wp_mono) (simp add: signed_for_def)
qed

section \<open>Sorting\<close>

text \<open>The order of the summaries: newest first, then by the id's text.\<close>

lemma str_less_trichotomy: "str_less s t \<or> s = t \<or> str_less t s"
proof (induction s t rule: str_less.induct)
  case (3 a s b t)
  have "byte a = byte b \<longleftrightarrow> a = b" by (simp add: of_char_eq_iff)
  with 3 show ?case by (cases "byte a" "byte b" rule: linorder_cases) auto
qed (auto simp: neq_Nil_conv elim: str_less.elims)

lemma str_less_trans: "str_less s t \<Longrightarrow> str_less t u \<Longrightarrow> str_less s u"
proof (induction s t arbitrary: u rule: str_less.induct)
  case (2 b t)
  then show ?case by (cases u) auto
next
  case (3 a s b t)
  then show ?case by (cases u) auto
qed simp

lemma str_less_irrefl [simp]: "\<not> str_less s s"
  by (induction s) auto

definition summary_le :: "uuid_pkg \<Rightarrow> session_summary \<Rightarrow> session_summary \<Rightarrow> bool" where
  "summary_le P a b \<longleftrightarrow> \<not> summary_less P b a"

lemma summary_le_total: "summary_le P a b \<or> summary_le P b a"
  using str_less_trichotomy [of "u_string P (ss_id a)" "u_string P (ss_id b)"]
  by (auto simp: summary_le_def summary_less_def dest: str_less_trans)

lemma summary_le_trans: "summary_le P a b \<Longrightarrow> summary_le P b c \<Longrightarrow> summary_le P a c"
  using str_less_trichotomy [of "u_string P (ss_id a)" "u_string P (ss_id b)"]
    str_less_trichotomy [of "u_string P (ss_id b)" "u_string P (ss_id c)"]
  by (auto simp: summary_le_def summary_less_def split: if_splits dest: str_less_trans)

lemma summaries_sorted: "sorted_wrt (summary_le P) (sort_by (summary_less P) xs)"
  by (rule sort_by_sorted) (fact summary_le_def summary_le_total summary_le_trans)+

section \<open>The service over its providers\<close>

context auth_providers
begin

lemma frame_S: "lawful \<Longrightarrow> frame w' = frame w \<Longrightarrow> S w' = S w"
  and frame_inv: "lawful \<Longrightarrow> frame w' = frame w \<Longrightarrow> inv w' = inv w"
  using frame by blast+

lemma authenticate_spec:
  assumes "lawful" "inv w" "as_sessions s = st" "as_users s = us"
  shows "wp (authenticate E s access) (\<lambda>r w'. inv w' \<and> tbl w' = tbl w \<and> ends (S w) (S w') \<and>
    on_ok (\<lambda>i. \<exists>c. tokens_verify (ae_jwt E) (as_tokens s) access (as_clock s w) = Inr c \<and>
      vouched (ae_uuid E) c (S w') (tbl w') i) r) w"
proof (cases "tokens_verify (ae_jwt E) (as_tokens s) access (as_clock s w)")
  case (Inl e)
  then show ?thesis using assms by (simp add: authenticate_def wp_rules)
next
  case (Inr c)
  show ?thesis
  proof (cases "u_parse (ae_uuid E) (cl_subject c)")
    case None
    then show ?thesis using assms Inr by (simp add: authenticate_def wp_rules)
  next
    case (Some uid)
    define post :: "err + identity \<Rightarrow> 'w \<Rightarrow> bool" where "post = (\<lambda>r w'. inv w' \<and> tbl w' = tbl w \<and> ends (S w) (S w') \<and>
      on_ok (\<lambda>i. \<exists>c. tokens_verify (ae_jwt E) (as_tokens s) access (as_clock s w) = Inr c \<and>
        vouched (ae_uuid E) c (S w') (tbl w') i) r)"
    have "wp (authenticate E s access) post w"
      unfolding authenticate_def wp_bind wp_clock_now Inr sum.case Some option.case assms(3,4)
    proof (rule wp_mono [OF sessions.get [OF assms(1,2)]], goal_cases)
      case (1 g w1)
      show ?case
      proof (cases g)
        case (Inl e)
        with 1 show ?thesis by (simp add: wp_rules post_def)
      next
        case g: (Inr x)
        note verified = Inr
        have outer: "inv w1" "tbl w1 = tbl w" "ends (S w) (S w1)" and
          x: "S w1 (cl_session_id c) = Some x" "s_id x = cl_session_id c"
          using 1 g by auto
        show ?thesis
        proof (cases "s_user_id x \<noteq> uid \<or> s_user_version x \<noteq> cl_version c")
          case True
          with 1 g show ?thesis by (simp add: wp_rules post_def)
        next
          case False
          show ?thesis
            unfolding g sum.case if_not_P [OF False] wp_bind
          proof (rule wp_mono [OF accounts.get_account [OF assms(1)]], goal_cases)
            case (1 a w2)
            then have w2: "S w2 = S w1" "inv w2 = inv w1" "tbl w2 = tbl w1"
              using frame [OF assms(1), of w2 w1] by (auto simp del: to_user_simps)
            have kept: "inv w2 \<and> tbl w2 = tbl w \<and> ends (S w) (S w2)" using outer w2 by simp
            show ?case
            proof (cases a)
              case (Inr u)
              then obtain row where "find_user uid (tbl w2) = Some row" "u = to_user row"
                using 1 w2 by auto
              then have "vouched (ae_uuid E) c (S w2) (tbl w2) \<lparr>id_user = u, id_session_id = s_id x\<rparr>"
                if "c_status row = status_active" "c_session_version row = cl_version c"
                unfolding vouched_def w2(1)
                by (intro exI [of _ uid] exI [of _ x] exI [of _ row]) (use that x False Some in simp)
              then show ?thesis
                using Inr kept \<open>u = to_user row\<close> verified by (simp add: wp_rules post_def)
            qed (use kept in \<open>simp add: wp_return post_def\<close>)
          qed
        qed
      qed
    qed
    then show ?thesis by (simp only: post_def)
  qed
qed

lemma check_limits_spec:
  assumes "lawful" "inv w" "as_limiter s = rl" "0 < as_login_window s"
  shows "wp (check_limits s ks) (\<lambda>_ w'. inv w' \<and> tbl w' = tbl w \<and> ends (S w) (S w')) w"
  using assms(2)
proof (induction ks arbitrary: w)
  case (Cons k ks)
  show ?case
    unfolding check_limits.simps wp_bind assms(3)
  proof (rule wp_mono [OF limiter.allow [OF assms(1) Cons.prems assms(4)]], goal_cases)
    case (1 a w1)
    then have w1: "inv w1" "tbl w1 = tbl w" "ends (S w) (S w1)" by auto
    have rest: "wp (check_limits s ks) (\<lambda>_ w'. inv w' \<and> tbl w' = tbl w \<and> ends (S w) (S w')) w1"
      by (rule wp_mono [OF Cons.IH [OF w1(1)]]) (use w1 in \<open>auto intro: ends_trans\<close>)
    show ?case using rest w1 by (simp add: wp_rules split: sum.splits)
  qed
qed (simp add: wp_rules)

lemma open_session_spec:
  assumes "lawful" "inv w" "as_sessions s = st" "as_users s = us" "as_refresh_ttl s = ttl"
    "env_leaves E (\<lambda>w. (S w, inv w, tbl w))"
  shows "wp (open_session E s account) (\<lambda>r w'. inv w' \<and>
    only_for (u_id account) (u_session_version account) (S w) (S w') \<and>
    on_ok (\<lambda>p. good_pair E s account (u_session_version account) (S w') p \<and>
      (\<not> u_allow_multiple_sessions account \<longrightarrow> alone (u_id account) (tp_session_id p) (S w'))) r) w"
proof -
  define obs where "obs = (\<lambda>w. (S w, inv w, tbl w))"
  define post :: "err + token_pair \<Rightarrow> 'w \<Rightarrow> bool" where "post = (\<lambda>r w'. inv w' \<and>
    only_for (u_id account) (u_session_version account) (S w) (S w') \<and>
    on_ok (\<lambda>p. good_pair E s account (u_session_version account) (S w') p \<and>
      (\<not> u_allow_multiple_sessions account \<longrightarrow> alone (u_id account) (tp_session_id p) (S w'))) r)"
  have env: "leaves (ae_new_v7 E) obs" "leaves (ae_new_v4 E) obs" "\<And>n. leaves (ae_rand E n) obs"
    using assms(6) by (auto simp: env_leaves_def obs_def)
  have revoked: "wp (st_revoke st i) (\<lambda>_ w'. post (Inl e) w') v"
    if "inv v" "only_for (u_id account) (u_session_version account) (S w) (S v)" for i e v
    by (rule wp_mono [OF sessions.revoke [OF assms(1) that(1)]])
       (use that(2) in \<open>auto simp: post_def intro: only_for_ends\<close>)
  have "wp (open_session E s account) post w"
    unfolding open_session_def wp_bind wp_clock_now assms(3,4,5)
  proof (rule wp_mono [OF leavesD [OF env(1)]], goal_cases)
    case (1 sid w1)
    show ?case
    proof (rule wp_mono [OF leavesD [OF env(1)]], goal_cases)
      case (1 fid w2)
      show ?case
      proof (rule wp_mono [OF new_refresh_token_spec [OF env(3)]], goal_cases)
        case (1 t w3)
        then have w3: "S w3 = S w" "inv w3"
          using \<open>obs w1 = obs w\<close> \<open>obs w2 = obs w1\<close> assms(2) by (auto simp: obs_def)
        show ?case
        proof (cases t)
          case (Inl e)
          then show ?thesis using w3 by (simp add: wp_rules post_def only_for_def)
        next
          case (Inr td)
          obtain refresh digest where td: "td = (refresh, digest)" by (cases td)
          then have digest: "digest = digest_token (ae_sha256 E) refresh" using 1 Inr by simp
          define x where "x = \<lparr>s_id = sid, s_family_id = fid, s_user_id = u_id account,
            s_user_version = u_session_version account, s_current_digest = digest,
            s_created_at = as_clock s w, s_expires_at = as_clock s w + ttl\<rparr>"
          have x: "s_id x = sid" "s_user_id x = u_id account" "s_user_version x = u_session_version account"
            "s_current_digest x = digest" "s_expires_at x = as_clock s w + ttl"
            by (simp_all add: x_def)
          show ?thesis
            unfolding Inr td sum.case prod.case Let_def wp_bind x_def [symmetric]
          proof (rule wp_mono [OF sessions.create [OF assms(1) w3(2), of x "u_allow_multiple_sessions account"]], goal_cases)
            case (1 c w4)
            then have w4: "inv w4" "only_for (u_id account) (u_session_version account) (S w) (S w4)"
              using x w3 unfolding only_for_def by (simp, metis)
            show ?case
            proof (cases c)
              case (Inl e)
              with w4 show ?thesis by (simp add: wp_rules post_def)
            next
              case (Inr u)
              then have made: "S w4 sid = Some x"
                  "\<not> u_allow_multiple_sessions account \<longrightarrow> alone (u_id account) sid (S w4)"
                using 1 x by (auto simp: alone_def)
              show ?thesis
                unfolding Inr sum.case wp_bind
              proof (rule wp_mono [OF tokens_sign_leaves [OF env(2)]], goal_cases)
                case (1 a w5)
                then have w5: "S w5 = S w4" "inv w5" using w4 by (auto simp: obs_def)
                show ?case
                proof (cases a)
                  case (Inl e)
                  show ?thesis unfolding Inl sum.case wp_rules
                    by (rule revoked) (use w4 w5 in auto)
                next
                  case (Inr ae)
                  obtain access expires where ae: "ae = (access, expires)" by (cases ae)
                  then have signed: "signed_for (ae_uuid E) (ae_jwt E) (as_tokens s) (u_id account) sid
                      (u_session_version account) (as_clock s w) access expires"
                    using 1 Inr by simp
                  show ?thesis
                    unfolding Inr ae sum.case prod.case wp_bind
                  proof (rule wp_mono [OF accounts.record_account [OF assms(1)]], goal_cases)
                    case (1 l w6)
                    have w6: "S w6 = S w4" "inv w6"
                      using frame [OF assms(1) 1] w5 by simp_all
                    show ?case
                    proof (cases l)
                      case (Inl e)
                      show ?thesis unfolding Inl sum.case wp_rules
                        by (rule revoked) (use w4 w6 in auto)
                    next
                      case (Inr u)
                      then show ?thesis
                        using w6 w4 made x signed digest assms(5)
                        by (auto simp: wp_rules post_def good_pair_def)
                    qed
                  qed
                qed
              qed
            qed
          qed
        qed
      qed
    qed
  qed
  then show ?thesis by (simp only: post_def)
qed

text \<open>A login: no session without accepted credentials of an active account.\<close>

definition login_result ::
  "('w, 'sk, 'pk) auth_env \<Rightarrow> ('w, 'sk, 'pk) auth_service \<Rightarrow> string \<Rightarrow> string \<Rightarrow> 'w \<Rightarrow> err + token_pair \<Rightarrow> 'w \<Rightarrow> bool" where
  "login_result E s name password w r w' \<longleftrightarrow>
     (case r of
        Inr p \<Rightarrow> (\<exists>row \<in> set (tbl w). checks name password row \<and> c_status row = status_active \<and>
          u_id (tp_user p) = c_id row \<and>
          only_for (c_id row) (c_session_version row) (S w) (S w') \<and>
          good_pair E s (tp_user p) (c_session_version row) (S w') p \<and>
          (\<not> c_allow_multiple_sessions row \<longrightarrow> alone (c_id row) (tp_session_id p) (S w')))
      | Inl e \<Rightarrow> ends (S w) (S w') \<or>
          (\<exists>row \<in> set (tbl w). checks name password row \<and> c_status row = status_active \<and>
             only_for (c_id row) (c_session_version row) (S w) (S w')))"

lemma login_spec:
  assumes "lawful" "inv w" "as_sessions s = st" "as_users s = us" "as_limiter s = rl"
    "as_refresh_ttl s = ttl" "0 < as_login_window s" "env_leaves E (\<lambda>w. (S w, inv w, tbl w))"
    "n = to_lower (ae_unicode E) (trim_space (ae_unicode E) name)"
  shows "wp (login E s name password key) (\<lambda>r w'. inv w' \<and> login_result E s n password w r w') w"
proof -
  define post where "post = (\<lambda>r w'. inv w' \<and> login_result E s n password w r w')"
  have "wp (login E s name password key) post w"
    unfolding login_def Let_def wp_bind assms(9) [symmetric]
  proof (rule wp_mono [OF check_limits_spec [OF assms(1,2,5,7)]], goal_cases)
    case (1 l w1)
    show ?case
    proof (cases l)
      case (Inl e)
      with 1 show ?thesis by (simp add: wp_rules post_def login_result_def)
    next
      case (Inr x)
      show ?thesis
        unfolding Inr sum.case wp_bind assms(4)
      proof (rule wp_mono [OF accounts.verify_account [OF assms(1)]], goal_cases)
        case (1 v w2)
        have w2: "S w2 = S w1" "inv w2"
          using frame [OF assms(1), of w2 w1] 1 \<open>inv w1 \<and> _\<close> by simp_all
        have w1: "ends (S w) (S w1)" "tbl w1 = tbl w" using \<open>inv w1 \<and> _\<close> by simp_all
        show ?case
        proof (cases v)
          case (Inl e)
          with w1 w2 show ?thesis by (simp add: wp_rules post_def login_result_def)
        next
          case (Inr account)
          then obtain row where row: "row \<in> set (tbl w)" "checks n password row"
              "u_id account = c_id row" "u_status account = c_status row"
              "u_session_version account = c_session_version row"
              "u_allow_multiple_sessions account = c_allow_multiple_sessions row"
            using 1 w1 by auto
          show ?thesis
          proof (cases "u_status account = status_active")
            case False
            with w1 w2 Inr show ?thesis by (simp add: wp_rules post_def login_result_def)
          next
            case True
            have "u_status account \<noteq> status_active \<longleftrightarrow> False" using True by simp
            then show ?thesis
              unfolding Inr sum.case if_False
              by (simp only: if_False)
                 (rule wp_mono [OF open_session_spec [OF assms(1) w2(2) assms(3,4,6,8)]],
                  use row True w1 w2 in \<open>auto simp: post_def login_result_def good_pair_def
                    intro: only_for_ends split: sum.splits\<close>)
          qed
        qed
      qed
    qed
  qed
  then show ?thesis by (simp only: post_def)
qed

text \<open>A refresh: only the holder of a session's current token, of an active account at the session's version.\<close>

definition refresh_result ::
  "('w, 'sk, 'pk) auth_env \<Rightarrow> ('w, 'sk, 'pk) auth_service \<Rightarrow> string \<Rightarrow> 'w \<Rightarrow> err + token_pair \<Rightarrow> 'w \<Rightarrow> bool" where
  "refresh_result E s token w r w' \<longleftrightarrow>
     (\<exists>new expires. may_rotate L (digest_token (ae_sha256 E) token) new expires (S w) (S w')) \<and>
     on_ok (\<lambda>p. \<exists>x row. S w (tp_session_id p) = Some x \<and>
       s_current_digest x = digest_token (ae_sha256 E) token \<and>
       find_user (s_user_id x) (tbl w') = Some row \<and> c_status row = status_active \<and>
       c_session_version row = L (s_user_version x) \<and> tp_user p = to_user row \<and>
       good_pair E s (to_user row) (c_session_version row) (S w') p) r"

lemma refresh_spec:
  assumes "lawful" "inv w" "as_sessions s = st" "as_users s = us" "as_refresh_ttl s = ttl"
    "env_leaves E (\<lambda>w. (S w, inv w, tbl w))"
  shows "wp (auth_refresh E s token) (\<lambda>r w'. inv w' \<and> tbl w' = tbl w \<and> refresh_result E s token w r w') w"
proof -
  define obs where "obs = (\<lambda>w. (S w, inv w, tbl w))"
  define old where "old = digest_token (ae_sha256 E) token"
  define post where "post = (\<lambda>r w'. inv w' \<and> tbl w' = tbl w \<and> refresh_result E s token w r w')"
  have env: "leaves (ae_new_v4 E) obs" "\<And>n. leaves (ae_rand E n) obs"
    using assms(6) by (auto simp: env_leaves_def obs_def)
  have failed: "post (Inl e) v" if "inv v" "tbl v = tbl w" "may_rotate L old new t (S w) (S v)" for e v new t
    using that by (auto simp: post_def refresh_result_def old_def)
  have revoked: "wp (st_revoke st i) (\<lambda>_ w'. post (Inl e) w') v"
    if "inv v" "tbl v = tbl w" "may_rotate L old new t (S w) (S v)" for i e v new t
    by (rule wp_mono [OF sessions.revoke [OF assms(1) that(1)]])
       (use that in \<open>auto intro: failed may_rotate_ends\<close>)
  have "wp (auth_refresh E s token) post w"
    unfolding auth_refresh_def wp_bind assms(3,4,5) old_def [symmetric]
  proof (rule wp_mono [OF new_refresh_token_spec [OF env(2)]], goal_cases)
    case (1 t w1)
    then have w1: "S w1 = S w" "inv w1" "tbl w1 = tbl w" using assms(2) by (auto simp: obs_def)
    show ?case
    proof (cases t)
      case (Inl e)
      show ?thesis unfolding Inl sum.case wp_rules
        by (rule failed) (use w1 in \<open>auto intro: ends_may_rotate\<close>)
    next
      case (Inr td)
      obtain new nd where td: "td = (new, nd)" by (cases td)
      then have nd: "nd = digest_token (ae_sha256 E) new" using 1 Inr by simp
      show ?thesis
        unfolding Inr td sum.case prod.case wp_bind wp_clock_now
      proof (rule wp_mono [OF sessions.rotate [OF assms(1) w1(2)]], goal_cases)
        case (1 r w2)
        then have w2: "inv w2" "tbl w2 = tbl w" "may_rotate L old nd (as_clock s w1 + ttl) (S w) (S w2)"
          using w1 by simp_all
        show ?case
        proof (cases r)
          case (Inl e)
          then show ?thesis using failed [OF w2] by (simp add: wp_rules)
        next
          case (Inr x')
          then obtain x where x: "S w (s_id x) = Some x" "s_current_digest x = old"
              "x' = rotated L x nd (as_clock s w1 + ttl)" "S w2 (s_id x') = Some x'"
            using 1 w1(1) by (auto simp: rotated_def)
          show ?thesis
            unfolding Inr sum.case wp_bind
          proof (rule wp_mono [OF accounts.get_account [OF assms(1)]], goal_cases)
            case (1 g w3)
            have w3: "S w3 = S w2" "inv w3" "tbl w3 = tbl w"
              using frame [OF assms(1), of w3 w2] 1 w2 by simp_all
            show ?case
            proof (cases g)
              case (Inl e)
              show ?thesis unfolding Inl sum.case wp_rules
                by (rule revoked) (use w2 w3 in auto)
            next
              case (Inr account)
              then obtain row where row: "find_user (s_user_id x') (tbl w3) = Some row" "account = to_user row"
                using 1 w3 w2 by auto
              show ?thesis
              proof (cases "u_status account \<noteq> status_active \<or> u_session_version account \<noteq> s_user_version x'")
                case True
                show ?thesis unfolding Inr sum.case if_P [OF True] wp_rules
                  by (rule revoked) (use w2 w3 in auto)
              next
                case False
                show ?thesis
                  unfolding Inr sum.case if_not_P [OF False] wp_bind
                proof (rule wp_mono [OF tokens_sign_leaves [OF env(1)]], goal_cases)
                  case (1 a w4)
                  then have w4: "S w4 = S w2" "inv w4" "tbl w4 = tbl w" using w3 by (auto simp: obs_def)
                  show ?case
                  proof (cases a)
                    case (Inl e)
                    show ?thesis unfolding Inl sum.case wp_rules
                      by (rule failed) (use w2 w4 in auto)
                  next
                    case (Inr ae)
                    then show ?thesis
                      using 1 w2(3) w3 w4 x row False nd find_user_id [OF row(1)] assms(5)
                      unfolding post_def refresh_result_def old_def good_pair_def
                      by (cases ae) (auto simp: wp_rules rotated_def)
                  qed
                qed
              qed
            qed
          qed
        qed
      qed
    qed
  qed
  then show ?thesis by (simp only: post_def)
qed

text \<open>Revocations and the list.\<close>

lemma revoke_others_loop_spec:
  assumes "lawful" "inv w" "as_sessions s = st"
  shows "wp (revoke_others_loop s current xs) (\<lambda>r w'. inv w' \<and> tbl w' = tbl w \<and> ends (S w) (S w') \<and>
    (r = Inr () \<longrightarrow> (\<forall>x \<in> set xs. s_id x \<noteq> current \<longrightarrow> S w' (s_id x) = None))) w"
  using assms(2)
proof (induction xs arbitrary: w)
  case (Cons x xs)
  show ?case
  proof (cases "s_id x = current")
    case False
    show ?thesis
      unfolding revoke_others_loop.simps if_not_P [OF False] wp_bind assms(3)
    proof (rule wp_mono [OF sessions.revoke [OF assms(1) Cons.prems, of "s_id x"]], goal_cases)
      case (1 r w1)
      show ?case
      proof (cases r)
        case (Inr u)
        then have w1: "inv w1" "tbl w1 = tbl w" "ends (S w) (S w1)" "S w1 (s_id x) = None" using 1 by auto
        show ?thesis unfolding Inr sum.case
          by (rule wp_mono [OF Cons.IH [OF w1(1)]]) (use w1 in \<open>auto intro: ends_trans ends_None\<close>)
      qed (use 1 in \<open>simp add: wp_rules\<close>)
    qed
  qed (use Cons in simp)
qed (simp add: wp_rules)

lemma revoke_others_spec:
  assumes "lawful" "inv w" "as_sessions s = st"
  shows "wp (revoke_other_sessions s uid current) (\<lambda>r w'. inv w' \<and> tbl w' = tbl w \<and> ends (S w) (S w') \<and>
    (r = Inr () \<longrightarrow> alone uid current (S w'))) w"
  unfolding revoke_other_sessions_def wp_bind assms(3)
proof (rule wp_mono [OF sessions.list [OF assms(1,2), of uid]], goal_cases)
  case (1 r w1)
  show ?case
  proof (cases r)
    case (Inr xs)
    then have w1: "inv w1" "tbl w1 = tbl w" "ends (S w) (S w1)" and
      all: "\<And>i x. S w1 i = Some x \<Longrightarrow> s_user_id x = uid \<Longrightarrow> x \<in> set xs" using 1 by auto
    have ids: "s_id x = i" if "S w1 i = Some x" "s_user_id x = uid" for i x
      using that sessions.keyed [OF assms(1) w1(1)] by auto
    show ?thesis unfolding Inr sum.case
    proof (rule wp_mono [OF revoke_others_loop_spec [OF assms(1) w1(1) assms(3)]], goal_cases)
      case (1 r w2)
      have "j = current" if "r = Inr ()" "S w2 j = Some x" "s_user_id x = uid" for j x
      proof -
        have "S w1 j = Some x" using that(2) 1 by (simp add: ends_def)
        then have "x \<in> set xs" "s_id x = j" using all ids that(3) by auto
        then show ?thesis using 1 that(1,2) by auto
      qed
      then show ?case using 1 w1 by (auto simp: alone_def intro: ends_trans)
    qed
  qed (use 1 in \<open>simp add: wp_rules\<close>)
qed

lemma revoke_user_spec:
  assumes "lawful" "inv w" "as_sessions s = st"
  shows "wp (auth_revoke_user s uid) (\<lambda>r w'. inv w' \<and> tbl w' = tbl w \<and> ends (S w) (S w') \<and>
    (r = Inr () \<longrightarrow> (\<forall>i x. S w' i = Some x \<longrightarrow> s_user_id x \<noteq> uid))) w"
  unfolding auth_revoke_user_def wp_bind assms(3)
  by (rule wp_mono [OF sessions.revoke_user [OF assms(1,2)]]) (auto simp: wp_rules split: sum.splits)

lemma revoke_session_spec:
  assumes "lawful" "inv w" "as_sessions s = st"
  shows "wp (revoke_session s uid sid) (\<lambda>r w'. inv w' \<and> tbl w' = tbl w \<and> ends (S w) (S w') \<and>
    (r = Inr () \<longrightarrow> (\<exists>x. S w sid = Some x \<and> s_user_id x = uid) \<and> S w' sid = None)) w"
  unfolding revoke_session_def wp_bind assms(3)
proof (rule wp_mono [OF sessions.get [OF assms(1,2)]], goal_cases)
  case (1 g w1)
  show ?case
  proof (cases g)
    case (Inr x)
    show ?thesis
    proof (cases "s_user_id x = uid")
      case True
      have w1: "inv w1" "tbl w1 = tbl w" "ends (S w) (S w1)" "S w sid = Some x"
        using 1 Inr by (auto simp: ends_def)
      show ?thesis unfolding Inr sum.case wp_rules
        by (simp only: True not_True_eq_False if_False simp_thms,
            rule wp_mono [OF sessions.revoke [OF assms(1) w1(1)]])
           (use w1 True in \<open>auto simp: wp_rules intro: ends_trans split: sum.splits\<close>)
    qed (use 1 Inr in \<open>simp add: wp_rules\<close>)
  qed (use 1 in \<open>simp add: wp_rules\<close>)
qed

lemma list_sessions_spec:
  assumes "lawful" "inv w" "as_sessions s = st"
  shows "wp (list_sessions E s uid current) (\<lambda>r w'. inv w' \<and> tbl w' = tbl w \<and> ends (S w) (S w') \<and>
    on_ok (\<lambda>ys. sorted_wrt (summary_le (ae_uuid E)) ys \<and>
      (\<forall>y \<in> set ys. \<exists>x. S w (ss_id y) = Some x \<and> s_user_id x = uid \<and> y = summary_of current x) \<and>
      (\<forall>i x. S w' i = Some x \<longrightarrow> s_user_id x = uid \<longrightarrow> summary_of current x \<in> set ys)) r) w"
  unfolding list_sessions_def wp_bind assms(3)
proof (rule wp_mono [OF sessions.list [OF assms(1,2), of uid]], goal_cases)
  case (1 r w1)
  show ?case
  proof (cases r)
    case (Inr xs)
    have "set (sort_by (summary_less (ae_uuid E)) (map (summary_of current) xs)) = summary_of current ` set xs"
      by simp
    moreover have "ss_id (summary_of current x) = s_id x" for x by (simp add: summary_of_def)
    ultimately show ?thesis using 1 Inr by (auto simp: wp_rules summaries_sorted)
  qed (use 1 in \<open>simp add: wp_rules\<close>)
qed

end

end
