(* ===== verification/SessionProvider.thy ===== *)
theory SessionProvider
  imports SessionSpec AuthSpec
begin

text \<open>
  The Redis store keeps the contracts of the authentication service's session store and rate
  limiter.
\<close>

section \<open>The login counters\<close>

definition counter :: "'w redis_store \<Rightarrow> rdb \<Rightarrow> string \<Rightarrow> int" where
  "counter st d k = (case lookup d (limit_key st k) of Some (IntVal n) \<Rightarrow> n | _ \<Rightarrow> 0)"

lemma counter_fewer:
  "now_ms d \<le> t \<Longrightarrow> counter st (at_time t d) k = counter st d k \<or> counter st (at_time t d) k = 0"
  by (auto simp: counter_def lookup_def live_at_time split: option.splits)

text \<open>A change under a login key touches no session.\<close>

lemma limit_put_shrunk:
  assumes "keys_ok P st" "store_inv P st ttl d" "now_ms d' = now_ms d"
    "\<And>k. k \<noteq> limit_key st a \<Longrightarrow> live d' k = live d k"
  shows "shrunk P st d d'"
proof -
  note apart = keys_apart [OF assms(1)]
  have "live d (user_key P st u) = None \<or> (\<exists>ms ms' t. live d (user_key P st u) = Some (Members ms, t) \<and>
      live d (user_key P st u) = Some (Members ms', t))" for u
    using typed_user [OF assms(2), of u] by (cases "live d (user_key P st u)") auto
  then show ?thesis
    using assms(3) unfolding shrunk_def by (auto simp: assms(4) apart)
qed

lemma incr_effect:
  assumes "do_incr (limit_key st k) d = (r, d')"
  shows "now_ms d' = now_ms d" "a \<noteq> limit_key st k \<Longrightarrow> live d' a = live d a"
    "int_reply r = Inr n \<Longrightarrow> n = counter st d k + 1 \<and> counter st d' k = n"
    "int_reply r = Inl e \<Longrightarrow> d' = d"
proof -
  have dead: "\<forall>x. deadline d (limit_key st k) = Some x \<longrightarrow> now_ms d < x"
    by (auto simp: deadline_def dest: live_deadline split: option.splits)
  show "now_ms d' = now_ms d" "a \<noteq> limit_key st k \<Longrightarrow> live d' a = live d a"
    using assms by (auto simp: do_incr_def live_put split: option.splits rvalue.splits if_splits)
  show "n = counter st d k + 1 \<and> counter st d' k = n" if "int_reply r = Inr n"
    using assms that dead
    by (auto simp: do_incr_def counter_def lookup_def [of "put _ _ _ _"] live_put int_reply_def
        split: option.splits rvalue.splits if_splits)
  show "d' = d" if "int_reply r = Inl e"
    using assms that by (auto simp: do_incr_def int_reply_def split: option.splits rvalue.splits if_splits)
qed

lemma pexpire_counter:
  assumes "do_pexpire (limit_key st k) ms d = (r, d')" "0 < ms"
  shows "now_ms d' = now_ms d" "a \<noteq> limit_key st k \<Longrightarrow> live d' a = live d a"
    "counter st d' k = counter st d k" "\<exists>n. r = Inr n"
  using assms by (auto simp: do_pexpire_def counter_def lookup_def live_put split: option.splits)

lemma ex_of_pos: "0 < ttl \<Longrightarrow> 0 < ex_of ttl"
  by (auto simp: ex_of_def pos_imp_zdiv_pos_iff)

lemma store_allow_spec:
  assumes "store_ok P L st db" "store_inv P st ttl (db w)" "0 < window"
  shows "wp (store_allow st k limit window) (\<lambda>r w'. store_inv P st ttl (db w') \<and> fewer P st (db w) (db w') \<and>
    on_ok (\<lambda>b. \<exists>n. (b \<longleftrightarrow> n \<le> limit) \<and> (n = counter st (db w) k + 1 \<or> n = 1) \<and>
      (counter st (db w') k = n \<or> counter st (db w') k = 0)) r) w"
proof -
  note keys = store_ok_keys [OF assms(1)] and laws = assms(1) [unfolded store_ok_def]
  have at: "store_inv P st ttl (at_time t d)" "fewer P st d (at_time t d)"
    if "now_ms d \<le> t" "store_inv P st ttl d" for t d
    using store_inv_at_time [OF that(2,1)] sess_at_time [OF that(1)] by (auto simp: fewer_def)
  have step: "store_inv P st ttl d' \<and> fewer P st d d'"
    if "store_inv P st ttl d" "now_ms d' = now_ms d" "\<And>a. a \<noteq> limit_key st k \<Longrightarrow> live d' a = live d a" for d d'
    using limit_put_shrunk [OF keys that] shrunk_inv [OF that(1)] shrunk_fewer by blast
  have client: "redis_laws P L (rs_client st) db" using laws by blast
  show ?thesis
    unfolding store_allow_def wp_bind
  proof (rule wp_redis [OF client], goal_cases)
    case (1 t r w1)
    let ?d = "at_time t (db w)"
    have run: "do_incr (limit_key st k) ?d = (r, db w1)" using 1(2) by simp
    have d: "store_inv P st ttl ?d" "fewer P st (db w) ?d" using at [OF 1(1) assms(2)] by auto
    have w1: "store_inv P st ttl (db w1)" "fewer P st (db w) (db w1)"
      using step [OF d(1) incr_effect(1,2) [OF run]] d(2) by (auto intro: fewer_trans)
    show ?case
    proof (cases "int_reply r")
      case (Inl e)
      then show ?thesis using w1 by (simp add: wp_rules)
    next
      case (Inr n)
      then have n: "n = counter st ?d k + 1" "counter st (db w1) k = n" using incr_effect(3) [OF run] by auto
      then have or1: "n = counter st (db w) k + 1 \<or> n = 1"
        using counter_fewer [OF 1(1), of st k] by auto
      show ?thesis
      proof (cases "n = 1")
        case False
        then show ?thesis using Inr w1 n or1 by (auto simp: wp_rules)
      next
        case True
        show ?thesis
          unfolding Inr sum.case if_P [OF True] wp_bind
        proof (rule wp_redis [OF client], goal_cases)
          case (1 t q w2)
          have run: "do_pexpire (limit_key st k) (1000 * ex_of window) (at_time t (db w1)) = (q, db w2)"
            using 1(2) by simp
          note e = pexpire_counter [OF run, simplified, OF ex_of_pos [OF assms(3)]]
          have "store_inv P st ttl (db w2) \<and> fewer P st (at_time t (db w1)) (db w2)"
            by (rule step [OF at(1) [OF 1(1) w1(1)]]) (use e in auto)
          then have "store_inv P st ttl (db w2)" "fewer P st (db w) (db w2)"
            using at(2) [OF 1(1) w1(1)] w1(2) by (auto intro: fewer_trans)
          moreover have "counter st (db w2) k = n \<or> counter st (db w2) k = 0"
            using e(3) counter_fewer [OF 1(1), of st k] n(2) by auto
          ultimately show ?case using e(4) or1 True by (auto simp: wp_rules)
        next
          case (2 t q w2)
          obtain q' d' where run: "do_pexpire (limit_key st k) (1000 * ex_of window) (at_time t (db w1)) = (q', d')"
            by (cases "do_pexpire (limit_key st k) (1000 * ex_of window) (at_time t (db w1))")
          note e = pexpire_counter [OF run, simplified, OF ex_of_pos [OF assms(3)]]
          have "store_inv P st ttl d' \<and> fewer P st (at_time t (db w1)) d'"
            by (rule step [OF at(1) [OF 2(1) w1(1)]]) (use e in auto)
          then have "store_inv P st ttl (db w2)" "fewer P st (db w) (db w2)"
            using 2(3) run at [OF 2(1) w1(1)] w1(2) by (auto intro: fewer_trans)
          then show ?case by (simp add: wp_rules)
        qed
      qed
    qed
  next
    case (2 t e w1)
    let ?d = "at_time t (db w)"
    obtain r d' where run: "do_incr (limit_key st k) ?d = (r, d')" by (cases "do_incr (limit_key st k) ?d")
    have d: "store_inv P st ttl ?d" "fewer P st (db w) ?d" using at [OF 2(1) assms(2)] by auto
    have "store_inv P st ttl d' \<and> fewer P st ?d d'"
      by (rule step [OF d(1) incr_effect(1,2) [OF run]])
    then have "store_inv P st ttl (db w1)" "fewer P st (db w) (db w1)"
      using 2(3) run d by (auto intro: fewer_trans)
    then show ?case by (simp add: wp_rules int_reply_def)
  qed
qed

section \<open>What the store leaves alone\<close>

definition client_leaves :: "'w redis_store \<Rightarrow> ('w \<Rightarrow> 'o) \<Rightarrow> bool" where
  "client_leaves st f \<longleftrightarrow> (\<forall>cmd. leaves (rs_client st cmd) f)"

lemma store_get_leaves: "client_leaves st f \<Longrightarrow> leaves (store_get P st i) f"
  unfolding store_get_def client_leaves_def
  by (intro leaves_rules) (auto split: sum.splits reply.splits option.splits)

lemma store_revoke_leaves: "client_leaves st f \<Longrightarrow> leaves (store_revoke P st i) f"
  unfolding store_revoke_def
  by (intro leaves_rules store_get_leaves) (auto simp: client_leaves_def)

lemma revoke_all_leaves: "client_leaves st f \<Longrightarrow> leaves (revoke_all P st vs) f"
  by (induction vs) (auto intro!: leaves_rules store_revoke_leaves split: option.splits)

lemma store_revoke_user_leaves: "client_leaves st f \<Longrightarrow> leaves (store_revoke_user P st u) f"
  unfolding store_revoke_user_def
  by (intro leaves_rules revoke_all_leaves) (auto simp: client_leaves_def)

lemma store_create_leaves: "client_leaves st f \<Longrightarrow> leaves (store_create P st s ttl multi) f"
  unfolding store_create_def store_session_def
  by (intro leaves_rules store_revoke_user_leaves) (auto simp: client_leaves_def)

lemma list_loop_leaves: "client_leaves st f \<Longrightarrow> leaves (list_loop P st u vs xs ys) f"
  by (induction vs arbitrary: xs ys)
     (auto intro!: leaves_rules store_get_leaves split: option.splits)

lemma store_list_leaves: "client_leaves st f \<Longrightarrow> leaves (store_list_by_user P st u) f"
  unfolding store_list_by_user_def
  by (intro leaves_rules list_loop_leaves) (auto simp: client_leaves_def)

lemma store_rotate_leaves: "client_leaves st f \<Longrightarrow> leaves (store_rotate P st old new now ttl) f"
  unfolding store_rotate_def by (intro leaves_rules) (auto simp: client_leaves_def)

lemma store_allow_leaves: "client_leaves st f \<Longrightarrow> leaves (store_allow st k limit window) f"
  unfolding store_allow_def by (intro leaves_rules) (auto simp: client_leaves_def)

section \<open>The contracts\<close>

lemma sess_id: "store_inv P st ttl d \<Longrightarrow> sess P st d i = Some s \<Longrightarrow> s_id s = i"
  by (auto elim: typed_sess_entry [where i = i])

lemma fewer_ends: "fewer P st d d' \<longleftrightarrow> ends (sess P st d) (sess P st d')"
  by (simp add: fewer_def ends_def)

lemma rotate_effect_may_rotate:
  assumes "store_inv P st ttl d" "rotate_effect P L st old new e d r d'"
  shows "may_rotate L old new e (sess P st d) (sess P st d')"
proof (cases r)
  case (Inl x)
  then show ?thesis
    using assms(2) by (auto simp: rotate_effect_def may_rotate_def fewer_def split: if_splits)
next
  case (Inr s')
  then obtain s where s: "usable P st d old s" "s' = rotated L s new e" "sess P st d' (s_id s) = Some s'"
      "\<And>j x. j \<noteq> s_id s \<Longrightarrow> sess P st d' j = Some x \<Longrightarrow> sess P st d j = Some x"
    using assms(2) by (auto simp: rotate_effect_def)
  have "sess P st d (s_id s) = Some s" "s_current_digest s = old"
    using s(1) sess_id [OF assms(1)] by (auto simp: usable_def)
  then show ?thesis using s unfolding may_rotate_def by (metis option.inject)
qed

lemma store_rotate_contract:
  assumes "store_ok P L st db" "store_inv P st ttl (db w)" "whole_seconds ttl"
  shows "wp (store_rotate P st old new now ttl) (\<lambda>r w'. store_inv P st ttl (db w') \<and>
      may_rotate L old new (now + ttl) (sess P st (db w)) (sess P st (db w')) \<and>
      (case r of Inr s' \<Rightarrow> (\<exists>s. sess P st (db w) (s_id s) = Some s \<and> s_current_digest s = old \<and>
          s' = rotated L s new (now + ttl) \<and> sess P st (db w') (s_id s) = Some s')
        | Inl e \<Rightarrow> (err_is InvalidToken e \<or> err_is RefreshReuse e \<longrightarrow>
            ends (sess P st (db w)) (sess P st (db w'))))) w"
proof (rule wp_mono [OF store_rotate_spec [OF assms(1,2) whole_seconds_ms(3) [OF assms(3)]]], goal_cases)
  case (1 r w')
  then obtain d where d: "fewer P st (db w) d" "d = at_time (now_ms d) (db w)" "now_ms (db w) \<le> now_ms d"
    and cases: "rotate_effect P L st old new (now + ttl) d r (db w') \<or>
        (\<exists>e. r = Inl e \<and> \<not> err_is InvalidToken e \<and> \<not> err_is RefreshReuse e \<and>
           (db w' = d \<or> (\<exists>r'. rotate_effect P L st old new (now + ttl) d r' (db w'))))"
    and inv: "store_inv P st ttl (db w')" by blast
  have d_inv: "store_inv P st ttl d" using store_inv_at_time [OF assms(2) d(3)] d(2) by simp
  have "may_rotate L old new (now + ttl) (sess P st d) (sess P st (db w'))"
    using cases rotate_effect_may_rotate [OF d_inv] ends_may_rotate [OF ends_refl] by metis
  then have may: "may_rotate L old new (now + ttl) (sess P st (db w)) (sess P st (db w'))"
    using d(1) unfolding may_rotate_def fewer_def by blast
  show ?case
  proof (cases r)
    case (Inl e)
    then have "ends (sess P st (db w)) (sess P st (db w'))" if "err_is InvalidToken e \<or> err_is RefreshReuse e"
      using cases that d(1) by (auto simp: rotate_effect_def fewer_def ends_def split: if_splits)
    then show ?thesis using Inl inv may by simp
  next
    case (Inr s')
    then obtain s where s: "usable P st d old s" "s' = rotated L s new (now + ttl)"
        "sess P st (db w') (s_id s) = Some s'"
      using cases by (auto simp: rotate_effect_def)
    have "sess P st d (s_id s) = Some s" "s_current_digest s = old"
      using s(1) sess_id [OF d_inv] by (auto simp: usable_def)
    then show ?thesis using Inr inv may s d(1) by (auto simp: fewer_def)
  qed
qed

definition sessions_lawful ::
  "uuid_pkg \<Rightarrow> (int \<Rightarrow> int) \<Rightarrow> 'w redis_store \<Rightarrow> ('w \<Rightarrow> rdb) \<Rightarrow> duration \<Rightarrow> ('w \<Rightarrow> 'o) \<Rightarrow> bool" where
  "sessions_lawful P L st db ttl rest \<longleftrightarrow>
     store_ok P L st db \<and> whole_seconds ttl \<and> client_leaves st rest"

interpretation redis: session_contract "redis_session_store P st" "\<lambda>w. sess P st (db w)"
  "\<lambda>w. store_inv P st ttl (db w)" L ttl rest "sessions_lawful P L st db ttl rest"
  for P :: uuid_pkg and st :: "'w redis_store" and db L ttl and rest :: "'w \<Rightarrow> 'o"
proof (unfold_locales, goal_cases)
  case (1 w i s)
  then show ?case by (simp add: sess_id)
next
  case (2 w i)
  then have ok: "store_ok P L st db" and lv: "client_leaves st rest" by (auto simp: sessions_lawful_def)
  show ?case
    unfolding redis_session_store_def session_store.simps rate_limiter.simps
    by (rule wp_mono [OF wp_conj [OF store_get_spec [OF ok 2(2)] leavesD [OF store_get_leaves [OF lv]]]]) (auto simp: plus_one_def fewer_ends split: sum.splits)
next
  case (3 w i)
  then have ok: "store_ok P L st db" and lv: "client_leaves st rest" by (auto simp: sessions_lawful_def)
  show ?case
    unfolding redis_session_store_def session_store.simps rate_limiter.simps
    by (rule wp_mono [OF wp_conj [OF store_revoke_spec [OF ok 3(2)] leavesD [OF store_revoke_leaves [OF lv]]]]) (auto simp: plus_one_def fewer_ends)
next
  case (4 w u)
  then have ok: "store_ok P L st db" and lv: "client_leaves st rest" by (auto simp: sessions_lawful_def)
  show ?case
    unfolding redis_session_store_def session_store.simps rate_limiter.simps
    by (rule wp_mono [OF wp_conj [OF store_revoke_user_spec [OF ok 4(2)] leavesD [OF store_revoke_user_leaves [OF lv]]]]) (auto simp: plus_one_def fewer_ends)
next
  case (5 w u)
  then have ok: "store_ok P L st db" and lv: "client_leaves st rest" by (auto simp: sessions_lawful_def)
  show ?case
    unfolding redis_session_store_def session_store.simps rate_limiter.simps
    by (rule wp_mono [OF wp_conj [OF store_list_spec [OF ok 5(2)] leavesD [OF store_list_leaves [OF lv]]]]) (auto simp: plus_one_def fewer_ends on_ok_def split: sum.splits)
next
  case (6 w s multi)
  then have ok: "store_ok P L st db" "whole_seconds ttl" and lv: "client_leaves st rest"
    by (auto simp: sessions_lawful_def)
  show ?case
    unfolding redis_session_store_def session_store.simps rate_limiter.simps
    by (rule wp_mono [OF wp_conj [OF store_create_spec [OF ok(1) 6(2) ok(2)] leavesD [OF store_create_leaves [OF lv]]]]) (auto simp: plus_one_def plus_one_def)
next
  case (7 w old new now)
  then have ok: "store_ok P L st db" "whole_seconds ttl" and lv: "client_leaves st rest"
    by (auto simp: sessions_lawful_def)
  show ?case
    unfolding redis_session_store_def session_store.simps rate_limiter.simps
    by (rule wp_mono [OF wp_conj [OF store_rotate_contract [OF ok(1) 7(2) ok(2)] leavesD [OF store_rotate_leaves [OF lv]]]]) (auto simp: plus_one_def)
qed

interpretation redis_limit: limiter_contract "redis_rate_limiter st" "\<lambda>w. counter st (db w)"
  "\<lambda>w. sess P st (db w)" "\<lambda>w. store_inv P st ttl (db w)" rest "sessions_lawful P L st db ttl rest"
  for P :: uuid_pkg and st :: "'w redis_store" and db L ttl and rest :: "'w \<Rightarrow> 'o"
proof (unfold_locales, goal_cases)
  case (1 w window k limit)
  then have ok: "store_ok P L st db" and lv: "client_leaves st rest" by (auto simp: sessions_lawful_def)
  show ?case
    unfolding redis_rate_limiter_def session_store.simps rate_limiter.simps
    by (rule wp_mono [OF wp_conj [OF store_allow_spec [OF ok 1(2,3)] leavesD [OF store_allow_leaves [OF lv]]]]) (auto simp: plus_one_def fewer_ends)
qed

end
