(* ===== verification/UserRepo.thy ===== *)
theory UserRepo
  imports UserService
begin

text \<open>
  The PostgreSQL adapter of the user module: the query functions sqlc generated in
  \<open>db/generated/users.sql.go\<close>, the repository and the transaction wrapper of
  \<open>internal/modules/user/postgres/repository.go\<close>, over the driver of theory \<open>Driver\<close>.
\<close>

type_synonym 'w dbtx = "('w, user_stmt, user_res) conn"
type_synonym 'w database = "('w, user_stmt, user_res) pool"

section \<open>db/generated/users.sql.go\<close>

definition scan_error :: err where "scan_error = Plain ''scan''"

definition scan_user :: "err + user_res \<Rightarrow> err + db_user" where
  "scan_user r = (case r of Inl e \<Rightarrow> Inl e | Inr (UserRow x) \<Rightarrow> Inr x | Inr _ \<Rightarrow> Inl scan_error)"

definition scan_users :: "err + user_res \<Rightarrow> err + db_user list" where
  "scan_users r = (case r of Inl e \<Rightarrow> Inl e | Inr (UserRows x) \<Rightarrow> Inr x | Inr _ \<Rightarrow> Inl scan_error)"

definition scan_count :: "err + user_res \<Rightarrow> err + int" where
  "scan_count r = (case r of Inl e \<Rightarrow> Inl e | Inr (CountRow x) \<Rightarrow> Inr x | Inr _ \<Rightarrow> Inl scan_error)"

definition exec_result :: "err + user_res \<Rightarrow> err + unit" where
  "exec_result r = (case r of Inl e \<Rightarrow> Inl e | Inr _ \<Rightarrow> Inr ())"

definition q_user :: "'w dbtx \<Rightarrow> user_stmt \<Rightarrow> ('w, err + db_user) state" where
  "q_user q st = do { r \<leftarrow> db_exec q st; State_Monad.return (scan_user r) }"

definition q_users :: "'w dbtx \<Rightarrow> user_stmt \<Rightarrow> ('w, err + db_user list) state" where
  "q_users q st = do { r \<leftarrow> db_exec q st; State_Monad.return (scan_users r) }"

definition q_count :: "'w dbtx \<Rightarrow> user_stmt \<Rightarrow> ('w, err + int) state" where
  "q_count q st = do { r \<leftarrow> db_exec q st; State_Monad.return (scan_count r) }"

definition q_exec :: "'w dbtx \<Rightarrow> user_stmt \<Rightarrow> ('w, err + unit) state" where
  "q_exec q st = do { r \<leftarrow> db_exec q st; State_Monad.return (exec_result r) }"

text \<open>One function per query: run the statement, scan its row, rows or count.\<close>

definition q_create_user :: "'w dbtx \<Rightarrow> create_user_params \<Rightarrow> ('w, err + db_user) state" where
  "q_create_user q arg = q_user q (CreateUser arg)"

definition q_get_user_by_id :: "'w dbtx \<Rightarrow> uuid \<Rightarrow> ('w, err + db_user) state" where
  "q_get_user_by_id q uid = q_user q (GetUserByID uid)"

definition q_get_user_by_username :: "'w dbtx \<Rightarrow> string \<Rightarrow> ('w, err + db_user) state" where
  "q_get_user_by_username q name = q_user q (GetUserByUsername name)"

definition q_list_users :: "'w dbtx \<Rightarrow> string \<Rightarrow> string \<Rightarrow> i32 \<Rightarrow> i32 \<Rightarrow> ('w, err + db_user list) state" where
  "q_list_users q name st off lim = q_users q (ListUsers name st off lim)"

definition q_count_users :: "'w dbtx \<Rightarrow> string \<Rightarrow> string \<Rightarrow> ('w, err + int) state" where
  "q_count_users q name st = q_count q (CountUsers name st)"

definition q_update_user_profile :: "'w dbtx \<Rightarrow> uuid \<Rightarrow> string \<Rightarrow> string \<Rightarrow> string option \<Rightarrow>
    string option \<Rightarrow> time option \<Rightarrow> ('w, err + db_user) state" where
  "q_update_user_profile q uid name disp mail avatar now =
     q_user q (UpdateUserProfile uid name disp mail avatar now)"

definition q_set_user_status :: "'w dbtx \<Rightarrow> uuid \<Rightarrow> string \<Rightarrow> time option \<Rightarrow> ('w, err + db_user) state" where
  "q_set_user_status q uid st now = q_user q (SetUserStatus uid st now)"

definition q_set_user_superuser :: "'w dbtx \<Rightarrow> uuid \<Rightarrow> bool \<Rightarrow> time option \<Rightarrow> ('w, err + db_user) state" where
  "q_set_user_superuser q uid b now = q_user q (SetUserSuperuser uid b now)"

definition q_set_user_multiple_sessions :: "'w dbtx \<Rightarrow> uuid \<Rightarrow> bool \<Rightarrow> time option \<Rightarrow> ('w, err + db_user) state" where
  "q_set_user_multiple_sessions q uid b now = q_user q (SetUserMultipleSessions uid b now)"

definition q_update_user_password :: "'w dbtx \<Rightarrow> uuid \<Rightarrow> string \<Rightarrow> time option \<Rightarrow> ('w, err + db_user) state" where
  "q_update_user_password q uid h now = q_user q (UpdateUserPassword uid h now)"

definition q_update_user_password_hash :: "'w dbtx \<Rightarrow> uuid \<Rightarrow> string \<Rightarrow> time option \<Rightarrow> ('w, err + unit) state" where
  "q_update_user_password_hash q uid h now = q_exec q (UpdateUserPasswordHash uid h now)"

definition q_update_user_last_login :: "'w dbtx \<Rightarrow> uuid \<Rightarrow> time option \<Rightarrow> ('w, err + unit) state" where
  "q_update_user_last_login q uid now = q_exec q (UpdateUserLastLogin uid now)"

definition q_lock_superuser_changes :: "'w dbtx \<Rightarrow> ('w, err + unit) state" where
  "q_lock_superuser_changes q = q_exec q LockSuperuserChanges"

definition q_count_active_superusers :: "'w dbtx \<Rightarrow> ('w, err + int) state" where
  "q_count_active_superusers q = q_count q CountActiveSuperusers"

lemmas query_defs = q_create_user_def q_get_user_by_id_def q_get_user_by_username_def
  q_list_users_def q_count_users_def q_update_user_profile_def q_set_user_status_def
  q_set_user_superuser_def q_set_user_multiple_sessions_def q_update_user_password_def
  q_update_user_password_hash_def q_update_user_last_login_def q_lock_superuser_changes_def
  q_count_active_superusers_def

section \<open>internal/modules/user/postgres/repository.go\<close>

definition mapped :: "string \<Rightarrow> ('w, err + db_user) state \<Rightarrow> ('w, err + user) state" where
  "mapped operation m = do { r \<leftarrow> m; State_Monad.return (map_result operation r) }"

definition repo_create :: "'w dbtx \<Rightarrow> user \<Rightarrow> ('w, err + user) state" where
  "repo_create q item = mapped ''create user'' (q_create_user q (create_params item))"

definition repo_get_by_id :: "'w dbtx \<Rightarrow> uuid \<Rightarrow> ('w, err + user) state" where
  "repo_get_by_id q uid = mapped ''read user'' (q_get_user_by_id q uid)"

definition repo_get_by_username :: "'w dbtx \<Rightarrow> string \<Rightarrow> ('w, err + user) state" where
  "repo_get_by_username q name = mapped ''read user'' (q_get_user_by_username q name)"

definition repo_list ::
  "'w dbtx \<Rightarrow> list_filter \<Rightarrow> i32 \<Rightarrow> i32 \<Rightarrow> ('w, err + user list \<times> int) state" where
  "repo_list q f limit off = do {
     r \<leftarrow> q_list_users q (lf_username f) (lf_status f) off limit;
     case r of
       Inl e \<Rightarrow> State_Monad.return (Inl (Wrapped ''list users failed'' [e]))
     | Inr rows \<Rightarrow> do {
         c \<leftarrow> q_count_users q (lf_username f) (lf_status f);
         case c of
           Inl e \<Rightarrow> State_Monad.return (Inl (Wrapped ''count users failed'' [e]))
         | Inr cnt \<Rightarrow> State_Monad.return (Inr (map to_user rows, cnt)) } }"

definition repo_update_profile ::
  "'w dbtx \<Rightarrow> uuid \<Rightarrow> profile_input \<Rightarrow> time \<Rightarrow> ('w, err + user) state" where
  "repo_update_profile q uid i now = mapped ''update user profile''
     (q_update_user_profile q uid (pi_username i) (pi_display_name i)
        (to_text_value (pi_email i)) (to_text_value (pi_avatar_url i)) (to_timestamp now))"

definition repo_set_status :: "'w dbtx \<Rightarrow> uuid \<Rightarrow> status \<Rightarrow> time \<Rightarrow> ('w, err + user) state" where
  "repo_set_status q uid st now =
     mapped ''update user status'' (q_set_user_status q uid st (to_timestamp now))"

definition repo_set_superuser :: "'w dbtx \<Rightarrow> uuid \<Rightarrow> bool \<Rightarrow> time \<Rightarrow> ('w, err + user) state" where
  "repo_set_superuser q uid enabled now =
     mapped ''update superuser state'' (q_set_user_superuser q uid enabled (to_timestamp now))"

definition repo_set_multiple_sessions ::
  "'w dbtx \<Rightarrow> uuid \<Rightarrow> bool \<Rightarrow> time \<Rightarrow> ('w, err + user) state" where
  "repo_set_multiple_sessions q uid enabled now = mapped ''update multiple sessions''
     (q_set_user_multiple_sessions q uid enabled (to_timestamp now))"

definition repo_update_password :: "'w dbtx \<Rightarrow> uuid \<Rightarrow> string \<Rightarrow> time \<Rightarrow> ('w, err + user) state" where
  "repo_update_password q uid hash now =
     mapped ''update user password'' (q_update_user_password q uid hash (to_timestamp now))"

definition repo_update_password_hash ::
  "'w dbtx \<Rightarrow> uuid \<Rightarrow> string \<Rightarrow> time \<Rightarrow> ('w, err + unit) state" where
  "repo_update_password_hash q uid hash now = wrapped ''upgrade password hash failed''
     (q_update_user_password_hash q uid hash (to_timestamp now))"

definition repo_update_last_login :: "'w dbtx \<Rightarrow> uuid \<Rightarrow> time \<Rightarrow> ('w, err + unit) state" where
  "repo_update_last_login q uid now = wrapped ''update last login failed''
     (q_update_user_last_login q uid (to_timestamp now))"

definition repo_lock_superuser_changes :: "'w dbtx \<Rightarrow> ('w, err + unit) state" where
  "repo_lock_superuser_changes q =
     wrapped ''lock superuser changes failed'' (q_lock_superuser_changes q)"

definition repo_count_active_superusers :: "'w dbtx \<Rightarrow> ('w, err + int) state" where
  "repo_count_active_superusers q =
     wrapped ''count active superusers failed'' (q_count_active_superusers q)"

definition repository_of :: "'w dbtx \<Rightarrow> 'w repository" where
  "repository_of q = \<lparr>
     r_create = repo_create q, r_get_by_id = repo_get_by_id q,
     r_get_by_username = repo_get_by_username q, r_list = repo_list q,
     r_update_profile = repo_update_profile q, r_set_status = repo_set_status q,
     r_set_superuser = repo_set_superuser q,
     r_set_multiple_sessions = repo_set_multiple_sessions q,
     r_update_password = repo_update_password q,
     r_update_password_hash = repo_update_password_hash q,
     r_update_last_login = repo_update_last_login q,
     r_lock_superuser_changes = repo_lock_superuser_changes q,
     r_count_active_superusers = repo_count_active_superusers q\<rparr>"

text \<open>The store runs each operation on the pool.\<close>

definition user_store :: "'w database \<Rightarrow> 'w repository" where
  "user_store db = repository_of (db_pool db)"

text \<open>\<open>WithinTransaction\<close>: the deferred rollback runs on every path and its result is dropped.\<close>

definition within_transaction ::
  "'w database \<Rightarrow> ('w repository \<Rightarrow> ('w, err + 'a) state) option \<Rightarrow> ('w, err + 'a) state" where
  "within_transaction db callback =
     (case callback of
        None \<Rightarrow> State_Monad.return (Inl (Plain ''transaction callback must not be nil''))
      | Some fn \<Rightarrow> do {
          b \<leftarrow> db_begin db;
          case b of
            Inl e \<Rightarrow> State_Monad.return (Inl (Wrapped ''begin user transaction failed'' [e]))
          | Inr tx \<Rightarrow> do {
              result \<leftarrow> do {
                r \<leftarrow> fn (repository_of (tx_dbtx tx));
                case r of
                  Inl e \<Rightarrow> State_Monad.return (Inl e)
                | Inr x \<Rightarrow> do {
                    c \<leftarrow> tx_commit tx;
                    case c of
                      Inl e \<Rightarrow> State_Monad.return (Inl (Wrapped ''commit user transaction failed'' [e]))
                    | Inr _ \<Rightarrow> State_Monad.return (Inr x) } };
              _ \<leftarrow> tx_rollback tx;
              State_Monad.return result } })"

definition user_uow :: "'w database \<Rightarrow> 'w unit_of_work" where
  "user_uow db = \<lparr>within_tx = (\<lambda>fn. within_transaction db (Some fn))\<rparr>"

section \<open>The adapter meets the contract\<close>

lemma map_result_infra: "infra_err e \<Longrightarrow> \<exists>e'. map_result op (Inl e) = Inl e' \<and> infra_err e'"
  by (auto simp: map_result_def infra_err_def split: option.splits)

lemma scan_map_res [simp]:
  "scan_user (fst (map_res UserRow a)) = fst a" "scan_users (fst (map_res UserRows b)) = fst b"
  "scan_count (fst (map_res CountRow c)) = fst c"
  "exec_result (fst (map_res (\<lambda>_. NoResult) d)) = (case fst d of Inl e \<Rightarrow> Inl e | Inr _ \<Rightarrow> Inr ())"
  by (auto simp: fst_map_res scan_user_def scan_users_def scan_count_def exec_result_def
      split: sum.splits)

lemma q_user_acts:
  "conn_laws (run_user_stmt P) q tbl rest \<Longrightarrow> (\<And>t. run_user_stmt P st t = map_res UserRow (f t)) \<Longrightarrow>
     acts_as (q_user q st) tbl rest f"
  unfolding q_user_def by (rule acts_as_scan) (auto simp: scan_user_def [of "Inl _"])

lemma q_users_acts:
  "conn_laws (run_user_stmt P) q tbl rest \<Longrightarrow> (\<And>t. run_user_stmt P st t = map_res UserRows (f t)) \<Longrightarrow>
     acts_as (q_users q st) tbl rest f"
  unfolding q_users_def by (rule acts_as_scan) (auto simp: scan_users_def [of "Inl _"])

lemma q_count_acts:
  "conn_laws (run_user_stmt P) q tbl rest \<Longrightarrow> (\<And>t. run_user_stmt P st t = map_res CountRow (f t)) \<Longrightarrow>
     acts_as (q_count q st) tbl rest f"
  unfolding q_count_def by (rule acts_as_scan) (auto simp: scan_count_def [of "Inl _"])

lemma q_exec_acts:
  "conn_laws (run_user_stmt P) q tbl rest \<Longrightarrow> (\<And>t. run_user_stmt P st t = map_res (\<lambda>_. NoResult) (f t)) \<Longrightarrow>
     acts_as (q_exec q st) tbl rest f"
  unfolding q_exec_def
  by (rule acts_as_scan) (auto simp: exec_result_def [of "Inl _"] case_sum_unit)

lemma mapped_acts:
  "acts_as m tbl rest f \<Longrightarrow> acts_as (mapped op m) tbl rest (\<lambda>t. user_result op (f t))"
  unfolding mapped_def user_result_def by (erule acts_as_map) (rule map_result_infra)

lemma repo_list_acts:
  assumes "conn_laws (run_user_stmt P) q tbl rest"
  shows "acts_as (repo_list q f limit off) tbl rest (list_table P f limit off)"
proof -
  have 1: "acts_as (q_users q (ListUsers (lf_username f) (lf_status f) off limit)) tbl rest
      (list_users P (lf_username f) (lf_status f) off limit)"
    by (rule q_users_acts [OF assms]) simp
  have 2: "acts_as (q_count q (CountUsers (lf_username f) (lf_status f))) tbl rest
      (count_users P (lf_username f) (lf_status f))"
    by (rule q_count_acts [OF assms]) simp
  have keep: "snd (list_users P a b c d t) = t" "snd (count_users P a b t) = t" for a b c d t
    by (auto simp: user_read_defs snd_with_text)
  have "wp (repo_list q f limit off) (\<lambda>r w'. rest w' = rest w \<and>
      (list_table P f limit off (tbl w) = (r, tbl w') \<or>
        (\<exists>e. r = Inl e \<and> infra_err e \<and> tbl w' = tbl w))) w" for w
    unfolding repo_list_def query_defs wp_rules
  proof (rule wp_mono [OF 1 [unfolded acts_as_def, rule_format]], goal_cases)
    case (1 r w1)
    note first = 1 keep(1) [of "lf_username f" "lf_status f" off limit "tbl w"]
    show ?case
    proof (cases r)
      case (Inr rows)
      show ?thesis unfolding Inr sum.case
        by (rule wp_mono [OF 2 [unfolded acts_as_def, rule_format]])
           (use first Inr keep(2) [of "lf_username f" "lf_status f" "tbl w1"] in
             \<open>auto simp: wp_rules list_table_def split: sum.splits\<close>)
    qed (use first in \<open>auto simp: wp_rules list_table_def\<close>)
  qed
  then show ?thesis unfolding acts_as_def by (blast intro: wp_mono)
qed

lemmas repo_defs = repo_create_def repo_get_by_id_def repo_get_by_username_def
  repo_update_profile_def repo_set_status_def repo_set_superuser_def
  repo_set_multiple_sessions_def repo_update_password_def repo_update_password_hash_def
  repo_update_last_login_def repo_lock_superuser_changes_def repo_count_active_superusers_def
  query_defs

lemma repository_of_contract:
  "user_repository P (repository_of q) tbl rest (conn_laws (run_user_stmt P) q tbl rest)"
  by unfold_locales
     (simp_all add: repository_of_def repo_defs repo_list_acts mapped_acts wrapped_acts
       q_user_acts q_count_acts q_exec_acts)

interpretation store: user_repository P "user_store db" com "\<lambda>_. ()" "database_laws (run_user_stmt P) db view com"
  for P db view com
proof -
  show "user_repository P (user_store db) com (\<lambda>_. ()) (database_laws (run_user_stmt P) db view com)"
    using repository_of_contract [of P "db_pool db" com "\<lambda>_. ()"]
    by (simp add: user_store_def database_laws_def user_repository_def)
qed

lemma within_transaction_transact:
  "within_transaction db (Some fn) =
     transact ''begin user transaction failed'' ''commit user transaction failed'' db (\<lambda>q. fn (repository_of q))"
  by (simp only: within_transaction_def transact_def option.case)

lemma within_transaction_atomic:
  assumes "database_laws (run_user_stmt P) db view com" "tx_callback P fn R com"
  shows "wp (within_transaction db (Some fn)) (\<lambda>r w'. tx_outcome R (com w) r (com w')) w"
  unfolding within_transaction_transact
proof (rule transact_atomic [OF assms(1), where K = "\<lambda>_. True"])
  fix q v assume "conn_laws (run_user_stmt P) q view com"
  then have "user_repository P (repository_of q) view com True"
    using repository_of_contract [of P q view com] by simp
  then show "wp (fn (repository_of q)) (\<lambda>r w'. R (view v) r (view w') \<and> com w' = com v) v"
    by (rule tx_callbackD [OF assms(2)])
qed simp

interpretation store_tx: user_unit_of_work P "user_uow db" com "database_laws (run_user_stmt P) db view com"
  for P db view com
  by unfold_locales (simp add: user_uow_def within_transaction_atomic)

end
