(* ===== verification/UserModule.thy ===== *)
theory UserModule
  imports UserRepo
begin

text \<open>
  The user module assembled: the service over the PostgreSQL adapter, its properties, and an
  in-memory database that meets the driver's laws, on which the properties are evaluated.
\<close>

section \<open>A database in memory\<close>

text \<open>The world is the committed table and the view of the open transaction.\<close>

type_synonym mem_world = "users \<times> users"

definition mem_pool :: "pg_ops \<Rightarrow> mem_world dbtx" where
  "mem_pool P = \<lparr>db_exec = (\<lambda>st. do {
     w \<leftarrow> State_Monad.get;
     _ \<leftarrow> State_Monad.set (snd (run_user_stmt P st (fst w)), snd w);
     State_Monad.return (fst (run_user_stmt P st (fst w))) })\<rparr>"

definition mem_tx :: "pg_ops \<Rightarrow> (mem_world, user_stmt, user_res) transaction" where
  "mem_tx P = \<lparr>
     tx_dbtx = \<lparr>db_exec = (\<lambda>st. do {
       w \<leftarrow> State_Monad.get;
       _ \<leftarrow> State_Monad.set (fst w, snd (run_user_stmt P st (snd w)));
       State_Monad.return (fst (run_user_stmt P st (snd w))) })\<rparr>,
     tx_commit = do {
       w \<leftarrow> State_Monad.get;
       _ \<leftarrow> State_Monad.set (snd w, snd w);
       State_Monad.return (Inr ()) },
     tx_rollback = State_Monad.return (Inr ())\<rparr>"

definition mem_database :: "pg_ops \<Rightarrow> mem_world database" where
  "mem_database P = \<lparr>
     db_pool = mem_pool P,
     db_begin = do {
       w \<leftarrow> State_Monad.get;
       _ \<leftarrow> State_Monad.set (fst w, fst w);
       State_Monad.return (Inr (mem_tx P)) }\<rparr>"

lemma mem_database_laws [simp]: "database_laws (run_user_stmt P) (mem_database P) snd fst"
  by (simp add: database_laws_def tx_laws_def conn_laws_def acts_as_def mem_database_def
      mem_pool_def mem_tx_def wp_rules)

text \<open>\<open>lower\<close> and \<open>LIKE\<close> on ASCII.\<close>

fun like :: "string \<Rightarrow> string \<Rightarrow> bool" where
  "like s [] = (s = [])"
| "like [] (p # ps) = (p = CHR ''%'' \<and> like [] ps)"
| "like (c # s) (p # ps) =
     (if p = CHR ''%'' then like (c # s) ps \<or> like s (p # ps)
      else (p = CHR ''_'' \<or> lower_byte p = lower_byte c) \<and> like s ps)"

definition ascii_pg :: pg_ops where
  "ascii_pg = \<lparr>pg_lower = map lower_byte, pg_ilike = like\<rparr>"

lemma pg_laws_ascii [simp]: "pg_laws ascii_pg"
  by (simp add: pg_laws_def ascii_pg_def)

text \<open>A password manager with a fixed salt and a derivation that pads the password.\<close>

definition zero_rand :: "'w rand_read" where
  "zero_rand n = State_Monad.return (Inr (replicate n CHR 0x00))"

definition pad_idkey :: argon2_idkey where
  "pad_idkey pw salt t m p n = take (unat n) (pw @ replicate (unat n) CHR 0x00)"

lemma zero_rand_laws [simp]: "rand_laws zero_rand"
  by (simp add: rand_laws_def zero_rand_def wp_rules)

lemma pad_idkey_laws [simp]: "argon2_laws pad_idkey"
  by (auto simp: argon2_laws_def pad_idkey_def min_def)

lemma default_params_valid [simp]: "validate_argon2_params default_argon2_params = Inr ()"
  by (simp add: validate_argon2_bounds default_argon2_params_def max_argon_memory_def
      max_argon_time_def max_argon_threads_def)

definition mem_passwords :: "'w password_manager" where
  "mem_passwords = passwords ascii_unicode zero_rand pad_idkey default_argon2_params"

definition mem_service :: "time \<Rightarrow> uuid \<Rightarrow> mem_world user_service" where
  "mem_service now new_id = \<lparr>
     us_repository = user_store (mem_database ascii_pg),
     us_unit_of_work = user_uow (mem_database ascii_pg),
     us_passwords = mem_passwords, us_dummy_hash = '''', us_clock = (\<lambda>_. now),
     us_ids = State_Monad.return (Inr new_id)\<rparr>"

lemma mem_service_simps [simp]:
  "us_unit_of_work (mem_service now i) = user_uow (mem_database ascii_pg)"
  "us_repository (mem_service now i) = user_store (mem_database ascii_pg)"
  "us_passwords (mem_service now i) = mem_passwords"
  "us_ids (mem_service now i) = State_Monad.return (Inr i)"
  by (simp_all add: mem_service_def)

text \<open>Two rows for the examples: an administrator and an ordinary user.\<close>

definition sample_row :: "uuid \<Rightarrow> string \<Rightarrow> bool \<Rightarrow> db_user" where
  "sample_row i name super = \<lparr>
     c_id = i, c_username = name, c_password_hash = ''h'', c_display_name = name, c_email = None,
     c_avatar_url = None, c_status = ''active'', c_is_superuser = super,
     c_allow_multiple_sessions = True, c_session_version = 1, c_password_changed_at = Some 1,
     c_last_login_at = None, c_created_at = Some 1, c_updated_at = Some 1, c_archived_at = None\<rparr>"

definition sample_users :: users where
  "sample_users = [sample_row 1 ''root'' True, sample_row 2 ''alice'' False]"

lemma sample_users_ok [simp]: "users_ok ascii_pg sample_users"
  by (simp add: users_ok_def sample_users_def sample_row_def row_ok_def assign_columns_def
      assign_varchar_def assign_opt_varchar_def check_user_def not_null_def compatible_def
      same_email_def ascii_pg_def lower_byte_def runes_ascii name_char_def name_tail_char_def)

lemma length_sample_users [simp]: "length sample_users = 2"
  by (simp add: sample_users_def)

lemma sample_superusers [simp]: "superusers sample_users = 1"
  by (simp add: superusers_def sample_users_def sample_row_def active_superuser_def)

lemma find_sample [simp]:
  "find_user 1 sample_users = Some (sample_row 1 ''root'' True)"
  "find_user 2 sample_users = Some (sample_row 2 ''alice'' False)"
  by (simp_all add: find_user_def sample_users_def sample_row_def)

section \<open>Invariants over transactions\<close>

lemma tx_outcome_keeps:
  assumes "tx_outcome R t r t'" "I t" "\<And>x t'. R t (Inr x) t' \<Longrightarrow> I t'"
  shows "I t'"
  using assms by (auto simp: tx_outcome_def split: sum.splits)

definition superuser_inv :: "pg_ops \<Rightarrow> users \<Rightarrow> bool" where
  "superuser_inv P t \<longleftrightarrow> users_ok P t \<and> 1 \<le> superusers t"

lemma protect_rel_keeps:
  assumes "superuser_inv P t" "protect_rel uid b same chg t (Inr u) t'"
    "\<And>now row. chg now t = (Inr u, t') \<Longrightarrow> find_user uid t = Some row \<Longrightarrow>
       users_ok P t' \<and> superusers t \<le> superusers t' + of_bool (b \<and> active_superuser row)"
  shows "superuser_inv P t'"
proof -
  obtain row where row: "find_user uid t = Some row"
      "b \<and> active_superuser row \<longrightarrow> 1 < superusers t"
    and upd: "if same (to_user row) then u = to_user row \<and> t' = t else \<exists>now. chg now t = (Inr u, t')"
    using assms(2) by (auto simp: protect_rel_def split: option.splits)
  show ?thesis
  proof (cases "same (to_user row)")
    case False
    then obtain now where "chg now t = (Inr u, t')" using upd by auto
    then have "users_ok P t' \<and> superusers t \<le> superusers t' + of_bool (b \<and> active_superuser row)"
      using assms(3) row(1) by blast
    then show ?thesis using assms(1) row(2)
      by (cases "b \<and> active_superuser row") (auto simp: superuser_inv_def)
  qed (use upd assms(1) in simp)
qed

lemma status_rel_keeps:
  assumes "superuser_inv P t" "status_valid st" "status_rel P uid st t (Inr u) t'"
  shows "superuser_inv P t'"
proof (rule protect_rel_keeps [OF assms(1,3)])
  fix now row
  assume chg: "status_change P uid st now t = (Inr u, t')" and row: "find_user uid t = Some row"
  have ok: "users_ok P t" using assms(1) by (simp add: superuser_inv_def)
  from chg show "users_ok P t' \<and> superusers t \<le> superusers t' + of_bool (st \<noteq> ''active'' \<and> active_superuser row)"
    unfolding status_change_def
    by (rule set_status_effect [OF ok assms(2)])
       (use row in \<open>auto simp: active_superuser_def of_bool_def split: if_splits\<close>)
qed

lemma superuser_rel_keeps:
  assumes "superuser_inv P t" "superuser_rel P uid b t (Inr u) t'"
  shows "superuser_inv P t'"
proof (rule protect_rel_keeps [OF assms])
  fix now row
  assume chg: "superuser_change P uid b now t = (Inr u, t')" and row: "find_user uid t = Some row"
  have ok: "users_ok P t" using assms(1) by (simp add: superuser_inv_def)
  from chg show "users_ok P t' \<and> superusers t \<le> superusers t' + of_bool (\<not> b \<and> active_superuser row)"
    unfolding superuser_change_def
    by (rule set_superuser_effect [OF ok])
       (use row in \<open>auto simp: active_superuser_def of_bool_def split: if_splits\<close>)
qed

lemma set_status_preserves:
  assumes "database_laws (run_user_stmt P) db view com" "us_unit_of_work s = user_uow db"
  shows "preserves (service_set_status s uid st) (\<lambda>w. superuser_inv P (com w))"
proof (cases "status_valid st")
  case True
  have "wp (service_set_status s uid st) (\<lambda>_ w'. superuser_inv P (com w')) w"
    if "superuser_inv P (com w)" for w
    by (rule wp_mono [OF store_tx.set_status_tx [OF assms True]])
       (erule tx_outcome_keeps, rule that, erule status_rel_keeps [OF that True])
  then show ?thesis by (simp add: preserves_def)
qed (simp add: service_set_status_def preserves_return)

lemma set_superuser_preserves:
  assumes "database_laws (run_user_stmt P) db view com" "us_unit_of_work s = user_uow db"
  shows "preserves (service_set_superuser s uid b) (\<lambda>w. superuser_inv P (com w))"
proof -
  have "wp (service_set_superuser s uid b) (\<lambda>_ w'. superuser_inv P (com w')) w"
    if "superuser_inv P (com w)" for w
    by (rule wp_mono [OF store_tx.set_superuser_tx [OF assms]])
       (erule tx_outcome_keeps, rule that, erule superuser_rel_keeps [OF that])
  then show ?thesis by (simp add: preserves_def)
qed

section \<open>Passwords and rows\<close>

lemma passwords_hash:
  assumes "argon2_laws idkey" "rand_laws rand" "validate_argon2_params p = Inr ()"
    "\<And>n. leaves (rand n) f"
  shows "wp (pm_hash (passwords U rand idkey p) pwd) (\<lambda>r w'. f w' = f w \<and>
    on_ok (\<lambda>h. validate_password U pwd = Inr () \<and> verify_password idkey pwd h = Inr True \<and>
      \<not> needs_rehash p h) r) w"
proof -
  have 1: "wp (pm_hash (passwords U rand idkey p) pwd) (\<lambda>_ w'. f w' = f w) w"
    by (cases "validate_password U pwd")
       (auto simp: passwords_def hash_password_def wp_rules split: sum.splits
         intro!: wp_mono [OF leavesD [OF assms(4)]])
  have "wp (pm_hash (passwords U rand idkey p) pwd) (\<lambda>r w'. on_ok (\<lambda>h. validate_password U pwd = Inr () \<and>
      verify_password idkey pwd h = Inr True \<and> \<not> needs_rehash p h) r) w"
  proof (rule wpI)
    fix r w'
    assume run: "run_state (pm_hash (passwords U rand idkey p) pwd) w = (r, w')"
    show "on_ok (\<lambda>h. validate_password U pwd = Inr () \<and>
        verify_password idkey pwd h = Inr True \<and> \<not> needs_rehash p h) r"
    proof (cases r)
      case (Inr h)
      from pw.hash_ok [OF _ run [unfolded Inr], of w] assms(1-3) show ?thesis
        by (simp add: Inr passwords_def)
    qed simp
  qed
  from wp_conj [OF 1 this] show ?thesis .
qed

definition with_password :: "string \<Rightarrow> time \<Rightarrow> db_user \<Rightarrow> db_user" where
  "with_password h now r = r\<lparr>c_password_hash := h, c_password_changed_at := Some now,
     c_updated_at := Some now\<rparr>"

lemma update_password_effect:
  assumes "users_ok P t"
    "user_result op (update_user_password P uid h (to_timestamp now) t) = (Inr u, t')"
  obtains r0 where "find_user uid t = Some r0" "u = to_user (bumped (with_password h now r0))"
    "find_user uid t' = Some (bumped (with_password h now r0))"
proof -
  obtain r where r: "update_user_password P uid h (to_timestamp now) t = (Inr r, t')" "u = to_user r"
    using user_result_InrD [OF assms(2)] by blast
  have "one_row (update_user P uid (\<lambda>r. bump_version (with_password h now r)) t) = (Inr r, t')"
    using with_text_InrD [OF r(1) [unfolded update_user_password_def]]
    by (simp only: with_password_def to_timestamp_def)
  then obtain r0 where "find_user uid t = Some r0" "r = bumped (with_password h now r0)"
      "find_user uid t' = Some r"
    by (rule bump_update_effect [OF assms(1)])
       (auto simp: with_password_def assign_columns_self dest: row_ok_columns)
  then show ?thesis using that r(2) by simp
qed

lemma username_result:
  "user_result op (get_user_by_username P name t) =
     ((if \<not> text_ok name then Inl (Wrapped (op @ '' failed'') [PgError ''22021'' ''''])
       else case find (\<lambda>r. pg_lower P (c_username r) = pg_lower P name) t of
         None \<Rightarrow> Inl (Sentinel UserNotFound) | Some r \<Rightarrow> Inr (to_user r)), t)"
  by (auto simp: user_result_def get_user_by_username_def with_text_def text_params_def one_row_def
      map_result_def split: option.splits)

section \<open>The operations, specified\<close>

lemma set_status_spec:
  assumes "database_laws (run_user_stmt P) db view com" "us_unit_of_work s = user_uow db" "users_ok P (com w)"
  shows "wp (service_set_status s uid st) (\<lambda>r w'. case r of
      Inr u \<Rightarrow> (\<exists>row. find_user uid (com w) = Some row \<and>
        (if c_status row = st then u = to_user row \<and> com w' = com w
         else \<exists>now. u = to_user (bumped (with_status st now row)) \<and>
           find_user uid (com w') = Some (bumped (with_status st now row))))
    | Inl e \<Rightarrow> infra_err e \<or> com w' = com w) w"
proof (cases "status_valid st")
  case True
  show ?thesis
  proof (rule wp_mono [OF store_tx.set_status_tx [OF assms(1,2) True]], goal_cases)
    case (1 r w')
    show ?case
    proof (cases r)
      case (Inr u)
      then obtain row where row: "find_user uid (com w) = Some row" and
        step: "if c_status row = st then u = to_user row \<and> com w' = com w
          else \<exists>now. status_change P uid st now (com w) = (Inr u, com w')"
        using 1 by (auto simp: tx_outcome_def protect_rel_def split: option.splits)
      have "\<exists>now. u = to_user (bumped (with_status st now row)) \<and>
          find_user uid (com w') = Some (bumped (with_status st now row))"
        if neq: "c_status row \<noteq> st"
      proof -
        obtain now where "status_change P uid st now (com w) = (Inr u, com w')"
          using step neq by auto
        then show ?thesis unfolding status_change_def
          by (rule set_status_effect [OF assms(3) True]) (use row in auto)
      qed
      then show ?thesis using Inr row step by auto
    qed (use 1 in \<open>auto simp: tx_outcome_def\<close>)
  qed
qed (simp add: service_set_status_def wp_rules)

lemma change_password_spec:
  assumes "database_laws (run_user_stmt P) db view com" "us_repository s = user_store db" "users_ok P (com w)"
    "us_passwords s = passwords U rand idkey p" "argon2_laws idkey" "rand_laws rand"
    "validate_argon2_params p = Inr ()" "\<And>n. leaves (rand n) com"
  shows "wp (change_password s uid old new) (\<lambda>r w'. case r of
      Inr u \<Rightarrow> (\<exists>row. find_user uid (com w) = Some row \<and>
        verify_password idkey old (c_password_hash row) = Inr True \<and>
        validate_password U new = Inr () \<and>
        verify_password idkey new (u_password_hash u) = Inr True \<and>
        u_session_version u = c_session_version row + 1 \<and>
        map_option to_user (find_user uid (com w')) = Some u)
    | Inl e \<Rightarrow> infra_err e \<or> com w' = com w) w"
proof -
  note get = store.get_by_id [OF assms(1), of uid]
  define post where "post = (\<lambda>(row :: db_user) r w'. case r of
      Inr u \<Rightarrow> validate_password U new = Inr () \<and>
        verify_password idkey new (u_password_hash u) = Inr True \<and>
        u_session_version u = c_session_version row + 1 \<and>
        map_option to_user (find_user uid (com w')) = Some u
    | Inl e \<Rightarrow> infra_err e \<or> com w' = com w)"
  have kept: "post row (Inl e) v" if "com v = com w" for row e v
    using that by (simp add: post_def)
  have upd: "wp (r_update_password (user_store db) uid h now) (post row) v"
    if "com v = com w" "find_user uid (com w) = Some row" "validate_password U new = Inr ()"
      "verify_password idkey new h = Inr True" for h now row v
  proof (rule wp_acts_cases [OF store.update_password [OF assms(1), of uid h now]], goal_cases)
    case (1 u w')
    from 1(2) [unfolded that(1)] show ?case
      by (rule update_password_effect [OF assms(3)])
         (use that in \<open>simp add: post_def bumped_def with_password_def\<close>)
  next
    case (2 e w')
    from failing_keepsD [OF _ 2(2)] have "com w' = com v" by simp
    then show ?case by (simp add: post_def that(1))
  qed (simp add: post_def)
  have reset: "wp (reset_password s uid new) (post row) v"
    if "com v = com w" "find_user uid (com w) = Some row" for v row
  proof (cases "validate_password U new")
    case (Inr x)
    have valid: "pm_validate (passwords U rand idkey p) new = Inr x"
      using Inr by (simp add: passwords_def)
    show ?thesis
      unfolding reset_password_def assms(2,4) valid sum.case wp_rules
      by (rule wp_mono [OF passwords_hash [where f = com, OF assms(5-8)]])
         (use that in \<open>auto simp: wp_rules kept intro!: upd [OF _ that(2)] split: sum.splits\<close>)
  qed (use that in \<open>simp add: reset_password_def assms(4) wp_rules passwords_def post_def\<close>)
  show ?thesis
    unfolding change_password_def wp_bind assms(2)
  proof (rule wp_acts [OF get], goal_cases)
    case (1 w1)
    then show ?case
      using reset [of w1]
      by (cases "find_user uid (com w)")
         (auto simp: get_user_result wp_rules assms(4) passwords_def post_def elim!: wp_mono
           split: sum.splits)
  qed (auto simp: wp_rules)
qed

lemma verify_credentials_spec:
  assumes "database_laws (run_user_stmt P) db view com" "us_repository s = user_store db"
    "us_passwords s = passwords U rand idkey p" "argon2_laws idkey" "rand_laws rand"
    "validate_argon2_params p = Inr ()" "\<And>n. leaves (rand n) com"
  shows "wp (verify_credentials U s name password) (\<lambda>r _. on_ok (\<lambda>u. \<exists>row \<in> set (com w).
      pg_lower P (c_username row) = pg_lower P (to_lower U (trim_space U name)) \<and>
      verify_password idkey password (c_password_hash row) = Inr True \<and>
      u_id u = c_id row \<and> u_status u = c_status row \<and>
      u_session_version u = c_session_version row \<and>
      u_allow_multiple_sessions u = c_allow_multiple_sessions row \<and>
      verify_password idkey password (u_password_hash u) = Inr True \<and>
      \<not> needs_rehash p (u_password_hash u) \<and>
      (\<not> needs_rehash p (c_password_hash row) \<longrightarrow> u = to_user row)) r) w"
proof -
  have upd: "wp m (\<lambda>r v. case r of Inl e \<Rightarrow> on_ok Q (Inl (g e)) | Inr _ \<Rightarrow> on_ok Q (Inr x)) v"
    if "Q x" for m :: "('a, err + unit) state" and v and x :: user and Q and g :: "err \<Rightarrow> err"
    using that by (auto intro!: wp_mono [OF wp_True] split: sum.splits)
  show ?thesis
    unfolding verify_credentials_def service_get_by_username_def assms(2) wp_bind
  proof (rule wp_acts_cases [OF store.get_by_username [OF assms(1)]], goal_cases)
    case (1 u w1)
    then obtain row where row: "find (\<lambda>r. pg_lower P (c_username r) = pg_lower P (to_lower U (trim_space U name))) (com w) = Some row"
      and u: "u = to_user row"
      by (auto simp: username_result split: option.splits if_splits)
    then have mem: "row \<in> set (com w)"
        "pg_lower P (c_username row) = pg_lower P (to_lower U (trim_space U name))"
      by (auto simp: find_Some_iff)
    have rehash: "wp (pm_hash (passwords U rand idkey p) password) (\<lambda>h v. f h v) w1"
      if "\<And>h v. on_ok (\<lambda>h. verify_password idkey password h = Inr True \<and> \<not> needs_rehash p h) h \<Longrightarrow> f h v"
      for f
      by (rule wp_mono [OF passwords_hash [where f = com, OF assms(4-7)]]) (auto intro!: that simp: on_ok_def split: sum.splits)
    show ?case
    proof (cases "verify_password idkey password (c_password_hash row)")
      case (Inr matched)
      show ?thesis
      proof (cases "matched \<and> needs_rehash p (c_password_hash row)")
        case True
        then show ?thesis using Inr mem
          unfolding sum.case assms(3) wp_rules
          by (auto simp: passwords_def wp_rules u intro!: upd rehash [unfolded passwords_def, simplified]
              split: sum.splits)
      qed (use Inr mem in \<open>auto simp: assms(3) passwords_def wp_rules u intro!: bexI [of _ row]\<close>)
    qed (simp add: assms(3) passwords_def wp_rules u)
  qed (auto simp: wp_rules intro: wp_mono [OF wp_True])
qed

section \<open>Properties\<close>

text \<open>C2: whatever \<open>SetStatus\<close>, \<open>SetSuperuser\<close> and \<open>Archive\<close> return, a committed table that meets its
  constraints and has an active superuser still does, also when a commit fails half way.\<close>

theorem admin_changes_keep_superuser:
  assumes "database_laws (run_user_stmt P) db view com" "us_unit_of_work s = user_uow db"
  shows "preserves (service_set_status s uid st) (\<lambda>w. users_ok P (com w) \<and> 1 \<le> superusers (com w)) \<and>
    preserves (service_set_superuser s uid b) (\<lambda>w. users_ok P (com w) \<and> 1 \<le> superusers (com w)) \<and>
    preserves (service_archive s uid) (\<lambda>w. users_ok P (com w) \<and> 1 \<le> superusers (com w))"
  using set_status_preserves [OF assms] set_superuser_preserves [OF assms]
  by (simp add: service_archive_def superuser_inv_def)

lemma admin_changes_keep_superuser_witness:
  "1 \<le> superusers (fst (snd (run_state (service_archive (mem_service 9 3) 1) (sample_users, []))))"
  using admin_changes_keep_superuser [OF mem_database_laws, of "mem_service 9 3"]
  by (auto simp: preserves_def wp_fst_snd)

text \<open>The only active superuser cannot be disabled or archived: the call reports
  \<open>ErrLastSuperuser\<close> (unless the database itself fails) and the table is untouched.\<close>

theorem last_superuser_refused:
  assumes "database_laws (run_user_stmt P) db view com" "us_unit_of_work s = user_uow db"
    "find_user uid (com w) = Some row" "active_superuser row" "superusers (com w) = 1"
    "status_valid st" "st \<noteq> ''active''"
  shows "wp (service_set_status s uid st) (\<lambda>r w'. com w' = com w \<and>
    (r = Inl (Sentinel LastSuperuser) \<or> (\<exists>e. r = Inl e \<and> infra_err e))) w"
  by (rule wp_mono [OF store_tx.set_status_tx [OF assms(1,2,6)]])
     (use assms(3-5,7) in \<open>auto simp: tx_outcome_def protect_rel_def split: sum.splits\<close>)

lemma last_superuser_refused_witness:
  "wp (service_set_status (mem_service 9 3) 1 ''disabled'')
     (\<lambda>r w'. fst w' = sample_users \<and> (r = Inl (Sentinel LastSuperuser) \<or> (\<exists>e. r = Inl e \<and> infra_err e)))
     (sample_users, [])"
proof -
  have "find_user 1 (fst (sample_users, [])) = Some (sample_row 1 ''root'' True)"
    by (simp add: find_user_def sample_users_def sample_row_def)
  from last_superuser_refused [OF mem_database_laws _ this, of "mem_service 9 3"]
  show ?thesis
    by (simp add: active_superuser_def sample_row_def status_valid_cases)
qed

text \<open>A successful \<open>SetStatus\<close> returns the row it changed: nothing when the status was already
  the one asked for, else exactly the status, the archive time, the update time and a session
  version one higher; an error other than a database failure changes nothing.\<close>

theorem set_status_result:
  assumes "database_laws (run_user_stmt P) db view com" "us_unit_of_work s = user_uow db" "users_ok P (com w)"
  shows "wp (service_set_status s uid st) (\<lambda>r w'. case r of
      Inr u \<Rightarrow> (\<exists>row. find_user uid (com w) = Some row \<and>
        (if c_status row = st then u = to_user row \<and> com w' = com w
         else \<exists>now. u = to_user (bumped (with_status st now row)) \<and>
           find_user uid (com w') = Some (bumped (with_status st now row))))
    | Inl e \<Rightarrow> infra_err e \<or> com w' = com w) w"
  by (rule set_status_spec [OF assms])

lemma set_status_result_witness:
  "case fst (run_state (service_set_status (mem_service 9 3) 2 ''disabled'') (sample_users, [])) of
     Inr u \<Rightarrow> (\<exists>row. find_user 2 sample_users = Some row) | Inl e \<Rightarrow> True"
  using set_status_result [OF mem_database_laws, of "mem_service 9 3" ascii_pg "(sample_users, [])" 2 "''disabled''"]
  by (auto simp: wp_fst_snd split: sum.splits)

text \<open>C18: \<open>ChangePassword\<close> succeeds only when the old password matches the stored digest and the
  new one passes the policy; the stored digest then verifies the new password and the session
  version is one higher.  A refusal changes nothing.\<close>

theorem change_password_correct:
  assumes "database_laws (run_user_stmt P) db view com" "us_repository s = user_store db" "users_ok P (com w)"
    "us_passwords s = passwords U rand idkey p" "argon2_laws idkey" "rand_laws rand"
    "validate_argon2_params p = Inr ()" "\<And>n. leaves (rand n) com"
  shows "wp (change_password s uid old new) (\<lambda>r w'. case r of
      Inr u \<Rightarrow> (\<exists>row. find_user uid (com w) = Some row \<and>
        verify_password idkey old (c_password_hash row) = Inr True \<and>
        validate_password U new = Inr () \<and>
        verify_password idkey new (u_password_hash u) = Inr True \<and>
        u_session_version u = c_session_version row + 1 \<and>
        map_option to_user (find_user uid (com w')) = Some u)
    | Inl e \<Rightarrow> infra_err e \<or> com w' = com w) w"
  by (rule change_password_spec [OF assms])

lemma change_password_correct_witness:
  "case fst (run_state (change_password (mem_service 9 3) 2 ''old'' ''newSecret9'') (sample_users, [])) of
     Inr u \<Rightarrow> u_session_version u = 2 | Inl e \<Rightarrow> True"
  using change_password_correct [OF mem_database_laws, of "mem_service 9 3" ascii_pg
      "(sample_users, [])" ascii_unicode zero_rand pad_idkey default_argon2_params 2 "''old''" "''newSecret9''"]
  by (auto simp: mem_passwords_def zero_rand_def wp_fst_snd sample_row_def split: sum.splits)

text \<open>\<open>VerifyCredentials\<close> accepts a name and a password only when the table has a row with that
  name, up to case and surrounding space, whose stored digest verifies the password; the user
  returned is that row's, with a fresh digest of the same password when the stored one was made
  with other parameters.\<close>

theorem verify_credentials_sound:
  assumes "database_laws (run_user_stmt P) db view com" "us_repository s = user_store db"
    "us_passwords s = passwords U rand idkey p" "argon2_laws idkey" "rand_laws rand"
    "validate_argon2_params p = Inr ()" "\<And>n. leaves (rand n) com"
  shows "wp (verify_credentials U s name password) (\<lambda>r _. on_ok (\<lambda>u. \<exists>row \<in> set (com w).
      pg_lower P (c_username row) = pg_lower P (to_lower U (trim_space U name)) \<and>
      verify_password idkey password (c_password_hash row) = Inr True \<and>
      u_id u = c_id row \<and> u_status u = c_status row \<and>
      u_session_version u = c_session_version row \<and>
      u_allow_multiple_sessions u = c_allow_multiple_sessions row \<and>
      verify_password idkey password (u_password_hash u) = Inr True \<and>
      \<not> needs_rehash p (u_password_hash u) \<and>
      (\<not> needs_rehash p (c_password_hash row) \<longrightarrow> u = to_user row)) r) w"
  by (rule verify_credentials_spec [OF assms])

lemma verify_credentials_sound_witness:
  "case fst (run_state (verify_credentials ascii_unicode (mem_service 9 3) '' Alice '' ''pw'') (sample_users, [])) of
     Inr u \<Rightarrow> u_id u \<in> {1, 2} | Inl e \<Rightarrow> True"
  using verify_credentials_sound [OF mem_database_laws, of "mem_service 9 3" ascii_pg ascii_unicode zero_rand
      pad_idkey default_argon2_params, where w = "(sample_users, [])" and name = "'' Alice ''"
        and password = "''pw''"]
  by (auto simp: mem_passwords_def zero_rand_def wp_fst_snd sample_users_def sample_row_def
      split: sum.splits)

text \<open>Every statement keeps the column types, CHECK constraints and unique indexes of the table, and
  one that fails leaves the table as it was.\<close>

theorem statements_keep_constraints:
  "users_ok P t \<Longrightarrow> users_ok P (snd (run_user_stmt P st t)) \<and>
     (\<forall>e. fst (run_user_stmt P st t) = Inl e \<longrightarrow> snd (run_user_stmt P st t) = t)"
  using run_user_stmt_ok [of P t st] run_user_stmt_failing [of P st t]
  by (auto simp: failing_keeps_def)

lemma statements_keep_constraints_witness:
  "users_ok ascii_pg (snd (run_user_stmt ascii_pg (SetUserStatus 2 ''archived'' (Some 5)) sample_users))"
  using statements_keep_constraints [OF sample_users_ok] by blast

lemma list_table_Inr:
  assumes "list_table P f limit off t = (Inr (items, cnt), t')" "0 \<le> sint limit"
  shows "0 \<le> sint off \<and> t' = t \<and> cnt = int (length (filter (user_matches P (lf_username f) (lf_status f)) t)) \<and>
    items = map to_user (take (nat (sint limit)) (drop (nat (sint off))
      (newest_first (filter (user_matches P (lf_username f) (lf_status f)) t))))"
  using assms
  by (auto simp: list_table_def list_users_def count_users_def with_text_def text_params_def
      split: if_splits)

lemma snd_list_table [simp]: "snd (list_table P f limit off t) = t"
  by (auto simp: list_table_def split: sum.splits)

lemma list_table_same: "list_table P f limit off t = (x, t') \<Longrightarrow> t' = t"
  using snd_list_table [of P f limit off t] by simp

text \<open>A page holds the matching users newest first, cut at the requested position as long as that
  position fits in 32 bits; its size is between 1 and 100 whatever was asked for, and the total
  counts all matches.\<close>

theorem list_page:
  assumes "database_laws (run_user_stmt P) db view com" "us_repository s = user_store db"
  shows "wp (service_list U s f) (\<lambda>r w'. com w' = com w \<and> on_ok (\<lambda>pg.
      let matching = filter (user_matches P (trim_space U (lf_username f)) (lf_status f)) (com w);
          first = (sint (pg_page pg) - 1) * sint (pg_size pg)
      in 1 \<le> sint (pg_page pg) \<and> 1 \<le> sint (pg_size pg) \<and> sint (pg_size pg) \<le> 100 \<and>
         length (pg_items pg) \<le> nat (sint (pg_size pg)) \<and> pg_total pg = int (length matching) \<and>
         (first < 2 ^ 31 \<longrightarrow> pg_items pg =
            map to_user (take (nat (sint (pg_size pg))) (drop (nat first) (newest_first matching))))) r) w"
proof -
  define ps where "ps = normalize_params \<lparr>p_page = lf_page f, p_size = lf_size f\<rparr>"
  have ps: "1 \<le> sint (p_page ps)" "1 \<le> sint (p_size ps)" "sint (p_size ps) \<le> 100"
    "0 \<le> sint (p_size ps)"
    using normalize_page normalize_size order_trans [OF zero_le_one]
    by (auto simp: ps_def)
  have idem: "normalize_params ps = ps" by (simp add: ps_def normalize_idem)
  show ?thesis
    unfolding service_list_def Let_def assms(2) ps_def [symmetric] wp_rules
    by (auto simp: wp_rules ps Let_def idem offset_exact
        dest!: list_table_Inr dest: list_table_same intro!: wp_acts_cases [OF store.list [OF assms(1)]])
qed

lemma list_page_witness:
  "case fst (run_state (service_list ascii_unicode (mem_service 9 3)
      \<lparr>lf_username = '''', lf_status = '''', lf_page = 1, lf_size = 500\<rparr>) (sample_users, [])) of
     Inr pg \<Rightarrow> pg_total pg = 2 | Inl e \<Rightarrow> True"
  using list_page [OF mem_database_laws, of "mem_service 9 3" ascii_pg ascii_unicode
      "\<lparr>lf_username = '''', lf_status = '''', lf_page = 1, lf_size = 500\<rparr>" "(sample_users, [])"]
  by (auto simp: wp_fst_snd sample_users_def user_matches_def Let_def split: sum.splits)

text \<open>C24: the position of a far page is computed in 32 bits: page 2147483647 of size 100 asks for
  offset -200, which the server rejects, so the call always fails.\<close>

theorem list_far_page_fails:
  assumes "database_laws (run_user_stmt P) db view com" "us_repository s = user_store db"
    "lf_page f = 2147483647" "lf_size f = 100"
  shows "sint (offset \<lparr>p_page = lf_page f, p_size = lf_size f\<rparr>) = - 200 \<and>
    wp (service_list U s f) (\<lambda>r _. \<exists>e. r = Inl e) w"
proof -
  have off: "offset (normalize_params \<lparr>p_page = lf_page f, p_size = lf_size f\<rparr>) = - 200"
    "offset \<lparr>p_page = lf_page f, p_size = lf_size f\<rparr> = - 200"
    by (simp_all add: offset_def normalize_idem normalize_params_def assms(3,4) max_page_size_def)
  have size: "p_size (normalize_params \<lparr>p_page = lf_page f, p_size = lf_size f\<rparr>) = 100"
    by (simp add: normalize_params_def assms(3,4) max_page_size_def)
  show ?thesis
    unfolding service_list_def Let_def assms(2) off size wp_rules
    by (auto simp: wp_rules intro!: wp_acts_cases [OF store.list [OF assms(1)]] dest!: list_table_Inr)
qed

lemma list_far_page_fails_witness:
  "\<exists>e. fst (run_state (service_list ascii_unicode (mem_service 9 3)
      \<lparr>lf_username = '''', lf_status = '''', lf_page = 2147483647, lf_size = 100\<rparr>) (sample_users, [])) = Inl e"
  using list_far_page_fails [OF mem_database_laws, of "mem_service 9 3" ascii_pg
      "\<lparr>lf_username = '''', lf_status = '''', lf_page = 2147483647, lf_size = 100\<rparr>" ascii_unicode "(sample_users, [])"]
  by (auto simp: wp_fst_snd)

lemma create_effect:
  assumes "users_ok P t" "user_result op (create_user P (create_params u) t) = (Inr x, t')"
    "u_status u = ''active''"
  obtains row where "t' = t @ [row]" "x = to_user row" "users_ok P t'"
    "c_password_hash row = u_password_hash u" "c_status row = ''active''"
    "c_session_version row = u_session_version u" "c_is_superuser row = u_is_superuser u"
    "c_id row = u_id u" "name_format True (c_username row)"
proof -
  obtain row where create: "create_user P (create_params u) t = (Inr row, t')" "x = to_user row"
    using user_result_InrD [OF assms(2)] by blast
  let ?r0 = "\<lparr>c_id = u_id u, c_username = u_username u, c_password_hash = u_password_hash u,
      c_display_name = u_display_name u, c_email = to_text (u_email u),
      c_avatar_url = to_text (u_avatar_url u), c_status = u_status u,
      c_is_superuser = u_is_superuser u, c_allow_multiple_sessions = u_allow_multiple_sessions u,
      c_session_version = u_session_version u,
      c_password_changed_at = to_timestamp (u_password_changed_at u), c_last_login_at = None,
      c_created_at = to_timestamp (u_created_at u), c_updated_at = to_timestamp (u_updated_at u),
      c_archived_at = None\<rparr>"
  have store: "store_user P t ?r0 = Inr row" and t': "t' = t @ [row]"
    using with_text_InrD [OF create(1) [unfolded create_user_def]]
    by (auto simp: create_params_def split: sum.splits)
  note row = store_user_InrD [OF store]
  have "assign_varchar 16 ''active'' = Inr ''active''"
    by (rule assign_varchar_status) (simp add: status_valid_cases)
  then have "c_status row = ''active''"
    using row assms(3) by (auto simp: assign_columns_Inr)
  moreover have "name_format True (c_username row)"
    using row by (auto simp: row_ok_def check_user_def split: if_splits)
  moreover have "users_ok P t'"
    using create_user_ok [OF assms(1), of "create_params u"] create(1) by simp
  ultimately show ?thesis
    using that t' create(2) row assign_columns_keeps [of ?r0 row] by simp
qed

lemma service_create_spec:
  assumes "database_laws (run_user_stmt P) db view com" "us_repository s = user_store db" "users_ok P (com w)"
    "us_passwords s = passwords U rand idkey p" "argon2_laws idkey" "rand_laws rand"
    "validate_argon2_params p = Inr ()" "\<And>n. leaves (rand n) com" "leaves (us_ids s) com"
  shows "wp (service_create U Ps s input) (\<lambda>r w'. case r of
      Inr u \<Rightarrow> (\<exists>row. com w' = com w @ [row] \<and> u = to_user row \<and> users_ok P (com w') \<and>
        c_status row = ''active'' \<and> c_session_version row = 1 \<and>
        c_is_superuser row = ci_is_superuser input \<and> name_format True (c_username row) \<and>
        validate_password U (ci_password input) = Inr () \<and>
        verify_password idkey (ci_password input) (c_password_hash row) = Inr True)
    | Inl e \<Rightarrow> infra_err e \<or> com w' = com w) w"
proof (cases "normalize_create_input U Ps input")
  case (Inr i)
  note same = normalize_create_normal [OF Inr]
  define post where "post = (\<lambda>r w'. case r of
      Inr u \<Rightarrow> (\<exists>row. com w' = com w @ [row] \<and> u = to_user row \<and> users_ok P (com w') \<and>
        c_status row = ''active'' \<and> c_session_version row = 1 \<and>
        c_is_superuser row = ci_is_superuser input \<and> name_format True (c_username row) \<and>
        validate_password U (ci_password input) = Inr () \<and>
        verify_password idkey (ci_password input) (c_password_hash row) = Inr True)
    | Inl e \<Rightarrow> infra_err e \<or> com w' = com w)"
  have kept: "post (Inl e) v" if "com v = com w" for e v
    using that by (simp add: post_def)
  have ins: "wp (r_create (user_store db) u) post v"
    if "com v = com w" "u_status u = ''active''" "u_session_version u = 1"
      "u_is_superuser u = ci_is_superuser input" "validate_password U (ci_password input) = Inr ()"
      "verify_password idkey (ci_password input) (u_password_hash u) = Inr True" for u v
  proof (rule wp_acts_cases [OF store.create [OF assms(1)]], goal_cases)
    case (1 x w')
    from 1(2) [unfolded that(1)] show ?case
      by (rule create_effect [OF assms(3) _ that(2)]) (use that in \<open>auto simp: post_def\<close>)
  next
    case (2 e w')
    from failing_keepsD [OF _ 2(2)] have "com w' = com v" by simp
    then show ?case by (simp add: post_def that(1))
  qed (simp add: post_def)
  have "wp (service_create U Ps s input) post w"
  proof (cases "pm_validate (passwords U rand idkey p) (ci_password i)")
    case (Inr x)
    have ids: "wp (us_ids s) (\<lambda>r w'. case r of
          Inl e \<Rightarrow> post (Inl (Wrapped ''generate user id'' [e])) w'
        | Inr j \<Rightarrow> wp (r_create (user_store db) \<lparr>u_id = j, u_username = ci_username i, u_password_hash = h,
            u_display_name = ci_display_name i, u_email = optional_string (ci_email i),
            u_avatar_url = optional_string (ci_avatar_url i), u_status = status_active,
            u_is_superuser = ci_is_superuser i,
            u_allow_multiple_sessions = ci_allow_multiple_sessions i, u_session_version = 1,
            u_password_changed_at = us_clock s w', u_last_login_at = None,
            u_created_at = us_clock s w', u_updated_at = us_clock s w', u_archived_at = None\<rparr>) post w') v"
      if "com v = com w" "validate_password U (ci_password input) = Inr ()"
        "verify_password idkey (ci_password input) h = Inr True" for v h
      by (rule wp_mono [OF leavesD [OF assms(9)]])
         (use that same in \<open>auto simp: kept status_active_def intro!: ins split: sum.splits\<close>)
    show ?thesis
      unfolding service_create_def \<open>normalize_create_input U Ps input = Inr i\<close> assms(2,4) Inr sum.case wp_rules
    proof (rule wp_mono [OF passwords_hash [where f = com, OF assms(5-8)]], goal_cases)
      case (1 r v)
      show ?case
      proof (cases r)
        case (Inr h)
        show ?thesis unfolding Inr sum.case by (rule ids) (use 1 Inr same in auto)
      qed (use 1 in \<open>simp add: kept\<close>)
    qed
  qed (simp add: service_create_def Inr assms(4) wp_rules kept)
  then show ?thesis by (simp only: post_def)
qed (simp add: service_create_def wp_rules)

definition sample_parsers :: parsers where
  "sample_parsers = \<lparr>mail_address = (\<lambda>s. Some s), request_uri = (\<lambda>s. Some (''https'', s))\<rparr>"

lemma service_create_spec_witness:
  "case run_state (service_create ascii_unicode sample_parsers (mem_service 9 3)
      \<lparr>ci_username = ''Bob'', ci_password = ''Secret99x'', ci_display_name = '''', ci_email = '''',
       ci_avatar_url = '''', ci_is_superuser = False, ci_allow_multiple_sessions = True\<rparr>)
      (sample_users, []) of
     (Inr u, w') \<Rightarrow> u_session_version u = 1 \<and> length (fst w') = 3 | (Inl e, w') \<Rightarrow> True"
  using service_create_spec [OF mem_database_laws, of "mem_service 9 3" ascii_pg "(sample_users, [])"
      ascii_unicode zero_rand pad_idkey default_argon2_params sample_parsers
      "\<lparr>ci_username = ''Bob'', ci_password = ''Secret99x'', ci_display_name = '''', ci_email = '''',
       ci_avatar_url = '''', ci_is_superuser = False, ci_allow_multiple_sessions = True\<rparr>"]
  by (auto simp: mem_passwords_def zero_rand_def wp_def split: sum.splits prod.splits)

text \<open>Creating a user whose name equals an existing one up to ASCII case reports
  \<open>ErrUsernameConflict\<close>, whatever the case of either, and leaves the table as it was.\<close>

theorem create_username_conflict:
  assumes "pg_laws P" "x \<in> set t" "ascii (c_username x)"
    "map lower_byte (c_username x) = map lower_byte (u_username u)"
    "name_format True (u_username u)" "u_display_name u = u_username u" "u_email u = None"
    "u_avatar_url u = None" "text_ok (u_password_hash u)" "u_status u = ''active''"
    "0 < u_session_version u" "\<forall>y \<in> set t. c_id y \<noteq> u_id u"
  shows "user_result ''create user'' (create_user P (create_params u) t) =
    (Inl (Sentinel UsernameConflict), t)"
proof -
  have name: "ascii (u_username u)" "length (u_username u) \<le> 64" "3 \<le> length (u_username u)"
    using name_format_ascii [OF assms(5)] name_format_length [OF assms(5)] by auto
  have "CHR 0x00 \<notin> set (u_username u)"
    using assms(5) by (cases "u_username u") (auto simp: name_char_def name_tail_char_def list_all_iff)
  then have printable: "text_ok (u_username u)" "text_ok ''active''"
    using name by (auto simp: text_ok_def valid_utf8_ascii)
  have cols: "assign_varchar 64 (u_username u) = Inr (u_username u)"
    "assign_varchar 16 ''active'' = Inr ''active''"
    using name by (auto simp: assign_varchar_def runes_ascii)
  have "pg_lower P (c_username x) = pg_lower P (u_username u)"
    using assms(1,3,4) name(1) by (simp add: pg_laws_def)
  then have dup: "list_ex (\<lambda>y. pg_lower P (c_username y) = pg_lower P (u_username u)) t"
    using assms(2) by (auto simp: list_ex_iff)
  have no_id: "\<not> list_ex (\<lambda>y. c_id y = u_id u) t" using assms(12) by (auto simp: list_ex_iff)
  show ?thesis
    using assms(5-11) name printable cols dup no_id
    by (simp add: user_result_def create_user_def create_params_def with_text_def text_params_def
        opt_text_def to_text_def store_user_def assign_columns_def assign_opt_varchar_def
        check_user_def not_null_def to_timestamp_def runes_ascii unique_user_def map_result_def)
qed

lemma create_username_conflict_witness:
  "fst (user_result ''create user'' (create_user ascii_pg (create_params
     ((to_user (sample_row 7 ''ROOT'' False))\<lparr>u_session_version := 1\<rparr>)) sample_users)) =
   Inl (Sentinel UsernameConflict)"
proof -
  let ?u = "(to_user (sample_row 7 ''ROOT'' False))\<lparr>u_session_version := 1\<rparr>"
  have lower: "lower_byte CHR ''r'' = lower_byte CHR ''R''" "lower_byte CHR ''o'' = lower_byte CHR ''O''"
    "lower_byte CHR ''t'' = lower_byte CHR ''T''"
    by code_simp+
  have "user_result ''create user'' (create_user ascii_pg (create_params ?u) sample_users) =
      (Inl (Sentinel UsernameConflict), sample_users)"
    by (rule create_username_conflict [OF pg_laws_ascii, of "sample_row 1 ''root'' True"])
       (simp_all add: lower sample_users_def sample_row_def to_user_def from_text_def
         name_char_def name_tail_char_def text_ok_def valid_utf8_ascii)
  then show ?thesis by simp
qed

text \<open>An accepted profile meets the table's constraints on names and lengths; its username and email
  have no upper-case ASCII letters, and normalising the username again changes nothing.\<close>

theorem normalize_profile_meets_constraints:
  assumes "unicode_laws U" "normalize_profile U Ps i = Inr p"
  shows "name_format True (pi_username p) \<and> 1 \<le> length (runes (pi_display_name p)) \<and>
    length (runes (pi_display_name p)) \<le> 64 \<and> length (runes (pi_email p)) \<le> 254 \<and>
    to_lower U (pi_username p) = pi_username p \<and>
    (\<forall>c \<in> set (pi_email p). \<not> (65 \<le> byte c \<and> byte c < 91))"
proof -
  have normal: "normal_profile p" using normalize_profile_normal [OF assms(2)] .
  then have user: "name_format False (pi_username p)"
    by (simp add: normal_profile_def username_pattern_def)
  have "length (runes s) = 0 \<longleftrightarrow> s = ''''" for s
    by (cases s) (simp_all add: runes_def chunks.simps)
  moreover have "to_lower U (pi_username p) = pi_username p"
    by (rule to_lower_fixed [OF assms(1) name_format_ascii [OF user] name_format_lower [OF user]])
  moreover have "pi_email p = to_lower U (trim_space U (pi_email i))"
    using assms(2) by (auto simp: normalize_profile_def Let_def split: if_splits)
  then have "\<not> (65 \<le> byte c \<and> byte c < 91)" if "c \<in> set (pi_email p)" for c
    using to_lower_no_upper [OF assms(1)] that by fastforce
  ultimately show ?thesis
    using normal name_format_mono [OF user] length_runes_le [of "pi_email p"]
    by (auto simp: normal_profile_def display_ok_def Suc_le_eq)
qed

lemma normalize_profile_meets_constraints_witness:
  "case normalize_profile ascii_unicode sample_parsers \<lparr>pi_username = '' Bob '', pi_display_name = '''',
      pi_email = ''B@X.org'', pi_avatar_url = ''''\<rparr> of
     Inr p \<Rightarrow> name_format True (pi_username p) | Inl e \<Rightarrow> True"
  using normalize_profile_meets_constraints [OF unicode_laws_ascii, of sample_parsers
      "\<lparr>pi_username = '' Bob '', pi_display_name = '''', pi_email = ''B@X.org'', pi_avatar_url = ''''\<rparr>"]
  by (auto split: sum.splits)

text \<open>C22: a digest made by the password manager decodes to the configured parameters with salt and key of
  the configured lengths, verifies the password it was made from, needs no rehash, and is made
  only for passwords the policy accepts.\<close>

theorem hashed_password_verifies:
  assumes "argon2_laws idkey" "rand_laws rand" "validate_argon2_params p = Inr ()"
  shows "wp (hash_password U rand idkey p password) (\<lambda>r _. on_ok (\<lambda>h.
      (\<exists>salt key. decode_phc h = Inr (p, salt, key) \<and> length salt = unat (salt_len p) \<and>
         length key = unat (key_len p)) \<and>
      verify_password idkey password h = Inr True \<and> \<not> needs_rehash p h \<and>
      validate_password U password = Inr ()) r) w"
proof -
  have "wp (hash_password U rand idkey p password) (\<lambda>r _. on_ok (\<lambda>_. validate_password U password = Inr ()) r) w"
    using pw.hash_valid [of U rand idkey p password w] by (simp add: passwords_def)
  from wp_conj [OF this hash_password_spec [OF assms]] show ?thesis
    by (rule wp_mono) (use assms(1) in \<open>auto simp: on_ok_def argon2_laws_def verify_password_def needs_rehash_def split: sum.splits\<close>)
qed

lemma hashed_password_verifies_witness:
  "case fst (run_state (hash_password ascii_unicode zero_rand pad_idkey default_argon2_params ''Secret99x'') ()) of
     Inr h \<Rightarrow> verify_password pad_idkey ''Secret99x'' h = Inr True | Inl e \<Rightarrow> True"
  using hashed_password_verifies [of pad_idkey zero_rand default_argon2_params ascii_unicode "''Secret99x''" "()"]
  by (auto simp: wp_fst_snd split: sum.splits)

text \<open>The textual form of a digest reads back exactly, and whatever text is accepted carries parameters
  inside the safety bounds and the true lengths of its salt and key.\<close>

theorem phc_format:
  "(validate_argon2_params p = Inr () \<and> length salt = unat (salt_len p) \<and> length key = unat (key_len p) \<longrightarrow>
      decode_phc (encode_phc p salt key) = Inr (p, salt, key)) \<and>
   (decode_phc enc = Inr (q, salt', key') \<longrightarrow>
      unat (memory_kib q) \<in> {8192..262144} \<and> unat (time_cost q) \<in> {1..10} \<and>
      unat (threads q) \<in> {1..16} \<and> length salt' = unat (salt_len q) \<and> length salt' \<in> {8..64} \<and>
      length key' = unat (key_len q) \<and> length key' \<in> {16..64})"
  using decode_encode_phc [of p salt key] decode_phc_sound [of enc q salt' key']
  by (auto simp: validate_argon2_bounds max_argon_memory_def max_argon_time_def max_argon_threads_def)

lemma phc_format_witness:
  "decode_phc (encode_phc default_argon2_params (replicate 16 CHR ''s'') (replicate 32 CHR ''k'')) =
     Inr (default_argon2_params, replicate 16 CHR ''s'', replicate 32 CHR ''k'')"
  using phc_format [of default_argon2_params "replicate 16 CHR ''s''" "replicate 32 CHR ''k''"]
  by (simp only: default_params_valid) (simp add: default_argon2_params_def)

end
