(* ===== verification/AuthModule.thy ===== *)
theory AuthModule
  imports SessionProvider UserModule
begin

text \<open>
  The authentication module assembled: the service over the user service with its PostgreSQL
  adapter and over the Redis store.  The properties of the module, and a world in memory that
  meets the laws of both drivers, on which they are evaluated.
\<close>

section \<open>The user service as provider of accounts\<close>

lemma wp_trans_leaves:
  assumes "wp m Q w" "leaves m f"
  shows "wp m (\<lambda>r w'. f w' = f w \<and> Q r w') w"
  using wp_conj [OF leavesD [OF assms(2)] assms(1)] .

definition pool_leaves :: "'w database \<Rightarrow> ('w \<Rightarrow> 'o) \<Rightarrow> bool" where
  "pool_leaves db f \<longleftrightarrow> (\<forall>st. leaves (db_exec (db_pool db) st) f)"

lemma user_store_leaves:
  assumes "pool_leaves db f"
  shows "leaves (r_get_by_id (user_store db) uid) f" "leaves (r_get_by_username (user_store db) name) f"
    "leaves (r_update_last_login (user_store db) uid now) f"
    "leaves (r_update_password_hash (user_store db) uid h now) f"
  using assms
  by (auto simp: user_store_def repository_of_def repo_get_by_id_def repo_get_by_username_def
      repo_update_last_login_def repo_update_password_hash_def mapped_def wrapped_def q_user_def
      q_exec_def query_defs pool_leaves_def intro!: leaves_rules)

lemma hash_password_leaves: "(\<And>n. leaves (rand n) f) \<Longrightarrow> leaves (hash_password U rand idkey p pwd) f"
  unfolding hash_password_def by (intro leaves_rules)

lemma verify_credentials_leaves:
  assumes "pool_leaves db f" "us_repository s = user_store db" "us_passwords s = passwords U rand idkey p"
    "\<And>n. leaves (rand n) f"
  shows "leaves (verify_credentials U s name password) f"
  unfolding verify_credentials_def service_get_by_username_def assms(2,3) passwords_def
    password_manager.simps
  by (intro leaves_rules user_store_leaves [OF assms(1)] hash_password_leaves assms(4) clock_now_leaves)

definition accounts_lawful ::
  "pg_ops \<Rightarrow> 'w database \<Rightarrow> ('w \<Rightarrow> users) \<Rightarrow> ('w \<Rightarrow> users) \<Rightarrow> unicode \<Rightarrow> 'w rand_read \<Rightarrow> argon2_idkey \<Rightarrow>
    argon2_params \<Rightarrow> 'w user_service \<Rightarrow> ('w \<Rightarrow> 'o) \<Rightarrow> bool" where
  "accounts_lawful P db view com U rand idkey p s frame \<longleftrightarrow>
     database_laws (run_user_stmt P) db view com \<and> us_repository s = user_store db \<and>
     us_passwords s = passwords U rand idkey p \<and> argon2_laws idkey \<and> rand_laws rand \<and>
     validate_argon2_params p = Inr () \<and> (\<forall>n. leaves (rand n) com \<and> leaves (rand n) frame) \<and>
     pool_leaves db frame"

text \<open>What accepting a name and a password says about the row.\<close>

definition credentials_match ::
  "pg_ops \<Rightarrow> unicode \<Rightarrow> argon2_idkey \<Rightarrow> string \<Rightarrow> string \<Rightarrow> db_user \<Rightarrow> bool" where
  "credentials_match P U idkey name password row \<longleftrightarrow>
     pg_lower P (c_username row) = pg_lower P (to_lower U (trim_space U name)) \<and>
     verify_password idkey password (c_password_hash row) = Inr True"

interpretation accounts: account_contract "auth_users_of U s" com frame "credentials_match P U idkey"
  "accounts_lawful P db view com U rand idkey p s frame"
  for P db view com U rand idkey p s and frame :: "'w \<Rightarrow> 'o"
proof (unfold_locales, goal_cases)
  case (1 uid w)
  then have db: "database_laws (run_user_stmt P) db view com" "us_repository s = user_store db" and lv: "pool_leaves db frame"
    by (auto simp: accounts_lawful_def)
  have "wp (r_get_by_id (user_store db) uid) (\<lambda>r w'. com w' = com w \<and>
      on_ok (\<lambda>u. \<exists>row. find_user uid (com w) = Some row \<and> u = to_user row) r) w"
    by (rule wp_acts [OF store.get_by_id [OF db(1)]])
       (auto simp: get_user_result split: option.splits)
  from wp_trans_leaves [OF this user_store_leaves(1) [OF lv]] show ?case
    by (simp add: auth_users_of_def service_get_by_id_def db(2))
next
  case (2 name password w)
  then have db: "database_laws (run_user_stmt P) db view com" "us_repository s = user_store db"
      "us_passwords s = passwords U rand idkey p" "argon2_laws idkey" "rand_laws rand"
      "validate_argon2_params p = Inr ()" "\<And>n. leaves (rand n) com" "\<And>n. leaves (rand n) frame" "pool_leaves db frame"
    by (auto simp: accounts_lawful_def)
  show ?case
    unfolding auth_users_of_def auth_users.simps
    by (rule wp_mono [OF wp_trans_leaves [OF verify_credentials_spec [OF db(1-7)]
            verify_credentials_leaves [OF db(9,2,3,8)]]])
       (auto simp: on_ok_def credentials_match_def split: sum.splits)
next
  case (3 uid w)
  then have "us_repository s = user_store db" "pool_leaves db frame" by (auto simp: accounts_lawful_def)
  then have "leaves (record_login s uid) frame"
    unfolding record_login_def by (simp add: leaves_bind clock_now_leaves user_store_leaves)
  then show ?case by (simp add: auth_users_of_def leaves_def)
qed

section \<open>Both providers together\<close>

definition auth_lawful ::
  "pg_ops \<Rightarrow> 'w database \<Rightarrow> ('w \<Rightarrow> users) \<Rightarrow> ('w \<Rightarrow> users) \<Rightarrow> unicode \<Rightarrow> 'w rand_read \<Rightarrow> argon2_idkey \<Rightarrow>
    argon2_params \<Rightarrow> 'w user_service \<Rightarrow> uuid_pkg \<Rightarrow> (int \<Rightarrow> int) \<Rightarrow> 'w redis_store \<Rightarrow> ('w \<Rightarrow> rdb) \<Rightarrow> duration \<Rightarrow> bool" where
  "auth_lawful P db view com U rand idkey p s Q L st rd ttl \<longleftrightarrow>
     accounts_lawful P db view com U rand idkey p s rd \<and> sessions_lawful Q L st rd ttl com"

lemma session_contract_mono:
  "session_contract st S iv L ttl rest lw \<Longrightarrow> (lw' \<Longrightarrow> lw) \<Longrightarrow> session_contract st S iv L ttl rest lw'"
  by (cases lw; cases lw') (simp_all add: session_contract_def)

lemma limiter_contract_mono:
  "limiter_contract rl C S iv rest lw \<Longrightarrow> (lw' \<Longrightarrow> lw) \<Longrightarrow> limiter_contract rl C S iv rest lw'"
  by (cases lw; cases lw') (simp_all add: limiter_contract_def)

lemma account_contract_mono:
  "account_contract us tbl frame ch lw \<Longrightarrow> (lw' \<Longrightarrow> lw) \<Longrightarrow> account_contract us tbl frame ch lw'"
  by (cases lw; cases lw') (simp_all add: account_contract_def)

interpretation auth: auth_providers "redis_session_store Q st" "\<lambda>w. sess Q st (rd w)"
  "\<lambda>w. store_inv Q st ttl (rd w)" L ttl com "redis_rate_limiter st" "\<lambda>w. counter st (rd w)"
  "auth_users_of U s" rd "credentials_match P U idkey"
  "auth_lawful P db view com U rand idkey p s Q L st rd ttl"
  for P db view com U rand idkey p s Q L st rd ttl
proof -
  let ?lw = "auth_lawful P db view com U rand idkey p s Q L st rd ttl"
  have 1: "session_contract (redis_session_store Q st) (\<lambda>w. sess Q st (rd w))
      (\<lambda>w. store_inv Q st ttl (rd w)) L ttl com ?lw"
    by (rule session_contract_mono [OF redis.session_contract_axioms]) (simp add: auth_lawful_def)
  have 2: "limiter_contract (redis_rate_limiter st) (\<lambda>w. counter st (rd w)) (\<lambda>w. sess Q st (rd w))
      (\<lambda>w. store_inv Q st ttl (rd w)) com ?lw"
    by (rule limiter_contract_mono [OF redis_limit.limiter_contract_axioms [where L = L]]) (simp add: auth_lawful_def)
  have 3: "account_contract (auth_users_of U s) com rd (credentials_match P U idkey) ?lw"
    by (rule account_contract_mono [OF accounts.account_contract_axioms [where db = db and view = view and rand = rand and p = p]]) (simp add: auth_lawful_def)
  show "auth_providers (redis_session_store Q st) (\<lambda>w. sess Q st (rd w)) (\<lambda>w. store_inv Q st ttl (rd w))
      L ttl com (redis_rate_limiter st) (\<lambda>w. counter st (rd w)) (auth_users_of U s) rd
      (credentials_match P U idkey) ?lw"
    by (intro auth_providers.intro auth_providers_axioms.intro 1 2 3) simp
qed

section \<open>The wired service\<close>

definition auth_wired ::
  "pg_ops \<Rightarrow> 'w database \<Rightarrow> ('w \<Rightarrow> users) \<Rightarrow> ('w \<Rightarrow> users) \<Rightarrow> unicode \<Rightarrow> 'w rand_read \<Rightarrow> argon2_idkey \<Rightarrow>
    argon2_params \<Rightarrow> 'w user_service \<Rightarrow> uuid_pkg \<Rightarrow> (int \<Rightarrow> int) \<Rightarrow> 'w redis_store \<Rightarrow> ('w \<Rightarrow> rdb) \<Rightarrow>
    ('w, 'sk, 'pk) auth_env \<Rightarrow> ('w, 'sk, 'pk) auth_service \<Rightarrow> bool" where
  "auth_wired P db view com U rand idkey p us Q L st rd E s \<longleftrightarrow>
     auth_lawful P db view com U rand idkey p us Q L st rd (as_refresh_ttl s) \<and>
     as_sessions s = redis_session_store Q st \<and> as_limiter s = redis_rate_limiter st \<and>
     as_users s = auth_users_of U us \<and> 0 < as_login_window s \<and>
     ae_uuid E = Q \<and> ae_unicode E = U \<and> jwt_laws (ae_jwt E) \<and> env_leaves E rd \<and> env_leaves E com"

lemma leaves_triple:
  assumes "leaves m rd" "leaves m com"
  shows "leaves m (\<lambda>w. (f (rd w), g (rd w), com w))"
  using assms unfolding leaves_def wp_iff by fastforce

lemma env_leaves_pair:
  "env_leaves E rd \<Longrightarrow> env_leaves E com \<Longrightarrow> env_leaves E (\<lambda>w. (f (rd w), g (rd w), com w))"
  by (simp add: env_leaves_def leaves_triple)

lemma wiredD:
  assumes "auth_wired P db view com U rand idkey p us Q L st rd E s"
  shows "auth_lawful P db view com U rand idkey p us Q L st rd (as_refresh_ttl s)"
    "as_sessions s = redis_session_store Q st" "as_users s = auth_users_of U us"
    "as_limiter s = redis_rate_limiter st" "0 < as_login_window s"
    "env_leaves E (\<lambda>w. (sess Q st (rd w), store_inv Q st (as_refresh_ttl s) (rd w), com w))"
    "ae_uuid E = Q" "ae_unicode E = U" "jwt_laws (ae_jwt E)"
  using assms by (auto simp: auth_wired_def env_leaves_pair)

section \<open>A world in memory\<close>

type_synonym auth_world = "mem_world \<times> rdb"

definition on_users :: "(mem_world, 'r) state \<Rightarrow> (auth_world, 'r) state" where
  "on_users m = do {
     w \<leftarrow> State_Monad.get;
     let (r, u) = run_state m (fst w) in do {
       _ \<leftarrow> State_Monad.set (u, snd w);
       State_Monad.return r } }"

lemma wp_on_users [wp_rules]: "wp (on_users m) Q = (\<lambda>w. wp m (\<lambda>r u. Q r (u, snd w)) (fst w))"
  by (simp add: on_users_def wp_rules fun_eq_iff Let_def) (simp add: wp_def split: prod.splits)

definition mem_auth_db :: "auth_world database" where
  "mem_auth_db = \<lparr>
     db_pool = \<lparr>db_exec = (\<lambda>st. on_users (db_exec (mem_pool ascii_pg) st))\<rparr>,
     db_begin = do {
       _ \<leftarrow> on_users (db_begin (mem_database ascii_pg));
       State_Monad.return (Inr \<lparr>
         tx_dbtx = \<lparr>db_exec = (\<lambda>st. on_users (db_exec (tx_dbtx (mem_tx ascii_pg)) st))\<rparr>,
         tx_commit = on_users (tx_commit (mem_tx ascii_pg)),
         tx_rollback = on_users (tx_rollback (mem_tx ascii_pg))\<rparr>) }\<rparr>"

lemma mem_auth_db_laws [simp]: "database_laws (run_user_stmt ascii_pg) mem_auth_db (snd \<circ> fst) (fst \<circ> fst)"
  by (simp add: database_laws_def tx_laws_def conn_laws_def acts_as_def mem_auth_db_def mem_database_def
      mem_pool_def mem_tx_def wp_rules)

definition mem_redis :: "auth_world redis_client" where
  "mem_redis cmd = do {
     w \<leftarrow> State_Monad.get;
     let (r, d) = run_cmd canonical_uuid id cmd (snd w) in do {
       _ \<leftarrow> State_Monad.set (fst w, d);
       State_Monad.return r } }"

lemma wp_mem_redis: "wp (mem_redis cmd) Q w =
    Q (fst (run_cmd canonical_uuid id cmd (snd w))) (fst w, snd (run_cmd canonical_uuid id cmd (snd w)))"
  by (simp add: mem_redis_def wp_rules Let_def split: prod.splits)

lemma mem_redis_laws [simp]: "redis_laws canonical_uuid id mem_redis snd"
proof -
  have "at_time (now_ms d) d = d" for d by (simp add: at_time_def)
  then show ?thesis by (auto simp: redis_laws_def wp_mem_redis intro!: exI [of _ "now_ms _"])
qed

definition mem_store :: "auth_world redis_store" where
  "mem_store = \<lparr>rs_client = mem_redis, rs_session_prefix = ''goba:test:auth:session:'',
     rs_refresh_prefix = ''goba:test:auth:refresh:'', rs_user_prefix = ''goba:test:auth:user:'',
     rs_limit_prefix = ''goba:test:auth:limit:''\<rparr>"

lemma mem_store_ok [simp]: "store_ok canonical_uuid id mem_store snd"
  by (auto simp: store_ok_def lua_laws_def mem_store_def new_redis_store_def Let_def
      intro!: exI [of _ mem_redis] exI [of _ "''test''"])

lemma mem_store_leaves [simp]: "client_leaves mem_store (fst \<circ> fst)"
  by (simp add: client_leaves_def mem_store_def leaves_def wp_mem_redis)

text \<open>A token library that signs one token.\<close>

definition month :: duration where "month = 720 * 3600 * second"

definition toy_tokens :: "(unit, unit) tokens" where
  "toy_tokens = \<lparr>tk_private_key = (), tk_public_keys = [''k'' \<mapsto> ()], tk_issuer = ''goba'',
     tk_audience = ''goba'', tk_key_id = ''k'', tk_ttl = 900 * second\<rparr>"

definition toy_token :: jwt_token where
  "toy_token = \<lparr>jt_alg = alg_eddsa, jt_kid = Some ''k'',
     jt_claims = sign_claims canonical_uuid toy_tokens 2 5 1 second (u_string canonical_uuid 7)\<rparr>"

definition toy_jwt :: "(unit, unit) jwt_lib" where
  "toy_jwt = \<lparr>
     pem_decode = (\<lambda>s. Some (s, '''')), pkcs8_parse = (\<lambda>_. Some (Ed25519Private ())),
     pkix_parse = (\<lambda>_. Some (Ed25519Public ())), public_of = id,
     jwt_sign = (\<lambda>_ tok. if tok = toy_token then Some ''tok'' else None),
     jwt_decode = (\<lambda>enc. if enc = ''tok'' then Some toy_token else None),
     jwt_signed_by = (\<lambda>_ enc. enc = ''tok''),
     jwt_parse = (\<lambda>keyf iss aud now algs enc.
       if enc = ''tok'' \<and> jt_alg toy_token \<in> set algs \<and> (\<exists>pk. keyf toy_token = Inr pk) \<and>
          cl_issuer (jt_claims toy_token) = iss \<and> aud \<in> set (cl_audience (jt_claims toy_token)) \<and>
          in_window (jt_claims toy_token) now
       then Inr toy_token else Inl (Plain ''jwt''))\<rparr>"

lemma toy_jwt_laws [simp]: "jwt_laws toy_jwt"
  by (auto simp: jwt_laws_def toy_jwt_def)

definition mem_env :: "(auth_world, unit, unit) auth_env" where
  "mem_env = \<lparr>ae_unicode = ascii_unicode, ae_uuid = canonical_uuid, ae_jwt = toy_jwt,
     ae_sha256 = (\<lambda>s. s), ae_rand = zero_rand, ae_new_v7 = State_Monad.return 5,
     ae_new_v4 = State_Monad.return 7\<rparr>"

definition mem_users :: "auth_world user_service" where
  "mem_users = \<lparr>
     us_repository = user_store mem_auth_db, us_unit_of_work = user_uow mem_auth_db,
     us_passwords = mem_passwords, us_dummy_hash = '''', us_clock = (\<lambda>_. second),
     us_ids = State_Monad.return (Inr 9)\<rparr>"

definition mem_auth :: "(auth_world, unit, unit) auth_service" where
  "mem_auth = \<lparr>
     as_users = auth_users_of ascii_unicode mem_users,
     as_sessions = redis_session_store canonical_uuid mem_store,
     as_limiter = redis_rate_limiter mem_store, as_tokens = toy_tokens, as_clock = (\<lambda>_. second),
     as_refresh_ttl = month, as_max_attempts = 5, as_login_window = 60 * second\<rparr>"

lemma whole_month [simp]: "whole_seconds month"
  by (simp add: whole_seconds_def month_def)

lemma on_users_leaves: "leaves (on_users m) snd"
  by (simp add: leaves_def wp_rules)

lemma zero_rand_leaves [simp]: "leaves (zero_rand n) f"
  by (simp add: zero_rand_def)

lemma mem_wired [simp]:
  "auth_wired ascii_pg mem_auth_db (snd \<circ> fst) (fst \<circ> fst) ascii_unicode zero_rand pad_idkey
     default_argon2_params mem_users canonical_uuid id mem_store snd mem_env mem_auth"
  by (simp add: auth_wired_def auth_lawful_def accounts_lawful_def sessions_lawful_def mem_auth_def
      mem_users_def mem_env_def mem_passwords_def env_leaves_def pool_leaves_def)
     (simp add: mem_auth_db_def on_users_leaves)

text \<open>The keyspace with one session, of the second sample user.\<close>

definition empty_rdb :: rdb where "empty_rdb = \<lparr>entries = (\<lambda>_. None), now_ms = 1000\<rparr>"

definition sample_session :: session where
  "sample_session = \<lparr>s_id = 5, s_family_id = 6, s_user_id = 2, s_user_version = 1,
     s_current_digest = ''digest'', s_created_at = 0, s_expires_at = month\<rparr>"

definition sample_rdb :: rdb where
  "sample_rdb = snd (run_multi (save_cmds canonical_uuid mem_store sample_session month) empty_rdb)"

lemma empty_rdb_inv [simp]: "store_inv canonical_uuid mem_store ttl empty_rdb"
  by (simp add: store_inv_def typed_keys_def indexed_def tokens_match_def live_def empty_rdb_def)

lemma sample_rdb_inv [simp]: "store_inv canonical_uuid mem_store month sample_rdb"
  and sample_rdb_sess [simp]: "sess canonical_uuid mem_store sample_rdb 5 = Some sample_session"
  using save_cmds_run [OF store_ok_keys [OF mem_store_ok] empty_rdb_inv whole_month, of sample_session]
  by (auto simp: sample_rdb_def sample_session_def)

lemma mem_auth_simps [simp]: "as_refresh_ttl mem_auth = month" "as_tokens mem_auth = toy_tokens"
    "as_clock mem_auth w = second"
  by (simp_all add: mem_auth_def)

lemma mem_env_simps [simp]: "ae_jwt mem_env = toy_jwt" "ae_uuid mem_env = canonical_uuid"
    "ae_sha256 mem_env = (\<lambda>s. s)" "jwt_decode toy_jwt enc = (if enc = ''tok'' then Some toy_token else None)"
  by (simp_all add: mem_env_def toy_jwt_def)

lemma toy_token_simps [simp]: "cl_session_id (jt_claims toy_token) = 5" "cl_version (jt_claims toy_token) = 1"
    "cl_subject (jt_claims toy_token) = u_string canonical_uuid 2"
  by (simp_all add: toy_token_def sign_claims_def)

lemma canonical_parse [simp]: "u_parse canonical_uuid (u_string canonical_uuid i) = Some i"
  using uuid_laws_canonical by (simp add: uuid_laws_def)

end
