(* ===== verification/AuthTheorems.thy ===== *)
theory AuthTheorems
  imports AuthModule
begin

text \<open>
  The properties of the authentication module: what an accepted access token proves, what login,
  refresh and the revocations do to the sessions, the fate of replayed refresh tokens, the login
  counters and the access tokens themselves.
\<close>

section \<open>Access tokens\<close>

text \<open>C1: an access token is accepted only if it decodes to a token with the fixed
  algorithm, signed under a key the service knows, for its issuer and audience and inside its
  window; its session exists in Redis and belongs to the token's subject at the token's version;
  and the subject is an active row of the users table whose version is the token's.  Nothing is
  changed, apart from sessions that expire.\<close>

theorem authenticate_sound:
  assumes "auth_wired P db view com U rand idkey p us Q L st rd E s"
    "store_inv Q st (as_refresh_ttl s) (rd w)"
  shows "wp (authenticate E s access) (\<lambda>r w'. com w' = com w \<and> store_inv Q st (as_refresh_ttl s) (rd w') \<and>
    ends (sess Q st (rd w)) (sess Q st (rd w')) \<and>
    on_ok (\<lambda>i. \<exists>tok kid pk x row. let c = jt_claims tok in
      jwt_decode (ae_jwt E) access = Some tok \<and> jt_alg tok = ''EdDSA'' \<and> jt_kid tok = Some kid \<and>
      tk_public_keys (as_tokens s) kid = Some pk \<and> jwt_signed_by (ae_jwt E) pk access \<and>
      cl_issuer c = tk_issuer (as_tokens s) \<and> tk_audience (as_tokens s) \<in> set (cl_audience c) \<and>
      in_window c (as_clock s w) \<and>
      sess Q st (rd w') (cl_session_id c) = Some x \<and> u_parse Q (cl_subject c) = Some (s_user_id x) \<and>
      s_user_version x = cl_version c \<and>
      find_user (s_user_id x) (com w') = Some row \<and> c_status row = ''active'' \<and>
      c_session_version row = cl_version c \<and>
      i = \<lparr>id_user = to_user row, id_session_id = cl_session_id c\<rparr>) r) w"
  by (rule wp_mono [OF auth.authenticate_spec [OF wiredD(1) [OF assms(1)] assms(2) wiredD(2,3) [OF assms(1)]]])
     (auto simp: on_ok_def tokens_verify_Inr [OF wiredD(9) [OF assms(1)]] vouched_def alg_eddsa_def
       wiredD(7) [OF assms(1)] status_active_def Let_def split: sum.splits)

lemma authenticate_sound_witness:
  "case fst (run_state (authenticate mem_env mem_auth ''tok'') ((sample_users, []), sample_rdb)) of
     Inr i \<Rightarrow> \<exists>row. find_user 2 sample_users = Some row \<and> id_user i = to_user row | Inl e \<Rightarrow> True"
  using authenticate_sound [OF mem_wired, of "((sample_users, []), sample_rdb)" "''tok''"]
  by (auto simp: wp_fst_snd Let_def split: sum.splits)

text \<open>What an accepted token says about the users table alone, whatever the store answers.\<close>

lemma authenticate_account:
  assumes "accounts_lawful P db view com U rand idkey p us frame" "as_users s = auth_users_of U us"
    "\<And>i. leaves (st_get (as_sessions s) i) com"
  shows "wp (authenticate E s access) (\<lambda>r w'. on_ok (\<lambda>i. \<exists>c uid row.
    tokens_verify (ae_jwt E) (as_tokens s) access (as_clock s w) = Inr c \<and>
    u_parse (ae_uuid E) (cl_subject c) = Some uid \<and> find_user uid (com w) = Some row \<and>
    c_session_version row = cl_version c \<and> c_status row = status_active) r) w"
proof (cases "tokens_verify (ae_jwt E) (as_tokens s) access (as_clock s w)")
  case (Inl e)
  then show ?thesis by (simp add: authenticate_def wp_rules)
next
  case c: (Inr c)
  define post where "post = (\<lambda>(r :: err + identity) (w' :: 'a). on_ok (\<lambda>i. \<exists>c uid row.
    tokens_verify (ae_jwt E) (as_tokens s) access (as_clock s w) = Inr c \<and>
    u_parse (ae_uuid E) (cl_subject c) = Some uid \<and> find_user uid (com w) = Some row \<and>
    c_session_version row = cl_version c \<and> c_status row = status_active) r)"
  show ?thesis
  proof (cases "u_parse (ae_uuid E) (cl_subject c)")
    case None
    then show ?thesis using c by (simp add: authenticate_def wp_rules)
  next
    case uid: (Some uid)
    have acc: "wp (do {
         a \<leftarrow> au_get_by_id (as_users s) uid;
         case a of
           Inl _ \<Rightarrow> State_Monad.return (Inl (Sentinel InvalidToken))
         | Inr account \<Rightarrow>
             if u_status account \<noteq> status_active \<or> u_session_version account \<noteq> cl_version c
             then State_Monad.return (Inl (Sentinel InvalidToken))
             else State_Monad.return (Inr \<lparr>id_user = account, id_session_id = sid\<rparr>) }) post v"
      if "com v = com w" for sid v
      unfolding wp_bind assms(2)
      by (rule wp_mono [OF accounts.get_account [OF assms(1)]])
         (use that c uid in \<open>auto simp: wp_rules post_def split: sum.splits\<close>)
    have "wp (authenticate E s access) post w"
      unfolding authenticate_def wp_bind wp_clock_now c sum.case uid option.case
    proof (rule wp_mono [OF leavesD [OF assms(3)]], goal_cases)
      case (1 g w1)
      show ?case
      proof (cases g)
        case (Inr x)
        show ?thesis
        proof (cases "s_user_id x \<noteq> uid \<or> s_user_version x \<noteq> cl_version c")
          case False
          show ?thesis
            unfolding Inr sum.case if_not_P [OF False] using acc [OF 1, of "s_id x"] by (simp only: wp_bind)
        qed (simp add: Inr wp_rules post_def)
      qed (simp add: wp_rules post_def)
    qed
    then show ?thesis by (simp only: post_def)
  qed
qed

definition token_for :: "uuid_pkg \<Rightarrow> ('sk, 'pk) jwt_lib \<Rightarrow> ('sk, 'pk) tokens \<Rightarrow> string \<Rightarrow> uuid \<Rightarrow> int \<Rightarrow> bool" where
  "token_for P J t access uid version \<longleftrightarrow> (\<forall>now c. tokens_verify J t access now = Inr c \<longrightarrow>
     u_parse P (cl_subject c) = Some uid \<and> cl_version c = version)"

lemma stale_token:
  assumes "auth_wired P db view com U rand idkey p us Q L st rd E s"
    "token_for Q (ae_jwt E) (as_tokens s) access uid v"
    "find_user uid (com w) = Some row" "c_session_version row \<noteq> v"
  shows "wp (authenticate E s access) (\<lambda>r _. \<exists>e. r = Inl e) w"
proof -
  have lw: "accounts_lawful P db view com U rand idkey p us rd" "client_leaves st com"
    using assms(1) by (auto simp: auth_wired_def auth_lawful_def sessions_lawful_def)
  have "leaves (st_get (as_sessions s) i) com" for i
    using wiredD(2) [OF assms(1)] store_get_leaves [OF lw(2)] by (simp add: redis_session_store_def)
  from authenticate_account [OF lw(1) wiredD(3) [OF assms(1)] this, of E access w] show ?thesis
    by (rule wp_mono)
       (use assms(2-4) wiredD(7) [OF assms(1)] in \<open>auto simp: on_ok_def token_for_def split: sum.splits\<close>)
qed

text \<open>C15: a change of status that took effect, or a change of password, makes every access token
  of the account from before it worthless: a request that follows with such a token is refused, even
  when the session could not be deleted from Redis.\<close>

theorem changes_revoke_tokens:
  assumes "auth_wired P db view com U rand idkey p us Q L st rd E s" "us_unit_of_work us = user_uow db"
    "users_ok P (com w)" "find_user uid (com w) = Some row"
    "token_for Q (ae_jwt E) (as_tokens s) access uid (c_session_version row)"
  shows "(c_status row \<noteq> new \<longrightarrow>
      wp (do { r \<leftarrow> service_set_status us uid new; a \<leftarrow> authenticate E s access; State_Monad.return (r, a) })
        (\<lambda>(r, a) _. case r of Inr u \<Rightarrow> (\<exists>e. a = Inl e) | Inl e \<Rightarrow> True) w) \<and>
    wp (do { r \<leftarrow> change_password us uid old pwd; a \<leftarrow> authenticate E s access; State_Monad.return (r, a) })
        (\<lambda>(r, a) _. case r of Inr u \<Rightarrow> (\<exists>e. a = Inl e) | Inl e \<Rightarrow> True) w"
proof -
  have db: "database_laws (run_user_stmt P) db view com" "us_repository us = user_store db"
      "us_passwords us = passwords U rand idkey p" "argon2_laws idkey" "rand_laws rand"
      "validate_argon2_params p = Inr ()" "\<And>n. leaves (rand n) com"
    using assms(1) by (auto simp: auth_wired_def auth_lawful_def accounts_lawful_def)
  have after: "wp (authenticate E s access) (\<lambda>a _. case r of Inr u \<Rightarrow> (\<exists>e. a = Inl e) | Inl e \<Rightarrow> True) w1"
    if "\<And>u. r = Inr u \<Longrightarrow> \<exists>row'. find_user uid (com w1) = Some row' \<and> c_session_version row' \<noteq> c_session_version row"
    for r :: "err + user" and w1
  proof (cases r)
    case (Inr u)
    with that obtain row' where "find_user uid (com w1) = Some row'"
        "c_session_version row' \<noteq> c_session_version row" by blast
    from stale_token [OF assms(1,5) this] show ?thesis by (simp add: Inr)
  qed simp
  have "wp (service_set_status us uid new) (\<lambda>r w1. \<forall>u. r = Inr u \<longrightarrow>
      (\<exists>row'. find_user uid (com w1) = Some row' \<and> c_session_version row' \<noteq> c_session_version row)) w"
    if "c_status row \<noteq> new"
    by (rule wp_mono [OF set_status_spec [OF db(1) assms(2,3)]])
       (use assms(4) that in \<open>auto simp: bumped_def with_status_def\<close>)
  moreover have "wp (change_password us uid old pwd) (\<lambda>r w1. \<forall>u. r = Inr u \<longrightarrow>
      (\<exists>row'. find_user uid (com w1) = Some row' \<and> c_session_version row' \<noteq> c_session_version row)) w"
  proof (rule wp_mono [OF change_password_spec [OF db(1,2) assms(3) db(3-7)]], goal_cases)
    case (1 r w1)
    show ?case
    proof (intro allI impI)
      fix u assume "r = Inr u"
      then obtain row' where "find_user uid (com w1) = Some row'" "u = to_user row'"
          "u_session_version u = c_session_version row + 1"
        using 1 assms(4) by auto
      then show "\<exists>row'. find_user uid (com w1) = Some row' \<and> c_session_version row' \<noteq> c_session_version row"
        by auto
    qed
  qed
  ultimately show ?thesis
    unfolding wp_rules prod.case by (auto elim!: wp_mono intro!: after)
qed

lemma toy_token_for: "token_for canonical_uuid toy_jwt toy_tokens ''tok'' 2 1"
  by (auto simp: token_for_def tokens_verify_Inr [OF toy_jwt_laws])

lemma changes_revoke_tokens_witness:
  "case fst (run_state (do { r \<leftarrow> service_set_status mem_users 2 ''disabled'';
       a \<leftarrow> authenticate mem_env mem_auth ''tok''; State_Monad.return (r, a) }) ((sample_users, []), sample_rdb)) of
     (r, a) \<Rightarrow> (case r of Inr u \<Rightarrow> (\<exists>e. a = Inl e) | Inl e \<Rightarrow> True)"
  using changes_revoke_tokens [OF mem_wired, of "((sample_users, []), sample_rdb)" 2 "sample_row 2 ''alice'' False"
      "''tok''" "''disabled''" "[]" "[]"]
    toy_token_for
  by (auto simp: wp_fst_snd mem_users_def sample_row_def)

section \<open>Login and refresh\<close>



text \<open>A refresh that succeeds: the session whose token was presented, and the row it belongs to.\<close>

definition refreshed ::
  "(int \<Rightarrow> int) \<Rightarrow> ('w, 'sk, 'pk) auth_env \<Rightarrow> users \<Rightarrow> (uuid \<Rightarrow> session option) \<Rightarrow> (uuid \<Rightarrow> session option) \<Rightarrow>
    string \<Rightarrow> token_pair \<Rightarrow> bool" where
  "refreshed L E T f g token pair \<longleftrightarrow> (\<exists>x y row. f (tp_session_id pair) = Some x \<and>
     s_current_digest x = digest_token (ae_sha256 E) token \<and>
     find_user (s_user_id x) T = Some row \<and> c_status row = ''active'' \<and>
     c_session_version row = L (s_user_version x) \<and>
     g (tp_session_id pair) = Some y \<and> s_user_id y = s_user_id x \<and>
     s_current_digest y = digest_token (ae_sha256 E) (tp_refresh_token pair) \<and>
     tp_user pair = to_user row)"

lemma refresh_pair:
  assumes "auth_wired P db view com U rand idkey p us Q L st rd E s"
    "store_inv Q st (as_refresh_ttl s) (rd w)"
  shows "wp (auth_refresh E s token) (\<lambda>r w'. com w' = com w \<and> store_inv Q st (as_refresh_ttl s) (rd w') \<and>
    (\<forall>j x. sess Q st (rd w') j = Some x \<longrightarrow> (\<exists>y. sess Q st (rd w) j = Some y \<and>
       (x = y \<or> s_current_digest y = digest_token (ae_sha256 E) token))) \<and>
    on_ok (refreshed L E (com w) (sess Q st (rd w)) (sess Q st (rd w')) token) r) w"
proof -
  note spec = auth.refresh_spec [OF wiredD(1) [OF assms(1)] assms(2) wiredD(2,3) [OF assms(1)] refl
      wiredD(6) [OF assms(1)]]
  show ?thesis
  proof (rule wp_mono [OF spec], goal_cases)
    case (1 r w')
    have "\<exists>y. sess Q st (rd w) j = Some y \<and> (x = y \<or> s_current_digest y = digest_token (ae_sha256 E) token)"
      if "sess Q st (rd w') j = Some x" for j x
      using 1 that unfolding auth.refresh_result_def may_rotate_def by blast
    moreover have "on_ok (refreshed L E (com w) (sess Q st (rd w)) (sess Q st (rd w')) token) r"
    proof (cases r)
      case (Inr pair)
      then obtain x row where x: "sess Q st (rd w) (tp_session_id pair) = Some x"
          "s_current_digest x = digest_token (ae_sha256 E) token"
          "find_user (s_user_id x) (com w) = Some row" "c_status row = ''active''"
          "c_session_version row = L (s_user_version x)" "tp_user pair = to_user row"
        and good: "good_pair E s (to_user row) (c_session_version row) (sess Q st (rd w')) pair"
        using 1 unfolding auth.refresh_result_def status_active_def by auto
      obtain y where "sess Q st (rd w') (tp_session_id pair) = Some y" "s_user_id y = c_id row"
          "s_current_digest y = digest_token (ae_sha256 E) (tp_refresh_token pair)"
        using good by (auto simp: good_pair_def)
      then show ?thesis using x find_user_id [OF x(3)] by (auto simp: Inr refreshed_def)
    qed simp
    ultimately show ?case using 1 by blast
  qed
qed

text \<open>A refresh that succeeds was made with the current token of a session of an active account
  whose version is still the session's; the session lives on under the same id, with the digest of
  the returned token, and nothing else changes.  A version is read through Lua numbers, exact below
  10^14.\<close>

theorem refresh_sound:
  assumes "auth_wired P db view com U rand idkey p us Q L st rd E s"
    "store_inv Q st (as_refresh_ttl s) (rd w)"
  shows "wp (auth_refresh E s token) (\<lambda>r w'. com w' = com w \<and> store_inv Q st (as_refresh_ttl s) (rd w') \<and>
    (\<forall>j x. sess Q st (rd w') j = Some x \<longrightarrow> (\<exists>y. sess Q st (rd w) j = Some y \<and>
       (x = y \<or> s_current_digest y = digest_token (ae_sha256 E) token))) \<and>
    on_ok (\<lambda>pair. \<exists>x y row. sess Q st (rd w) (tp_session_id pair) = Some x \<and>
      s_current_digest x = digest_token (ae_sha256 E) token \<and>
      find_user (s_user_id x) (com w) = Some row \<and> c_status row = ''active'' \<and>
      c_session_version row = L (s_user_version x) \<and>
      (0 \<le> s_user_version x \<and> s_user_version x < 10 ^ 14 \<longrightarrow> c_session_version row = s_user_version x) \<and>
      sess Q st (rd w') (tp_session_id pair) = Some y \<and> s_user_id y = s_user_id x \<and>
      s_current_digest y = digest_token (ae_sha256 E) (tp_refresh_token pair) \<and>
      tp_user pair = to_user row) r) w"
proof -
  have lua: "lua_laws L"
    using assms(1) by (auto simp: auth_wired_def auth_lawful_def sessions_lawful_def store_ok_def)
  show ?thesis
  proof (rule wp_mono [OF refresh_pair [OF assms]], goal_cases)
    case (1 r w')
    then show ?case
      using lua unfolding lua_laws_def by (cases r) (auto simp: refreshed_def)
  qed
qed

lemma refresh_sound_witness:
  "wp (auth_refresh mem_env mem_auth ''x'') (\<lambda>r w. case r of
       Inr pair \<Rightarrow> \<exists>y. sess canonical_uuid mem_store (snd w) (tp_session_id pair) = Some y
     | Inl e \<Rightarrow> True) ((sample_users, []), sample_rdb)"
proof (rule wp_mono [OF refresh_sound [OF mem_wired]], goal_cases)
  case (2 r w)
  then show ?case by (cases r) (simp_all only: on_ok_simps sum.case, blast)
qed simp



section \<open>Sessions\<close>

text \<open>C17: when they report success, \<open>RevokeUser\<close> has left no session of the user,
  \<open>RevokeOtherSessions\<close> none but the current one, \<open>RevokeSession\<close> has removed a session that was the
  user's own, and \<open>Logout\<close> the given one.  None of them creates or changes a session or touches
  the users table.\<close>

theorem revocations_complete:
  assumes "auth_wired P db view com U rand idkey p us Q L st rd E s"
    "store_inv Q st (as_refresh_ttl s) (rd w)"
  shows "wp (auth_revoke_user s uid) (\<lambda>r w'. com w' = com w \<and> ends (sess Q st (rd w)) (sess Q st (rd w')) \<and>
      (r = Inr () \<longrightarrow> (\<forall>i x. sess Q st (rd w') i = Some x \<longrightarrow> s_user_id x \<noteq> uid))) w \<and>
    wp (revoke_other_sessions s uid sid) (\<lambda>r w'. com w' = com w \<and> ends (sess Q st (rd w)) (sess Q st (rd w')) \<and>
      (r = Inr () \<longrightarrow> (\<forall>i x. sess Q st (rd w') i = Some x \<longrightarrow> s_user_id x = uid \<longrightarrow> i = sid))) w \<and>
    wp (revoke_session s uid sid) (\<lambda>r w'. com w' = com w \<and> ends (sess Q st (rd w)) (sess Q st (rd w')) \<and>
      (r = Inr () \<longrightarrow> (\<exists>x. sess Q st (rd w) sid = Some x \<and> s_user_id x = uid) \<and>
         sess Q st (rd w') sid = None)) w \<and>
    wp (logout s sid) (\<lambda>r w'. com w' = com w \<and> ends (sess Q st (rd w)) (sess Q st (rd w')) \<and>
      (r = Inr () \<longrightarrow> sess Q st (rd w') sid = None)) w"
proof (intro conjI)
  note lw = wiredD(1) [OF assms(1)] and st = wiredD(2) [OF assms(1)]
  show "wp (auth_revoke_user s uid) (\<lambda>r w'. com w' = com w \<and> ends (sess Q st (rd w)) (sess Q st (rd w')) \<and>
      (r = Inr () \<longrightarrow> (\<forall>i x. sess Q st (rd w') i = Some x \<longrightarrow> s_user_id x \<noteq> uid))) w"
    by (rule wp_mono [OF auth.revoke_user_spec [OF lw assms(2) st]]) auto
  show "wp (revoke_other_sessions s uid sid) (\<lambda>r w'. com w' = com w \<and> ends (sess Q st (rd w)) (sess Q st (rd w')) \<and>
      (r = Inr () \<longrightarrow> (\<forall>i x. sess Q st (rd w') i = Some x \<longrightarrow> s_user_id x = uid \<longrightarrow> i = sid))) w"
    by (rule wp_mono [OF auth.revoke_others_spec [OF lw assms(2) st]]) (auto simp: alone_def)
  show "wp (revoke_session s uid sid) (\<lambda>r w'. com w' = com w \<and> ends (sess Q st (rd w)) (sess Q st (rd w')) \<and>
      (r = Inr () \<longrightarrow> (\<exists>x. sess Q st (rd w) sid = Some x \<and> s_user_id x = uid) \<and>
         sess Q st (rd w') sid = None)) w"
    by (rule wp_mono [OF auth.revoke_session_spec [OF lw assms(2) st]]) auto
  show "wp (logout s sid) (\<lambda>r w'. com w' = com w \<and> ends (sess Q st (rd w)) (sess Q st (rd w')) \<and>
      (r = Inr () \<longrightarrow> sess Q st (rd w') sid = None)) w"
    unfolding logout_def wp_bind st
    by (rule wp_mono [OF auth.sessions.revoke [OF lw assms(2)]]) (auto simp: wp_rules split: sum.splits)
qed

lemma revocations_complete_witness:
  "wp (revoke_other_sessions mem_auth 2 5) (\<lambda>r w'. r = Inr () \<longrightarrow>
     (\<forall>i x. sess canonical_uuid mem_store (snd w') i = Some x \<longrightarrow> s_user_id x = 2 \<longrightarrow> i = 5))
     ((sample_users, []), sample_rdb)"
proof -
  note all = revocations_complete [OF mem_wired, of "((sample_users, []), sample_rdb)" 2 5]
  show ?thesis by (rule wp_mono [OF all [THEN conjunct2, THEN conjunct1]]) simp_all
qed

text \<open>The list of a user's sessions is sorted, newest first and by id within the same instant; it
  holds only sessions that were live and the user's, and all that still are.\<close>

theorem list_sessions_exact:
  assumes "auth_wired P db view com U rand idkey p us Q L st rd E s"
    "store_inv Q st (as_refresh_ttl s) (rd w)"
  shows "wp (list_sessions E s uid current) (\<lambda>r w'. com w' = com w \<and> ends (sess Q st (rd w)) (sess Q st (rd w')) \<and>
    on_ok (\<lambda>ys. sorted_wrt (\<lambda>a b. ss_created_at b < ss_created_at a \<or> ss_created_at a = ss_created_at b \<and>
        \<not> str_less (u_string Q (ss_id b)) (u_string Q (ss_id a))) ys \<and>
      (\<forall>y \<in> set ys. \<exists>x. sess Q st (rd w) (ss_id y) = Some x \<and> s_user_id x = uid \<and> y = summary_of current x) \<and>
      (\<forall>i x. sess Q st (rd w') i = Some x \<longrightarrow> s_user_id x = uid \<longrightarrow> summary_of current x \<in> set ys)) r) w"
proof -
  have le: "summary_le Q = (\<lambda>a b. ss_created_at b < ss_created_at a \<or> ss_created_at a = ss_created_at b \<and>
      \<not> str_less (u_string Q (ss_id b)) (u_string Q (ss_id a)))"
    by (auto simp: summary_le_def summary_less_def fun_eq_iff)
  note spec = auth.list_sessions_spec [OF wiredD(1) [OF assms(1)] assms(2) wiredD(2) [OF assms(1)],
      of E, unfolded wiredD(7) [OF assms(1)] le]
  show ?thesis by (rule wp_mono [OF spec]) simp
qed

lemma list_sessions_exact_witness:
  "wp (list_sessions mem_env mem_auth 2 5) (\<lambda>r w'. on_ok (\<lambda>ys.
      \<forall>y \<in> set ys. \<exists>x. sess canonical_uuid mem_store sample_rdb (ss_id y) = Some x \<and> s_user_id x = 2) r)
     ((sample_users, []), sample_rdb)"
proof (rule wp_mono [OF list_sessions_exact [OF mem_wired]], goal_cases)
  case (2 r w)
  then show ?case by (cases r) (simp_all only: on_ok_simps snd_conv, blast)
qed simp

text \<open>C16: every operation of the Redis store keeps the keyspace in order, whatever it returns and
  also when a command fails half way: under a session key that session with its deadline, every live
  session in the index of its user, which outlives it, and its current refresh token naming it.\<close>

theorem store_keeps_invariant:
  assumes "store_ok P L st db" "whole_seconds ttl"
  shows "preserves (store_create P st s ttl multi) (\<lambda>w. store_inv P st ttl (db w)) \<and>
    preserves (store_get P st i) (\<lambda>w. store_inv P st ttl (db w)) \<and>
    preserves (store_list_by_user P st u) (\<lambda>w. store_inv P st ttl (db w)) \<and>
    preserves (store_rotate P st old new now ttl) (\<lambda>w. store_inv P st ttl (db w)) \<and>
    preserves (store_revoke P st i) (\<lambda>w. store_inv P st ttl (db w)) \<and>
    preserves (store_revoke_user P st u) (\<lambda>w. store_inv P st ttl (db w))"
proof -
  note ms = whole_seconds_ms(3) [OF assms(2)]
  show ?thesis
    unfolding preserves_def
    by (blast intro: wp_mono [OF store_create_spec [OF assms(1) _ assms(2)]] wp_mono [OF store_get_spec [OF assms(1)]]
        wp_mono [OF store_list_spec [OF assms(1)]] wp_mono [OF store_rotate_spec [OF assms(1) _ ms]]
        wp_mono [OF store_revoke_spec [OF assms(1)]] wp_mono [OF store_revoke_user_spec [OF assms(1)]])
qed

lemma store_keeps_invariant_witness:
  "store_inv canonical_uuid mem_store month
     (snd (snd (run_state (store_revoke_user canonical_uuid mem_store 2) ((sample_users, []), sample_rdb))))"
  using store_keeps_invariant [OF mem_store_ok whole_month, of sample_session True 5 2 "[]" "''n''" 0]
  by (auto simp: preserves_def wp_fst_snd)

section \<open>Login counters\<close>

text \<open>\<open>Allow\<close> counts the call, in the running window or as the first of a new one, and allows exactly as
  long as the count is within the limit; the counter shows the count afterwards, unless the window
  has passed meanwhile; no session is created or changed.\<close>

theorem allow_counts:
  assumes "store_ok P L st db" "store_inv P st ttl (db w)" "0 < window"
  shows "wp (store_allow st k limit window) (\<lambda>r w'. ends (sess P st (db w)) (sess P st (db w')) \<and>
    on_ok (\<lambda>allowed. \<exists>n. (allowed \<longleftrightarrow> n \<le> limit) \<and> (n = counter st (db w) k + 1 \<or> n = 1) \<and>
      (counter st (db w') k = n \<or> counter st (db w') k = 0)) r) w"
  by (rule wp_mono [OF store_allow_spec [OF assms]]) (simp add: fewer_ends)

lemma allow_counts_witness:
  "wp (store_allow mem_store ''ip:x'' 5 second) (\<lambda>r w'. r \<noteq> Inr True \<or> counter mem_store (snd w') ''ip:x'' \<le> 5)
     ((sample_users, []), sample_rdb)"
proof (rule wp_mono [OF allow_counts [OF mem_store_ok, where ttl = month]], goal_cases)
  case (3 r w')
  then show ?case by (cases r) auto
qed simp_all

text \<open>C21: a counter without a deadline never gets one: \<open>EXPIRE\<close> is sent only for the count 1, so when it
  failed once, the counter goes on for ever, and from the limit on every login with that address or
  account name is refused, however much time passes.\<close>

theorem counter_without_deadline_locks:
  assumes "redis_laws P L (rs_client st) db" "live (db w) (limit_key st k) = Some (IntVal n, None)"
    "1 \<le> n" "limit \<le> n"
  shows "wp (store_allow st k limit window) (\<lambda>r w'. r \<noteq> Inr True \<and>
    (\<exists>m \<ge> n. live (db w') (limit_key st k) = Some (IntVal m, None))) w"
  unfolding store_allow_def wp_bind
proof (rule wp_redis [OF assms(1)], goal_cases)
  have run: "do_incr (limit_key st k) (at_time t (db w)) =
      (if n + 1 < 2 ^ 63 then (Inr (IntReply (n + 1)), put (limit_key st k) (IntVal (n + 1)) None (at_time t (db w)))
       else (Inl (Plain ''ERR increment or decrement would overflow''), at_time t (db w)))"
    "live (at_time t (db w)) (limit_key st k) = Some (IntVal n, None)"
    if "now_ms (db w) \<le> t" for t
    using assms(2) that by (auto simp: do_incr_def lookup_def deadline_def live_at_time)
  {
    case (1 t r w')
    then show ?case
      using run [OF 1(1)] assms(3,4)
      by (auto simp: wp_rules int_reply_def live_put dest!: sym [of "put _ _ _ _"] split: if_splits)
  next
    case (2 t e w')
    then show ?case
      using run [OF 2(1)] by (auto simp: wp_rules int_reply_def live_put split: if_splits)
  }
qed

lemma counter_without_deadline_locks_witness:
  "wp (store_allow mem_store ''ip:x'' 5 second) (\<lambda>r _. r \<noteq> Inr True)
     ((sample_users, []), put (limit_key mem_store ''ip:x'') (IntVal 5) None empty_rdb)"
  by (rule wp_mono [OF counter_without_deadline_locks [where P = canonical_uuid and L = id and db = snd and n = 5]])
     (simp_all add: live_put mem_store_def)

section \<open>Signing and verifying\<close>

text \<open>C20: a token signed by the service verifies with the same service from the moment it was issued until
  its expiry, rounded down to a second, and yields the user, the session and the version it was
  signed for.\<close>

theorem sign_verify_round_trip:
  assumes "jwt_laws J" "uuid_laws Q" "new_tokens J cfg = Inr t" "au_key_id cfg \<noteq> ''''" "sid \<noteq> 0"
    "now \<le> later" "later < numeric_date (now + au_access_token_ttl cfg)"
  shows "wp (tokens_sign Q J new_id t uid sid version now) (\<lambda>r _. on_ok (\<lambda>(access, expires).
    expires = now + au_access_token_ttl cfg \<and>
    (\<exists>c. tokens_verify J t access later = Inr c \<and> u_parse Q (cl_subject c) = Some uid \<and>
       cl_session_id c = sid \<and> cl_version c = version)) r) w"
proof (rule wp_mono [OF tokens_sign_spec], goal_cases)
  case (1 r w')
  have t: "tk_public_keys t (tk_key_id t) = Some (public_of J (tk_private_key t))"
    "tk_key_id t = au_key_id cfg" "tk_ttl t = au_access_token_ttl cfg"
    using new_tokens_Inr [OF assms(3)] by auto
  have str: "u_string Q i \<noteq> ''''" "u_parse Q (u_string Q i) = Some i" for i
    using assms(2) unfolding uuid_laws_def by (metis list.size(3) zero_neq_numeral, metis)
  show ?case
  proof (cases r)
    case (Inr p)
    then obtain access i where p: "p = (access, now + tk_ttl t)" and
      signed: "jwt_sign J (tk_private_key t) \<lparr>jt_alg = alg_eddsa, jt_kid = Some (tk_key_id t),
        jt_claims = sign_claims Q t uid sid version now (u_string Q i)\<rparr> = Some access"
      using 1 by (cases p) auto
    then have dec: "jwt_decode J access = Some \<lparr>jt_alg = alg_eddsa, jt_kid = Some (tk_key_id t),
        jt_claims = sign_claims Q t uid sid version now (u_string Q i)\<rparr>"
      "jwt_signed_by J (public_of J (tk_private_key t)) access"
      using assms(1) unfolding jwt_laws_def by blast+
    have "tokens_verify J t access later = Inr (sign_claims Q t uid sid version now (u_string Q i))"
      unfolding tokens_verify_Inr [OF assms(1)]
      using dec t assms(4-7) str numeric_date_le [of now]
      by (auto simp: sign_claims_def in_window_def)
    then show ?thesis using p Inr t str by (simp add: sign_claims_def)
  qed simp
qed

definition toy_config :: auth_config where
  "toy_config = (cfg_auth default_config)\<lparr>au_issuer := ''goba'', au_audience := ''goba'', au_key_id := ''k''\<rparr>"

lemma sign_verify_round_trip_witness:
  "\<exists>c. tokens_verify toy_jwt toy_tokens ''tok'' (2 * second) = Inr c \<and> cl_session_id c = 5"
proof -
  have new: "new_tokens toy_jwt toy_config = Inr toy_tokens"
    by (auto simp: new_tokens_def toy_jwt_def toy_config_def default_config_def toy_tokens_def fun_eq_iff)
  have run: "run_state (tokens_sign canonical_uuid toy_jwt (State_Monad.return 7) toy_tokens 2 5 1 second) () =
      (Inr (''tok'', second + 900 * second), ())"
    by (simp add: tokens_sign_def toy_token_def [symmetric] toy_jwt_def) (simp add: toy_tokens_def toy_token_def)
  have "second \<le> 2 * second" "2 * second < numeric_date (second + au_access_token_ttl toy_config)"
    "au_key_id toy_config \<noteq> ''''"
    by (simp_all add: numeric_date_def toy_config_def default_config_def)
  from sign_verify_round_trip [OF toy_jwt_laws uuid_laws_canonical new this(3) _ this(1,2),
      where sid = 5 and uid = 2 and version = 1 and new_id = "State_Monad.return 7" and w = "()"]
  show ?thesis by (auto simp: wp_def run)
qed

end
