(* ===== verification/HttpTheorems.thy ===== *)
theory HttpTheorems
  imports HttpApi AuthTheorems
begin

text \<open>
  Properties of the HTTP handlers over the assembled modules: the administration endpoints are
  closed to anyone but an active superuser, the refresh endpoint, and the responses to errors.
\<close>

section \<open>Refusals\<close>

text \<open>A response that reports an error, with the headers and cookies it had before.\<close>

definition refused :: "response \<Rightarrow> response \<Rightarrow> bool" where
  "refused rs rs' \<longleftrightarrow> 400 \<le> rs_status rs' \<and> rs_status rs' \<le> 599 \<and>
     (\<exists>b. rs_body rs' = Some (ErrorBody b) \<and> er_code b \<noteq> '''') \<and>
     rs_cookies rs' = rs_cookies rs \<and> rs_headers rs' = rs_headers rs \<and> rs_written rs'"

lemma response_from_error_status:
  "400 \<le> fst (response_from_error e) \<and> fst (response_from_error e) \<le> 599 \<and>
     er_code (snd (response_from_error e)) \<noteq> ''''"
  by (auto simp: response_from_error_def internal_error_def split: option.split err.split)

lemma write_error_refused [intro]: "\<not> rs_written rs \<Longrightarrow> refused rs (write_error rq e rs)"
  using response_from_error_status [of e]
  by (auto simp: refused_def write_error_def send_def split: prod.splits)

lemma wp_fail_with [wp_rules]: "wp (fail_with rq rs e) Q = Q (write_error rq e rs)"
  by (simp add: fail_with_def wp_rules)

section \<open>Identities\<close>

text \<open>
  What an access token must show for its bearer to act as an administrator: it is valid now, and its
  subject is, at the version of the token, an active superuser of the users table.
\<close>

definition admin_token ::
  "('w, 'sk, 'pk) http_env \<Rightarrow> ('w, 'sk, 'pk) auth_service \<Rightarrow> users \<Rightarrow> time \<Rightarrow> string \<Rightarrow> bool" where
  "admin_token E s T now access \<longleftrightarrow> (\<exists>c uid row.
     tokens_verify (ae_jwt (he_auth E)) (as_tokens s) access now = Inr c \<and>
     u_parse (he_uuid E) (cl_subject c) = Some uid \<and> find_user uid T = Some row \<and>
     c_status row = ''active'' \<and> c_is_superuser row \<and> c_session_version row = cl_version c)"

definition admin_caller ::
  "('w, 'sk, 'pk) http_env \<Rightarrow> ('w, 'sk, 'pk) auth_service \<Rightarrow> users \<Rightarrow> time \<Rightarrow> http_request \<Rightarrow> bool" where
  "admin_caller E s T now rq \<longleftrightarrow>
     (\<exists>access. bearer (rq_header rq ''Authorization'') = Some access \<and> admin_token E s T now access)"

lemma authenticate_leaves:
  assumes "\<And>i. leaves (st_get (as_sessions s) i) f" "\<And>i. leaves (au_get_by_id (as_users s) i) f"
  shows "leaves (authenticate E s access) f"
  unfolding authenticate_def by (intro leaves_rules clock_now_leaves assms)

lemma service_leaves:
  assumes "auth_wired P db view com U rand idkey p us Q L st rd E s"
    "accounts_lawful P db view com U rand idkey p us f" "client_leaves st f"
  shows "leaves (authenticate E s access) f"
proof (rule authenticate_leaves)
  show "leaves (st_get (as_sessions s) i) f" for i
    using wiredD(2) [OF assms(1)] store_get_leaves [OF assms(3)] by (simp add: redis_session_store_def)
  have "us_repository us = user_store db" "pool_leaves db f"
    using assms(2) by (auto simp: accounts_lawful_def)
  then show "leaves (au_get_by_id (as_users s) i) f" for i
    using wiredD(3) [OF assms(1)] by (simp add: auth_users_of_def service_get_by_id_def user_store_leaves)
qed

text \<open>The identity that a bearer token yields, and the frame of the check.\<close>

definition calls_as ::
  "('w, 'sk, 'pk) http_env \<Rightarrow> ('w, 'sk, 'pk) auth_service \<Rightarrow> (uuid \<Rightarrow> session option) \<Rightarrow> users \<Rightarrow> time \<Rightarrow>
    http_request \<Rightarrow> identity \<Rightarrow> bool" where
  "calls_as E s f T now rq i \<longleftrightarrow> (\<exists>access c. bearer (rq_header rq ''Authorization'') = Some access \<and>
     tokens_verify (ae_jwt (he_auth E)) (as_tokens s) access now = Inr c \<and> vouched (he_uuid E) c f T i)"

lemma identity_of_spec:
  assumes "auth_wired P db view com U rand idkey p us Q L st rd (he_auth E) s"
    "store_inv Q st (as_refresh_ttl s) (rd w)" "hd_auth h = Some s"
    "accounts_lawful P db view com U rand idkey p us f" "client_leaves st f"
  shows "wp (identity_of E h rq) (\<lambda>r w'. com w' = com w \<and> f w' = f w \<and> store_inv Q st (as_refresh_ttl s) (rd w') \<and>
    ends (sess Q st (rd w)) (sess Q st (rd w')) \<and>
    on_ok (calls_as E s (sess Q st (rd w')) (com w) (as_clock s w) rq) r) w"
proof (cases "bearer (rq_header rq ''Authorization'')")
  case None
  then show ?thesis using assms(2) by (simp add: identity_of_def wp_rules)
next
  case (Some access)
  have "wp (authenticate (he_auth E) s access) (\<lambda>r w'. f w' = f w \<and> store_inv Q st (as_refresh_ttl s) (rd w') \<and>
      com w' = com w \<and> ends (sess Q st (rd w)) (sess Q st (rd w')) \<and>
      on_ok (\<lambda>i. \<exists>c. tokens_verify (ae_jwt (he_auth E)) (as_tokens s) access (as_clock s w) = Inr c \<and>
        vouched (ae_uuid (he_auth E)) c (sess Q st (rd w')) (com w') i) r) w"
    by (rule wp_trans_leaves [OF auth.authenticate_spec [OF wiredD(1) [OF assms(1)] assms(2)
            wiredD(2,3) [OF assms(1)]] service_leaves [OF assms(1,4,5)]])
  then show ?thesis
    unfolding identity_of_def wp_rules Some assms(3) prod.case option.case
    by (rule wp_mono) (auto simp: on_ok_def calls_as_def Some split: sum.splits)
qed

lemma superuser_of_spec:
  assumes "auth_wired P db view com U rand idkey p us Q L st rd (he_auth E) s"
    "store_inv Q st (as_refresh_ttl s) (rd w)" "hd_auth h = Some s"
    "accounts_lawful P db view com U rand idkey p us f" "client_leaves st f"
  shows "wp (superuser_of E h rq) (\<lambda>r w'. com w' = com w \<and> f w' = f w \<and>
    store_inv Q st (as_refresh_ttl s) (rd w') \<and> ends (sess Q st (rd w)) (sess Q st (rd w')) \<and>
    on_ok (\<lambda>_. admin_caller E s (com w) (as_clock s w) rq) r) w"
  unfolding superuser_of_def wp_rules
  by (rule wp_mono [OF identity_of_spec [OF assms]])
     (auto simp: on_ok_def calls_as_def vouched_def admin_caller_def admin_token_def status_active_def to_user_def
        split: sum.splits if_splits)

section \<open>The administration endpoints\<close>

text \<open>The operations of the handler that are for administrators, with their bound parameters.\<close>

datatype admin_request =
    ListUsers list_users_params
  | CreateUser "err + create_user_request"
  | UpdateUser uuid "err + update_user_request"
  | SetUserStatus uuid "err + set_user_status_request"
  | ResetUserPassword uuid "err + reset_password_request"
  | ArchiveUser uuid
  | ListSystemConfigs
  | GetSystemConfig string
  | CreateSystemConfig "err + system_config_request"
  | UpdateSystemConfig string "err + system_config_request"
  | DeleteSystemConfig string

fun admin_h ::
  "('w, 'sk, 'pk) http_env \<Rightarrow> ('w, 'sk, 'pk) handler \<Rightarrow> http_request \<Rightarrow> response \<Rightarrow> admin_request \<Rightarrow>
    ('w, response) state" where
  "admin_h E h rq rs (ListUsers params) = list_users_h E h rq rs params"
| "admin_h E h rq rs (CreateUser bound) = create_user_h E h rq rs bound"
| "admin_h E h rq rs (UpdateUser uid bound) = update_user_h E h rq rs uid bound"
| "admin_h E h rq rs (SetUserStatus uid bound) = set_user_status_h E h rq rs uid bound"
| "admin_h E h rq rs (ResetUserPassword uid bound) = reset_user_password_h E h rq rs uid bound"
| "admin_h E h rq rs (ArchiveUser uid) = archive_user_h E h rq rs uid"
| "admin_h E h rq rs ListSystemConfigs = list_system_configs_h E h rq rs"
| "admin_h E h rq rs (GetSystemConfig key) = get_system_config_h E h rq rs key"
| "admin_h E h rq rs (CreateSystemConfig bound) = create_system_config_h E h rq rs bound"
| "admin_h E h rq rs (UpdateSystemConfig key bound) = update_system_config_h E h rq rs key bound"
| "admin_h E h rq rs (DeleteSystemConfig key) = delete_system_config_h E h rq rs key"

lemma admin_h_for_superuser: "\<exists>body. admin_h E h rq rs a = for_superuser E h rq rs body"
  by (cases a) (simp_all add: list_users_h_def create_user_h_def update_user_h_def set_user_status_h_def
      reset_user_password_h_def archive_user_h_def list_system_configs_h_def get_system_config_h_def
      create_system_config_h_def update_system_config_h_def delete_system_config_h_def, blast+)

text \<open>C3: a request to any administration endpoint whose bearer token is not a valid one of an
  active superuser, at the version the table has now, is answered with an error; neither the users
  table nor any other part of the world that reading a session and an account leaves alone, such as
  the settings, is touched, and no session is created or changed.\<close>

theorem admin_handlers_guarded:
  assumes "auth_wired P db view com U rand idkey p us Q L st rd (he_auth E) s"
    "store_inv Q st (as_refresh_ttl s) (rd w)" "hd_auth h = Some s"
    "accounts_lawful P db view com U rand idkey p us f" "client_leaves st f"
    "\<not> admin_caller E s (com w) (as_clock s w) rq" "\<not> rs_written rs"
  shows "wp (admin_h E h rq rs a) (\<lambda>rs' w'. refused rs rs' \<and> com w' = com w \<and> f w' = f w \<and>
    ends (sess Q st (rd w)) (sess Q st (rd w'))) w"
proof -
  obtain body where a: "admin_h E h rq rs a = for_superuser E h rq rs body"
    using admin_h_for_superuser by blast
  show ?thesis
    unfolding a for_superuser_def wp_bind
  proof (rule wp_mono [OF superuser_of_spec [OF assms(1-5)]], goal_cases)
    case (1 r w')
    then show ?case using assms(6,7) by (cases r) (auto simp: wp_rules)
  qed
qed

definition mem_http_env :: "(auth_world, unit, unit) http_env" where
  "mem_http_env = \<lparr>he_auth = mem_env, he_parsers = sample_parsers,
     he_frac = (\<lambda>_ _ _. 0), he_detect = (\<lambda>_. ''application/octet-stream'')\<rparr>"

definition mem_handler :: "(auth_world, unit, unit) handler" where
  "mem_handler = new_handler (new_health_service []) (Some mem_auth) None None (Some mem_users)
     (cfg_auth default_config) (cfg_cors default_config)"

definition bearer_request :: "string \<Rightarrow> http_request" where
  "bearer_request token = \<lparr>rq_method = ''GET'', rq_path = ''/api/v1/users'',
     rq_header = (\<lambda>name. if name = ''Authorization'' then ''Bearer '' @ token else ''''),
     rq_cookie = (\<lambda>_. Inl (Plain ''no cookie'')), rq_client_ip = ''127.0.0.1'', rq_context = background\<rparr>"

lemma mem_http_simps [simp]: "he_auth mem_http_env = mem_env" "hd_auth mem_handler = Some mem_auth"
  by (simp_all add: mem_http_env_def mem_handler_def new_handler_def)

lemma mem_frame [simp]:
  "accounts_lawful ascii_pg mem_auth_db (snd \<circ> fst) (fst \<circ> fst) ascii_unicode zero_rand pad_idkey
     default_argon2_params mem_users (\<lambda>_. ())"
  "client_leaves mem_store (\<lambda>_. ())"
  using mem_wired by (auto simp: auth_wired_def auth_lawful_def accounts_lawful_def pool_leaves_def leaves_def
      client_leaves_def)

text \<open>Alice's token is valid, but she is no superuser.\<close>

lemma admin_handlers_guarded_witness:
  "wp (admin_h mem_http_env mem_handler (bearer_request ''tok'') fresh_response (ArchiveUser 1))
     (\<lambda>rs' w'. refused fresh_response rs' \<and> fst (fst w') = sample_users) ((sample_users, []), sample_rdb)"
proof -
  have "\<not> admin_token mem_http_env mem_auth sample_users now ''tok''" for now
    by (auto simp: admin_token_def tokens_verify_Inr [OF toy_jwt_laws] find_user_def sample_users_def sample_row_def)
  then have alice: "\<not> admin_caller mem_http_env mem_auth sample_users now (bearer_request ''tok'')" for now
    by (auto simp: admin_caller_def bearer_def bearer_request_def)
  have wired: "auth_wired ascii_pg mem_auth_db (snd \<circ> fst) (fst \<circ> fst) ascii_unicode zero_rand pad_idkey
     default_argon2_params mem_users canonical_uuid id mem_store snd (he_auth mem_http_env) mem_auth"
    by simp
  show ?thesis
    by (rule wp_mono [OF admin_handlers_guarded [OF wired _ _ mem_frame]])
       (use alice in \<open>simp_all add: fresh_response_def\<close>)
qed

section \<open>The refresh endpoint\<close>

text \<open>The error response with this status and code, and the cookies given.\<close>

definition error_sent :: "int \<Rightarrow> string \<Rightarrow> cookie list \<Rightarrow> response \<Rightarrow> bool" where
  "error_sent status code cookies rs' \<longleftrightarrow> rs_status rs' = status \<and>
     (\<exists>b. rs_body rs' = Some (ErrorBody b) \<and> er_code b = code) \<and> rs_cookies rs' = cookies"

text \<open>The answer to a refresh with \<open>pair\<close>: the new token goes to the cookie, the rest to the body.\<close>

definition refresh_answered :: "('w, 'sk, 'pk) handler \<Rightarrow> token_pair \<Rightarrow> response \<Rightarrow> response \<Rightarrow> bool" where
  "refresh_answered h pair rs rs' \<longleftrightarrow> rs_status rs' = 200 \<and>
     rs_cookies rs' = rs_cookies rs @ [refresh_cookie (hd_config h) (tp_refresh_token pair)] \<and>
     rs_body rs' = Some (TokenBody (token_response_of pair)) \<and>
     map_of (rs_headers rs') ''Cache-Control'' = Some ''no-store''"

lemma error_sentI:
  assumes "answers e (status, code)" "\<not> rs_written rs"
  shows "error_sent status code (rs_cookies rs) (write_error rq e rs)"
  using assms by (auto simp: error_sent_def answers_def write_error_def send_def split: prod.splits)

text \<open>C11: the refresh endpoint refuses a request from an origin that is neither empty
  nor configured, and one without the cookie, and changes nothing.  Otherwise it answers 200 only
  when the cookie holds the current token of a session of an active account: the session then has
  the digest of a new token, which is sent in the HttpOnly cookie alone, and the response is not to
  be cached; else it answers an error and expires the cookie.\<close>

theorem refresh_endpoint:
  assumes "auth_wired P db view com U rand idkey p us Q L st rd (he_auth E) s"
    "store_inv Q st (as_refresh_ttl s) (rd w)" "hd_auth h = Some s" "\<not> rs_written rs"
  shows "wp (refresh_token_h E h rq rs) (\<lambda>rs' w'.
    if \<not> (rq_header rq ''Origin'' = '''' \<or> rq_header rq ''Origin'' \<in> set (co_allow_origins (hd_cors h)))
    then error_sent 403 ''ORIGIN_REJECTED'' (rs_cookies rs) rs' \<and> w' = w
    else case rq_cookie rq (au_refresh_cookie (hd_config h)) of
      Inl _ \<Rightarrow> error_sent 401 ''AUTHENTICATION_FAILED'' (rs_cookies rs) rs' \<and> w' = w
    | Inr token \<Rightarrow> com w' = com w \<and>
        ((\<exists>pair. refreshed L (he_auth E) (com w) (sess Q st (rd w)) (sess Q st (rd w')) token pair \<and>
            refresh_answered h pair rs rs') \<or>
         (refused (delete_refresh_cookie h rs) rs' \<and>
            ck_max_age (last (rs_cookies rs')) = -1 \<and> ck_value (last (rs_cookies rs')) = ''''))) w"
proof (cases "origin_allowed h (rq_header rq ''Origin'')")
  case False
  have "answers origin_rejected (403, ''ORIGIN_REJECTED'')"
    unfolding origin_rejected_def by (rule answers_new_error) simp_all
  then show ?thesis
    using False assms(4)
    by (auto simp: refresh_token_h_def wp_rules origin_allowed_def list_ex_iff intro: error_sentI)
next
  case True
  then have ok: "rq_header rq ''Origin'' = '''' \<or> rq_header rq ''Origin'' \<in> set (co_allow_origins (hd_cors h))"
    by (auto simp: origin_allowed_def list_ex_iff)
  show ?thesis
  proof (cases "rq_cookie rq (au_refresh_cookie (hd_config h))")
    case (Inl e)
    have "answers (auth_http_error (Sentinel InvalidToken)) (401, ''AUTHENTICATION_FAILED'')"
      using auth_error_told [of "Sentinel InvalidToken"] by (simp add: told_def auth_table_def)
    then show ?thesis
      using True ok Inl assms(4) by (auto simp: refresh_token_h_def wp_rules intro: error_sentI)
  next
    case (Inr token)
    have clean: "\<not> rs_written (delete_refresh_cookie h rs)"
      using assms(4) by (simp add: delete_refresh_cookie_def add_cookie_def)
    show ?thesis
      using True ok
      unfolding refresh_token_h_def wp_rules Inr assms(3) not_not if_True if_False simp_thms sum.case option.case
    proof (simp, intro wp_mono [OF refresh_pair [OF assms(1,2)]], goal_cases)
      case (1 r w')
      show ?case
      proof (cases r)
        case (Inl e)
        have "refused (delete_refresh_cookie h rs)
            (write_error rq (auth_http_error e) (delete_refresh_cookie h rs))"
          using clean by blast
        then show ?thesis using 1
          by (auto simp: Inl wp_rules refused_def delete_refresh_cookie_def add_cookie_def expired_cookie_def)
      next
        case (Inr pair)
        then show ?thesis using 1
          by (auto simp: wp_rules refresh_answered_def send_def add_header_def set_refresh_cookie_def
              add_cookie_def update_conv)
      qed
    qed
  qed
qed

lemma refresh_endpoint_witness:
  "wp (refresh_token_h mem_http_env mem_handler ((bearer_request ''tok'')\<lparr>rq_cookie := (\<lambda>_. Inr ''x'')\<rparr>)
       fresh_response)
     (\<lambda>rs' w'. fst (fst w') = sample_users \<and> (\<exists>c. rs_cookies rs' = [c] \<and> ck_http_only c))
     ((sample_users, []), sample_rdb)"
proof -
  have wired: "auth_wired ascii_pg mem_auth_db (snd \<circ> fst) (fst \<circ> fst) ascii_unicode zero_rand pad_idkey
     default_argon2_params mem_users canonical_uuid id mem_store snd (he_auth mem_http_env) mem_auth"
    by simp
  show ?thesis
    by (rule wp_mono [OF refresh_endpoint [OF wired]])
       (auto simp: fresh_response_def bearer_request_def refresh_answered_def refused_def
         delete_refresh_cookie_def add_cookie_def refresh_cookie_def expired_cookie_def split: if_splits)
qed

section \<open>Error responses\<close>

text \<open>C19: an error of a module that carries no application error of its own is answered by the
  table of its module: the status and code of the first sentinel found in it, a message and no
  details; an error with no known sentinel is answered as an internal error, whose response tells
  nothing of it.\<close>

theorem error_responses:
  assumes "as_app_error e = None" "\<not> rs_written rs"
    "(f, table) \<in> {(auth_http_error, auth_table), (user_http_error, user_table),
       (file_http_error, file_table), (system_config_http_error, system_config_table)}"
  shows "error_sent (fst (told table e)) (snd (told table e)) (rs_cookies rs) (write_error rq (f e) rs) \<and>
    ((\<forall>(s, _) \<in> set table. \<not> err_is s e) \<longrightarrow>
       write_error rq (f e) rs = write_error rq (Plain '''') rs)"
proof -
  have "answers (f e) (told table e)"
    using assms(1,3) auth_error_told user_error_told file_error_told system_config_error_told by auto
  moreover have "f e = e" if "\<forall>(s, _) \<in> set table. \<not> err_is s e"
    using that assms(3)
    by (auto simp: auth_http_error_def auth_table_def user_http_error_def user_table_def file_http_error_def
        file_table_def system_config_http_error_def system_config_table_def)
  moreover have "response_from_error e = response_from_error (Plain '''')"
    using assms(1) by (simp add: response_from_error_def)
  ultimately show ?thesis
    using error_sentI [of "f e" "fst (told table e)" "snd (told table e)" rs rq] assms(2)
    by (auto simp: write_error_def)
qed

lemma error_responses_witness:
  "error_sent 409 ''USER_CONFLICT'' []
     (write_error (bearer_request ''tok'') (user_http_error (Wrapped ''create'' [Sentinel EmailConflict])) fresh_response)"
  using error_responses [of "Wrapped ''create'' [Sentinel EmailConflict]" fresh_response user_http_error user_table
      "bearer_request ''tok''"]
  by (simp add: told_def user_table_def fresh_response_def)

section \<open>Closing an account\<close>

text \<open>A database whose pool and transactions leave a part of the world alone, such as Redis.\<close>

definition db_leaves :: "'w database \<Rightarrow> ('w \<Rightarrow> 'o) \<Rightarrow> bool" where
  "db_leaves db f \<longleftrightarrow> pool_leaves db f \<and> (\<forall>w. wp (db_begin db) (\<lambda>r w'. f w' = f w \<and>
     on_ok (\<lambda>tx. (\<forall>st. leaves (db_exec (tx_dbtx tx) st) f) \<and> leaves (tx_commit tx) f \<and>
       leaves (tx_rollback tx) f) r) w)"

lemma repository_leaves:
  assumes "\<And>st. leaves (db_exec c st) f"
  shows "leaves (r_get_by_id (repository_of c) uid) f" "leaves (r_set_status (repository_of c) uid new now) f"
    "leaves (r_update_password (repository_of c) uid h now) f"
    "leaves (r_lock_superuser_changes (repository_of c)) f"
    "leaves (r_count_active_superusers (repository_of c)) f"
  by (auto simp: repository_of_def repo_get_by_id_def repo_set_status_def repo_update_password_def
      repo_lock_superuser_changes_def repo_count_active_superusers_def mapped_def wrapped_def q_user_def
      q_exec_def q_count_def query_defs intro!: leaves_rules assms)

lemma within_transaction_leaves:
  assumes "db_leaves db f" "\<And>c. (\<And>st. leaves (db_exec c st) f) \<Longrightarrow> leaves (fn (repository_of c)) f"
  shows "leaves (within_transaction db (Some fn)) f"
  unfolding leaves_def
proof
  fix w
  have "wp (within_transaction db (Some fn)) (\<lambda>_ w'. f w' = f w) w"
    unfolding within_transaction_def option.case wp_bind
  proof (rule wp_mono [OF assms(1) [unfolded db_leaves_def, THEN conjunct2, rule_format]], goal_cases)
    case (1 b w1)
    show ?case
    proof (cases b)
      case (Inr tx)
      have tx: "\<And>st. leaves (db_exec (tx_dbtx tx) st) f" "leaves (tx_commit tx) f" "leaves (tx_rollback tx) f"
        using 1 by (auto simp: Inr)
      have "leaves (do {
          result \<leftarrow> do {
            r \<leftarrow> fn (repository_of (tx_dbtx tx));
            case r of
              Inl e \<Rightarrow> State_Monad.return (Inl e)
            | Inr x \<Rightarrow> do {
                c \<leftarrow> tx_commit tx;
                case c of
                  Inl e \<Rightarrow> State_Monad.return (Inl (Wrapped ''commit user transaction failed'' [e]))
                | Inr _ \<Rightarrow> State_Monad.return (Inr x) } };
          _ \<leftarrow> tx_rollback tx;
          State_Monad.return result }) f"
        by (intro leaves_rules tx assms(2))
      from leavesD [OF this, of w1] show ?thesis using 1 by (simp add: Inr wp_bind)
    qed (use 1 in \<open>simp add: wp_rules\<close>)
  qed
  then show "wp (within_transaction db (Some fn)) (\<lambda>_ w'. f w' = f w) w" .
qed

lemma service_changes_leave:
  assumes "db_leaves db f" "us_repository us = user_store db" "us_unit_of_work us = user_uow db"
    "us_passwords us = passwords U rand idkey p" "\<And>n. leaves (rand n) f"
  shows "leaves (service_set_status us uid new) f" "leaves (reset_password us uid pwd) f"
    "leaves (change_password us uid old pwd) f"
proof -
  have pool: "pool_leaves db f" using assms(1) by (simp add: db_leaves_def)
  show "leaves (service_set_status us uid new) f"
    unfolding service_set_status_def protect_last_superuser_def assms(3) user_uow_def unit_of_work.simps protect_body_def
    by (intro leaves_rules within_transaction_leaves [OF assms(1)] clock_now_leaves repository_leaves)
  have store: "leaves (r_update_password (us_repository us) uid h now) f"
      "leaves (r_get_by_id (us_repository us) uid) f" for h now
    using pool unfolding assms(2) user_store_def pool_leaves_def by (auto intro: repository_leaves)
  show reset: "leaves (reset_password us uid pwd) f" for pwd
    unfolding reset_password_def assms(4) passwords_def password_manager.simps
    by (intro leaves_rules store clock_now_leaves hash_password_leaves assms(5))
  show "leaves (change_password us uid old pwd) f"
    unfolding change_password_def assms(4) passwords_def password_manager.simps
    by (intro leaves_rules store reset)
qed

definition no_session_of :: "(uuid \<Rightarrow> session option) \<Rightarrow> uuid \<Rightarrow> bool" where
  "no_session_of f uid \<longleftrightarrow> (\<forall>i x. f i = Some x \<longrightarrow> s_user_id x \<noteq> uid)"

lemma write_error_status [simp]: "\<not> rs_written rs \<Longrightarrow> (rs_status (write_error rq e rs) < 400) = False"
  using write_error_refused [of rs rq e] by (simp add: refused_def)

definition revoke_and ::
  "('w, 'sk, 'pk) auth_service \<Rightarrow> uuid \<Rightarrow> http_request \<Rightarrow> response \<Rightarrow> (err \<Rightarrow> err) \<Rightarrow> response \<Rightarrow>
    ('w, response) state" where
  "revoke_and s uid rq rs g ok = do {
     v \<leftarrow> auth_revoke_user s uid;
     case v of Inl e \<Rightarrow> fail_with rq rs (g e) | Inr _ \<Rightarrow> State_Monad.return ok }"

lemma change_then_revoke:
  assumes "auth_wired P db view com U rand idkey p us Q L st rd E s"
    "store_inv Q st (as_refresh_ttl s) (rd w)" "leaves m rd" "\<not> rs_written rs"
    "wp m (\<lambda>r _. \<forall>u. r = Inr u \<longrightarrow> k u = revoke_and s uid rq rs g' (ok u)) w"
  shows "wp (do {
      r \<leftarrow> m;
      case r of Inl e \<Rightarrow> fail_with rq rs (g e) | Inr u \<Rightarrow> k u })
    (\<lambda>rs' w'. rs_status rs' < 400 \<longrightarrow> no_session_of (sess Q st (rd w')) uid) w"
  unfolding wp_bind
proof (rule wp_mono [OF wp_trans_leaves [OF assms(5,3)]], goal_cases)
  case (1 r w1)
  show ?case
  proof (cases r)
    case (Inl e)
    then show ?thesis using assms(4) by (simp add: wp_rules)
  next
    case (Inr u)
    then have k: "k u = revoke_and s uid rq rs g' (ok u)" and inv: "store_inv Q st (as_refresh_ttl s) (rd w1)"
      using 1 assms(2) by auto
    show ?thesis
      unfolding Inr sum.case k revoke_and_def wp_bind
    proof (rule wp_mono [OF auth.revoke_user_spec [OF wiredD(1) [OF assms(1)] inv wiredD(2) [OF assms(1)]]], goal_cases)
      case (1 v w2)
      then show ?case using assms(4) by (cases v) (simp_all add: wp_rules no_session_of_def)
    qed
  qed
qed

lemma as_superuser:
  assumes "auth_wired P db view com U rand idkey p us Q L st rd (he_auth E) s"
    "store_inv Q st (as_refresh_ttl s) (rd w)" "hd_auth h = Some s" "\<not> rs_written rs"
    "\<And>i w1. com w1 = com w \<Longrightarrow> store_inv Q st (as_refresh_ttl s) (rd w1) \<Longrightarrow>
       wp (body i) (\<lambda>rs' w'. rs_status rs' < 400 \<longrightarrow> R w') w1"
  shows "wp (for_superuser E h rq rs body) (\<lambda>rs' w'. rs_status rs' < 400 \<longrightarrow> R w') w"
proof -
  have "accounts_lawful P db view com U rand idkey p us (\<lambda>_. ())" "client_leaves st (\<lambda>_. ())"
    using assms(1) by (auto simp: auth_wired_def auth_lawful_def accounts_lawful_def pool_leaves_def leaves_def
        client_leaves_def)
  note check = superuser_of_spec [OF assms(1-3) this]
  show ?thesis
    unfolding for_superuser_def wp_bind
  proof (rule wp_mono [OF check], goal_cases)
    case (1 r w1)
    then show ?case using assms(4,5) by (cases r) (simp_all add: wp_rules)
  qed
qed

lemma as_caller:
  assumes "auth_wired P db view com U rand idkey p us Q L st rd (he_auth E) s"
    "store_inv Q st (as_refresh_ttl s) (rd w)" "hd_auth h = Some s" "\<not> rs_written rs"
    "\<And>i w1. com w1 = com w \<Longrightarrow> store_inv Q st (as_refresh_ttl s) (rd w1) \<Longrightarrow>
       \<exists>access c. bearer (rq_header rq ''Authorization'') = Some access \<and>
         tokens_verify (ae_jwt (he_auth E)) (as_tokens s) access (as_clock s w) = Inr c \<and>
         u_parse Q (cl_subject c) = Some (u_id (id_user i)) \<Longrightarrow>
       wp (body i) (\<lambda>rs' w'. rs_status rs' < 400 \<longrightarrow> R w') w1"
  shows "wp (for_identity E h rq rs body) (\<lambda>rs' w'. rs_status rs' < 400 \<longrightarrow> R w') w"
proof -
  have "accounts_lawful P db view com U rand idkey p us (\<lambda>_. ())" "client_leaves st (\<lambda>_. ())"
    using assms(1) by (auto simp: auth_wired_def auth_lawful_def accounts_lawful_def pool_leaves_def leaves_def
        client_leaves_def)
  note check = identity_of_spec [OF assms(1-3) this]
  show ?thesis
    unfolding for_identity_def wp_bind
  proof (rule wp_mono [OF check], goal_cases)
    case (1 r w1)
    show ?case
    proof (cases r)
      case (Inr i)
      then obtain access c where "bearer (rq_header rq ''Authorization'') = Some access"
          "tokens_verify (ae_jwt (he_auth E)) (as_tokens s) access (as_clock s w) = Inr c"
          "vouched (he_uuid E) c (sess Q st (rd w1)) (com w) i"
        using 1 by (auto simp: calls_as_def)
      moreover from this have "u_parse Q (cl_subject c) = Some (u_id (id_user i))"
        using wiredD(7) [OF assms(1)] by (auto simp: vouched_def to_user_def find_user_id)
      ultimately show ?thesis using assms(5) [of w1 i] 1 by (auto simp: Inr)
    qed (use assms(4) in \<open>simp add: wp_rules\<close>)
  qed
qed

lemma status_result:
  assumes "database_laws (run_user_stmt P) db view com" "us_unit_of_work us = user_uow db" "users_ok P (com w)"
  shows "wp (service_set_status us uid new) (\<lambda>r _. \<forall>u. r = Inr u \<longrightarrow> u_id u = uid \<and> u_status u = new) w"
proof (rule wp_mono [OF set_status_spec [OF assms]], goal_cases)
  case (1 r w')
  show ?case
  proof (intro allI impI)
    fix u assume "r = Inr u"
    with 1 obtain row where row: "find_user uid (com w) = Some row"
        and res: "if c_status row = new then u = to_user row \<and> com w' = com w
          else \<exists>now. u = to_user (bumped (with_status new now row)) \<and>
            find_user uid (com w') = Some (bumped (with_status new now row))" by (simp only: sum.case) blast
    show "u_id u = uid \<and> u_status u = new"
    proof (cases "c_status row = new")
      case False
      with res obtain now where "u = to_user (bumped (with_status new now row))" by auto
      then show ?thesis using find_user_id [OF row] by (simp add: to_user_def bumped_def with_status_def)
    qed (use res find_user_id [OF row] in \<open>simp add: to_user_def\<close>)
  qed
qed

text \<open>The handler over the assembled services.\<close>

definition api_wired ::
  "pg_ops \<Rightarrow> 'w database \<Rightarrow> ('w \<Rightarrow> users) \<Rightarrow> ('w \<Rightarrow> users) \<Rightarrow> unicode \<Rightarrow> 'w rand_read \<Rightarrow> argon2_idkey \<Rightarrow>
    argon2_params \<Rightarrow> 'w user_service \<Rightarrow> uuid_pkg \<Rightarrow> (int \<Rightarrow> int) \<Rightarrow> 'w redis_store \<Rightarrow> ('w \<Rightarrow> rdb) \<Rightarrow>
    ('w, 'sk, 'pk) http_env \<Rightarrow> ('w, 'sk, 'pk) auth_service \<Rightarrow> ('w, 'sk, 'pk) handler \<Rightarrow> bool" where
  "api_wired P db view com U rand idkey p us Q L st rd E s h \<longleftrightarrow>
     auth_wired P db view com U rand idkey p us Q L st rd (he_auth E) s \<and> hd_auth h = Some s \<and>
     hd_users h = Some us \<and> us_unit_of_work us = user_uow db \<and> db_leaves db rd"

lemma api_wiredD:
  assumes "api_wired P db view com U rand idkey p us Q L st rd E s h"
  shows "auth_wired P db view com U rand idkey p us Q L st rd (he_auth E) s" "hd_auth h = Some s"
    "hd_users h = Some us" "us_unit_of_work us = user_uow db" "database_laws (run_user_stmt P) db view com"
    "leaves (service_set_status us uid new) rd" "leaves (reset_password us uid pwd) rd"
    "leaves (change_password us uid old pwd) rd"
proof -
  have db: "db_leaves db rd" "us_repository us = user_store db" "us_unit_of_work us = user_uow db"
      "us_passwords us = passwords U rand idkey p" "\<And>n. leaves (rand n) rd"
    using assms by (auto simp: api_wired_def auth_wired_def auth_lawful_def accounts_lawful_def)
  show "leaves (service_set_status us uid new) rd" "leaves (reset_password us uid pwd) rd"
      "leaves (change_password us uid old pwd) rd"
    using service_changes_leave [OF db] by simp_all
qed (use assms in \<open>auto simp: api_wired_def auth_wired_def auth_lawful_def accounts_lawful_def\<close>)

lemma archive_ends_sessions:
  assumes "api_wired P db view com U rand idkey p us Q L st rd E s h"
    "store_inv Q st (as_refresh_ttl s) (rd w)" "\<not> rs_written rs"
  shows "wp (archive_user_h E h rq rs uid) (\<lambda>rs' w'. rs_status rs' < 400 \<longrightarrow>
    no_session_of (sess Q st (rd w')) uid) w"
  unfolding archive_user_h_def
proof (rule as_superuser [OF api_wiredD(1) [OF assms(1)] assms(2) api_wiredD(2) [OF assms(1)] assms(3)], goal_cases)
  case (1 i w1)
  show ?case
    unfolding api_wiredD(2,3) [OF assms(1)] prod.case option.case service_archive_def
    by (rule change_then_revoke [OF api_wiredD(1) [OF assms(1)] 1(2) api_wiredD(6) [OF assms(1)] assms(3),
          where g' = "\<lambda>e. e" and ok = "\<lambda>_. send_status 204 rs"])
       (simp add: revoke_and_def wp_def split: prod.splits)
qed

lemma reset_ends_sessions:
  assumes "api_wired P db view com U rand idkey p us Q L st rd E s h"
    "store_inv Q st (as_refresh_ttl s) (rd w)" "\<not> rs_written rs"
  shows "wp (reset_user_password_h E h rq rs uid pwd) (\<lambda>rs' w'. rs_status rs' < 400 \<longrightarrow>
    no_session_of (sess Q st (rd w')) uid) w"
  unfolding reset_user_password_h_def
proof (rule as_superuser [OF api_wiredD(1) [OF assms(1)] assms(2) api_wiredD(2) [OF assms(1)] assms(3)], goal_cases)
  case (1 i w1)
  show ?case
  proof (cases pwd)
    case (Inr request)
    show ?thesis
      unfolding Inr sum.case api_wiredD(2,3) [OF assms(1)] prod.case option.case
      by (rule change_then_revoke [OF api_wiredD(1) [OF assms(1)] 1(2) api_wiredD(7) [OF assms(1)] assms(3),
            where g' = "\<lambda>e. e" and ok = "\<lambda>_. send_status 204 rs"])
         (simp add: revoke_and_def wp_def split: prod.splits)
  qed (use assms(3) in \<open>simp add: wp_rules\<close>)
qed

lemma status_change_ends_sessions:
  assumes "api_wired P db view com U rand idkey p us Q L st rd E s h"
    "store_inv Q st (as_refresh_ttl s) (rd w)" "\<not> rs_written rs" "users_ok P (com w)"
  shows "wp (set_user_status_h E h rq rs uid bound) (\<lambda>rs' w'. rs_status rs' < 400 \<longrightarrow>
    (\<exists>q. bound = Inr q \<and> (tq_status q = ''active'' \<or> no_session_of (sess Q st (rd w')) uid))) w"
  unfolding set_user_status_h_def
proof (rule as_superuser [OF api_wiredD(1) [OF assms(1)] assms(2) api_wiredD(2) [OF assms(1)] assms(3)], goal_cases)
  case (1 i w1)
  show ?case
  proof (cases bound)
    case (Inr q)
    show ?thesis
    proof (cases "tq_status q = ''active''")
      case False
      have "wp (service_set_status us uid (tq_status q))
        (\<lambda>r _. \<forall>u. r = Inr u \<longrightarrow> u_id u = uid \<and> u_status u = tq_status q) w1"
        by (rule status_result [OF api_wiredD(5,4) [OF assms(1)]]) (use 1 assms(4) in simp)
      then have k: "wp (service_set_status us uid (tq_status q)) (\<lambda>r _. \<forall>u. r = Inr u \<longrightarrow>
          (if u_status u \<noteq> status_active then revoke_and s (u_id u) rq rs (\<lambda>e. e) (send 200 (UserBody (user_response u)) rs)
           else State_Monad.return (send 200 (UserBody (user_response u)) rs)) =
          revoke_and s uid rq rs (\<lambda>e. e) (send 200 (UserBody (user_response u)) rs)) w1"
        by (rule wp_mono) (use False in \<open>simp add: status_active_def\<close>)
      show ?thesis
        unfolding Inr sum.case api_wiredD(2,3) [OF assms(1)] prod.case option.case
        by (rule wp_mono [OF change_then_revoke [OF api_wiredD(1) [OF assms(1)] 1(2) api_wiredD(6) [OF assms(1)]
                assms(3) k, unfolded revoke_and_def]]) simp
    next
      case True
      then show ?thesis unfolding wp_def by (simp add: Inr split: prod.splits)
    qed
  qed (use assms(3) in \<open>simp add: wp_rules\<close>)
qed

lemma password_change_ends_sessions:
  assumes "api_wired P db view com U rand idkey p us Q L st rd E s h"
    "store_inv Q st (as_refresh_ttl s) (rd w)" "\<not> rs_written rs"
  shows "wp (change_password_h E h rq rs pwds) (\<lambda>rs' w'. rs_status rs' < 400 \<longrightarrow>
    (\<exists>access c own. bearer (rq_header rq ''Authorization'') = Some access \<and>
       tokens_verify (ae_jwt (he_auth E)) (as_tokens s) access (as_clock s w) = Inr c \<and>
       u_parse Q (cl_subject c) = Some own \<and> no_session_of (sess Q st (rd w')) own)) w"
  unfolding change_password_h_def
proof (rule as_caller [OF api_wiredD(1) [OF assms(1)] assms(2) api_wiredD(2) [OF assms(1)] assms(3)], goal_cases)
  case (1 i w1)
  show ?case
  proof (cases pwds)
    case (Inr request)
    have k: "wp (change_password us (u_id (id_user i)) (cq_old_password request) (cq_new_password request))
        (\<lambda>r _. \<forall>u. r = Inr u \<longrightarrow> revoke_and s (u_id (id_user i)) rq rs auth_http_error
            (send_status 204 (delete_refresh_cookie h rs)) =
          revoke_and s (u_id (id_user i)) rq rs auth_http_error (send_status 204 (delete_refresh_cookie h rs))) w1"
      by (simp add: wp_def split: prod.splits)
    show ?thesis
      unfolding Inr sum.case api_wiredD(2,3) [OF assms(1)] prod.case option.case
      by (rule wp_mono [OF change_then_revoke [OF api_wiredD(1) [OF assms(1)] 1(2) api_wiredD(8) [OF assms(1)]
              assms(3) k, unfolded revoke_and_def]]) (use 1(3) in blast)
  qed (use assms(3) in \<open>simp add: wp_rules\<close>)
qed

text \<open>C4: an endpoint that archives an account, takes its active status, or gives it a new
  password, and that reports success, has left no session of the account in Redis; a failure of
  either half is reported as an error.\<close>

theorem closing_endpoints_end_sessions:
  assumes "api_wired P db view com U rand idkey p us Q L st rd E s h"
    "store_inv Q st (as_refresh_ttl s) (rd w)" "users_ok P (com w)" "\<not> rs_written rs"
  shows "wp (archive_user_h E h rq rs uid) (\<lambda>rs' w'. rs_status rs' < 400 \<longrightarrow>
      no_session_of (sess Q st (rd w')) uid) w \<and>
    wp (set_user_status_h E h rq rs uid bound) (\<lambda>rs' w'. rs_status rs' < 400 \<longrightarrow>
      (\<exists>q. bound = Inr q \<and> (tq_status q = ''active'' \<or> no_session_of (sess Q st (rd w')) uid))) w \<and>
    wp (reset_user_password_h E h rq rs uid pwd) (\<lambda>rs' w'. rs_status rs' < 400 \<longrightarrow>
      no_session_of (sess Q st (rd w')) uid) w \<and>
    wp (change_password_h E h rq rs pwds) (\<lambda>rs' w'. rs_status rs' < 400 \<longrightarrow>
      (\<exists>access c own. bearer (rq_header rq ''Authorization'') = Some access \<and>
         tokens_verify (ae_jwt (he_auth E)) (as_tokens s) access (as_clock s w) = Inr c \<and>
         u_parse Q (cl_subject c) = Some own \<and> no_session_of (sess Q st (rd w')) own)) w"
  using archive_ends_sessions [OF assms(1,2,4)] status_change_ends_sessions [OF assms(1,2,4,3)]
    reset_ends_sessions [OF assms(1,2,4)] password_change_ends_sessions [OF assms(1,2,4)] by blast

lemma closing_endpoints_end_sessions_witness:
  "wp (archive_user_h mem_http_env mem_handler (bearer_request ''tok'') fresh_response 2)
     (\<lambda>rs' w'. rs_status rs' < 400 \<longrightarrow> no_session_of (sess canonical_uuid mem_store (snd w')) 2)
     ((sample_users, []), sample_rdb)"
proof -
  have "db_leaves mem_auth_db snd"
    by (simp add: db_leaves_def pool_leaves_def mem_auth_db_def on_users_leaves wp_rules)
  then have "api_wired ascii_pg mem_auth_db (snd \<circ> fst) (fst \<circ> fst) ascii_unicode zero_rand pad_idkey
     default_argon2_params mem_users canonical_uuid id mem_store snd mem_http_env mem_auth mem_handler"
    by (simp add: api_wired_def) (simp add: mem_handler_def new_handler_def mem_users_def)
  from closing_endpoints_end_sessions [OF this, THEN conjunct1, of "((sample_users, []), sample_rdb)"]
  show ?thesis by (simp add: fresh_response_def)
qed

end
