(* ===== verification/ConfigLoad.thy ===== *)
theory ConfigLoad
  imports ConfigTypes GoDuration
begin

text \<open>
  Loading the start-up configuration, \<open>internal/platform/config/config.go\<close>: the defaults, then a
  YAML file, then the variables of \<open>.env\<close> and of the process environment, then the secrets kept in
  files, then the checks.  The machine is a record \<open>host\<close>: \<open>os.ReadFile\<close>, \<open>os.Environ\<close> and the
  two steps of the YAML libraries (koanf reads a document, mapstructure writes it over the
  configuration).  \<open>strconv\<close> and \<open>net.ParseCIDR\<close> are modelled.
\<close>

section \<open>Package strconv\<close>

definition parse_bool :: "string \<Rightarrow> bool option" where
  "parse_bool s =
     (if s \<in> {''1'', ''t'', ''T'', ''TRUE'', ''true'', ''True''} then Some True
      else if s \<in> {''0'', ''f'', ''F'', ''FALSE'', ''false'', ''False''} then Some False
      else None)"

text \<open>\<open>ParseInt(s, 10, bits)\<close>; \<open>Atoi\<close> is the case of 64 bits.\<close>

definition parse_int :: "nat \<Rightarrow> string \<Rightarrow> int option" where
  "parse_int bits s =
     (let neg = (s \<noteq> [] \<and> hd s = CHR ''-'');
          ds = (if s \<noteq> [] \<and> hd s \<in> {CHR ''-'', CHR ''+''} then tl s else s);
          n = (if neg then - int (digits_value ds) else int (digits_value ds))
      in if ds = '''' \<or> \<not> list_all is_digit ds then None
         else if - (2 ^ (bits - 1)) \<le> n \<and> n < 2 ^ (bits - 1) then Some n else None)"

section \<open>net.ParseCIDR\<close>

text \<open>Only whether the text is accepted matters.  Octets have no leading zero; a mask may have.\<close>

definition ipv4_octet :: "string \<Rightarrow> bool" where
  "ipv4_octet s \<longleftrightarrow> s \<noteq> '''' \<and> list_all is_digit s \<and> digits_value s \<le> 255 \<and>
     (length s = 1 \<or> hd s \<noteq> CHR ''0'')"

definition ipv4_text :: "string \<Rightarrow> bool" where
  "ipv4_text s \<longleftrightarrow> length (split_on CHR ''.'' s) = 4 \<and> list_all ipv4_octet (split_on CHR ''.'' s)"

definition hex_text :: "char \<Rightarrow> bool" where
  "hex_text c \<longleftrightarrow> is_digit c \<or> (97 \<le> byte c \<and> byte c < 103) \<or> (65 \<le> byte c \<and> byte c < 71)"

text \<open>
  The loop of \<open>parseIPv6\<close>: \<open>i\<close> bytes are filled and \<open>gap\<close> says whether \<open>::\<close> has been seen; the
  result is the same pair at the end and the text left.
\<close>

function ipv6_groups :: "nat \<Rightarrow> bool \<Rightarrow> string \<Rightarrow> (nat \<times> bool \<times> string) option" where
  "ipv6_groups i gap s =
     (if 16 \<le> i then Some (i, gap, s)
      else
        let g = takeWhile hex_text s; rest = dropWhile hex_text s in
        if g = '''' \<or> 4 < length g then None
        else (case rest of
            [] \<Rightarrow> Some (i + 2, gap, [])
          | c # t \<Rightarrow>
              if c = CHR ''.'' then
                (if (\<not> gap \<and> i \<noteq> 12) \<or> 16 < i + 4 \<or> \<not> ipv4_text s then None else Some (i + 4, gap, []))
              else if c \<noteq> CHR '':'' then None
              else (case t of
                  [] \<Rightarrow> None
                | d # u \<Rightarrow>
                    if d = CHR '':'' then
                      (if gap then None
                       else if u = [] then Some (i + 2, True, []) else ipv6_groups (i + 2) True u)
                    else ipv6_groups (i + 2) gap t)))"
  by pat_completeness auto
termination by (relation "measure (\<lambda>(i, _, _). 16 - i)") auto

declare ipv6_groups.simps [simp del]

definition ipv6_text :: "string \<Rightarrow> bool" where
  "ipv6_text s \<longleftrightarrow>
     (let gap = has_prefix ''::'' s; t = (if gap then drop 2 s else s) in
      (gap \<and> t = []) \<or>
      (case ipv6_groups 0 gap t of
         None \<Rightarrow> False
       | Some (i, gap', left) \<Rightarrow> left = [] \<and> (if i < 16 then gap' else \<not> gap')))"

text \<open>\<open>netip.ParseAddr\<close> looks at the first of the three characters; a zone is refused by \<open>ParseCIDR\<close>.\<close>

definition parse_cidr :: "string \<Rightarrow> bool" where
  "parse_cidr s \<longleftrightarrow>
     (case cut CHR ''/'' s of
        None \<Rightarrow> False
      | Some (addr, bits) \<Rightarrow>
          let v4 = (case dropWhile (\<lambda>c. c \<notin> {CHR ''.'', CHR '':'', CHR ''%''}) addr of
              [] \<Rightarrow> False | c # _ \<Rightarrow> c = CHR ''.'')
          in CHR ''%'' \<notin> set addr \<and> (if v4 then ipv4_text addr else CHR '':'' \<in> set addr \<and> ipv6_text addr) \<and>
             bits \<noteq> '''' \<and> list_all is_digit bits \<and> digits_value bits \<le> (if v4 then 32 else 128))"

section \<open>The environment\<close>

text \<open>\<open>loadDotEnv\<close> on the text of the file: the assignments, in order.\<close>

definition trim_quotes :: "string \<Rightarrow> string" where
  "trim_quotes s = trim_list (\<lambda>c. c = CHR 34 \<or> c = CHR 39) s"

fun dot_env_lines :: "unicode \<Rightarrow> string list \<Rightarrow> err + string list" where
  "dot_env_lines U [] = Inr []"
| "dot_env_lines U (line0 # lines) =
     (let line = trim_space U line0 in
      if line = '''' \<or> has_prefix ''#'' line then dot_env_lines U lines
      else (case cut CHR ''='' line of
          None \<Rightarrow> Inl (Plain ''.env has an invalid line'')
        | Some (key, v) \<Rightarrow>
            if key = '''' then Inl (Plain ''.env has an invalid line'')
            else (case dot_env_lines U lines of
                Inl e \<Rightarrow> Inl e
              | Inr vs \<Rightarrow> Inr ((key @ ''='' @ trim_quotes (trim_space U v)) # vs))))"

definition load_dot_env :: "unicode \<Rightarrow> (string \<Rightarrow> err + string) \<Rightarrow> string \<Rightarrow> err + string list" where
  "load_dot_env U read path =
     (case read path of Inl e \<Rightarrow> Inl e | Inr content \<Rightarrow> dot_env_lines U (split_on CHR 10 content))"

text \<open>The map built at the head of \<open>applyEnvironment\<close>: a later assignment wins.\<close>

definition environment :: "string \<Rightarrow> string list \<Rightarrow> string \<Rightarrow> string option" where
  "environment prefix vals = fold (\<lambda>v env.
     case cut CHR ''='' v of
       None \<Rightarrow> env
     | Some (key, raw) \<Rightarrow> if has_prefix prefix key then env(key \<mapsto> raw) else env) vals Map.empty"

definition invalid_environment_value :: "string \<Rightarrow> err" where
  "invalid_environment_value key = Plain (''environment variable '' @ key @ '' is malformed'')"

text \<open>
  A setter: the variable is left alone when absent, refused when its text does not parse, and
  stored with the field update \<open>upd\<close> otherwise.
\<close>

type_synonym setter = "(string \<Rightarrow> string option) \<Rightarrow> string \<Rightarrow> config \<Rightarrow> err + config"

definition set_parsed :: "(string \<Rightarrow> 'a option) \<Rightarrow> string \<Rightarrow> (('a \<Rightarrow> 'a) \<Rightarrow> config \<Rightarrow> config) \<Rightarrow> setter" where
  "set_parsed parse key upd env prefix cfg =
     (case env (prefix @ key) of
        None \<Rightarrow> Inr cfg
      | Some v \<Rightarrow>
          (case parse v of
             None \<Rightarrow> Inl (invalid_environment_value (prefix @ key))
           | Some x \<Rightarrow> Inr (upd (\<lambda>_. x) cfg)))"

definition split_strings :: "unicode \<Rightarrow> string \<Rightarrow> string list" where
  "split_strings U v =
     (if v = '''' then []
      else filter (\<lambda>x. x \<noteq> '''') (map (trim_space U) (split_on CHR '','' v)))"

fun key_file_entries :: "unicode \<Rightarrow> string list \<Rightarrow> (string \<times> string) list \<Rightarrow> (string \<times> string) list option" where
  "key_file_entries U [] acc = Some acc"
| "key_file_entries U (entry # entries) acc =
     (case cut CHR ''='' (trim_space U entry) of
        None \<Rightarrow> None
      | Some (k, p) \<Rightarrow>
          (let key_id = trim_space U k; path = trim_space U p in
           if key_id = '''' \<or> path = '''' then None
           else if key_id \<in> fst ` set acc then None
           else key_file_entries U entries (acc @ [(key_id, path)])))"

definition parse_key_file_entries :: "unicode \<Rightarrow> string \<Rightarrow> (string \<times> string) list option" where
  "parse_key_file_entries U v =
     (if trim_space U v = '''' then Some [] else key_file_entries U (split_on CHR '','' v) [])"

abbreviation set_string where "set_string \<equiv> set_parsed Some"
abbreviation set_bool where "set_bool \<equiv> set_parsed parse_bool"
abbreviation set_int where "set_int \<equiv> set_parsed (parse_int 64)"
abbreviation set_int32 where "set_int32 \<equiv> set_parsed (parse_int 32)"
abbreviation set_int64 where "set_int64 \<equiv> set_parsed (parse_int 64)"
abbreviation set_duration where "set_duration frac \<equiv> set_parsed (parse_duration frac)"
abbreviation set_strings where "set_strings U \<equiv> set_parsed (\<lambda>v. Some (split_strings U v))"
abbreviation set_secret where "set_secret \<equiv> set_parsed (\<lambda>v. Some (Secret v))"

text \<open>Fields of nested records.\<close>

abbreviation at_app where "at_app f \<equiv> \<lambda>u. cfg_app_update (f u)"
abbreviation at_server where "at_server f \<equiv> \<lambda>u. cfg_server_update (f u)"
abbreviation at_database where "at_database f \<equiv> \<lambda>u. cfg_database_update (f u)"
abbreviation at_redis where "at_redis f \<equiv> \<lambda>u. cfg_redis_update (f u)"
abbreviation at_cors where "at_cors f \<equiv> \<lambda>u. cfg_cors_update (f u)"
abbreviation at_auth where "at_auth f \<equiv> \<lambda>u. cfg_auth_update (f u)"
abbreviation at_file where "at_file f \<equiv> \<lambda>u. cfg_file_update (f u)"
abbreviation at_log where "at_log f \<equiv> \<lambda>u. cfg_log_update (f u)"
abbreviation at_modules where "at_modules f \<equiv> \<lambda>u. cfg_modules_update (f u)"

text \<open>The setters in the order of the code.\<close>

definition server_setters :: "(nat \<Rightarrow> nat \<Rightarrow> nat \<Rightarrow> nat) \<Rightarrow> unicode \<Rightarrow> setter list" where
  "server_setters frac U = [
     set_string ''APP_ENVIRONMENT'' (at_app a_environment_update),
     set_bool ''APP_DEBUG'' (at_app a_debug_update),
     set_bool ''APP_DOCS_ENABLED'' (at_app a_docs_enabled_update),
     set_string ''SERVER_HOST'' (at_server sv_host_update),
     set_int ''SERVER_PORT'' (at_server sv_port_update),
     set_duration frac ''SERVER_HEADER_TIMEOUT'' (at_server sv_header_timeout_update),
     set_duration frac ''SERVER_READ_TIMEOUT'' (at_server sv_read_timeout_update),
     set_duration frac ''SERVER_WRITE_TIMEOUT'' (at_server sv_write_timeout_update),
     set_duration frac ''SERVER_IDLE_TIMEOUT'' (at_server sv_idle_timeout_update),
     set_duration frac ''SERVER_SHUTDOWN_TIMEOUT'' (at_server sv_shutdown_timeout_update),
     set_duration frac ''AUTH_ACCESS_TOKEN_TTL'' (at_auth au_access_token_ttl_update),
     set_duration frac ''AUTH_REFRESH_TOKEN_TTL'' (at_auth au_refresh_token_ttl_update),
     set_strings U ''SERVER_TRUSTED_PROXIES'' (at_server sv_trusted_proxies_update)]"

definition database_setters :: "(nat \<Rightarrow> nat \<Rightarrow> nat \<Rightarrow> nat) \<Rightarrow> setter list" where
  "database_setters frac = [
     set_string ''DATABASE_HOST'' (at_database d_host_update),
     set_int ''DATABASE_PORT'' (at_database d_port_update),
     set_string ''DATABASE_NAME'' (at_database d_name_update),
     set_string ''DATABASE_USER'' (at_database d_user_update),
     set_secret ''DATABASE_PASSWORD'' (at_database d_password_update),
     set_string ''DATABASE_PASSWORD_FILE'' (at_database d_password_file_update),
     set_string ''DATABASE_SSL_MODE'' (at_database d_ssl_mode_update),
     set_int32 ''DATABASE_MIN_CONNECTIONS'' (at_database d_min_connections_update),
     set_int32 ''DATABASE_MAX_CONNECTIONS'' (at_database d_max_connections_update),
     set_duration frac ''DATABASE_CONNECT_TIMEOUT'' (at_database d_connect_timeout_update),
     set_duration frac ''DATABASE_HEALTH_TIMEOUT'' (at_database d_health_timeout_update)]"

definition redis_setters :: "(nat \<Rightarrow> nat \<Rightarrow> nat \<Rightarrow> nat) \<Rightarrow> setter list" where
  "redis_setters frac = [
     set_string ''REDIS_HOST'' (at_redis r_host_update),
     set_int ''REDIS_PORT'' (at_redis r_port_update),
     set_int ''REDIS_DATABASE'' (at_redis r_database_update),
     set_string ''REDIS_USERNAME'' (at_redis r_username_update),
     set_secret ''REDIS_PASSWORD'' (at_redis r_password_update),
     set_string ''REDIS_PASSWORD_FILE'' (at_redis r_password_file_update),
     set_bool ''REDIS_TLS'' (at_redis r_tls_update),
     set_int ''REDIS_POOL_SIZE'' (at_redis r_pool_size_update),
     set_int ''REDIS_MIN_IDLE_CONNECTIONS'' (at_redis r_min_idle_conns_update),
     set_duration frac ''REDIS_CONNECT_TIMEOUT'' (at_redis r_connect_timeout_update),
     set_duration frac ''REDIS_READ_TIMEOUT'' (at_redis r_read_timeout_update),
     set_duration frac ''REDIS_WRITE_TIMEOUT'' (at_redis r_write_timeout_update),
     set_duration frac ''REDIS_HEALTH_TIMEOUT'' (at_redis r_health_timeout_update)]"

definition auth_setters :: "(nat \<Rightarrow> nat \<Rightarrow> nat \<Rightarrow> nat) \<Rightarrow> unicode \<Rightarrow> setter list" where
  "auth_setters frac U = [
     set_strings U ''CORS_ALLOW_ORIGINS'' (at_cors co_allow_origins_update),
     set_strings U ''CORS_ALLOW_METHODS'' (at_cors co_allow_methods_update),
     set_strings U ''CORS_ALLOW_HEADERS'' (at_cors co_allow_headers_update),
     set_bool ''CORS_ALLOW_CREDENTIALS'' (at_cors co_allow_credentials_update),
     set_string ''AUTH_ISSUER'' (at_auth au_issuer_update),
     set_string ''AUTH_AUDIENCE'' (at_auth au_audience_update),
     set_secret ''AUTH_PRIVATE_KEY'' (at_auth au_private_key_update),
     set_string ''AUTH_PRIVATE_KEY_FILE'' (at_auth au_private_key_file_update),
     set_string ''AUTH_KEY_ID'' (at_auth au_key_id_update),
     set_parsed (parse_key_file_entries U) ''AUTH_VERIFICATION_KEY_FILES''
       (at_auth au_verification_key_files_update),
     set_string ''AUTH_REFRESH_COOKIE'' (at_auth au_refresh_cookie_update),
     set_string ''AUTH_COOKIE_DOMAIN'' (at_auth au_cookie_domain_update),
     set_string ''AUTH_COOKIE_PATH'' (at_auth au_cookie_path_update),
     set_bool ''AUTH_COOKIE_SECURE'' (at_auth au_cookie_secure_update),
     set_string ''AUTH_COOKIE_SAME_SITE'' (at_auth au_cookie_same_site_update),
     set_int ''AUTH_LOGIN_ATTEMPTS'' (at_auth au_login_attempts_update),
     set_duration frac ''AUTH_LOGIN_WINDOW'' (at_auth au_login_window_update)]"

definition module_setters :: "(nat \<Rightarrow> nat \<Rightarrow> nat \<Rightarrow> nat) \<Rightarrow> setter list" where
  "module_setters frac = [
     set_string ''LOG_LEVEL'' (at_log l_level_update),
     set_string ''LOG_FORMAT'' (at_log l_format_update),
     set_string ''FILE_STORAGE_PATH'' (at_file f_storage_path_update),
     set_int64 ''FILE_IMAGE_MAX_BYTES'' (at_file f_image_max_bytes_update),
     set_bool ''FILE_VIDEO_ENABLED'' (at_file f_video_enabled_update),
     set_int64 ''FILE_VIDEO_MAX_BYTES'' (at_file f_video_max_bytes_update),
     set_duration frac ''SYSTEMCONFIG_CACHE_TTL'' cfg_cache_ttl_update,
     set_bool ''MODULES_FILE'' (at_modules m_file_update),
     set_bool ''MODULES_SYSTEMCONFIG'' (at_modules m_system_config_update)]"

fun run_setters :: "setter list \<Rightarrow> (string \<Rightarrow> string option) \<Rightarrow> string \<Rightarrow> config \<Rightarrow> err + config" where
  "run_setters [] env prefix cfg = Inr cfg"
| "run_setters (f # fs) env prefix cfg =
     (case f env prefix cfg of Inl e \<Rightarrow> Inl e | Inr cfg' \<Rightarrow> run_setters fs env prefix cfg')"

definition apply_environment ::
  "(nat \<Rightarrow> nat \<Rightarrow> nat \<Rightarrow> nat) \<Rightarrow> unicode \<Rightarrow> string list \<Rightarrow> string \<Rightarrow> config \<Rightarrow> err + config" where
  "apply_environment frac U vals prefix cfg =
     run_setters (server_setters frac U @ database_setters frac @ redis_setters frac @
       auth_setters frac U @ module_setters frac) (environment prefix vals) prefix cfg"

section \<open>Secrets\<close>

definition resolve_secret :: "(string \<Rightarrow> err + string) \<Rightarrow> string \<Rightarrow> secret \<Rightarrow> string \<Rightarrow> err + secret" where
  "resolve_secret read key s path =
     (if s \<noteq> Secret '''' \<and> path \<noteq> '''' then Inl (Plain (key @ '' and '' @ key @ ''_FILE exclude each other''))
      else if path = '''' then Inr s
      else (case read path of
          Inl e \<Rightarrow> Inl (Wrapped (''read '' @ key @ ''_FILE'') [e])
        | Inr content \<Rightarrow> Inr (Secret (trim_right [CHR 13, CHR 10] content))))"

text \<open>The map of key files in the order in which the loop visits it.\<close>

fun read_key_files :: "(string \<Rightarrow> err + string) \<Rightarrow> (string \<times> string) list \<Rightarrow> err + (string \<times> string) list" where
  "read_key_files read [] = Inr []"
| "read_key_files read ((key_id, path) # files) =
     (case read path of
        Inl e \<Rightarrow> Inl (Wrapped (''read AUTH_VERIFICATION_KEY_FILES['' @ key_id @ '']'') [e])
      | Inr content \<Rightarrow>
          (case read_key_files read files of
             Inl e \<Rightarrow> Inl e
           | Inr keys \<Rightarrow> Inr ((key_id, trim_right [CHR 13, CHR 10] content) # keys)))"

definition resolve_auth_keys :: "(string \<Rightarrow> err + string) \<Rightarrow> string \<Rightarrow> auth_config \<Rightarrow> err + auth_config" where
  "resolve_auth_keys read prefix a =
     (if au_private_key a \<noteq> Secret '''' \<and> au_private_key_file a \<noteq> '''' then
        Inl (Plain (prefix @ ''AUTH_PRIVATE_KEY and '' @ prefix @ ''AUTH_PRIVATE_KEY_FILE exclude each other''))
      else
        (case (if au_private_key_file a = '''' then Inr a
               else (case read (au_private_key_file a) of
                   Inl e \<Rightarrow> Inl (Wrapped (''read '' @ prefix @ ''AUTH_PRIVATE_KEY_FILE'') [e])
                 | Inr content \<Rightarrow> Inr (a\<lparr>au_private_key := Secret (trim_right [CHR 13, CHR 10] content)\<rparr>))) of
           Inl e \<Rightarrow> Inl e
         | Inr a1 \<Rightarrow>
             if au_verification_key_files a1 = [] then Inr a1
             else (case read_key_files read (au_verification_key_files a1) of
                 Inl e \<Rightarrow> Inl e
               | Inr keys \<Rightarrow> Inr (a1\<lparr>au_verification_keys := keys\<rparr>))))"

definition resolve_secrets :: "(string \<Rightarrow> err + string) \<Rightarrow> string \<Rightarrow> config \<Rightarrow> err + config" where
  "resolve_secrets read prefix cfg =
     (case resolve_secret read (prefix @ ''DATABASE_PASSWORD'') (d_password (cfg_database cfg))
             (d_password_file (cfg_database cfg)) of
        Inl e \<Rightarrow> Inl e
      | Inr dp \<Rightarrow>
          (case resolve_secret read (prefix @ ''REDIS_PASSWORD'') (r_password (cfg_redis cfg))
                  (r_password_file (cfg_redis cfg)) of
             Inl e \<Rightarrow> Inl e
           | Inr rp \<Rightarrow>
               (case resolve_auth_keys read prefix (cfg_auth cfg) of
                  Inl e \<Rightarrow> Inl e
                | Inr a \<Rightarrow> Inr (cfg\<lparr>cfg_database := (cfg_database cfg)\<lparr>d_password := dp\<rparr>,
                    cfg_redis := (cfg_redis cfg)\<lparr>r_password := rp\<rparr>, cfg_auth := a\<rparr>))))"

section \<open>Validate\<close>

text \<open>The checks in the order of the code, each with its message: what is refused.\<close>

definition port_bad :: "int \<Rightarrow> bool" where
  "port_bad p \<longleftrightarrow> p < 1 \<or> 65535 < p"

definition ssl_modes :: "string set" where
  "ssl_modes = {''disable'', ''allow'', ''prefer'', ''require'', ''verify-ca'', ''verify-full''}"

definition server_checks :: "config \<Rightarrow> (bool \<times> string) list" where
  "server_checks c = (let a = cfg_app c; s = cfg_server c; d = cfg_database c; r = cfg_redis c in [
     (a_environment a \<notin> {''development'', ''test'', ''production''},
        ''app.environment must be development, test or production''),
     (port_bad (sv_port s), ''server.port must be between 1 and 65535''),
     (sv_host s = '''', ''server.host must not be empty''),
     (d_host d = '''', ''database.host must not be empty''),
     (port_bad (d_port d), ''database.port must be between 1 and 65535''),
     (d_name d = '''' \<or> d_user d = '''', ''database.name and database.user must not be empty''),
     (d_ssl_mode d \<notin> ssl_modes, ''database.ssl_mode is invalid''),
     (d_min_connections d < 0 \<or> d_max_connections d < 1 \<or> d_max_connections d < d_min_connections d,
        ''database pool size is invalid''),
     (d_connect_timeout d \<le> 0 \<or> d_health_timeout d \<le> 0, ''database timeouts must be positive''),
     (r_host r = '''' \<or> port_bad (r_port r) \<or> r_database r < 0, ''redis connection is invalid''),
     (r_pool_size r < 1 \<or> r_min_idle_conns r < 0 \<or> r_pool_size r < r_min_idle_conns r,
        ''redis pool size is invalid''),
     (r_connect_timeout r \<le> 0 \<or> r_read_timeout r \<le> 0 \<or> r_write_timeout r \<le> 0 \<or> r_health_timeout r \<le> 0,
        ''redis timeouts must be positive''),
     (sv_header_timeout s \<le> 0, ''server.header_timeout must be positive''),
     (sv_read_timeout s \<le> 0, ''server.read_timeout must be positive''),
     (sv_write_timeout s \<le> 0, ''server.write_timeout must be positive''),
     (sv_idle_timeout s \<le> 0, ''server.idle_timeout must be positive''),
     (sv_shutdown_timeout s \<le> 0, ''server.shutdown_timeout must be positive'')])"

definition auth_checks :: "unicode \<Rightarrow> config \<Rightarrow> (bool \<times> string) list" where
  "auth_checks U c = (let a = cfg_auth c in [
     (au_access_token_ttl a \<le> 0 \<or> au_refresh_token_ttl a \<le> au_access_token_ttl a,
        ''auth.access_token_ttl must be positive and below auth.refresh_token_ttl''),
     (au_refresh_token_ttl a \<le> 0, ''auth.refresh_token_ttl must be positive''),
     (au_issuer a = '''' \<or> au_audience a = '''' \<or> au_key_id a = '''',
        ''auth issuer, audience and key_id must not be empty''),
     (au_key_id a \<in> fst ` set (au_verification_key_files a),
        ''auth.verification_key_files must not contain the current key_id''),
     (list_ex (\<lambda>(k, p). trim_space U k = '''' \<or> trim_space U p = '''') (au_verification_key_files a),
        ''auth.verification_key_files has an invalid entry''),
     (au_refresh_cookie a = '''' \<or> au_cookie_path a = '''' \<or>
        au_cookie_same_site a \<notin> {''strict'', ''lax'', ''none''}, ''auth cookie settings are invalid''),
     (au_cookie_same_site a = ''none'' \<and> \<not> au_cookie_secure a,
        ''auth.cookie_same_site none needs a secure cookie''),
     (au_login_attempts a < 1 \<or> au_login_window a \<le> 0, ''auth login limits are invalid'')])"

definition production_checks :: "config \<Rightarrow> (bool \<times> string) list" where
  "production_checks c = (let production = (a_environment (cfg_app c) = ''production'') in [
     (co_allow_credentials (cfg_cors c) \<and> ''*'' \<in> set (co_allow_origins (cfg_cors c)),
        ''cors.allow_origins with a wildcard excludes credentials''),
     (list_ex (\<lambda>p. \<not> parse_cidr p) (sv_trusted_proxies (cfg_server c)),
        ''server.trusted_proxies has an invalid CIDR''),
     (production \<and> a_debug (cfg_app c), ''app.debug must be false in production''),
     (production \<and> a_docs_enabled (cfg_app c), ''app.docs_enabled must be false in production''),
     (production \<and> d_ssl_mode (cfg_database c) \<in> {''disable'', ''allow'', ''prefer''},
        ''database.ssl_mode must use TLS in production''),
     (production \<and> (\<not> au_cookie_secure (cfg_auth c) \<or> \<not> r_tls (cfg_redis c)),
        ''auth cookie and Redis must use secure transport in production'')])"

definition module_checks :: "unicode \<Rightarrow> config \<Rightarrow> (bool \<times> string) list" where
  "module_checks U c = [
     (l_format (cfg_log c) \<noteq> ''json'' \<and> l_format (cfg_log c) \<noteq> ''text'', ''log.format must be json or text''),
     (trim_space U (f_storage_path (cfg_file c)) = '''', ''file.storage_path must not be empty''),
     (f_image_max_bytes (cfg_file c) < 512 \<or> 100 * 2 ^ 20 < f_image_max_bytes (cfg_file c),
        ''file.image_max_bytes is out of range''),
     (f_video_max_bytes (cfg_file c) < 512 \<or> 2 * 2 ^ 30 < f_video_max_bytes (cfg_file c),
        ''file.video_max_bytes is out of range''),
     (cfg_cache_ttl c \<le> 0 \<or> 24 * 3600 * second < cfg_cache_ttl c, ''systemconfig.cache_ttl is out of range'')]"

fun first_failure :: "(bool \<times> string) list \<Rightarrow> err + unit" where
  "first_failure [] = Inr ()"
| "first_failure ((bad, msg) # rest) = (if bad then Inl (Plain msg) else first_failure rest)"

definition validate_config :: "unicode \<Rightarrow> config \<Rightarrow> err + unit" where
  "validate_config U c =
     first_failure (server_checks c @ auth_checks U c @ production_checks c @ module_checks U c)"

section \<open>Load\<close>

record load_options =
  lo_file :: string
  lo_prefix :: string
  lo_dot_env :: bool

record 'd host =
  h_read :: "string \<Rightarrow> err + string"
  h_environ :: "string list"
  h_yaml :: "string \<Rightarrow> err + 'd"
  h_decode :: "'d \<Rightarrow> config \<Rightarrow> err + config"

definition load_yaml :: "'d host \<Rightarrow> config \<Rightarrow> string \<Rightarrow> err + config" where
  "load_yaml H cfg path =
     (case h_yaml H path of
        Inl e \<Rightarrow> Inl (Wrapped ''read configuration file'' [e])
      | Inr doc \<Rightarrow>
          (case h_decode H doc cfg of
             Inl e \<Rightarrow> Inl (Wrapped ''parse configuration file'' [e])
           | Inr cfg' \<Rightarrow> Inr cfg'))"

text \<open>The assignments in force: those of \<open>.env\<close> when asked for, before those of the process.\<close>

definition load_values :: "unicode \<Rightarrow> 'd host \<Rightarrow> load_options \<Rightarrow> err + string list" where
  "load_values U H opts =
     (if \<not> lo_dot_env opts then Inr (h_environ H)
      else (case load_dot_env U (h_read H) ''.env'' of
          Inl e \<Rightarrow> if err_is NotExist e then Inr (h_environ H) else Inl (Wrapped ''read .env'' [e])
        | Inr vs \<Rightarrow> Inr (vs @ h_environ H)))"

definition load_prefix :: "load_options \<Rightarrow> string" where
  "load_prefix opts = (if lo_prefix opts = '''' then ''GOBA_'' else lo_prefix opts)"

definition load_config ::
  "unicode \<Rightarrow> (nat \<Rightarrow> nat \<Rightarrow> nat \<Rightarrow> nat) \<Rightarrow> 'd host \<Rightarrow> load_options \<Rightarrow> err + config" where
  "load_config U frac H opts =
     (case (if lo_file opts = '''' then Inr default_config else load_yaml H default_config (lo_file opts)) of
        Inl e \<Rightarrow> Inl e
      | Inr c0 \<Rightarrow>
          (case load_values U H opts of
             Inl e \<Rightarrow> Inl e
           | Inr vals \<Rightarrow>
               (case apply_environment frac U vals (load_prefix opts) c0 of
                  Inl e \<Rightarrow> Inl e
                | Inr c1 \<Rightarrow>
                    if lo_dot_env opts \<and> a_environment (cfg_app c1) = ''production''
                    then Inl (Plain ''app.environment production excludes .env'')
                    else (case resolve_secrets (h_read H) (load_prefix opts) c1 of
                        Inl e \<Rightarrow> Inl e
                      | Inr c2 \<Rightarrow>
                          (case validate_config U c2 of Inl e \<Rightarrow> Inl e | Inr _ \<Rightarrow> Inr c2)))))"

end
