(* ===== verification/ConfigOverlay.thy ===== *)
theory ConfigOverlay
  imports ConfigLoad
begin

text \<open>
  What the environment does to a configuration, field by field, as a reference for the sequence of
  setters of \<open>applyEnvironment\<close>, and what each resolved secret is.
\<close>

section \<open>The reference\<close>

definition override :: "(string \<Rightarrow> 'a option) \<Rightarrow> (string \<Rightarrow> string option) \<Rightarrow> string \<Rightarrow> 'a \<Rightarrow> 'a" where
  "override parse env key old =
     (case env key of None \<Rightarrow> old | Some v \<Rightarrow> (case parse v of None \<Rightarrow> old | Some x \<Rightarrow> x))"

definition overlay_app :: "(string \<Rightarrow> string option) \<Rightarrow> string \<Rightarrow> app_config \<Rightarrow> app_config" where
  "overlay_app env p a = a\<lparr>
     a_environment := override Some env (p @ ''APP_ENVIRONMENT'') (a_environment a),
     a_debug := override parse_bool env (p @ ''APP_DEBUG'') (a_debug a),
     a_docs_enabled := override parse_bool env (p @ ''APP_DOCS_ENABLED'') (a_docs_enabled a)\<rparr>"

definition overlay_server ::
  "(nat \<Rightarrow> nat \<Rightarrow> nat \<Rightarrow> nat) \<Rightarrow> unicode \<Rightarrow> (string \<Rightarrow> string option) \<Rightarrow> string \<Rightarrow> server_config \<Rightarrow> server_config" where
  "overlay_server frac U env p s = s\<lparr>
     sv_host := override Some env (p @ ''SERVER_HOST'') (sv_host s),
     sv_port := override (parse_int 64) env (p @ ''SERVER_PORT'') (sv_port s),
     sv_header_timeout := override (parse_duration frac) env (p @ ''SERVER_HEADER_TIMEOUT'') (sv_header_timeout s),
     sv_read_timeout := override (parse_duration frac) env (p @ ''SERVER_READ_TIMEOUT'') (sv_read_timeout s),
     sv_write_timeout := override (parse_duration frac) env (p @ ''SERVER_WRITE_TIMEOUT'') (sv_write_timeout s),
     sv_idle_timeout := override (parse_duration frac) env (p @ ''SERVER_IDLE_TIMEOUT'') (sv_idle_timeout s),
     sv_shutdown_timeout := override (parse_duration frac) env (p @ ''SERVER_SHUTDOWN_TIMEOUT'') (sv_shutdown_timeout s),
     sv_trusted_proxies := override (\<lambda>v. Some (split_strings U v)) env (p @ ''SERVER_TRUSTED_PROXIES'')
       (sv_trusted_proxies s)\<rparr>"

definition overlay_database ::
  "(nat \<Rightarrow> nat \<Rightarrow> nat \<Rightarrow> nat) \<Rightarrow> (string \<Rightarrow> string option) \<Rightarrow> string \<Rightarrow> database_config \<Rightarrow> database_config" where
  "overlay_database frac env p d = d\<lparr>
     d_host := override Some env (p @ ''DATABASE_HOST'') (d_host d),
     d_port := override (parse_int 64) env (p @ ''DATABASE_PORT'') (d_port d),
     d_name := override Some env (p @ ''DATABASE_NAME'') (d_name d),
     d_user := override Some env (p @ ''DATABASE_USER'') (d_user d),
     d_password := override (\<lambda>v. Some (Secret v)) env (p @ ''DATABASE_PASSWORD'') (d_password d),
     d_password_file := override Some env (p @ ''DATABASE_PASSWORD_FILE'') (d_password_file d),
     d_ssl_mode := override Some env (p @ ''DATABASE_SSL_MODE'') (d_ssl_mode d),
     d_min_connections := override (parse_int 32) env (p @ ''DATABASE_MIN_CONNECTIONS'') (d_min_connections d),
     d_max_connections := override (parse_int 32) env (p @ ''DATABASE_MAX_CONNECTIONS'') (d_max_connections d),
     d_connect_timeout := override (parse_duration frac) env (p @ ''DATABASE_CONNECT_TIMEOUT'') (d_connect_timeout d),
     d_health_timeout := override (parse_duration frac) env (p @ ''DATABASE_HEALTH_TIMEOUT'') (d_health_timeout d)\<rparr>"

definition overlay_redis ::
  "(nat \<Rightarrow> nat \<Rightarrow> nat \<Rightarrow> nat) \<Rightarrow> (string \<Rightarrow> string option) \<Rightarrow> string \<Rightarrow> redis_config \<Rightarrow> redis_config" where
  "overlay_redis frac env p r = r\<lparr>
     r_host := override Some env (p @ ''REDIS_HOST'') (r_host r),
     r_port := override (parse_int 64) env (p @ ''REDIS_PORT'') (r_port r),
     r_database := override (parse_int 64) env (p @ ''REDIS_DATABASE'') (r_database r),
     r_username := override Some env (p @ ''REDIS_USERNAME'') (r_username r),
     r_password := override (\<lambda>v. Some (Secret v)) env (p @ ''REDIS_PASSWORD'') (r_password r),
     r_password_file := override Some env (p @ ''REDIS_PASSWORD_FILE'') (r_password_file r),
     r_tls := override parse_bool env (p @ ''REDIS_TLS'') (r_tls r),
     r_pool_size := override (parse_int 64) env (p @ ''REDIS_POOL_SIZE'') (r_pool_size r),
     r_min_idle_conns := override (parse_int 64) env (p @ ''REDIS_MIN_IDLE_CONNECTIONS'') (r_min_idle_conns r),
     r_connect_timeout := override (parse_duration frac) env (p @ ''REDIS_CONNECT_TIMEOUT'') (r_connect_timeout r),
     r_read_timeout := override (parse_duration frac) env (p @ ''REDIS_READ_TIMEOUT'') (r_read_timeout r),
     r_write_timeout := override (parse_duration frac) env (p @ ''REDIS_WRITE_TIMEOUT'') (r_write_timeout r),
     r_health_timeout := override (parse_duration frac) env (p @ ''REDIS_HEALTH_TIMEOUT'') (r_health_timeout r)\<rparr>"

definition overlay_cors :: "unicode \<Rightarrow> (string \<Rightarrow> string option) \<Rightarrow> string \<Rightarrow> cors_config \<Rightarrow> cors_config" where
  "overlay_cors U env p c = c\<lparr>
     co_allow_origins := override (\<lambda>v. Some (split_strings U v)) env (p @ ''CORS_ALLOW_ORIGINS'') (co_allow_origins c),
     co_allow_methods := override (\<lambda>v. Some (split_strings U v)) env (p @ ''CORS_ALLOW_METHODS'') (co_allow_methods c),
     co_allow_headers := override (\<lambda>v. Some (split_strings U v)) env (p @ ''CORS_ALLOW_HEADERS'') (co_allow_headers c),
     co_allow_credentials := override parse_bool env (p @ ''CORS_ALLOW_CREDENTIALS'') (co_allow_credentials c)\<rparr>"

definition overlay_auth ::
  "(nat \<Rightarrow> nat \<Rightarrow> nat \<Rightarrow> nat) \<Rightarrow> unicode \<Rightarrow> (string \<Rightarrow> string option) \<Rightarrow> string \<Rightarrow> auth_config \<Rightarrow> auth_config" where
  "overlay_auth frac U env p a = a\<lparr>
     au_access_token_ttl := override (parse_duration frac) env (p @ ''AUTH_ACCESS_TOKEN_TTL'') (au_access_token_ttl a),
     au_refresh_token_ttl := override (parse_duration frac) env (p @ ''AUTH_REFRESH_TOKEN_TTL'') (au_refresh_token_ttl a),
     au_issuer := override Some env (p @ ''AUTH_ISSUER'') (au_issuer a),
     au_audience := override Some env (p @ ''AUTH_AUDIENCE'') (au_audience a),
     au_private_key := override (\<lambda>v. Some (Secret v)) env (p @ ''AUTH_PRIVATE_KEY'') (au_private_key a),
     au_private_key_file := override Some env (p @ ''AUTH_PRIVATE_KEY_FILE'') (au_private_key_file a),
     au_key_id := override Some env (p @ ''AUTH_KEY_ID'') (au_key_id a),
     au_verification_key_files := override (parse_key_file_entries U) env (p @ ''AUTH_VERIFICATION_KEY_FILES'')
       (au_verification_key_files a),
     au_refresh_cookie := override Some env (p @ ''AUTH_REFRESH_COOKIE'') (au_refresh_cookie a),
     au_cookie_domain := override Some env (p @ ''AUTH_COOKIE_DOMAIN'') (au_cookie_domain a),
     au_cookie_path := override Some env (p @ ''AUTH_COOKIE_PATH'') (au_cookie_path a),
     au_cookie_secure := override parse_bool env (p @ ''AUTH_COOKIE_SECURE'') (au_cookie_secure a),
     au_cookie_same_site := override Some env (p @ ''AUTH_COOKIE_SAME_SITE'') (au_cookie_same_site a),
     au_login_attempts := override (parse_int 64) env (p @ ''AUTH_LOGIN_ATTEMPTS'') (au_login_attempts a),
     au_login_window := override (parse_duration frac) env (p @ ''AUTH_LOGIN_WINDOW'') (au_login_window a)\<rparr>"

definition overlay ::
  "(nat \<Rightarrow> nat \<Rightarrow> nat \<Rightarrow> nat) \<Rightarrow> unicode \<Rightarrow> (string \<Rightarrow> string option) \<Rightarrow> string \<Rightarrow> config \<Rightarrow> config" where
  "overlay frac U env p c = c\<lparr>
     cfg_app := overlay_app env p (cfg_app c),
     cfg_server := overlay_server frac U env p (cfg_server c),
     cfg_database := overlay_database frac env p (cfg_database c),
     cfg_redis := overlay_redis frac env p (cfg_redis c),
     cfg_cors := overlay_cors U env p (cfg_cors c),
     cfg_auth := overlay_auth frac U env p (cfg_auth c),
     cfg_file := (cfg_file c)\<lparr>
       f_storage_path := override Some env (p @ ''FILE_STORAGE_PATH'') (f_storage_path (cfg_file c)),
       f_image_max_bytes := override (parse_int 64) env (p @ ''FILE_IMAGE_MAX_BYTES'') (f_image_max_bytes (cfg_file c)),
       f_video_enabled := override parse_bool env (p @ ''FILE_VIDEO_ENABLED'') (f_video_enabled (cfg_file c)),
       f_video_max_bytes := override (parse_int 64) env (p @ ''FILE_VIDEO_MAX_BYTES'') (f_video_max_bytes (cfg_file c))\<rparr>,
     cfg_cache_ttl := override (parse_duration frac) env (p @ ''SYSTEMCONFIG_CACHE_TTL'') (cfg_cache_ttl c),
     cfg_log := (cfg_log c)\<lparr>
       l_level := override Some env (p @ ''LOG_LEVEL'') (l_level (cfg_log c)),
       l_format := override Some env (p @ ''LOG_FORMAT'') (l_format (cfg_log c))\<rparr>,
     cfg_modules := (cfg_modules c)\<lparr>
       m_file := override parse_bool env (p @ ''MODULES_FILE'') (m_file (cfg_modules c)),
       m_system_config := override parse_bool env (p @ ''MODULES_SYSTEMCONFIG'') (m_system_config (cfg_modules c))\<rparr>\<rparr>"

text \<open>The variables whose text must parse, in the order in which they are read.\<close>

definition typed_variables :: "(nat \<Rightarrow> nat \<Rightarrow> nat \<Rightarrow> nat) \<Rightarrow> unicode \<Rightarrow> (string \<times> (string \<Rightarrow> bool)) list" where
  "typed_variables frac U =
     (let b = (\<lambda>v. parse_bool v \<noteq> None); i = (\<lambda>v. parse_int 64 v \<noteq> None); i32 = (\<lambda>v. parse_int 32 v \<noteq> None);
          d = (\<lambda>v. parse_duration frac v \<noteq> None) in
      [(''APP_DEBUG'', b), (''APP_DOCS_ENABLED'', b), (''SERVER_PORT'', i), (''SERVER_HEADER_TIMEOUT'', d),
       (''SERVER_READ_TIMEOUT'', d), (''SERVER_WRITE_TIMEOUT'', d), (''SERVER_IDLE_TIMEOUT'', d),
       (''SERVER_SHUTDOWN_TIMEOUT'', d), (''AUTH_ACCESS_TOKEN_TTL'', d), (''AUTH_REFRESH_TOKEN_TTL'', d),
       (''DATABASE_PORT'', i), (''DATABASE_MIN_CONNECTIONS'', i32), (''DATABASE_MAX_CONNECTIONS'', i32),
       (''DATABASE_CONNECT_TIMEOUT'', d), (''DATABASE_HEALTH_TIMEOUT'', d), (''REDIS_PORT'', i),
       (''REDIS_DATABASE'', i), (''REDIS_TLS'', b), (''REDIS_POOL_SIZE'', i), (''REDIS_MIN_IDLE_CONNECTIONS'', i),
       (''REDIS_CONNECT_TIMEOUT'', d), (''REDIS_READ_TIMEOUT'', d), (''REDIS_WRITE_TIMEOUT'', d),
       (''REDIS_HEALTH_TIMEOUT'', d), (''CORS_ALLOW_CREDENTIALS'', b),
       (''AUTH_VERIFICATION_KEY_FILES'', \<lambda>v. parse_key_file_entries U v \<noteq> None), (''AUTH_COOKIE_SECURE'', b),
       (''AUTH_LOGIN_ATTEMPTS'', i), (''AUTH_LOGIN_WINDOW'', d), (''FILE_IMAGE_MAX_BYTES'', i),
       (''FILE_VIDEO_ENABLED'', b), (''FILE_VIDEO_MAX_BYTES'', i), (''SYSTEMCONFIG_CACHE_TTL'', d),
       (''MODULES_FILE'', b), (''MODULES_SYSTEMCONFIG'', b)])"

definition malformed :: "(string \<Rightarrow> string option) \<Rightarrow> string \<Rightarrow> string \<times> (string \<Rightarrow> bool) \<Rightarrow> bool" where
  "malformed env p x = (case env (p @ fst x) of None \<Rightarrow> False | Some v \<Rightarrow> \<not> snd x v)"

text \<open>The first malformed variable is the error.\<close>

definition overlaid ::
  "(string \<times> (string \<Rightarrow> bool)) list \<Rightarrow> (string \<Rightarrow> string option) \<Rightarrow> string \<Rightarrow> config \<Rightarrow> err + config" where
  "overlaid vars env p c =
     (case find (malformed env p) vars of
        Some x \<Rightarrow> Inl (invalid_environment_value (p @ fst x))
      | None \<Rightarrow> Inr c)"

section \<open>Updates\<close>

text \<open>An update with the identity changes nothing.\<close>

lemma update_self [simp]:
  "a_environment_update (\<lambda>x. x) = (\<lambda>c. c)" "a_debug_update (\<lambda>x. x) = (\<lambda>c. c)"
  "a_docs_enabled_update (\<lambda>x. x) = (\<lambda>c. c)" "sv_host_update (\<lambda>x. x) = (\<lambda>c. c)"
  "sv_port_update (\<lambda>x. x) = (\<lambda>c. c)" "sv_header_timeout_update (\<lambda>x. x) = (\<lambda>c. c)"
  "sv_read_timeout_update (\<lambda>x. x) = (\<lambda>c. c)" "sv_write_timeout_update (\<lambda>x. x) = (\<lambda>c. c)"
  "sv_idle_timeout_update (\<lambda>x. x) = (\<lambda>c. c)" "sv_shutdown_timeout_update (\<lambda>x. x) = (\<lambda>c. c)"
  "sv_trusted_proxies_update (\<lambda>x. x) = (\<lambda>c. c)" "d_host_update (\<lambda>x. x) = (\<lambda>c. c)"
  "d_port_update (\<lambda>x. x) = (\<lambda>c. c)" "d_name_update (\<lambda>x. x) = (\<lambda>c. c)"
  "d_user_update (\<lambda>x. x) = (\<lambda>c. c)" "d_password_update (\<lambda>x. x) = (\<lambda>c. c)"
  "d_password_file_update (\<lambda>x. x) = (\<lambda>c. c)" "d_ssl_mode_update (\<lambda>x. x) = (\<lambda>c. c)"
  "d_min_connections_update (\<lambda>x. x) = (\<lambda>c. c)" "d_max_connections_update (\<lambda>x. x) = (\<lambda>c. c)"
  "d_connect_timeout_update (\<lambda>x. x) = (\<lambda>c. c)" "d_health_timeout_update (\<lambda>x. x) = (\<lambda>c. c)"
  "r_host_update (\<lambda>x. x) = (\<lambda>c. c)" "r_port_update (\<lambda>x. x) = (\<lambda>c. c)"
  "r_database_update (\<lambda>x. x) = (\<lambda>c. c)" "r_username_update (\<lambda>x. x) = (\<lambda>c. c)"
  "r_password_update (\<lambda>x. x) = (\<lambda>c. c)" "r_password_file_update (\<lambda>x. x) = (\<lambda>c. c)"
  "r_tls_update (\<lambda>x. x) = (\<lambda>c. c)" "r_pool_size_update (\<lambda>x. x) = (\<lambda>c. c)"
  "r_min_idle_conns_update (\<lambda>x. x) = (\<lambda>c. c)" "r_connect_timeout_update (\<lambda>x. x) = (\<lambda>c. c)"
  "r_read_timeout_update (\<lambda>x. x) = (\<lambda>c. c)" "r_write_timeout_update (\<lambda>x. x) = (\<lambda>c. c)"
  "r_health_timeout_update (\<lambda>x. x) = (\<lambda>c. c)" "co_allow_origins_update (\<lambda>x. x) = (\<lambda>c. c)"
  "co_allow_methods_update (\<lambda>x. x) = (\<lambda>c. c)" "co_allow_headers_update (\<lambda>x. x) = (\<lambda>c. c)"
  "co_allow_credentials_update (\<lambda>x. x) = (\<lambda>c. c)" "au_issuer_update (\<lambda>x. x) = (\<lambda>c. c)"
  "au_audience_update (\<lambda>x. x) = (\<lambda>c. c)" "au_access_token_ttl_update (\<lambda>x. x) = (\<lambda>c. c)"
  "au_refresh_token_ttl_update (\<lambda>x. x) = (\<lambda>c. c)" "au_private_key_update (\<lambda>x. x) = (\<lambda>c. c)"
  "au_private_key_file_update (\<lambda>x. x) = (\<lambda>c. c)" "au_key_id_update (\<lambda>x. x) = (\<lambda>c. c)"
  "au_verification_key_files_update (\<lambda>x. x) = (\<lambda>c. c)" "au_refresh_cookie_update (\<lambda>x. x) = (\<lambda>c. c)"
  "au_cookie_domain_update (\<lambda>x. x) = (\<lambda>c. c)" "au_cookie_path_update (\<lambda>x. x) = (\<lambda>c. c)"
  "au_cookie_secure_update (\<lambda>x. x) = (\<lambda>c. c)" "au_cookie_same_site_update (\<lambda>x. x) = (\<lambda>c. c)"
  "au_login_attempts_update (\<lambda>x. x) = (\<lambda>c. c)" "au_login_window_update (\<lambda>x. x) = (\<lambda>c. c)"
  "f_storage_path_update (\<lambda>x. x) = (\<lambda>c. c)" "f_image_max_bytes_update (\<lambda>x. x) = (\<lambda>c. c)"
  "f_video_enabled_update (\<lambda>x. x) = (\<lambda>c. c)" "f_video_max_bytes_update (\<lambda>x. x) = (\<lambda>c. c)"
  "l_level_update (\<lambda>x. x) = (\<lambda>c. c)" "l_format_update (\<lambda>x. x) = (\<lambda>c. c)"
  "m_file_update (\<lambda>x. x) = (\<lambda>c. c)" "m_system_config_update (\<lambda>x. x) = (\<lambda>c. c)"
  "cfg_cache_ttl_update (\<lambda>x. x) = (\<lambda>c. c)" "cfg_app_update (\<lambda>x. x) = (\<lambda>c. c)"
  "cfg_server_update (\<lambda>x. x) = (\<lambda>c. c)" "cfg_database_update (\<lambda>x. x) = (\<lambda>c. c)"
  "cfg_redis_update (\<lambda>x. x) = (\<lambda>c. c)" "cfg_cors_update (\<lambda>x. x) = (\<lambda>c. c)"
  "cfg_auth_update (\<lambda>x. x) = (\<lambda>c. c)" "cfg_file_update (\<lambda>x. x) = (\<lambda>c. c)"
  "cfg_log_update (\<lambda>x. x) = (\<lambda>c. c)" "cfg_modules_update (\<lambda>x. x) = (\<lambda>c. c)"
  by (simp_all add: fun_eq_iff)


section \<open>Setters against the reference\<close>

definition realizes ::
  "setter list \<Rightarrow> (string \<times> (string \<Rightarrow> bool)) list \<Rightarrow> ((string \<Rightarrow> string option) \<Rightarrow> string \<Rightarrow> config \<Rightarrow> config) \<Rightarrow> bool" where
  "realizes fs vars f \<longleftrightarrow> (\<forall>env p c. run_setters fs env p c = overlaid vars env p (f env p c))"

lemma overlaid_Cons:
  "overlaid (x # xs) env p c =
     (if malformed env p x then Inl (invalid_environment_value (p @ fst x)) else overlaid xs env p c)"
  by (simp add: overlaid_def)

lemma realizes_Nil: "realizes [] [] (\<lambda>env p c. c)"
  by (simp add: realizes_def overlaid_def)

lemma realizes_typed:
  assumes "upd (\<lambda>x. x) = (\<lambda>c. c)" "realizes fs vars f"
  shows "realizes (set_parsed parse key upd # fs) ((key, \<lambda>v. parse v \<noteq> None) # vars)
    (\<lambda>env p c. f env p (upd (override parse env (p @ key)) c))"
  unfolding realizes_def
proof (intro allI)
  fix env p c
  have "override parse env (p @ key) = (\<lambda>x. x)" if "env (p @ key) = None"
    using that by (simp add: override_def fun_eq_iff)
  moreover have "override parse env (p @ key) = (\<lambda>_. x)" if "env (p @ key) = Some v" "parse v = Some x" for v x
    using that by (simp add: override_def fun_eq_iff)
  ultimately show "run_setters (set_parsed parse key upd # fs) env p c =
      overlaid ((key, \<lambda>v. parse v \<noteq> None) # vars) env p (f env p (upd (override parse env (p @ key)) c))"
    using assms by (auto simp: set_parsed_def realizes_def overlaid_Cons malformed_def split: option.splits)
qed

lemma realizes_text:
  assumes "upd (\<lambda>x. x) = (\<lambda>c. c)" "realizes fs vars f"
  shows "realizes (set_parsed (\<lambda>v. Some (g v)) key upd # fs) vars
    (\<lambda>env p c. f env p (upd (override (\<lambda>v. Some (g v)) env (p @ key)) c))"
  using realizes_typed [where parse = "\<lambda>v. Some (g v)" and key = key and upd = upd and f = f, OF assms]
  by (simp add: realizes_def overlaid_Cons malformed_def split: option.splits)

lemma run_setters_append:
  "run_setters (fs @ gs) env p c =
     (case run_setters fs env p c of Inl e \<Rightarrow> Inl e | Inr c' \<Rightarrow> run_setters gs env p c')"
  by (induction fs arbitrary: c) (auto split: sum.splits)

lemma find_append:
  "find P (xs @ ys) = (case find P xs of None \<Rightarrow> find P ys | Some x \<Rightarrow> Some x)"
  by (induction xs) auto

lemma realizes_append:
  assumes "realizes fs vars f" "realizes gs vars' g"
  shows "realizes (fs @ gs) (vars @ vars') (\<lambda>env p c. g env p (f env p c))"
  using assms by (auto simp: realizes_def run_setters_append overlaid_def find_append split: option.splits)

lemma realizes_eq: "realizes fs vars f \<Longrightarrow> (\<And>env p c. f env p c = g env p c) \<Longrightarrow> realizes fs vars g"
  by (simp add: realizes_def)

lemmas realizes_steps = realizes_Nil realizes_text realizes_typed

lemma setters_overlay:
  "realizes (server_setters frac U @ database_setters frac @ redis_setters frac @ auth_setters frac U @
     module_setters frac) (typed_variables frac U) (overlay frac U)"
  apply (rule realizes_eq)
  unfolding server_setters_def database_setters_def redis_setters_def auth_setters_def module_setters_def
    append.simps typed_variables_def Let_def
   apply ((rule realizes_text, simp only: update_self) | (rule realizes_typed, simp only: update_self))+
   apply (rule realizes_Nil)
  apply (case_tac c)
  apply (simp add: overlay_def overlay_app_def overlay_server_def overlay_database_def overlay_redis_def overlay_cors_def overlay_auth_def)
  done

section \<open>Layers\<close>

lemma environment_append:
  "environment p (xs @ ys) k = (case environment p ys k of None \<Rightarrow> environment p xs k | Some v \<Rightarrow> Some v)"
proof -
  let ?step = "\<lambda>v env. case cut CHR ''='' v of
       None \<Rightarrow> env | Some (key, raw) \<Rightarrow> if has_prefix p key then env(key \<mapsto> raw) else env"
  have "fold ?step ys e k = (case fold ?step ys Map.empty k of None \<Rightarrow> e k | Some v \<Rightarrow> Some v)" for e
  proof (induction ys rule: rev_induct)
    case (snoc y ys)
    then show ?case by (cases "cut CHR ''='' y") (auto split: prod.split)
  qed simp
  then show ?thesis unfolding environment_def fold_append comp_apply by blast
qed

text \<open>The assignments in force, one source over the other.\<close>

definition layered :: "unicode \<Rightarrow> 'd host \<Rightarrow> load_options \<Rightarrow> string \<Rightarrow> string option" where
  "layered U H opts k =
     (case environment (load_prefix opts) (h_environ H) k of
        Some v \<Rightarrow> Some v
      | None \<Rightarrow>
          if lo_dot_env opts then
            (case load_dot_env U (h_read H) ''.env'' of
               Inl _ \<Rightarrow> None | Inr vs \<Rightarrow> environment (load_prefix opts) vs k)
          else None)"

lemma load_values_layered:
  assumes "load_values U H opts = Inr vals"
  shows "environment (load_prefix opts) vals = layered U H opts"
proof (rule ext)
  fix k
  show "environment (load_prefix opts) vals k = layered U H opts k"
    using assms by (cases "load_dot_env U (h_read H) ''.env''")
      (auto simp: load_values_def layered_def environment_append split: if_split_asm option.split)
qed

text \<open>The configuration below the environment: the defaults, or what the YAML file makes of them.\<close>

definition base_config :: "'d host \<Rightarrow> load_options \<Rightarrow> err + config" where
  "base_config H opts = (if lo_file opts = '''' then Inr default_config else load_yaml H default_config (lo_file opts))"

section \<open>Secrets\<close>

text \<open>A secret comes from its own setting or from a file, never from both.\<close>

definition one_source :: "(string \<Rightarrow> err + string) \<Rightarrow> secret \<Rightarrow> string \<Rightarrow> secret \<Rightarrow> bool" where
  "one_source read s0 path s \<longleftrightarrow>
     (path = '''' \<and> s = s0) \<or>
     (path \<noteq> '''' \<and> s0 = Secret '''' \<and> (\<exists>content. read path = Inr content \<and> s = Secret (trim_right [CHR 13, CHR 10] content)))"

lemma resolve_secret_Inr: "resolve_secret read key s0 path = Inr s \<Longrightarrow> one_source read s0 path s"
  by (auto simp: resolve_secret_def one_source_def split: if_splits sum.splits)

lemma read_key_files_Inr:
  "read_key_files read files = Inr keys \<Longrightarrow>
     list_all2 (\<lambda>(k, path) (k', key). k' = k \<and>
       (\<exists>content. read path = Inr content \<and> key = trim_right [CHR 13, CHR 10] content)) files keys"
  by (induction files arbitrary: keys) (auto split: sum.splits)

definition auth_keys_from :: "(string \<Rightarrow> err + string) \<Rightarrow> auth_config \<Rightarrow> auth_config \<Rightarrow> bool" where
  "auth_keys_from read a0 a \<longleftrightarrow>
     a = a0\<lparr>au_private_key := au_private_key a, au_verification_keys := au_verification_keys a\<rparr> \<and>
     one_source read (au_private_key a0) (au_private_key_file a0) (au_private_key a) \<and>
     (if au_verification_key_files a0 = [] then au_verification_keys a = au_verification_keys a0
      else list_all2 (\<lambda>(k, path) (k', key). k' = k \<and>
        (\<exists>content. read path = Inr content \<and> key = trim_right [CHR 13, CHR 10] content))
        (au_verification_key_files a0) (au_verification_keys a))"

lemma resolve_auth_keys_Inr:
  assumes "resolve_auth_keys read p a0 = Inr a"
  shows "auth_keys_from read a0 a"
proof -
  obtain a1 where a1: "a1 = a0\<lparr>au_private_key := au_private_key a1\<rparr>"
    "one_source read (au_private_key a0) (au_private_key_file a0) (au_private_key a1)"
    and a: "(if au_verification_key_files a1 = [] then Inr a1
        else (case read_key_files read (au_verification_key_files a1) of
            Inl e \<Rightarrow> Inl e | Inr keys \<Rightarrow> Inr (a1\<lparr>au_verification_keys := keys\<rparr>))) = Inr a"
    using assms by (auto simp: resolve_auth_keys_def one_source_def split: if_split_asm sum.split_asm)
  have "au_verification_key_files a1 = au_verification_key_files a0" "au_verification_keys a1 = au_verification_keys a0"
    by (subst a1(1), simp)+
  then show ?thesis
    using a a1 by (auto simp: auth_keys_from_def dest: read_key_files_Inr split: if_split_asm sum.split_asm)
qed

end
