(* ===== verification/StartupModule.thy ===== *)
theory StartupModule
  imports ConfigOverlay AuthService SessionStore FileModule ConfigCache
begin

text \<open>
  Properties of the start-up configuration: what the environment sets, which layer wins, that a
  production set-up is hardened, and that the modules accept the limits they are given.
\<close>

section \<open>Loading\<close>

lemma apply_environment_overlaid:
  "apply_environment frac U vals p c =
     overlaid (typed_variables frac U) (environment p vals) p (overlay frac U (environment p vals) p c)"
  using setters_overlay by (simp add: realizes_def apply_environment_def)

lemma overlaid_Inr:
  "overlaid vars env p c = Inr c' \<longleftrightarrow> c' = c \<and> (\<forall>x \<in> set vars. \<not> malformed env p x)"
  by (induction vars) (auto simp: overlaid_Cons overlaid_def)

definition secrets_from :: "(string \<Rightarrow> err + string) \<Rightarrow> config \<Rightarrow> config \<Rightarrow> bool" where
  "secrets_from read d c \<longleftrightarrow>
     c = d\<lparr>cfg_database := (cfg_database d)\<lparr>d_password := d_password (cfg_database c)\<rparr>,
           cfg_redis := (cfg_redis d)\<lparr>r_password := r_password (cfg_redis c)\<rparr>, cfg_auth := cfg_auth c\<rparr> \<and>
     one_source read (d_password (cfg_database d)) (d_password_file (cfg_database d)) (d_password (cfg_database c)) \<and>
     one_source read (r_password (cfg_redis d)) (r_password_file (cfg_redis d)) (r_password (cfg_redis c)) \<and>
     auth_keys_from read (cfg_auth d) (cfg_auth c)"

lemma resolve_secrets_Inr:
  "resolve_secrets read p d = Inr c \<Longrightarrow> secrets_from read d c"
  by (auto simp: resolve_secrets_def secrets_from_def dest: resolve_secret_Inr resolve_auth_keys_Inr
      split: sum.splits)

lemma load_config_steps:
  assumes "load_config U frac H opts = Inr c"
  obtains c0 where "base_config H opts = Inr c0"
    "\<forall>x \<in> set (typed_variables frac U). \<not> malformed (layered U H opts) (load_prefix opts) x"
    "secrets_from (h_read H) (overlay frac U (layered U H opts) (load_prefix opts) c0) c"
    "lo_dot_env opts \<longrightarrow> a_environment (cfg_app c) \<noteq> ''production''" "validate_config U c = Inr ()"
proof -
  obtain c0 vals c1 where 1: "base_config H opts = Inr c0" "load_values U H opts = Inr vals"
    "apply_environment frac U vals (load_prefix opts) c0 = Inr c1"
    "\<not> (lo_dot_env opts \<and> a_environment (cfg_app c1) = ''production'')"
    "resolve_secrets (h_read H) (load_prefix opts) c1 = Inr c" "validate_config U c = Inr ()"
    using assms unfolding load_config_def base_config_def [symmetric]
    by (auto split: sum.split_asm if_split_asm)
  have s: "secrets_from (h_read H) c1 c" by (rule resolve_secrets_Inr [OF 1(5)])
  then have "cfg_app c = cfg_app c1" unfolding secrets_from_def
    by (metis (no_types, lifting) config.ext_inject config.surjective config.update_convs(3,4,6))
  with 1 s show thesis
    using that load_values_layered [OF 1(2)]
    by (auto simp: apply_environment_overlaid overlaid_Inr)
qed

section \<open>What Validate establishes\<close>

lemma first_failure_Inr: "first_failure xs = Inr () \<longleftrightarrow> (\<forall>(bad, _) \<in> set xs. \<not> bad)"
  by (induction xs) (auto split: if_splits)

lemma validate_config_Inr:
  "validate_config U c = Inr () \<longleftrightarrow>
     (\<forall>(bad, _) \<in> set (server_checks c @ auth_checks U c @ production_checks c @ module_checks U c). \<not> bad)"
  unfolding validate_config_def first_failure_Inr ..

text \<open>What the checks say of the fields the modules depend on.\<close>

definition sound_limits :: "config \<Rightarrow> bool" where
  "sound_limits c \<longleftrightarrow>
     1 \<le> sv_port (cfg_server c) \<and> sv_port (cfg_server c) \<le> 65535 \<and>
     0 < sv_shutdown_timeout (cfg_server c) \<and>
     0 \<le> d_min_connections (cfg_database c) \<and> d_min_connections (cfg_database c) \<le> d_max_connections (cfg_database c) \<and>
     0 < au_access_token_ttl (cfg_auth c) \<and> au_access_token_ttl (cfg_auth c) < au_refresh_token_ttl (cfg_auth c) \<and>
     0 < au_login_attempts (cfg_auth c) \<and> 0 < au_login_window (cfg_auth c) \<and>
     512 \<le> f_image_max_bytes (cfg_file c) \<and> f_image_max_bytes (cfg_file c) \<le> 104857600 \<and>
     512 \<le> f_video_max_bytes (cfg_file c) \<and> f_video_max_bytes (cfg_file c) \<le> 2147483648 \<and>
     0 < cfg_cache_ttl c \<and> cfg_cache_ttl c \<le> 86400 * second \<and>
     (\<forall>proxy \<in> set (sv_trusted_proxies (cfg_server c)). parse_cidr proxy) \<and>
     (co_allow_credentials (cfg_cors c) \<longrightarrow> ''*'' \<notin> set (co_allow_origins (cfg_cors c))) \<and>
     (au_cookie_same_site (cfg_auth c) = ''none'' \<longrightarrow> au_cookie_secure (cfg_auth c))"

definition hardened :: "config \<Rightarrow> bool" where
  "hardened c \<longleftrightarrow> \<not> a_debug (cfg_app c) \<and> \<not> a_docs_enabled (cfg_app c) \<and>
     d_ssl_mode (cfg_database c) \<in> {''require'', ''verify-ca'', ''verify-full''} \<and>
     au_cookie_secure (cfg_auth c) \<and> r_tls (cfg_redis c)"

lemma validated:
  assumes "validate_config U c = Inr ()"
  shows "sound_limits c" "a_environment (cfg_app c) = ''production'' \<Longrightarrow> hardened c"
    "a_environment (cfg_app c) \<in> {''development'', ''test'', ''production''}"
    "trim_space U (f_storage_path (cfg_file c)) \<noteq> ''''"
    "au_key_id (cfg_auth c) \<notin> fst ` set (au_verification_key_files (cfg_auth c))"
proof -
  note v = assms [unfolded validate_config_Inr set_append ball_Un]
  have s: "\<forall>(bad, _) \<in> set (server_checks c). \<not> bad" and a: "\<forall>(bad, _) \<in> set (auth_checks U c). \<not> bad"
    and p: "\<forall>(bad, _) \<in> set (production_checks c). \<not> bad" and m: "\<forall>(bad, _) \<in> set (module_checks U c). \<not> bad"
    using v by blast+
  note s = s [unfolded server_checks_def Let_def, simplified] and a = a [unfolded auth_checks_def Let_def, simplified]
    and p = p [unfolded production_checks_def Let_def, simplified] and m = m [unfolded module_checks_def, simplified]
  show "sound_limits c"
    unfolding sound_limits_def using s a p m by (auto simp: port_bad_def list_ex_iff)
  show "hardened c" if "a_environment (cfg_app c) = ''production''"
    unfolding hardened_def using s p that by (auto simp: ssl_modes_def)
  show "a_environment (cfg_app c) \<in> {''development'', ''test'', ''production''}" using s by auto
  show "trim_space U (f_storage_path (cfg_file c)) \<noteq> ''''" using m by simp
  show "au_key_id (cfg_auth c) \<notin> fst ` set (au_verification_key_files (cfg_auth c))" using a by auto
qed

section \<open>The constructors\<close>

text \<open>The \<open>VerificationKeys\<close> field has the tag \<open>koanf:"-"\<close>: the YAML decoder never sets it.\<close>

definition yaml_laws :: "'d host \<Rightarrow> bool" where
  "yaml_laws H \<longleftrightarrow> (\<forall>doc c c'. h_decode H doc c = Inr c' \<longrightarrow>
     au_verification_keys (cfg_auth c') = au_verification_keys (cfg_auth c))"

definition file_limits :: "config \<Rightarrow> limits" where
  "file_limits c = \<lparr>li_image_max = f_image_max_bytes (cfg_file c),
     li_video_enabled = f_video_enabled (cfg_file c), li_video_max = f_video_max_bytes (cfg_file c)\<rparr>"

definition key_id_clash :: err where
  "key_id_clash = Plain ''verification keys must not contain the current key_id''"

lemma add_keys_clash:
  "add_keys J current others keys = Inl key_id_clash \<Longrightarrow> current \<in> fst ` set others"
  by (induction J current others keys rule: add_keys.induct)
    (auto simp: key_id_clash_def split: if_splits sum.splits)

lemma new_tokens_clash:
  assumes "new_tokens J cfg = Inl key_id_clash"
  shows "\<exists>m. add_keys J (au_key_id cfg) (au_verification_keys cfg) m = Inl key_id_clash"
  using assms unfolding new_tokens_def
  by (auto simp: key_id_clash_def split: option.split_asm prod.split_asm parsed_key.split_asm sum.split_asm)

lemma list_all2_keys:
  "list_all2 (\<lambda>(k, path) (k', key). k' = k \<and> Q path key) xs ys \<Longrightarrow> map fst ys = map fst xs"
  by (induction rule: list_all2_induct) auto

lemma base_config_keys:
  "yaml_laws H \<Longrightarrow> base_config H opts = Inr c0 \<Longrightarrow> au_verification_keys (cfg_auth c0) = []"
  by (auto simp: base_config_def load_yaml_def yaml_laws_def default_config_def split: if_splits sum.splits)

lemma loaded_keys:
  assumes "load_config U frac H opts = Inr c" "yaml_laws H"
  shows "fst ` set (au_verification_keys (cfg_auth c)) \<subseteq> fst ` set (au_verification_key_files (cfg_auth c))"
proof -
  obtain c0 d where c0: "base_config H opts = Inr c0" and d: "d = overlay frac U (layered U H opts) (load_prefix opts) c0"
    and s: "secrets_from (h_read H) d c"
    using load_config_steps [OF assms(1)] by metis
  note keys = s [unfolded secrets_from_def, THEN conjunct2, THEN conjunct2, THEN conjunct2, unfolded auth_keys_from_def]
  have files: "au_verification_key_files (cfg_auth c) = au_verification_key_files (cfg_auth d)"
    by (subst keys [THEN conjunct1]) simp
  have none: "au_verification_keys (cfg_auth d) = []"
    using base_config_keys [OF assms(2) c0] by (simp add: d overlay_def overlay_auth_def)
  show ?thesis
  proof (cases "au_verification_key_files (cfg_auth d) = []")
    case False
    then have "map fst (au_verification_keys (cfg_auth c)) = map fst (au_verification_key_files (cfg_auth d))"
      using keys by (auto intro: list_all2_keys)
    then show ?thesis by (metis files order_refl set_map)
  qed (use keys none in auto)
qed

section \<open>Properties\<close>

text \<open>C40: the setters of the environment have the effect of the field-by-field reference: if a
  variable that must parse does not, the first such variable is the error and nothing is set;
  otherwise every field has the value of its variable, the last assignment to it, or is unchanged.\<close>

theorem environment_overlay:
  "apply_environment frac U vals p c =
     (case find (malformed (environment p vals) p) (typed_variables frac U) of
        Some x \<Rightarrow> Inl (invalid_environment_value (p @ fst x))
      | None \<Rightarrow> Inr (overlay frac U (environment p vals) p c))"
  by (simp add: apply_environment_overlaid overlaid_def)

text \<open>C39: a loaded configuration is made of its layers in order: the defaults, what the YAML file
  makes of them, the variables of \<open>.env\<close> when it is asked for, the variables of the process, and the
  secrets read from files.  The process wins over \<open>.env\<close>, each secret has one source only, and no
  variable was malformed.\<close>

theorem load_config_layers:
  assumes "load_config U frac H opts = Inr c"
  shows "\<exists>c0. base_config H opts = Inr c0 \<and>
    secrets_from (h_read H) (overlay frac U (layered U H opts) (load_prefix opts) c0) c \<and>
    (\<forall>x \<in> set (typed_variables frac U). \<not> malformed (layered U H opts) (load_prefix opts) x) \<and>
    (\<forall>k v. environment (load_prefix opts) (h_environ H) k = Some v \<longrightarrow> layered U H opts k = Some v)"
  using load_config_steps [OF assms] by (metis (no_types, lifting) layered_def option.simps(5))

lemma loaded_config_checked:
  assumes "load_config U frac H opts = Inr c" "yaml_laws H"
  shows "sound_limits c \<and> (a_environment (cfg_app c) = ''production'' \<longrightarrow> hardened c \<and> \<not> lo_dot_env opts) \<and>
    new_local_store (f_storage_path (cfg_file c)) = Inr \<lparr>ls_path = f_storage_path (cfg_file c)\<rparr> \<and>
    new_file_service (Some store) (Some ids) (file_limits c) =
      Inr \<lparr>fs_store = store, fs_ids = ids, fs_limit = file_limits c\<rparr> \<and>
    (\<exists>rs. new_redis_store (Some client) (a_environment (cfg_app c)) = Inr rs) \<and>
    (\<exists>cache. new_config_cache (Some client) (a_environment (cfg_app c)) (cfg_cache_ttl c) = Inr cache) \<and>
    new_tokens J (cfg_auth c) \<noteq> Inl key_id_clash"
proof -
  have ok: "validate_config U c = Inr ()" "lo_dot_env opts \<longrightarrow> a_environment (cfg_app c) \<noteq> ''production''"
    using load_config_steps [OF assms(1)] by metis+
  note v = validated [OF ok(1)]
  have "f_storage_path (cfg_file c) \<noteq> ''''" "a_environment (cfg_app c) \<noteq> ''''" using v(3,4) by auto
  moreover have "add_keys J (au_key_id (cfg_auth c)) (au_verification_keys (cfg_auth c)) m \<noteq> Inl key_id_clash" for m
    using v(5) loaded_keys [OF assms] by (auto dest!: add_keys_clash)
  then have "new_tokens J (cfg_auth c) \<noteq> Inl key_id_clash" using new_tokens_clash [of J "cfg_auth c"] by auto
  ultimately show ?thesis
    using v(1,2) ok(2)
    by (auto simp: sound_limits_def new_local_store_def new_file_service_def file_limits_def sniff_bytes_def
        new_redis_store_def new_config_cache_def Let_def)
qed

text \<open>C31: a loaded configuration is within the limits the modules rely on; in production it has no
  debug mode and no documentation pages, uses TLS for the database and Redis and secure cookies, and
  was loaded without \<open>.env\<close>.  The constructors of the file store, the file service, the session
  store and the cache accept it, and the token keys never clash.\<close>

theorem loaded_config_safe:
  assumes "load_config U frac H opts = Inr c" "yaml_laws H"
  shows "sound_limits c \<and> (a_environment (cfg_app c) = ''production'' \<longrightarrow> hardened c \<and> \<not> lo_dot_env opts) \<and>
    new_local_store (f_storage_path (cfg_file c)) = Inr \<lparr>ls_path = f_storage_path (cfg_file c)\<rparr> \<and>
    new_file_service (Some store) (Some ids) (file_limits c) =
      Inr \<lparr>fs_store = store, fs_ids = ids, fs_limit = file_limits c\<rparr> \<and>
    (\<exists>rs. new_redis_store (Some client) (a_environment (cfg_app c)) = Inr rs) \<and>
    (\<exists>cache. new_config_cache (Some client) (a_environment (cfg_app c)) (cfg_cache_ttl c) = Inr cache) \<and>
    new_tokens J (cfg_auth c) \<noteq> Inl key_id_clash"
  by (rule loaded_config_checked [OF assms])

text \<open>A machine whose process sets two variables, one of them the name of a secret file.\<close>

definition sample_host :: "unit host" where
  "sample_host = \<lparr>
     h_read = (\<lambda>path. if path = ''/run/pw'' then Inr (''s3cret'' @ [CHR 10]) else Inl (Sentinel NotExist)),
     h_environ = [''GOBA_SERVER_PORT=9000'', ''GOBA_SERVER_PORT=9001'', ''GOBA_DATABASE_PASSWORD_FILE=/run/pw''],
     h_yaml = (\<lambda>_. Inl (Sentinel NotExist)), h_decode = (\<lambda>_ c. Inr c)\<rparr>"

definition sample_options :: load_options where
  "sample_options = \<lparr>lo_file = '''', lo_prefix = '''', lo_dot_env = True\<rparr>"

definition sample_config :: config where
  "sample_config = default_config\<lparr>cfg_server := (cfg_server default_config)\<lparr>sv_port := 9001\<rparr>,
     cfg_database := (cfg_database default_config)\<lparr>d_password := Secret ''s3cret'', d_password_file := ''/run/pw''\<rparr>\<rparr>"

lemma sample_loads: "load_config ascii_unicode (\<lambda>_ _ _. 0) sample_host sample_options = Inr sample_config"
  by code_simp

lemma load_config_layers_witness:
  "layered ascii_unicode sample_host sample_options ''GOBA_SERVER_PORT'' = Some ''9001''"
proof -
  have "environment (load_prefix sample_options) (h_environ sample_host) ''GOBA_SERVER_PORT'' = Some ''9001''"
    by code_simp
  then show ?thesis using load_config_layers [OF sample_loads] by blast
qed

definition no_client :: "unit redis_client" where
  "no_client cmd = State_Monad.return (Inl (Plain ''connection refused''))"

lemma loaded_config_safe_witness:
  "new_local_store (f_storage_path (cfg_file sample_config)) = Inr \<lparr>ls_path = ''var/uploads''\<rparr> \<and>
   (\<exists>cache. new_config_cache (Some no_client) (a_environment (cfg_app sample_config)) (cfg_cache_ttl sample_config)
      = Inr cache)"
  using loaded_config_safe [OF sample_loads, where client = no_client]
  by (auto simp: yaml_laws_def sample_host_def sample_config_def default_config_def)

end
