(* ===== verification/GatewayTheorems.thy ===== *)
theory GatewayTheorems
  imports HttpGateway HttpTheorems StartupModule
begin

text \<open>
  Properties of the HTTP server as a whole: the headers and the request id of every response, the
  routes of disabled modules, and what a request without a token can do.
\<close>

section \<open>Responses, whatever the services do\<close>

text \<open>\<open>yields m P\<close>: the result of \<open>m\<close> meets \<open>P\<close>, in every world.\<close>

definition yields :: "('w, 'a) state \<Rightarrow> ('a \<Rightarrow> bool) \<Rightarrow> bool" where
  "yields m P \<longleftrightarrow> (\<forall>w. wp m (\<lambda>r _. P r) w)"

named_theorems yields_rules \<open>syntax-directed rules for yields\<close>


lemma yields_return [yields_rules]: "P x \<Longrightarrow> yields (State_Monad.return x) P"
  by (simp add: yields_def wp_rules)

lemma yields_bind [yields_rules]: "(\<And>x. yields (g x) P) \<Longrightarrow> yields (State_Monad.bind m g) P"
  by (simp add: yields_def wp_bind wp_def split: prod.splits)

lemma yields_case_sum [yields_rules]:
  "(\<And>e. yields (f e) P) \<Longrightarrow> (\<And>x. yields (g x) P) \<Longrightarrow> yields (case r of Inl e \<Rightarrow> f e | Inr x \<Rightarrow> g x) P"
  by (cases r) simp_all

lemma yields_case_option [yields_rules]:
  "yields f P \<Longrightarrow> (\<And>x. yields (g x) P) \<Longrightarrow> yields (case r of None \<Rightarrow> f | Some x \<Rightarrow> g x) P"
  by (cases r) simp_all

lemma yields_case_prod [yields_rules]:
  "(\<And>x y. yields (f x y) P) \<Longrightarrow> yields (case p of (x, y) \<Rightarrow> f x y) P"
  by (cases p) simp

lemma yields_if [yields_rules]: "yields m P \<Longrightarrow> yields n P \<Longrightarrow> yields (if b then m else n) P"
  by simp

text \<open>
  What a handler may do to the response it is given: headers other than those of the content stay,
  and an error in the body carries the request id of the context.
\<close>

definition passes :: "http_request \<Rightarrow> response \<Rightarrow> response \<Rightarrow> bool" where
  "passes rq rs rs' \<longleftrightarrow>
     (\<forall>name. name \<noteq> ''Content-Type'' \<longrightarrow> name \<noteq> ''Cache-Control'' \<longrightarrow>
        map_of (rs_headers rs') name = map_of (rs_headers rs) name) \<and>
     (\<forall>b i. rs_body rs' = Some (ErrorBody b) \<longrightarrow> request_id (rq_context rq) = (i, True) \<longrightarrow> er_request_id b = i)"

definition clean :: "response \<Rightarrow> bool" where
  "clean rs \<longleftrightarrow> rs_body rs = None \<and> \<not> rs_written rs"

lemma passes_refl [simp]: "clean rs \<Longrightarrow> passes rq rs rs"
  by (simp add: passes_def clean_def)

lemma passes_send [simp]: "(\<forall>e. b \<noteq> ErrorBody e) \<Longrightarrow> passes rq rs rs1 \<Longrightarrow> passes rq rs (send st b rs1)"
  by (simp add: passes_def send_def)

lemma passes_send_status [simp]: "passes rq rs (send_status st rs1) = passes rq rs rs1"
  by (simp add: passes_def send_status_def)

lemma passes_header [simp]:
  "name = ''Content-Type'' \<or> name = ''Cache-Control'' \<Longrightarrow> passes rq rs (add_header name v rs1) = passes rq rs rs1"
  by (auto simp: passes_def add_header_def update_conv)

lemma passes_cookie [simp]:
  "passes rq rs (set_refresh_cookie h v rs1) = passes rq rs rs1"
  "passes rq rs (delete_refresh_cookie h rs1) = passes rq rs rs1"
  by (simp_all add: passes_def add_cookie_def set_refresh_cookie_def delete_refresh_cookie_def)

lemma passes_write_error [simp]: "passes rq rs rs1 \<Longrightarrow> passes rq rs (write_error rq e rs1)"
  by (auto simp: passes_def write_error_def send_def split: prod.splits)

lemma yields_fail [yields_rules]:
  "passes rq rs rs1 \<Longrightarrow> yields (fail_with rq rs1 e) (passes rq rs)"
  "passes rq rs rs1 \<Longrightarrow> yields (panicked rq rs1) (passes rq rs)"
  by (simp_all add: fail_with_def panicked_def yields_return)

lemma yields_guards [yields_rules]:
  "clean rs \<Longrightarrow> (\<And>i. yields (body i) (passes rq rs)) \<Longrightarrow> yields (for_identity E h rq rs body) (passes rq rs)"
  "clean rs \<Longrightarrow> (\<And>i. yields (body i) (passes rq rs)) \<Longrightarrow> yields (for_superuser E h rq rs body) (passes rq rs)"
  unfolding for_identity_def for_superuser_def by (intro yields_rules passes_refl; simp)+


lemmas handler_defs = list_public_system_configs_h_def list_system_configs_h_def send_config_def
  get_system_config_h_def create_system_config_h_def update_system_config_h_def delete_system_config_h_def
  upload_file_h_def get_file_h_def delete_file_h_def login_h_def refresh_token_h_def logout_h_def
  get_password_policy_h_def get_current_user_h_def list_current_user_sessions_h_def
  revoke_other_current_user_sessions_h_def revoke_current_user_session_h_def change_password_h_def
  list_users_h_def create_user_h_def update_user_h_def set_user_status_h_def reset_user_password_h_def
  archive_user_h_def get_liveness_h_def get_readiness_h_def

lemmas wrapper_defs = wrap_login_def wrap_logout_def wrap_get_password_policy_def wrap_refresh_token_def
  wrap_upload_file_def wrap_delete_file_def wrap_get_current_user_def wrap_change_password_def
  wrap_list_current_user_sessions_def wrap_revoke_other_current_user_sessions_def
  wrap_revoke_current_user_session_def wrap_list_system_configs_def wrap_create_system_config_def
  wrap_list_public_system_configs_def wrap_delete_system_config_def wrap_get_system_config_def
  wrap_update_system_config_def wrap_list_users_def wrap_create_user_def wrap_archive_user_def
  wrap_update_user_def wrap_reset_user_password_def wrap_set_user_status_def wrap_get_file_def
  wrap_get_liveness_def wrap_get_readiness_def



section \<open>The request id\<close>





section \<open>Every response\<close>

lemma headers_simps [simp]:
  "map_of (rs_headers (add_header name v rs)) = (map_of (rs_headers rs))(name \<mapsto> v)"
  "rs_body (add_header name v rs) = rs_body rs" "clean (add_header name v rs) = clean rs"
  "rs_headers (send_status st rs) = rs_headers rs" "rs_body (send_status st rs) = rs_body rs"
  by (simp_all add: add_header_def update_conv' clean_def send_status_def)

lemma cors_headers_simps [simp]:
  "clean (cors_headers cors origin rs) = clean rs" "rs_body (cors_headers cors origin rs) = rs_body rs"
  "map_of (rs_headers (cors_headers cors origin rs)) ''Access-Control-Allow-Origin'' = Some origin"
  "name \<in> {''X-Request-ID'', ''X-Content-Type-Options'', ''X-Frame-Options'', ''Referrer-Policy'',
       ''Content-Security-Policy''} \<Longrightarrow>
     map_of (rs_headers (cors_headers cors origin rs)) name = map_of (rs_headers rs) name"
  by (auto simp: cors_headers_def Let_def)




lemma gin_lawsD: "gin_laws L \<Longrightarrow> gl_match L rs m p = Some (t, ps) \<Longrightarrow> \<exists>pattern. (m, pattern, t) \<in> set rs"
  unfolding gin_laws_def by blast

text \<open>A library for evaluation: routes match their pattern literally, and every binding fails.\<close>

definition mem_gin :: gin_lib where
  "mem_gin = \<lparr>
     gl_match = (\<lambda>rs m p. map_option (\<lambda>(_, _, t). (t, \<lambda>_. ''''))
       (find (\<lambda>(m', p', _). m' = m \<and> p' = p) rs)),
     gl_valid = (\<lambda>_ _. None), gl_uuid = (\<lambda>_. Inl (Plain ''uuid'')), gl_text = (\<lambda>s. Inr s),
     gl_query_int = (\<lambda>_ _. Inr None), gl_query_text = (\<lambda>_ _. Inr None),
     gl_login = (\<lambda>_. Inl (Plain ''json'')), gl_change_password = (\<lambda>_. Inl (Plain ''json'')),
     gl_create_user = (\<lambda>_. Inl (Plain ''json'')), gl_update_user = (\<lambda>_. Inl (Plain ''json'')),
     gl_set_status = (\<lambda>_. Inl (Plain ''json'')), gl_reset_password = (\<lambda>_. Inl (Plain ''json'')),
     gl_system_config = (\<lambda>_. Inl (Plain ''json'')), gl_multipart = (\<lambda>_. Inl (Plain ''multipart'')),
     gl_spec_json = Inr ''{}''\<rparr>"

lemma mem_gin_laws [simp]: "gin_laws mem_gin"
proof -
  have "(m, p, t) \<in> set rs" if "find (\<lambda>(m', p', _). m' = m \<and> p' = p) rs = Some (m1, p1, t)"
    for rs :: "route list" and m p m1 p1 t
    using that by (induction rs) (auto split: if_splits prod.splits)
  then show ?thesis by (fastforce simp: gin_laws_def mem_gin_def)
qed

definition get_request :: "string \<Rightarrow> wire" where
  "get_request path = \<lparr>wi_request = (bearer_request '''')\<lparr>rq_path := path\<rparr>, wi_query = '''', wi_body = None\<rparr>"


section \<open>Disabled modules\<close>

lemma handler_updates [simp]:
  "hd_auth (h\<lparr>hd_files := f\<rparr>) = hd_auth h" "hd_auth (h\<lparr>hd_system_configs := c\<rparr>) = hd_auth h"
  by (cases h; simp)+

lemma guards_ignore [simp]:
  "for_identity E (h\<lparr>hd_files := f\<rparr>) = for_identity E h" "for_superuser E (h\<lparr>hd_files := f\<rparr>) = for_superuser E h"
  "for_identity E (h\<lparr>hd_system_configs := c\<rparr>) = for_identity E h"
  "for_superuser E (h\<lparr>hd_system_configs := c\<rparr>) = for_superuser E h"
  by (simp_all add: for_identity_def for_superuser_def superuser_of_def identity_of_def fun_eq_iff)

lemma cookies_ignore [simp]:
  "set_refresh_cookie (h\<lparr>hd_files := f\<rparr>) = set_refresh_cookie h"
  "delete_refresh_cookie (h\<lparr>hd_files := f\<rparr>) = delete_refresh_cookie h"
  "set_refresh_cookie (h\<lparr>hd_system_configs := c\<rparr>) = set_refresh_cookie h"
  "delete_refresh_cookie (h\<lparr>hd_system_configs := c\<rparr>) = delete_refresh_cookie h"
  "origin_allowed (h\<lparr>hd_files := f\<rparr>) = origin_allowed h"
  "origin_allowed (h\<lparr>hd_system_configs := c\<rparr>) = origin_allowed h"
  by (simp_all add: set_refresh_cookie_def delete_refresh_cookie_def origin_allowed_def fun_eq_iff)

definition file_operations :: "operation list" where
  "file_operations = [OpUploadFile, OpDeleteFile, OpGetFile]"

definition config_operations :: "operation list" where
  "config_operations = [OpListSystemConfigs, OpCreateSystemConfig, OpListPublicSystemConfigs,
     OpDeleteSystemConfig, OpGetSystemConfig, OpUpdateSystemConfig]"

lemma other_operations_ignore_files:
  "op \<notin> set file_operations \<Longrightarrow>
     call_operation op E L (h\<lparr>hd_files := f\<rparr>) ps wq rs = call_operation op E L h ps wq rs"
  by (cases op) (simp_all add: file_operations_def wrapper_defs handler_defs cong: option.case_cong sum.case_cong if_cong)

lemma other_operations_ignore_configs:
  "op \<notin> set config_operations \<Longrightarrow>
     call_operation op E L (h\<lparr>hd_system_configs := c\<rparr>) ps wq rs = call_operation op E L h ps wq rs"
  by (cases op) (simp_all add: config_operations_def wrapper_defs handler_defs cong: option.case_cong sum.case_cong if_cong)

lemma disabled_routes:
  assumes "(verb, path, Api op) \<in> set (router_routes cfg)"
  shows "\<not> m_file (cfg_modules cfg) \<Longrightarrow> op \<notin> set file_operations"
    "\<not> m_system_config (cfg_modules cfg) \<Longrightarrow> op \<notin> set config_operations"
proof -
  have "(verb, path, op) \<in> set api_routes" "route_kept (cfg_modules cfg) (verb, path, op)"
    using assms by (auto simp: router_routes_def documentation_routes_def split: if_splits)
  then show "\<not> m_file (cfg_modules cfg) \<Longrightarrow> op \<notin> set file_operations"
      "\<not> m_system_config (cfg_modules cfg) \<Longrightarrow> op \<notin> set config_operations"
    by (auto simp: api_routes_def file_operations_def config_operations_def route_kept_def router_get_def
        router_post_def router_delete_def router_put_def has_prefix_def)
qed

lemma router_ignores:
  assumes "gin_laws L"
    "\<And>op verb path ps wq rs. (verb, path, Api op) \<in> set (router_routes cfg) \<Longrightarrow>
       call_operation op E L h1 ps wq rs = call_operation op E L h2 ps wq rs"
  shows "new_router E L h1 cfg = new_router E L h2 cfg"
proof -
  have "router_engine E L h1 cfg wq rs = router_engine E L h2 cfg wq rs" for wq rs
  proof (cases "gl_match L (router_routes cfg) (rq_method (wi_request wq)) (rq_path (wi_request wq))")
    case (Some m)
    obtain t ps where m: "m = (t, ps)" by (cases m)
    obtain path where "(rq_method (wi_request wq), path, t) \<in> set (router_routes cfg)"
      using gin_lawsD [OF assms(1) Some [unfolded m]] by blast
    then show ?thesis
      using assms(2) by (cases t) (simp_all add: router_engine_def Some m openapi_validation_middleware_def
        split: option.split)
  qed (simp add: router_engine_def)
  then have "router_engine E L h1 cfg = router_engine E L h2 cfg" by (simp add: fun_eq_iff)
  then show ?thesis by (simp add: new_router_def)
qed

text \<open>C14: no request reaches the service of a disabled module: the server behaves the same
  whatever the service is.\<close>

theorem disabled_modules_unreachable:
  assumes "gin_laws L"
  shows "(\<not> m_file (cfg_modules cfg) \<longrightarrow>
      new_router E L (h\<lparr>hd_files := f1\<rparr>) cfg = new_router E L (h\<lparr>hd_files := f2\<rparr>) cfg) \<and>
    (\<not> m_system_config (cfg_modules cfg) \<longrightarrow>
      new_router E L (h\<lparr>hd_system_configs := c1\<rparr>) cfg = new_router E L (h\<lparr>hd_system_configs := c2\<rparr>) cfg)"
  by (intro conjI impI router_ignores [OF assms])
     (simp_all add: disabled_routes other_operations_ignore_files other_operations_ignore_configs)

lemma disabled_modules_unreachable_witness:
  "\<forall>f. new_router mem_http_env mem_gin (mem_handler\<lparr>hd_files := None\<rparr>) default_config =
     new_router mem_http_env mem_gin (mem_handler\<lparr>hd_files := Some f\<rparr>) default_config"
proof -
  have "\<not> m_file (cfg_modules default_config)" by (simp add: default_config_def)
  then show ?thesis using disabled_modules_unreachable [OF mem_gin_laws] by blast
qed

section \<open>Requests without a token\<close>

text \<open>The operations that need none.\<close>

definition public_operations :: "operation list" where
  "public_operations = [OpLogin, OpRefreshToken, OpGetPasswordPolicy, OpListPublicSystemConfigs, OpGetFile,
     OpGetLiveness, OpGetReadiness]"

lemma no_options_route: "(verb, path, t) \<in> set (router_routes cfg) \<Longrightarrow> verb \<noteq> ''OPTIONS''"
proof -
  have api: "\<forall>r \<in> set api_routes. fst r \<noteq> ''OPTIONS''" by (simp add: api_routes_def)
  have docs: "\<forall>r \<in> set documentation_routes. fst r \<noteq> ''OPTIONS''" by (simp add: documentation_routes_def)
  assume "(verb, path, t) \<in> set (router_routes cfg)"
  then have "(\<exists>r \<in> set api_routes. verb = fst r) \<or> (\<exists>r \<in> set documentation_routes. verb = fst r)"
    by (force simp: router_routes_def split: if_splits)
  then show ?thesis using api docs by auto
qed

lemma anonymous_guards:
  assumes "bearer (rq_header rq ''Authorization'') = None"
  shows "for_identity E h rq rs body = fail_with rq rs (auth_http_error (Sentinel InvalidToken))"
    "for_superuser E h rq rs body = fail_with rq rs (auth_http_error (Sentinel InvalidToken))"
  by (simp_all add: for_identity_def for_superuser_def superuser_of_def identity_of_def assms)

lemma anonymous_operation:
  assumes "bearer (rq_header (wi_request wq) ''Authorization'') = None" "\<not> rs_written rs"
    "op \<notin> set public_operations"
  shows "wp (call_operation op E L h ps wq rs) (\<lambda>rs' w'. w' = w \<and> 400 \<le> rs_status rs') w"
proof -
  have failed: "wp (fail_with (wi_request wq) rs e) (\<lambda>rs' w'. w' = w \<and> 400 \<le> rs_status rs') w" for e
    using write_error_refused [OF assms(2), of "wi_request wq" e] by (simp add: wp_rules refused_def)
  note anonymous = anonymous_guards [OF assms(1)]
  show ?thesis
    using assms(3)
    by (cases op; simp only: call_operation.simps wrapper_defs handler_defs anonymous)
      (simp_all add: public_operations_def with_param_def failed split: sum.split)
qed

text \<open>C5: a request without a bearer token, on a route of any operation but the public ones,
  is answered with an error, and nothing of the world is touched but the randomness for the request
  id.\<close>

theorem anonymous_requests_refused:
  assumes "gin_laws L" "leaves (ae_rand (he_auth E) 16) f"
    "bearer (rq_header (wi_request wq) ''Authorization'') = None"
    "gl_match L (router_routes cfg) (rq_method (wi_request wq)) (rq_path (wi_request wq)) = Some (Api op, ps)"
    "op \<notin> set public_operations"
  shows "wp (new_router E L h cfg wq fresh_response) (\<lambda>rs' w'. f w' = f w \<and> 400 \<le> rs_status rs') w"
proof -
  have get: "rq_method (wi_request wq) \<noteq> ''OPTIONS''" using gin_lawsD [OF assms(1,4)] no_options_route by blast
  define post :: "response \<Rightarrow> 'a \<Rightarrow> bool" where "post = (\<lambda>rs' w'. f w' = f w \<and> 400 \<le> rs_status rs')"
  have engine: "wp (router_engine E L h cfg wq1 rs) post w1"
    if "f w1 = f w" "\<not> rs_written rs" "rq_header (wi_request wq1) = rq_header (wi_request wq)"
      "rq_method (wi_request wq1) = rq_method (wi_request wq)" "rq_path (wi_request wq1) = rq_path (wi_request wq)"
    for wq1 rs w1
  proof (cases "gl_valid L (is_upload (wi_request wq1)) wq1")
    case None
    have "wp (call_operation op E L h ps wq1 rs) post w1"
      by (rule wp_mono [OF anonymous_operation]) (use that assms(3,5) in \<open>simp_all add: post_def\<close>)
    then show ?thesis
      by (simp add: router_engine_def that assms(4) openapi_validation_middleware_def None)
  next
    case (Some status)
    have "400 \<le> rs_status (write_error (wi_request wq1) e rs)" for e
      using write_error_refused [OF that(2)] by (auto simp: refused_def)
    then show ?thesis
      by (simp add: router_engine_def that assms(4) openapi_validation_middleware_def Some
          openapi_validation_error_def wp_rules post_def send_status_def)
  qed
  have limited: "wp (body_limit_middleware m n (router_engine E L h cfg) wq1 rs) post w1"
    if "f w1 = f w" "\<not> rs_written rs" "rq_header (wi_request wq1) = rq_header (wi_request wq)"
      "rq_method (wi_request wq1) = rq_method (wi_request wq)" "rq_path (wi_request wq1) = rq_path (wi_request wq)"
    for m n wq1 rs w1
    using that by (cases "wi_body wq1") (simp_all add: body_limit_middleware_def Let_def engine)
  have id: "leaves (if \<not> valid_request_id U given then new_request_id (ae_rand (he_auth E))
      else State_Monad.return given) f" for U given
    unfolding new_request_id_def by (intro leaves_rules assms(2))
  have "\<not> rs_written (add_header ''X-Request-ID'' i fresh_response)" for i
    by (simp add: add_header_def fresh_response_def)
  then have "wp (new_router E L h cfg wq fresh_response) post w"
    unfolding new_router_def request_id_middleware_def Let_def wp_bind security_headers_middleware_def
    by (intro wp_mono [OF leavesD [OF id]])
       (simp add: cors_middleware_def Let_def get limited add_header_def cors_headers_def)
  then show ?thesis by (simp only: post_def)
qed

lemma anonymous_requests_refused_witness:
  "wp (new_router mem_http_env mem_gin mem_handler default_config (get_request ''/api/v1/users'') fresh_response)
     (\<lambda>rs' w'. w' = ((sample_users, []), sample_rdb) \<and> 400 \<le> rs_status rs') ((sample_users, []), sample_rdb)"
proof -
  have "leaves (ae_rand (he_auth mem_http_env) 16) id" by (simp add: mem_env_def)
  moreover have "bearer (rq_header (wi_request (get_request ''/api/v1/users'')) ''Authorization'') = None"
    by (simp add: get_request_def bearer_request_def bearer_def)
  moreover have "find (\<lambda>(m', p', _). m' = ''GET'' \<and> p' = ''/api/v1/users'') (router_routes default_config) =
      Some (''GET'', ''/api/v1/users'', Api OpListUsers)"
    by (simp add: router_routes_def api_routes_def default_config_def route_kept_def router_get_def
        router_post_def router_delete_def router_put_def has_prefix_def)
  then have "gl_match mem_gin (router_routes default_config)
      (rq_method (wi_request (get_request ''/api/v1/users''))) (rq_path (wi_request (get_request ''/api/v1/users''))) =
      Some (Api OpListUsers, \<lambda>_. '''')"
    by (simp add: mem_gin_def get_request_def bearer_request_def)
  moreover have "OpListUsers \<notin> set public_operations" by (simp add: public_operations_def)
  ultimately have "wp (new_router mem_http_env mem_gin mem_handler default_config (get_request ''/api/v1/users'')
      fresh_response) (\<lambda>rs' w'. id w' = id ((sample_users, []), sample_rdb) \<and> 400 \<le> rs_status rs')
      ((sample_users, []), sample_rdb)"
    by (rule anonymous_requests_refused [OF mem_gin_laws])
  then show ?thesis by (simp only: id_apply)
qed

section \<open>Body limits\<close>

lemma max_bytes_reader_bound: "int (length (fst (max_bytes_reader limit r))) \<le> max 0 limit"
  by (auto simp: max_bytes_reader_def split: prod.split)

lemma file_upload_body_limit_exact:
  assumes "validate_config U cfg = Inr ()" "m_file (cfg_modules cfg)"
  shows "file_upload_body_limit cfg = 2 ^ 20 + max (f_image_max_bytes (cfg_file cfg))
      (if f_video_enabled (cfg_file cfg) then f_video_max_bytes (cfg_file cfg) else 0)"
    "file_upload_body_limit cfg \<le> 2 ^ 31 + 2 ^ 20"
proof -
  have range: "512 \<le> f_image_max_bytes (cfg_file cfg)" "f_image_max_bytes (cfg_file cfg) \<le> 100 * 2 ^ 20"
      "512 \<le> f_video_max_bytes (cfg_file cfg)" "f_video_max_bytes (cfg_file cfg) \<le> 2 * 2 ^ 30"
    using assms(1) [unfolded validate_config_Inr set_append ball_Un] by (auto simp: module_checks_def)
  have "int64 x = x" if "0 \<le> x" "x < 2 ^ 63" for x
    using that unfolding int64_def by (intro signed_take_bit_int_eq_self) auto
  then show "file_upload_body_limit cfg = 2 ^ 20 + max (f_image_max_bytes (cfg_file cfg))
      (if f_video_enabled (cfg_file cfg) then f_video_max_bytes (cfg_file cfg) else 0)"
    using range assms(2) by (simp add: file_upload_body_limit_def multipart_overhead_bytes_def Let_def)
  then show "file_upload_body_limit cfg \<le> 2 ^ 31 + 2 ^ 20" using range by simp
qed

text \<open>C23: with an accepted configuration, the limit on the body of an upload is computed
  without overflow and leaves room for every file that may be uploaded and 1 MiB of multipart
  framing: such a body is never cut.  The limit never exceeds 2 GiB and 1 MiB, and what is read of
  any body never exceeds it.\<close>

theorem upload_limit_sufficient:
  assumes "validate_config U cfg = Inr ()" "m_file (cfg_modules cfg)"
    "size_ok \<le> f_image_max_bytes (cfg_file cfg) \<or>
       f_video_enabled (cfg_file cfg) \<and> size_ok \<le> f_video_max_bytes (cfg_file cfg)"
    "int (length body) \<le> size_ok + 2 ^ 20"
  shows "max_bytes_reader (file_upload_body_limit cfg) (body, e) = (body, e) \<and>
    file_upload_body_limit cfg \<le> 2 ^ 31 + 2 ^ 20 \<and>
    int (length (fst (max_bytes_reader (file_upload_body_limit cfg) r))) \<le> file_upload_body_limit cfg"
proof -
  have "size_ok + 2 ^ 20 \<le> file_upload_body_limit cfg"
    using file_upload_body_limit_exact [OF assms(1,2)] assms(3) by (auto simp: max_def)
  moreover have "0 \<le> file_upload_body_limit cfg"
    using calculation assms(4) by linarith
  ultimately show ?thesis
    using file_upload_body_limit_exact [OF assms(1,2)] assms(4) max_bytes_reader_bound [of "file_upload_body_limit cfg" r]
    by (simp add: max_bytes_reader_def)
qed

definition file_config_on :: config where
  "file_config_on = sample_config\<lparr>cfg_modules := \<lparr>m_file = True, m_system_config = False\<rparr>\<rparr>"

lemma upload_limit_sufficient_witness:
  "max_bytes_reader (file_upload_body_limit file_config_on) (''hello'', None) = (''hello'', None)"
proof -
  have "validate_config ascii_unicode file_config_on = Inr ()" by code_simp
  moreover have "m_file (cfg_modules file_config_on)" by (simp add: file_config_on_def)
  moreover have "1000 \<le> f_image_max_bytes (cfg_file file_config_on)"
    by (simp add: file_config_on_def sample_config_def default_config_def)
  ultimately show ?thesis using upload_limit_sufficient [where size_ok = 1000 and body = "''hello''" and e = None] by simp
qed

end
