(* ===== verification/Logging.thy ===== *)
theory Logging
  imports ConfigLoad Shared
begin

text \<open>
  The redaction of log records: \<open>internal/platform/logging/logging.go\<close>.

  A Go value is seen as \<open>reflect\<close> shows it.  Pointers, slices and maps refer to the heap, which may be
  cyclic; the entries of a map come in the order of its iterator.  What \<open>Interface()\<close> hands on as it is,
  a value of any other kind or a map whose keys are not strings, is opaque, of the type parameter.
\<close>

type_synonym addr = nat

datatype 'a gval =
    Invalid
  | Opaque 'a
  | NilRef 'a
  | Iface "'a gval"
  | Ptr addr
  | Struct "(string \<times> bool \<times> 'a gval) list"
  | Array "'a gval list"
  | Slice addr
  | StringMap addr

record 'a heap =
  hp_target :: "addr \<Rightarrow> 'a gval"
  hp_slice :: "addr \<Rightarrow> 'a gval list"
  hp_map :: "addr \<Rightarrow> (string \<times> 'a gval) list"

text \<open>What is logged: the fresh maps and slices the redaction builds, and what it hands on.\<close>

datatype 'a logged = Null | Text string | Raw 'a | Object "(string \<times> 'a logged) list" | Sequence "'a logged list"

section \<open>Sensitive keys\<close>

definition sensitive_log_keys :: "string list" where
  "sensitive_log_keys = [''password'', ''token'', ''authorization'', ''cookie'', ''private_key'', ''privatekey'',
     ''verification_keys'', ''verificationkeys'', ''access_token'', ''accesstoken'', ''refresh_token'',
     ''refreshtoken'', ''id_token'', ''idtoken'', ''api_key'', ''apikey'', ''client_secret'', ''clientsecret'',
     ''secret'', ''set_cookie'', ''setcookie'']"

fun join_separators :: "unicode \<Rightarrow> bool \<Rightarrow> rune list \<Rightarrow> rune list" where
  "join_separators U last_separator [] = []"
| "join_separators U last_separator (r # rs) =
     (if r = 45 \<or> r = 46 \<or> uc_space U r
      then (if last_separator then join_separators U True rs else 95 # join_separators U True rs)
      else r # join_separators U False rs)"

definition trim_underscores :: "string \<Rightarrow> string" where
  "trim_underscores s = trim_list (\<lambda>c. c = CHR ''_'') s"

definition normalize_key :: "unicode \<Rightarrow> string \<Rightarrow> string" where
  "normalize_key U key =
     trim_underscores (encode_runes (join_separators U False (runes (to_lower U (trim_space U key)))))"

definition is_sensitive_key :: "unicode \<Rightarrow> string \<Rightarrow> bool" where
  "is_sensitive_key U key \<longleftrightarrow> normalize_key U key \<in> set sensitive_log_keys"

section \<open>Values\<close>

definition redacted_value :: string where "redacted_value = ''[REDACTED]''"
definition cycle_value :: string where "cycle_value = ''[CYCLE]''"
definition max_depth :: nat where "max_depth = 32"
definition max_nodes :: nat where "max_nodes = 1024"

record redaction_state =
  rn_visited :: "addr list"
  rn_nodes :: nat

definition new_redaction_state :: redaction_state where
  "new_redaction_state = \<lparr>rn_visited = [], rn_nodes = 0\<rparr>"

definition count_node :: "redaction_state \<Rightarrow> redaction_state" where
  "count_node s = s\<lparr>rn_nodes := Suc (rn_nodes s)\<rparr>"

text \<open>
  \<open>redactReflectValue\<close> with \<open>redactSequence\<close>, \<open>redactStruct\<close> and the loop over a map.  The depth bounds the
  recursion: the structures have no end when the heap is cyclic.
\<close>

function (sequential)
  redact_value :: "unicode \<Rightarrow> 'a heap \<Rightarrow> nat \<Rightarrow> 'a gval \<Rightarrow> redaction_state \<Rightarrow> 'a logged \<times> redaction_state" and
  redact_sequence :: "unicode \<Rightarrow> 'a heap \<Rightarrow> nat \<Rightarrow> 'a gval list \<Rightarrow> redaction_state \<Rightarrow> 'a logged list \<times> redaction_state" and
  redact_struct :: "unicode \<Rightarrow> 'a heap \<Rightarrow> nat \<Rightarrow> (string \<times> bool \<times> 'a gval) list \<Rightarrow> redaction_state \<Rightarrow>
    (string \<times> 'a logged) list \<times> redaction_state" and
  redact_entries :: "unicode \<Rightarrow> 'a heap \<Rightarrow> nat \<Rightarrow> (string \<times> 'a gval) list \<Rightarrow> redaction_state \<Rightarrow>
    (string \<times> 'a logged) list \<times> redaction_state"
where
  "redact_value U H depth v s =
     (if v = Invalid then (Null, s)
      else if max_depth \<le> depth \<or> max_nodes \<le> rn_nodes s then (Text redacted_value, s)
      else let s = count_node s in
        (case v of
           NilRef x \<Rightarrow> (Raw x, s)
         | Iface x \<Rightarrow> redact_value U H (depth + 1) x s
         | Ptr a \<Rightarrow> redact_value U H (depth + 1) (hp_target H a) s
         | Struct fs \<Rightarrow> apfst Object (redact_struct U H (depth + 1) fs s)
         | Array xs \<Rightarrow> apfst Sequence (redact_sequence U H (depth + 1) xs s)
         | Slice a \<Rightarrow> apfst Sequence (redact_sequence U H (depth + 1) (hp_slice H a) s)
         | StringMap a \<Rightarrow>
             if a \<in> set (rn_visited s) then (Text cycle_value, s)
             else (case redact_entries U H depth (hp_map H a) (s\<lparr>rn_visited := a # rn_visited s\<rparr>) of
               (es, s') \<Rightarrow> (Object es, s'\<lparr>rn_visited := remove1 a (rn_visited s')\<rparr>))
         | Opaque x \<Rightarrow> (Raw x, s)))"
| "redact_sequence U H depth [] s = ([], s)"
| "redact_sequence U H depth (x # xs) s =
     (case redact_value U H (depth + 1) x s of
        (y, s1) \<Rightarrow> (case redact_sequence U H depth xs s1 of (ys, s2) \<Rightarrow> (y # ys, s2)))"
| "redact_struct U H depth [] s = ([], s)"
| "redact_struct U H depth ((name, exported, x) # fs) s =
     (if \<not> exported then redact_struct U H depth fs s
      else if is_sensitive_key U name
      then (case redact_struct U H depth fs s of (ys, s1) \<Rightarrow> ((name, Text redacted_value) # ys, s1))
      else (case redact_value U H (depth + 1) x s of
        (y, s1) \<Rightarrow> (case redact_struct U H depth fs s1 of (ys, s2) \<Rightarrow> ((name, y) # ys, s2))))"
| "redact_entries U H depth [] s = ([], s)"
| "redact_entries U H depth ((key, x) # es) s =
     (if is_sensitive_key U key
      then (case redact_entries U H depth es s of (ys, s1) \<Rightarrow> ((key, Text redacted_value) # ys, s1))
      else (case redact_value U H (depth + 1) x s of
        (y, s1) \<Rightarrow> (case redact_entries U H depth es s1 of (ys, s2) \<Rightarrow> ((key, y) # ys, s2))))"
  by pat_completeness auto

termination
  by (relation "measures [\<lambda>x. case x of
         Inl (Inl (_, _, d, _)) \<Rightarrow> 2 * (max_depth + 2 - d)
       | Inl (Inr (_, _, d, _)) \<Rightarrow> 2 * (max_depth + 2 - d)
       | Inr (Inl (_, _, d, _)) \<Rightarrow> 2 * (max_depth + 2 - d)
       | Inr (Inr (_, _, d, _)) \<Rightarrow> 2 * (max_depth + 2 - d) - 1,
     \<lambda>x. case x of
         Inl (Inl _) \<Rightarrow> 0
       | Inl (Inr (_, _, _, xs, _)) \<Rightarrow> length xs
       | Inr (Inl (_, _, _, fs, _)) \<Rightarrow> length fs
       | Inr (Inr (_, _, _, es, _)) \<Rightarrow> length es]")
     (auto simp: max_depth_def)

declare redact_value.simps [simp del]

section \<open>Attributes\<close>

text \<open>
  The value of a \<open>slog.Attr\<close>: a group, an arbitrary value, one of the scalar kinds, or a \<open>LogValuer\<close> with
  what its \<open>LogValue\<close> returns.  \<open>Resolve\<close> calls it at most 100 times, then gives an error value.
\<close>

datatype 'a attr_value = Group "(string \<times> 'a attr_value) list" | AnyValue "'a gval" | Scalar 'a | Valuer "'a attr_value"

datatype 'a logged_attr = LoggedGroup "(string \<times> 'a logged_attr) list" | LoggedAny "'a logged" | LoggedText string | LoggedScalar 'a

fun resolve :: "nat \<Rightarrow> 'a gval \<Rightarrow> 'a attr_value \<Rightarrow> 'a attr_value" where
  "resolve 0 too_many v = AnyValue too_many"
| "resolve (Suc n) too_many (Valuer v) = resolve n too_many v"
| "resolve (Suc n) too_many v = v"

text \<open>\<open>slog.GroupValue\<close> and \<open>Record.AddAttrs\<close> omit empty groups.\<close>

definition drop_empty_groups :: "(string \<times> 'a logged_attr) list \<Rightarrow> (string \<times> 'a logged_attr) list" where
  "drop_empty_groups as = filter (\<lambda>a. snd a \<noteq> LoggedGroup []) as"

function (sequential)
  redact_attr :: "unicode \<Rightarrow> 'a heap \<Rightarrow> 'a gval \<Rightarrow> nat \<Rightarrow> string \<times> 'a attr_value \<Rightarrow> redaction_state \<Rightarrow>
    (string \<times> 'a logged_attr) \<times> redaction_state" and
  redact_attrs :: "unicode \<Rightarrow> 'a heap \<Rightarrow> 'a gval \<Rightarrow> nat \<Rightarrow> (string \<times> 'a attr_value) list \<Rightarrow> redaction_state \<Rightarrow>
    (string \<times> 'a logged_attr) list \<times> redaction_state"
where
  "redact_attr U H too_many depth (key, value) s =
     (if is_sensitive_key U key then ((key, LoggedText redacted_value), s)
      else if max_depth \<le> depth \<or> max_nodes \<le> rn_nodes s then ((key, LoggedText redacted_value), s)
      else let s = count_node s in
        (case resolve 100 too_many value of
           Group attrs \<Rightarrow> (case redact_attrs U H too_many (depth + 1) attrs s of
             (out, s1) \<Rightarrow> ((key, LoggedGroup (drop_empty_groups out)), s1))
         | AnyValue v \<Rightarrow> (case redact_value U H (depth + 1) v s of (y, s1) \<Rightarrow> ((key, LoggedAny y), s1))
         | Scalar x \<Rightarrow> ((key, LoggedScalar x), s)
         | Valuer v \<Rightarrow> ((key, LoggedText redacted_value), s)))"
| "redact_attrs U H too_many depth [] s = ([], s)"
| "redact_attrs U H too_many depth (a # attrs) s =
     (case redact_attr U H too_many depth a s of
        (b, s1) \<Rightarrow> (case redact_attrs U H too_many depth attrs s1 of (bs, s2) \<Rightarrow> (b # bs, s2)))"
  by pat_completeness auto

termination
  by (relation "measures [\<lambda>x. case x of Inl (_, _, _, d, _) \<Rightarrow> max_depth + 1 - d | Inr (_, _, _, d, _) \<Rightarrow> max_depth + 1 - d,
       \<lambda>x. case x of Inl _ \<Rightarrow> 0 | Inr (_, _, _, _, attrs, _) \<Rightarrow> Suc (length attrs)]")
     (auto simp: max_depth_def)

declare redact_attr.simps [simp del]

section \<open>The handler\<close>

text \<open>
  A logger is the handler below it and what \<open>WithAttrs\<close> and \<open>WithGroup\<close> were called with; the redacting
  handler passes on these calls and the record with redacted attributes.
\<close>

datatype 'v with_call = WithAttrs "(string \<times> 'v) list" | WithGroup string

definition redact_all ::
  "unicode \<Rightarrow> 'a heap \<Rightarrow> 'a gval \<Rightarrow> (string \<times> 'a attr_value) list \<Rightarrow> (string \<times> 'a logged_attr) list" where
  "redact_all U H too_many attrs = fst (redact_attrs U H too_many 0 attrs new_redaction_state)"

definition redact_with ::
  "unicode \<Rightarrow> 'a heap \<Rightarrow> 'a gval \<Rightarrow> 'a attr_value with_call \<Rightarrow> 'a logged_attr with_call" where
  "redact_with U H too_many c =
     (case c of WithAttrs attrs \<Rightarrow> WithAttrs (redact_all U H too_many attrs) | WithGroup name \<Rightarrow> WithGroup name)"

record 'v log_record =
  lr_time :: time
  lr_level :: int
  lr_message :: string
  lr_attrs :: "(string \<times> 'v) list"

definition redacting_handle ::
  "unicode \<Rightarrow> 'a heap \<Rightarrow> 'a gval \<Rightarrow> 'a attr_value log_record \<Rightarrow> 'a logged_attr log_record" where
  "redacting_handle U H too_many r = \<lparr>lr_time = lr_time r, lr_level = lr_level r, lr_message = lr_message r,
     lr_attrs = drop_empty_groups (redact_all U H too_many (lr_attrs r))\<rparr>"

text \<open>\<open>WithContext\<close>: the request identifier of the context, unless it is empty.\<close>

definition with_context :: "(string \<Rightarrow> 'a) \<Rightarrow> req_context \<Rightarrow> 'a attr_value with_call list" where
  "with_context str ctx =
     (case request_id ctx of (i, ok) \<Rightarrow>
        if ok \<and> i \<noteq> '''' then [WithAttrs [(''request_id'', Scalar (str i))]] else [])"

section \<open>New\<close>

text \<open>
  \<open>slog.Level.UnmarshalText\<close>: a name in any case and an offset; \<open>strings.ToUpper\<close> takes the dotless i to I.
\<close>

definition upper_rune :: "rune \<Rightarrow> rune" where
  "upper_rune r = (if 97 \<le> r \<and> r < 123 then r - 32 else if r = 305 then 73 else r)"

definition level_name :: "string \<Rightarrow> int option" where
  "level_name name =
     (let rs = map upper_rune (runes name)
      in if rs = map of_char ''DEBUG'' then Some (- 4) else if rs = map of_char ''INFO'' then Some 0
         else if rs = map of_char ''WARN'' then Some 4 else if rs = map of_char ''ERROR'' then Some 8 else None)"

definition parse_level :: "string \<Rightarrow> int option" where
  "parse_level s =
     (let name = takeWhile (\<lambda>c. c \<noteq> CHR ''+'' \<and> c \<noteq> CHR ''-'') s; rest = drop (length name) s
      in if rest = '''' then level_name name
         else case parse_int 64 rest of
             None \<Rightarrow> None
           | Some delta \<Rightarrow> map_option (\<lambda>l. sint (word_of_int (l + delta) :: 64 word)) (level_name name))"

text \<open>The level variable and whether the handler writes text instead of JSON.\<close>

definition new_logger :: "log_config \<Rightarrow> int \<times> bool" where
  "new_logger cfg =
     (case parse_level (l_level cfg) of None \<Rightarrow> 0 | Some l \<Rightarrow> l, map lower_byte (l_format cfg) = ''text'')"

end
