(* ===== verification/DatabasePlatform.thy ===== *)
theory DatabasePlatform
  imports ConfigLoad Driver
begin

text \<open>
  The connection components: \<open>internal/platform/database/database.go\<close> and \<open>migrate.go\<close>, and
  \<open>internal/platform/redisstore/client.go\<close>.

  The pool of pgx and the migrator of tern are libraries: a pool is a handle of type \<open>'p\<close>, a
  connection one of type \<open>'c\<close>, and the operations on them are the fields of \<open>pgx_lib\<close> and
  \<open>tern_lib\<close>.  The pool a component holds is a variable of the world.
\<close>

section \<open>Variables\<close>

record ('w, 'a) var =
  v_get :: "'w \<Rightarrow> 'a"
  v_put :: "'a \<Rightarrow> 'w \<Rightarrow> 'w"

definition var_laws :: "('w, 'a) var \<Rightarrow> bool" where
  "var_laws v \<longleftrightarrow> (\<forall>x w. v_get v (v_put v x w) = x)"

definition read_var :: "('w, 'a) var \<Rightarrow> ('w, 'a) state" where
  "read_var v = do { w \<leftarrow> State_Monad.get; State_Monad.return (v_get v w) }"

definition write_var :: "('w, 'a) var \<Rightarrow> 'a \<Rightarrow> ('w, unit) state" where
  "write_var v x = do { w \<leftarrow> State_Monad.get; State_Monad.set (v_put v x w) }"

lemma wp_read_var [wp_rules]: "wp (read_var v) Q = (\<lambda>w. Q (v_get v w) w)"
  by (simp add: read_var_def wp_rules fun_eq_iff)

lemma wp_write_var [wp_rules]: "wp (write_var v x) Q = (\<lambda>w. Q () (v_put v x w))"
  by (simp add: write_var_def wp_rules fun_eq_iff)

section \<open>Pools\<close>

text \<open>The URL that \<open>newPoolConfig\<close> builds, by its parts; rendering and parsing it is the library's.\<close>

record pg_endpoint =
  ep_user :: string
  ep_password :: string
  ep_host :: string
  ep_path :: string
  ep_query :: "(string \<times> string) list"

record pool_config =
  pc_endpoint :: pg_endpoint
  pc_min_conns :: int
  pc_max_conns :: int
  pc_timezone :: string

text \<open>One row of one column.\<close>

datatype cell = TextCell string | IntCell int | BoolCell bool

record ('w, 'p, 'c) pgx_lib =
  px_parse :: "pg_endpoint \<Rightarrow> err + unit"
  px_new :: "pool_config \<Rightarrow> ('w, err + 'p) state"
  px_close :: "'p \<Rightarrow> ('w, unit) state"
  px_ping :: "'p \<Rightarrow> ('w, err + unit) state"
  px_row :: "'p \<Rightarrow> string \<Rightarrow> string list \<Rightarrow> ('w, err + cell) state"
  px_acquire :: "'p \<Rightarrow> ('w, err + 'c) state"
  px_release :: "'c \<Rightarrow> ('w, unit) state"
  px_conn_row :: "'c \<Rightarrow> string \<Rightarrow> string list \<Rightarrow> ('w, err + cell) state"
  px_conn_exec :: "'c \<Rightarrow> string \<Rightarrow> ('w, err + unit) state"

record ('w, 'c) tern_lib =
  tn_new :: "'c option \<Rightarrow> ('w, err + unit) state"
  tn_load :: "('w, err + nat) state"
  tn_version :: "'c \<Rightarrow> ('w, err + i32) state"
  tn_migrate :: "'c \<Rightarrow> ('w, err + unit) state"

text \<open>\<open>Scan\<close> into a string, an \<open>int32\<close>, an \<open>int\<close> and a \<open>bool\<close>\<close>

definition scan_text :: "err + cell \<Rightarrow> err + string" where
  "scan_text r = (case r of Inl e \<Rightarrow> Inl e | Inr (TextCell s) \<Rightarrow> Inr s | _ \<Rightarrow> Inl (Plain ''scan''))"

definition scan_int32 :: "err + cell \<Rightarrow> err + i32" where
  "scan_int32 r = (case r of
     Inl e \<Rightarrow> Inl e
   | Inr (IntCell n) \<Rightarrow> if - (2 ^ 31) \<le> n \<and> n < 2 ^ 31 then Inr (word_of_int n) else Inl (Plain ''scan'')
   | _ \<Rightarrow> Inl (Plain ''scan''))"

definition scan_int :: "err + cell \<Rightarrow> err + int" where
  "scan_int r = (case r of Inl e \<Rightarrow> Inl e | Inr (IntCell n) \<Rightarrow> Inr n | _ \<Rightarrow> Inl (Plain ''scan''))"

definition scan_bool :: "err + cell \<Rightarrow> err + bool" where
  "scan_bool r = (case r of Inl e \<Rightarrow> Inl e | Inr (BoolCell b) \<Rightarrow> Inr b | _ \<Rightarrow> Inl (Plain ''scan''))"

definition wrap_with :: "string \<Rightarrow> err + 'a \<Rightarrow> err + 'a" where
  "wrap_with msg r = (case r of Inl e \<Rightarrow> Inl (Wrapped msg [e]) | Inr x \<Rightarrow> Inr x)"

section \<open>newPoolConfig\<close>

text \<open>\<open>strconv.Itoa\<close> and \<open>net.JoinHostPort\<close>\<close>

definition itoa :: "int \<Rightarrow> string" where
  "itoa n = (if n < 0 then CHR ''-'' # show_nat (nat (- n)) else show_nat (nat n))"

definition join_host_port :: "string \<Rightarrow> string \<Rightarrow> string" where
  "join_host_port host port =
     (if CHR '':'' \<in> set host then ''['' @ host @ '']:'' @ port else host @ '':'' @ port)"

definition new_pool_config :: "('w, 'p, 'c) pgx_lib \<Rightarrow> database_config \<Rightarrow> err + pool_config" where
  "new_pool_config X cfg =
     (let endpoint = \<lparr>ep_user = d_user cfg, ep_password = reveal (d_password cfg),
        ep_host = join_host_port (d_host cfg) (itoa (d_port cfg)), ep_path = d_name cfg,
        ep_query = [(''connect_timeout'', itoa (max 1 (d_connect_timeout cfg div second))),
          (''sslmode'', d_ssl_mode cfg)]\<rparr>
      in case px_parse X endpoint of
           Inl _ \<Rightarrow> Inl (Plain ''database configuration is invalid'')
         | Inr _ \<Rightarrow> Inr \<lparr>pc_endpoint = endpoint, pc_min_conns = d_min_connections cfg,
             pc_max_conns = d_max_connections cfg, pc_timezone = ''UTC''\<rparr>)"

section \<open>Inspection of a database\<close>

definition version_table :: string where "version_table = ''public.goba_schema_version''"

record db_status =
  st_server_version :: string
  st_schema_version :: i32
  st_expected :: i32
  st_pending :: i32
  st_initialized :: bool

definition no_status :: db_status where
  "no_status = \<lparr>st_server_version = '''', st_schema_version = 0, st_expected = 0, st_pending = 0,
     st_initialized = False\<rparr>"

text \<open>\<open>ErrNotStarted\<close>, \<open>ErrSchemaMissing\<close>, \<open>ErrSchemaMismatch\<close> and \<open>ErrDatabaseNotEmpty\<close>\<close>

definition err_not_started :: err where "err_not_started = Plain ''PostgreSQL is not started''"
definition err_schema_missing :: err where "err_schema_missing = Plain ''schema is not initialised''"
definition err_schema_mismatch :: err where "err_schema_mismatch = Plain ''schema version mismatch''"
definition err_database_not_empty :: err where
  "err_database_not_empty = Plain ''target database is not empty and not managed''"

text \<open>A \<open>rowQuerier\<close> is the function that runs a query for one row.\<close>

type_synonym 'w row_querier = "string \<Rightarrow> string list \<Rightarrow> ('w, err + cell) state"

definition server_version :: "'w row_querier \<Rightarrow> ('w, err + string) state" where
  "server_version query = do {
     r \<leftarrow> query ''SHOW server_version_num'' [];
     case scan_text r of
       Inl e \<Rightarrow> State_Monad.return (Inl (Wrapped ''read PostgreSQL version'' [e]))
     | Inr number_text \<Rightarrow>
         (case parse_int 64 number_text of
            None \<Rightarrow> State_Monad.return (Inl (Plain ''PostgreSQL must be 16 or newer''))
          | Some number \<Rightarrow>
              if number div 10000 < 16 then State_Monad.return (Inl (Plain ''PostgreSQL must be 16 or newer''))
              else do {
                v \<leftarrow> query ''SHOW server_version'' [];
                State_Monad.return (wrap_with ''read PostgreSQL version'' (scan_text v)) }) }"

definition version_table_exists :: "'w row_querier \<Rightarrow> ('w, err + bool) state" where
  "version_table_exists query = do {
     r \<leftarrow> query ''SELECT to_regclass($1) IS NOT NULL'' [version_table];
     State_Monad.return (wrap_with ''check schema version table'' (scan_bool r)) }"

definition expected_version :: "('w, 'c) tern_lib \<Rightarrow> ('w, err + i32) state" where
  "expected_version T = do {
     m \<leftarrow> tn_new T None;
     case m of
       Inl e \<Rightarrow> State_Monad.return (Inl (Wrapped ''create migrator'' [e]))
     | Inr _ \<Rightarrow> do {
         l \<leftarrow> tn_load T;
         case l of
           Inl e \<Rightarrow> State_Monad.return (Inl (Wrapped ''load migrations'' [e]))
         | Inr n \<Rightarrow>
             if 2 ^ 31 - 1 < int n then State_Monad.return (Inl (Plain ''too many migrations''))
             else State_Monad.return (Inr (word_of_int (int n))) } }"

text \<open>A status may come with an error.  The second half reads the schema version.\<close>

definition inspect_schema ::
  "('w, 'p, 'c) pgx_lib \<Rightarrow> 'p \<Rightarrow> bool \<Rightarrow> db_status \<Rightarrow> ('w, db_status \<times> err option) state" where
  "inspect_schema X pool require_schema status = do {
     t \<leftarrow> version_table_exists (px_row X pool);
     case t of
       Inl e \<Rightarrow> State_Monad.return (no_status, Some e)
     | Inr exists \<Rightarrow>
         if \<not> exists then State_Monad.return (status, if require_schema then Some err_schema_missing else None)
         else do {
           r \<leftarrow> px_row X pool (''SELECT version FROM '' @ version_table) [];
           case scan_int32 r of
             Inl e \<Rightarrow> State_Monad.return (no_status, Some (Wrapped ''check schema version'' [e]))
           | Inr schema \<Rightarrow>
               let pending = (if sint (st_expected status - schema) < 0 then 0 else st_expected status - schema);
                   status = status\<lparr>st_schema_version := schema, st_initialized := True, st_pending := pending\<rparr>
               in State_Monad.return (status,
                 if schema \<noteq> st_expected status then Some (Wrapped ''schema version'' [err_schema_mismatch])
                 else None) } }"

definition inspect ::
  "('w, 'p, 'c) pgx_lib \<Rightarrow> ('w, 'c) tern_lib \<Rightarrow> 'p \<Rightarrow> bool \<Rightarrow> ('w, db_status \<times> err option) state" where
  "inspect X T pool require_schema = do {
     v \<leftarrow> server_version (px_row X pool);
     case v of
       Inl e \<Rightarrow> State_Monad.return (no_status, Some e)
     | Inr version \<Rightarrow> do {
         x \<leftarrow> expected_version T;
         case x of
           Inl e \<Rightarrow> State_Monad.return (no_status, Some e)
         | Inr expected \<Rightarrow> inspect_schema X pool require_schema
             (no_status\<lparr>st_server_version := version, st_expected := expected\<rparr>) } }"

section \<open>The component\<close>

text \<open>\<open>Component\<close>: its configuration and the variable \<open>pool\<close>; the lock makes each method atomic.\<close>

record ('w, 'p) db_component =
  dc_config :: pool_config
  dc_health_timeout :: duration
  dc_pool :: "('w, 'p option) var"

definition new_db_component ::
  "('w, 'p, 'c) pgx_lib \<Rightarrow> ('w, 'p option) var \<Rightarrow> database_config \<Rightarrow> err + ('w, 'p) db_component" where
  "new_db_component X v cfg =
     (case new_pool_config X cfg of
        Inl e \<Rightarrow> Inl e
      | Inr pc \<Rightarrow> Inr \<lparr>dc_config = pc, dc_health_timeout = d_health_timeout cfg, dc_pool = v\<rparr>)"

definition database_start ::
  "('w, 'p, 'c) pgx_lib \<Rightarrow> ('w, 'c) tern_lib \<Rightarrow> ('w, 'p) db_component \<Rightarrow> ('w, err + unit) state" where
  "database_start X T c = do {
     held \<leftarrow> read_var (dc_pool c);
     case held of
       Some _ \<Rightarrow> State_Monad.return (Inr ())
     | None \<Rightarrow> do {
         n \<leftarrow> px_new X (dc_config c);
         case n of
           Inl e \<Rightarrow> State_Monad.return (Inl (Wrapped ''create PostgreSQL pool'' [e]))
         | Inr pool \<Rightarrow> do {
             i \<leftarrow> inspect X T pool True;
             case snd i of
               Some e \<Rightarrow> do {
                 _ \<leftarrow> px_close X pool;
                 State_Monad.return (Inl e) }
             | None \<Rightarrow> do {
                 _ \<leftarrow> write_var (dc_pool c) (Some pool);
                 State_Monad.return (Inr ()) } } } }"

definition database_stop :: "('w, 'p, 'c) pgx_lib \<Rightarrow> ('w, 'p) db_component \<Rightarrow> ('w, err + unit) state" where
  "database_stop X c = do {
     held \<leftarrow> read_var (dc_pool c);
     case held of
       Some pool \<Rightarrow> do {
         _ \<leftarrow> px_close X pool;
         _ \<leftarrow> write_var (dc_pool c) None;
         State_Monad.return (Inr ()) }
     | None \<Rightarrow> State_Monad.return (Inr ()) }"

definition current_pool :: "('w, 'p) db_component \<Rightarrow> ('w, err + 'p) state" where
  "current_pool c = do {
     held \<leftarrow> read_var (dc_pool c);
     State_Monad.return (case held of None \<Rightarrow> Inl err_not_started | Some pool \<Rightarrow> Inr pool) }"

definition database_health ::
  "('w, 'p, 'c) pgx_lib \<Rightarrow> ('w, 'c) tern_lib \<Rightarrow> ('w, 'p) db_component \<Rightarrow> ('w, err + unit) state" where
  "database_health X T c = do {
     p \<leftarrow> current_pool c;
     case p of
       Inl e \<Rightarrow> State_Monad.return (Inl e)
     | Inr pool \<Rightarrow> do {
         i \<leftarrow> inspect X T pool True;
         State_Monad.return (case snd i of Some e \<Rightarrow> Inl e | None \<Rightarrow> Inr ()) } }"

text \<open>
  The component as the database of the adapters: \<open>Exec\<close>, \<open>Query\<close>, \<open>QueryRow\<close> and \<open>Begin\<close> go to the
  current pool, whose connections the parameter \<open>conns\<close> gives.
\<close>

definition component_run ::
  "('w, 'p) db_component \<Rightarrow> ('p \<Rightarrow> ('w, 's, 'r) conn) \<Rightarrow> 's \<Rightarrow> ('w, err + 'r) state" where
  "component_run c conns st = do {
     p \<leftarrow> current_pool c;
     case p of Inl e \<Rightarrow> State_Monad.return (Inl e) | Inr pool \<Rightarrow> db_exec (conns pool) st }"

definition component_begin ::
  "('w, 'p) db_component \<Rightarrow> ('p \<Rightarrow> ('w, err + ('w, 's, 'r) transaction) state) \<Rightarrow>
    ('w, err + ('w, 's, 'r) transaction) state" where
  "component_begin c begins = do {
     p \<leftarrow> current_pool c;
     case p of Inl e \<Rightarrow> State_Monad.return (Inl e) | Inr pool \<Rightarrow> begins pool }"

definition component_database ::
  "('w, 'p) db_component \<Rightarrow> ('p \<Rightarrow> ('w, 's, 'r) pool) \<Rightarrow> ('w, 's, 'r) pool" where
  "component_database c pools = \<lparr>
     db_pool = \<lparr>db_exec = component_run c (\<lambda>p. db_pool (pools p))\<rparr>,
     db_begin = component_begin c (\<lambda>p. db_begin (pools p))\<rparr>"

definition open_pool :: "('w, 'p, 'c) pgx_lib \<Rightarrow> database_config \<Rightarrow> ('w, err + 'p) state" where
  "open_pool X cfg =
     (case new_pool_config X cfg of
        Inl e \<Rightarrow> State_Monad.return (Inl e)
      | Inr pc \<Rightarrow> do {
          n \<leftarrow> px_new X pc;
          case n of
            Inl e \<Rightarrow> State_Monad.return (Inl (Wrapped ''create PostgreSQL pool'' [e]))
          | Inr pool \<Rightarrow> do {
              r \<leftarrow> px_ping X pool;
              case r of
                Inl e \<Rightarrow> do {
                  _ \<leftarrow> px_close X pool;
                  State_Monad.return (Inl (Wrapped ''connect to PostgreSQL'' [e])) }
              | Inr _ \<Rightarrow> State_Monad.return (Inr pool) } })"

definition inspect_database ::
  "('w, 'p, 'c) pgx_lib \<Rightarrow> ('w, 'c) tern_lib \<Rightarrow> database_config \<Rightarrow> ('w, db_status \<times> err option) state" where
  "inspect_database X T cfg = do {
     o1 \<leftarrow> open_pool X cfg;
     case o1 of
       Inl e \<Rightarrow> State_Monad.return (no_status, Some e)
     | Inr pool \<Rightarrow> do {
         i \<leftarrow> inspect X T pool False;
         _ \<leftarrow> px_close X pool;
         State_Monad.return i } }"

section \<open>migrate.go\<close>

record migration_result =
  mr_previous :: i32
  mr_current :: i32
  mr_applied :: i32

definition lock_migration :: "('w, 'p, 'c) pgx_lib \<Rightarrow> 'c \<Rightarrow> ('w, err + unit) state" where
  "lock_migration X conn = do {
     r \<leftarrow> px_conn_exec X conn ''SELECT pg_advisory_lock(hashtext('goba.schema.migrate'))'';
     State_Monad.return (wrap_with ''lock migrations'' r) }"

definition unlock_migration :: "('w, 'p, 'c) pgx_lib \<Rightarrow> 'c \<Rightarrow> ('w, err + unit) state" where
  "unlock_migration X conn = px_conn_exec X conn ''SELECT pg_advisory_unlock(hashtext('goba.schema.migrate'))''"

definition count_tables :: string where
  "count_tables = ''SELECT count(*) FROM pg_catalog.pg_tables WHERE schemaname = 'public'' @ [CHR 0x27]"

definition has_public_tables :: "('w, 'p, 'c) pgx_lib \<Rightarrow> 'c \<Rightarrow> ('w, err + bool) state" where
  "has_public_tables X conn = do {
     r \<leftarrow> px_conn_row X conn count_tables [];
     State_Monad.return (case scan_int r of
         Inl e \<Rightarrow> Inl (Wrapped ''check that the target database is empty'' [e])
       | Inr n \<Rightarrow> Inr (0 < n)) }"

definition new_migrator :: "('w, 'c) tern_lib \<Rightarrow> 'c \<Rightarrow> ('w, err + unit) state" where
  "new_migrator T conn = do {
     m \<leftarrow> tn_new T (Some conn);
     case m of
       Inl e \<Rightarrow> State_Monad.return (Inl (Wrapped ''create migrator'' [e]))
     | Inr _ \<Rightarrow> do {
         l \<leftarrow> tn_load T;
         State_Monad.return (case l of Inl e \<Rightarrow> Inl (Wrapped ''load migrations'' [e]) | Inr _ \<Rightarrow> Inr ()) } }"

text \<open>The part of \<open>Migrate\<close> that runs the migrator, and the part under the lock.\<close>

definition run_migrations :: "('w, 'c) tern_lib \<Rightarrow> 'c \<Rightarrow> ('w, err + migration_result) state" where
  "run_migrations T conn = do {
     m \<leftarrow> new_migrator T conn;
     case m of
       Inl e \<Rightarrow> State_Monad.return (Inl e)
     | Inr _ \<Rightarrow> do {
         p \<leftarrow> tn_version T conn;
         case p of
           Inl e \<Rightarrow> State_Monad.return (Inl (Wrapped ''read migration version'' [e]))
         | Inr previous \<Rightarrow> do {
             r \<leftarrow> tn_migrate T conn;
             case r of
               Inl e \<Rightarrow> State_Monad.return (Inl (Wrapped ''run migrations'' [e]))
             | Inr _ \<Rightarrow> do {
                 k \<leftarrow> tn_version T conn;
                 State_Monad.return (case k of
                     Inl e \<Rightarrow> Inl (Wrapped ''read migration result'' [e])
                   | Inr current \<Rightarrow> Inr \<lparr>mr_previous = previous, mr_current = current,
                       mr_applied = current - previous\<rparr>) } } } }"

definition migrate_locked ::
  "('w, 'p, 'c) pgx_lib \<Rightarrow> ('w, 'c) tern_lib \<Rightarrow> 'c \<Rightarrow> ('w, err + migration_result) state" where
  "migrate_locked X T conn = do {
     t \<leftarrow> version_table_exists (px_conn_row X conn);
     case t of
       Inl e \<Rightarrow> State_Monad.return (Inl e)
     | Inr managed \<Rightarrow>
         if managed then run_migrations T conn
         else do {
           n \<leftarrow> has_public_tables X conn;
           case n of
             Inl e \<Rightarrow> State_Monad.return (Inl e)
           | Inr non_empty \<Rightarrow>
               if non_empty then State_Monad.return (Inl err_database_not_empty) else run_migrations T conn } }"

text \<open>The deferred calls run in reverse order: unlock, release, close.\<close>

definition migrate_connection ::
  "('w, 'p, 'c) pgx_lib \<Rightarrow> ('w, 'c) tern_lib \<Rightarrow> 'c \<Rightarrow> ('w, err + migration_result) state" where
  "migrate_connection X T conn = do {
     l \<leftarrow> lock_migration X conn;
     case l of
       Inl e \<Rightarrow> do {
         _ \<leftarrow> px_release X conn;
         State_Monad.return (Inl e) }
     | Inr _ \<Rightarrow> do {
         r \<leftarrow> migrate_locked X T conn;
         _ \<leftarrow> unlock_migration X conn;
         _ \<leftarrow> px_release X conn;
         State_Monad.return r } }"

definition migrate_pool ::
  "('w, 'p, 'c) pgx_lib \<Rightarrow> ('w, 'c) tern_lib \<Rightarrow> 'p \<Rightarrow> ('w, err + migration_result) state" where
  "migrate_pool X T pool = do {
     v \<leftarrow> server_version (px_row X pool);
     case v of
       Inl e \<Rightarrow> State_Monad.return (Inl e)
     | Inr _ \<Rightarrow> do {
         a \<leftarrow> px_acquire X pool;
         case a of
           Inl e \<Rightarrow> State_Monad.return (Inl (Wrapped ''acquire migration connection'' [e]))
         | Inr conn \<Rightarrow> migrate_connection X T conn } }"

definition migrate_database ::
  "('w, 'p, 'c) pgx_lib \<Rightarrow> ('w, 'c) tern_lib \<Rightarrow> database_config \<Rightarrow> ('w, err + migration_result) state" where
  "migrate_database X T cfg = do {
     o1 \<leftarrow> open_pool X cfg;
     case o1 of
       Inl e \<Rightarrow> State_Monad.return (Inl e)
     | Inr pool \<Rightarrow> do {
         result \<leftarrow> migrate_pool X T pool;
         _ \<leftarrow> px_close X pool;
         State_Monad.return result } }"

section \<open>Redis\<close>

text \<open>\<open>redisstore\<close>: the options of the client, and the client by its \<open>Ping\<close> and \<open>Close\<close>.\<close>

record redis_options =
  ro_addr :: string
  ro_db :: int
  ro_username :: string
  ro_password :: string
  ro_pool_size :: int
  ro_min_idle_conns :: int
  ro_dial_timeout :: duration
  ro_read_timeout :: duration
  ro_write_timeout :: duration
  ro_tls_server :: "string option"

record 'w redis_conn =
  rc_ping :: "('w, err + unit) state"
  rc_close :: "('w, err + unit) state"

record 'w redis_component =
  rd_conn :: "'w redis_conn"
  rd_health_timeout :: duration

definition redis_options_of :: "redis_config \<Rightarrow> redis_options" where
  "redis_options_of cfg = \<lparr>ro_addr = join_host_port (r_host cfg) (itoa (r_port cfg)), ro_db = r_database cfg,
     ro_username = r_username cfg, ro_password = reveal (r_password cfg), ro_pool_size = r_pool_size cfg,
     ro_min_idle_conns = r_min_idle_conns cfg, ro_dial_timeout = r_connect_timeout cfg,
     ro_read_timeout = r_read_timeout cfg, ro_write_timeout = r_write_timeout cfg,
     ro_tls_server = (if r_tls cfg then Some (r_host cfg) else None)\<rparr>"

definition new_redis_component :: "(redis_options \<Rightarrow> 'w redis_conn) \<Rightarrow> redis_config \<Rightarrow> 'w redis_component" where
  "new_redis_component new_client cfg =
     \<lparr>rd_conn = new_client (redis_options_of cfg), rd_health_timeout = r_health_timeout cfg\<rparr>"

definition redis_start :: "'w redis_component \<Rightarrow> ('w, err + unit) state" where
  "redis_start c = do { r \<leftarrow> rc_ping (rd_conn c); State_Monad.return (wrap_with ''connect to Redis'' r) }"

definition redis_stop :: "'w redis_component \<Rightarrow> ('w, err + unit) state" where
  "redis_stop c = do { r \<leftarrow> rc_close (rd_conn c); State_Monad.return (wrap_with ''close Redis'' r) }"

definition redis_health :: "'w redis_component \<Rightarrow> ('w, err + unit) state" where
  "redis_health c = do { r \<leftarrow> rc_ping (rd_conn c); State_Monad.return (wrap_with ''check Redis'' r) }"

end
