(* ===== verification/HttpServer.thy ===== *)
theory HttpServer
  imports HttpGateway DatabasePlatform
begin

text \<open>
  The HTTP server: \<open>internal/platform/httpserver/server.go\<close>.  The listener and \<open>http.Server\<close> are
  the library's: the fields of \<open>net_lib\<close> are the calls \<open>Run\<close> makes.  The goroutine that serves sends
  its error on a channel, so the \<open>select\<close> sees either that error or the end of the context; after a
  shutdown the error is received from the channel.
\<close>

datatype serve_event = ServeEnded err | ContextDone

record http_options =
  ho_addr :: string
  ho_read_header_timeout :: duration
  ho_read_timeout :: duration
  ho_write_timeout :: duration
  ho_idle_timeout :: duration

record ('w, 'l) net_lib =
  nl_listen :: "string \<Rightarrow> ('w, err + 'l) state"
  nl_serve :: "http_options \<Rightarrow> 'w chain \<Rightarrow> 'l \<Rightarrow> ('w, serve_event) state"
  nl_shutdown :: "duration \<Rightarrow> ('w, err option) state"
  nl_close :: "('w, err option) state"
  nl_served :: "('w, err) state"

record ('w, 'l) server =
  sr_http :: http_options
  sr_handler :: "'w chain"
  sr_listener :: "'l option"
  sr_address :: string
  sr_shutdown_timeout :: duration
  sr_running :: "('w, bool) var"

definition new_server ::
  "('w, bool) var \<Rightarrow> 'l option \<Rightarrow> string \<Rightarrow> 'w chain \<Rightarrow> server_config \<Rightarrow> ('w, 'l) server" where
  "new_server running listener address h cfg = \<lparr>
     sr_http = \<lparr>ho_addr = address, ho_read_header_timeout = sv_header_timeout cfg,
       ho_read_timeout = sv_read_timeout cfg, ho_write_timeout = sv_write_timeout cfg,
       ho_idle_timeout = sv_idle_timeout cfg\<rparr>,
     sr_handler = h, sr_listener = listener, sr_address = address,
     sr_shutdown_timeout = sv_shutdown_timeout cfg, sr_running = running\<rparr>"

section \<open>Errors\<close>

text \<open>\<open>http.ErrServerClosed\<close>, and \<open>errors.Is\<close> at it\<close>

definition err_server_closed :: err where "err_server_closed = Plain ''http: Server closed''"

fun is_server_closed :: "err \<Rightarrow> bool" where
  "is_server_closed (Wrapped _ es) = list_ex is_server_closed es"
| "is_server_closed (AppError _ _ _ _ c _ _) = (case c of None \<Rightarrow> False | Some e \<Rightarrow> is_server_closed e)"
| "is_server_closed e = (e = err_server_closed)"

definition normalize_serve_error :: "err \<Rightarrow> err option" where
  "normalize_serve_error e = (if is_server_closed e then None else Some (Wrapped ''run HTTP server'' [e]))"

definition wrap_close_error :: "err option \<Rightarrow> err option" where
  "wrap_close_error r = (case r of
     None \<Rightarrow> None
   | Some e \<Rightarrow> if is_server_closed e then None else Some (Wrapped ''force HTTP server to close'' [e]))"

text \<open>\<open>errors.Join\<close> drops the nil errors.\<close>

definition join_errors :: "err option list \<Rightarrow> err option" where
  "join_errors es = (case List.map_filter id es of [] \<Rightarrow> None | xs \<Rightarrow> Some (Wrapped '''' xs))"

definition as_result :: "err option \<Rightarrow> err + unit" where
  "as_result e = (case e of None \<Rightarrow> Inr () | Some x \<Rightarrow> Inl x)"

section \<open>Run\<close>

text \<open>The shutdown after the context has ended, and the part under the \<open>running\<close> flag.\<close>

definition stop_serving :: "('w, 'l) net_lib \<Rightarrow> ('w, 'l) server \<Rightarrow> ('w, err + unit) state" where
  "stop_serving N s = do {
     d \<leftarrow> nl_shutdown N (sr_shutdown_timeout s);
     case d of
       Some shutdown_err \<Rightarrow> do {
         close_err \<leftarrow> nl_close N;
         serve_err \<leftarrow> nl_served N;
         State_Monad.return (as_result (join_errors [Some (Wrapped ''shut down HTTP server'' [shutdown_err]),
           wrap_close_error close_err, normalize_serve_error serve_err])) }
     | None \<Rightarrow> do {
         serve_err \<leftarrow> nl_served N;
         State_Monad.return (as_result (normalize_serve_error serve_err)) } }"

definition serve_on :: "('w, 'l) net_lib \<Rightarrow> ('w, 'l) server \<Rightarrow> 'l \<Rightarrow> ('w, err + unit) state" where
  "serve_on N s listener = do {
     e \<leftarrow> nl_serve N (sr_http s) (sr_handler s) listener;
     case e of
       ServeEnded err \<Rightarrow> State_Monad.return (as_result (normalize_serve_error err))
     | ContextDone \<Rightarrow> stop_serving N s }"

definition listen_and_serve :: "('w, 'l) net_lib \<Rightarrow> ('w, 'l) server \<Rightarrow> ('w, err + unit) state" where
  "listen_and_serve N s =
     (case sr_listener s of
        Some listener \<Rightarrow> serve_on N s listener
      | None \<Rightarrow> do {
          l \<leftarrow> nl_listen N (sr_address s);
          case l of
            Inl e \<Rightarrow> State_Monad.return (Inl (Wrapped ''listen on HTTP address'' [e]))
          | Inr listener \<Rightarrow> serve_on N s listener })"

definition server_run :: "('w, 'l) net_lib \<Rightarrow> ('w, 'l) server \<Rightarrow> ('w, err + unit) state" where
  "server_run N s = do {
     running \<leftarrow> read_var (sr_running s);
     if running then State_Monad.return (Inl (Plain ''HTTP server is already running''))
     else do {
       _ \<leftarrow> write_var (sr_running s) True;
       r \<leftarrow> listen_and_serve N s;
       _ \<leftarrow> write_var (sr_running s) False;
       State_Monad.return r } }"

section \<open>The protocol of a run\<close>

text \<open>The calls a run makes, with what they return, and the phases between them.\<close>

datatype server_call =
  Listened bool | ServeCall serve_event | ShutDown "err option" | ForceClosed "err option" | ServeReturned err

datatype server_phase = Idle | Bound | ShuttingDown | Drained | Forcing | Forced | Clean | Failed

inductive server_step :: "server_phase \<Rightarrow> server_call \<Rightarrow> server_phase \<Rightarrow> bool" where
  bind: "server_step Idle (Listened True) Bound"
| refused: "server_step Idle (Listened False) Failed"
| closed: "is_server_closed e \<Longrightarrow> server_step Bound (ServeCall (ServeEnded e)) Clean"
| broken: "\<not> is_server_closed e \<Longrightarrow> server_step Bound (ServeCall (ServeEnded e)) Failed"
| stop: "server_step Bound (ServeCall ContextDone) ShuttingDown"
| drain: "server_step ShuttingDown (ShutDown None) Drained"
| shutdown_failed: "server_step ShuttingDown (ShutDown (Some e)) Forcing"
| force: "server_step Forcing (ForceClosed r) Forced"
| drained: "is_server_closed e \<Longrightarrow> server_step Drained (ServeReturned e) Clean"
| late: "\<not> is_server_closed e \<Longrightarrow> server_step Drained (ServeReturned e) Failed"
| forced: "server_step Forced (ServeReturned e) Failed"

inductive_cases server_stepE: "server_step p call q"

inductive server_path :: "server_phase \<Rightarrow> server_call list \<Rightarrow> server_phase \<Rightarrow> bool" where
  nil: "server_path p [] p"
| snoc: "server_path p calls q \<Longrightarrow> server_step q call r \<Longrightarrow> server_path p (calls @ [call]) r"

text \<open>What the path says of the phase it has reached: nothing was forced on the way to \<open>Clean\<close>.\<close>

definition phase_calls :: "server_phase \<Rightarrow> server_call set \<Rightarrow> bool" where
  "phase_calls p cs \<longleftrightarrow>
     (p \<in> {Idle, Bound} \<longrightarrow> ServeCall ContextDone \<notin> cs) \<and>
     (p \<in> {Idle, Bound, ShuttingDown, Drained, Clean} \<longrightarrow>
       (\<forall>r. ForceClosed r \<notin> cs) \<and> (\<forall>e. ShutDown (Some e) \<notin> cs)) \<and>
     (p = Drained \<longrightarrow> ShutDown None \<in> cs) \<and>
     (p = Clean \<longrightarrow> ServeCall ContextDone \<in> cs \<longrightarrow> ShutDown None \<in> cs)"

lemma phase_calls_step: "phase_calls p cs \<Longrightarrow> server_step p c q \<Longrightarrow> phase_calls q (insert c cs)"
  by (erule server_stepE; simp add: phase_calls_def)

lemma path_calls:
  assumes "server_path p calls q" "p \<in> {Idle, Bound}"
  shows "phase_calls q (set calls)"
  using assms
proof (induction rule: server_path.induct)
  case (snoc p calls q call r)
  then have "phase_calls q (set calls)" by simp
  from phase_calls_step [OF this snoc.hyps(2)] show ?case by simp
qed (auto simp: phase_calls_def)

lemma path_one: "server_step p c q \<Longrightarrow> server_path p [c] q"
  using server_path.snoc [OF server_path.nil] by simp

lemma path_append:
  assumes "server_path q ys r" "server_path p xs q"
  shows "server_path p (xs @ ys) r"
  using assms by (induction arbitrary: p xs rule: server_path.induct)
    (auto simp flip: append_assoc intro: server_path.snoc)

text \<open>Every call of the library is recorded, and none of them touches the flag.\<close>

definition recorded :: "('w, 'l) net_lib \<Rightarrow> ('w \<Rightarrow> server_call list) \<Rightarrow> ('w, bool) var \<Rightarrow> bool" where
  "recorded N log running \<longleftrightarrow> var_laws running \<and> (\<forall>x w. log (v_put running x w) = log w) \<and>
     (\<forall>a w. wp (nl_listen N a) (\<lambda>r w'. log w' = log w @ [Listened (\<not> isl r)]) w) \<and>
     (\<forall>a h l w. wp (nl_serve N a h l) (\<lambda>r w'. log w' = log w @ [ServeCall r]) w) \<and>
     (\<forall>d w. wp (nl_shutdown N d) (\<lambda>r w'. log w' = log w @ [ShutDown r]) w) \<and>
     (\<forall>w. wp (nl_close N) (\<lambda>r w'. log w' = log w @ [ForceClosed r]) w) \<and>
     (\<forall>w. wp (nl_served N) (\<lambda>r w'. log w' = log w @ [ServeReturned r]) w)"

lemma recordedD:
  assumes "recorded N log running"
  shows "wp (nl_listen N a) (\<lambda>r w'. log w' = log w @ [Listened (\<not> isl r)]) w"
    "wp (nl_serve N ho h l) (\<lambda>r w'. log w' = log w @ [ServeCall r]) w"
    "wp (nl_shutdown N d) (\<lambda>r w'. log w' = log w @ [ShutDown r]) w"
    "wp (nl_close N) (\<lambda>r w'. log w' = log w @ [ForceClosed r]) w"
    "wp (nl_served N) (\<lambda>r w'. log w' = log w @ [ServeReturned r]) w"
    "log (v_put running x w) = log w" "v_get running (v_put running x w) = x"
  using assms by (auto simp: recorded_def var_laws_def)

text \<open>A part of a run that begins in phase \<open>p\<close> follows the protocol to its end.\<close>

definition follows :: "server_phase \<Rightarrow> server_call list \<Rightarrow> err + unit \<Rightarrow> server_call list \<Rightarrow> bool" where
  "follows p before r after \<longleftrightarrow> (\<exists>calls q. after = before @ calls \<and> server_path p calls q \<and>
     q = (case r of Inr _ \<Rightarrow> Clean | Inl _ \<Rightarrow> Failed))"

lemma follows_end: "server_step p c (case r of Inr _ \<Rightarrow> Clean | Inl _ \<Rightarrow> Failed) \<Longrightarrow> follows p l r (l @ [c])"
  by (auto simp: follows_def intro: path_one)

lemma follows_step: "server_step p c q \<Longrightarrow> follows q (l @ [c]) r l' \<Longrightarrow> follows p l r l'"
  using path_append [of q _ _ p "[c]"] path_one [of p c q] by (fastforce simp: follows_def)

lemma served_result:
  "(case as_result (normalize_serve_error e) of Inr _ \<Rightarrow> Clean | Inl _ \<Rightarrow> Failed) =
    (if is_server_closed e then Clean else Failed)"
  by (simp add: as_result_def normalize_serve_error_def)

lemma stop_serving_follows:
  assumes "recorded N log running"
  shows "wp (stop_serving N s) (\<lambda>r w'. follows ShuttingDown (log w) r (log w')) w"
  unfolding stop_serving_def wp_bind
proof (rule wp_mono [OF recordedD(3) [OF assms]], goal_cases)
  case (1 d w1)
  show ?case
  proof (cases d)
    case None
    show ?thesis
      unfolding None option.case wp_rules
      by (rule wp_mono [OF recordedD(5) [OF assms]])
         (use 1 None in \<open>auto simp: served_result intro!: follows_step [OF server_step.drain] follows_end server_step.drained server_step.late
           simp flip: append_assoc\<close>)
  next
    case (Some e)
    show ?thesis
      unfolding Some option.case wp_rules
    proof (rule wp_mono [OF recordedD(4) [OF assms]], goal_cases)
      case (1 c w2)
      show ?case
        by (rule wp_mono [OF recordedD(5) [OF assms]])
           (use 1 \<open>log w1 = _\<close> Some in \<open>auto simp: as_result_def join_errors_def List.map_filter_simps
             intro!: follows_step [OF server_step.shutdown_failed] follows_step [OF server_step.force] follows_end server_step.forced
             simp flip: append_assoc\<close>)
    qed
  qed
qed

lemma serve_on_follows:
  assumes "recorded N log running"
  shows "wp (serve_on N s l) (\<lambda>r w'. follows Bound (log w) r (log w')) w"
  unfolding serve_on_def wp_bind
proof (rule wp_mono [OF recordedD(2) [OF assms]], goal_cases)
  case (1 e w1)
  show ?case
  proof (cases e)
    case (ServeEnded x)
    then show ?thesis using 1 by (auto simp: wp_rules served_result intro!: follows_end server_step.closed server_step.broken)
  next
    case ContextDone
    show ?thesis
      unfolding ContextDone serve_event.case
      by (rule wp_mono [OF stop_serving_follows [OF assms]])
         (use 1 ContextDone in \<open>auto intro: follows_step [OF server_step.stop]\<close>)
  qed
qed

lemma listen_and_serve_follows:
  assumes "recorded N log running"
  shows "wp (listen_and_serve N s)
    (\<lambda>r w'. follows (if sr_listener s = None then Idle else Bound) (log w) r (log w')) w"
proof (cases "sr_listener s")
  case None
  show ?thesis
    unfolding listen_and_serve_def None option.case wp_bind
  proof (rule wp_mono [OF recordedD(1) [OF assms]], goal_cases)
    case (1 l w1)
    show ?case
    proof (cases l)
      case (Inl e)

      then show ?thesis
        using 1 Inl follows_end [of Idle "Listened False" "Inl x" "log w" for x] server_step.refused
        by (simp add: wp_rules)
    next
      case (Inr listener)
      show ?thesis
        unfolding Inr sum.case
        by (rule wp_mono [OF serve_on_follows [OF assms]]) (use 1 Inr in \<open>auto intro: follows_step [OF server_step.bind]\<close>)
    qed
  qed
next
  case (Some l)
  then show ?thesis using serve_on_follows [OF assms] by (simp add: listen_and_serve_def)
qed

text \<open>C9: A second \<open>Run\<close> of a running server is refused and does nothing.  Any other follows the protocol:
  it listens unless a listener was injected, serves, and when the context ends it shuts down, forcing
  the connections closed only after the shutdown has failed.  It returns nil exactly when the protocol
  ends clean, so that a nil after the end of the context means that the shutdown succeeded and nothing
  was forced; and the server can be run again.\<close>

theorem server_run_protocol:
  assumes "recorded N log (sr_running s)"
  shows "wp (server_run N s) (\<lambda>r w'.
    if v_get (sr_running s) w then r = Inl (Plain ''HTTP server is already running'') \<and> w' = w
    else \<not> v_get (sr_running s) w' \<and> (\<exists>calls. log w' = log w @ calls \<and>
      server_path (if sr_listener s = None then Idle else Bound) calls
        (case r of Inr _ \<Rightarrow> Clean | Inl _ \<Rightarrow> Failed) \<and>
      (r = Inr () \<longrightarrow> ServeCall ContextDone \<in> set calls \<longrightarrow>
        ShutDown None \<in> set calls \<and> (\<forall>c. ForceClosed c \<notin> set calls)))) w"
proof (cases "v_get (sr_running s) w")
  case False
  have clean: "phase_calls q (set calls)" if "server_path (if sr_listener s = None then Idle else Bound) calls q" for calls q
    using path_calls [OF that] by simp
  show ?thesis
    unfolding server_run_def wp_rules if_not_P [OF False]
    by (rule wp_mono [OF listen_and_serve_follows [OF assms]])
       (use recordedD(6,7) [OF assms] clean False in \<open>auto simp: follows_def phase_calls_def\<close>)
qed (simp add: server_run_def wp_rules)

text \<open>A server whose context ends and that drains.\<close>

definition logged :: "server_call \<Rightarrow> 'a \<Rightarrow> (bool \<times> server_call list, 'a) state" where
  "logged c x = do {
     w \<leftarrow> State_Monad.get;
     _ \<leftarrow> State_Monad.set (fst w, snd w @ [c]);
     State_Monad.return x }"

definition mem_net :: "(bool \<times> server_call list, unit) net_lib" where
  "mem_net = \<lparr>nl_listen = \<lambda>_. logged (Listened True) (Inr ()), nl_serve = \<lambda>_ _ _. logged (ServeCall ContextDone) ContextDone,
     nl_shutdown = \<lambda>_. logged (ShutDown None) None, nl_close = logged (ForceClosed None) None,
     nl_served = logged (ServeReturned err_server_closed) err_server_closed\<rparr>"

definition mem_server :: "(bool \<times> server_call list, unit) server" where
  "mem_server = new_server \<lparr>v_get = fst, v_put = \<lambda>b w. (b, snd w)\<rparr> None ''127.0.0.1:8080''
     (\<lambda>_ rs. State_Monad.return rs) (cfg_server default_config)"

lemma mem_net_recorded: "recorded mem_net snd (sr_running mem_server)"
  by (auto simp: recorded_def mem_net_def mem_server_def new_server_def var_laws_def logged_def wp_rules)

lemma server_run_protocol_witness:
  "case run_state (server_run mem_net mem_server) (False, []) of (r, w') \<Rightarrow>
     \<not> fst w' \<and> r = Inr () \<and> ShutDown None \<in> set (snd w') \<and> ServeCall ContextDone \<in> set (snd w')"
proof -
  have "run_state (server_run mem_net mem_server) (False, []) =
      (Inr (), (False, [Listened True, ServeCall ContextDone, ShutDown None, ServeReturned err_server_closed]))"
    by (simp add: server_run_def listen_and_serve_def serve_on_def stop_serving_def mem_net_def mem_server_def
        new_server_def logged_def read_var_def write_var_def normalize_serve_error_def as_result_def err_server_closed_def)
  then show ?thesis
    using server_run_protocol [OF mem_net_recorded, of "(False, [])"]
    by (auto simp: wp_def mem_server_def new_server_def)
qed

end
