(* ===== verification/Assembly.thy ===== *)
theory Assembly
  imports HttpServer Lifecycle FileModule ConfigModule UserModule AuthModule
begin

text \<open>
  The composition root: \<open>internal/app/core.go\<close>, \<open>app.go\<close> and \<open>build.go\<close>, and the operations of
  \<open>operations.go\<close> and \<open>diagnostics.go\<close>.

  A \<open>platform\<close> holds what the program is linked with: the libraries, the random source, the clock and
  the identifiers, the disk as a part of the world, and the variables of the database component and of
  the server.  A statement on a pool reaches the tables through \<open>pl_users\<close> and \<open>pl_configs\<close>, a Redis
  command through \<open>pl_client\<close>.
\<close>

record ('w, 'p, 'c, 'sk, 'pk, 'l) platform =
  pl_pgx :: "('w, 'p, 'c) pgx_lib"
  pl_tern :: "('w, 'c) tern_lib"
  pl_pool :: "('w, 'p option) var"
  pl_users :: "'p \<Rightarrow> 'w database"
  pl_configs :: "'p \<Rightarrow> 'w config_database"
  pl_redis :: "redis_options \<Rightarrow> 'w redis_conn"
  pl_client :: "redis_options \<Rightarrow> 'w redis_client"
  pl_disk :: "('w, disk) var"
  pl_upload_context :: "nat option"
  pl_env :: "('w, 'sk, 'pk) http_env"
  pl_idkey :: argon2_idkey
  pl_ids :: "('w, err + uuid) state"
  pl_clock :: "'w \<Rightarrow> time"
  pl_gin :: gin_lib
  pl_net :: "('w, 'l) net_lib"
  pl_running :: "('w, bool) var"

abbreviation pl_unicode where "pl_unicode PL \<equiv> he_unicode (pl_env PL)"
abbreviation pl_uuid where "pl_uuid PL \<equiv> he_uuid (pl_env PL)"
abbreviation pl_jwt where "pl_jwt PL \<equiv> ae_jwt (he_auth (pl_env PL))"
abbreviation pl_rand where "pl_rand PL \<equiv> ae_rand (he_auth (pl_env PL))"

text \<open>An operation on a part of the world.\<close>

definition on_var :: "('w, 'd) var \<Rightarrow> ('d, 'a) state \<Rightarrow> ('w, 'a) state" where
  "on_var v m = do {
     w \<leftarrow> State_Monad.get;
     case run_state m (v_get v w) of (r, d) \<Rightarrow> do {
       _ \<leftarrow> State_Monad.set (v_put v d w);
       State_Monad.return r } }"

lemma wp_on_var [wp_rules]: "wp (on_var v m) Q = (\<lambda>w. wp m (\<lambda>r d. Q r (v_put v d w)) (v_get v w))"
  by (simp add: on_var_def wp_def fun_eq_iff split: prod.splits)

definition store_on_disk :: "('w, disk) var \<Rightarrow> disk object_store \<Rightarrow> 'w object_store" where
  "store_on_disk v s = \<lparr>os_put = (\<lambda>key r n. on_var v (os_put s key r n)), os_open = (\<lambda>key. on_var v (os_open s key)),
     os_delete = (\<lambda>key. on_var v (os_delete s key))\<rparr>"

section \<open>core.go\<close>

text \<open>\<open>New\<close> of the two PostgreSQL adapters refuses only a nil database.\<close>

definition new_user_store :: "'w database option \<Rightarrow> err + 'w database" where
  "new_user_store db = (case db of None \<Rightarrow> Inl (Plain ''user database must not be nil'') | Some d \<Rightarrow> Inr d)"

definition new_config_store :: "'w config_database option \<Rightarrow> err + 'w config_database" where
  "new_config_store db = (case db of None \<Rightarrow> Inl (Plain ''system config database must not be nil'') | Some d \<Rightarrow> Inr d)"

record ('w, 'p, 'sk, 'pk) core_components =
  co_database :: "('w, 'p) db_component"
  co_redis :: "'w redis_component option"
  co_users :: "'w user_service"
  co_auth :: "('w, 'sk, 'pk) auth_service option"

definition new_user_components ::
  "('w, 'p, 'c, 'sk, 'pk, 'l) platform \<Rightarrow> config \<Rightarrow> ('w, err + ('w, 'p, 'sk, 'pk) core_components) state" where
  "new_user_components PL cfg =
     (case new_db_component (pl_pgx PL) (pl_pool PL) (cfg_database cfg) of
        Inl e \<Rightarrow> State_Monad.return (Inl e)
      | Inr component \<Rightarrow>
          (case new_user_store (Some (component_database component (pl_users PL))) of
             Inl e \<Rightarrow> State_Monad.return (Inl e)
           | Inr store \<Rightarrow>
               (case new_passwords default_argon2_params of
                  Inl e \<Rightarrow> State_Monad.return (Inl e)
                | Inr params \<Rightarrow> do {
                    s \<leftarrow> new_user_service (Some (user_store store)) (Some (user_uow store))
                      (Some (passwords (pl_unicode PL) (pl_rand PL) (pl_idkey PL) params))
                      (Some (pl_clock PL)) (Some (pl_ids PL));
                    State_Monad.return (case s of
                        Inl e \<Rightarrow> Inl e
                      | Inr users \<Rightarrow> Inr \<lparr>co_database = component, co_redis = None, co_users = users,
                          co_auth = None\<rparr>) })))"

definition add_auth ::
  "('w, 'p, 'c, 'sk, 'pk, 'l) platform \<Rightarrow> config \<Rightarrow> ('w, 'p, 'sk, 'pk) core_components \<Rightarrow>
    err + ('w, 'p, 'sk, 'pk) core_components" where
  "add_auth PL cfg components =
     (let redis = new_redis_component (pl_redis PL) (cfg_redis cfg);
          client = pl_client PL (redis_options_of (cfg_redis cfg))
      in case new_redis_store (Some client) (a_environment (cfg_app cfg)) of
           Inl e \<Rightarrow> Inl e
         | Inr store \<Rightarrow>
             (case new_tokens (pl_jwt PL) (cfg_auth cfg) of
                Inl e \<Rightarrow> Inl e
              | Inr tokens \<Rightarrow>
                  (case new_auth_service (Some (auth_users_of (pl_unicode PL) (co_users components)))
                       (Some (redis_session_store (pl_uuid PL) store)) (Some (redis_rate_limiter store)) (Some tokens)
                       (Some (pl_clock PL)) (au_refresh_token_ttl (cfg_auth cfg)) (au_login_attempts (cfg_auth cfg))
                       (au_login_window (cfg_auth cfg)) of
                     Inl e \<Rightarrow> Inl e
                   | Inr auth \<Rightarrow> Inr (components\<lparr>co_redis := Some redis, co_auth := Some auth\<rparr>))))"

definition new_core_components ::
  "('w, 'p, 'c, 'sk, 'pk, 'l) platform \<Rightarrow> config \<Rightarrow> ('w, err + ('w, 'p, 'sk, 'pk) core_components) state" where
  "new_core_components PL cfg = do {
     c \<leftarrow> new_user_components PL cfg;
     State_Monad.return (case c of Inl e \<Rightarrow> Inl e | Inr components \<Rightarrow> add_auth PL cfg components) }"

section \<open>app.go and build.go\<close>

record ('w, 'sk, 'pk) build_options =
  bo_components :: "'w component list"
  bo_components_set :: bool
  bo_auth :: "('w, 'sk, 'pk) auth_service option"
  bo_files :: "'w file_service option"
  bo_configs :: "'w config_service option"
  bo_users :: "'w user_service option"
  bo_server :: "('w, err + unit) state option"

type_synonym ('w, 'sk, 'pk) build_option = "('w, 'sk, 'pk) build_options \<Rightarrow> ('w, 'sk, 'pk) build_options"

definition with_components :: "'w component list \<Rightarrow> ('w, 'sk, 'pk) build_option" where
  "with_components items = (\<lambda>b. b\<lparr>bo_components := items, bo_components_set := True\<rparr>)"

definition with_server :: "('w, err + unit) state option \<Rightarrow> ('w, 'sk, 'pk) build_option" where
  "with_server s = (\<lambda>b. b\<lparr>bo_server := s\<rparr>)"

definition apply_options :: "('w, 'sk, 'pk) build_option option list \<Rightarrow> ('w, 'sk, 'pk) build_options" where
  "apply_options opts =
     fold (\<lambda>o1 b. case o1 of None \<Rightarrow> b | Some f \<Rightarrow> f b) opts
       \<lparr>bo_components = [], bo_components_set = False, bo_auth = None, bo_files = None, bo_configs = None,
        bo_users = None, bo_server = None\<rparr>"

text \<open>The lifecycle entries of the core components.\<close>

definition database_entry ::
  "('w, 'p, 'c, 'sk, 'pk, 'l) platform \<Rightarrow> ('w, 'p) db_component \<Rightarrow> 'w component" where
  "database_entry PL c = \<lparr>lc_name = ''postgresql'', lc_start = Some (database_start (pl_pgx PL) (pl_tern PL) c),
     lc_stop = Some (database_stop (pl_pgx PL) c), lc_health = Some (database_health (pl_pgx PL) (pl_tern PL) c)\<rparr>"

definition redis_entry :: "'w redis_component \<Rightarrow> 'w component" where
  "redis_entry c = \<lparr>lc_name = ''redis'', lc_start = Some (redis_start c), lc_stop = Some (redis_stop c),
     lc_health = Some (redis_health c)\<rparr>"

definition file_entry :: "('w, disk) var \<Rightarrow> 'w component" where
  "file_entry v = \<lparr>lc_name = ''file'', lc_start = Some (on_var v local_start), lc_stop = Some (on_var v local_stop),
     lc_health = Some (on_var v local_health)\<rparr>"

definition build_core ::
  "('w, 'p, 'c, 'sk, 'pk, 'l) platform \<Rightarrow> config \<Rightarrow> ('w, 'sk, 'pk) build_options \<Rightarrow>
    ('w, err + ('w, 'sk, 'pk) build_options \<times> ('w, 'p, 'sk, 'pk) core_components option) state" where
  "build_core PL cfg b =
     (if bo_components_set b then State_Monad.return (Inr (b, None))
      else do {
        c \<leftarrow> new_core_components PL cfg;
        State_Monad.return (case c of
            Inl e \<Rightarrow> Inl (Wrapped ''build core modules'' [e])
          | Inr k \<Rightarrow> Inr (b\<lparr>bo_auth := co_auth k, bo_users := Some (co_users k),
              bo_components := bo_components b @ [database_entry PL (co_database k), redis_entry (the (co_redis k))]\<rparr>,
              Some k)) })"

definition build_files ::
  "('w, 'p, 'c, 'sk, 'pk, 'l) platform \<Rightarrow> config \<Rightarrow> ('w, 'sk, 'pk) build_options \<Rightarrow>
    err + ('w, 'sk, 'pk) build_options" where
  "build_files PL cfg b =
     (if \<not> m_file (cfg_modules cfg) then Inr b
      else case new_local_store (f_storage_path (cfg_file cfg)) of
          Inl e \<Rightarrow> Inl (Wrapped ''build file store'' [e])
        | Inr _ \<Rightarrow>
            (case new_file_service
                 (Some (store_on_disk (pl_disk PL) (local_object_store (pl_unicode PL) (pl_uuid PL) (pl_upload_context PL))))
                 (Some (pl_ids PL))
                 \<lparr>li_image_max = f_image_max_bytes (cfg_file cfg), li_video_enabled = f_video_enabled (cfg_file cfg),
                  li_video_max = f_video_max_bytes (cfg_file cfg)\<rparr> of
               Inl e \<Rightarrow> Inl (Wrapped ''build file service'' [e])
             | Inr s \<Rightarrow> Inr (b\<lparr>bo_files := Some s, bo_components := bo_components b @ [file_entry (pl_disk PL)]\<rparr>)))"

definition build_configs ::
  "('w, 'p, 'c, 'sk, 'pk, 'l) platform \<Rightarrow> config \<Rightarrow> ('w, 'p, 'sk, 'pk) core_components option \<Rightarrow>
    ('w, 'sk, 'pk) build_options \<Rightarrow> err + ('w, 'sk, 'pk) build_options" where
  "build_configs PL cfg core b =
     (if \<not> m_system_config (cfg_modules cfg) then Inr b
      else case core of
          None \<Rightarrow> Inl (Plain ''system config needs the core modules'')
        | Some k \<Rightarrow>
            (case new_config_store (Some (component_database (co_database k) (pl_configs PL))) of
               Inl e \<Rightarrow> Inl (Wrapped ''build system config store'' [e])
             | Inr store \<Rightarrow>
                 (case new_config_cache (Some (pl_client PL (redis_options_of (cfg_redis cfg))))
                      (a_environment (cfg_app cfg)) (cfg_cache_ttl cfg) of
                    Inl e \<Rightarrow> Inl (Wrapped ''build system config cache'' [e])
                  | Inr cache \<Rightarrow>
                      (case new_config_service (Some (config_store store)) (Some (config_uow_of store))
                           (Some (public_cache_of cache)) (Some []) (Some (pl_clock PL)) of
                         Inl e \<Rightarrow> Inl (Wrapped ''build system config service'' [e])
                       | Inr s \<Rightarrow> Inr (b\<lparr>bo_configs := Some s\<rparr>)))))"

definition build_handler ::
  "('w, 'p, 'c, 'sk, 'pk, 'l) platform \<Rightarrow> config \<Rightarrow> ('w, 'sk, 'pk) build_options \<Rightarrow> ('w, 'sk, 'pk) handler" where
  "build_handler PL cfg b = new_handler (new_health_service (component_checks (bo_components b))) (bo_auth b)
     (bo_files b) (bo_configs b) (bo_users b) (cfg_auth cfg) (cfg_cors cfg)"

definition build_server ::
  "('w, 'p, 'c, 'sk, 'pk, 'l) platform \<Rightarrow> config \<Rightarrow> ('w, 'sk, 'pk) build_options \<Rightarrow> ('w, err + unit) state" where
  "build_server PL cfg b =
     (case bo_server b of
        Some s \<Rightarrow> s
      | None \<Rightarrow> server_run (pl_net PL) (new_server (pl_running PL) None
          (join_host_port (sv_host (cfg_server cfg)) (itoa (sv_port (cfg_server cfg))))
          (new_router (pl_env PL) (pl_gin PL) (build_handler PL cfg b) cfg) (cfg_server cfg)))"

text \<open>\<open>logger\<close> is whether a logger was given.\<close>

definition build ::
  "('w, 'p, 'c, 'sk, 'pk, 'l) platform \<Rightarrow> config \<Rightarrow> bool \<Rightarrow> ('w, 'sk, 'pk) build_option option list \<Rightarrow>
    ('w, err + 'w application) state" where
  "build PL cfg logger opts =
     (if \<not> logger then State_Monad.return (Inl (Plain ''logger must not be nil''))
      else do {
        c \<leftarrow> build_core PL cfg (apply_options opts);
        State_Monad.return (case c of
            Inl e \<Rightarrow> Inl e
          | Inr (b0, core) \<Rightarrow>
              (case build_files PL cfg b0 of
                 Inl e \<Rightarrow> Inl e
               | Inr b1 \<Rightarrow>
                   (case build_configs PL cfg core b1 of
                      Inl e \<Rightarrow> Inl e
                    | Inr b2 \<Rightarrow> Inr \<lparr>ap_components = bo_components b2, ap_server = Some (build_server PL cfg b2)\<rparr>))) })"

section \<open>operations.go\<close>

definition database_status ::
  "('w, 'p, 'c, 'sk, 'pk, 'l) platform \<Rightarrow> config \<Rightarrow> ('w, db_status \<times> err option) state" where
  "database_status PL cfg = inspect_database (pl_pgx PL) (pl_tern PL) (cfg_database cfg)"

definition migrate_application ::
  "('w, 'p, 'c, 'sk, 'pk, 'l) platform \<Rightarrow> config \<Rightarrow> ('w, err + migration_result) state" where
  "migrate_application PL cfg = migrate_database (pl_pgx PL) (pl_tern PL) (cfg_database cfg)"

definition create_admin ::
  "('w, 'p, 'c, 'sk, 'pk, 'l) platform \<Rightarrow> config \<Rightarrow> create_input \<Rightarrow> ('w, err + user) state" where
  "create_admin PL cfg input = do {
     c \<leftarrow> new_user_components PL cfg;
     case c of
       Inl e \<Rightarrow> State_Monad.return (Inl (Wrapped ''build user service'' [e]))
     | Inr k \<Rightarrow> do {
         s \<leftarrow> database_start (pl_pgx PL) (pl_tern PL) (co_database k);
         case s of
           Inl e \<Rightarrow> State_Monad.return (Inl e)
         | Inr _ \<Rightarrow> do {
             r \<leftarrow> service_create_admin (pl_unicode PL) (he_parsers (pl_env PL)) (co_users k) input;
             _ \<leftarrow> database_stop (pl_pgx PL) (co_database k);
             State_Monad.return r } } }"

section \<open>diagnostics.go\<close>

record diagnostic_check =
  dg_name :: string
  dg_ok :: bool
  dg_message :: string

definition report_ok :: "diagnostic_check list \<Rightarrow> bool" where
  "report_ok report = list_all dg_ok report"

text \<open>
  \<open>os.CreateTemp\<close> chooses the name of a new file, which the parameter \<open>fresh\<close> gives; \<open>is_dir\<close> is
  what \<open>os.Stat\<close> says of the storage path when it succeeds.
\<close>

definition create_temp :: "string \<Rightarrow> (disk, err + unit) state" where
  "create_temp name = syscall (\<lambda>d. (Inr (), put_node name (Regular '''' (dk_now d)) d))"

definition storage_check :: "bool \<Rightarrow> string \<Rightarrow> diagnostic_check" where
  "storage_check good message = \<lparr>dg_name = ''file-storage'', dg_ok = good, dg_message = message\<rparr>"

definition check_file_storage ::
  "bool \<Rightarrow> (disk \<Rightarrow> string) \<Rightarrow> string \<Rightarrow> (disk, diagnostic_check) state" where
  "check_file_storage is_dir fresh storage_path = do {
     i \<leftarrow> os_nop;
     if i \<noteq> Inr () \<or> \<not> is_dir
     then State_Monad.return (storage_check False ''the storage directory is missing or not a directory'')
     else do {
       d \<leftarrow> State_Monad.get;
       let name = ''.goba-doctor-'' @ fresh d;
       t \<leftarrow> create_temp name;
       if t \<noteq> Inr () then State_Monad.return (storage_check False ''the storage directory is not writable'')
       else do {
         c \<leftarrow> os_nop;
         if c \<noteq> Inr ()
         then do {
           _ \<leftarrow> syscall (os_remove name);
           State_Monad.return (storage_check False ''the write check of the storage directory failed'') }
         else do {
           r \<leftarrow> syscall (os_remove name);
           State_Monad.return
             (if r \<noteq> Inr () then storage_check False ''the temporary file was not removed''
              else storage_check True (''the storage directory is writable: '' @ path_clean storage_path)) } } } }"

definition auth_diagnosis :: "('sk, 'pk) jwt_lib \<Rightarrow> auth_config \<Rightarrow> diagnostic_check" where
  "auth_diagnosis J cfg =
     (case new_tokens J cfg of
        Inl _ \<Rightarrow> \<lparr>dg_name = ''auth'', dg_ok = False, dg_message = ''an Ed25519 key is invalid''\<rparr>
      | Inr _ \<Rightarrow> \<lparr>dg_name = ''auth'', dg_ok = True, dg_message = ''the Ed25519 keys are usable''\<rparr>)"

definition database_diagnosis :: "db_status \<times> err option \<Rightarrow> diagnostic_check" where
  "database_diagnosis i =
     (if snd i \<noteq> None then \<lparr>dg_name = ''postgresql'', dg_ok = False,
        dg_message = ''PostgreSQL is unavailable or the schema version does not match''\<rparr>
      else if \<not> st_initialized (fst i) then \<lparr>dg_name = ''postgresql'', dg_ok = False,
        dg_message = ''PostgreSQL is reachable but the schema is not initialised''\<rparr>
      else \<lparr>dg_name = ''postgresql'', dg_ok = True,
        dg_message = ''PostgreSQL is available, schema version '' @ itoa (sint (st_schema_version (fst i)))\<rparr>)"

definition redis_diagnosis :: "err + unit \<Rightarrow> diagnostic_check" where
  "redis_diagnosis r =
     (case r of
        Inl _ \<Rightarrow> \<lparr>dg_name = ''redis'', dg_ok = False, dg_message = ''Redis is unavailable''\<rparr>
      | Inr _ \<Rightarrow> \<lparr>dg_name = ''redis'', dg_ok = True, dg_message = ''Redis is available''\<rparr>)"

definition diagnose ::
  "('w, 'p, 'c, 'sk, 'pk, 'l) platform \<Rightarrow> bool \<Rightarrow> (disk \<Rightarrow> string) \<Rightarrow> config \<Rightarrow>
    ('w, diagnostic_check list) state" where
  "diagnose PL is_dir fresh cfg = do {
     i \<leftarrow> inspect_database (pl_pgx PL) (pl_tern PL) (cfg_database cfg);
     let redis = new_redis_component (pl_redis PL) (cfg_redis cfg);
     r \<leftarrow> redis_start redis;
     _ \<leftarrow> redis_stop redis;
     let report = [auth_diagnosis (pl_jwt PL) (cfg_auth cfg), database_diagnosis i, redis_diagnosis r];
     if m_file (cfg_modules cfg) then do {
       f \<leftarrow> on_var (pl_disk PL) (check_file_storage is_dir fresh (f_storage_path (cfg_file cfg)));
       State_Monad.return (report @ [f]) }
     else State_Monad.return report }"

end
