(* ===== verification/Cli.thy ===== *)
theory Cli
  imports Assembly Logging
begin

text \<open>
  The command line: \<open>internal/cli\<close>, \<open>internal/version/version.go\<close> and \<open>cmd/goba/main.go\<close>.

  The commands are a tree of names, flags with their defaults, and the functions \<open>RunE\<close> on the values of the
  flags.  Cobra, which reads the arguments, is a parameter: it gives an error, nothing to run, or the path of
  a command and the flags that were set.  The streams of the process are operations of a \<open>console\<close>; what is
  written is named by the format and its arguments where the text is not English.
\<close>

section \<open>version.go\<close>

record build_info =
  bi_version :: string
  bi_commit :: string
  bi_build_time :: string
  bi_dirty :: string
  bi_go_version :: string

definition build_info_string :: "build_info \<Rightarrow> string" where
  "build_info_string b = bi_version b @ '' (commit='' @ bi_commit b @ '', built='' @ bi_build_time b @
     '', dirty='' @ bi_dirty b @ '', go='' @ bi_go_version b @ '')''"

section \<open>The redacted configuration\<close>

record redacted_server =
  rs_host :: string
  rs_port :: int
  rs_header_timeout :: duration
  rs_read_timeout :: duration
  rs_write_timeout :: duration
  rs_idle_timeout :: duration
  rs_shutdown_timeout :: duration
  rs_trusted_proxies :: "string list"

record redacted_database =
  rd_host :: string
  rd_port :: int
  rd_name :: string
  rd_user :: string
  rd_password :: string
  rd_password_file :: string
  rd_ssl_mode :: string
  rd_min_connections :: int
  rd_max_connections :: int
  rd_connect_timeout :: duration
  rd_health_timeout :: duration

record redacted_redis =
  rr_host :: string
  rr_port :: int
  rr_database :: int
  rr_username :: string
  rr_password :: string
  rr_password_file :: string
  rr_tls :: bool
  rr_pool_size :: int
  rr_min_idle_conns :: int
  rr_connect_timeout :: duration
  rr_read_timeout :: duration
  rr_write_timeout :: duration
  rr_health_timeout :: duration

record redacted_auth =
  ra_issuer :: string
  ra_audience :: string
  ra_access_token_ttl :: duration
  ra_refresh_token_ttl :: duration
  ra_private_key :: string
  ra_private_key_file :: string
  ra_key_id :: string
  ra_verification_key_files :: "(string \<times> string) list"
  ra_refresh_cookie :: string
  ra_cookie_domain :: string
  ra_cookie_path :: string
  ra_cookie_secure :: bool
  ra_cookie_same_site :: string
  ra_login_attempts :: int
  ra_login_window :: duration

text \<open>The other sections have no secret and the same fields as the configuration.\<close>

record redacted_config =
  rc_app :: app_config
  rc_server :: redacted_server
  rc_database :: redacted_database
  rc_redis :: redacted_redis
  rc_cors :: cors_config
  rc_auth :: redacted_auth
  rc_file :: file_config
  rc_cache_ttl :: duration
  rc_log :: log_config
  rc_modules :: module_config

definition redacted_server_of :: "server_config \<Rightarrow> redacted_server" where
  "redacted_server_of c = \<lparr>rs_host = sv_host c, rs_port = sv_port c, rs_header_timeout = sv_header_timeout c,
     rs_read_timeout = sv_read_timeout c, rs_write_timeout = sv_write_timeout c, rs_idle_timeout = sv_idle_timeout c,
     rs_shutdown_timeout = sv_shutdown_timeout c, rs_trusted_proxies = sv_trusted_proxies c\<rparr>"

definition redacted_database_of :: "database_config \<Rightarrow> redacted_database" where
  "redacted_database_of c = \<lparr>rd_host = d_host c, rd_port = d_port c, rd_name = d_name c, rd_user = d_user c,
     rd_password = secret_string (d_password c), rd_password_file = d_password_file c, rd_ssl_mode = d_ssl_mode c,
     rd_min_connections = d_min_connections c, rd_max_connections = d_max_connections c,
     rd_connect_timeout = d_connect_timeout c, rd_health_timeout = d_health_timeout c\<rparr>"

definition redacted_redis_of :: "redis_config \<Rightarrow> redacted_redis" where
  "redacted_redis_of c = \<lparr>rr_host = r_host c, rr_port = r_port c, rr_database = r_database c,
     rr_username = r_username c, rr_password = secret_string (r_password c), rr_password_file = r_password_file c,
     rr_tls = r_tls c, rr_pool_size = r_pool_size c, rr_min_idle_conns = r_min_idle_conns c,
     rr_connect_timeout = r_connect_timeout c, rr_read_timeout = r_read_timeout c,
     rr_write_timeout = r_write_timeout c, rr_health_timeout = r_health_timeout c\<rparr>"

definition redacted_auth_of :: "auth_config \<Rightarrow> redacted_auth" where
  "redacted_auth_of c = \<lparr>ra_issuer = au_issuer c, ra_audience = au_audience c,
     ra_access_token_ttl = au_access_token_ttl c, ra_refresh_token_ttl = au_refresh_token_ttl c,
     ra_private_key = secret_string (au_private_key c), ra_private_key_file = au_private_key_file c,
     ra_key_id = au_key_id c, ra_verification_key_files = au_verification_key_files c,
     ra_refresh_cookie = au_refresh_cookie c, ra_cookie_domain = au_cookie_domain c,
     ra_cookie_path = au_cookie_path c, ra_cookie_secure = au_cookie_secure c,
     ra_cookie_same_site = au_cookie_same_site c, ra_login_attempts = au_login_attempts c,
     ra_login_window = au_login_window c\<rparr>"

definition new_redacted_config :: "config \<Rightarrow> redacted_config" where
  "new_redacted_config cfg = \<lparr>
     rc_app = \<lparr>a_environment = a_environment (cfg_app cfg), a_debug = a_debug (cfg_app cfg),
       a_docs_enabled = a_docs_enabled (cfg_app cfg)\<rparr>,
     rc_server = redacted_server_of (cfg_server cfg),
     rc_database = redacted_database_of (cfg_database cfg),
     rc_redis = redacted_redis_of (cfg_redis cfg),
     rc_cors = \<lparr>co_allow_origins = co_allow_origins (cfg_cors cfg), co_allow_methods = co_allow_methods (cfg_cors cfg),
       co_allow_headers = co_allow_headers (cfg_cors cfg), co_allow_credentials = co_allow_credentials (cfg_cors cfg)\<rparr>,
     rc_auth = redacted_auth_of (cfg_auth cfg),
     rc_file = \<lparr>f_storage_path = f_storage_path (cfg_file cfg), f_image_max_bytes = f_image_max_bytes (cfg_file cfg),
       f_video_enabled = f_video_enabled (cfg_file cfg), f_video_max_bytes = f_video_max_bytes (cfg_file cfg)\<rparr>,
     rc_cache_ttl = cfg_cache_ttl cfg,
     rc_log = \<lparr>l_level = l_level (cfg_log cfg), l_format = l_format (cfg_log cfg)\<rparr>,
     rc_modules = \<lparr>m_file = m_file (cfg_modules cfg), m_system_config = m_system_config (cfg_modules cfg)\<rparr>\<rparr>"

section \<open>The console\<close>

datatype written =
    Line string
  | ConfigChecked
  | ConfigPrinted redacted_config
  | StatusUninitialised string i32
  | StatusAt string i32 i32
  | Migrated i32 i32 i32
  | AdminCreated string uuid
  | PasswordPrompt
  | PasswordPromptAgain

text \<open>\<open>cn_terminal\<close>: whether the input is a file that is a terminal; \<open>term.ReadPassword\<close> reads a line from it.\<close>

record 'w console =
  cn_print :: "written \<Rightarrow> ('w, err + unit) state"
  cn_print_error :: "err \<Rightarrow> ('w, err + unit) state"
  cn_terminal :: bool
  cn_read_password :: "('w, err + string) state"
  cn_read_file :: "string \<Rightarrow> ('w, err + string) state"

record 'w http_client =
  hc_new_request :: "string \<Rightarrow> err + unit"
  hc_get :: "string \<Rightarrow> ('w, err + int) state"

section \<open>root.go: the dependencies\<close>

type_synonym 'w runnable = "('w, err + unit) state"

record 'w dependencies =
  dp_load :: "(load_options \<Rightarrow> err + config) option"
  dp_new_logger :: "(log_config \<Rightarrow> int \<times> bool) option"
  dp_build :: "(config \<Rightarrow> int \<times> bool \<Rightarrow> ('w, err + 'w runnable) state) option"
  dp_status :: "(config \<Rightarrow> ('w, db_status \<times> err option) state) option"
  dp_migrate :: "(config \<Rightarrow> ('w, err + migration_result) state) option"
  dp_add_admin :: "(config \<Rightarrow> create_input \<Rightarrow> ('w, err + user) state) option"
  dp_doctor :: "(config \<Rightarrow> ('w, diagnostic_check list) state) option"
  dp_probe :: "(string \<Rightarrow> ('w, err + unit) state) option"

definition no_dependencies :: "'w dependencies" where
  "no_dependencies = \<lparr>dp_load = None, dp_new_logger = None, dp_build = None, dp_status = None, dp_migrate = None,
     dp_add_admin = None, dp_doctor = None, dp_probe = None\<rparr>"

definition or_default :: "'a option \<Rightarrow> 'a \<Rightarrow> 'a option" where
  "or_default v d = (case v of None \<Rightarrow> Some d | Some x \<Rightarrow> Some x)"

definition probe_readiness :: "'w http_client \<Rightarrow> string \<Rightarrow> ('w, err + unit) state" where
  "probe_readiness C url =
     (case hc_new_request C url of
        Inl e \<Rightarrow> State_Monad.return (Inl (Wrapped ''create readiness request'' [e]))
      | Inr _ \<Rightarrow> do {
          r \<leftarrow> hc_get C url;
          State_Monad.return (case r of
              Inl e \<Rightarrow> Inl e
            | Inr code \<Rightarrow> if code < 200 \<or> 300 \<le> code then Inl (Plain (''readiness returned HTTP '' @ itoa code)) else Inr ()) })"

text \<open>What the process is linked with beside the platform: the machine that configuration is read from, the
  storage directory as \<open>Diagnose\<close> finds it, and the HTTP client.\<close>

record ('w, 'd) process =
  ps_host :: "'d host"
  ps_frac :: "nat \<Rightarrow> nat \<Rightarrow> nat \<Rightarrow> nat"
  ps_is_dir :: bool
  ps_fresh :: "disk \<Rightarrow> string"
  ps_client :: "'w http_client"
  ps_info :: build_info

definition build_runnable ::
  "('w, 'p, 'c, 'sk, 'pk, 'l) platform \<Rightarrow> config \<Rightarrow> int \<times> bool \<Rightarrow> ('w, err + 'w runnable) state" where
  "build_runnable PL cfg logger = do {
     r \<leftarrow> build PL cfg True [];
     State_Monad.return (case r of Inl e \<Rightarrow> Inl e | Inr a \<Rightarrow> Inr (run_app (Some a))) }"

definition with_defaults ::
  "('w, 'p, 'c, 'sk, 'pk, 'l) platform \<Rightarrow> ('w, 'd) process \<Rightarrow> 'w dependencies \<Rightarrow> 'w dependencies" where
  "with_defaults PL P d = \<lparr>
     dp_load = or_default (dp_load d) (load_config (pl_unicode PL) (ps_frac P) (ps_host P)),
     dp_new_logger = or_default (dp_new_logger d) new_logger,
     dp_build = or_default (dp_build d) (build_runnable PL),
     dp_status = or_default (dp_status d) (database_status PL),
     dp_migrate = or_default (dp_migrate d) (migrate_application PL),
     dp_add_admin = or_default (dp_add_admin d) (create_admin PL),
     dp_doctor = or_default (dp_doctor d) (diagnose PL (ps_is_dir P) (ps_fresh P)),
     dp_probe = or_default (dp_probe d) (probe_readiness (ps_client P))\<rparr>"

section \<open>The commands\<close>

datatype flag_value = StringFlag string | BoolFlag bool

type_synonym flags = "(string \<times> flag_value) list"

datatype 'w command =
  Command (cm_use: string) (cm_hidden: bool) (cm_flags: flags) (cm_required: "string list")
    (cm_run: "(flags \<Rightarrow> 'w runnable) option") (cm_children: "'w command list")

definition string_flag :: "flags \<Rightarrow> string \<Rightarrow> string" where
  "string_flag fs name = (case map_of fs name of Some (StringFlag s) \<Rightarrow> s | _ \<Rightarrow> '''')"

definition bool_flag :: "flags \<Rightarrow> string \<Rightarrow> bool" where
  "bool_flag fs name = (case map_of fs name of Some (BoolFlag b) \<Rightarrow> b | _ \<Rightarrow> False)"

definition config_flags :: flags where
  "config_flags = [(''config'', StringFlag ''''), (''load-dotenv'', BoolFlag False)]"

definition load_options_of :: "flags \<Rightarrow> load_options" where
  "load_options_of fs = \<lparr>lo_file = string_flag fs ''config'', lo_prefix = '''', lo_dot_env = bool_flag fs ''load-dotenv''\<rparr>"

definition load_from_flags :: "'w dependencies \<Rightarrow> flags \<Rightarrow> err + config" where
  "load_from_flags d fs = the (dp_load d) (load_options_of fs)"

definition version_command :: "'w console \<Rightarrow> build_info \<Rightarrow> 'w command" where
  "version_command C info = Command ''version'' False [] []
     (Some (\<lambda>fs. cn_print C (Line (build_info_string info)))) []"

definition config_check_command :: "'w console \<Rightarrow> 'w dependencies \<Rightarrow> 'w command" where
  "config_check_command C d = Command ''check'' False config_flags []
     (Some (\<lambda>fs. case load_from_flags d fs of
          Inl e \<Rightarrow> State_Monad.return (Inl (Wrapped ''check configuration'' [e]))
        | Inr _ \<Rightarrow> cn_print C ConfigChecked)) []"

definition config_print_command :: "'w console \<Rightarrow> 'w dependencies \<Rightarrow> 'w command" where
  "config_print_command C d = Command ''print'' False (config_flags @ [(''redact'', BoolFlag False)]) []
     (Some (\<lambda>fs.
        if \<not> bool_flag fs ''redact'' then State_Monad.return (Inl (Plain ''--redact is needed to print the configuration''))
        else (case load_from_flags d fs of
            Inl e \<Rightarrow> State_Monad.return (Inl (Wrapped ''load configuration'' [e]))
          | Inr cfg \<Rightarrow> cn_print C (ConfigPrinted (new_redacted_config cfg))))) []"

definition config_command :: "'w console \<Rightarrow> 'w dependencies \<Rightarrow> 'w command" where
  "config_command C d = Command ''config'' False [] [] None [config_check_command C d, config_print_command C d]"

definition serve_command :: "'w dependencies \<Rightarrow> 'w command" where
  "serve_command d = Command ''serve'' False config_flags []
     (Some (\<lambda>fs. case load_from_flags d fs of
          Inl e \<Rightarrow> State_Monad.return (Inl (Wrapped ''load configuration'' [e]))
        | Inr cfg \<Rightarrow> do {
            b \<leftarrow> the (dp_build d) cfg (the (dp_new_logger d) (cfg_log cfg));
            case b of
              Inl e \<Rightarrow> State_Monad.return (Inl (Wrapped ''build application'' [e]))
            | Inr app \<Rightarrow> do {
                r \<leftarrow> app;
                State_Monad.return (case r of Inl e \<Rightarrow> Inl (Wrapped ''run server'' [e]) | Inr _ \<Rightarrow> Inr ()) } })) []"

definition database_status_command :: "'w console \<Rightarrow> 'w dependencies \<Rightarrow> 'w command" where
  "database_status_command C d = Command ''status'' False config_flags []
     (Some (\<lambda>fs. case load_from_flags d fs of
          Inl e \<Rightarrow> State_Monad.return (Inl (Wrapped ''load configuration'' [e]))
        | Inr cfg \<Rightarrow> do {
            i \<leftarrow> the (dp_status d) cfg;
            case i of (st, failure) \<Rightarrow>
              (case failure of
                 Some e \<Rightarrow> State_Monad.return (Inl (Wrapped ''check database'' [e]))
               | None \<Rightarrow>
                   if \<not> st_initialized st then cn_print C (StatusUninitialised (st_server_version st) (st_expected st))
                   else cn_print C (StatusAt (st_server_version st) (st_schema_version st) (st_pending st))) })) []"

definition database_migrate_command :: "'w console \<Rightarrow> 'w dependencies \<Rightarrow> 'w command" where
  "database_migrate_command C d = Command ''migrate'' False config_flags []
     (Some (\<lambda>fs. case load_from_flags d fs of
          Inl e \<Rightarrow> State_Monad.return (Inl (Wrapped ''load configuration'' [e]))
        | Inr cfg \<Rightarrow> do {
            r \<leftarrow> the (dp_migrate d) cfg;
            case r of
              Inl e \<Rightarrow> State_Monad.return (Inl (Wrapped ''migrate database'' [e]))
            | Inr m \<Rightarrow> cn_print C (Migrated (mr_previous m) (mr_current m) (mr_applied m)) })) []"

definition database_command :: "'w console \<Rightarrow> 'w dependencies \<Rightarrow> 'w command" where
  "database_command C d = Command ''db'' False [] [] None [database_status_command C d, database_migrate_command C d]"

text \<open>\<open>readAdminPassword\<close>: a file, or two equal answers at a terminal.\<close>

definition ask_password :: "'w console \<Rightarrow> ('w, err + string) state" where
  "ask_password C = do {
     p \<leftarrow> cn_print C PasswordPrompt;
     case p of
       Inl e \<Rightarrow> State_Monad.return (Inl e)
     | Inr _ \<Rightarrow> do {
         first \<leftarrow> cn_read_password C;
         case first of
           Inl e \<Rightarrow> State_Monad.return (Inl (Wrapped ''read administrator password'' [e]))
         | Inr s \<Rightarrow> do {
             q \<leftarrow> cn_print C PasswordPromptAgain;
             case q of
               Inl e \<Rightarrow> State_Monad.return (Inl e)
             | Inr _ \<Rightarrow> do {
                 again \<leftarrow> cn_read_password C;
                 case again of
                   Inl e \<Rightarrow> State_Monad.return (Inl (Wrapped ''read administrator password again'' [e]))
                 | Inr t \<Rightarrow> do {
                     _ \<leftarrow> cn_print C (Line '''');
                     State_Monad.return (if s \<noteq> t then Inl (Plain ''the administrator passwords differ'') else Inr s) } } } } }"

definition read_admin_password :: "'w console \<Rightarrow> string \<Rightarrow> ('w, err + string) state" where
  "read_admin_password C path =
     (if path \<noteq> '''' then do {
        r \<leftarrow> cn_read_file C path;
        State_Monad.return (case r of
            Inl e \<Rightarrow> Inl (Wrapped ''read administrator password file'' [e])
          | Inr s \<Rightarrow> Inr (trim_right [CHR 13, CHR 10] s)) }
      else if \<not> cn_terminal C then State_Monad.return (Inl (Plain ''--password-file is needed without a terminal''))
      else ask_password C)"

text \<open>\<open>RunE\<close> of the command, on the values of the flags.\<close>

definition create_admin_run :: "'w console \<Rightarrow> 'w dependencies \<Rightarrow> flags \<Rightarrow> 'w runnable" where
  "create_admin_run C d fs =
     (case load_from_flags d fs of
          Inl e \<Rightarrow> State_Monad.return (Inl (Wrapped ''load configuration'' [e]))
        | Inr cfg \<Rightarrow> do {
            p \<leftarrow> read_admin_password C (string_flag fs ''password-file'');
            case p of
              Inl e \<Rightarrow> State_Monad.return (Inl e)
            | Inr password \<Rightarrow> do {
                r \<leftarrow> the (dp_add_admin d) cfg \<lparr>ci_username = string_flag fs ''username'', ci_password = password,
                  ci_display_name = string_flag fs ''display-name'', ci_email = string_flag fs ''email'', ci_avatar_url = '''',
                  ci_is_superuser = False, ci_allow_multiple_sessions = bool_flag fs ''allow-multiple-sessions''\<rparr>;
                case r of
                  Inl e \<Rightarrow> State_Monad.return (Inl (Wrapped ''create administrator'' [e]))
                | Inr u \<Rightarrow> cn_print C (AdminCreated (u_username u) (u_id u)) } })"

definition create_admin_flags :: flags where
  "create_admin_flags = config_flags @ [(''username'', StringFlag ''''), (''display-name'', StringFlag ''''),
     (''email'', StringFlag ''''), (''password-file'', StringFlag ''''), (''allow-multiple-sessions'', BoolFlag False)]"

definition create_admin_command :: "'w console \<Rightarrow> 'w dependencies \<Rightarrow> 'w command" where
  "create_admin_command C d =
     Command ''create-admin'' False create_admin_flags [''username''] (Some (create_admin_run C d)) []"

definition user_command :: "'w console \<Rightarrow> 'w dependencies \<Rightarrow> 'w command" where
  "user_command C d = Command ''user'' False [] [] None [create_admin_command C d]"

text \<open>\<open>%-4s %-16s %s\<close>: the verb pads by runes.\<close>

definition pad_right :: "nat \<Rightarrow> string \<Rightarrow> string" where
  "pad_right n s = s @ replicate (n - length (runes s)) (CHR '' '')"

definition check_line :: "diagnostic_check \<Rightarrow> string" where
  "check_line c = pad_right 4 (if dg_ok c then ''OK'' else ''FAIL'') @ '' '' @ pad_right 16 (dg_name c) @ '' '' @ dg_message c"

fun print_checks :: "'w console \<Rightarrow> diagnostic_check list \<Rightarrow> ('w, err + unit) state" where
  "print_checks C [] = State_Monad.return (Inr ())"
| "print_checks C (c # cs) = do {
     p \<leftarrow> cn_print C (Line (check_line c));
     case p of Inl e \<Rightarrow> State_Monad.return (Inl e) | Inr _ \<Rightarrow> print_checks C cs }"

definition doctor_command :: "'w console \<Rightarrow> 'w dependencies \<Rightarrow> 'w command" where
  "doctor_command C d = Command ''doctor'' False config_flags []
     (Some (\<lambda>fs. case load_from_flags d fs of
          Inl e \<Rightarrow> State_Monad.return (Inl (Wrapped ''check configuration'' [e]))
        | Inr cfg \<Rightarrow> do {
            report \<leftarrow> the (dp_doctor d) cfg;
            p \<leftarrow> print_checks C report;
            State_Monad.return (case p of
                Inl e \<Rightarrow> Inl e
              | Inr _ \<Rightarrow> if \<not> report_ok report then Inl (Plain ''doctor found a problem'') else Inr ()) })) []"

definition healthcheck_command :: "'w dependencies \<Rightarrow> 'w command" where
  "healthcheck_command d = Command ''healthcheck'' True [(''url'', StringFlag ''http://127.0.0.1:8000/readyz'')] []
     (Some (\<lambda>fs. do {
        r \<leftarrow> the (dp_probe d) (string_flag fs ''url'');
        State_Monad.return (case r of Inl e \<Rightarrow> Inl (Wrapped ''service is not ready'' [e]) | Inr _ \<Rightarrow> Inr ()) })) []"

definition new_root ::
  "('w, 'p, 'c, 'sk, 'pk, 'l) platform \<Rightarrow> ('w, 'd) process \<Rightarrow> 'w console \<Rightarrow> 'w dependencies \<Rightarrow> 'w command" where
  "new_root PL P C deps =
     (let d = with_defaults PL P deps
      in Command ''goba'' False [] [] None
           [version_command C (ps_info P), config_command C d, serve_command d, database_command C d,
            user_command C d, doctor_command C d, healthcheck_command d])"

section \<open>main.go\<close>

text \<open>The command at a path of the tree, and its run with the flags that were set over the defaults.\<close>

fun find_command :: "string list \<Rightarrow> 'w command \<Rightarrow> 'w command option" where
  "find_command [] c = Some c"
| "find_command (name # path) c =
     (case find (\<lambda>k. cm_use k = name) (cm_children c) of None \<Rightarrow> None | Some k \<Rightarrow> find_command path k)"

type_synonym 'w cobra = "'w command \<Rightarrow> string list \<Rightarrow> err + (string list \<times> flags) option"

definition run_command :: "'w command \<Rightarrow> string list \<times> flags \<Rightarrow> 'w runnable" where
  "run_command root chosen =
     (case find_command (fst chosen) root of
        None \<Rightarrow> State_Monad.return (Inl (Plain ''unknown command''))
      | Some c \<Rightarrow>
          (case cm_run c of None \<Rightarrow> State_Monad.return (Inr ()) | Some f \<Rightarrow> f (snd chosen @ cm_flags c)))"

definition execute :: "'w cobra \<Rightarrow> 'w command \<Rightarrow> string list \<Rightarrow> 'w runnable" where
  "execute cobra root args =
     (case cobra root args of
        Inl e \<Rightarrow> State_Monad.return (Inl e)
      | Inr None \<Rightarrow> State_Monad.return (Inr ())
      | Inr (Some chosen) \<Rightarrow> run_command root chosen)"

definition run_main ::
  "('w, 'p, 'c, 'sk, 'pk, 'l) platform \<Rightarrow> ('w, 'd) process \<Rightarrow> 'w console \<Rightarrow> 'w cobra \<Rightarrow> string list \<Rightarrow> 'w runnable" where
  "run_main PL P C cobra args = do {
     r \<leftarrow> execute cobra (new_root PL P C no_dependencies) args;
     case r of
       Inl e \<Rightarrow> do { _ \<leftarrow> cn_print_error C e; State_Monad.return (Inl e) }
     | Inr _ \<Rightarrow> State_Monad.return (Inr ()) }"

text \<open>The exit status of the process.\<close>

definition goba_main ::
  "('w, 'p, 'c, 'sk, 'pk, 'l) platform \<Rightarrow> ('w, 'd) process \<Rightarrow> 'w console \<Rightarrow> 'w cobra \<Rightarrow> string list \<Rightarrow> ('w, int) state" where
  "goba_main PL P C cobra args = do {
     r \<leftarrow> run_main PL P C cobra args;
     State_Monad.return (case r of Inl _ \<Rightarrow> 1 | Inr _ \<Rightarrow> 0) }"

end
