(* ===== verification/DatabaseTheorems.thy ===== *)
theory DatabaseTheorems
  imports DatabasePlatform
begin

text \<open>
  Properties of the database component and of migrations, over what a PostgreSQL server and the two
  libraries do: which pools are open, and what the server answers to the queries.
\<close>

section \<open>The server and the libraries\<close>

text \<open>
  What the queries read: the version number and text, the schema version if the version table exists,
  and the number of tables in the public schema.
\<close>

record pg_facts =
  pf_number :: string
  pf_text :: string
  pf_schema :: "i32 option"
  pf_public_tables :: int

definition answer :: "pg_facts \<Rightarrow> string \<Rightarrow> string list \<Rightarrow> cell option" where
  "answer f sql args =
     (if sql = ''SHOW server_version_num'' then Some (TextCell (pf_number f))
      else if sql = ''SHOW server_version'' then Some (TextCell (pf_text f))
      else if sql = ''SELECT to_regclass($1) IS NOT NULL'' then Some (BoolCell (pf_schema f \<noteq> None))
      else if sql = ''SELECT version FROM '' @ version_table then map_option (\<lambda>v. IntCell (sint v)) (pf_schema f)
      else if sql = count_tables then Some (IntCell (pf_public_tables f))
      else None)"

definition reads :: "('w \<Rightarrow> pg_facts) \<Rightarrow> 'w row_querier \<Rightarrow> bool" where
  "reads facts q \<longleftrightarrow> (\<forall>sql args w. wp (q sql args) (\<lambda>r w'. facts w' = facts w \<and>
     (\<forall>x. r = Inr x \<longrightarrow> answer (facts w) sql args = Some x)) w)"

text \<open>
  \<open>facts\<close> is the state of the server, \<open>opened\<close> the set of open pools, \<open>n\<close> the number of migrations
  in the binary.  A migrator on a connection creates the version table at 0 when it is missing; a
  migration that succeeds has reached the last version.
\<close>

definition pgx_laws :: "('w, 'p, 'c) pgx_lib \<Rightarrow> ('w \<Rightarrow> pg_facts) \<Rightarrow> ('w \<Rightarrow> 'p set) \<Rightarrow> bool" where
  "pgx_laws X facts opened \<longleftrightarrow>
     (\<forall>cfg w. wp (px_new X cfg) (\<lambda>r w'. facts w' = facts w \<and> (case r of
         Inl e \<Rightarrow> opened w' = opened w
       | Inr p \<Rightarrow> p \<notin> opened w \<and> opened w' = insert p (opened w))) w) \<and>
     (\<forall>p w. wp (px_close X p) (\<lambda>_ w'. facts w' = facts w \<and> opened w' = opened w - {p}) w) \<and>
     (\<forall>p. reads facts (px_row X p)) \<and> (\<forall>c. reads facts (px_conn_row X c)) \<and>
     (\<forall>p. leaves (px_ping X p) facts \<and> leaves (px_acquire X p) facts) \<and>
     (\<forall>c sql. leaves (px_release X c) facts \<and> leaves (px_conn_exec X c sql) facts)"

definition tern_laws :: "('w, 'c) tern_lib \<Rightarrow> ('w \<Rightarrow> pg_facts) \<Rightarrow> nat \<Rightarrow> bool" where
  "tern_laws T facts n \<longleftrightarrow> int n < 2 ^ 31 \<and>
     leaves (tn_new T None) facts \<and>
     (\<forall>c w. wp (tn_new T (Some c)) (\<lambda>r w'. pf_number (facts w') = pf_number (facts w) \<and>
        (case pf_schema (facts w) of
           Some v \<Rightarrow> pf_schema (facts w') = Some v
         | None \<Rightarrow> pf_schema (facts w') = Some 0 \<or> pf_schema (facts w') = None \<and> r \<noteq> Inr ())) w) \<and>
     (\<forall>w. wp (tn_load T) (\<lambda>r w'. facts w' = facts w \<and> (\<forall>k. r = Inr k \<longrightarrow> k = n)) w) \<and>
     (\<forall>c w. wp (tn_version T c) (\<lambda>r w'. facts w' = facts w \<and> (\<forall>v. r = Inr v \<longrightarrow> pf_schema (facts w) = Some v)) w) \<and>
     (\<forall>c w. wp (tn_migrate T c) (\<lambda>r w'. pf_number (facts w') = pf_number (facts w) \<and>
        (r = Inr () \<longrightarrow> pf_schema (facts w') = Some (word_of_nat n))) w)"

lemma pgx_lawsD:
  assumes "pgx_laws X facts opened"
  shows "wp (px_new X cfg) (\<lambda>r w'. facts w' = facts w \<and> (case r of
         Inl e \<Rightarrow> opened w' = opened w
       | Inr p \<Rightarrow> p \<notin> opened w \<and> opened w' = insert p (opened w))) w"
    "wp (px_close X p) (\<lambda>_ w'. facts w' = facts w \<and> opened w' = opened w - {p}) w"
    "reads facts (px_row X p)" "reads facts (px_conn_row X c)"
    "leaves (px_ping X p) facts" "leaves (px_acquire X p) facts"
    "leaves (px_release X c) facts" "leaves (px_conn_exec X c sql) facts"
  using assms by (simp_all add: pgx_laws_def)

lemma tern_lawsD:
  assumes "tern_laws T facts n"
  shows "int n < 2 ^ 31" "leaves (tn_new T None) facts"
    "wp (tn_new T (Some c)) (\<lambda>r w'. pf_number (facts w') = pf_number (facts w) \<and>
        (case pf_schema (facts w) of
           Some v \<Rightarrow> pf_schema (facts w') = Some v
         | None \<Rightarrow> pf_schema (facts w') = Some 0 \<or> pf_schema (facts w') = None \<and> r \<noteq> Inr ())) w"
    "wp (tn_load T) (\<lambda>r w'. facts w' = facts w \<and> (\<forall>k. r = Inr k \<longrightarrow> k = n)) w"
    "wp (tn_version T c) (\<lambda>r w'. facts w' = facts w \<and> (\<forall>v. r = Inr v \<longrightarrow> pf_schema (facts w) = Some v)) w"
    "wp (tn_migrate T c) (\<lambda>r w'. pf_number (facts w') = pf_number (facts w) \<and>
        (r = Inr () \<longrightarrow> pf_schema (facts w') = Some (word_of_nat n))) w"
  using assms by (simp_all add: tern_laws_def)

text \<open>Every other operation leaves a part of the world alone.\<close>

definition pgx_quiet :: "('w, 'p, 'c) pgx_lib \<Rightarrow> ('w \<Rightarrow> 'o) \<Rightarrow> bool" where
  "pgx_quiet X f \<longleftrightarrow> (\<forall>p sql args. leaves (px_row X p sql args) f \<and> leaves (px_ping X p) f \<and> leaves (px_acquire X p) f) \<and>
     (\<forall>c sql args. leaves (px_conn_row X c sql args) f \<and> leaves (px_conn_exec X c sql) f \<and> leaves (px_release X c) f)"

definition tern_quiet :: "('w, 'c) tern_lib \<Rightarrow> ('w \<Rightarrow> 'o) \<Rightarrow> bool" where
  "tern_quiet T f \<longleftrightarrow> leaves (tn_load T) f \<and> (\<forall>c. leaves (tn_new T c) f) \<and>
     (\<forall>c. leaves (tn_version T c) f \<and> leaves (tn_migrate T c) f)"

section \<open>Queries\<close>

definition new_enough :: "pg_facts \<Rightarrow> bool" where
  "new_enough f \<longleftrightarrow> (\<exists>n. parse_int 64 (pf_number f) = Some n \<and> 160000 \<le> n)"

lemma readsD:
  assumes "reads facts q"
  shows "wp (q sql args) (\<lambda>r w'. facts w' = facts w \<and> (\<forall>x. r = Inr x \<longrightarrow> answer (facts w) sql args = Some x)) w"
  using assms by (simp add: reads_def)

lemma scan_Inr [simp]:
  "(scan_text r = Inr s) = (r = Inr (TextCell s))" "(scan_bool r = Inr b) = (r = Inr (BoolCell b))"
  "(scan_int r = Inr n) = (r = Inr (IntCell n))"
  "(scan_int32 r = Inr v) = (\<exists>n. r = Inr (IntCell n) \<and> - (2 ^ 31) \<le> n \<and> n < 2 ^ 31 \<and> v = word_of_int n)"
  by (auto simp: scan_text_def scan_bool_def scan_int_def scan_int32_def split: sum.splits cell.splits)

lemma wrap_with_Inr [simp]: "(wrap_with msg r = Inr x) = (r = Inr x)"
  by (auto simp: wrap_with_def split: sum.splits)

lemma server_version_spec:
  assumes "reads facts q"
  shows "wp (server_version q) (\<lambda>r w'. facts w' = facts w \<and> (\<forall>v. r = Inr v \<longrightarrow> new_enough (facts w)) \<and>
    (\<forall>e. r = Inl e \<longrightarrow> e \<noteq> err_schema_missing \<and> (\<forall>es. e \<noteq> Wrapped ''schema version'' es))) w"
  unfolding server_version_def wp_bind
proof (rule wp_mono [OF readsD [OF assms]], goal_cases)
  case (1 r w1)
  show ?case
  proof (cases "scan_text r")
    case (Inr digits)
    then have num: "pf_number (facts w) = digits" using 1 by (auto simp: answer_def)
    show ?thesis
    proof (cases "parse_int 64 digits")
      case (Some n)
      show ?thesis
      proof (cases "n div 10000 < 16")
        case False
        then have "new_enough (facts w)" using num Some by (auto simp: new_enough_def)
        then show ?thesis
          unfolding Inr sum.case Some option.case if_not_P [OF False] wp_bind
          by (intro wp_mono [OF readsD [OF assms]])
             (use 1 in \<open>auto simp: wp_rules wrap_with_def err_schema_missing_def split: sum.splits\<close>)
      qed (use 1 in \<open>simp add: Inr Some wp_rules err_schema_missing_def\<close>)
    qed (use 1 in \<open>simp add: Inr wp_rules err_schema_missing_def\<close>)
  qed (use 1 in \<open>simp add: wp_rules err_schema_missing_def\<close>)
qed

lemma version_table_exists_spec:
  assumes "reads facts q"
  shows "wp (version_table_exists q) (\<lambda>r w'. facts w' = facts w \<and>
    (\<forall>b. r = Inr b \<longrightarrow> b = (pf_schema (facts w) \<noteq> None)) \<and>
    (\<forall>e. r = Inl e \<longrightarrow> e \<noteq> err_schema_missing \<and> (\<forall>es. e \<noteq> Wrapped ''schema version'' es))) w"
  unfolding version_table_exists_def wp_rules
  by (rule wp_mono [OF readsD [OF assms]])
     (auto simp: answer_def wrap_with_def err_schema_missing_def split: sum.splits)

lemma expected_version_spec:
  assumes "tern_laws T facts n"
  shows "wp (expected_version T) (\<lambda>r w'. facts w' = facts w \<and> (\<forall>v. r = Inr v \<longrightarrow> v = word_of_nat n) \<and>
    (\<forall>e. r = Inl e \<longrightarrow> e \<noteq> err_schema_missing \<and> (\<forall>es. e \<noteq> Wrapped ''schema version'' es))) w"
  unfolding expected_version_def wp_bind
proof (rule wp_mono [OF leavesD [OF tern_lawsD(2) [OF assms]]], goal_cases)
  case (1 m w1)
  show ?case
  proof (cases m)
    case (Inr u)
    show ?thesis
      unfolding Inr sum.case wp_bind
      by (rule wp_mono [OF tern_lawsD(4) [OF assms]])
         (use 1 in \<open>auto simp: wp_rules err_schema_missing_def split: sum.split\<close>)
  qed (use 1 in \<open>simp add: wp_rules err_schema_missing_def\<close>)
qed

definition schema_error :: "err \<Rightarrow> bool" where
  "schema_error e \<longleftrightarrow> e = err_schema_missing \<or> (\<exists>es. e = Wrapped ''schema version'' es)"

text \<open>What an inspection of a server in state \<open>f\<close> may report, with \<open>n\<close> migrations in the binary.\<close>

definition inspected :: "nat \<Rightarrow> bool \<Rightarrow> pg_facts \<Rightarrow> db_status \<times> err option \<Rightarrow> bool" where
  "inspected n require f i \<longleftrightarrow>
     (snd i = None \<longrightarrow> (case pf_schema f of
       None \<Rightarrow> \<not> require \<and> \<not> st_initialized (fst i)
     | Some v \<Rightarrow> v = word_of_nat n \<and> st_initialized (fst i) \<and> st_schema_version (fst i) = v \<and> st_pending (fst i) = 0)) \<and>
     (\<forall>e. snd i = Some e \<longrightarrow> schema_error e \<longrightarrow> pf_schema f \<noteq> Some (word_of_nat n))"

lemma inspected_failed: "\<not> schema_error e \<Longrightarrow> inspected n require f (s, Some e)"
  by (simp add: inspected_def)

lemma inspect_schema_spec:
  assumes "pgx_laws X facts opened" "st_expected status = word_of_nat n" "\<not> st_initialized status"
  shows "wp (inspect_schema X pool require status) (\<lambda>i w'. facts w' = facts w \<and> inspected n require (facts w) i) w"
  unfolding inspect_schema_def wp_bind
proof (rule wp_mono [OF version_table_exists_spec [OF pgx_lawsD(3) [OF assms(1)]]], goal_cases)
  case (1 t w1)
  show ?case
  proof (cases t)
    case (Inl e)
    then show ?thesis using 1 by (auto simp: wp_rules schema_error_def intro!: inspected_failed)
  next
    case (Inr exists)
    then have ex: "exists = (pf_schema (facts w) \<noteq> None)" using 1 by auto
    show ?thesis
    proof (cases "pf_schema (facts w)")
      case None
      then show ?thesis using ex 1 assms(3) by (simp add: Inr wp_rules inspected_def)
    next
      case (Some schema)
      then have "\<not> \<not> exists" using ex by simp
      show ?thesis
        unfolding Inr sum.case if_not_P [OF \<open>\<not> \<not> exists\<close>] wp_bind
      proof (rule wp_mono [OF readsD [OF pgx_lawsD(3) [OF assms(1)]]], goal_cases)
        case (1 r w2)
        show ?case
        proof (cases "scan_int32 r")
          case (Inl e)
          then show ?thesis using 1 \<open>facts w1 = facts w \<and> _\<close>
            by (auto simp: wp_rules schema_error_def err_schema_missing_def intro!: inspected_failed)
        next
          case (Inr v)
          then have "v = schema"
            using 1 \<open>facts w1 = facts w \<and> _\<close> Some by (auto simp: answer_def version_table_def count_tables_def)
          then show ?thesis
            using 1 \<open>facts w1 = facts w \<and> _\<close> Some assms(2)
            by (auto simp: Inr wp_rules inspected_def schema_error_def Let_def)
        qed
      qed
    qed
  qed
qed

lemma inspect_spec:
  assumes "pgx_laws X facts opened" "tern_laws T facts n"
  shows "wp (inspect X T pool require) (\<lambda>i w'. facts w' = facts w \<and> inspected n require (facts w) i \<and>
    (snd i = None \<longrightarrow> new_enough (facts w))) w"
  unfolding inspect_def wp_bind
proof (rule wp_mono [OF server_version_spec [OF pgx_lawsD(3) [OF assms(1)]]], goal_cases)
  case (1 v w1)
  show ?case
  proof (cases v)
    case (Inl e)
    then show ?thesis using 1 by (auto simp: wp_rules schema_error_def intro!: inspected_failed)
  next
    case (Inr version)
    then have new: "new_enough (facts w)" "facts w1 = facts w" using 1 by auto
    show ?thesis
      unfolding Inr sum.case wp_bind
    proof (rule wp_mono [OF expected_version_spec [OF assms(2)]], goal_cases)
      case (1 x w2)
      show ?case
      proof (cases x)
        case (Inl e)
        then show ?thesis using 1 new by (auto simp: wp_rules schema_error_def intro!: inspected_failed)
      next
        case (Inr expected)
        then have x: "expected = word_of_nat n" "facts w2 = facts w" using 1 new by auto
        show ?thesis
          unfolding Inr sum.case
          by (rule wp_mono [OF inspect_schema_spec [OF assms(1)]]) (use x new in \<open>simp_all add: no_status_def\<close>)
      qed
    qed
  qed
qed

section \<open>The component\<close>

definition component_lawful ::
  "('w, 'p, 'c) pgx_lib \<Rightarrow> ('w, 'c) tern_lib \<Rightarrow> ('w \<Rightarrow> pg_facts) \<Rightarrow> ('w \<Rightarrow> 'p set) \<Rightarrow> nat \<Rightarrow>
    ('w, 'p) db_component \<Rightarrow> bool" where
  "component_lawful X T facts opened n c \<longleftrightarrow> pgx_laws X facts opened \<and> tern_laws T facts n \<and>
     pgx_quiet X opened \<and> tern_quiet T opened \<and>
     pgx_quiet X (v_get (dc_pool c)) \<and> tern_quiet T (v_get (dc_pool c)) \<and>
     (\<forall>cfg. leaves (px_new X cfg) (v_get (dc_pool c))) \<and> (\<forall>p. leaves (px_close X p) (v_get (dc_pool c))) \<and>
     var_laws (dc_pool c) \<and>
     (\<forall>x w. opened (v_put (dc_pool c) x w) = opened w \<and> facts (v_put (dc_pool c) x w) = facts w)"

text \<open>The open pools are those of others and the one the component holds.\<close>

definition holds_pool :: "('w \<Rightarrow> 'p set) \<Rightarrow> 'p set \<Rightarrow> ('w, 'p) db_component \<Rightarrow> 'w \<Rightarrow> bool" where
  "holds_pool opened others c w \<longleftrightarrow> opened w = others \<union> set_option (v_get (dc_pool c) w) \<and>
     others \<inter> set_option (v_get (dc_pool c) w) = {}"

lemma inspect_leaves:
  assumes "pgx_quiet X f" "tern_quiet T f"
  shows "leaves (inspect X T pool require) f"
proof -
  have row: "leaves (px_row X pool sql args) f" for sql args using assms(1) by (simp add: pgx_quiet_def)
  have tern: "leaves (tn_new T c) f" "leaves (tn_load T) f" for c using assms(2) by (simp_all add: tern_quiet_def)
  show ?thesis
    unfolding inspect_def inspect_schema_def server_version_def version_table_exists_def expected_version_def
    by (intro leaves_rules row tern)
qed

lemma inspect_component:
  assumes "component_lawful X T facts opened n c"
  shows "wp (inspect X T pool require) (\<lambda>i w'. opened w' = opened w \<and>
    v_get (dc_pool c) w' = v_get (dc_pool c) w \<and> facts w' = facts w \<and> inspected n require (facts w) i \<and>
    (snd i = None \<longrightarrow> new_enough (facts w))) w"
proof -
  note lw = assms [unfolded component_lawful_def]
  show ?thesis
    by (rule wp_mono [OF wp_conj [OF leavesD [OF inspect_leaves] wp_conj [OF leavesD [OF inspect_leaves] inspect_spec]]])
       (use lw in auto)
qed

lemma close_component:
  assumes "component_lawful X T facts opened n c"
  shows "wp (px_close X p) (\<lambda>_ w'. v_get (dc_pool c) w' = v_get (dc_pool c) w \<and> facts w' = facts w \<and>
    opened w' = opened w - {p}) w"
  by (rule wp_conj [OF leavesD pgx_lawsD(2)]) (use assms in \<open>auto simp: component_lawful_def\<close>)

definition start_outcome ::
  "nat \<Rightarrow> ('w \<Rightarrow> pg_facts) \<Rightarrow> ('w, 'p) db_component \<Rightarrow> 'w \<Rightarrow> err + unit \<Rightarrow> 'w \<Rightarrow> bool" where
  "start_outcome n facts c w r w' \<longleftrightarrow> facts w' = facts w \<and>
     (if v_get (dc_pool c) w \<noteq> None then r = Inr () \<and> w' = w
      else (case r of
          Inr _ \<Rightarrow> v_get (dc_pool c) w' \<noteq> None \<and> new_enough (facts w) \<and> pf_schema (facts w) = Some (word_of_nat n)
        | Inl e \<Rightarrow> v_get (dc_pool c) w' = None \<and>
            (schema_error e \<longrightarrow> pf_schema (facts w) \<noteq> Some (word_of_nat n))))"

lemma database_start_spec:
  assumes "component_lawful X T facts opened n c" "holds_pool opened others c w"
  shows "wp (database_start X T c) (\<lambda>r w'. holds_pool opened others c w' \<and> start_outcome n facts c w r w') w"
proof (cases "v_get (dc_pool c) w")
  case (Some p)
  then show ?thesis using assms(2) by (simp add: database_start_def wp_rules start_outcome_def)
next
  case None
  note lw = assms(1) [unfolded component_lawful_def]
  have only: "opened w = others" using assms(2) None by (simp add: holds_pool_def)
  have new: "wp (px_new X (dc_config c)) (\<lambda>r w'. v_get (dc_pool c) w' = v_get (dc_pool c) w \<and> facts w' = facts w \<and>
      (case r of Inl e \<Rightarrow> opened w' = opened w | Inr p \<Rightarrow> p \<notin> opened w \<and> opened w' = insert p (opened w))) w"
    by (rule wp_conj [OF leavesD pgx_lawsD(1)]) (use lw in auto)
  show ?thesis
    unfolding database_start_def wp_rules None option.case
  proof (rule wp_mono [OF new], goal_cases)
    case (1 r w1)
    show ?case
    proof (cases r)
      case (Inl e)
      then show ?thesis using 1 None only by (simp add: wp_rules holds_pool_def start_outcome_def schema_error_def err_schema_missing_def)
    next
      case (Inr p)
      then have p: "p \<notin> others" "opened w1 = insert p others" "v_get (dc_pool c) w1 = None" "facts w1 = facts w"
        using 1 None only by auto
      show ?thesis
        unfolding Inr sum.case wp_bind
      proof (rule wp_mono [OF inspect_component [OF assms(1)]], goal_cases)
        case (1 i w2)
        show ?case
        proof (cases "snd i")
          case s: None
          then show ?thesis
            using 1 p None lw
            by (auto simp: wp_rules holds_pool_def start_outcome_def inspected_def var_laws_def split: option.splits)
        next
          case (Some e)
          show ?thesis
            unfolding Some option.case wp_bind
            by (rule wp_mono [OF close_component [OF assms(1)]])
               (use 1 p None Some in \<open>auto simp: wp_rules holds_pool_def start_outcome_def inspected_def\<close>)
        qed
      qed
    qed
  qed
qed

lemma database_stop_spec:
  assumes "component_lawful X T facts opened n c" "holds_pool opened others c w"
  shows "wp (database_stop X c) (\<lambda>r w'. r = Inr () \<and> facts w' = facts w \<and> opened w' = others \<and>
    v_get (dc_pool c) w' = None) w"
proof (cases "v_get (dc_pool c) w")
  case None
  then show ?thesis using assms(2) by (simp add: database_stop_def wp_rules holds_pool_def)
next
  case (Some p)
  note lw = assms(1) [unfolded component_lawful_def]
  show ?thesis
    unfolding database_stop_def wp_rules Some option.case
    by (rule wp_mono [OF close_component [OF assms(1)]])
       (use lw assms(2) Some in \<open>auto simp: holds_pool_def wp_rules var_laws_def\<close>)
qed

lemma database_health_spec:
  assumes "component_lawful X T facts opened n c"
  shows "wp (database_health X T c) (\<lambda>r w'. opened w' = opened w \<and> facts w' = facts w \<and>
    v_get (dc_pool c) w' = v_get (dc_pool c) w \<and> (r = Inr () \<longrightarrow> v_get (dc_pool c) w \<noteq> None \<and>
      new_enough (facts w) \<and> pf_schema (facts w) = Some (word_of_nat n))) w"
proof (cases "v_get (dc_pool c) w")
  case None
  then show ?thesis by (simp add: database_health_def current_pool_def wp_rules)
next
  case (Some p)
  show ?thesis
    unfolding database_health_def current_pool_def wp_rules Some option.case sum.case
    by (rule wp_mono [OF inspect_component [OF assms]])
       (use Some in \<open>auto simp: inspected_def split: option.splits\<close>)
qed

section \<open>Migrations\<close>











lemma open_pool_spec:
  assumes "pgx_laws X facts opened" "pgx_quiet X opened"
  shows "wp (open_pool X cfg) (\<lambda>r w'. facts w' = facts w \<and> (case r of
       Inl e \<Rightarrow> opened w' = opened w \<and> \<not> schema_error e
     | Inr p \<Rightarrow> p \<notin> opened w \<and> opened w' = insert p (opened w))) w"
proof (cases "new_pool_config X cfg")
  case (Inl e)
  then have "e = Plain ''database configuration is invalid''"
    by (auto simp: new_pool_config_def Let_def split: sum.splits)
  with Inl show ?thesis by (simp add: open_pool_def wp_rules schema_error_def err_schema_missing_def)
next
  case (Inr pc)
  show ?thesis
    unfolding open_pool_def Inr sum.case wp_bind
  proof (rule wp_mono [OF pgx_lawsD(1) [OF assms(1)]], goal_cases)
    case (1 r w1)
    note r = 1
    show ?case
    proof (cases r)
      case pool: (Inr pool)
      have ping: "wp (px_ping X pool) (\<lambda>r w'. opened w' = opened w1 \<and> facts w' = facts w1) w1"
        by (rule wp_conj [OF leavesD leavesD [OF pgx_lawsD(5) [OF assms(1)]]]) (use assms(2) in \<open>simp add: pgx_quiet_def\<close>)
      show ?thesis
        unfolding pool sum.case wp_bind
      proof (rule wp_mono [OF ping], goal_cases)
        case (1 q w2)
        show ?case
        proof (cases q)
          case (Inl e)
          show ?thesis
            unfolding Inl sum.case wp_bind
            by (rule wp_mono [OF pgx_lawsD(2) [OF assms(1)]])
               (use 1 r pool in \<open>auto simp: wp_rules schema_error_def err_schema_missing_def\<close>)
        qed (use 1 r pool in \<open>simp add: wp_rules\<close>)
      qed
    qed (use r in \<open>simp add: wp_rules schema_error_def err_schema_missing_def\<close>)
  qed
qed



lemma inspect_database_spec:
  assumes "pgx_laws X facts opened" "tern_laws T facts n" "pgx_quiet X opened" "tern_quiet T opened"
  shows "wp (inspect_database X T cfg) (\<lambda>i w'. opened w' = opened w \<and> facts w' = facts w \<and>
    inspected n False (facts w) i \<and> (snd i = None \<longrightarrow> new_enough (facts w))) w"
  unfolding inspect_database_def wp_bind
proof (rule wp_mono [OF open_pool_spec [OF assms(1,3)]], goal_cases)
  case (1 r w1)
  note r = 1
  show ?case
  proof (cases r)
    case (Inr pool)
    show ?thesis
      unfolding Inr sum.case wp_bind
    proof (rule wp_mono [OF wp_conj [OF leavesD [OF inspect_leaves [OF assms(3,4)]] inspect_spec [OF assms(1,2)]]],
        goal_cases)
      case (1 i w2)
      show ?case
        by (rule wp_mono [OF pgx_lawsD(2) [OF assms(1)]]) (use 1 r Inr in \<open>auto simp: wp_rules\<close>)
    qed
  qed (use r in \<open>simp add: wp_rules inspected_failed\<close>)
qed


section \<open>The properties\<close>

text \<open>C33: The database component owns its pool: after any of its operations the open pools are those of
  others and the one it holds.  \<open>Start\<close> keeps a running pool, and otherwise holds one only on a server
  of version 16 or newer whose schema version is the number of migrations; a start that fails closes
  what it opened.  \<open>Stop\<close> closes the pool, and \<open>Health\<close> succeeds only on a started component whose
  server still has that version.\<close>

theorem database_component_resources:
  assumes "component_lawful X T facts opened n c" "holds_pool opened others c w"
  shows "wp (database_start X T c) (\<lambda>r w'. holds_pool opened others c w' \<and> start_outcome n facts c w r w') w \<and>
    wp (database_stop X c) (\<lambda>r w'. r = Inr () \<and> facts w' = facts w \<and> opened w' = others \<and>
      v_get (dc_pool c) w' = None) w \<and>
    wp (database_health X T c) (\<lambda>r w'. holds_pool opened others c w' \<and> (r = Inr () \<longrightarrow>
      v_get (dc_pool c) w \<noteq> None \<and> new_enough (facts w) \<and> pf_schema (facts w) = Some (word_of_nat n))) w"
proof (intro conjI)
  show "wp (database_health X T c) (\<lambda>r w'. holds_pool opened others c w' \<and> (r = Inr () \<longrightarrow>
      v_get (dc_pool c) w \<noteq> None \<and> new_enough (facts w) \<and> pf_schema (facts w) = Some (word_of_nat n))) w"
    by (rule wp_mono [OF database_health_spec [OF assms(1)]]) (use assms(2) in \<open>auto simp: holds_pool_def\<close>)
qed (rule database_start_spec [OF assms] database_stop_spec [OF assms])+


section \<open>A server in memory\<close>

text \<open>The server, the open pools, the number of pools made so far and the variable of the component.\<close>

type_synonym mem_pg = "pg_facts \<times> nat set \<times> nat \<times> nat option"

definition mem_new :: "pool_config \<Rightarrow> (mem_pg, err + nat) state" where
  "mem_new cfg = do {
     w \<leftarrow> State_Monad.get;
     case w of (f, ps, k, h) \<Rightarrow>
       if k \<in> ps then State_Monad.return (Inl (Plain ''taken''))
       else do {
         _ \<leftarrow> State_Monad.set (f, insert k ps, Suc k, h);
         State_Monad.return (Inr k) } }"

definition mem_close :: "nat \<Rightarrow> (mem_pg, unit) state" where
  "mem_close p = do { w \<leftarrow> State_Monad.get; case w of (f, ps, k, h) \<Rightarrow> State_Monad.set (f, ps - {p}, k, h) }"

definition mem_row :: "nat \<Rightarrow> string \<Rightarrow> string list \<Rightarrow> (mem_pg, err + cell) state" where
  "mem_row p sql args = do {
     w \<leftarrow> State_Monad.get;
     State_Monad.return (case answer (fst w) sql args of None \<Rightarrow> Inl (Plain ''syntax'') | Some x \<Rightarrow> Inr x) }"

definition mem_pgx :: "(mem_pg, nat, nat) pgx_lib" where
  "mem_pgx = \<lparr>px_parse = \<lambda>_. Inr (), px_new = mem_new, px_close = mem_close,
     px_ping = \<lambda>_. State_Monad.return (Inr ()), px_row = mem_row,
     px_acquire = \<lambda>p. State_Monad.return (Inr p), px_release = \<lambda>_. State_Monad.return (),
     px_conn_row = mem_row, px_conn_exec = \<lambda>_ _. State_Monad.return (Inr ())\<rparr>"


definition set_schema :: "i32 \<Rightarrow> (mem_pg, err + unit) state" where
  "set_schema v = do {
     w \<leftarrow> State_Monad.get;
     _ \<leftarrow> State_Monad.set (apfst (\<lambda>f. f\<lparr>pf_schema := Some v\<rparr>) w);
     State_Monad.return (Inr ()) }"

definition mem_tern :: "(mem_pg, nat) tern_lib" where
  "mem_tern = \<lparr>
     tn_new = \<lambda>c. do {
       w \<leftarrow> State_Monad.get;
       if c = None \<or> pf_schema (fst w) \<noteq> None then State_Monad.return (Inr ()) else set_schema 0 },
     tn_load = State_Monad.return (Inr 4),
     tn_version = \<lambda>_. do {
       w \<leftarrow> State_Monad.get;
       State_Monad.return (case pf_schema (fst w) of None \<Rightarrow> Inl (Plain ''no table'') | Some v \<Rightarrow> Inr v) },
     tn_migrate = \<lambda>_. set_schema 4\<rparr>"

definition mem_component :: "(mem_pg, nat) db_component" where
  "mem_component = \<lparr>
     dc_config = \<lparr>pc_endpoint = \<lparr>ep_user = ''goba'', ep_password = '''', ep_host = ''db:5432'', ep_path = ''goba'',
       ep_query = []\<rparr>, pc_min_conns = 1, pc_max_conns = 4, pc_timezone = ''UTC''\<rparr>,
     dc_health_timeout = second,
     dc_pool = \<lparr>v_get = \<lambda>w. snd (snd (snd w)), v_put = \<lambda>x w. (fst w, fst (snd w), fst (snd (snd w)), x)\<rparr>\<rparr>"

lemma mem_component_lawful: "component_lawful mem_pgx mem_tern fst (fst \<circ> snd) 4 mem_component"
  unfolding component_lawful_def pgx_laws_def tern_laws_def pgx_quiet_def tern_quiet_def reads_def leaves_def
    var_laws_def
  by (simp add: mem_pgx_def mem_tern_def mem_component_def mem_new_def mem_close_def mem_row_def set_schema_def wp_rules
      split: option.splits prod.splits)

definition fresh_pg :: pg_facts where
  "fresh_pg = \<lparr>pf_number = ''160004'', pf_text = ''16.4'', pf_schema = None, pf_public_tables = 0\<rparr>"


theorem database_component_resources_witness:
  "(let w = (fresh_pg\<lparr>pf_schema := Some 4\<rparr>, {7}, 8, None)
    in case run_state (database_start mem_pgx mem_tern mem_component) w of
         (r, w') \<Rightarrow> holds_pool (fst \<circ> snd) {7} mem_component w' \<and> start_outcome 4 fst mem_component w r w')"
proof -
  have "holds_pool (fst \<circ> snd) {7} mem_component (fresh_pg\<lparr>pf_schema := Some 4\<rparr>, {7}, 8, None)"
    by (simp add: holds_pool_def mem_component_def)
  from database_component_resources [OF mem_component_lawful this] show ?thesis
    by (simp add: Let_def wp_def split: prod.splits)
qed








end
