(* ===== verification/AssemblyTheorems.thy ===== *)
theory AssemblyTheorems
  imports Assembly StartupModule GatewayTheorems DatabaseTheorems
begin

text \<open>
  Properties of the assembled application: \<open>Build\<close> wires the modules the way the properties of the
  modules and of the HTTP interface suppose, and the one-off operations release what they open.
\<close>

section \<open>The component as a database\<close>


lemma wp_current_pool [wp_rules]:
  "wp (current_pool c) Q = (\<lambda>w. case v_get (dc_pool c) w of
     None \<Rightarrow> Q (Inl err_not_started) w | Some p \<Rightarrow> Q (Inr p) w)"
  by (simp add: current_pool_def wp_rules fun_eq_iff split: option.splits)






section \<open>What the program is linked with\<close>




section \<open>Building\<close>
















section \<open>CreateAdmin\<close>









section \<open>The properties\<close>



section \<open>A platform in memory\<close>

text \<open>The world of the authentication module beside the one of the database component.\<close>

type_synonym mem_all = "auth_world \<times> mem_pg"

definition fst_var :: "('a \<times> 'b, 'a) var" where "fst_var = \<lparr>v_get = fst, v_put = (\<lambda>x w. (x, snd w))\<rparr>"

definition snd_var :: "('a \<times> 'b, 'b) var" where "snd_var = \<lparr>v_get = snd, v_put = (\<lambda>x w. (fst w, x))\<rparr>"

lemma part_simps [simp]: "v_get fst_var = fst" "v_get snd_var = snd" "v_put fst_var x w = (x, snd w)"
  "v_put snd_var y w = (fst w, y)"
  by (simp_all add: fst_var_def snd_var_def)


lemma on_part_within: "leaves m f \<Longrightarrow> leaves (on_var fst_var m) (\<lambda>w. f (fst w))"
  "leaves m' g \<Longrightarrow> leaves (on_var snd_var m') (\<lambda>w. g (snd w))"
  by (simp_all add: leaves_def wp_rules)

definition pool_on :: "('w, 'd) var \<Rightarrow> ('d, 's, 'r) pool \<Rightarrow> ('w, 's, 'r) pool" where
  "pool_on v db = \<lparr>db_pool = \<lparr>db_exec = (\<lambda>st. on_var v (db_exec (db_pool db) st))\<rparr>,
     db_begin = do {
       b \<leftarrow> on_var v (db_begin db);
       State_Monad.return (map_sum id (\<lambda>tx. \<lparr>tx_dbtx = \<lparr>db_exec = (\<lambda>st. on_var v (db_exec (tx_dbtx tx) st))\<rparr>,
         tx_commit = on_var v (tx_commit tx), tx_rollback = on_var v (tx_rollback tx)\<rparr>) b) }\<rparr>"


definition pgx_on :: "('w, 'd) var \<Rightarrow> ('d, 'p, 'c) pgx_lib \<Rightarrow> ('w, 'p, 'c) pgx_lib" where
  "pgx_on v X = \<lparr>px_parse = px_parse X, px_new = (\<lambda>c. on_var v (px_new X c)),
     px_close = (\<lambda>p. on_var v (px_close X p)), px_ping = (\<lambda>p. on_var v (px_ping X p)),
     px_row = (\<lambda>p sql args. on_var v (px_row X p sql args)), px_acquire = (\<lambda>p. on_var v (px_acquire X p)),
     px_release = (\<lambda>c. on_var v (px_release X c)),
     px_conn_row = (\<lambda>c sql args. on_var v (px_conn_row X c sql args)),
     px_conn_exec = (\<lambda>c sql. on_var v (px_conn_exec X c sql))\<rparr>"

definition tern_on :: "('w, 'd) var \<Rightarrow> ('d, 'c) tern_lib \<Rightarrow> ('w, 'c) tern_lib" where
  "tern_on v T = \<lparr>tn_new = (\<lambda>c. on_var v (tn_new T c)), tn_load = on_var v (tn_load T),
     tn_version = (\<lambda>c. on_var v (tn_version T c)), tn_migrate = (\<lambda>c. on_var v (tn_migrate T c))\<rparr>"

definition mem_platform :: "(mem_all, nat, nat, unit, unit, unit) platform" where
  "mem_platform = \<lparr>
     pl_pgx = pgx_on snd_var mem_pgx, pl_tern = tern_on snd_var mem_tern,
     pl_pool = \<lparr>v_get = (\<lambda>w. v_get (dc_pool mem_component) (snd w)),
       v_put = (\<lambda>x w. (fst w, v_put (dc_pool mem_component) x (snd w)))\<rparr>,
     pl_users = (\<lambda>_. pool_on fst_var mem_auth_db),
     pl_configs = (\<lambda>_. \<lparr>db_pool = \<lparr>db_exec = (\<lambda>_. State_Monad.return (Inl err_not_started))\<rparr>,
       db_begin = State_Monad.return (Inl err_not_started)\<rparr>),
     pl_redis = (\<lambda>_. \<lparr>rc_ping = State_Monad.return (Inr ()), rc_close = State_Monad.return (Inr ())\<rparr>),
     pl_client = (\<lambda>_ cmd. on_var fst_var (rs_client mem_store cmd)),
     pl_disk = \<lparr>v_get = (\<lambda>_. \<lparr>dk_nodes = [], dk_root = False, dk_faults = [], dk_now = 0\<rparr>), v_put = (\<lambda>_ w. w)\<rparr>,
     pl_upload_context = None,
     pl_env = \<lparr>he_auth = \<lparr>ae_unicode = ascii_unicode, ae_uuid = canonical_uuid, ae_jwt = toy_jwt,
         ae_sha256 = (\<lambda>s. s), ae_rand = zero_rand, ae_new_v7 = State_Monad.return 5, ae_new_v4 = State_Monad.return 7\<rparr>,
       he_parsers = sample_parsers, he_frac = (\<lambda>_ _ _. 0), he_detect = (\<lambda>_. '''')\<rparr>,
     pl_idkey = pad_idkey, pl_ids = State_Monad.return (Inr 9), pl_clock = (\<lambda>_. second), pl_gin = mem_gin,
     pl_net = \<lparr>nl_listen = (\<lambda>_. State_Monad.return (Inr ())), nl_serve = (\<lambda>_ _ _. State_Monad.return ContextDone),
       nl_shutdown = (\<lambda>_. State_Monad.return None), nl_close = State_Monad.return None,
       nl_served = State_Monad.return err_server_closed\<rparr>,
     pl_running = \<lparr>v_get = (\<lambda>_. False), v_put = (\<lambda>_ w. w)\<rparr>\<rparr>"







text \<open>The hash that the user service computes when it is made.\<close>

lemma mem_platform_simps [simp]:
  "px_parse (pl_pgx mem_platform) endpoint = Inr ()" "pl_rand mem_platform = zero_rand"
  "pl_unicode mem_platform = ascii_unicode" "pl_jwt mem_platform = toy_jwt"
  by (simp_all add: mem_platform_def pgx_on_def mem_pgx_def)









end
