(* ===== verification/Diagnostics.thy ===== *)
theory Diagnostics
  imports AssemblyTheorems LocalSpec
begin

text \<open>
  Properties of \<open>Diagnose\<close>: what a good report establishes, and that it leaves nothing behind.
\<close>

section \<open>The storage directory\<close>

definition doctor_file :: "string \<Rightarrow> bool" where
  "doctor_file name \<longleftrightarrow> (\<exists>x. name = ''.goba-doctor-'' @ x)"

text \<open>\<open>os.CreateTemp\<close> picks a name that is not in the directory.\<close>

definition picks_fresh :: "(disk \<Rightarrow> string) \<Rightarrow> bool" where
  "picks_fresh fresh \<longleftrightarrow> (\<forall>d. entry d (''.goba-doctor-'' @ fresh d) = None)"

text \<open>
  Whatever fails, the check touches nothing but its own file; a check that reports success has removed
  it, and when the calls work it reports exactly whether the path is a directory.
\<close>

definition storage_checked :: "bool \<Rightarrow> disk \<Rightarrow> diagnostic_check \<Rightarrow> disk \<Rightarrow> bool" where
  "storage_checked is_dir d r d' \<longleftrightarrow> dg_name r = ''file-storage'' \<and>
     (\<forall>q. \<not> doctor_file q \<longrightarrow> entry d' q = entry d q) \<and>
     (dg_ok r \<longrightarrow> is_dir \<and> entry d' = entry d) \<and>
     (dk_faults d = [] \<longrightarrow> dg_ok r = is_dir \<and> entry d' = entry d)"

lemma check_file_storage_spec:
  assumes "os_faults d" "picks_fresh fresh"
  shows "wp (check_file_storage is_dir fresh path) (storage_checked is_dir d) d"
  unfolding check_file_storage_def wp_rules
proof (rule wp_mono [OF os_nop_spec [OF assms(1)]], goal_cases)
  case (1 i d1)
  have f1: "os_faults d1" "entry d1 = entry d" "dk_faults d = [] \<longrightarrow> dk_faults d1 = []"
    using 1 by (auto simp: quiet_def)
  show ?case
  proof (cases "i \<noteq> Inr () \<or> \<not> is_dir")
    case True
    then show ?thesis using f1 1 by (auto simp: wp_rules storage_checked_def storage_check_def)
  next
    case False
    define name where "name = ''.goba-doctor-'' @ fresh d1"
    have own: "doctor_file name" "entry d name = None"
      using assms(2) [unfolded picks_fresh_def, rule_format, of d1] unfolding name_def f1(2)
      by (auto simp: doctor_file_def)
    have "wp (create_temp name) (\<lambda>t d2. os_faults d2 \<and> (\<forall>q. q \<noteq> name \<longrightarrow> entry d2 q = entry d q) \<and>
        (t = Inr () \<longrightarrow> (\<exists>x. entry d2 name = Some (Regular '''' x))) \<and>
        (dk_faults d = [] \<longrightarrow> t = Inr () \<and> dk_faults d2 = [])) d1"
      unfolding create_temp_def
      by (rule wp_mono [OF syscall_spec [OF f1(1)]]) (use f1 in \<open>auto simp: quiet_def\<close>)
    note temp = this
    have remove: "wp (syscall (os_remove name)) (\<lambda>r d4. (\<forall>q. q \<noteq> name \<longrightarrow> entry d4 q = entry d q) \<and>
        (r = Inr () \<longrightarrow> entry d4 = entry d) \<and> (dk_faults d = [] \<longrightarrow> r = Inr ())) d3"
      if "os_faults d3" "\<forall>q. q \<noteq> name \<longrightarrow> entry d3 q = entry d q" "entry d3 name = Some (Regular '''' x)"
        "dk_faults d = [] \<longrightarrow> dk_faults d3 = []" for d3 x
    proof (rule wp_mono [OF syscall_spec [OF that(1)]], goal_cases)
      case (1 r d4)
      then obtain d5 where d5: "quiet d3 d5"
        "(r, d4) = os_remove name d5 \<or> (\<exists>e. r = Inl e \<and> os_error e \<and> dk_faults d3 \<noteq> [] \<and>
          (d4 = d5 \<or> d4 = snd (os_remove name d5)))" by blast
      have e5: "entry d5 = entry d3" using d5(1) by (simp add: quiet_def)
      then have gone: "os_remove name d5 = (Inr (), drop_node name d5)"
        using that(3) by (simp add: os_remove_def)
      show ?case
        using d5(2) that(2,4) own(2) e5 unfolding gone by (auto simp: fun_eq_iff)
    qed
    show ?thesis
      unfolding if_not_P [OF False] wp_rules name_def [symmetric] Let_def
    proof (rule wp_mono [OF temp], goal_cases)
      case (1 t d2)
      note t = 1
      show ?case
      proof (cases "t = Inr ()")
        case True
        then obtain x where x: "entry d2 name = Some (Regular '''' x)" using t by blast
        have "wp os_nop (\<lambda>c d3. os_faults d3 \<and> entry d3 = entry d2 \<and> (dk_faults d = [] \<longrightarrow> c = Inr () \<and> dk_faults d3 = [])) d2"
          by (rule wp_mono [OF os_nop_spec]) (use t in \<open>auto simp: quiet_def\<close>)
        then show ?thesis
          unfolding if_not_P [OF not_not [THEN iffD2, OF True]] wp_rules
        proof (rule wp_mono, goal_cases)
          case (1 c d3)
          have d3: "os_faults d3" "\<forall>q. q \<noteq> name \<longrightarrow> entry d3 q = entry d q" "entry d3 name = Some (Regular '''' x)"
            "dk_faults d = [] \<longrightarrow> dk_faults d3 = []" using 1 t x by simp_all
          show ?case
            using 1 own False
            by (cases "c = Inr ()")
               (auto simp: wp_rules storage_checked_def storage_check_def intro!: wp_mono [OF remove [OF d3]])
        qed
      next
        case False
        then show ?thesis using t own
          by (auto simp: wp_rules storage_checked_def storage_check_def)
      qed
    qed
  qed
qed

text \<open>
  A platform whose database libraries keep their laws and whose parts are separate: the pools and Redis
  do not touch the disk, and the disk and Redis do not touch the server and the open pools.
\<close>

definition doctor_platform ::
  "('w, 'p, 'c, 'sk, 'pk, 'l) platform \<Rightarrow> config \<Rightarrow> ('w \<Rightarrow> pg_facts) \<Rightarrow> ('w \<Rightarrow> 'p set) \<Rightarrow> nat \<Rightarrow> bool" where
  "doctor_platform PL cfg facts opened n \<longleftrightarrow>
     pgx_laws (pl_pgx PL) facts opened \<and> tern_laws (pl_tern PL) facts n \<and>
     pgx_quiet (pl_pgx PL) opened \<and> tern_quiet (pl_tern PL) opened \<and>
     pgx_quiet (pl_pgx PL) (v_get (pl_disk PL)) \<and> tern_quiet (pl_tern PL) (v_get (pl_disk PL)) \<and>
     (\<forall>pc p. leaves (px_new (pl_pgx PL) pc) (v_get (pl_disk PL)) \<and> leaves (px_close (pl_pgx PL) p) (v_get (pl_disk PL))) \<and>
     (\<forall>rc. rc = pl_redis PL (redis_options_of (cfg_redis cfg)) \<longrightarrow>
       leaves (rc_ping rc) (\<lambda>w. (facts w, opened w, v_get (pl_disk PL) w)) \<and>
       leaves (rc_close rc) (\<lambda>w. (facts w, opened w, v_get (pl_disk PL) w))) \<and>
     (\<forall>x w. v_get (pl_disk PL) (v_put (pl_disk PL) x w) = x \<and> facts (v_put (pl_disk PL) x w) = facts w \<and>
       opened (v_put (pl_disk PL) x w) = opened w)"

lemma inspect_database_leaves:
  assumes "pgx_quiet X f" "tern_quiet T f" "\<And>pc. leaves (px_new X pc) f" "\<And>p. leaves (px_close X p) f"
  shows "leaves (inspect_database X T cfg) f"
proof -
  have "leaves (px_ping X p) f" for p using assms(1) by (simp add: pgx_quiet_def)
  then show ?thesis
    unfolding inspect_database_def open_pool_def
    by (intro leaves_rules assms inspect_leaves [OF assms(1,2)])
qed

definition diagnosed ::
  "config \<Rightarrow> bool \<Rightarrow> ('sk, 'pk) jwt_lib \<Rightarrow> nat \<Rightarrow> pg_facts \<Rightarrow> disk \<Rightarrow> diagnostic_check list \<Rightarrow> disk \<Rightarrow> bool" where
  "diagnosed cfg is_dir J n f d report d' \<longleftrightarrow>
     map dg_name report = [''auth'', ''postgresql'', ''redis''] @ (if m_file (cfg_modules cfg) then [''file-storage''] else []) \<and>
     (if m_file (cfg_modules cfg) then storage_checked is_dir d (report ! 3) d' else d' = d) \<and>
     (report_ok report \<longrightarrow> (\<exists>t. new_tokens J (cfg_auth cfg) = Inr t) \<and> new_enough f \<and>
       pf_schema f = Some (word_of_nat n))"

lemma database_diagnosis_ok:
  "inspected n False f i \<Longrightarrow> dg_ok (database_diagnosis i) \<Longrightarrow> snd i = None \<and> pf_schema f = Some (word_of_nat n)"
  by (auto simp: database_diagnosis_def inspected_def split: if_splits option.splits)

lemma diagnose_spec:
  assumes "doctor_platform PL cfg facts opened n" "picks_fresh fresh" "os_faults (v_get (pl_disk PL) w)"
  shows "wp (diagnose PL is_dir fresh cfg) (\<lambda>report w'. opened w' = opened w \<and> facts w' = facts w \<and>
    diagnosed cfg is_dir (pl_jwt PL) n (facts w) (v_get (pl_disk PL) w) report (v_get (pl_disk PL) w')) w"
proof -
  note dp = assms(1) [unfolded doctor_platform_def]
  define frame where "frame = (\<lambda>w. (facts w, opened w, v_get (pl_disk PL) w))"
  have laws: "pgx_laws (pl_pgx PL) facts opened" "tern_laws (pl_tern PL) facts n" "pgx_quiet (pl_pgx PL) opened"
    "tern_quiet (pl_tern PL) opened" using dp by simp_all
  have ins: "leaves (inspect_database (pl_pgx PL) (pl_tern PL) (cfg_database cfg)) (v_get (pl_disk PL))"
    using dp by (intro inspect_database_leaves) auto
  have redis: "leaves (redis_start (new_redis_component (pl_redis PL) (cfg_redis cfg))) frame"
    "leaves (redis_stop (new_redis_component (pl_redis PL) (cfg_redis cfg))) frame"
    unfolding redis_start_def redis_stop_def new_redis_component_def redis_component.simps
    by (intro leaves_rules; use dp in \<open>simp add: frame_def\<close>)+
  show ?thesis
    unfolding diagnose_def wp_bind Let_def
  proof (rule wp_mono [OF wp_conj [OF leavesD [OF ins] inspect_database_spec [OF laws]]], goal_cases)
    case (1 i w1)
    show ?case
    proof (rule wp_mono [OF leavesD [OF redis(1)]], goal_cases)
      case (1 r w2)
      show ?case
      proof (rule wp_mono [OF leavesD [OF redis(2)]], goal_cases)
        case (1 s w3)
        have w3: "opened w3 = opened w" "facts w3 = facts w" "v_get (pl_disk PL) w3 = v_get (pl_disk PL) w"
          using 1 \<open>frame w2 = frame w1\<close> \<open>v_get (pl_disk PL) w1 = _ \<and> _\<close> by (simp_all add: frame_def)
        have ok: "report_ok ([auth_diagnosis (pl_jwt PL) (cfg_auth cfg), database_diagnosis i, redis_diagnosis r] @ more) \<Longrightarrow>
            (\<exists>t. new_tokens (pl_jwt PL) (cfg_auth cfg) = Inr t) \<and> new_enough (facts w) \<and>
            pf_schema (facts w) = Some (word_of_nat n)" for more
          using \<open>v_get (pl_disk PL) w1 = _ \<and> _\<close> database_diagnosis_ok [of n "facts w" i]
          by (auto simp: report_ok_def auth_diagnosis_def split: sum.splits)
        have names: "dg_name (auth_diagnosis J c) = ''auth''" "dg_name (database_diagnosis i) = ''postgresql''"
          "dg_name (redis_diagnosis r) = ''redis''" for J c
          by (simp_all add: auth_diagnosis_def database_diagnosis_def redis_diagnosis_def split: sum.splits)
        show ?case
        proof (cases "m_file (cfg_modules cfg)")
          case True
          have "wp (check_file_storage is_dir fresh p) (storage_checked is_dir (v_get (pl_disk PL) w)) (v_get (pl_disk PL) w3)" for p
            unfolding w3 by (rule check_file_storage_spec [OF assms(3,2)])
          then show ?thesis
            unfolding if_P [OF True] wp_rules
            by (rule wp_mono) (use dp w3 ok True names in \<open>auto simp: diagnosed_def storage_checked_def\<close>)
        next
          case False
          then show ?thesis using w3 ok [of "[]"] names by (simp add: wp_rules diagnosed_def)
        qed
      qed
    qed
  qed
qed

text \<open>\<open>Diagnose\<close> closes every pool it opens and changes nothing on the server.  Whatever system calls
  fail, it touches no file but its own; a good report means that the keys make a token manager, the
  server is of version 16 or newer with the schema at the last migration, and, with the file module,
  that the storage path is a directory from which the probe file was created and removed again.\<close>

theorem diagnose_sound:
  assumes "doctor_platform PL cfg facts opened n" "picks_fresh fresh" "os_faults (v_get (pl_disk PL) w)"
  shows "wp (diagnose PL is_dir fresh cfg) (\<lambda>report w'. opened w' = opened w \<and> facts w' = facts w \<and>
    (\<forall>q. \<not> doctor_file q \<longrightarrow> entry (v_get (pl_disk PL) w') q = entry (v_get (pl_disk PL) w) q) \<and>
    (report_ok report \<longrightarrow> (\<exists>t. new_tokens (pl_jwt PL) (cfg_auth cfg) = Inr t) \<and> new_enough (facts w) \<and>
      pf_schema (facts w) = Some (word_of_nat n) \<and> entry (v_get (pl_disk PL) w') = entry (v_get (pl_disk PL) w) \<and>
      (m_file (cfg_modules cfg) \<longrightarrow> is_dir))) w"
  by (rule wp_mono [OF diagnose_spec [OF assms]])
     (auto simp: diagnosed_def storage_checked_def report_ok_def list_all_length split: if_splits)

text \<open>A migrated server and an empty storage directory.\<close>

type_synonym mem_doctor = "mem_pg \<times> disk"

definition doctor_mem :: "(mem_doctor, nat, nat, unit, unit, unit) platform" where
  "doctor_mem = \<lparr>
     pl_pgx = pgx_on fst_var mem_pgx, pl_tern = tern_on fst_var mem_tern,
     pl_pool = \<lparr>v_get = (\<lambda>_. None), v_put = (\<lambda>_ w. w)\<rparr>,
     pl_users = (\<lambda>_. \<lparr>db_pool = \<lparr>db_exec = (\<lambda>_. State_Monad.return (Inl err_not_started))\<rparr>,
       db_begin = State_Monad.return (Inl err_not_started)\<rparr>),
     pl_configs = (\<lambda>_. \<lparr>db_pool = \<lparr>db_exec = (\<lambda>_. State_Monad.return (Inl err_not_started))\<rparr>,
       db_begin = State_Monad.return (Inl err_not_started)\<rparr>),
     pl_redis = (\<lambda>_. \<lparr>rc_ping = State_Monad.return (Inr ()), rc_close = State_Monad.return (Inr ())\<rparr>),
     pl_client = (\<lambda>_ cmd. State_Monad.return (Inl (Plain ''connection refused''))),
     pl_disk = snd_var, pl_upload_context = None,
     pl_env = \<lparr>he_auth = \<lparr>ae_unicode = ascii_unicode, ae_uuid = canonical_uuid, ae_jwt = toy_jwt,
         ae_sha256 = (\<lambda>s. s), ae_rand = zero_rand, ae_new_v7 = State_Monad.return 5, ae_new_v4 = State_Monad.return 7\<rparr>,
       he_parsers = sample_parsers, he_frac = (\<lambda>_ _ _. 0), he_detect = (\<lambda>_. '''')\<rparr>,
     pl_idkey = pad_idkey, pl_ids = State_Monad.return (Inr 9), pl_clock = (\<lambda>_. second), pl_gin = mem_gin,
     pl_net = \<lparr>nl_listen = (\<lambda>_. State_Monad.return (Inr ())), nl_serve = (\<lambda>_ _ _. State_Monad.return ContextDone),
       nl_shutdown = (\<lambda>_. State_Monad.return None), nl_close = State_Monad.return None,
       nl_served = State_Monad.return err_server_closed\<rparr>,
     pl_running = \<lparr>v_get = (\<lambda>_. False), v_put = (\<lambda>_ w. w)\<rparr>\<rparr>"

definition longest_name :: "disk \<Rightarrow> string" where
  "longest_name d = replicate (Suc (Max (insert 0 (length ` fst ` set (dk_nodes d))))) CHR ''0''"

lemma longest_name_fresh: "picks_fresh longest_name"
  unfolding picks_fresh_def
proof
  fix d :: disk
  have "length q \<le> Max (insert 0 (length ` fst ` set (dk_nodes d)))" if "q \<in> fst ` set (dk_nodes d)" for q
    using that by (intro Max_ge) auto
  moreover have "Max (insert 0 (length ` fst ` set (dk_nodes d))) < length (''.goba-doctor-'' @ longest_name d)"
    unfolding longest_name_def length_append length_replicate by linarith
  ultimately have "''.goba-doctor-'' @ longest_name d \<notin> fst ` set (dk_nodes d)"
    by (meson not_le)
  then show "entry d (''.goba-doctor-'' @ longest_name d) = None" by (simp only: map_of_eq_None_iff not_False_eq_True)
qed

lemma doctor_mem_platform: "doctor_platform doctor_mem cfg (fst \<circ> fst) ((fst \<circ> snd) \<circ> fst) 4"
proof -
  note laws = mem_component_lawful [unfolded component_lawful_def pgx_laws_def tern_laws_def pgx_quiet_def tern_quiet_def
    reads_def leaves_def comp_def]
  show ?thesis
    unfolding doctor_platform_def pgx_laws_def tern_laws_def pgx_quiet_def tern_quiet_def reads_def leaves_def
    using laws
    by (simp add: doctor_mem_def pgx_on_def tern_on_def wp_rules cong: sum.case_cong option.case_cong)
qed

lemma diagnose_sound_witness:
  "wp (diagnose doctor_mem True longest_name sample_config) (\<lambda>report w'. fst (snd (fst w')) = {7} \<and>
     (report_ok report \<longrightarrow> dk_nodes (snd w') = [] \<or> entry (snd w') = Map.empty))
   ((fresh_pg\<lparr>pf_schema := Some 4\<rparr>, {7}, 8, None), \<lparr>dk_nodes = [], dk_root = False, dk_faults = [], dk_now = 0\<rparr>)"
proof -
  have "os_faults (v_get (pl_disk doctor_mem) ((fresh_pg\<lparr>pf_schema := Some 4\<rparr>, {7}, 8, None),
      \<lparr>dk_nodes = [], dk_root = False, dk_faults = [], dk_now = 0\<rparr>))"
    by (simp add: doctor_mem_def os_faults_def)
  from diagnose_sound [OF doctor_mem_platform longest_name_fresh this, of True sample_config] show ?thesis
    by (rule wp_mono) (auto simp: doctor_mem_def)
qed

end
