(* ===== verification/CliTheorems.thy ===== *)
theory CliTheorems
  imports Cli Diagnostics StartupModule
begin

text \<open>
  Properties of the command line: what \<open>config print\<close> shows does not depend on a secret, what the exit
  status of \<open>doctor\<close> means, and that \<open>user create-admin\<close> creates nothing without a confirmed password.
\<close>

lemma default_dependencies [simp]:
  "dp_load (with_defaults PL P no_dependencies) = Some (load_config (pl_unicode PL) (ps_frac P) (ps_host P))"
  "dp_build (with_defaults PL P no_dependencies) = Some (build_runnable PL)"
  "dp_add_admin (with_defaults PL P no_dependencies) = Some (create_admin PL)"
  "dp_doctor (with_defaults PL P no_dependencies) = Some (diagnose PL (ps_is_dir P) (ps_fresh P))"
  "dp_probe (with_defaults PL P no_dependencies) = Some (probe_readiness (ps_client P))"
  by (simp_all add: with_defaults_def no_dependencies_def or_default_def)

lemmas command_defs = version_command_def config_command_def config_check_command_def serve_command_def
  database_command_def user_command_def

lemma execute_config_print:
  "cobra (new_root PL P C deps) args = Inr (Some ([''config'', ''print''], fs)) \<Longrightarrow>
    execute cobra (new_root PL P C deps) args =
      (let fs' = fs @ config_flags @ [(''redact'', BoolFlag False)]
       in if \<not> bool_flag fs' ''redact'' then State_Monad.return (Inl (Plain ''--redact is needed to print the configuration''))
        else (case load_from_flags (with_defaults PL P deps) fs' of
            Inl e \<Rightarrow> State_Monad.return (Inl (Wrapped ''load configuration'' [e]))
          | Inr cfg \<Rightarrow> cn_print C (ConfigPrinted (new_redacted_config cfg))))"
  by (simp add: execute_def run_command_def, simp add: new_root_def command_defs config_print_command_def Let_def)

lemma execute_doctor:
  "cobra (new_root PL P C deps) args = Inr (Some ([''doctor''], fs)) \<Longrightarrow>
    execute cobra (new_root PL P C deps) args =
      (case load_from_flags (with_defaults PL P deps) (fs @ config_flags) of
          Inl e \<Rightarrow> State_Monad.return (Inl (Wrapped ''check configuration'' [e]))
        | Inr cfg \<Rightarrow> do {
            report \<leftarrow> the (dp_doctor (with_defaults PL P deps)) cfg;
            p \<leftarrow> print_checks C report;
            State_Monad.return (case p of
                Inl e \<Rightarrow> Inl e
              | Inr _ \<Rightarrow> if \<not> report_ok report then Inl (Plain ''doctor found a problem'') else Inr ()) })"
  by (simp add: execute_def run_command_def, simp add: new_root_def command_defs doctor_command_def Let_def)

lemma flag_before: "map_of fs' name \<noteq> None \<Longrightarrow> string_flag (fs @ fs' @ rest) name = string_flag (fs @ fs') name"
  "map_of fs' name \<noteq> None \<Longrightarrow> bool_flag (fs @ fs' @ rest) name = bool_flag (fs @ fs') name"
  by (auto simp: string_flag_def bool_flag_def map_add_def split: option.splits)

lemma load_options_more [simp]: "load_options_of (fs @ config_flags @ rest) = load_options_of (fs @ config_flags)"
  by (simp add: load_options_of_def flag_before config_flags_def [THEN arg_cong, of map_of])

text \<open>The exit status tells whether the command returned an error.\<close>

lemma exit_status:
  assumes "wp (execute cobra (new_root PL P C no_dependencies) args) (\<lambda>r w'. Q w' \<and> (r = Inr () \<longrightarrow> good)) w"
    "\<And>e w'. Q w' \<Longrightarrow> wp (cn_print_error C e) (\<lambda>_. Q) w'"
  shows "wp (goba_main PL P C cobra args) (\<lambda>code w'. code \<in> {0, 1} \<and> Q w' \<and> (code = 0 \<longrightarrow> good)) w"
  unfolding goba_main_def run_main_def wp_rules
  by (rule wp_mono [OF assms(1)]) (auto simp: wp_rules assms(2) split: sum.splits)

section \<open>config print\<close>

text \<open>What is not secret of a configuration: whether a secret is set is not.\<close>

fun hidden :: "secret \<Rightarrow> secret" where
  "hidden (Secret s) = Secret (if s = '''' then '''' else ''x'')"

definition public_part :: "config \<Rightarrow> config" where
  "public_part cfg = cfg\<lparr>
     cfg_database := (cfg_database cfg)\<lparr>d_password := hidden (d_password (cfg_database cfg))\<rparr>,
     cfg_redis := (cfg_redis cfg)\<lparr>r_password := hidden (r_password (cfg_redis cfg))\<rparr>,
     cfg_auth := (cfg_auth cfg)\<lparr>au_private_key := hidden (au_private_key (cfg_auth cfg)), au_verification_keys := []\<rparr>\<rparr>"

lemma secret_string_hidden: "secret_string (hidden s) = secret_string s"
  by (cases s) simp

lemma redacted_public_part: "new_redacted_config (public_part cfg) = new_redacted_config cfg"
  by (simp add: new_redacted_config_def public_part_def redacted_server_of_def redacted_database_of_def redacted_redis_of_def
      redacted_auth_of_def secret_string_hidden)

text \<open>C36: \<open>goba config print\<close> does not depend on a secret: on two machines whose configurations differ only
  in the value of a password, of the private key or of the verification keys, the process behaves the same,
  and without \<open>--redact\<close> it shows no configuration at all.\<close>

theorem config_print_hides_secrets:
  assumes "load_config (pl_unicode PL) (ps_frac P) H (load_options_of (fs @ config_flags)) = Inr cfg"
    "load_config (pl_unicode PL) (ps_frac P) H' (load_options_of (fs @ config_flags)) = Inr cfg'"
    "public_part cfg = public_part cfg'"
    "\<And>root. cobra root args = Inr (Some ([''config'', ''print''], fs))"
  shows "goba_main PL (P\<lparr>ps_host := H\<rparr>) C cobra args = goba_main PL (P\<lparr>ps_host := H'\<rparr>) C cobra args \<and>
    (\<not> bool_flag (fs @ [(''redact'', BoolFlag False)]) ''redact'' \<longrightarrow>
      (\<exists>e. goba_main PL P C cobra args = do { _ \<leftarrow> cn_print_error C e; State_Monad.return 1 }))"
proof -
  have "new_redacted_config cfg = new_redacted_config cfg'"
    using redacted_public_part [of cfg] redacted_public_part [of cfg'] assms(3) by simp
  then have "execute cobra (new_root PL (P\<lparr>ps_host := H\<rparr>) C no_dependencies) args =
      execute cobra (new_root PL (P\<lparr>ps_host := H'\<rparr>) C no_dependencies) args"
    using assms(1,2) by (simp add: execute_config_print [where cobra = cobra, OF assms(4)] load_from_flags_def Let_def)
  moreover have "bool_flag (fs @ config_flags @ [(''redact'', BoolFlag False)]) ''redact'' =
      bool_flag (fs @ [(''redact'', BoolFlag False)]) ''redact''"
    by (simp add: bool_flag_def config_flags_def map_add_def split: option.splits)
  ultimately show ?thesis
    by (auto simp: goba_main_def run_main_def execute_config_print [where cobra = cobra, OF assms(4)] Let_def)
qed

text \<open>A process on the machine in memory, and the machine with another password in the file.\<close>

definition quiet_console :: "'w console" where
  "quiet_console = \<lparr>cn_print = (\<lambda>_. State_Monad.return (Inr ())), cn_print_error = (\<lambda>_. State_Monad.return (Inr ())),
     cn_terminal = False, cn_read_password = State_Monad.return (Inl (Sentinel EOF)),
     cn_read_file = (\<lambda>_. State_Monad.return (Inl (Sentinel NotExist)))\<rparr>"

definition sample_process :: "('w, unit) process" where
  "sample_process = \<lparr>ps_host = sample_host, ps_frac = (\<lambda>_ _ _. 0), ps_is_dir = True, ps_fresh = longest_name,
     ps_client = \<lparr>hc_new_request = (\<lambda>_. Inr ()), hc_get = (\<lambda>_. State_Monad.return (Inr 200))\<rparr>,
     ps_info = \<lparr>bi_version = ''dev'', bi_commit = ''unknown'', bi_build_time = ''unknown'', bi_dirty = ''unknown'',
       bi_go_version = ''go1.26''\<rparr>\<rparr>"

definition sample_cobra :: "string list \<Rightarrow> flags \<Rightarrow> 'w cobra" where
  "sample_cobra path fs = (\<lambda>root args. Inr (Some (path, fs)))"

lemma sample_cobra_chooses: "sample_cobra path fs root args = Inr (Some (path, fs))"
  by (simp add: sample_cobra_def)

definition other_host :: "unit host" where
  "other_host = sample_host\<lparr>h_read := (\<lambda>path. if path = ''/run/pw'' then Inr ''other'' else Inl (Sentinel NotExist))\<rparr>"

definition other_config :: config where
  "other_config = sample_config\<lparr>cfg_database := (cfg_database sample_config)\<lparr>d_password := Secret ''other''\<rparr>\<rparr>"

lemma other_loads: "load_config ascii_unicode (\<lambda>_ _ _. 0) other_host sample_options = Inr other_config"
  by code_simp

lemma redacted_print_options: "load_options_of ([(''redact'', BoolFlag True), (''load-dotenv'', BoolFlag True)] @ config_flags) = sample_options"
  by (simp add: load_options_of_def string_flag_def bool_flag_def config_flags_def sample_options_def)

lemma config_print_hides_secrets_witness:
  "goba_main doctor_mem (sample_process\<lparr>ps_host := sample_host\<rparr>) quiet_console
     (sample_cobra [''config'', ''print''] [(''redact'', BoolFlag True), (''load-dotenv'', BoolFlag True)]) [] =
   goba_main doctor_mem (sample_process\<lparr>ps_host := other_host\<rparr>) quiet_console
     (sample_cobra [''config'', ''print''] [(''redact'', BoolFlag True), (''load-dotenv'', BoolFlag True)]) []"
proof -
  have loads: "load_config (pl_unicode doctor_mem) (ps_frac (sample_process :: (mem_doctor, unit) process)) sample_host
      (load_options_of ([(''redact'', BoolFlag True), (''load-dotenv'', BoolFlag True)] @ config_flags)) = Inr sample_config"
    "load_config (pl_unicode doctor_mem) (ps_frac (sample_process :: (mem_doctor, unit) process)) other_host
      (load_options_of ([(''redact'', BoolFlag True), (''load-dotenv'', BoolFlag True)] @ config_flags)) = Inr other_config"
    unfolding redacted_print_options by (simp_all add: doctor_mem_def sample_process_def sample_loads other_loads)
  have same: "public_part sample_config = public_part other_config"
    by (simp add: public_part_def other_config_def sample_config_def)
  show ?thesis by (rule config_print_hides_secrets [where cobra = "sample_cobra [''config'', ''print''] [(''redact'', BoolFlag True), (''load-dotenv'', BoolFlag True)]",
      OF loads same sample_cobra_chooses, THEN conjunct1])
qed

section \<open>doctor\<close>

lemma print_checks_leaves: "(\<And>x. leaves (cn_print C x) f) \<Longrightarrow> leaves (print_checks C cs) f"
  by (induction cs) (auto intro!: leaves_rules)

text \<open>The streams of the process are not the database or the storage directory.\<close>

definition console_leaves :: "'w console \<Rightarrow> ('w \<Rightarrow> 'f) \<Rightarrow> bool" where
  "console_leaves C f \<longleftrightarrow> (\<forall>x. leaves (cn_print C x) f) \<and> (\<forall>e. leaves (cn_print_error C e) f)"

definition doctor_promise ::
  "('w, 'p, 'c, 'sk, 'pk, 'l) platform \<Rightarrow> ('w, 'd) process \<Rightarrow> flags \<Rightarrow> nat \<Rightarrow> pg_facts \<Rightarrow> bool" where
  "doctor_promise PL P fs n f \<longleftrightarrow>
     (\<exists>cfg. load_config (pl_unicode PL) (ps_frac P) (ps_host P) (load_options_of (fs @ config_flags)) = Inr cfg \<and>
      (\<exists>t. new_tokens (pl_jwt PL) (cfg_auth cfg) = Inr t) \<and> new_enough f \<and> pf_schema f = Some (word_of_nat n) \<and>
      (m_file (cfg_modules cfg) \<longrightarrow> ps_is_dir P))"

text \<open>C35: \<open>goba doctor\<close> closes every pool it opens, changes nothing on the server and, whatever system calls
  fail, touches no file of the storage directory but its own probe file.  Its exit status is 0 or 1, and
  0 means that the configuration was accepted, its keys make a token manager, the server is of version 16
  or newer with the schema at the last migration, and with the file module the storage path is a directory.\<close>

theorem doctor_exit_status:
  assumes "cobra (new_root PL P C no_dependencies) args = Inr (Some ([''doctor''], fs))"
    "\<And>cfg. doctor_platform PL cfg facts opened n" "picks_fresh (ps_fresh P)" "os_faults (v_get (pl_disk PL) w)"
    "console_leaves C (\<lambda>w. (opened w, facts w, v_get (pl_disk PL) w))"
  shows "wp (goba_main PL P C cobra args) (\<lambda>code w'. code \<in> {0, 1} \<and>
    (opened w' = opened w \<and> facts w' = facts w \<and>
     (\<forall>q. \<not> doctor_file q \<longrightarrow> entry (v_get (pl_disk PL) w') q = entry (v_get (pl_disk PL) w) q)) \<and>
    (code = 0 \<longrightarrow> doctor_promise PL P fs n (facts w))) w"
proof (rule exit_status)
  define frame where "frame = (\<lambda>w. (opened w, facts w, v_get (pl_disk PL) w))"
  have C: "leaves (cn_print C x) frame" "leaves (cn_print_error C e) frame" for x e
    using assms(5) by (simp_all add: console_leaves_def frame_def)
  show "wp (cn_print_error C e) (\<lambda>_ w'. opened w' = opened w \<and> facts w' = facts w \<and>
     (\<forall>q. \<not> doctor_file q \<longrightarrow> entry (v_get (pl_disk PL) w') q = entry (v_get (pl_disk PL) w) q)) w1"
    if "opened w1 = opened w \<and> facts w1 = facts w \<and>
     (\<forall>q. \<not> doctor_file q \<longrightarrow> entry (v_get (pl_disk PL) w1) q = entry (v_get (pl_disk PL) w) q)" for e w1
    by (rule wp_mono [OF leavesD [OF C(2)]]) (use that in \<open>simp add: frame_def\<close>)
  show "wp (execute cobra (new_root PL P C no_dependencies) args) (\<lambda>r w'. (opened w' = opened w \<and> facts w' = facts w \<and>
     (\<forall>q. \<not> doctor_file q \<longrightarrow> entry (v_get (pl_disk PL) w') q = entry (v_get (pl_disk PL) w) q)) \<and>
    (r = Inr () \<longrightarrow> doctor_promise PL P fs n (facts w))) w"
  proof (cases "load_from_flags (with_defaults PL P no_dependencies) (fs @ config_flags)")
    case (Inl e)
    then show ?thesis by (simp add: execute_doctor [where cobra = cobra, OF assms(1)] wp_rules)
  next
    case (Inr cfg)
    then have cfg: "load_config (pl_unicode PL) (ps_frac P) (ps_host P) (load_options_of (fs @ config_flags)) = Inr cfg"
      by (simp add: load_from_flags_def)
    have good: "diagnosed cfg (ps_is_dir P) (pl_jwt PL) n f d report d' \<Longrightarrow>
        (report_ok report \<longrightarrow> doctor_promise PL P fs n f) \<and> (\<forall>q. \<not> doctor_file q \<longrightarrow> entry d' q = entry d q)" for f d report d'
      using cfg by (auto simp: doctor_promise_def diagnosed_def storage_checked_def report_ok_def list_all_length split: if_splits)
    show ?thesis
      unfolding execute_doctor [where cobra = cobra, OF assms(1)] Inr sum.case default_dependencies option.sel wp_rules
      by (rule wp_mono [OF diagnose_spec [OF assms(2-4)]])
         (rule wp_mono [OF leavesD [OF print_checks_leaves [OF C(1)]]],
          use good in \<open>fastforce simp: frame_def split: sum.splits if_splits\<close>)
  qed
qed

lemma doctor_exit_status_witness:
  "wp (goba_main doctor_mem sample_process quiet_console (sample_cobra [''doctor''] []) [])
     (\<lambda>code w'. code \<in> {0, 1} \<and> fst (snd (fst w')) = {7})
   ((fresh_pg\<lparr>pf_schema := Some 4\<rparr>, {7}, 8, None), \<lparr>dk_nodes = [], dk_root = False, dk_faults = [], dk_now = 0\<rparr>)"
proof -
  have disk: "os_faults (v_get (pl_disk doctor_mem) ((fresh_pg\<lparr>pf_schema := Some 4\<rparr>, {7}, 8, None),
      \<lparr>dk_nodes = [], dk_root = False, dk_faults = [], dk_now = 0\<rparr>))"
    by (simp add: doctor_mem_def os_faults_def)
  have fresh: "picks_fresh (ps_fresh (sample_process :: (mem_doctor, unit) process))"
    by (simp add: sample_process_def longest_name_fresh)
  have console: "console_leaves quiet_console f" for f :: "mem_doctor \<Rightarrow> 'f"
    by (simp add: console_leaves_def quiet_console_def leaves_def wp_rules)
  show ?thesis
    by (rule wp_mono [OF doctor_exit_status [where cobra = "sample_cobra [''doctor''] []" and facts = "fst \<circ> fst" and
      opened = "(fst \<circ> snd) \<circ> fst" and C = quiet_console, OF sample_cobra_chooses doctor_mem_platform fresh disk console]]) auto
qed

section \<open>user create-admin\<close>

lemma execute_create_admin:
  "cobra (new_root PL P C deps) args = Inr (Some ([''user'', ''create-admin''], fs)) \<Longrightarrow>
    execute cobra (new_root PL P C deps) args = create_admin_run C (with_defaults PL P deps) (fs @ create_admin_flags)"
  by (simp add: execute_def run_command_def, simp add: new_root_def command_defs create_admin_command_def Let_def)

text \<open>At a terminal the two answers differ, or one of them cannot be read.\<close>

definition unconfirmed :: "'w console \<Rightarrow> bool" where
  "unconfirmed C \<longleftrightarrow> (\<forall>w. wp (cn_read_password C) (\<lambda>first. wp (cn_print C PasswordPromptAgain)
     (\<lambda>_. wp (cn_read_password C) (\<lambda>again _. \<forall>s. \<not> (first = Inr s \<and> again = Inr s)))) w)"

lemma ask_password_unconfirmed:
  assumes "unconfirmed C" "console_leaves C f" "leaves (cn_read_password C) f"
  shows "wp (ask_password C) (\<lambda>r w'. f w' = f w \<and> (\<exists>e. r = Inl e)) w"
proof -
  have C: "leaves (cn_print C x) f" for x using assms(2) by (simp add: console_leaves_def)
  have "leaves (ask_password C) f"
    unfolding ask_password_def by (intro leaves_rules C assms(3))
  moreover have "wp (ask_password C) (\<lambda>r _. \<exists>e. r = Inl e) w"
    unfolding ask_password_def wp_rules
  proof (rule wp_mono [OF wp_True], goal_cases)
    case (1 p w1)
    show ?case
    proof (cases p)
      case (Inr u)
      have "wp (cn_read_password C) (\<lambda>first. wp (cn_print C PasswordPromptAgain)
        (\<lambda>_. wp (cn_read_password C) (\<lambda>again _. \<forall>s. \<not> (first = Inr s \<and> again = Inr s)))) w1"
        using assms(1) by (simp add: unconfirmed_def)
      then show ?thesis
        unfolding Inr sum.case wp_rules
        by (rule wp_mono) (auto simp: wp_rules wp_def split: sum.splits prod.splits)
    qed (simp add: wp_rules)
  qed
  ultimately show ?thesis by (simp add: leaves_def wp_conj)
qed

text \<open>\<open>goba user create-admin\<close> without a password file fails and changes nothing beside the console, unless
  the input is a terminal at which the same password was given twice.\<close>

theorem unconfirmed_admin_refused:
  assumes "cobra (new_root PL P C no_dependencies) args = Inr (Some ([''user'', ''create-admin''], fs))"
    "string_flag fs ''password-file'' = ''''" "cn_terminal C \<longrightarrow> unconfirmed C"
    "console_leaves C f" "leaves (cn_read_password C) f"
  shows "wp (goba_main PL P C cobra args) (\<lambda>code w'. code = 1 \<and> f w' = f w) w"
proof -
  have path: "string_flag (fs @ create_admin_flags) ''password-file'' = ''''"
    using assms(2) by (auto simp: create_admin_flags_def string_flag_def config_flags_def map_add_def split: option.splits)
  have read: "wp (read_admin_password C '''') (\<lambda>r w'. f w' = f w \<and> (\<exists>e. r = Inl e)) w"
    using ask_password_unconfirmed [OF _ assms(4,5)] assms(3) by (auto simp: read_admin_password_def wp_rules)
  have "wp (execute cobra (new_root PL P C no_dependencies) args) (\<lambda>r w'. f w' = f w \<and> (\<exists>e. r = Inl e)) w"
  proof (cases "load_from_flags (with_defaults PL P no_dependencies) (fs @ create_admin_flags)")
    case (Inl e)
    then show ?thesis by (simp add: execute_create_admin [where cobra = cobra, OF assms(1)] create_admin_run_def wp_rules)
  next
    case (Inr cfg)
    show ?thesis
      unfolding execute_create_admin [where cobra = cobra, OF assms(1)] create_admin_run_def Inr sum.case path wp_bind
      by (rule wp_mono [OF read]) (auto simp: wp_rules)
  qed
  then show ?thesis
    unfolding goba_main_def run_main_def wp_rules
    by (rule wp_mono) (use assms(4) in \<open>auto simp: wp_rules console_leaves_def dest!: spec intro!: wp_mono [OF leavesD]\<close>)
qed

end
