(* ===== verification/Devtool.thy ===== *)
theory Devtool
  imports Assembly
begin

text \<open>
  The developer tool \<open>tools/devtool/main.go\<close>, which prepares a working copy: the local configuration, the
  signing key and the file \<open>.env\<close>.

  The working copy is a map from cleaned paths to what is there, and every call on it may fail, before or
  after it has taken effect, a write after any number of bytes.  Folders that \<open>MkdirAll\<close> adds are not
  recorded; a missing folder is a failing call.  Key generation and the PKCS#8, PKIX and PEM encoders, the
  random source, git, the clock and the output are fields of \<open>dev_env\<close>; package \<open>flag\<close> is modelled.
\<close>

section \<open>The working copy\<close>

datatype item = Folder | File string nat

record workspace =
  ws_items :: "(string \<times> item) list"
  ws_faults :: "fault option list"

abbreviation item_at :: "workspace \<Rightarrow> string \<Rightarrow> item option" where
  "item_at d p \<equiv> map_of (ws_items d) (path_clean p)"

definition ws_next :: "workspace \<Rightarrow> fault option \<times> workspace" where
  "ws_next d = (case ws_faults d of [] \<Rightarrow> (None, d) | x # xs \<Rightarrow> (x, d\<lparr>ws_faults := xs\<rparr>))"

definition ws_call :: "(workspace \<Rightarrow> (err + 'a) \<times> workspace) \<Rightarrow> (workspace, err + 'a) state" where
  "ws_call f = do {
     d \<leftarrow> State_Monad.get;
     case ws_next d of
       (None, d1) \<Rightarrow> do { _ \<leftarrow> State_Monad.set (snd (f d1)); State_Monad.return (fst (f d1)) }
     | (Some x, d1) \<Rightarrow> do {
         _ \<leftarrow> State_Monad.set (if f_done x then snd (f d1) else d1);
         State_Monad.return (Inl (f_error x)) } }"

definition put_item :: "string \<Rightarrow> item \<Rightarrow> workspace \<Rightarrow> workspace" where
  "put_item p i d = d\<lparr>ws_items := AList.update (path_clean p) i (ws_items d)\<rparr>"

definition drop_item :: "string \<Rightarrow> workspace \<Rightarrow> workspace" where
  "drop_item p d = d\<lparr>ws_items := AList.delete (path_clean p) (ws_items d)\<rparr>"

text \<open>\<open>os.OpenFile\<close> with \<open>O_CREATE|O_EXCL\<close>: \<open>False\<close> stands for \<open>os.ErrExist\<close>.\<close>

definition open_exclusive :: "string \<Rightarrow> nat \<Rightarrow> (workspace, err + bool) state" where
  "open_exclusive p mode = ws_call (\<lambda>d. case item_at d p of
      None \<Rightarrow> (Inr True, put_item p (File '''' mode) d)
    | Some _ \<Rightarrow> (Inr False, d))"

definition append_to :: "string \<Rightarrow> string \<Rightarrow> workspace \<Rightarrow> workspace" where
  "append_to p bs d = (case item_at d p of Some (File c mode) \<Rightarrow> put_item p (File (c @ bs) mode) d | _ \<Rightarrow> d)"

definition write_bytes :: "string \<Rightarrow> string \<Rightarrow> (workspace, err + unit) state" where
  "write_bytes p bs = do {
     d \<leftarrow> State_Monad.get;
     case ws_next d of
       (None, d1) \<Rightarrow> do { _ \<leftarrow> State_Monad.set (append_to p bs d1); State_Monad.return (Inr ()) }
     | (Some x, d1) \<Rightarrow> do {
         _ \<leftarrow> State_Monad.set (append_to p (take (f_bytes x) bs) d1);
         State_Monad.return (Inl (f_error x)) } }"

definition ws_nop :: "(workspace, err + unit) state" where
  "ws_nop = ws_call (\<lambda>d. (Inr (), d))"

definition remove_item :: "string \<Rightarrow> (workspace, err + unit) state" where
  "remove_item p = ws_call (\<lambda>d. case item_at d p of
      None \<Rightarrow> (Inl (Sentinel NotExist), d)
    | Some _ \<Rightarrow> (Inr (), drop_item p d))"

definition read_item :: "string \<Rightarrow> (workspace, err + string) state" where
  "read_item p = ws_call (\<lambda>d. (case item_at d p of
      None \<Rightarrow> Inl (Sentinel NotExist) | Some Folder \<Rightarrow> Inl (Plain ''is a directory'') | Some (File c _) \<Rightarrow> Inr c, d))"

definition stat_item :: "string \<Rightarrow> (workspace, err + item) state" where
  "stat_item p = ws_call (\<lambda>d. (case item_at d p of None \<Rightarrow> Inl (Sentinel NotExist) | Some i \<Rightarrow> Inr i, d))"

definition mkdir_all :: "string \<Rightarrow> (workspace, err + unit) state" where
  "mkdir_all p = ws_nop"

text \<open>\<open>filepath.Join\<close>\<close>

definition join_path :: "string \<Rightarrow> string \<Rightarrow> string" where
  "join_path root p = path_clean (if root = '''' then p else root @ ''/'' @ p)"

section \<open>The environment of the tool\<close>

datatype tool_line =
  PrivateKeyWritten string | PublicKeyWritten string | PublicKeyExported string | ToolText string
  | Kept string | Created string | SetupDone

record ('sk, 'pk) dev_env =
  de_rand :: "workspace rand_read"
  de_generate :: "(workspace, err + 'sk) state"
  de_pkcs8 :: "'sk \<Rightarrow> err + string"
  de_pkix :: "'pk \<Rightarrow> err + string"
  de_pem :: "string \<Rightarrow> string \<Rightarrow> string"
  de_jwt :: "('sk, 'pk) jwt_lib"
  de_print :: "tool_line \<Rightarrow> (workspace, err + unit) state"
  de_now :: "(workspace, string) state"
  de_git :: "(workspace, err + string) state"
  de_unicode :: unicode
  de_windows :: bool

definition default_private_key_path :: string where
  "default_private_key_path = ''configs/auth-private.local.pem''"

section \<open>Files\<close>

text \<open>\<open>True\<close>: the file was created; \<open>False\<close>: it was there.\<close>

definition write_exclusive :: "string \<Rightarrow> string \<Rightarrow> nat \<Rightarrow> (workspace, err + bool) state" where
  "write_exclusive path content mode = do {
     f \<leftarrow> open_exclusive path mode;
     case f of
       Inl e \<Rightarrow> State_Monad.return (Inl e)
     | Inr created \<Rightarrow>
         if \<not> created then State_Monad.return (Inr False)
         else do {
           r \<leftarrow> write_bytes path content;
           case r of
             Inl e \<Rightarrow> do { _ \<leftarrow> ws_nop; _ \<leftarrow> remove_item path; State_Monad.return (Inl e) }
           | Inr _ \<Rightarrow> do {
               c \<leftarrow> ws_nop;
               case c of
                 Inl e \<Rightarrow> do { _ \<leftarrow> remove_item path; State_Monad.return (Inl e) }
               | Inr _ \<Rightarrow> State_Monad.return (Inr True) } } }"

definition copy_if_missing :: "string \<Rightarrow> string \<Rightarrow> nat \<Rightarrow> (workspace, err + bool) state" where
  "copy_if_missing source target mode = do {
     r \<leftarrow> read_item source;
     case r of Inl e \<Rightarrow> State_Monad.return (Inl e) | Inr content \<Rightarrow> write_exclusive target content mode }"

definition random_hex :: "('sk, 'pk) dev_env \<Rightarrow> nat \<Rightarrow> (workspace, err + string) state" where
  "random_hex E n = do {
     r \<leftarrow> de_rand E n;
     State_Monad.return (case r of Inl e \<Rightarrow> Inl e | Inr bs \<Rightarrow> Inr (hex_encode bs)) }"

definition local_env_text :: "string \<Rightarrow> string \<Rightarrow> string" where
  "local_env_text database_password redis_password =
     concat (map (\<lambda>line. line @ [CHR 10]) [''GOBA_APP_ENVIRONMENT=development'', ''GOBA_SERVER_HOST=0.0.0.0'', ''GOBA_SERVER_PORT=8000'',
       ''GOBA_DATABASE_PASSWORD='' @ database_password, ''GOBA_REDIS_PASSWORD='' @ redis_password,
       ''GOBA_AUTH_PRIVATE_KEY_FILE='' @ default_private_key_path])"

definition create_local_env :: "('sk, 'pk) dev_env \<Rightarrow> string \<Rightarrow> (workspace, err + bool) state" where
  "create_local_env E path = do {
     a \<leftarrow> random_hex E 32;
     case a of
       Inl e \<Rightarrow> State_Monad.return (Inl (Wrapped ''generate database password'' [e]))
     | Inr database_password \<Rightarrow> do {
         b \<leftarrow> random_hex E 32;
         case b of
           Inl e \<Rightarrow> State_Monad.return (Inl (Wrapped ''generate Redis password'' [e]))
         | Inr redis_password \<Rightarrow> do {
             r \<leftarrow> write_exclusive path (local_env_text database_password redis_password) 384;
             State_Monad.return (case r of Inl e \<Rightarrow> Inl (Wrapped ''create .env'' [e]) | Inr created \<Rightarrow> Inr created) } } }"

section \<open>Keys\<close>

definition refused_overwrite :: "string \<Rightarrow> string \<Rightarrow> err" where
  "refused_overwrite what path = Plain (what @ '' exists and is not overwritten: '' @ path)"

definition write_public_key :: "('sk, 'pk) dev_env \<Rightarrow> string \<Rightarrow> string \<Rightarrow> 'sk \<Rightarrow> (workspace, err + unit) state" where
  "write_public_key E private_path public_path key = do {
     m \<leftarrow> mkdir_all public_path;
     case m of
       Inl e \<Rightarrow> do { _ \<leftarrow> remove_item private_path; State_Monad.return (Inl (Wrapped ''create public key directory'' [e])) }
     | Inr _ \<Rightarrow>
         (case de_pkix E (public_of (de_jwt E) key) of
            Inl e \<Rightarrow> do { _ \<leftarrow> remove_item private_path; State_Monad.return (Inl (Wrapped ''encode public key'' [e])) }
          | Inr der \<Rightarrow> do {
              r \<leftarrow> write_exclusive public_path (de_pem E ''PUBLIC KEY'' der) 420;
              case r of
                Inl e \<Rightarrow> do { _ \<leftarrow> remove_item private_path; State_Monad.return (Inl (Wrapped ''create public key file'' [e])) }
              | Inr created \<Rightarrow>
                  if \<not> created then do {
                    _ \<leftarrow> remove_item private_path;
                    State_Monad.return (Inl (refused_overwrite ''public key file'' public_path)) }
                  else State_Monad.return (Inr ()) }) }"

definition generate_key_pair :: "('sk, 'pk) dev_env \<Rightarrow> string \<Rightarrow> string \<Rightarrow> (workspace, err + unit) state" where
  "generate_key_pair E private_path public_path = do {
     m \<leftarrow> mkdir_all private_path;
     case m of
       Inl e \<Rightarrow> State_Monad.return (Inl (Wrapped ''create private key directory'' [e]))
     | Inr _ \<Rightarrow> do {
         g \<leftarrow> de_generate E;
         case g of
           Inl e \<Rightarrow> State_Monad.return (Inl (Wrapped ''generate private key'' [e]))
         | Inr key \<Rightarrow>
             (case de_pkcs8 E key of
                Inl e \<Rightarrow> State_Monad.return (Inl (Wrapped ''encode private key'' [e]))
              | Inr der \<Rightarrow> do {
                  r \<leftarrow> write_exclusive private_path (de_pem E ''PRIVATE KEY'' der) 384;
                  case r of
                    Inl e \<Rightarrow> State_Monad.return (Inl (Wrapped ''create private key file'' [e]))
                  | Inr created \<Rightarrow>
                      if \<not> created then State_Monad.return (Inl (refused_overwrite ''private key file'' private_path))
                      else if public_path = '''' then State_Monad.return (Inr ())
                      else write_public_key E private_path public_path key }) } }"

definition export_public_key :: "('sk, 'pk) dev_env \<Rightarrow> string \<Rightarrow> string \<Rightarrow> (workspace, err + unit) state" where
  "export_public_key E private_path public_path = do {
     r \<leftarrow> read_item private_path;
     case r of
       Inl e \<Rightarrow> State_Monad.return (Inl (Wrapped ''read private key'' [e]))
     | Inr content \<Rightarrow>
         (case pem_decode (de_jwt E) content of
            None \<Rightarrow> State_Monad.return (Inl (Plain ''not an Ed25519 PKCS#8 PEM''))
          | Some (block, left) \<Rightarrow>
              if left \<noteq> '''' then State_Monad.return (Inl (Plain ''not an Ed25519 PKCS#8 PEM''))
              else (case pkcs8_parse (de_jwt E) block of
                  None \<Rightarrow> State_Monad.return (Inl (Plain ''not an Ed25519 PKCS#8 PEM''))
                | Some (Ed25519Private key) \<Rightarrow>
                    (case de_pkix E (public_of (de_jwt E) key) of
                       Inl e \<Rightarrow> State_Monad.return (Inl (Wrapped ''encode public key'' [e]))
                     | Inr der \<Rightarrow> do {
                         m \<leftarrow> mkdir_all public_path;
                         case m of
                           Inl e \<Rightarrow> State_Monad.return (Inl (Wrapped ''create public key directory'' [e]))
                         | Inr _ \<Rightarrow> do {
                             w \<leftarrow> write_exclusive public_path (de_pem E ''PUBLIC KEY'' der) 420;
                             State_Monad.return (case w of
                                 Inl e \<Rightarrow> Inl (Wrapped ''create public key file'' [e])
                               | Inr created \<Rightarrow>
                                   if \<not> created then Inl (refused_overwrite ''public key file'' public_path) else Inr ()) } })
                | Some _ \<Rightarrow> State_Monad.return (Inl (Plain ''not an Ed25519 private key'')))) }"

section \<open>Commands\<close>

definition report_status :: "('sk, 'pk) dev_env \<Rightarrow> string \<Rightarrow> bool \<Rightarrow> (workspace, err + unit) state" where
  "report_status E path created = de_print E (if created then Created path else Kept path)"

definition setup_key :: "('sk, 'pk) dev_env \<Rightarrow> string \<Rightarrow> (workspace, err + bool) state" where
  "setup_key E path = do {
     i \<leftarrow> stat_item path;
     case i of
       Inl e \<Rightarrow>
         if err_is NotExist e then do {
           g \<leftarrow> generate_key_pair E path '''';
           State_Monad.return (case g of Inl e \<Rightarrow> Inl e | Inr _ \<Rightarrow> Inr True) }
         else State_Monad.return (Inl (Wrapped ''check private key file'' [e]))
     | Inr _ \<Rightarrow> State_Monad.return (Inr False) }"

definition setup_workspace :: "('sk, 'pk) dev_env \<Rightarrow> string \<Rightarrow> (workspace, err + unit) state" where
  "setup_workspace E root = do {
     let config_path = join_path root ''configs/config.local.yaml'';
     c \<leftarrow> copy_if_missing (join_path root ''configs/config.example.yaml'') config_path 384;
     case c of
       Inl e \<Rightarrow> State_Monad.return (Inl (Wrapped ''create local YAML'' [e]))
     | Inr config_created \<Rightarrow> do {
         let key_path = join_path root default_private_key_path;
         k \<leftarrow> setup_key E key_path;
         case k of
           Inl e \<Rightarrow> State_Monad.return (Inl e)
         | Inr key_created \<Rightarrow> do {
             v \<leftarrow> create_local_env E (join_path root ''.env'');
             case v of
               Inl e \<Rightarrow> State_Monad.return (Inl e)
             | Inr env_created \<Rightarrow> do {
                 _ \<leftarrow> report_status E config_path config_created;
                 _ \<leftarrow> report_status E key_path key_created;
                 _ \<leftarrow> report_status E (join_path root ''.env'') env_created;
                 de_print E SetupDone } } } }"

text \<open>\<open>FlagSet.Parse\<close> for flags that all take a string.\<close>

fun parse_flags :: "string list \<Rightarrow> string list \<Rightarrow> err + (string \<times> string) list" where
  "parse_flags names [] = Inr []"
| "parse_flags names (s # args) =
     (if length s < 2 \<or> hd s \<noteq> CHR ''-'' \<or> s = ''--'' then Inr []
      else
        let word = (if s ! 1 = CHR ''-'' then drop 2 s else drop 1 s);
            (name, given) = (case cut CHR ''='' word of None \<Rightarrow> (word, None) | Some (n, v) \<Rightarrow> (n, Some v))
        in if word = '''' \<or> hd word = CHR ''-'' \<or> hd word = CHR ''='' then Inl (Plain (''bad flag syntax: '' @ s))
           else if name \<notin> set names then Inl (Plain (''flag provided but not defined: -'' @ name))
           else (case (given, args) of
               (Some v, _) \<Rightarrow> map_sum id (\<lambda>fs. fs @ [(name, v)]) (parse_flags names args)
             | (None, v # args') \<Rightarrow> map_sum id (\<lambda>fs. fs @ [(name, v)]) (parse_flags names args')
             | (None, []) \<Rightarrow> Inl (Plain (''flag needs an argument: -'' @ name))))"

text \<open>The value of a flag: the last one given, or the default.\<close>

definition flag_or :: "(string \<times> string) list \<Rightarrow> string \<Rightarrow> string \<Rightarrow> string" where
  "flag_or fs name d = (case map_of fs name of None \<Rightarrow> d | Some v \<Rightarrow> v)"

definition keygen_command :: "('sk, 'pk) dev_env \<Rightarrow> string list \<Rightarrow> (workspace, err + unit) state" where
  "keygen_command E args =
     (case parse_flags [''output'', ''public-output''] args of
        Inl e \<Rightarrow> State_Monad.return (Inl (Wrapped ''parse keygen arguments'' [e]))
      | Inr fs \<Rightarrow> do {
          let path = flag_or fs ''output'' default_private_key_path;
          let public_path = flag_or fs ''public-output'' '''';
          g \<leftarrow> generate_key_pair E path public_path;
          case g of
            Inl e \<Rightarrow> State_Monad.return (Inl e)
          | Inr _ \<Rightarrow> do {
              p \<leftarrow> de_print E (PrivateKeyWritten path);
              if p = Inr () \<and> public_path \<noteq> '''' then de_print E (PublicKeyWritten public_path)
              else State_Monad.return p } })"

definition public_key_command :: "('sk, 'pk) dev_env \<Rightarrow> string list \<Rightarrow> (workspace, err + unit) state" where
  "public_key_command E args =
     (case parse_flags [''private'', ''output''] args of
        Inl e \<Rightarrow> State_Monad.return (Inl (Wrapped ''parse public-key arguments'' [e]))
      | Inr fs \<Rightarrow> do {
          let public_path = flag_or fs ''output'' '''';
          if public_path = '''' then State_Monad.return (Inl (Plain ''public-key needs --output''))
          else do {
            x \<leftarrow> export_public_key E (flag_or fs ''private'' default_private_key_path) public_path;
            case x of
              Inl e \<Rightarrow> State_Monad.return (Inl e)
            | Inr _ \<Rightarrow> de_print E (PublicKeyExported public_path) } })"

definition binary_name :: "('sk, 'pk) dev_env \<Rightarrow> string \<Rightarrow> string" where
  "binary_name E name = (if de_windows E then name @ ''.exe'' else name)"

definition devtool_run :: "('sk, 'pk) dev_env \<Rightarrow> string list \<Rightarrow> (workspace, err + unit) state" where
  "devtool_run E args =
     (case args of
        [] \<Rightarrow> State_Monad.return (Inl (Plain ''usage''))
      | c # rest \<Rightarrow>
          if c = ''setup'' then
            (case parse_flags [''root''] rest of
               Inl e \<Rightarrow> State_Monad.return (Inl (Wrapped ''parse setup arguments'' [e]))
             | Inr fs \<Rightarrow> setup_workspace E (flag_or fs ''root'' ''.''))
          else if c = ''keygen'' then keygen_command E rest
          else if c = ''public-key'' then public_key_command E rest
          else if c = ''build-time'' then do { t \<leftarrow> de_now E; de_print E (ToolText t) }
          else if c = ''dirty'' then do {
            g \<leftarrow> de_git E;
            case g of
              Inl e \<Rightarrow> State_Monad.return (Inl (Wrapped ''check Git working copy'' [e]))
            | Inr status \<Rightarrow> de_print E (ToolText (if trim_space (de_unicode E) status \<noteq> '''' then ''true'' else ''false'')) }
          else if c = ''binary-path'' then de_print E (ToolText (binary_name E ''bin/goba''))
          else if c = ''pgo-binary-path'' then de_print E (ToolText (binary_name E ''bin/goba-pgo''))
          else if c = ''pgo-profile-exists'' then do {
            i \<leftarrow> stat_item ''default.pgo'';
            State_Monad.return (case i of
                Inl e \<Rightarrow> Inl e
              | Inr Folder \<Rightarrow> Inl (Plain ''default.pgo is not a file'')
              | Inr (File _ _) \<Rightarrow> Inr ()) }
          else State_Monad.return (Inl (Plain (''unknown command '' @ c))))"

end
