(* ===== verification/DevtoolTheorems.thy ===== *)
theory DevtoolTheorems
  imports Devtool
begin

text \<open>
  Properties of the developer tool: it never touches a file that is there, and what \<open>setup\<close> writes is what
  the configuration loader and the key loader read.
\<close>

section \<open>Calls on the working copy\<close>

abbreviation at_path :: "workspace \<Rightarrow> string \<Rightarrow> item option" where
  "at_path d q \<equiv> map_of (ws_items d) q"

definition keeps :: "workspace \<Rightarrow> workspace \<Rightarrow> bool" where
  "keeps d d' \<longleftrightarrow> (\<forall>q i. at_path d q = Some i \<longrightarrow> at_path d' q = Some i)"

lemma keeps_refl: "ws_items d' = ws_items d \<Longrightarrow> keeps d d'"
  by (simp add: keeps_def)

lemma keeps_trans: "keeps d d1 \<Longrightarrow> keeps d1 d2 \<Longrightarrow> keeps d d2"
  by (simp add: keeps_def)

text \<open>Only what was not there has changed, at \<open>q\<close>.\<close>

definition only_new :: "string \<Rightarrow> workspace \<Rightarrow> workspace \<Rightarrow> bool" where
  "only_new q d d' \<longleftrightarrow> at_path d q = None \<and> (\<forall>x. x \<noteq> q \<longrightarrow> at_path d' x = at_path d x)"

lemma only_new_keeps: "only_new q d d' \<Longrightarrow> keeps d d'"
  unfolding only_new_def keeps_def by (metis option.distinct(1))

lemma at_put_item [simp]: "at_path (put_item p i d) = (at_path d)(path_clean p \<mapsto> i)"
  by (simp add: put_item_def update_conv' fun_eq_iff)

lemma at_drop_item [simp]: "at_path (drop_item p d) = (at_path d)(path_clean p := None)"
  by (simp add: drop_item_def delete_conv' fun_eq_iff)

lemma ws_next_items: "ws_next d = (x, d1) \<Longrightarrow> ws_items d1 = ws_items d"
  by (auto simp: ws_next_def split: list.splits)

lemma ws_call_spec:
  "wp (ws_call f) (\<lambda>r d'. \<exists>d1. ws_items d1 = ws_items d \<and>
     ((r, d') = f d1 \<or> (\<exists>e. r = Inl e \<and> (d' = d1 \<or> d' = snd (f d1))))) d"
proof -
  obtain x d1 where n: "ws_next d = (x, d1)" by (cases "ws_next d")
  show ?thesis
    using ws_next_items [OF n] by (cases x) (auto simp: ws_call_def wp_rules n)
qed

lemma ws_nop_spec: "wp ws_nop (\<lambda>r d'. ws_items d' = ws_items d) d"
  unfolding ws_nop_def by (rule wp_mono [OF ws_call_spec]) auto

lemma read_item_spec: "wp (read_item p) (\<lambda>r d'. ws_items d' = ws_items d) d"
  unfolding read_item_def by (rule wp_mono [OF ws_call_spec]) auto

lemma stat_item_spec: "wp (stat_item p) (\<lambda>r d'. ws_items d' = ws_items d \<and>
    (\<forall>i. r = Inr i \<longrightarrow> at_path d (path_clean p) = Some i)) d"
  unfolding stat_item_def by (rule wp_mono [OF ws_call_spec]) (auto split: option.splits)

lemma open_exclusive_spec:
  "wp (open_exclusive p mode) (\<lambda>r d'. case r of
     Inr True \<Rightarrow> only_new (path_clean p) d d' \<and> at_path d' (path_clean p) = Some (File '''' mode)
   | Inr False \<Rightarrow> ws_items d' = ws_items d \<and> at_path d (path_clean p) \<noteq> None
   | Inl _ \<Rightarrow> keeps d d') d"
  unfolding open_exclusive_def
  by (rule wp_mono [OF ws_call_spec])
     (auto simp: only_new_def keeps_def split: option.splits sum.splits bool.splits)

lemma write_bytes_spec:
  assumes "only_new (path_clean p) d0 d" "at_path d (path_clean p) = Some (File '''' mode)"
  shows "wp (write_bytes p bs) (\<lambda>r d'. only_new (path_clean p) d0 d' \<and>
    (r = Inr () \<longrightarrow> at_path d' (path_clean p) = Some (File bs mode))) d"
proof -
  obtain x d1 where n: "ws_next d = (x, d1)" by (cases "ws_next d")
  show ?thesis
    using assms ws_next_items [OF n]
    by (cases x) (auto simp: write_bytes_def append_to_def wp_rules n only_new_def)
qed

lemma remove_item_spec:
  assumes "at_path d0 (path_clean p) = None" "keeps d0 d"
  shows "wp (remove_item p) (\<lambda>r d'. keeps d0 d') d"
  unfolding remove_item_def
  by (rule wp_mono [OF ws_call_spec]) (use assms in \<open>auto simp: keeps_def split: option.splits\<close>)

section \<open>Files\<close>

lemma write_exclusive_spec:
  "wp (write_exclusive p content mode) (\<lambda>r d'. keeps d d' \<and> (case r of
     Inr True \<Rightarrow> at_path d (path_clean p) = None \<and> at_path d' (path_clean p) = Some (File content mode)
   | Inr False \<Rightarrow> at_path d (path_clean p) \<noteq> None
   | Inl _ \<Rightarrow> True)) d"
  unfolding write_exclusive_def wp_bind
proof (rule wp_mono [OF open_exclusive_spec], goal_cases)
  case (1 f d1)
  define post where "post = (\<lambda>r d'. keeps d d' \<and> (case r of
     Inr True \<Rightarrow> at_path d (path_clean p) = None \<and> at_path d' (path_clean p) = Some (File content mode)
   | Inr False \<Rightarrow> at_path d (path_clean p) \<noteq> None
   | Inl (_ :: err) \<Rightarrow> True))"
  show ?case
  proof (cases "f = Inr True")
    case True
    then have d1: "only_new (path_clean p) d d1" "at_path d1 (path_clean p) = Some (File '''' mode)"
      and new: "at_path d (path_clean p) = None"
      using 1 by (simp_all add: only_new_def)
    have undo: "wp (remove_item p) (\<lambda>_ d'. post (Inl e) d') d2" if "keeps d d2" for e d2
      by (rule wp_mono [OF remove_item_spec [OF new that]]) (simp add: post_def)
    show ?thesis
      unfolding True sum.case not_True_eq_False if_False wp_bind post_def [symmetric]
    proof (rule wp_mono [OF write_bytes_spec [OF d1]], goal_cases)
      case (1 r d2)
      then have d2: "keeps d d2" by (blast intro: only_new_keeps)
      show ?case
      proof (cases r)
        case (Inl e)
        show ?thesis
          unfolding Inl sum.case wp_rules
          by (rule wp_mono [OF ws_nop_spec]) (use undo keeps_trans [OF d2 keeps_refl] in blast)
      next
        case (Inr u)
        show ?thesis
          unfolding Inr sum.case wp_rules
        proof (rule wp_mono [OF ws_nop_spec], goal_cases)
          case (1 c d3)
          then have d3: "keeps d d3" by (rule keeps_trans [OF d2 keeps_refl])
          show ?case
            using undo [OF d3] d3 1 \<open>only_new (path_clean p) d d2 \<and> _\<close> Inr new
            by (cases c) (simp_all add: wp_rules post_def)
        qed
      qed
    qed
  qed (use 1 in \<open>auto simp: wp_rules keeps_refl split: sum.splits bool.splits\<close>)
qed

lemma write_exclusive_after:
  assumes "keeps d0 d"
  shows "wp (write_exclusive p content mode) (\<lambda>r d'. keeps d0 d' \<and> keeps d d' \<and>
    (r = Inr True \<longrightarrow> at_path d (path_clean p) = None \<and> at_path d' (path_clean p) = Some (File content mode)) \<and>
    (r = Inr False \<longrightarrow> at_path d (path_clean p) \<noteq> None)) d"
  by (rule wp_mono [OF write_exclusive_spec])
     (use keeps_trans [OF assms] in \<open>auto split: sum.splits bool.splits\<close>)

section \<open>Keys\<close>

text \<open>The random source, the key generator, the output, the clock and git are not files of the working copy.\<close>

definition dev_quiet :: "('sk, 'pk) dev_env \<Rightarrow> bool" where
  "dev_quiet E \<longleftrightarrow> (\<forall>n. leaves (de_rand E n) ws_items) \<and> leaves (de_generate E) ws_items \<and>
     (\<forall>x. leaves (de_print E x) ws_items) \<and> leaves (de_now E) ws_items \<and> leaves (de_git E) ws_items"

lemma keeps_same: "keeps d0 d \<Longrightarrow> ws_items d' = ws_items d \<Longrightarrow> keeps d0 d'"
  by (simp add: keeps_def)

lemma keeps_None: "keeps d d' \<Longrightarrow> at_path d' q = None \<Longrightarrow> at_path d q = None"
  unfolding keeps_def by (metis option.collapse)

lemma keepsD: "keeps d d' \<Longrightarrow> at_path d q = Some i \<Longrightarrow> at_path d' q = Some i"
  by (simp add: keeps_def)

definition public_written :: "('sk, 'pk) dev_env \<Rightarrow> string \<Rightarrow> 'sk \<Rightarrow> workspace \<Rightarrow> workspace \<Rightarrow> bool" where
  "public_written E q key d d' \<longleftrightarrow> (\<exists>der. de_pkix E (public_of (de_jwt E) key) = Inr der \<and>
     at_path d (path_clean q) = None \<and> at_path d' (path_clean q) = Some (File (de_pem E ''PUBLIC KEY'' der) 420))"

definition key_written :: "('sk, 'pk) dev_env \<Rightarrow> string \<Rightarrow> string \<Rightarrow> workspace \<Rightarrow> workspace \<Rightarrow> bool" where
  "key_written E p q d d' \<longleftrightarrow> (\<exists>key der. de_pkcs8 E key = Inr der \<and> at_path d (path_clean p) = None \<and>
     at_path d' (path_clean p) = Some (File (de_pem E ''PRIVATE KEY'' der) 384) \<and>
     (q \<noteq> '''' \<longrightarrow> public_written E q key d d'))"

lemma write_public_key_spec:
  assumes "at_path d0 (path_clean p) = None" "keeps d0 d" "at_path d (path_clean p) = Some i"
  shows "wp (write_public_key E p q key) (\<lambda>r d'. keeps d0 d' \<and>
    (r = Inr () \<longrightarrow> at_path d' (path_clean p) = Some i \<and> public_written E q key d d')) d"
proof -
  define post where "post = (\<lambda>(r :: err + unit) d'. keeps d0 d' \<and>
    (r = Inr () \<longrightarrow> at_path d' (path_clean p) = Some i \<and> public_written E q key d d'))"
  have undo: "wp (remove_item p) (\<lambda>_. post (Inl e)) d1" if "keeps d0 d1" for e d1
    by (rule wp_mono [OF remove_item_spec [OF assms(1) that]]) (simp add: post_def)
  have "wp (write_public_key E p q key) post d"
    unfolding write_public_key_def mkdir_all_def wp_bind
  proof (rule wp_mono [OF ws_nop_spec], goal_cases)
    case (1 m d1)
    then have d1: "keeps d0 d1" by (rule keeps_same [OF assms(2)])
    show ?case
    proof (cases m)
      case (Inr u)
      show ?thesis
      proof (cases "de_pkix E (public_of (de_jwt E) key)")
        case (Inr der)
        show ?thesis
          unfolding \<open>m = Inr u\<close> Inr sum.case wp_bind
        proof (rule wp_mono [OF write_exclusive_after [OF d1]], goal_cases)
          case (1 r d2)
          show ?case
          proof (cases "r = Inr True")
            case True
            then show ?thesis
              using 1 assms(3) \<open>ws_items d1 = ws_items d\<close> Inr
              by (auto simp: wp_rules post_def public_written_def dest: keepsD)
          next
            case False
            then show ?thesis
              using 1 undo by (cases r) (auto simp: wp_rules)
          qed
        qed
      qed (use undo [OF d1] Inr in \<open>simp add: wp_rules\<close>)
    qed (use undo [OF d1] in \<open>simp add: wp_rules\<close>)
  qed
  then show ?thesis by (simp add: post_def)
qed

lemma generate_key_pair_spec:
  assumes "dev_quiet E" "keeps d0 d"
  shows "wp (generate_key_pair E p q) (\<lambda>r d'. keeps d0 d' \<and> (r = Inr () \<longrightarrow> key_written E p q d d')) d"
  unfolding generate_key_pair_def mkdir_all_def wp_bind
proof (rule wp_mono [OF ws_nop_spec], goal_cases)
  case (1 m d1)
  then have d1: "keeps d0 d1" by (rule keeps_same [OF assms(2)])
  have generate: "wp (de_generate E) (\<lambda>_ d2. ws_items d2 = ws_items d1) d1"
    using assms(1) by (intro leavesD) (simp add: dev_quiet_def)
  show ?case
  proof (cases m)
    case (Inr u)
    show ?thesis
      unfolding Inr sum.case wp_bind
    proof (rule wp_mono [OF generate], goal_cases)
      case (1 g d2)
      then have d2: "keeps d0 d2" "ws_items d2 = ws_items d" using keeps_same [OF d1] \<open>ws_items d1 = _\<close> by simp_all
      show ?case
      proof (cases g)
        case (Inr key)
        show ?thesis
        proof (cases "de_pkcs8 E key")
          case (Inr der)
          show ?thesis
            unfolding \<open>g = Inr key\<close> Inr sum.case wp_bind
          proof (rule wp_mono [OF write_exclusive_after [OF d2(1)]], goal_cases)
            case (1 r d3)
            show ?case
            proof (cases "r = Inr True")
              case True
              then have w: "at_path d2 (path_clean p) = None" "keeps d2 d3"
                "at_path d3 (path_clean p) = Some (File (de_pem E ''PRIVATE KEY'' der) 384)" "keeps d0 d3"
                using 1 by simp_all
              have p0: "at_path d0 (path_clean p) = None" by (rule keeps_None [OF d2(1) w(1)])
              show ?thesis
              proof (cases "q = ''''")
                case True
                then show ?thesis using \<open>r = Inr True\<close> w d2 Inr by (auto simp: wp_rules key_written_def)
              next
                case False
                show ?thesis
                  unfolding \<open>r = Inr True\<close> sum.case not_True_eq_False if_False if_not_P [OF False]
                proof (rule wp_mono [OF write_public_key_spec [OF p0 w(4,3)]], goal_cases)
                  case (1 r' d4)
                  then show ?case
                    using Inr w(1) d2(2) keeps_None [OF w(2)] by (auto simp: key_written_def public_written_def)
                qed
              qed
            qed (use 1 in \<open>auto simp: wp_rules split: sum.splits\<close>)
          qed
        qed (use Inr d2 in \<open>simp add: wp_rules\<close>)
      qed (use d2 in \<open>simp add: wp_rules\<close>)
    qed
  qed (use d1 in \<open>simp add: wp_rules\<close>)
qed

lemma export_public_key_spec: "wp (export_public_key E p q) (\<lambda>r d'. keeps d d') d"
  unfolding export_public_key_def mkdir_all_def wp_bind
proof (rule wp_mono [OF read_item_spec], goal_cases)
  case (1 r d1)
  then have d1: "keeps d d1" by (rule keeps_refl)
  have "wp (do { m \<leftarrow> ws_nop;
      case m of
        Inl e \<Rightarrow> State_Monad.return (Inl (Wrapped ''create public key directory'' [e]))
      | Inr _ \<Rightarrow> do {
          w \<leftarrow> write_exclusive q (de_pem E ''PUBLIC KEY'' der) 420;
          State_Monad.return (case w of
              Inl e \<Rightarrow> Inl (Wrapped ''create public key file'' [e])
            | Inr created \<Rightarrow>
                if \<not> created then Inl (refused_overwrite ''public key file'' q) else Inr ()) } })
      (\<lambda>r d'. keeps d d') d1" for der
    unfolding wp_bind
  proof (rule wp_mono [OF ws_nop_spec], goal_cases)
    case (1 m d2)
    then have d2: "keeps d d2" by (rule keeps_same [OF d1])
    show ?case
      by (cases m) (simp_all add: wp_rules d2 wp_mono [OF write_exclusive_after [OF d2]])
  qed
  then show ?case
    by (auto simp: wp_rules d1 split: sum.splits option.splits parsed_key.splits)
qed

section \<open>setup\<close>

lemma setup_key_spec:
  assumes "dev_quiet E" "keeps d0 d"
  shows "wp (setup_key E p) (\<lambda>r d'. keeps d0 d' \<and> keeps d d' \<and> (\<forall>c. r = Inr c \<longrightarrow>
    at_path d' (path_clean p) \<noteq> None \<and> (at_path d (path_clean p) = None \<longrightarrow> key_written E p '''' d d'))) d"
  unfolding setup_key_def wp_bind
proof (rule wp_mono [OF stat_item_spec], goal_cases)
  case (1 i d1)
  then have d1: "keeps d0 d1" "keeps d d1" "ws_items d1 = ws_items d"
    using keeps_same [OF assms(2)] by (simp_all add: keeps_refl)
  show ?case
  proof (cases i)
    case (Inl e)
    have "wp (generate_key_pair E p '''') (\<lambda>r d'. (keeps d0 d' \<and> (r = Inr () \<longrightarrow> key_written E p '''' d1 d')) \<and>
        (keeps d d' \<and> (r = Inr () \<longrightarrow> key_written E p '''' d1 d'))) d1"
      by (rule wp_conj [OF generate_key_pair_spec [OF assms(1) d1(1)] generate_key_pair_spec [OF assms(1) d1(2)]])
    then show ?thesis
      unfolding Inl sum.case wp_rules
      by (auto simp: wp_rules d1 key_written_def elim!: wp_mono split: sum.splits)
  qed (use 1 d1 in \<open>auto simp: wp_rules\<close>)
qed

definition env_written :: "string \<Rightarrow> workspace \<Rightarrow> bool" where
  "env_written p d' \<longleftrightarrow> (\<exists>x y. length x = 32 \<and> length y = 32 \<and>
     at_path d' (path_clean p) = Some (File (local_env_text (hex_encode x) (hex_encode y)) 384))"

lemma create_local_env_spec:
  assumes "dev_quiet E" "rand_laws (de_rand E)" "keeps d0 d"
  shows "wp (create_local_env E p) (\<lambda>r d'. keeps d0 d' \<and> keeps d d' \<and> (\<forall>c. r = Inr c \<longrightarrow>
    at_path d' (path_clean p) \<noteq> None \<and> (at_path d (path_clean p) = None \<longrightarrow> env_written p d'))) d"
proof -
  have rand: "wp (random_hex E 32) (\<lambda>r d'. ws_items d' = ws_items d1 \<and>
      (\<forall>t. r = Inr t \<longrightarrow> (\<exists>x. length x = 32 \<and> t = hex_encode x))) d1" for d1
  proof -
    have "wp (de_rand E 32) (\<lambda>r d'. ws_items d' = ws_items d1 \<and> on_ok (\<lambda>bs. length bs = 32) r) d1"
      using assms(1,2) by (intro wp_conj leavesD) (simp_all add: dev_quiet_def rand_laws_def)
    then show ?thesis
      unfolding random_hex_def wp_rules by (rule wp_mono) (auto simp: on_ok_def split: sum.splits)
  qed
  show ?thesis
    unfolding create_local_env_def wp_bind
  proof (rule wp_mono [OF rand], goal_cases)
    case (1 a d1)
    then have d1: "keeps d0 d1" "keeps d d1" "ws_items d1 = ws_items d"
      using keeps_same [OF assms(3)] by (simp_all add: keeps_refl)
    show ?case
    proof (cases a)
      case (Inr s)
      then obtain x where x: "length x = 32" "s = hex_encode x" using 1 by blast
      show ?thesis
        unfolding Inr sum.case wp_bind
      proof (rule wp_mono [OF rand], goal_cases)
        case (1 b d2)
        then have d2: "keeps d0 d2" "keeps d d2" "ws_items d2 = ws_items d"
          using keeps_same [OF d1(1)] keeps_same [OF d1(2)] d1(3) by simp_all
        show ?case
        proof (cases b)
          case (Inr t)
          then obtain y where y: "length y = 32" "t = hex_encode y" using 1 by blast
          have new: "keeps d2 d3 \<Longrightarrow> keeps d d3" for d3 using keeps_trans [OF d2(2)] .
          show ?thesis
            unfolding Inr sum.case wp_rules
            by (rule wp_mono [OF write_exclusive_after [OF d2(1)]])
               (use x y new d2(3) in \<open>auto simp: env_written_def keeps_def split: sum.splits bool.splits\<close>)
        qed (use d2 in \<open>simp add: wp_rules\<close>)
      qed
    qed (use d1 in \<open>simp add: wp_rules\<close>)
  qed
qed

text \<open>What the steps leave alone.\<close>

lemma call_leaves:
  "leaves ws_nop (\<lambda>d. at_path d x)" "leaves (read_item p) (\<lambda>d. at_path d x)" "leaves (stat_item p) (\<lambda>d. at_path d x)"
  unfolding leaves_def
  by (auto intro: wp_mono [OF ws_nop_spec] wp_mono [OF read_item_spec] wp_mono [OF stat_item_spec])

lemma items_leaves: "leaves m ws_items \<Longrightarrow> leaves m (\<lambda>d. at_path d x)"
  unfolding leaves_def by (intro allI, rule wp_mono [where P = "\<lambda>_ d'. ws_items d' = ws_items _"]) auto

lemma own_path_leaves:
  assumes "x \<noteq> path_clean p"
  shows "leaves (open_exclusive p mode) (\<lambda>d. at_path d x)" "leaves (remove_item p) (\<lambda>d. at_path d x)"
    "leaves (write_bytes p bs) (\<lambda>d. at_path d x)"
proof -
  show "leaves (open_exclusive p mode) (\<lambda>d. at_path d x)" "leaves (remove_item p) (\<lambda>d. at_path d x)"
    unfolding leaves_def open_exclusive_def remove_item_def
    by (auto intro!: wp_mono [OF ws_call_spec] simp: assms split: option.splits)
  have "at_path (append_to p b d) x = at_path d x" for b d
    using assms by (simp add: append_to_def split: option.split item.split)
  then show "leaves (write_bytes p bs) (\<lambda>d. at_path d x)"
    unfolding leaves_def write_bytes_def
    by (auto simp: wp_rules split: prod.split option.split dest: ws_next_items)
qed

lemma write_exclusive_leaves: "x \<noteq> path_clean p \<Longrightarrow> leaves (write_exclusive p content mode) (\<lambda>d. at_path d x)"
  unfolding write_exclusive_def by (intro leaves_rules own_path_leaves call_leaves)

lemma copy_if_missing_leaves: "x \<noteq> path_clean p \<Longrightarrow> leaves (copy_if_missing source p mode) (\<lambda>d. at_path d x)"
  unfolding copy_if_missing_def by (intro leaves_rules write_exclusive_leaves call_leaves)

lemma setup_key_leaves:
  assumes "dev_quiet E" "x \<noteq> path_clean p"
  shows "leaves (setup_key E p) (\<lambda>d. at_path d x)"
proof -
  have "leaves (generate_key_pair E p '''') (\<lambda>d. at_path d x)"
    unfolding generate_key_pair_def mkdir_all_def simp_thms if_True
    using assms by (intro leaves_rules write_exclusive_leaves call_leaves items_leaves) (simp_all add: dev_quiet_def)
  then show ?thesis
    unfolding setup_key_def by (intro leaves_rules call_leaves)
qed

definition config_place :: string where "config_place = join_path ''.'' ''configs/config.local.yaml''"

definition key_place :: string where "key_place = join_path ''.'' default_private_key_path"

definition env_place :: string where "env_place = join_path ''.'' ''.env''"

lemma clean_places:
  "path_clean ''./configs/config.local.yaml'' = ''configs/config.local.yaml''"
  "path_clean ''configs/config.local.yaml'' = ''configs/config.local.yaml''"
  "path_clean ''./configs/auth-private.local.pem'' = ''configs/auth-private.local.pem''"
  "path_clean ''configs/auth-private.local.pem'' = ''configs/auth-private.local.pem''"
  "path_clean ''./.env'' = ''.env''" "path_clean ''.env'' = ''.env''"
proof -
  have pieces: "split_on CHR ''/'' ''./configs/config.local.yaml'' = [''.'', ''configs'', ''config.local.yaml'']"
    "split_on CHR ''/'' ''configs/config.local.yaml'' = [''configs'', ''config.local.yaml'']"
    "split_on CHR ''/'' ''./configs/auth-private.local.pem'' = [''.'', ''configs'', ''auth-private.local.pem'']"
    "split_on CHR ''/'' ''configs/auth-private.local.pem'' = [''configs'', ''auth-private.local.pem'']"
    "split_on CHR ''/'' ''./.env'' = [''.'', ''.env'']" "split_on CHR ''/'' ''.env'' = [''.env'']"
    by simp_all
  show "path_clean ''./configs/config.local.yaml'' = ''configs/config.local.yaml''"
    "path_clean ''configs/config.local.yaml'' = ''configs/config.local.yaml''"
    "path_clean ''./configs/auth-private.local.pem'' = ''configs/auth-private.local.pem''"
    "path_clean ''configs/auth-private.local.pem'' = ''configs/auth-private.local.pem''"
    "path_clean ''./.env'' = ''.env''" "path_clean ''.env'' = ''.env''"
    by (simp_all add: path_clean_def pieces del: split_on.simps)
qed

lemma places: "path_clean config_place = ''configs/config.local.yaml''" "path_clean key_place = default_private_key_path"
  "path_clean env_place = ''.env''"
  by (simp_all add: config_place_def key_place_def env_place_def default_private_key_path_def join_path_def clean_places)

text \<open>After \<open>setup\<close> the three files are there; a new key is a key in PKCS#8 and PEM, a new \<open>.env\<close> has
  fresh passwords.\<close>

definition prepared :: "('sk, 'pk) dev_env \<Rightarrow> workspace \<Rightarrow> workspace \<Rightarrow> bool" where
  "prepared E d d' \<longleftrightarrow> at_path d' (path_clean config_place) \<noteq> None \<and>
     at_path d' (path_clean key_place) \<noteq> None \<and> at_path d' (path_clean env_place) \<noteq> None \<and>
     (at_path d (path_clean key_place) = None \<longrightarrow> (\<exists>key der. de_pkcs8 E key = Inr der \<and>
        at_path d' (path_clean key_place) = Some (File (de_pem E ''PRIVATE KEY'' der) 384))) \<and>
     (at_path d (path_clean env_place) = None \<longrightarrow> env_written env_place d')"

lemma report_status_spec: "dev_quiet E \<Longrightarrow> wp (report_status E p c) (\<lambda>_ d'. ws_items d' = ws_items d) d"
  unfolding report_status_def by (intro leavesD) (simp add: dev_quiet_def)

lemma prepared_same: "ws_items d1 = ws_items d' \<Longrightarrow> prepared E d d1 = prepared E d d'"
  by (simp add: prepared_def env_written_def)

lemma report_all_spec:
  assumes "dev_quiet E" "keeps d0 d" "prepared E d0 d"
  shows "wp (do { _ \<leftarrow> report_status E p a; _ \<leftarrow> report_status E q b; _ \<leftarrow> report_status E r c; de_print E SetupDone })
    (\<lambda>r d'. keeps d0 d' \<and> (r = Inr () \<longrightarrow> prepared E d0 d')) d"
  unfolding wp_bind
proof (rule wp_mono [OF report_status_spec [OF assms(1)]], goal_cases)
  case (1 _ d1)
  show ?case
  proof (rule wp_mono [OF report_status_spec [OF assms(1)]], goal_cases)
    case (1 _ d2)
    show ?case
    proof (rule wp_mono [OF report_status_spec [OF assms(1)]], goal_cases)
      case (1 _ d3)
      then have d3: "ws_items d3 = ws_items d" using \<open>ws_items d1 = _\<close> \<open>ws_items d2 = _\<close> by simp
      have "wp (de_print E SetupDone) (\<lambda>_ d'. ws_items d' = ws_items d3) d3"
        using assms(1) by (intro leavesD) (simp add: dev_quiet_def)
      then show ?case
      proof (rule wp_mono, goal_cases)
        case (1 u d4)
        then have "ws_items d4 = ws_items d" using d3 by simp
        from keeps_same [OF assms(2) this] prepared_same [OF this] assms(3) show ?case by blast
      qed
    qed
  qed
qed

lemma copy_if_missing_spec: "wp (copy_if_missing source p mode) (\<lambda>r d'. keeps d d' \<and>
    (\<forall>c. r = Inr c \<longrightarrow> at_path d' (path_clean p) \<noteq> None)) d"
  unfolding copy_if_missing_def wp_bind
proof (rule wp_mono [OF read_item_spec], goal_cases)
  case (1 r d1)
  then have d1: "keeps d d1" by (rule keeps_refl)
  show ?case
  proof (cases r)
    case (Inr content)
    show ?thesis
      unfolding Inr sum.case
      by (rule wp_mono [OF write_exclusive_after [OF d1]]) (auto simp: keeps_def)
  qed (use d1 in \<open>simp add: wp_rules\<close>)
qed

lemma key_written_prepared:
  "key_written E p '''' d1 d' \<Longrightarrow> \<exists>key der. de_pkcs8 E key = Inr der \<and>
     at_path d' (path_clean p) = Some (File (de_pem E ''PRIVATE KEY'' der) 384)"
  by (auto simp: key_written_def)

lemma distinct_places:
  "path_clean key_place \<noteq> path_clean config_place" "path_clean env_place \<noteq> path_clean config_place"
  "path_clean env_place \<noteq> path_clean key_place"
  by (simp_all add: places default_private_key_path_def)

lemma setup_workspace_spec:
  assumes "dev_quiet E" "rand_laws (de_rand E)"
  shows "wp (setup_workspace E ''.'') (\<lambda>r d'. keeps d d' \<and> (r = Inr () \<longrightarrow> prepared E d d')) d"
  unfolding setup_workspace_def Let_def config_place_def [symmetric] key_place_def [symmetric] env_place_def [symmetric] wp_bind
proof (rule wp_mono [OF wp_conj [OF copy_if_missing_spec wp_conj
      [OF leavesD [OF copy_if_missing_leaves [OF distinct_places(1)]]
          leavesD [OF copy_if_missing_leaves [OF distinct_places(2)]]]]], goal_cases)
  case (1 c d1)
  then have kd1: "keeps d d1" by simp
  note c1 = 1
  show ?case
  proof (cases c)
    case (Inr a)
    show ?thesis
      unfolding Inr sum.case wp_bind
    proof (rule wp_mono [OF wp_conj [OF setup_key_spec [OF assms(1) kd1]
          leavesD [OF setup_key_leaves [OF assms(1) distinct_places(3)]]]], goal_cases)
      case (1 k d2)
      then have kd2: "keeps d d2" by simp
      note k1 = 1
      show ?case
      proof (cases k)
        case (Inr b)
        show ?thesis
          unfolding Inr sum.case wp_bind
        proof (rule wp_mono [OF create_local_env_spec [OF assms kd2]], goal_cases)
          case (1 v d3)
          show ?case
          proof (cases v)
            case (Inr e)
            have d3: "at_path d3 (path_clean env_place) \<noteq> None"
              "at_path d (path_clean env_place) = None \<Longrightarrow> env_written env_place d3" "keeps d2 d3" "keeps d d3"
              using 1 Inr c1 k1 by simp_all
            have key: "at_path d2 (path_clean key_place) \<noteq> None"
              "at_path d (path_clean key_place) = None \<Longrightarrow> key_written E key_place '''' d1 d2"
              using k1 c1 \<open>k = Inr b\<close> by simp_all
            have "at_path d1 (path_clean config_place) \<noteq> None" "keeps d1 d2" using c1 k1 \<open>c = Inr a\<close> by simp_all
            then have "at_path d3 (path_clean config_place) \<noteq> None" "at_path d3 (path_clean key_place) \<noteq> None"
              using key(1) keepsD [OF d3(3)] keepsD [of d1 d2] by blast+
            moreover have "\<exists>sk der. de_pkcs8 E sk = Inr der \<and>
                at_path d3 (path_clean key_place) = Some (File (de_pem E ''PRIVATE KEY'' der) 384)"
              if "at_path d (path_clean key_place) = None"
              using key_written_prepared [OF key(2) [OF that]] keepsD [OF d3(3)] by blast
            ultimately have "prepared E d d3" using d3(1,2) by (simp add: prepared_def)
            then show ?thesis unfolding Inr sum.case by (rule report_all_spec [OF assms(1) d3(4)])
          qed (use 1 in \<open>simp add: wp_rules\<close>)
        qed
      qed (use kd2 in \<open>simp add: wp_rules\<close>)
    qed
  qed (use kd1 in \<open>simp add: wp_rules\<close>)
qed

section \<open>Every command\<close>

definition extends :: "(workspace, 'a) state \<Rightarrow> bool" where
  "extends m \<longleftrightarrow> (\<forall>d. wp m (\<lambda>_ d'. keeps d d') d)"

named_theorems extends_rules \<open>syntax-directed rules for extends\<close>

lemma extends_return [extends_rules]: "extends (State_Monad.return x)"
  by (simp add: extends_def wp_rules keeps_refl)

lemma extends_bind [extends_rules]: "extends m \<Longrightarrow> (\<And>x. extends (f x)) \<Longrightarrow> extends (State_Monad.bind m f)"
  unfolding extends_def wp_bind by (blast intro: wp_mono [where P = "\<lambda>_ d'. keeps _ d'"] keeps_trans)

lemma extends_cases [extends_rules]:
  "(\<And>e. extends (f e)) \<Longrightarrow> (\<And>x. extends (g x)) \<Longrightarrow> extends (case r of Inl e \<Rightarrow> f e | Inr x \<Rightarrow> g x)"
  "extends m \<Longrightarrow> extends n \<Longrightarrow> extends (if b then m else n)"
  "(\<And>x. extends (f x)) \<Longrightarrow> extends (let x = t in f x)"
  by (cases r) simp_all

lemma extends_leaves: "leaves m ws_items \<Longrightarrow> extends m"
  unfolding extends_def leaves_def by (intro allI, rule wp_mono [where P = "\<lambda>_ d'. ws_items d' = ws_items _"]) (auto simp: keeps_refl)

lemma extends_steps [extends_rules]:
  "extends (copy_if_missing source p mode)" "extends (stat_item p)" "extends (export_public_key E p q)"
  "dev_quiet E \<Longrightarrow> extends (generate_key_pair E p q)" "dev_quiet E \<Longrightarrow> extends (setup_key E p)"
  "dev_quiet E \<Longrightarrow> extends (create_local_env E p)" "dev_quiet E \<Longrightarrow> extends (report_status E p c)"
  "dev_quiet E \<Longrightarrow> extends (de_print E x)" "dev_quiet E \<Longrightarrow> extends (de_now E)" "dev_quiet E \<Longrightarrow> extends (de_git E)"
proof -
  have creates: "extends (write_exclusive p content mode)" for p content mode
    unfolding extends_def by (intro allI wp_mono [OF write_exclusive_spec]) simp
  show "extends (copy_if_missing source p mode)" "extends (export_public_key E p q)"
    unfolding extends_def
    by (intro allI wp_mono [OF copy_if_missing_spec] wp_mono [OF export_public_key_spec]; simp)+
  show stat: "extends (stat_item p)"
    unfolding extends_def by (intro allI wp_mono [OF stat_item_spec]) (simp add: keeps_refl)
  assume E: "dev_quiet E"
  then show lines: "extends (de_print E x)" and "extends (de_now E)" "extends (de_git E)" for x
    by (simp_all add: dev_quiet_def extends_leaves)
  show "extends (generate_key_pair E p q)" "extends (setup_key E p)"
    unfolding extends_def
    by (intro allI wp_mono [OF generate_key_pair_spec [OF E keeps_refl [OF refl]]]
        wp_mono [OF setup_key_spec [OF E keeps_refl [OF refl]]]; simp)+
  have "extends (random_hex E n)" for n
    unfolding random_hex_def using E by (intro extends_rules extends_leaves) (simp add: dev_quiet_def)
  then show "extends (create_local_env E p)"
    unfolding create_local_env_def by (intro extends_rules creates)
  show "extends (report_status E p c)" unfolding report_status_def by (rule lines)
qed

lemma devtool_run_extends:
  assumes "dev_quiet E"
  shows "extends (devtool_run E args)"
proof -
  have "extends (setup_workspace E root)" for root
    unfolding setup_workspace_def by (intro extends_rules assms)
  moreover have "extends (keygen_command E as)" "extends (public_key_command E as)" for as
    unfolding keygen_command_def public_key_command_def by (intro extends_rules assms)+
  ultimately show ?thesis
    unfolding devtool_run_def
    by (cases args) (auto intro!: extends_rules assms split: sum.split)
qed

section \<open>The file .env\<close>

definition plain_char :: "char \<Rightarrow> bool" where
  "plain_char c \<longleftrightarrow> 34 < byte c \<and> byte c < 127 \<and> byte c \<noteq> 39"

lemma trim_list_none:
  assumes "list_all (\<lambda>c. \<not> p c) s"
  shows "trim_list p s = s"
proof (cases "s = []")
  case False
  then show ?thesis using assms by (intro trim_list_id) (simp_all add: list_all_iff)
qed (simp add: trim_list_def)

lemma plain_trim:
  assumes "unicode_laws U" "list_all plain_char s"
  shows "trim_space U s = s" "trim_quotes s = s"
proof -
  have a: "ascii s" using assms(2) by (auto simp: ascii_def plain_char_def list_all_iff)
  have "list_all (\<lambda>c. \<not> uc_space U (byte c)) s" "list_all (\<lambda>c. \<not> (c = CHR 34 \<or> c = CHR 39)) s"
    using assms by (auto simp: plain_char_def list_all_iff unicode_laws_def)
  then show "trim_space U s = s" "trim_quotes s = s"
    by (simp_all add: trim_space_ascii [OF a] trim_quotes_def trim_list_none)
qed

lemma split_on_lines:
  "list_all (\<lambda>l. sep \<notin> set l) ls \<Longrightarrow> split_on sep (concat (map (\<lambda>l. l @ [sep]) ls)) = ls @ [[]]"
  by (induction ls) (simp_all add: split_on_Cons)

definition assignment :: "string \<times> string \<Rightarrow> string" where
  "assignment kv = fst kv @ ''='' @ snd kv"

definition plain_assignment :: "string \<times> string \<Rightarrow> bool" where
  "plain_assignment kv \<longleftrightarrow> list_all plain_char (fst kv) \<and> list_all plain_char (snd kv) \<and>
     CHR ''='' \<notin> set (fst kv) \<and> fst kv \<noteq> '''' \<and> hd (fst kv) \<noteq> CHR ''#''"

lemma dot_env_lines_plain:
  assumes "unicode_laws U" "list_all plain_assignment kvs"
  shows "dot_env_lines U (map assignment kvs @ [[]]) = Inr (map assignment kvs)"
  using assms(2)
proof (induction kvs)
  case (Cons kv kvs)
  have p: "list_all plain_char (fst kv)" "list_all plain_char (snd kv)" "CHR ''='' \<notin> set (fst kv)"
    and h: "fst kv \<noteq> ''''" "hd (fst kv) \<noteq> CHR ''#''"
    using Cons.prems by (simp_all add: plain_assignment_def)
  have line: "trim_space U (assignment kv) = assignment kv"
    using p by (intro plain_trim(1) [OF assms(1)]) (simp add: assignment_def plain_char_def)
  have "assignment kv \<noteq> ''''" "\<not> has_prefix ''#'' (assignment kv)"
    using h by (auto simp: assignment_def has_prefix_def neq_Nil_conv)
  moreover have "cut CHR ''='' (assignment kv) = Some (fst kv, snd kv)"
    using cut_append [OF p(3)] by (simp add: assignment_def)
  moreover have "dot_env_lines U (map assignment kvs @ [[]]) = Inr (map assignment kvs)" using Cons by simp
  ultimately have "dot_env_lines U (map assignment (kv # kvs) @ [[]]) =
      Inr ((fst kv @ ''='' @ trim_quotes (trim_space U (snd kv))) # map assignment kvs)"
    using h line by (cases kv) simp
  then show ?case
    unfolding plain_trim [OF assms(1) p(2)] by (simp only: assignment_def [symmetric] list.map)
qed simp

lemma hex_encode_plain: "list_all plain_char (hex_encode x)" "length (hex_encode x) = 2 * length x"
proof -
  have "plain_char (hex_nibble n)" if "n < 16" for n
    using that by (auto simp: hex_nibble_def plain_char_def)
  moreover have "byte c div 16 < 16" for c
    by (simp add: less_mult_imp_div_less)
  ultimately show "list_all plain_char (hex_encode x)"
    by (simp add: hex_encode_def list_all_iff)
  show "length (hex_encode x) = 2 * length x"
    by (simp add: hex_encode_def length_concat comp_def sum_list_triv)
qed

text \<open>What the configuration reads from the new file: the two passwords, of 64 digits, and the path of the key.\<close>

definition env_loads :: "unicode \<Rightarrow> string \<Rightarrow> bool" where
  "env_loads U content \<longleftrightarrow> (\<exists>vs a b. load_dot_env U (\<lambda>_. Inr content) ''.env'' = Inr vs \<and> length a = 64 \<and> length b = 64 \<and>
     environment ''GOBA_'' vs ''GOBA_APP_ENVIRONMENT'' = Some ''development'' \<and>
     environment ''GOBA_'' vs ''GOBA_DATABASE_PASSWORD'' = Some a \<and>
     environment ''GOBA_'' vs ''GOBA_REDIS_PASSWORD'' = Some b \<and>
     environment ''GOBA_'' vs ''GOBA_AUTH_PRIVATE_KEY_FILE'' = Some default_private_key_path)"

definition local_assignments :: "string \<Rightarrow> string \<Rightarrow> (string \<times> string) list" where
  "local_assignments a b = [(''GOBA_APP_ENVIRONMENT'', ''development''), (''GOBA_SERVER_HOST'', ''0.0.0.0''),
     (''GOBA_SERVER_PORT'', ''8000''), (''GOBA_DATABASE_PASSWORD'', a), (''GOBA_REDIS_PASSWORD'', b),
     (''GOBA_AUTH_PRIVATE_KEY_FILE'', default_private_key_path)]"

lemma local_env_text_lines:
  "local_env_text a b = concat (map (\<lambda>l. l @ [CHR 10]) (map assignment (local_assignments a b)))"
  by (simp add: local_env_text_def local_assignments_def assignment_def)

lemma local_assignments_plain:
  "list_all plain_char a \<Longrightarrow> list_all plain_char b \<Longrightarrow> list_all plain_assignment (local_assignments a b)"
  by (simp add: local_assignments_def plain_assignment_def plain_char_def default_private_key_path_def)

lemma local_env_loads:
  assumes "unicode_laws U" "length x = 32" "length y = 32"
  shows "env_loads U (local_env_text (hex_encode x) (hex_encode y))"
proof -
  let ?kvs = "local_assignments (hex_encode x) (hex_encode y)"
  have plain: "list_all plain_assignment ?kvs" by (intro local_assignments_plain hex_encode_plain)
  have newline: "\<not> plain_char CHR 10" by (simp add: plain_char_def)
  have "CHR 10 \<notin> set (assignment kv)" if "plain_assignment kv" for kv
    using that newline by (auto simp: list_all_iff plain_assignment_def assignment_def)
  then have "list_all (\<lambda>l. CHR 10 \<notin> set l) (map assignment ?kvs)"
    using plain by (simp add: list_all_iff)
  then have "load_dot_env U (\<lambda>_. Inr (local_env_text (hex_encode x) (hex_encode y))) ''.env'' = Inr (map assignment ?kvs)"
    unfolding load_dot_env_def sum.case local_env_text_lines
    by (simp only: split_on_lines dot_env_lines_plain [OF assms(1) plain])
  moreover have "environment ''GOBA_'' (map assignment ?kvs) ''GOBA_APP_ENVIRONMENT'' = Some ''development''"
    "environment ''GOBA_'' (map assignment ?kvs) ''GOBA_DATABASE_PASSWORD'' = Some (hex_encode x)"
    "environment ''GOBA_'' (map assignment ?kvs) ''GOBA_REDIS_PASSWORD'' = Some (hex_encode y)"
    "environment ''GOBA_'' (map assignment ?kvs) ''GOBA_AUTH_PRIVATE_KEY_FILE'' = Some default_private_key_path"
    by (simp_all add: environment_def local_assignments_def assignment_def has_prefix_def)
  ultimately show ?thesis
    unfolding env_loads_def using hex_encode_plain(2) [of x] hex_encode_plain(2) [of y] assms(2,3) by auto
qed

section \<open>The tool\<close>

text \<open>What the encoders and the decoders document: a key that is encoded decodes, also without the final newline.\<close>

definition encoders_match :: "('sk, 'pk) dev_env \<Rightarrow> bool" where
  "encoders_match E \<longleftrightarrow> (\<forall>key der. de_pkcs8 E key = Inr der \<longrightarrow>
     pem_decode (de_jwt E) (trim_right [CHR 13, CHR 10] (de_pem E ''PRIVATE KEY'' der)) = Some (der, '''') \<and>
     pkcs8_parse (de_jwt E) der = Some (Ed25519Private key))"

text \<open>The token manager accepts the key file as \<open>resolveSecrets\<close> hands it over.\<close>

definition key_loads :: "('sk, 'pk) jwt_lib \<Rightarrow> string \<Rightarrow> bool" where
  "key_loads J content \<longleftrightarrow> (\<forall>cfg. au_private_key cfg = Secret (trim_right [CHR 13, CHR 10] content) \<longrightarrow>
     au_verification_keys cfg = [] \<longrightarrow> (\<exists>t. new_tokens J cfg = Inr t))"

lemma generated_key_loads:
  "encoders_match E \<Longrightarrow> de_pkcs8 E key = Inr der \<Longrightarrow> key_loads (de_jwt E) (de_pem E ''PRIVATE KEY'' der)"
  by (simp add: encoders_match_def key_loads_def new_tokens_def)

lemma prepared_loads:
  assumes "prepared E d d'" "encoders_match E" "unicode_laws U"
  shows "at_path d default_private_key_path = None \<Longrightarrow>
      \<exists>content. at_path d' default_private_key_path = Some (File content 384) \<and> key_loads (de_jwt E) content"
    "at_path d ''.env'' = None \<Longrightarrow> \<exists>content. at_path d' ''.env'' = Some (File content 384) \<and> env_loads U content"
  using assms(1) generated_key_loads [OF assms(2)] local_env_loads [OF assms(3)]
  unfolding prepared_def env_written_def places by blast+

text \<open>C38: whatever command of the tool runs and whatever calls fail, a file that was there stays as it was.
  When \<open>setup\<close> succeeds, the local configuration, the key and \<open>.env\<close> are there; a key that was missing is now
  a file of mode 0600 from which the token manager is built, and a \<open>.env\<close> that was missing is a file of mode
  0600 from which the configuration reads two passwords of 64 hexadecimal digits and the path of the key.\<close>

theorem devtool_prepares:
  assumes "dev_quiet E" "rand_laws (de_rand E)" "encoders_match E" "unicode_laws U"
  shows "wp (devtool_run E args) (\<lambda>r d'. (\<forall>q i. at_path d q = Some i \<longrightarrow> at_path d' q = Some i) \<and>
    (args = [''setup''] \<longrightarrow> r = Inr () \<longrightarrow> at_path d' ''configs/config.local.yaml'' \<noteq> None \<and>
      at_path d' default_private_key_path \<noteq> None \<and> at_path d' ''.env'' \<noteq> None \<and>
      (at_path d default_private_key_path = None \<longrightarrow> (\<exists>content.
         at_path d' default_private_key_path = Some (File content 384) \<and> key_loads (de_jwt E) content)) \<and>
      (at_path d ''.env'' = None \<longrightarrow> (\<exists>content. at_path d' ''.env'' = Some (File content 384) \<and> env_loads U content)))) d"
proof (cases "args = [''setup'']")
  case True
  have run: "devtool_run E [''setup''] = setup_workspace E ''.''"
    by (simp add: devtool_run_def flag_or_def)
  show ?thesis
    unfolding True run
  proof (rule wp_mono [OF setup_workspace_spec [OF assms(1,2)]], goal_cases)
    case (1 r d')
    have "at_path d' ''configs/config.local.yaml'' \<noteq> None" "at_path d' default_private_key_path \<noteq> None"
      "at_path d' ''.env'' \<noteq> None" if "prepared E d d'"
      using that unfolding prepared_def places by simp_all
    then show ?case
      using 1 prepared_loads [OF _ assms(3,4), of d d'] unfolding keeps_def by simp
  qed
next
  case False
  then show ?thesis
    by (intro wp_mono [OF devtool_run_extends [OF assms(1), unfolded extends_def, rule_format]]) (simp add: keeps_def)
qed

definition toy_dev_env :: "(unit, unit) dev_env" where
  "toy_dev_env = \<lparr>de_rand = zero_rand, de_generate = State_Monad.return (Inr ()), de_pkcs8 = (\<lambda>_. Inr ''key''),
     de_pkix = (\<lambda>_. Inr ''public''), de_pem = (\<lambda>_ der. der @ [CHR 10]), de_jwt = toy_jwt,
     de_print = (\<lambda>_. State_Monad.return (Inr ())), de_now = State_Monad.return ''2026-07-12T00:00:00Z'',
     de_git = State_Monad.return (Inr ''''), de_unicode = ascii_unicode, de_windows = False\<rparr>"

definition new_copy :: workspace where
  "new_copy = \<lparr>ws_items = [(''configs/config.example.yaml'', File ''app: {}'' 420)], ws_faults = []\<rparr>"

lemma devtool_prepares_witness:
  "wp (devtool_run toy_dev_env [''setup'']) (\<lambda>r d'.
     at_path d' ''configs/config.example.yaml'' = Some (File ''app: {}'' 420) \<and>
     (r = Inr () \<longrightarrow> (\<exists>content. at_path d' ''.env'' = Some (File content 384) \<and> env_loads ascii_unicode content))) new_copy"
proof -
  have quiet: "dev_quiet toy_dev_env" "rand_laws (de_rand toy_dev_env)"
    by (simp_all add: dev_quiet_def toy_dev_env_def rand_laws_def zero_rand_def leaves_def wp_rules on_ok_def)
  have keys: "encoders_match toy_dev_env"
    by (simp add: encoders_match_def toy_dev_env_def toy_jwt_def trim_right_def)
  show ?thesis
    by (rule wp_mono [OF devtool_prepares [OF quiet keys unicode_laws_ascii]]) (simp add: new_copy_def)
qed

end
