(* ===== verification/Spec2Isabelle.thy ===== *)
theory Spec2Isabelle
  imports FileModule ConfigModule Lifecycle GatewayTheorems LoggingTheorems CliTheorems DevtoolTheorems
begin

text \<open>
  A verification development of goba-slim, a modular monolith for HTTP services in Go: users and
  administrators in PostgreSQL, sessions and login limits in Redis, a store of public files on disk,
  a dynamic configuration with a cache, the HTTP interface in front of them, the command line that starts it
  and the tool that prepares a working copy.  This theory imports the others and holds no definitions of its own; paths below are
  under \<open>src/\<close>.

  \<^bold>\<open>How the program is put together.\<close>  \<open>cmd/goba/main.go\<close> runs the command tree of
  \<open>internal/cli\<close>.  \<open>serve\<close> loads the configuration (\<open>internal/platform/config\<close>), makes the redacting
  logger (\<open>internal/platform/logging\<close>), and lets \<open>internal/app\<close> build the application: the connection
  components (\<open>internal/platform/database\<close>, \<open>redisstore\<close>), the user and authentication services over
  their adapters, the two optional modules, the handlers (\<open>internal/transport/httpapi\<close>), the router and
  its middleware and the server (\<open>internal/platform/httpserver\<close>).  \<open>Run\<close> starts the components in
  order, serves, and stops them in reverse order.  A service knows the others only through
  interfaces: the authentication service calls the user service and the session store, the user
  service a repository and a unit of work, the file service an object store, the configuration
  service a repository, a unit of work and a cache.

  \<^bold>\<open>How Go is modelled.\<close>  Theory \<open>Prelude\<close>: a function with effects is a state monad over a world
  of type \<open>'w\<close> with a result \<open>err + 'a\<close>, so that every early return is a branch; \<open>wp\<close> states what
  holds after a run and \<open>wp_rules\<close> decompose it, and \<open>leaves\<close> says that an operation keeps a part of
  the world.  The world stays a type parameter: a theorem holds for every world that meets the laws
  it names, and each is evaluated on a world in memory that does.  An interface is a record of
  operations, its promise a locale, and the locale is interpreted on the program's own provider.  A
  string is its bytes.  Durations and times are nanoseconds; integers whose width matters are words
  or have the wrap-around written out (\<open>pagination\<close>, the upload limit, \<open>ParseInt\<close>,
  \<open>ParseDuration\<close>, schema versions).  Error messages are ASCII glosses of the Chinese ones; what the
  program tests of an error (sentinels, codes, constraint names) is kept (\<open>Errors\<close>).

  \<^bold>\<open>The theories, in the order they build on each other.\<close>

  \<^item> Language and library: \<open>GoText\<close> (UTF-8, \<open>strings\<close>), \<open>GoEncoding\<close> (decimals, base64),
    \<open>GoJson\<close> (strict decoding and encoding of raw JSON), \<open>GoDuration\<close>, \<open>Sorting\<close>.  They hold the round
    trips the modules use.
  \<^item> Shared packages (\<open>internal/shared\<close>): \<open>Errors\<close>, \<open>Shared\<close>.
  \<^item> Users (\<open>internal/modules/user\<close>): \<open>UserModel\<close> and \<open>Passwords\<close> (policy, Argon2id parameters, PHC
    text), \<open>UserSql\<close> (the table with its constraints and the statements of
    \<open>db/generated/users.sql.go\<close>), \<open>Driver\<close> (pgx connections and transactions), \<open>UserContract\<close> (the
    locales of repository and unit of work), \<open>UserRepo\<close> (the adapter, which interprets them),
    \<open>UserService\<close>, and \<open>UserModule\<close> with the properties: the last superuser stays, passwords change
    only with the old one, digests verify, a far page overflows.
  \<^item> Authentication (\<open>internal/modules/auth\<close>): \<open>AuthModel\<close>, \<open>Tokens\<close> (Ed25519 access tokens),
    \<open>RedisModel\<close> (the commands on a keyspace with deadlines), \<open>SessionStore\<close> (with \<open>rotate.lua\<close> statement
    by statement), \<open>SessionSpec\<close> (its invariant and the effect of each operation, also when a command
    fails or its answer is lost), \<open>AuthContract\<close> (the locales of session store, accounts and limiter),
    \<open>SessionProvider\<close> (their interpretation), \<open>AuthService\<close>, \<open>AuthSpec\<close> (the service over any lawful
    providers), \<open>AuthModule\<close> and \<open>AuthTheorems\<close>: what an accepted token proves, that a refresh token
    works once, what revocations leave.
  \<^item> Files (\<open>internal/modules/file\<close>): \<open>FileModel\<close> (keys and service), \<open>LocalStore\<close> (the directory, where
    every system call may fail before or after taking effect), \<open>LocalSpec\<close>, \<open>FileModule\<close>.
  \<^item> Dynamic configuration (\<open>internal/modules/systemconfig\<close>): \<open>ConfigModel\<close>, \<open>ConfigSql\<close>,
    \<open>ConfigService\<close> (with its locales), \<open>ConfigRepo\<close>, \<open>ConfigCache\<close>, \<open>ConfigSpec\<close>, \<open>ConfigModule\<close>: normal
    form of values, the invariant of the table, coherence of the cached public list.
  \<^item> Start-up configuration (\<open>internal/platform/config/config.go\<close>): \<open>ConfigTypes\<close>, \<open>ConfigLoad\<close> (layers,
    environment, secrets, checks), \<open>ConfigOverlay\<close> (the field-by-field reference), \<open>StartupModule\<close>.
  \<^item> HTTP: \<open>HttpTypes\<close>, \<open>HttpErrors\<close>, \<open>HttpApi\<close> (every handler), \<open>HttpGateway\<close> (generated wrappers and
    route table, router, middleware), \<open>HttpTheorems\<close> and \<open>GatewayTheorems\<close>: guards of the endpoints,
    error responses, headers, disabled modules; \<open>HttpServer\<close>: \<open>Run\<close> refines a protocol given as an
    inductive step relation.
  \<^item> Application (\<open>internal/app\<close>, \<open>internal/platform\<close>): \<open>Lifecycle\<close> (health and the start and stop
    protocol, an inductive step relation), \<open>DatabasePlatform\<close> and \<open>DatabaseTheorems\<close> (pool, inspection,
    migration under its lock), \<open>Assembly\<close> (\<open>Build\<close>, \<open>CreateAdmin\<close>, \<open>Diagnose\<close> over a \<open>platform\<close> of
    libraries), \<open>AssemblyTheorems\<close> (what \<open>Build\<close> wires meets the hypotheses of the properties of the
    modules), \<open>Diagnostics\<close>.
  \<^item> Logging (\<open>internal/platform/logging\<close>): \<open>Logging\<close>, \<open>LoggingTheorems\<close>: redaction as
    noninterference, its budgets, and that no sensitive key is logged in clear.
  \<^item> Command line (\<open>internal/cli\<close>, \<open>cmd/goba\<close>, \<open>internal/version\<close>): \<open>Cli\<close>, \<open>CliTheorems\<close>: what \<open>doctor\<close>'s
    exit status means, that \<open>config print\<close> shows no secret, that no administrator is created without a
    confirmed password.  Developer tool (\<open>tools/devtool\<close>): \<open>Devtool\<close>, \<open>DevtoolTheorems\<close>: no file is
    overwritten, and the loaders read what \<open>setup\<close> writes.

  \<^bold>\<open>What is a parameter.\<close>  Code that is not in the repository enters as an argument with laws
  that state its documentation: the Unicode tables (\<open>unicode_laws\<close>), UUIDs (\<open>uuid_laws\<close>), mail and URL
  parsers, Argon2id and the random source (\<open>argon2_laws\<close>, \<open>rand_laws\<close>), the JWT, PEM and X.509
  libraries with SHA-256 (\<open>jwt_laws\<close>), the pgx connection and transaction (\<open>database_laws\<close>), the pgx
  pool and the tern migrator (\<open>pgx_laws\<close>, \<open>tern_laws\<close>), PostgreSQL's \<open>lower\<close>, \<open>ILIKE\<close>, \<open>jsonb\<close> and
  collation, the Redis client (\<open>redis_laws\<close>: a command takes effect, or fails with or without taking
  effect), the script engine, Gin with the OpenAPI validator and parameter binding (\<open>gin_lib\<close>), the
  listener and \<open>http.Server\<close> (\<open>net_lib\<close>), the YAML libraries (\<open>yaml_laws\<close>), the content sniffer,
  cobra, the terminal, the encoders of keys, git, and the rounding of fractions in \<open>time.ParseDuration\<close>.  Every law has an
  instance in memory on which the witnesses run.

  \<^bold>\<open>Bounds and termination.\<close>  The recursions over data are structural or have a measure.  Fuel
  occurs where Go itself counts: JSON values nest at most 10000 deep as in \<open>encoding/json\<close>, the reader
  that skips a value of \<open>n\<close> bytes has fuel \<open>2 n + 2\<close> and every step consumes a byte or a level, and
  \<open>slog\<close> resolves a \<open>LogValuer\<close> 100 times.  The redaction follows pointers through a heap that may be
  cyclic; it ends because it stops at depth 32 of its own, and the limit of 1024 nodes is proved to
  bound what it logs.

  \<^bold>\<open>Not modelled, and why.\<close>  Deadlines of contexts and request timeouts: an operation either
  returns or fails, when it does so is not part of the model.  Concurrency inside one process: the
  mutexes of the components and of the local store, and requests interleaved within a handler; the
  interleaving that matters for the data is that of statements, Redis commands and system calls, which
  are atomic in their laws.  The access log middleware, which only reads the finished response; writing
  a log record, which is the standard handler's; the JSON text of \<open>config print\<close>.  Panics appear
  where the handlers can reach one, as the answer of the recovery middleware.  The embedded OpenAPI
  document and its loading, the enumeration predicates nobody calls and the client-side types of
  \<open>openapi.gen.go\<close>; the interface declarations \<open>db/generated/db.go\<close> and \<open>querier.go\<close>; and the
  embedded migration files, of which only their number matters.
\<close>

end
